(* ===== verification/Prelude.thy ===== *)
theory Prelude
  imports Main "HOL-Library.Sublist" "HOL-Library.Multiset"
begin

section \<open>Shared vocabulary of the development\<close>

text \<open>
  What every component shares: the collections of hints the component proofs draw on,
  the types that stand for Go's, association lists for Go maps, Go's integer division and
  64-bit wrap-around, and lemmas on lists and options used in several theories.

  Conventions. A Go string is a list of bytes (\<open>char list\<close>). A Go \<open>int\<close> is an \<open>int\<close>;
  where a sum or product may leave 64 bits the wrap-around is written out (\<open>wrap64\<close>).
  A Go map is an association list with distinct keys; its order is the order in which a
  \<open>range\<close> over the map visits it, which the runtime is free to choose, so a function
  that ranges over a map is deterministic only if its value is the same for every
  permutation of the list. A nil pointer is \<open>None\<close>.
\<close>

named_theorems go_simps \<open>equations of the Go library operations on concrete shapes\<close>
named_theorems frame_simps \<open>what an operation leaves unchanged\<close>
named_theorems det_intros \<open>independence from the order of a list\<close>

type_synonym ('k, 'v) gomap = "('k \<times> 'v) list"
type_synonym meta = "(string, string) gomap"
type_synonym time = int

subsection \<open>Maps\<close>

text \<open>Reading a \<open>map[string]string\<close>: a missing key gives the empty string.\<close>

definition meta_get :: "meta \<Rightarrow> string \<Rightarrow> string" where
  "meta_get m k = (case map_of m k of None \<Rightarrow> [] | Some v \<Rightarrow> v)"

lemma meta_get_Nil [simp, go_simps]: "meta_get [] k = []"
  by (simp add: meta_get_def)

lemma meta_get_Cons [simp, go_simps]:
  "meta_get ((k', v) # m) k = (if k = k' then v else meta_get m k)"
  by (simp add: meta_get_def)

text \<open>Writing \<open>m[k] = v\<close>.\<close>

fun map_put :: "('k, 'v) gomap \<Rightarrow> 'k \<Rightarrow> 'v \<Rightarrow> ('k, 'v) gomap" where
  "map_put [] k v = [(k, v)]"
| "map_put ((k', v') # m) k v = (if k = k' then (k, v) # m else (k', v') # map_put m k v)"

lemma map_of_map_put [simp]: "map_of (map_put m k v) = (map_of m)(k \<mapsto> v)"
  by (induction m k v rule: map_put.induct) (auto simp: fun_eq_iff)

lemma set_keys_map_put: "fst ` set (map_put m k v) = insert k (fst ` set m)"
  by (induction m k v rule: map_put.induct) auto

lemma distinct_map_put: "distinct (map fst m) \<Longrightarrow> distinct (map fst (map_put m k v))"
  by (induction m k v rule: map_put.induct) (auto simp: set_keys_map_put image_iff)

lemma map_of_perm:
  assumes "mset m = mset m'" and "distinct (map fst m)"
  shows "map_of m = map_of m'"
proof -
  from assms have "distinct (map fst m')"
    by (metis mset_eq_imp_distinct_iff mset_map)
  moreover from assms(1) have "set m = set m'" by (rule mset_eq_setD)
  ultimately show ?thesis using assms(2) by (simp add: map_of_inject_set)
qed

subsection \<open>Integers\<close>

text \<open>Go's \<open>/\<close> on integers truncates towards zero.\<close>

definition go_div :: "int \<Rightarrow> int \<Rightarrow> int" where
  "go_div a b = sgn a * sgn b * (\<bar>a\<bar> div \<bar>b\<bar>)"

lemma go_div_nonneg: "0 \<le> a \<Longrightarrow> 0 < b \<Longrightarrow> go_div a b = a div b"
  by (cases "a = 0") (simp_all add: go_div_def)

text \<open>Two's complement wrap-around of a 64-bit \<open>int\<close>.\<close>

definition wrap64 :: "int \<Rightarrow> int" where
  "wrap64 x = (x + 2 ^ 63) mod 2 ^ 64 - 2 ^ 63"

lemma wrap64_id: "- (2 ^ 63) \<le> x \<Longrightarrow> x < 2 ^ 63 \<Longrightarrow> wrap64 x = x"
  by (simp add: wrap64_def)

lemma wrap64_range: "- (2 ^ 63) \<le> wrap64 x \<and> wrap64 x < 2 ^ 63"
  unfolding wrap64_def
  using pos_mod_bound [of "2 ^ 64" "x + 2 ^ 63"] pos_mod_sign [of "2 ^ 64" "x + 2 ^ 63"]
  by simp

subsection \<open>Lists\<close>

text \<open>Keeping the first occurrence of each key: the \<open>seen\<close> idiom of the source.\<close>

fun dedup_by :: "('a \<Rightarrow> 'k) \<Rightarrow> 'k set \<Rightarrow> 'a list \<Rightarrow> 'a list" where
  "dedup_by f S [] = []"
| "dedup_by f S (x # xs) =
     (if f x \<in> S then dedup_by f S xs else x # dedup_by f (insert (f x) S) xs)"

lemma set_dedup_by_subset: "set (dedup_by f S xs) \<subseteq> set xs"
  by (induction f S xs rule: dedup_by.induct) auto

lemma keys_dedup_by: "f ` set (dedup_by f S xs) = f ` set xs - S"
  by (induction f S xs rule: dedup_by.induct) auto

lemma distinct_dedup_by: "distinct (map f (dedup_by f S xs))"
proof (induction f S xs rule: dedup_by.induct)
  case (2 f S x xs)
  have "f x \<notin> f ` set (dedup_by f (insert (f x) S) xs)"
    by (simp add: keys_dedup_by)
  with 2 show ?case by auto
qed simp

lemma dedup_by_distinct_id:
  "distinct (map f xs) \<Longrightarrow> f ` set xs \<inter> S = {} \<Longrightarrow> dedup_by f S xs = xs"
  by (induction xs arbitrary: S) auto

text \<open>The first element that satisfies a test (a loop with an early return).\<close>

lemma find_Some_iff2: "find P xs = Some x \<Longrightarrow> x \<in> set xs \<and> P x"
  by (auto simp: find_Some_iff)

lemma find_None_list_ex: "(find P xs = None) = (\<not> list_ex P xs)"
  by (auto simp: find_None_iff list_ex_iff)

lemma list_ex_mset [det_intros]: "mset xs = mset ys \<Longrightarrow> list_ex P xs = list_ex P ys"
  by (simp add: list_ex_iff mset_eq_setD [of xs ys])

lemma list_ex_set: "set xs = set ys \<Longrightarrow> list_ex P xs = list_ex P ys"
  by (simp add: list_ex_iff)

lemma list_all_set: "set xs = set ys \<Longrightarrow> list_all P xs = list_all P ys"
  by (simp add: list_all_iff)

lemma filter_filter_idem [simp]: "filter P (filter P xs) = filter P xs"
  by (induction xs) auto

end
