(* ===== verification/GoStrings.thy ===== *)
theory GoStrings
  imports Prelude
begin

section \<open>Go's string library, as far as the program uses it\<close>

text \<open>
  Strings are byte lists. The functions of the packages \<open>strings\<close>, \<open>strconv\<close>, \<open>unicode\<close>
  and \<open>unicode/utf8\<close> that the program calls are defined here on bytes and runes: UTF-8
  decoding (with \<open>U+FFFD\<close>, width 1, for an invalid byte), \<open>ToLower\<close>, \<open>EqualFold\<close>,
  \<open>TrimSpace\<close>, \<open>Split\<close>, \<open>Fields\<close>, \<open>Itoa\<close>, \<open>Atoi\<close>. They are exact for every byte list.

  The tables of the Unicode Character Database are data, not code: they are the fields of
  the record \<open>go_env\<close>, consulted only for runes of 128 and above, and every theorem holds
  for any such tables. The same record carries the two external functions the modelled
  components call: \<open>publicsuffix.EffectiveTLDPlusOne\<close> (a third-party package) and the
  syntax check of a bracketed IPv6 literal.
\<close>

record go_env =
  lower_table :: "nat \<Rightarrow> nat"
  upper_table :: "nat \<Rightarrow> nat"
  fold_table :: "nat \<Rightarrow> nat"
  letter_table :: "nat \<Rightarrow> bool"
  digit_table :: "nat \<Rightarrow> bool"
  etld_plus_one :: "string \<Rightarrow> string option"
  ip6_literal_ok :: "string \<Rightarrow> bool"

text \<open>A concrete environment for examples: no non-ASCII rune is cased or alphanumeric.\<close>

definition ascii_env :: go_env where
  "ascii_env = \<lparr>lower_table = id, upper_table = id, fold_table = id,
     letter_table = (\<lambda>_. False), digit_table = (\<lambda>_. False),
     etld_plus_one = (\<lambda>_. None), ip6_literal_ok = (\<lambda>_. True)\<rparr>"

lemma ascii_env_sel [simp]:
  "lower_table ascii_env = id" "upper_table ascii_env = id" "fold_table ascii_env = id"
  "letter_table ascii_env r = False" "digit_table ascii_env r = False"
  "etld_plus_one ascii_env s = None" "ip6_literal_ok ascii_env s = True"
  by (simp_all add: ascii_env_def)

subsection \<open>UTF-8\<close>

definition in_range :: "nat \<Rightarrow> nat \<Rightarrow> nat \<Rightarrow> bool" where
  "in_range lo hi b \<longleftrightarrow> lo \<le> b \<and> b \<le> hi"

definition rune_error :: nat where "rune_error = 65533"

text \<open>\<open>utf8.DecodeRune\<close>: the first rune and its width; the second byte's range depends on
  the first, so that surrogates, overlong forms and runes beyond \<open>U+10FFFF\<close> are invalid.\<close>

fun second_range :: "nat \<Rightarrow> nat \<times> nat" where
  "second_range b0 =
     (if b0 = 224 then (160, 191) else if b0 = 237 then (128, 159)
      else if b0 = 240 then (144, 191) else if b0 = 244 then (128, 143) else (128, 191))"

fun decode_rune :: "nat list \<Rightarrow> nat \<times> nat" where
  "decode_rune [] = (rune_error, 0)"
| "decode_rune (b0 # bs) =
     (if b0 < 128 then (b0, 1)
      else let (lo, hi) = second_range b0 in
        if in_range 194 223 b0 then
          (case bs of
             b1 # _ \<Rightarrow> if in_range lo hi b1 then ((b0 - 192) * 64 + (b1 - 128), 2) else (rune_error, 1)
           | _ \<Rightarrow> (rune_error, 1))
        else if in_range 224 239 b0 then
          (case bs of
             b1 # b2 # _ \<Rightarrow>
               if in_range lo hi b1 \<and> in_range 128 191 b2
               then ((b0 - 224) * 4096 + (b1 - 128) * 64 + (b2 - 128), 3) else (rune_error, 1)
           | _ \<Rightarrow> (rune_error, 1))
        else if in_range 240 244 b0 then
          (case bs of
             b1 # b2 # b3 # _ \<Rightarrow>
               if in_range lo hi b1 \<and> in_range 128 191 b2 \<and> in_range 128 191 b3
               then ((b0 - 240) * 262144 + (b1 - 128) * 4096 + (b2 - 128) * 64 + (b3 - 128), 4)
               else (rune_error, 1)
           | _ \<Rightarrow> (rune_error, 1))
        else (rune_error, 1))"

declare second_range.simps [simp del] decode_rune.simps(2) [simp del]

lemma decode_rune_ascii [simp]: "b0 < 128 \<Longrightarrow> decode_rune (b0 # bs) = (b0, 1)"
  by (simp add: decode_rune.simps(2))

lemma second_range_low:
  "second_range b0 = (lo, hi) \<Longrightarrow> 128 \<le> lo \<and> (b0 = 224 \<longrightarrow> 160 \<le> lo) \<and> (b0 = 240 \<longrightarrow> 144 \<le> lo)"
  by (auto simp: second_range.simps split: if_splits)

text \<open>A byte of 128 and above never decodes to an ASCII rune.\<close>

lemma two_byte_high: "194 \<le> (b0 :: nat) \<Longrightarrow> 128 \<le> (b0 - 192) * 64 + (b1 - 128)"
  by arith

lemma three_byte_high:
  assumes "224 \<le> (b0 :: nat)" and "b0 = 224 \<longrightarrow> 160 \<le> (b1 :: nat)"
  shows "128 \<le> (b0 - 224) * 4096 + (b1 - 128) * 64 + (b2 - 128)"
  using assms by (cases "b0 = 224") auto

lemma four_byte_high:
  assumes "240 \<le> (b0 :: nat)" and "b0 = 240 \<longrightarrow> 144 \<le> (b1 :: nat)"
  shows "128 \<le> (b0 - 240) * 262144 + (b1 - 128) * 4096 + (b2 - 128) * 64 + (b3 - 128)"
    and "128 \<le> b3 \<Longrightarrow> 128 \<le> (b0 - 240) * 262144 + (b1 - 128) * 4096 + (b2 - 128) * 64 + b3 - 128"
  using assms by (cases "b0 = 240", auto)+

lemma decode_rune_high:
  assumes "128 \<le> b0"
  shows "128 \<le> fst (decode_rune (b0 # bs))"
proof -
  obtain lo hi where lo: "second_range b0 = (lo, hi)" by (cases "second_range b0") auto
  from second_range_low [OF this] have
    "\<And>b1. in_range lo hi b1 \<Longrightarrow> (b0 = 224 \<longrightarrow> 160 \<le> b1) \<and> (b0 = 240 \<longrightarrow> 144 \<le> b1)"
    by (auto simp: in_range_def)
  moreover have "in_range a b c \<Longrightarrow> a \<le> c" for a b c by (simp add: in_range_def)
  ultimately show ?thesis using assms lo
    by (simp add: decode_rune.simps(2) rune_error_def two_byte_high three_byte_high four_byte_high
        split: list.split)
qed

definition encode_rune :: "nat \<Rightarrow> string" where
  "encode_rune r = map char_of
     (if r < 128 then [r]
      else if r < 2048 then [192 + r div 64, 128 + r mod 64]
      else if r > 1114111 \<or> in_range 55296 57343 r then [239, 191, 189]
      else if r < 65536 then [224 + r div 4096, 128 + r div 64 mod 64, 128 + r mod 64]
      else [240 + r div 262144, 128 + r div 4096 mod 64, 128 + r div 64 mod 64, 128 + r mod 64])"

text \<open>A string as the runes a \<open>for range\<close> loop visits, each with the bytes it came from.\<close>

function rune_chunks :: "string \<Rightarrow> (nat \<times> string) list" where
  "rune_chunks [] = []"
| "rune_chunks (c # cs) =
     (let (r, w) = decode_rune (map of_char (c # cs))
      in (r, c # take (w - 1) cs) # rune_chunks (drop (w - 1) cs))"
  by pat_completeness auto
termination by (relation "measure length") auto

declare rune_chunks.simps(2) [simp del]

definition go_runes :: "string \<Rightarrow> nat list" where
  "go_runes s = map fst (rune_chunks s)"

lemma rune_chunks_bytes: "concat (map snd (rune_chunks s)) = s"
proof (induction s rule: rune_chunks.induct)
  case (2 c cs)
  obtain r w where d: "decode_rune (map of_char (c # cs)) = (r, w)"
    by (cases "decode_rune (map of_char (c # cs))") auto
  with 2 have "concat (map snd (rune_chunks (drop (w - 1) cs))) = drop (w - 1) cs"
    by simp
  with d show ?case by (simp only: rune_chunks.simps(2)) simp
qed simp

lemma go_runes_Cons:
  "go_runes (c # cs) =
     (let (r, w) = decode_rune (of_char c # map of_char cs) in r # go_runes (drop (w - 1) cs))"
  by (simp add: go_runes_def rune_chunks.simps(2) split: prod.split)

definition is_ascii :: "string \<Rightarrow> bool" where
  "is_ascii s \<longleftrightarrow> list_all (\<lambda>c. of_char c < (128 :: nat)) s"

lemma is_ascii_Nil [simp]: "is_ascii []" by (simp add: is_ascii_def)

lemma is_ascii_Cons [simp]: "is_ascii (c # s) \<longleftrightarrow> of_char c < (128 :: nat) \<and> is_ascii s"
  by (simp add: is_ascii_def)

lemma is_ascii_append [simp]: "is_ascii (s @ t) \<longleftrightarrow> is_ascii s \<and> is_ascii t"
  by (simp add: is_ascii_def)

lemma is_ascii_set: "is_ascii s \<Longrightarrow> set t \<subseteq> set s \<Longrightarrow> is_ascii t"
  by (auto simp: is_ascii_def list_all_iff)

lemma rune_chunks_ascii: "is_ascii s \<Longrightarrow> rune_chunks s = map (\<lambda>c. (of_char c, [c])) s"
  by (induction s) (auto simp: rune_chunks.simps(2))

lemma go_runes_ascii: "is_ascii s \<Longrightarrow> go_runes s = map of_char s"
  by (simp add: go_runes_def rune_chunks_ascii)

text \<open>\<open>strings.Map\<close>: a rune mapped to a negative value (\<open>None\<close>) is dropped.\<close>

definition go_map :: "(nat \<Rightarrow> nat option) \<Rightarrow> string \<Rightarrow> string" where
  "go_map f s = concat (map encode_rune (List.map_filter f (go_runes s)))"

subsection \<open>Case\<close>

definition lower_rune :: "go_env \<Rightarrow> nat \<Rightarrow> nat" where
  "lower_rune G r = (if r < 128 then (if in_range 65 90 r then r + 32 else r) else lower_table G r)"

definition upper_rune :: "go_env \<Rightarrow> nat \<Rightarrow> nat" where
  "upper_rune G r = (if r < 128 then (if in_range 97 122 r then r - 32 else r) else upper_table G r)"

definition fold_rune :: "go_env \<Rightarrow> nat \<Rightarrow> nat" where
  "fold_rune G r = (if r < 128 then (if in_range 65 90 r then r + 32 else r) else fold_table G r)"

definition is_letter :: "go_env \<Rightarrow> nat \<Rightarrow> bool" where
  "is_letter G r = (if r < 128 then in_range 65 90 r \<or> in_range 97 122 r else letter_table G r)"

definition is_digit :: "go_env \<Rightarrow> nat \<Rightarrow> bool" where
  "is_digit G r = (if r < 128 then in_range 48 57 r else digit_table G r)"

text \<open>\<open>strings.ToLower\<close>, \<open>strings.ToUpper\<close> and \<open>strings.EqualFold\<close>.\<close>

definition to_lower :: "go_env \<Rightarrow> string \<Rightarrow> string" where
  "to_lower G s = go_map (\<lambda>r. Some (lower_rune G r)) s"

definition to_upper :: "go_env \<Rightarrow> string \<Rightarrow> string" where
  "to_upper G s = go_map (\<lambda>r. Some (upper_rune G r)) s"

definition equal_fold :: "go_env \<Rightarrow> string \<Rightarrow> string \<Rightarrow> bool" where
  "equal_fold G s t \<longleftrightarrow> map (fold_rune G) (go_runes s) = map (fold_rune G) (go_runes t)"

definition lower_char :: "char \<Rightarrow> char" where
  "lower_char c = (if in_range 65 90 (of_char c) then char_of (of_char c + 32 :: nat) else c)"

definition upper_char :: "char \<Rightarrow> char" where
  "upper_char c = (if in_range 97 122 (of_char c) then char_of (of_char c - 32 :: nat) else c)"

lemma encode_rune_ascii: "r < 128 \<Longrightarrow> encode_rune r = [char_of r]"
  by (simp add: encode_rune_def)

lemma to_lower_ascii: "is_ascii s \<Longrightarrow> to_lower G s = map lower_char s"
  unfolding to_lower_def go_map_def
  by (induction s)
    (auto simp: go_runes_ascii map_filter_simps encode_rune_ascii lower_rune_def lower_char_def in_range_def)

lemma to_upper_ascii: "is_ascii s \<Longrightarrow> to_upper G s = map upper_char s"
  unfolding to_upper_def go_map_def
  by (induction s)
    (auto simp: go_runes_ascii map_filter_simps encode_rune_ascii upper_rune_def upper_char_def in_range_def)

lemma of_char_lower_char: "(of_char (lower_char c) :: nat) =
    (if in_range 65 90 (of_char c) then of_char c + 32 else of_char c)"
  by (auto simp: lower_char_def in_range_def)

lemma equal_fold_refl [simp]: "equal_fold G s s"
  by (simp add: equal_fold_def)

lemma equal_fold_sym: "equal_fold G s t \<Longrightarrow> equal_fold G t s"
  by (simp add: equal_fold_def)

lemma equal_fold_trans: "equal_fold G s t \<Longrightarrow> equal_fold G t u \<Longrightarrow> equal_fold G s u"
  by (simp add: equal_fold_def)

lemma lower_char_idem [simp]: "lower_char (lower_char c) = lower_char c"
  by (auto simp: lower_char_def in_range_def)

lemma lower_char_id: "\<not> in_range 65 90 (of_char c) \<Longrightarrow> lower_char c = c"
  by (simp add: lower_char_def)

subsection \<open>White space\<close>

definition is_space :: "nat \<Rightarrow> bool" where
  "is_space r \<longleftrightarrow> r \<in> {9, 10, 11, 12, 13, 32, 133, 160, 5760, 8232, 8233, 8239, 8287, 12288}
     \<or> in_range 8192 8202 r"

text \<open>\<open>strings.TrimFunc\<close> and \<open>strings.TrimSpace\<close>.\<close>

definition trim_func :: "(nat \<Rightarrow> bool) \<Rightarrow> string \<Rightarrow> string" where
  "trim_func p s =
     (let left = dropWhile (\<lambda>(r, _). p r) (rune_chunks s)
      in concat (map snd (rev (dropWhile (\<lambda>(r, _). p r) (rev left)))))"

definition trim_space :: "string \<Rightarrow> string" where
  "trim_space s = trim_func is_space s"

text \<open>\<open>strings.FieldsFunc\<close> and \<open>strings.Fields\<close>: the maximal runs of other runes.\<close>

fun fields_chunks :: "(nat \<Rightarrow> bool) \<Rightarrow> string \<Rightarrow> (nat \<times> string) list \<Rightarrow> string list" where
  "fields_chunks p acc [] = (if acc = [] then [] else [acc])"
| "fields_chunks p acc ((r, bs) # cs) =
     (if p r then (if acc = [] then fields_chunks p [] cs else acc # fields_chunks p [] cs)
      else fields_chunks p (acc @ bs) cs)"

definition fields_func :: "(nat \<Rightarrow> bool) \<Rightarrow> string \<Rightarrow> string list" where
  "fields_func p s = fields_chunks p [] (rune_chunks s)"

definition go_fields :: "string \<Rightarrow> string list" where
  "go_fields s = fields_func is_space s"

lemma trim_func_none:
  assumes "\<And>r. r \<in> set (go_runes s) \<Longrightarrow> \<not> p r"
  shows "trim_func p s = s"
proof -
  have d: "dropWhile (\<lambda>(r, _). p r) xs = xs" if "set xs \<subseteq> set (rune_chunks s)" for xs
    using that assms by (cases xs) (force simp: go_runes_def)+
  show ?thesis
    by (simp add: trim_func_def d rune_chunks_bytes)
qed

text \<open>Text that none of the normalising functions changes.\<close>

definition plain_char :: "char \<Rightarrow> bool" where
  "plain_char c \<longleftrightarrow> of_char c < (128 :: nat) \<and> \<not> is_space (of_char c) \<and> \<not> in_range 65 90 (of_char c)"

lemma plain_ascii: "list_all plain_char s \<Longrightarrow> is_ascii s"
  by (auto simp: is_ascii_def plain_char_def list_all_iff)

lemma trim_space_plain: "list_all plain_char s \<Longrightarrow> trim_space s = s"
  unfolding trim_space_def
  by (rule trim_func_none) (auto simp: go_runes_ascii plain_ascii plain_char_def list_all_iff)

lemma to_lower_plain: "list_all plain_char s \<Longrightarrow> to_lower G s = s"
  by (simp add: to_lower_ascii plain_ascii)
    (auto intro!: map_idI lower_char_id simp: plain_char_def list_all_iff)

lemma fields_chunks_one:
  "\<forall>(r, bs) \<in> set cs. \<not> p r \<Longrightarrow>
   fields_chunks p acc cs = (let w = acc @ concat (map snd cs) in if w = [] then [] else [w])"
  by (induction cs arbitrary: acc) (fastforce simp: Let_def)+

text \<open>ASCII text without separators is one field.\<close>

lemma fields_func_one:
  assumes "is_ascii s" and "list_all (\<lambda>c. \<not> p (of_char c)) s" and "s \<noteq> []"
  shows "fields_func p s = [s]"
proof -
  have "concat (map snd (rune_chunks s)) = s" by (rule rune_chunks_bytes)
  moreover have "\<forall>(r, bs) \<in> set (rune_chunks s). \<not> p r"
    using assms(1,2) by (auto simp: rune_chunks_ascii list_all_iff)
  ultimately show ?thesis
    using assms(3) by (simp add: fields_func_def fields_chunks_one Let_def)
qed

lemma go_fields_plain: "list_all plain_char s \<Longrightarrow> s \<noteq> [] \<Longrightarrow> go_fields s = [s]"
  unfolding go_fields_def
  by (rule fields_func_one) (auto simp: plain_ascii plain_char_def list_all_iff)

subsection \<open>Substrings\<close>

text \<open>\<open>strings.Contains\<close>.\<close>

fun contains_str :: "string \<Rightarrow> string \<Rightarrow> bool" where
  "contains_str [] sub = (sub = [])"
| "contains_str (c # cs) sub = (prefix sub (c # cs) \<or> contains_str cs sub)"

lemma contains_str_iff: "contains_str s sub \<longleftrightarrow> sublist sub s"
  by (induction s) (auto simp: sublist_Cons_right)

text \<open>\<open>strings.TrimPrefix\<close>, \<open>strings.TrimSuffix\<close>.\<close>

definition trim_prefix :: "string \<Rightarrow> string \<Rightarrow> string" where
  "trim_prefix s p = (if prefix p s then drop (length p) s else s)"

definition trim_suffix :: "string \<Rightarrow> string \<Rightarrow> string" where
  "trim_suffix s p = (if suffix p s then take (length s - length p) s else s)"

text \<open>\<open>strings.Split\<close> with a one-byte separator, and \<open>strings.Join\<close>.\<close>

fun split_on :: "char \<Rightarrow> string \<Rightarrow> string list" where
  "split_on d [] = [[]]"
| "split_on d (c # cs) =
     (if c = d then [] # split_on d cs
      else (case split_on d cs of [] \<Rightarrow> [[c]] | w # ws \<Rightarrow> (c # w) # ws))"

fun join_with :: "string \<Rightarrow> string list \<Rightarrow> string" where
  "join_with sep [] = []"
| "join_with sep [w] = w"
| "join_with sep (w # ws) = w @ sep @ join_with sep ws"

text \<open>\<open>strings.Count\<close> of a byte, \<open>strings.Cut\<close> at a byte.\<close>

definition count_char :: "string \<Rightarrow> char \<Rightarrow> nat" where
  "count_char s c = length (filter (\<lambda>x. x = c) s)"

definition cut_at :: "char \<Rightarrow> string \<Rightarrow> string \<times> string \<times> bool" where
  "cut_at d s = (let a = takeWhile (\<lambda>c. c \<noteq> d) s
     in if d \<in> set s then (a, drop (Suc (length a)) s, True) else (s, [], False))"

lemma split_on_not_Nil [simp]: "split_on d s \<noteq> []"
  by (cases s) (auto split: list.split)

lemma split_on_append: "split_on d (s @ d # t) = split_on d s @ split_on d t"
  by (induction s) (auto split: list.splits)

lemma split_on_no_sep: "d \<notin> set w \<Longrightarrow> split_on d w = [w]"
  by (induction w) auto

lemma split_on_parts: "w \<in> set (split_on d s) \<Longrightarrow> d \<notin> set w"
  by (induction s arbitrary: w) (auto split: list.splits if_splits)

lemma set_split_on: "w \<in> set (split_on d s) \<Longrightarrow> set w \<subseteq> set s"
proof (induction s arbitrary: w)
  case (Cons c s)
  then show ?case
    by (cases "split_on d s") (auto split: if_splits, blast+)
qed simp

lemma join_split: "join_with [d] (split_on d s) = s"
proof (induction s)
  case (Cons c s)
  show ?case
  proof (cases "split_on d s")
    case (Cons w ws)
    with Cons.IH show ?thesis by (cases ws) auto
  qed simp
qed simp

lemma split_on_inj: "split_on d s = split_on d t \<Longrightarrow> s = t"
  by (metis join_split)

lemma set_join_split: "(\<forall>w \<in> set (split_on d s). set w \<subseteq> A) \<Longrightarrow> set s \<subseteq> insert d A"
proof (induction s)
  case (Cons c s)
  then show ?case by (cases "split_on d s") (auto split: if_splits)
qed simp

text \<open>A dotted suffix is a suffix of the list of labels: \<open>HasSuffix(s, "." + t)\<close> respects
  label boundaries.\<close>

lemma split_on_suffix:
  "(s = t \<or> suffix (d # t) s) \<longleftrightarrow> suffix (split_on d t) (split_on d s)"
proof
  assume "s = t \<or> suffix (d # t) s"
  then show "suffix (split_on d t) (split_on d s)"
    by (auto simp: suffix_def split_on_append)
next
  show "suffix (split_on d t) (split_on d s) \<Longrightarrow> s = t \<or> suffix (d # t) s"
  proof (induction s)
    case Nil
    then show ?case by (cases t) (auto simp: suffix_Cons split: if_splits list.splits)
  next
    case (Cons c s)
    show ?case
    proof (cases "c = d")
      case True
      with Cons.prems consider "split_on d t = [] # split_on d s"
        | "suffix (split_on d t) (split_on d s)" by (auto simp: suffix_Cons)
      then show ?thesis
      proof cases
        case 1
        with True have "split_on d t = split_on d (c # s)" by simp
        from split_on_inj [OF this] show ?thesis by simp
      next
        case 2
        with Cons.IH True show ?thesis by (auto simp: suffix_Cons)
      qed
    next
      case False
      obtain w ws where sp: "split_on d s = w # ws"
        by (cases "split_on d s") auto
      with False Cons.prems consider "split_on d t = split_on d (c # s)" | "suffix (split_on d t) ws"
        by (auto simp: suffix_Cons)
      then show ?thesis
      proof cases
        case 1
        from split_on_inj [OF this] show ?thesis by simp
      next
        case 2
        then have "suffix (split_on d t) (split_on d s)" by (simp add: sp suffix_Cons)
        moreover from 2 sp have "s \<noteq> t"
          by (auto dest: suffix_length_le)
        ultimately show ?thesis using Cons.IH by (auto simp: suffix_Cons)
      qed
    qed
  qed
qed

subsection \<open>Numbers as text\<close>

text \<open>\<open>strconv.Itoa\<close> and \<open>strconv.Atoi\<close> (64-bit).\<close>

fun nat_dec :: "nat \<Rightarrow> string" where
  "nat_dec n = (if n < 10 then [char_of (48 + n)] else nat_dec (n div 10) @ [char_of (48 + n mod 10)])"

declare nat_dec.simps [simp del]

definition itoa :: "int \<Rightarrow> string" where
  "itoa i = (if i < 0 then CHR ''-'' # nat_dec (nat (- i)) else nat_dec (nat i))"

definition digit_char :: "char \<Rightarrow> bool" where
  "digit_char c \<longleftrightarrow> in_range 48 57 (of_char c)"

definition nat_of_dec :: "string \<Rightarrow> nat" where
  "nat_of_dec s = foldl (\<lambda>n c. 10 * n + (of_char c - 48)) 0 s"

definition atoi :: "string \<Rightarrow> int option" where
  "atoi s =
     (let (neg, ds) = (case s of c # cs \<Rightarrow>
            if c = CHR ''-'' then (True, cs) else if c = CHR ''+'' then (False, cs) else (False, s)
          | [] \<Rightarrow> (False, []));
          v = (if neg then - int (nat_of_dec ds) else int (nat_of_dec ds))
      in if ds \<noteq> [] \<and> list_all digit_char ds \<and> - (2 ^ 63) \<le> v \<and> v < 2 ^ 63 then Some v else None)"

lemma nat_dec_digits: "list_all digit_char (nat_dec n)"
proof (induction n rule: nat_dec.induct)
  case (1 n)
  then show ?case
    by (auto simp: nat_dec.simps [of n] digit_char_def in_range_def)
qed

lemma nat_dec_not_Nil [simp]: "nat_dec n \<noteq> []"
  by (simp add: nat_dec.simps [of n])

lemma nat_of_dec_nat_dec: "nat_of_dec (nat_dec n) = n"
proof (induction n rule: nat_dec.induct)
  case (1 n)
  show ?case
  proof (cases "n < 10")
    case False
    with 1 show ?thesis
      by (simp add: nat_dec.simps [of n]) (simp add: nat_of_dec_def)
  qed (simp add: nat_dec.simps [of n] nat_of_dec_def)
qed

lemma nat_dec_inj: "nat_dec m = nat_dec n \<Longrightarrow> m = n"
  by (metis nat_of_dec_nat_dec)

lemma atoi_itoa:
  assumes "- (2 ^ 63) \<le> i" and "i < 2 ^ 63"
  shows "atoi (itoa i) = Some i"
proof (cases "i < 0")
  case True
  with assms show ?thesis
    by (simp add: atoi_def itoa_def nat_dec_digits nat_of_dec_nat_dec)
next
  case False
  obtain c cs where c: "nat_dec (nat i) = c # cs" by (cases "nat_dec (nat i)") auto
  from nat_dec_digits [of "nat i"] c have "c \<noteq> CHR ''-'' \<and> c \<noteq> CHR ''+''"
    by (auto simp: digit_char_def in_range_def)
  with False assms c nat_dec_digits [of "nat i"] nat_of_dec_nat_dec [of "nat i"] show ?thesis
    by (simp add: atoi_def itoa_def)
qed

end
