(* ===== verification/DomainUtil.thy ===== *)
theory DomainUtil
  imports GoStrings
begin

section \<open>Hostnames and provider patterns (internal/domainutil/hostname.go)\<close>

text \<open>
  Normalisation of hostnames and patterns, and the two matchers that bind an observed DNS
  name to a provider. \<open>valid_host\<close> is the specification of a normal form: the lemmas show
  that the normaliser returns exactly these names and that it leaves them unchanged, and that
  the matchers compare whole labels from the right, so that a name which only contains a
  provider's name never matches.
\<close>

datatype host_error =
    HostEmpty
  | HostTooLong
  | LabelEmpty
  | LabelTooLong string
  | LabelHyphen string
  | LabelBadChar string
  | BadProviderPattern
  | PatternEmptyLabel

subsection \<open>The code\<close>

definition host_rune_ok :: "nat \<Rightarrow> bool" where
  "host_rune_ok r \<longleftrightarrow> in_range 97 122 r \<or> in_range 48 57 r \<or> r = 45"

fun check_labels :: "string list \<Rightarrow> host_error option" where
  "check_labels [] = None"
| "check_labels (l # ls) =
     (if l = [] then Some LabelEmpty
      else if length l > 63 then Some (LabelTooLong l)
      else if hd l = CHR ''-'' \<or> last l = CHR ''-'' then Some (LabelHyphen l)
      else if list_ex (\<lambda>r. \<not> host_rune_ok r) (go_runes l) then Some (LabelBadChar l)
      else check_labels ls)"

definition normalize_hostname :: "go_env \<Rightarrow> string \<Rightarrow> host_error + string" where
  "normalize_hostname G value =
     (let hostname = trim_suffix (to_lower G (trim_space value)) ''.'' in
      if hostname = [] then Inl HostEmpty
      else if length hostname > 253 then Inl HostTooLong
      else case check_labels (split_on CHR ''.'' hostname) of
        Some e \<Rightarrow> Inl e
      | None \<Rightarrow> Inr hostname)"

definition normalize_dns_pattern :: "go_env \<Rightarrow> string \<Rightarrow> host_error + string" where
  "normalize_dns_pattern G value =
     (let pat = to_lower G (trim_space value) in
      if prefix ''*.'' pat then
        (case normalize_hostname G (trim_prefix pat ''*.'') of
           Inl e \<Rightarrow> Inl e
         | Inr suff \<Rightarrow> Inr (''*.'' @ suff))
      else normalize_hostname G pat)"

definition match_dns_name :: "go_env \<Rightarrow> string \<Rightarrow> string \<Rightarrow> bool" where
  "match_dns_name G target pat =
     (case normalize_hostname G target of
        Inl _ \<Rightarrow> False
      | Inr t \<Rightarrow>
        (case normalize_dns_pattern G pat of
           Inl _ \<Rightarrow> False
         | Inr p \<Rightarrow>
           (if prefix ''*.'' p then
              (let p' = trim_prefix p ''*.'' in
               if \<not> suffix (CHR ''.'' # p') t then False
               else length (split_on CHR ''.'' t) = length (split_on CHR ''.'' p') + 1)
            else t = p \<or> suffix (CHR ''.'' # p) t)))"

text \<open>\<open>strings.Trim(s, ".")\<close> and \<open>strings.Replace(s, "*", "wildcard", 1)\<close>.\<close>

definition trim_char :: "char \<Rightarrow> string \<Rightarrow> string" where
  "trim_char c s = rev (dropWhile (\<lambda>x. x = c) (rev (dropWhile (\<lambda>x. x = c) s)))"

fun replace_first :: "char \<Rightarrow> string \<Rightarrow> string \<Rightarrow> string" where
  "replace_first c w [] = []"
| "replace_first c w (x # xs) = (if x = c then w @ xs else x # replace_first c w xs)"

definition normalize_dns_provider_pattern :: "go_env \<Rightarrow> string \<Rightarrow> host_error + string" where
  "normalize_dns_provider_pattern G value =
     (let pat = to_lower G (trim_char CHR ''.'' (trim_space value)) in
      if pat = [] \<or> count_char pat CHR ''*'' > 1 then Inl BadProviderPattern
      else if \<not> contains_str pat ''*'' then normalize_hostname G pat
      else if contains_str pat ''..'' then Inl PatternEmptyLabel
      else case normalize_hostname G (replace_first CHR ''*'' ''wildcard'' pat) of
        Inl e \<Rightarrow> Inl e
      | Inr _ \<Rightarrow> Inr pat)"

text \<open>One label of the target against one label of the pattern (the loop body).\<close>

definition provider_label_match :: "string \<Rightarrow> string \<Rightarrow> bool" where
  "provider_label_match l p =
     (if count_char p CHR ''*'' > 1 then False
      else if \<not> contains_str p ''*'' then l = p
      else let (before, after, _) = cut_at CHR ''*'' p in
        if \<not> prefix before l \<or> \<not> suffix after l then False
        else trim_suffix (trim_prefix l before) after \<noteq> [])"

fun provider_labels_match :: "string list \<Rightarrow> string list \<Rightarrow> bool" where
  "provider_labels_match ls [] = True"
| "provider_labels_match [] (p # ps) = False"
| "provider_labels_match (l # ls) (p # ps) =
     (if provider_label_match l p then provider_labels_match ls ps else False)"

definition match_dns_provider_pattern :: "go_env \<Rightarrow> string \<Rightarrow> string \<Rightarrow> bool" where
  "match_dns_provider_pattern G target pat =
     (case normalize_hostname G target of
        Inl _ \<Rightarrow> False
      | Inr t \<Rightarrow>
        (case normalize_dns_provider_pattern G pat of
           Inl _ \<Rightarrow> False
         | Inr p \<Rightarrow>
           (if \<not> contains_str p ''*'' then match_dns_name G t p
            else
              (let tl = split_on CHR ''.'' t; pl = split_on CHR ''.'' p in
               if length tl < length pl then False
               else provider_labels_match (drop (length tl - length pl) tl) pl))))"

subsection \<open>Normal forms\<close>

definition host_char :: "char \<Rightarrow> bool" where
  "host_char c \<longleftrightarrow> host_rune_ok (of_char c)"

definition valid_label :: "string \<Rightarrow> bool" where
  "valid_label l \<longleftrightarrow> l \<noteq> [] \<and> length l \<le> 63 \<and> hd l \<noteq> CHR ''-'' \<and> last l \<noteq> CHR ''-'' \<and>
     list_all host_char l"

definition valid_host :: "string \<Rightarrow> bool" where
  "valid_host h \<longleftrightarrow> h \<noteq> [] \<and> length h \<le> 253 \<and> list_all valid_label (split_on CHR ''.'' h)"

lemma host_rune_ok_ascii: "host_rune_ok r \<Longrightarrow> r < 128"
  by (auto simp: host_rune_ok_def in_range_def)

lemma runes_ascii_imp: "\<forall>r \<in> set (go_runes s). r < 128 \<Longrightarrow> is_ascii s"
proof (induction s)
  case (Cons c cs)
  show ?case
  proof (cases "of_char c < (128 :: nat)")
    case True
    then have "go_runes (c # cs) = of_char c # go_runes cs"
      by (simp add: go_runes_Cons)
    with Cons True show ?thesis by simp
  next
    case False
    obtain r w where d: "decode_rune (of_char c # map of_char cs) = (r, w)"
      by (cases "decode_rune (of_char c # map of_char cs)") auto
    have "128 \<le> fst (decode_rune (of_char c # map of_char cs))"
      using False by (intro decode_rune_high) simp
    with d have "128 \<le> r" by simp
    moreover from d have "r \<in> set (go_runes (c # cs))" by (simp add: go_runes_Cons)
    ultimately show ?thesis using Cons.prems by force
  qed
qed simp

lemma runes_ok_iff: "list_all host_rune_ok (go_runes l) \<longleftrightarrow> list_all host_char l"
proof
  assume h: "list_all host_rune_ok (go_runes l)"
  then have "is_ascii l"
    by (intro runes_ascii_imp) (auto simp: list_all_iff dest: host_rune_ok_ascii)
  with h show "list_all host_char l"
    by (auto simp: go_runes_ascii list_all_iff host_char_def)
next
  assume h: "list_all host_char l"
  then have "is_ascii l"
    by (auto simp: is_ascii_def list_all_iff host_char_def dest: host_rune_ok_ascii)
  with h show "list_all host_rune_ok (go_runes l)"
    by (auto simp: go_runes_ascii list_all_iff host_char_def)
qed

lemma check_labels_None: "check_labels ls = None \<longleftrightarrow> list_all valid_label ls"
proof (induction ls)
  case (Cons l ls)
  have "list_ex (\<lambda>r. \<not> host_rune_ok r) (go_runes l) \<longleftrightarrow> \<not> list_all host_char l"
    using runes_ok_iff [of l] by (auto simp: list_ex_iff list_all_iff)
  with Cons show ?case by (auto simp: valid_label_def)
qed simp

lemma valid_label_no_dot: "valid_label l \<Longrightarrow> CHR ''.'' \<notin> set l"
  by (auto simp: valid_label_def list_all_iff host_char_def host_rune_ok_def in_range_def)

lemma valid_label_no_star: "valid_label l \<Longrightarrow> CHR ''*'' \<notin> set l"
  by (auto simp: valid_label_def list_all_iff host_char_def host_rune_ok_def in_range_def)

lemma valid_host_chars: "valid_host h \<Longrightarrow> c \<in> set h \<Longrightarrow> host_char c \<or> c = CHR ''.''"
  using set_join_split [of "CHR ''.''" h "Collect host_char"]
  by (auto simp: valid_host_def valid_label_def list_all_iff)

lemma valid_host_ascii: "valid_host h \<Longrightarrow> is_ascii h"
  using valid_host_chars [of h]
  by (fastforce simp: is_ascii_def list_all_iff host_char_def dest: host_rune_ok_ascii)

lemma valid_host_lower: "valid_host h \<Longrightarrow> map lower_char h = h"
proof (rule map_idI)
  fix c assume "valid_host h" and "c \<in> set h"
  then show "lower_char c = c"
    by (auto intro!: lower_char_id dest!: valid_host_chars
        simp: host_char_def host_rune_ok_def in_range_def)
qed

lemma valid_host_trim: "valid_host h \<Longrightarrow> trim_space h = h"
  unfolding trim_space_def
proof (rule trim_func_none)
  fix r assume h: "valid_host h" and r: "r \<in> set (go_runes h)"
  then obtain c where "c \<in> set h" and "r = of_char c"
    by (auto simp: go_runes_ascii valid_host_ascii)
  with valid_host_chars [OF h] show "\<not> is_space r"
    by (fastforce simp: host_char_def host_rune_ok_def in_range_def is_space_def)
qed

lemma valid_host_no_dot_end: "valid_host h \<Longrightarrow> \<not> suffix ''.'' h"
proof
  assume v: "valid_host h" and "suffix ''.'' h"
  then obtain s where "h = s @ CHR ''.'' # []" by (auto simp: suffix_def)
  then have "[] \<in> set (split_on CHR ''.'' h)" by (simp only: split_on_append) simp
  with v show False by (auto simp: valid_host_def list_all_iff valid_label_def)
qed

lemma valid_host_no_star: "valid_host h \<Longrightarrow> CHR ''*'' \<notin> set h"
  using valid_host_chars by (fastforce simp: host_char_def host_rune_ok_def in_range_def)

lemma not_star_prefix: "CHR ''*'' \<notin> set h \<Longrightarrow> \<not> prefix ''*.'' h"
  by (auto simp: prefix_def)

lemma normalize_hostname_valid: "normalize_hostname G v = Inr h \<Longrightarrow> valid_host h"
  by (auto simp: normalize_hostname_def Let_def valid_host_def check_labels_None
      split: if_splits option.splits)

lemma normalize_hostname_id: "valid_host h \<Longrightarrow> normalize_hostname G h = Inr h"
proof -
  assume v: "valid_host h"
  have "trim_suffix (to_lower G (trim_space h)) ''.'' = h"
    using v by (simp add: valid_host_trim to_lower_ascii valid_host_ascii valid_host_lower
        trim_suffix_def valid_host_no_dot_end)
  moreover have "check_labels (split_on CHR ''.'' h) = None"
    using v by (simp add: check_labels_None valid_host_def)
  ultimately show ?thesis
    using v by (simp add: normalize_hostname_def valid_host_def)
qed

lemma normalize_dns_pattern_plain: "valid_host p \<Longrightarrow> normalize_dns_pattern G p = Inr p"
  by (simp add: normalize_dns_pattern_def Let_def valid_host_trim to_lower_ascii valid_host_ascii
      valid_host_lower not_star_prefix valid_host_no_star normalize_hostname_id)

lemma normalize_dns_pattern_cases:
  assumes "normalize_dns_pattern G v = Inr p"
  obtains "valid_host p" | q where "p = ''*.'' @ q" and "valid_host q"
  using assms
  by (auto simp: normalize_dns_pattern_def Let_def dest: normalize_hostname_valid
      split: if_splits sum.splits)

subsection \<open>Matching\<close>

text \<open>Abstract contract of the matchers: a list of labels is a suffix of another.\<close>

definition label_suffix :: "string \<Rightarrow> string \<Rightarrow> bool" where
  "label_suffix p t \<longleftrightarrow> suffix (split_on CHR ''.'' p) (split_on CHR ''.'' t)"

lemma label_suffix_iff: "label_suffix p t \<longleftrightarrow> t = p \<or> suffix (CHR ''.'' # p) t"
  by (auto simp: label_suffix_def split_on_suffix [symmetric])

lemma label_suffix_trans: "label_suffix p q \<Longrightarrow> label_suffix q t \<Longrightarrow> label_suffix p t"
  by (auto simp: label_suffix_def intro: suffix_order.trans)

lemma match_dns_name_plain:
  "valid_host t \<Longrightarrow> valid_host p \<Longrightarrow> match_dns_name G t p = label_suffix p t"
  by (simp add: match_dns_name_def normalize_hostname_id normalize_dns_pattern_plain
      not_star_prefix valid_host_no_star label_suffix_iff)

lemma label_suffix_lengths:
  "label_suffix p t \<Longrightarrow> length (split_on CHR ''.'' p) \<le> length (split_on CHR ''.'' t)"
  by (simp add: label_suffix_def suffix_length_le)

lemma match_dns_nameE:
  assumes "match_dns_name G t p"
  obtains (plain) t' p' where "normalize_hostname G t = Inr t'" "normalize_dns_pattern G p = Inr p'"
      "valid_host p'" "label_suffix p' t'"
    | (wild) t' p' where "normalize_hostname G t = Inr t'" "normalize_dns_pattern G p = Inr (''*.'' @ p')"
      "valid_host p'" "label_suffix p' t'"
      "length (split_on CHR ''.'' t') = Suc (length (split_on CHR ''.'' p'))"
proof -
  from assms obtain t' p' where t: "normalize_hostname G t = Inr t'"
      and p: "normalize_dns_pattern G p = Inr p'"
    by (auto simp: match_dns_name_def split: sum.splits)
  from p show thesis
  proof (cases rule: normalize_dns_pattern_cases)
    case 1
    with assms t p show thesis
      by (intro plain [of t' p'])
        (auto simp: match_dns_name_def not_star_prefix valid_host_no_star label_suffix_iff)
  next
    case (2 q)
    with assms t p show thesis
      by (intro wild [of t' q])
        (auto simp: match_dns_name_def trim_prefix_def label_suffix_iff Let_def split: if_splits)
  qed
qed

subsection \<open>The wildcard of a provider pattern\<close>

lemma provider_label_match_star:
  assumes "CHR ''*'' \<notin> set a" and "CHR ''*'' \<notin> set b"
  shows "provider_label_match l (a @ CHR ''*'' # b) \<longleftrightarrow>
    prefix a l \<and> suffix b l \<and> trim_suffix (trim_prefix l a) b \<noteq> []"
proof -
  have "count_char (a @ CHR ''*'' # b) CHR ''*'' = 1"
    using assms by (auto simp: count_char_def filter_empty_conv)
  moreover have "contains_str (a @ CHR ''*'' # b) ''*''"
    by (auto simp: contains_str_iff intro!: sublist_appendI [of "''*''" a b, simplified])
  moreover have "takeWhile (\<lambda>c. c \<noteq> CHR ''*'') (a @ CHR ''*'' # b) = a"
    using assms by (simp add: takeWhile_append)
  ultimately show ?thesis
    by (auto simp: provider_label_match_def cut_at_def)
qed

text \<open>Every label of the shape the wildcard describes is accepted.\<close>

lemma provider_label_match_complete:
  assumes "CHR ''*'' \<notin> set a" and "CHR ''*'' \<notin> set b" and "m \<noteq> []"
  shows "provider_label_match (a @ m @ b) (a @ CHR ''*'' # b)"
  using assms
  by (simp add: provider_label_match_star trim_prefix_def trim_suffix_def)
    (simp add: suffix_def exI [of _ "a @ m"])

text \<open>The converse needs the two fixed parts not to overlap in the label.\<close>

lemma provider_label_match_sound:
  assumes "CHR ''*'' \<notin> set a" and "CHR ''*'' \<notin> set b"
    and "provider_label_match l (a @ CHR ''*'' # b)" and "length a + length b \<le> length l"
  shows "\<exists>m. m \<noteq> [] \<and> l = a @ m @ b"
proof -
  from assms(1-3) have p: "prefix a l" and s: "suffix b l"
    and ne: "trim_suffix (trim_prefix l a) b \<noteq> []"
    by (simp_all add: provider_label_match_star)
  from p obtain r where r: "l = a @ r" by (auto simp: prefix_def)
  with s assms(4) have "suffix b r"
    by (auto simp: suffix_append dest: suffix_length_le)
  then obtain m where "r = m @ b" by (auto simp: suffix_def)
  with r ne p show ?thesis by (auto simp: trim_prefix_def trim_suffix_def)
qed

text \<open>Evaluating the normal-form predicates on literals.\<close>

lemmas plain_text = plain_char_def in_range_def is_space_def

lemmas valid_host_text = valid_host_def valid_label_def host_char_def host_rune_ok_def in_range_def

subsection \<open>Properties\<close>


text \<open>A DNS name matches a provider pattern exactly when, after normalisation of both, the
  labels of the pattern are the last labels of the name; an explicit \<open>*.\<close> pattern
  requires exactly one more label. A name that merely ends in, or contains, the text of the
  pattern without a label boundary never matches.\<close>

theorem match_dns_name_labels:
  "match_dns_name G t p \<longleftrightarrow>
     (\<exists>t' p'. normalize_hostname G t = Inr t' \<and> valid_host p' \<and> label_suffix p' t' \<and>
        (normalize_dns_pattern G p = Inr p' \<or>
         normalize_dns_pattern G p = Inr (''*.'' @ p') \<and>
         length (split_on CHR ''.'' t') = Suc (length (split_on CHR ''.'' p'))))"
  (is "?L \<longleftrightarrow> ?R")
proof
  assume ?L
  then show ?R by (cases rule: match_dns_nameE) blast+
next
  assume ?R
  then show ?L
    by (elim exE conjE disjE)
      (auto simp: match_dns_name_def not_star_prefix valid_host_no_star label_suffix_iff
        trim_prefix_def)
qed

text \<open>Completeness of the one-wildcard provider pattern: a valid name whose last labels
  equal those of the pattern, the wildcard standing for at least one character of its label,
  is accepted.\<close>

theorem provider_pattern_complete:
  assumes "normalize_dns_provider_pattern G p = Inr p'" and "contains_str p' ''*''"
    and "split_on CHR ''.'' p' = xs @ (a @ CHR ''*'' # b) # ys"
    and "CHR ''*'' \<notin> set a" and "CHR ''*'' \<notin> set b"
    and "list_all (\<lambda>l. CHR ''*'' \<notin> set l) (xs @ ys)"
    and "valid_host t" and "split_on CHR ''.'' t = ws @ xs @ (a @ m @ b) # ys" and "m \<noteq> []"
  shows "match_dns_provider_pattern G t p"
proof -
  have same: "provider_labels_match (ls @ rest) (ls @ ps) = provider_labels_match rest ps"
    if "list_all (\<lambda>l. CHR ''*'' \<notin> set l) ls" for ls rest ps
    using that
  proof (induction ls)
    case (Cons l ls)
    then have "count_char l CHR ''*'' = 0" and "\<not> contains_str l ''*''"
      by (auto simp: count_char_def filter_empty_conv contains_str_iff dest: set_mono_sublist)
    with Cons show ?case by (simp add: provider_label_match_def)
  qed simp
  have "provider_labels_match ys ys"
    using same [of ys "[]" "[]"] assms(6) by simp
  then have "provider_labels_match (xs @ (a @ m @ b) # ys) (xs @ (a @ CHR ''*'' # b) # ys)"
    using assms(6) provider_label_match_complete [OF assms(4,5,9)] by (simp add: same)
  with assms show ?thesis
    by (simp add: match_dns_provider_pattern_def normalize_hostname_id)
qed

text \<open>The published shape of a Route 53 name server.\<close>

lemma provider_pattern_complete_witness:
  "match_dns_provider_pattern ascii_env ''ns-12.awsdns-07.com'' ''awsdns-*.com''"
proof (rule provider_pattern_complete
    [where p' = "''awsdns-*.com''" and xs = "[]" and a = "''awsdns-''" and b = "[]"
      and ys = "[''com'']" and ws = "[''ns-12'']" and m = "''07''"])
  show "normalize_dns_provider_pattern ascii_env ''awsdns-*.com'' = Inr ''awsdns-*.com''"
    by (simp add: normalize_dns_provider_pattern_def trim_space_plain to_lower_plain plain_text
        normalize_hostname_id valid_host_text trim_char_def count_char_def)
qed (simp_all add: valid_host_text)

text \<open>C18. The wildcard test measures the name against its two fixed parts separately, so they
  may overlap: the label \<open>aba\<close> is accepted for the pattern label \<open>ab*ba\<close>, although no
  character stands for the wildcard between \<open>ab\<close> and \<open>ba\<close>.\<close>

theorem provider_pattern_overlap:
  "match_dns_provider_pattern G ''aba.com'' ''ab*ba.com'' \<and>
   \<not> (\<exists>m. ''aba'' = ''ab'' @ m @ ''ba'')"
proof
  have "normalize_dns_provider_pattern G ''ab*ba.com'' = Inr ''ab*ba.com''"
    by (simp add: normalize_dns_provider_pattern_def trim_space_plain to_lower_plain plain_text
        normalize_hostname_id valid_host_text trim_char_def count_char_def)
  then show "match_dns_provider_pattern G ''aba.com'' ''ab*ba.com''"
    by (simp add: match_dns_provider_pattern_def normalize_hostname_id valid_host_text
        provider_label_match_def count_char_def cut_at_def trim_prefix_def trim_suffix_def suffix_def)
qed simp

end
