(* ===== verification/CoreModel.thy ===== *)
theory CoreModel
  imports Complex_Main "HOL-Library.Word" GoStrings
begin

section \<open>The data model (internal/core)\<close>

text \<open>
  The records and enumerations of the package \<open>core\<close>, field by field, and the operations of
  \<open>HostAnalysis\<close>, the entity every stage of the scan reads and extends. The string
  enumerations of the source are datatypes with one more value for Go's zero value (the empty
  string); \<open>dns_status_text\<close> gives the string where the code converts back. A \<open>float64\<close>
  field holds the rational number it denotes. The mutex of \<open>HostAnalysis\<close> has no field here:
  each operation is one atomic update, which is what holding the mutex for its whole body
  provides, and copying a slice or map before storing it is the identity on values.
\<close>

subsection \<open>Enumerations\<close>

datatype claimability_state =
    ClaimabilityUnset
  | ClaimabilityNotChecked
  | ClaimabilityNotVerified
  | ClaimabilityManualReview
  | ClaimabilityProviderVerified
  | ClaimabilityControlConfirmed
  | ClaimabilityNotClaimable

fun claimability_text :: "claimability_state \<Rightarrow> string" where
  "claimability_text ClaimabilityUnset = []"
| "claimability_text ClaimabilityNotChecked = ''NOT_CHECKED''"
| "claimability_text ClaimabilityNotVerified = ''NOT_VERIFIED''"
| "claimability_text ClaimabilityManualReview = ''MANUAL_REVIEW''"
| "claimability_text ClaimabilityProviderVerified = ''PROVIDER_VERIFIED''"
| "claimability_text ClaimabilityControlConfirmed = ''CONTROL_CONFIRMED''"
| "claimability_text ClaimabilityNotClaimable = ''NOT_CLAIMABLE''"

datatype dns_status =
    DNSStatusUnset
  | DNSStatusResolved
  | DNSStatusNoData
  | DNSStatusNXDomain
  | DNSStatusServFail
  | DNSStatusRefused
  | DNSStatusTimeout
  | DNSStatusError

fun dns_status_text :: "dns_status \<Rightarrow> string" where
  "dns_status_text DNSStatusUnset = []"
| "dns_status_text DNSStatusResolved = ''RESOLVED''"
| "dns_status_text DNSStatusNoData = ''NO_DATA''"
| "dns_status_text DNSStatusNXDomain = ''NXDOMAIN''"
| "dns_status_text DNSStatusServFail = ''SERVFAIL''"
| "dns_status_text DNSStatusRefused = ''REFUSED''"
| "dns_status_text DNSStatusTimeout = ''TIMEOUT''"
| "dns_status_text DNSStatusError = ''ERROR''"

datatype result_state =
    ResultUnset
  | ResultObservation
  | ResultCandidate
  | ResultConfirmed
  | ResultSuppressed
  | ResultInconclusive
  | ResultHealthy

datatype mutation_outcome =
    MutationUnset
  | MutationNotApplicable
  | MutationNoDifference
  | MutationTransportFailure
  | MutationRejected
  | MutationReproducibleDifferential
  | MutationRevealedProviderFingerprint
  | MutationFramingDifferential
  | MutationFramingRejected
  | MutationFramingTransportFailure
  | MutationFramingNoDifference

subsection \<open>Records\<close>

record service_binding =
  sb_priority :: "16 word"
  sb_target :: string
  sb_params :: meta

record dname_record =
  dn_owner :: string
  dn_target :: string

record dns_view =
  dv_resolver :: string
  dv_status :: dns_status
  dv_answers :: "string list"
  dv_ttl :: "32 word"
  dv_latency_ms :: int

definition zero_dns_view :: dns_view where
  "zero_dns_view = \<lparr>dv_resolver = [], dv_status = DNSStatusUnset, dv_answers = [],
     dv_ttl = 0, dv_latency_ms = 0\<rparr>"

record dns_consensus =
  dc_query_type :: string
  dc_state :: string
  dc_quorum :: int
  dc_views :: "dns_view list"

record srv_record =
  srv_owner :: string
  srv_priority :: "16 word"
  srv_weight :: "16 word"
  srv_port :: "16 word"
  srv_target :: string

definition zero_srv_record :: srv_record where
  "zero_srv_record = \<lparr>srv_owner = [], srv_priority = 0, srv_weight = 0,
     srv_port = 0, srv_target = []\<rparr>"

record mx_record =
  mx_preference :: "16 word"
  mx_target :: string

record delegation_ns_observation =
  dno_nameserver :: string
  dno_resolvable :: bool
  dno_status :: dns_status
  dno_provider_id :: string
  dno_service :: string
  dno_glue :: "string list"

record delegation_candidate =
  dlg_zone :: string
  dlg_parent_zone :: string
  dlg_delegated_nameservers :: "string list"
  dlg_parent_delegated_nameservers :: "string list"
  dlg_responsive :: "string list"
  dlg_lame :: "string list"
  dlg_unresolvable :: "string list"
  dlg_provider_id :: string
  dlg_provider :: string
  dlg_parent_has_ds :: bool
  dlg_parent_ds_checked :: bool
  dlg_parent_delegation_verified :: bool
  dlg_claimability :: claimability_state
  dlg_nameservers :: "delegation_ns_observation list"

record mx_candidate =
  mxc_target :: string
  mxc_preference :: "16 word"
  mxc_role :: string
  mxc_cname :: "string list"
  mxc_final_target :: string
  mxc_healthy_alternatives :: int
  mxc_provider_id :: string
  mxc_provider :: string
  mxc_dns_status :: dns_status
  mxc_registrable_domain :: string
  mxc_ownership :: string
  mxc_registration_status :: string
  mxc_claimability :: claimability_state

record srv_candidate =
  srvc_record :: srv_record
  srvc_cname :: "string list"
  srvc_final_target :: string
  srvc_provider_id :: string
  srvc_provider :: string
  srvc_dns_status :: dns_status
  srvc_registrable_domain :: string
  srvc_ownership :: string
  srvc_registration_status :: string
  srvc_claimability :: claimability_state

record txt_verification_candidate =
  txtc_provider :: string
  txtc_token_prefix :: string
  txtc_record :: string
  txtc_state :: string
  txtc_claimability :: claimability_state

record spf_candidate =
  spfc_domain :: string
  spfc_mechanism :: string
  spfc_chain :: "string list"
  spfc_dns_status :: dns_status
  spfc_registrable_domain :: string
  spfc_ownership :: string
  spfc_registration_status :: string
  spfc_claimability :: claimability_state

record cloud_ip_candidate =
  cip_ip :: string
  cip_record_type :: string
  cip_asn :: string
  cip_provider_id :: string
  cip_provider :: string
  cip_reachability :: string
  cip_historical_signal :: bool
  cip_claimability :: claimability_state

definition zero_cloud_ip_candidate :: cloud_ip_candidate where
  "zero_cloud_ip_candidate = \<lparr>cip_ip = [], cip_record_type = [], cip_asn = [],
     cip_provider_id = [], cip_provider = [], cip_reachability = [],
     cip_historical_signal = False, cip_claimability = ClaimabilityUnset\<rparr>"

record tls_observation =
  tls_mode :: string
  tls_server_name :: string
  tls_fingerprint :: string
  tls_issuer :: string
  tls_subject :: string
  tls_sa_ns :: "string list"
  tls_not_after :: time
  tls_provider :: string

record redirect_hop =
  hop_index :: int
  hop_url :: string
  hop_hostname :: string
  hop_scheme :: string
  hop_status_code :: int
  hop_location :: string
  hop_dns_status :: dns_status
  hop_cname :: "string list"
  hop_addresses :: "string list"
  hop_provider :: string
  hop_response_kind :: string
  hop_edge_provider :: string
  hop_matched_fingerprint :: string

definition zero_redirect_hop :: redirect_hop where
  "zero_redirect_hop = \<lparr>hop_index = 0, hop_url = [], hop_hostname = [],
     hop_scheme = [], hop_status_code = 0, hop_location = [],
     hop_dns_status = DNSStatusUnset, hop_cname = [], hop_addresses = [],
     hop_provider = [], hop_response_kind = [], hop_edge_provider = [],
     hop_matched_fingerprint = []\<rparr>"

record redirect_chain =
  chain_scheme :: string
  chain_hops :: "redirect_hop list"
  chain_final_url :: string
  chain_stopped_reason :: string

definition zero_redirect_chain :: redirect_chain where
  "zero_redirect_chain = \<lparr>chain_scheme = [], chain_hops = [], chain_final_url = [],
     chain_stopped_reason = []\<rparr>"

record web_dependency =
  wd_url :: string
  wd_host :: string
  wd_kind :: string
  wd_source :: string
  wd_directive :: string
  wd_cname :: "string list"
  wd_provider :: string
  wd_dns_status :: dns_status
  wd_http_status :: int
  wd_dangling :: bool

record http_cookie =
  ck_name :: string
  ck_domain :: string
  ck_path :: string
  ck_secure :: bool
  ck_http_only :: bool
  ck_same_site :: string
  ck_sensitive :: bool

definition zero_http_cookie :: http_cookie where
  "zero_http_cookie = \<lparr>ck_name = [], ck_domain = [], ck_path = [],
     ck_secure = False, ck_http_only = False, ck_same_site = [],
     ck_sensitive = False\<rparr>"

record http_observation =
  ho_scheme :: string
  ho_status_code :: int
  ho_headers :: "(string, string list) gomap"
  ho_raw_headers :: "(string, string list) gomap"
  ho_body :: string
  ho_normalized_body :: string
  ho_body_hash :: string
  ho_body_length :: int
  ho_content_type :: string
  ho_location :: string
  ho_title :: string
  ho_server :: string
  ho_response_kind :: string
  ho_edge_provider :: string
  ho_html_document :: bool
  ho_password_form :: bool
  ho_cookies :: "http_cookie list"
  ho_complete :: bool
  ho_duration :: int
  ho_transport_error :: string
  ho_parse_error :: string

definition zero_http_observation :: http_observation where
  "zero_http_observation = \<lparr>ho_scheme = [], ho_status_code = 0, ho_headers = [],
     ho_raw_headers = [], ho_body = [], ho_normalized_body = [],
     ho_body_hash = [], ho_body_length = 0, ho_content_type = [],
     ho_location = [], ho_title = [], ho_server = [],
     ho_response_kind = [], ho_edge_provider = [], ho_html_document = False,
     ho_password_form = False, ho_cookies = [], ho_complete = False,
     ho_duration = 0, ho_transport_error = [], ho_parse_error = []\<rparr>"

record http_correlation =
  hc_http_status :: int
  hc_https_status :: int
  hc_http_content_type :: string
  hc_https_content_type :: string
  hc_http_body_hash :: string
  hc_https_body_hash :: string
  hc_http_body_length :: int
  hc_https_body_length :: int
  hc_http_server :: string
  hc_https_server :: string
  hc_http_location :: string
  hc_https_location :: string
  hc_http_response_kind :: string
  hc_https_response_kind :: string
  hc_http_edge_provider :: string
  hc_https_edge_provider :: string
  hc_body_similarity :: rat
  hc_same_server :: bool
  hc_transport_priority :: int
  hc_transport_signals :: "string list"
  hc_reason_codes :: "string list"

definition zero_http_correlation :: http_correlation where
  "zero_http_correlation = \<lparr>hc_http_status = 0, hc_https_status = 0, hc_http_content_type = [],
     hc_https_content_type = [], hc_http_body_hash = [], hc_https_body_hash = [],
     hc_http_body_length = 0, hc_https_body_length = 0, hc_http_server = [],
     hc_https_server = [], hc_http_location = [], hc_https_location = [],
     hc_http_response_kind = [], hc_https_response_kind = [], hc_http_edge_provider = [],
     hc_https_edge_provider = [], hc_body_similarity = 0, hc_same_server = False,
     hc_transport_priority = 0, hc_transport_signals = [], hc_reason_codes = []\<rparr>"

record inference =
  inf_rule :: string
  inf_state :: result_state
  inf_finding :: string
  inf_reason_codes :: "string list"
  inf_observation_confidence :: int
  inf_classification_confidence :: int
  inf_impact_confidence :: int
  inf_impact_confirmed :: bool

record decision =
  dec_state :: result_state
  dec_rule :: string
  dec_reason_codes :: "string list"
  dec_observation_confidence :: int
  dec_classification_confidence :: int
  dec_impact_confidence :: int
  dec_impact_confirmed :: bool

record provider_candidate =
  pc_provider_id :: string
  pc_service :: string
  pc_cname :: string
  pc_cname_pattern :: string
  pc_vector :: string
  pc_resource :: string
  pc_metadata :: meta

definition zero_provider_candidate :: provider_candidate where
  "zero_provider_candidate = \<lparr>pc_provider_id = [], pc_service = [], pc_cname = [],
     pc_cname_pattern = [], pc_vector = [], pc_resource = [],
     pc_metadata = []\<rparr>"

record raw_http_observation =
  raw_status_code :: int
  raw_headers :: "(string, string list) gomap"
  raw_body :: string
  raw_complete :: bool
  raw_timed_out :: bool
  raw_connection_reset :: bool
  raw_parse_error :: string
  raw_transport_error :: string
  raw_duration :: int

record experiment_observations =
  exp_control_before :: raw_http_observation
  exp_mutation_first :: raw_http_observation
  exp_mutation_second :: raw_http_observation
  exp_control_after :: raw_http_observation

record difference =
  diff_field :: string
  diff_before :: string
  diff_after :: string

record mutation_result =
  mut_name :: string
  mut_baseline_id :: string
  mut_attempts :: int
  mut_confirmations :: int
  mut_status_before :: int
  mut_status_after :: int
  mut_relevant_diffs :: "difference list"
  mut_error :: string
  mut_outcome :: mutation_outcome
  mut_observation :: raw_http_observation
  mut_experiment :: experiment_observations

record dns_record_set =
  rs_a :: "string list"
  rs_aaaa :: "string list"
  rs_cname :: "string list"
  rs_dname :: "dname_record list"
  rs_ns :: "string list"
  rs_mx :: "string list"
  rs_mx_records :: "mx_record list"
  rs_txt :: "string list"
  rs_srv :: "string list"
  rs_srv_records :: "srv_record list"
  rs_soa :: "string list"
  rs_caa :: "string list"
  rs_ptr :: "string list"
  rs_https :: "service_binding list"
  rs_svcb :: "service_binding list"
  rs_consensus :: "dns_consensus list"

definition zero_dns_record_set :: dns_record_set where
  "zero_dns_record_set = \<lparr>rs_a = [], rs_aaaa = [], rs_cname = [],
     rs_dname = [], rs_ns = [], rs_mx = [],
     rs_mx_records = [], rs_txt = [], rs_srv = [],
     rs_srv_records = [], rs_soa = [], rs_caa = [],
     rs_ptr = [], rs_https = [], rs_svcb = [],
     rs_consensus = []\<rparr>"

record evidence =
  ev_type :: string
  ev_source :: string
  ev_description :: string
  ev_weight :: int
  ev_confidence :: int
  ev_is_negative :: bool
  ev_metadata :: meta

definition zero_evidence :: evidence where
  "zero_evidence = \<lparr>ev_type = [], ev_source = [], ev_description = [],
     ev_weight = 0, ev_confidence = 0, ev_is_negative = False,
     ev_metadata = []\<rparr>"

record verification_result =
  vr_provider :: string
  vr_vector :: string
  vr_resource :: string
  vr_verified :: bool
  vr_control_proven :: bool
  vr_confidence :: int
  vr_evidence :: string

definition zero_verification_result :: verification_result where
  "zero_verification_result = \<lparr>vr_provider = [], vr_vector = [], vr_resource = [],
     vr_verified = False, vr_control_proven = False, vr_confidence = 0,
     vr_evidence = []\<rparr>"

record unknown_provider_evidence =
  up_root_domain :: string
  up_frequency :: int
  up_severity :: string
  up_first_seen :: time
  up_last_seen :: time
  up_example_hosts :: "string list"
  up_last_discovery_score :: rat

record scan_profile =
  sp_version :: int
  sp_signature_digest :: string
  sp_check_ns :: bool
  sp_check_cloud :: bool
  sp_check_axfr :: bool
  sp_check_dnssec :: bool
  sp_check_email :: bool
  sp_check_headers :: bool
  sp_check_shadow_it :: bool
  sp_check_redirects :: bool
  sp_check_v_host :: bool
  sp_check_web_deps :: bool
  sp_check_sni :: bool
  sp_alternate_sni :: bool
  sp_pivot_san :: bool
  sp_san_roots :: "string list"
  sp_check_origin :: bool
  sp_origin_targets :: "string list"
  sp_check_evasion :: bool
  sp_check_framing :: bool
  sp_aggressive :: bool
  sp_check_srv :: bool
  sp_srv_owners :: "string list"
  sp_srv_exhaustive :: bool
  sp_follow_redirects :: bool
  sp_redirect_depth :: int
  sp_related_hosts :: "string list"
  sp_asset_hosts :: "string list"
  sp_fetch_headers :: bool
  sp_user_agent :: string
  sp_related_impact_in_scope :: bool
  sp_dns_consensus :: bool

definition zero_scan_profile :: scan_profile where
  "zero_scan_profile = \<lparr>sp_version = 0, sp_signature_digest = [], sp_check_ns = False,
     sp_check_cloud = False, sp_check_axfr = False, sp_check_dnssec = False,
     sp_check_email = False, sp_check_headers = False, sp_check_shadow_it = False,
     sp_check_redirects = False, sp_check_v_host = False, sp_check_web_deps = False,
     sp_check_sni = False, sp_alternate_sni = False, sp_pivot_san = False,
     sp_san_roots = [], sp_check_origin = False, sp_origin_targets = [],
     sp_check_evasion = False, sp_check_framing = False, sp_aggressive = False,
     sp_check_srv = False, sp_srv_owners = [], sp_srv_exhaustive = False,
     sp_follow_redirects = False, sp_redirect_depth = 0, sp_related_hosts = [],
     sp_asset_hosts = [], sp_fetch_headers = False, sp_user_agent = [],
     sp_related_impact_in_scope = False, sp_dns_consensus = False\<rparr>"

record host_analysis =
  ha_host :: string
  ha_dns :: dns_record_set
  ha_evidences :: "evidence list"
  ha_risk_score :: int
  ha_mitigation_score :: int
  ha_confidence_score :: int
  ha_classification :: string
  ha_server :: string
  ha_content_length :: int
  ha_response_time_ms :: int
  ha_technologies :: "string list"
  ha_cdn :: string
  ha_headers :: "(string, string list) gomap"
  ha_http_observations :: "(string, http_observation) gomap"
  ha_http_correlation :: "http_correlation option"
  ha_redirects :: "(string, redirect_chain) gomap"
  ha_web_dependencies :: "web_dependency list"
  ha_tls :: "tls_observation option"
  ha_sni_variants :: "tls_observation list"
  ha_san_candidates :: "string list"
  ha_provider_candidates :: "provider_candidate list"
  ha_mutation_results :: "mutation_result list"
  ha_delegation :: "delegation_candidate option"
  ha_mx_candidates :: "mx_candidate list"
  ha_srv_candidates :: "srv_candidate list"
  ha_txt_candidates :: "txt_verification_candidate list"
  ha_spf_candidates :: "spf_candidate list"
  ha_cloud_ip_candidates :: "cloud_ip_candidate list"
  ha_scan_profile :: "scan_profile option"
  ha_inferences :: "inference list"
  ha_decision :: "decision option"
  ha_result_state :: result_state
  ha_tested_vectors :: "string list"
  ha_coverage_score :: rat
  ha_knowledge_score :: rat
  ha_unknown_provider :: "unknown_provider_evidence option"
  ha_parent_cookie_scope :: bool
  ha_parent_cors_wildcard :: bool
  ha_origin_ip_candidate :: string
  ha_verification_score :: int
  ha_active_verification :: "verification_result option"
  ha_first_seen :: time
  ha_last_seen :: time
  ha_previous_classification :: string
  ha_last_state_change :: time
  ha_previous_evidences :: "evidence list"

definition zero_host_analysis :: host_analysis where
  "zero_host_analysis = \<lparr>ha_host = [], ha_dns = zero_dns_record_set, ha_evidences = [],
     ha_risk_score = 0, ha_mitigation_score = 0, ha_confidence_score = 0,
     ha_classification = [], ha_server = [], ha_content_length = 0,
     ha_response_time_ms = 0, ha_technologies = [], ha_cdn = [],
     ha_headers = [], ha_http_observations = [], ha_http_correlation = None,
     ha_redirects = [], ha_web_dependencies = [], ha_tls = None,
     ha_sni_variants = [], ha_san_candidates = [], ha_provider_candidates = [],
     ha_mutation_results = [], ha_delegation = None, ha_mx_candidates = [],
     ha_srv_candidates = [], ha_txt_candidates = [], ha_spf_candidates = [],
     ha_cloud_ip_candidates = [], ha_scan_profile = None, ha_inferences = [],
     ha_decision = None, ha_result_state = ResultUnset, ha_tested_vectors = [],
     ha_coverage_score = 0, ha_knowledge_score = 0, ha_unknown_provider = None,
     ha_parent_cookie_scope = False, ha_parent_cors_wildcard = False, ha_origin_ip_candidate = [],
     ha_verification_score = 0, ha_active_verification = None, ha_first_seen = 0,
     ha_last_seen = 0, ha_previous_classification = [], ha_last_state_change = 0,
     ha_previous_evidences = []\<rparr>"

lemma dns_status_text_inj [simp]: "dns_status_text s = dns_status_text t \<longleftrightarrow> s = t"
  by (cases s; cases t) simp_all

subsection \<open>Operations of HostAnalysis (internal/core/host.go)\<close>

definition add_evidence :: "evidence \<Rightarrow> host_analysis \<Rightarrow> host_analysis" where
  "add_evidence ev a = a\<lparr>ha_evidences := ha_evidences a @ [ev]\<rparr>"

definition add_tested_vector :: "string \<Rightarrow> host_analysis \<Rightarrow> host_analysis" where
  "add_tested_vector v a = a\<lparr>ha_tested_vectors := ha_tested_vectors a @ [v]\<rparr>"

definition set_http_observation :: "string \<Rightarrow> http_observation \<Rightarrow> host_analysis \<Rightarrow> host_analysis" where
  "set_http_observation scheme obs a =
     a\<lparr>ha_http_observations := map_put (ha_http_observations a) scheme obs\<rparr>"

text \<open>The result of the Go method and its \<open>ok\<close> flag, as an option.\<close>

definition get_http_observation :: "host_analysis \<Rightarrow> string \<Rightarrow> http_observation option" where
  "get_http_observation a scheme = map_of (ha_http_observations a) scheme"

definition set_redirect_chain :: "string \<Rightarrow> redirect_chain \<Rightarrow> host_analysis \<Rightarrow> host_analysis" where
  "set_redirect_chain scheme chain a = a\<lparr>ha_redirects := map_put (ha_redirects a) scheme chain\<rparr>"

definition add_web_dependency :: "web_dependency \<Rightarrow> host_analysis \<Rightarrow> host_analysis" where
  "add_web_dependency d a = a\<lparr>ha_web_dependencies := ha_web_dependencies a @ [d]\<rparr>"

definition set_tls :: "tls_observation \<Rightarrow> host_analysis \<Rightarrow> host_analysis" where
  "set_tls obs a = a\<lparr>ha_tls := Some obs\<rparr>"

definition add_sni_variant :: "tls_observation \<Rightarrow> host_analysis \<Rightarrow> host_analysis" where
  "add_sni_variant obs a = a\<lparr>ha_sni_variants := ha_sni_variants a @ [obs]\<rparr>"

definition add_san_candidate :: "string \<Rightarrow> host_analysis \<Rightarrow> host_analysis" where
  "add_san_candidate host a =
     (if list_ex (\<lambda>existing. existing = host) (ha_san_candidates a) then a
      else a\<lparr>ha_san_candidates := ha_san_candidates a @ [host]\<rparr>)"

definition same_candidate :: "provider_candidate \<Rightarrow> provider_candidate \<Rightarrow> bool" where
  "same_candidate e c \<longleftrightarrow> pc_provider_id e = pc_provider_id c \<and> pc_cname e = pc_cname c \<and>
     pc_vector e = pc_vector c \<and> pc_resource e = pc_resource c"

definition add_provider_candidate :: "provider_candidate \<Rightarrow> host_analysis \<Rightarrow> host_analysis" where
  "add_provider_candidate c a =
     (if list_ex (\<lambda>existing. same_candidate existing c) (ha_provider_candidates a) then a
      else a\<lparr>ha_provider_candidates := ha_provider_candidates a @ [c]\<rparr>)"

definition add_mutation_result :: "mutation_result \<Rightarrow> host_analysis \<Rightarrow> host_analysis" where
  "add_mutation_result r a = a\<lparr>ha_mutation_results := ha_mutation_results a @ [r]\<rparr>"

definition add_inference :: "inference \<Rightarrow> host_analysis \<Rightarrow> host_analysis" where
  "add_inference i a = a\<lparr>ha_inferences := ha_inferences a @ [i]\<rparr>"

definition set_http_correlation :: "http_correlation \<Rightarrow> host_analysis \<Rightarrow> host_analysis" where
  "set_http_correlation c a = a\<lparr>ha_http_correlation := Some c\<rparr>"

definition has_type :: "evidence list \<Rightarrow> string \<Rightarrow> bool" where
  "has_type evs t \<longleftrightarrow> list_ex (\<lambda>e. ev_type e = t) evs"

lemma has_type_iff: "has_type evs t \<longleftrightarrow> t \<in> ev_type ` set evs"
  by (auto simp: has_type_def list_ex_iff)

lemma has_type_Nil [simp]: "\<not> has_type [] t"
  by (simp add: has_type_def)

lemma has_type_Cons [simp]: "has_type (e # evs) t \<longleftrightarrow> ev_type e = t \<or> has_type evs t"
  by (simp add: has_type_def)

lemma has_type_append [simp]: "has_type (xs @ ys) t \<longleftrightarrow> has_type xs t \<or> has_type ys t"
  by (simp add: has_type_def)

lemma has_type_mset [det_intros]: "mset xs = mset ys \<Longrightarrow> has_type xs t = has_type ys t"
  by (simp add: has_type_iff mset_eq_setD [of xs ys])

text \<open>The candidate sets never hold two entries with the same key.\<close>

definition candidate_key :: "provider_candidate \<Rightarrow> string \<times> string \<times> string \<times> string" where
  "candidate_key c = (pc_provider_id c, pc_cname c, pc_vector c, pc_resource c)"

definition candidates_distinct :: "host_analysis \<Rightarrow> bool" where
  "candidates_distinct a \<longleftrightarrow> distinct (ha_san_candidates a) \<and>
     distinct (map candidate_key (ha_provider_candidates a))"

lemma add_provider_candidate_distinct:
  "candidates_distinct a \<Longrightarrow> candidates_distinct (add_provider_candidate c a)"
  by (auto simp: candidates_distinct_def add_provider_candidate_def same_candidate_def
      candidate_key_def list_ex_iff)

lemma add_san_candidate_distinct:
  "candidates_distinct a \<Longrightarrow> candidates_distinct (add_san_candidate h a)"
  by (auto simp: candidates_distinct_def add_san_candidate_def list_ex_iff)

end
