(* ===== verification/GoFloat.thy ===== *)
theory GoFloat
  imports Complex_Main "HOL-Library.Log_Nat" GoStrings
begin

section \<open>Floating point\<close>

text \<open>
  A \<open>float64\<close> is the rational number it denotes, and each arithmetic operation is the exact
  one followed by \<open>fl64\<close>: rounding to the nearest number with a 53-bit significand, ties to
  the even significand. The exponent is unbounded; the values the program computes (scores,
  percentages, shares of sums of small integers) stay far inside the range of a double, so no
  overflow, infinity, NaN or subnormal arises. The lemmas used elsewhere: \<open>fl64\<close> is monotone
  and leaves the integers up to \<open>2 ^ 53\<close> unchanged.
\<close>

definition round_half_even :: "rat \<Rightarrow> int" where
  "round_half_even x =
     (let f = \<lfloor>x\<rfloor>; d = x - of_int f
      in if d < 1 / 2 then f else if 1 / 2 < d then f + 1 else if even f then f else f + 1)"

text \<open>The exponent of the leading binary digit of a positive rational.\<close>

definition lead_exp :: "rat \<Rightarrow> int" where
  "lead_exp x =
     (let (p, q) = quotient_of x; k = bitlen p - bitlen q
      in if 2 powi k \<le> x then k else k - 1)"

definition ulp64 :: "rat \<Rightarrow> rat" where
  "ulp64 x = 2 powi (lead_exp \<bar>x\<bar> - 52)"

definition fl64 :: "rat \<Rightarrow> rat" where
  "fl64 x = (if x = 0 then 0 else sgn x * of_int (round_half_even (\<bar>x\<bar> / ulp64 x)) * ulp64 x)"

subsection \<open>Rounding to an integer\<close>

lemma round_half_even_of_int [simp]: "round_half_even (of_int n) = n"
  by (simp add: round_half_even_def)

lemma round_half_even_bounds:
  "\<lfloor>x\<rfloor> \<le> round_half_even x \<and> round_half_even x \<le> \<lfloor>x\<rfloor> + 1"
  by (simp add: round_half_even_def Let_def)

lemma round_half_even_mono: "x \<le> y \<Longrightarrow> round_half_even x \<le> round_half_even y"
proof (cases "\<lfloor>x\<rfloor> = \<lfloor>y\<rfloor>")
  case True
  moreover assume "x \<le> y"
  ultimately show ?thesis by (auto simp: round_half_even_def Let_def)
next
  case False
  assume "x \<le> y"
  with False have "\<lfloor>x\<rfloor> + 1 \<le> \<lfloor>y\<rfloor>" using floor_mono [of x y] by linarith
  then show ?thesis using round_half_even_bounds [of x] round_half_even_bounds [of y] by linarith
qed

lemma round_half_even_le: "x \<le> of_int n \<Longrightarrow> round_half_even x \<le> n"
  using round_half_even_mono [of x "of_int n"] by simp

lemma round_half_even_ge: "of_int n \<le> x \<Longrightarrow> n \<le> round_half_even x"
  using round_half_even_mono [of "of_int n" x] by simp

subsection \<open>The binade of a number\<close>

lemma bitlen_rat_bounds:
  assumes "0 < (p :: int)"
  shows "2 powi (bitlen p - 1) \<le> (of_int p :: rat)" and "(of_int p :: rat) < 2 powi (bitlen p)"
proof -
  from bitlen_bounds [OF assms] have b: "2 ^ nat (bitlen p - 1) \<le> p" "p < 2 ^ nat (bitlen p)" by auto
  have pos: "0 < bitlen p" using assms bitlen_nonneg [of p] bitlen_eq_zero_iff [of p] by linarith
  from b(1) have "(of_int (2 ^ nat (bitlen p - 1)) :: rat) \<le> of_int p" by (simp only: of_int_le_iff)
  moreover from b(2) have "(of_int p :: rat) < of_int (2 ^ nat (bitlen p))" by (simp only: of_int_less_iff)
  ultimately show "2 powi (bitlen p - 1) \<le> (of_int p :: rat)"
    and "(of_int p :: rat) < 2 powi (bitlen p)"
    using pos by (simp_all add: power_int_def)
qed

lemma lead_exp_bounds:
  assumes "0 < x"
  shows "2 powi (lead_exp x) \<le> x" and "x < 2 powi (lead_exp x + 1)"
proof -
  obtain p q where pq: "quotient_of x = (p, q)" by (cases "quotient_of x") auto
  then have x: "x = of_int p / of_int q" and q: "0 < q"
    by (auto dest: quotient_of_div quotient_of_denom_pos)
  from assms x q have p: "0 < p" by (simp add: zero_less_divide_iff)
  let ?k = "bitlen p - bitlen q"
  note bp = bitlen_rat_bounds [OF p] and bq = bitlen_rat_bounds [OF q]
  have "(of_int p :: rat) < 2 powi (?k + 1) * of_int q"
  proof -
    have "(of_int p :: rat) < 2 powi (bitlen p)" by (rule bp(2))
    also have "\<dots> = 2 powi (?k + 1) * 2 powi (bitlen q - 1)"
      by (simp flip: power_int_add)
    also have "\<dots> \<le> 2 powi (?k + 1) * of_int q"
      using bq(1) by (intro mult_left_mono) auto
    finally show ?thesis .
  qed
  then have up: "x < 2 powi (?k + 1)" using q by (simp add: x divide_less_eq)
  have "2 powi (?k - 1) * of_int q \<le> (of_int p :: rat)"
  proof -
    have "2 powi (?k - 1) * of_int q \<le> 2 powi (?k - 1) * (2 powi (bitlen q) :: rat)"
      using bq(2) by (intro mult_left_mono) auto
    also have "\<dots> = 2 powi (bitlen p - 1)" by (simp flip: power_int_add)
    also have "\<dots> \<le> of_int p" by (rule bp(1))
    finally show ?thesis .
  qed
  then have low: "2 powi (?k - 1) \<le> x" using q by (simp add: x le_divide_eq)
  from up low pq show "2 powi (lead_exp x) \<le> x" and "x < 2 powi (lead_exp x + 1)"
    by (auto simp: lead_exp_def Let_def)
qed

lemma powi_two_mono: "m \<le> n \<Longrightarrow> (2 :: rat) powi m \<le> 2 powi n"
  by (rule power_int_increasing) auto

lemma powi_two_strict: "m < n \<Longrightarrow> (2 :: rat) powi m < 2 powi n"
  by (rule power_int_strict_increasing) auto

lemma lead_exp_mono: "0 < x \<Longrightarrow> x \<le> y \<Longrightarrow> lead_exp x \<le> lead_exp y"
proof (rule ccontr)
  assume "0 < x" "x \<le> y" "\<not> lead_exp x \<le> lead_exp y"
  then have "(2 :: rat) powi (lead_exp y + 1) \<le> 2 powi (lead_exp x)"
    by (intro powi_two_mono) simp
  with lead_exp_bounds(1) [of x] lead_exp_bounds(2) [of y] \<open>0 < x\<close> \<open>x \<le> y\<close> show False by simp
qed

lemma lead_exp_less:
  assumes "0 < x" and "x < 2 powi n"
  shows "lead_exp x < n"
proof (rule ccontr)
  assume "\<not> lead_exp x < n"
  then have "(2 :: rat) powi n \<le> 2 powi (lead_exp x)" by (intro powi_two_mono) simp
  with lead_exp_bounds(1) [OF assms(1)] assms(2) show False by simp
qed

subsection \<open>Rounding to a double\<close>

lemma ulp64_pos [simp]: "0 < ulp64 x" by (simp add: ulp64_def)

lemma fl64_0 [simp]: "fl64 0 = 0" by (simp add: fl64_def)

lemma fl64_pos_eq: "0 < x \<Longrightarrow> fl64 x = of_int (round_half_even (x / ulp64 x)) * ulp64 x"
  by (simp add: fl64_def)

lemma fl64_minus: "fl64 (- x) = - fl64 x"
  by (simp add: fl64_def ulp64_def)

text \<open>The result lies in the closed binade of the argument.\<close>

lemma fl64_binade:
  assumes "0 < x"
  shows "2 powi (lead_exp x) \<le> fl64 x" and "fl64 x \<le> 2 powi (lead_exp x + 1)"
proof -
  let ?u = "ulp64 x" and ?r = "round_half_even (x / ulp64 x)"
  have lo: "(2 :: rat) powi (lead_exp x) = of_int (2 ^ 52) * ?u"
    and hi: "(2 :: rat) powi (lead_exp x + 1) = of_int (2 ^ 53) * ?u"
    using assms by (simp_all add: ulp64_def power_int_diff power_int_add)
  from lead_exp_bounds(1) [OF assms] have "of_int (2 ^ 52) \<le> x / ?u"
    by (simp only: lo pos_le_divide_eq [OF ulp64_pos])
  then have "2 ^ 52 \<le> ?r" by (rule round_half_even_ge)
  then have "(of_int (2 ^ 52) :: rat) * ?u \<le> of_int ?r * ?u"
    by (intro mult_right_mono) (simp_all only: of_int_le_iff less_imp_le ulp64_pos)
  then show "2 powi (lead_exp x) \<le> fl64 x" by (simp only: lo fl64_pos_eq [OF assms])
  from lead_exp_bounds(2) [OF assms] have "x / ?u \<le> of_int (2 ^ 53)"
    by (simp only: hi pos_divide_le_eq [OF ulp64_pos] less_imp_le)
  then have "?r \<le> 2 ^ 53" by (rule round_half_even_le)
  then have "of_int ?r * ?u \<le> (of_int (2 ^ 53) :: rat) * ?u"
    by (intro mult_right_mono) (simp_all only: of_int_le_iff less_imp_le ulp64_pos)
  then show "fl64 x \<le> 2 powi (lead_exp x + 1)" by (simp only: hi fl64_pos_eq [OF assms])
qed

lemma fl64_pos: "0 < x \<Longrightarrow> 0 < fl64 x"
  using fl64_binade(1) [of x] zero_less_power_int [of "2 :: rat" "lead_exp x"] by linarith

lemma fl64_mono_pos:
  assumes "0 < x" and "x \<le> y"
  shows "fl64 x \<le> fl64 y"
proof (cases "lead_exp x = lead_exp y")
  case True
  with assms have u: "ulp64 x = ulp64 y" by (simp add: ulp64_def)
  have "x / ulp64 y \<le> y / ulp64 y" using assms by (intro divide_right_mono) (auto simp: less_imp_le)
  then have "round_half_even (x / ulp64 y) \<le> round_half_even (y / ulp64 y)"
    by (rule round_half_even_mono)
  then have "(of_int (round_half_even (x / ulp64 y)) :: rat) * ulp64 y
      \<le> of_int (round_half_even (y / ulp64 y)) * ulp64 y"
    by (intro mult_right_mono) (simp_all add: less_imp_le)
  with assms u show ?thesis by (simp add: fl64_pos_eq)
next
  case False
  with lead_exp_mono [OF assms] have "lead_exp x + 1 \<le> lead_exp y" by simp
  then have "(2 :: rat) powi (lead_exp x + 1) \<le> 2 powi (lead_exp y)" by (rule powi_two_mono)
  with fl64_binade(2) [OF assms(1)] fl64_binade(1) [of y] assms show ?thesis by linarith
qed

lemma fl64_mono: "x \<le> y \<Longrightarrow> fl64 x \<le> fl64 y"
proof -
  assume le: "x \<le> y"
  consider "0 < x" | "x \<le> 0" "0 \<le> y" | "y < 0" using le by linarith
  then show ?thesis
  proof cases
    case 1
    with le show ?thesis by (simp add: fl64_mono_pos)
  next
    case 2
    have "fl64 x \<le> 0"
      using 2 fl64_pos [of "- x"] by (cases "x = 0") (auto simp: fl64_minus)
    moreover have "0 \<le> fl64 y" using 2 fl64_pos [of y] by (cases "y = 0") auto
    ultimately show ?thesis by linarith
  next
    case 3
    with le fl64_mono_pos [of "- y" "- x"] show ?thesis by (simp add: fl64_minus)
  qed
qed

lemma fl64_nonneg: "0 \<le> x \<Longrightarrow> 0 \<le> fl64 x"
  using fl64_mono [of 0 x] by simp

lemma fl64_int_pos:
  assumes "0 < n" and "n < 2 ^ 53"
  shows "fl64 (of_int n) = of_int n"
proof -
  let ?k = "lead_exp (of_int n)"
  have pos: "0 < (of_int n :: rat)" using assms by simp
  have "(of_int n :: rat) < of_int (2 ^ 53)" using assms(2) by (simp only: of_int_less_iff)
  then have "(of_int n :: rat) < 2 powi 53" by (simp add: power_int_def)
  then have "?k < 53" by (rule lead_exp_less [OF pos])
  then have nat: "52 - ?k = int (nat (52 - ?k))" by simp
  have "(2 :: rat) powi (?k - 52) = inverse (2 powi (52 - ?k))"
    by (simp flip: power_int_minus)
  also have "\<dots> = inverse (of_int (2 ^ nat (52 - ?k)))"
    by (subst nat) (simp only: power_int_of_nat of_int_power of_int_numeral)
  finally have u: "ulp64 (of_int n) = 1 / of_int (2 ^ nat (52 - ?k))"
    using pos by (simp add: ulp64_def divide_inverse)
  then have "of_int n / ulp64 (of_int n) = of_int (n * 2 ^ nat (52 - ?k))" by simp
  then have "round_half_even (of_int n / ulp64 (of_int n)) = n * 2 ^ nat (52 - ?k)"
    by (simp only: round_half_even_of_int)
  then show ?thesis using pos u by (simp add: fl64_pos_eq)
qed

lemma fl64_of_int:
  assumes "\<bar>n\<bar> < 2 ^ 53"
  shows "fl64 (of_int n) = of_int n"
proof (cases n "0 :: int" rule: linorder_cases)
  case less
  with fl64_int_pos [of "- n"] assms have "fl64 (- of_int n) = - of_int n" by simp
  then show ?thesis by (simp add: fl64_minus)
qed (use assms in \<open>auto intro: fl64_int_pos\<close>)

lemma fl64_numeral: "\<bar>numeral k :: int\<bar> < 2 ^ 53 \<Longrightarrow> fl64 (numeral k) = numeral k"
  using fl64_of_int [of "numeral k"] by simp

lemma fl64_one [simp]: "fl64 1 = 1"
  using fl64_of_int [of 1] by simp

lemma fl64_le_int: "x \<le> of_int n \<Longrightarrow> \<bar>n\<bar> < 2 ^ 53 \<Longrightarrow> fl64 x \<le> of_int n"
  using fl64_mono [of x "of_int n"] fl64_of_int [of n] by simp

lemma fl64_ge_int: "of_int n \<le> x \<Longrightarrow> \<bar>n\<bar> < 2 ^ 53 \<Longrightarrow> of_int n \<le> fl64 x"
  using fl64_mono [of "of_int n" x] fl64_of_int [of n] by simp

subsection \<open>Printing\<close>

text \<open>\<open>strconv.FormatFloat(x, 'f', 1, 64)\<close> and the verb \<open>%.1f\<close>: the value rounded to one
  decimal, ties to even.\<close>

definition format_f1 :: "rat \<Rightarrow> string" where
  "format_f1 x =
     (let n = nat (round_half_even (\<bar>x\<bar> * 10))
      in (if x < 0 then ''-'' else []) @ nat_dec (n div 10) @ ''.'' @ nat_dec (n mod 10))"

end
