(* ===== verification/GoUrl.thy ===== *)
theory GoUrl
  imports GoStrings
begin

section \<open>URLs: the parser of net/url\<close>

text \<open>
  \<open>url.Parse\<close> on byte strings, as far as its callers look: whether it fails, the scheme, the
  host field (with \<open>Hostname()\<close> and \<open>Port()\<close>) and the decoded path. The steps follow the
  library: cut the fragment, refuse control bytes, split off the scheme, cut the query, parse
  the authority when the rest starts with two slashes, decode the path. Userinfo is checked
  and dropped. The validity of an IPv6 literal between brackets is the field
  \<open>ip6_literal_ok\<close> of the environment.
\<close>

record url =
  url_scheme :: string
  url_host :: string
  url_path :: string

subsection \<open>Percent-encoding\<close>

definition alnum_char :: "char \<Rightarrow> bool" where
  "alnum_char c \<longleftrightarrow> in_range 97 122 (of_char c) \<or> in_range 65 90 (of_char c) \<or> in_range 48 57 (of_char c)"

fun hex_val :: "char \<Rightarrow> nat option" where
  "hex_val c = (let n = of_char c in
     if in_range 48 57 n then Some (n - 48)
     else if in_range 97 102 n then Some (n - 87)
     else if in_range 65 70 n then Some (n - 55) else None)"

text \<open>\<open>shouldEscape\<close> for the host and zone modes.\<close>

definition host_should_escape :: "char \<Rightarrow> bool" where
  "host_should_escape c \<longleftrightarrow> \<not> (alnum_char c \<or> c \<in> set ''!$&'' \<or> c = char_of (39 :: nat) \<or>
     c \<in> set ''()*+,;=:[]<>-_.~'' \<or> c = char_of (34 :: nat))"

datatype escape_mode = EncodePath | EncodeHost | EncodeZone

fun unescape :: "escape_mode \<Rightarrow> string \<Rightarrow> string option" where
  "unescape m [] = Some []"
| "unescape m (c # cs) =
     (if c = CHR ''%'' then
        (case cs of
           h # l # rest \<Rightarrow>
             (case (hex_val h, hex_val l) of
                (Some a, Some b) \<Rightarrow>
                  (if m = EncodeHost \<and> a < 8 \<and> \<not> (h = CHR ''2'' \<and> l = CHR ''5'') then None
                   else if m = EncodeZone \<and> \<not> (h = CHR ''2'' \<and> l = CHR ''5'') \<and>
                     16 * a + b \<noteq> 32 \<and> host_should_escape (char_of (16 * a + b)) then None
                   else map_option (Cons (char_of (16 * a + b))) (unescape m rest))
              | _ \<Rightarrow> None)
         | _ \<Rightarrow> None)
      else if m \<noteq> EncodePath \<and> of_char c < (128 :: nat) \<and> host_should_escape c then None
      else map_option (Cons c) (unescape m cs))"

subsection \<open>Pieces\<close>

definition last_index :: "char \<Rightarrow> string \<Rightarrow> nat option" where
  "last_index c s =
     (if c \<in> set s then Some (length s - 1 - length (takeWhile (\<lambda>x. x \<noteq> c) (rev s))) else None)"

definition valid_optional_port :: "string \<Rightarrow> bool" where
  "valid_optional_port p = (case p of [] \<Rightarrow> True | c # ds \<Rightarrow> c = CHR '':'' \<and> list_all digit_char ds)"

text \<open>\<open>getScheme\<close>: \<open>None\<close> is the error for a missing scheme before the colon.\<close>

fun get_scheme_from :: "string \<Rightarrow> string \<Rightarrow> string \<Rightarrow> (string \<times> string) option" where
  "get_scheme_from raw acc [] = Some ([], raw)"
| "get_scheme_from raw acc (c # cs) =
     (if in_range 97 122 (of_char c) \<or> in_range 65 90 (of_char c) then get_scheme_from raw (acc @ [c]) cs
      else if in_range 48 57 (of_char c) \<or> c \<in> set ''+-.'' then
        (if acc = [] then Some ([], raw) else get_scheme_from raw (acc @ [c]) cs)
      else if c = CHR '':'' then (if acc = [] then None else Some (acc, cs))
      else Some ([], raw))"

definition userinfo_char :: "char \<Rightarrow> bool" where
  "userinfo_char c \<longleftrightarrow> alnum_char c \<or> c \<in> set ''-._:~!$&()*+,;=%@'' \<or> c = char_of (39 :: nat)"

text \<open>\<open>parseHost\<close>.\<close>

fun find_zone :: "string \<Rightarrow> (string \<times> string) option" where
  "find_zone [] = None"
| "find_zone (c # cs) =
     (if prefix ''%25'' (c # cs) then Some ([], c # cs)
      else map_option (\<lambda>(a, b). (c # a, b)) (find_zone cs))"

definition parse_host :: "go_env \<Rightarrow> string \<Rightarrow> string option" where
  "parse_host G host =
     (case last_index CHR ''['' host of
        Some open_idx \<Rightarrow>
          (case last_index CHR '']'' host of
             None \<Rightarrow> None
           | Some close_idx \<Rightarrow>
             (let colon_port = drop (Suc close_idx) host;
                  hostname = drop (Suc open_idx) (take close_idx host) in
              if close_idx < Suc open_idx \<or> \<not> valid_optional_port colon_port then None
              else
                (case (case find_zone hostname of
                         Some (h, z) \<Rightarrow>
                           (case (unescape EncodeHost h, unescape EncodeZone z) of
                              (Some h', Some z') \<Rightarrow> Some (h' @ z') | _ \<Rightarrow> None)
                       | None \<Rightarrow> unescape EncodeHost hostname) of
                   None \<Rightarrow> None
                 | Some h \<Rightarrow> if ip6_literal_ok G h then Some (''['' @ h @ '']'' @ colon_port) else None)))
      | None \<Rightarrow>
          (let (_, after, found) = cut_at CHR '':'' host in
           if found \<and> \<not> valid_optional_port (CHR '':'' # after) then None
           else unescape EncodeHost host))"

definition parse_authority :: "go_env \<Rightarrow> string \<Rightarrow> string option" where
  "parse_authority G authority =
     (case last_index CHR ''@'' authority of
        None \<Rightarrow> parse_host G authority
      | Some i \<Rightarrow>
        (case parse_host G (drop (Suc i) authority) of
           None \<Rightarrow> None
         | Some h \<Rightarrow>
           (let userinfo = take i authority in
            if list_all userinfo_char userinfo \<and> unescape EncodePath userinfo \<noteq> None
            then Some h else None)))"

definition control_byte :: "char \<Rightarrow> bool" where
  "control_byte c \<longleftrightarrow> of_char c < (32 :: nat) \<or> of_char c = (127 :: nat)"

text \<open>The query is cut off; a trailing question mark with no other is a forced empty query.\<close>

definition cut_query :: "string \<Rightarrow> string" where
  "cut_query rest =
     (if suffix ''?'' rest \<and> count_char rest CHR ''?'' = 1 then butlast rest
      else fst (cut_at CHR ''?'' rest))"

definition parse_after_scheme :: "go_env \<Rightarrow> string \<Rightarrow> string \<Rightarrow> url option" where
  "parse_after_scheme G scheme rest0 =
     (let rest = cut_query rest0 in
      if \<not> prefix ''/'' rest \<and> scheme \<noteq> [] then
        Some \<lparr>url_scheme = scheme, url_host = [], url_path = []\<rparr>
      else if \<not> prefix ''/'' rest \<and> CHR '':'' \<in> set (fst (cut_at CHR ''/'' rest)) then None
      else
        (let has_auth = (scheme \<noteq> [] \<or> \<not> prefix ''///'' rest) \<and> prefix ''//'' rest;
             authority = (if has_auth then fst (cut_at CHR ''/'' (drop 2 rest)) else []);
             path = (if has_auth then drop (2 + length authority) rest else rest) in
         case (if has_auth then parse_authority G authority else Some []) of
           None \<Rightarrow> None
         | Some host \<Rightarrow>
           (case unescape EncodePath path of
              None \<Rightarrow> None
            | Some p \<Rightarrow> Some \<lparr>url_scheme = scheme, url_host = host, url_path = p\<rparr>)))"

definition url_parse :: "go_env \<Rightarrow> string \<Rightarrow> url option" where
  "url_parse G raw =
     (let (u, frag, _) = cut_at CHR ''#'' raw in
      if list_ex control_byte u then None
      else if u = ''*'' then
        (if unescape EncodePath frag = None then None
         else Some \<lparr>url_scheme = [], url_host = [], url_path = ''*''\<rparr>)
      else
        (case get_scheme_from u [] u of
           None \<Rightarrow> None
         | Some (scheme, rest) \<Rightarrow>
           (case parse_after_scheme G (to_lower G scheme) rest of
              None \<Rightarrow> None
            | Some r \<Rightarrow> if unescape EncodePath frag = None then None else Some r)))"

text \<open>\<open>Hostname()\<close> and \<open>Port()\<close>.\<close>

definition split_host_port :: "string \<Rightarrow> string \<times> string" where
  "split_host_port hp =
     (let (host, port) =
        (case last_index CHR '':'' hp of
           Some i \<Rightarrow> if valid_optional_port (drop i hp) then (take i hp, drop (Suc i) hp) else (hp, [])
         | None \<Rightarrow> (hp, []))
      in (if prefix ''['' host \<and> suffix '']'' host then butlast (tl host) else host, port))"

definition url_hostname :: "url \<Rightarrow> string" where
  "url_hostname u = fst (split_host_port (url_host u))"

definition url_port :: "url \<Rightarrow> string" where
  "url_port u = snd (split_host_port (url_host u))"

lemma url_parse_port_example:
  "map_option (\<lambda>u. (url_scheme u, url_hostname u, url_port u, url_path u))
     (url_parse ascii_env ''HTTPS://u:p@a.example:8443/x%20y?q#f'') =
   Some (''https'', ''a.example'', ''8443'', ''/x y'')"
  by code_simp

end
