(* ===== verification/Inference.thy ===== *)
theory Inference
  imports CoreModel GoFloat GoUrl
begin

section \<open>HTTP inference (internal/inference/http.go)\<close>

text \<open>
  \<open>Analyze\<close> derives evidence and inferences from the HTTP observations, the redirect chains
  and the response headers of a host. Each Go function that mutates the analysis is a function
  on \<open>host_analysis\<close>; the local variables of the long handlers are \<open>let\<close>s in source order.
  An observation together with its \<open>ok\<close> flag is an \<open>http_observation option\<close>; where the code
  reads the zero observation after \<open>ok = false\<close>, the \<open>None\<close> branch gives what those reads
  yield. The headers and the redirects are maps the code ranges over.

  Proved: running the analysis twice is running it once; evidence of other sources is kept;
  a confirmed inference, or an evidence of plaintext exposure, needs a complete successful
  HTTP response that does not upgrade; the similarity of two bodies is a percentage that does
  not depend on their order.
\<close>

subsection \<open>Descriptions\<close>

definition txt_correlated :: string where
  "txt_correlated = ''As respostas HTTP e HTTPS apresentam conte'' @ [CHR 0xC3, CHR 0xBA] @ ''do equivalente.''"

definition txt_downgrade :: string where
  "txt_downgrade = ''O endpoint HTTPS redireciona para uma URL HTTP.''"

definition txt_upgrade :: string where
  "txt_upgrade = ''A cadeia HTTP conclui o upgrade para HTTPS.''"

definition txt_port :: string where
  "txt_port = ''O redirecionamento de upgrade usa uma porta HTTPS n'' @ [CHR 0xC3, CHR 0xA3] @ ''o convencional.''"

definition txt_no_upgrade :: string where
  "txt_no_upgrade = ''O endpoint HTTP n'' @ [CHR 0xC3, CHR 0xA3] @ ''o conclui o upgrade para HTTPS.''"

definition txt_https_unavailable :: string where
  "txt_https_unavailable = ''O endpoint HTTP respondeu, mas a coleta HTTPS n'' @ [CHR 0xC3, CHR 0xA3] @ ''o foi conclu'' @ [CHR 0xC3, CHR 0xAD] @ ''da.''"

definition txt_blocked :: string where
  "txt_blocked = ''O endpoint HTTP n'' @ [CHR 0xC3, CHR 0xA3] @ ''o redireciona, mas a resposta bloqueia o acesso ao conte'' @ [CHR 0xC3, CHR 0xBA] @ ''do.''"

definition txt_edge_block :: string where
  "txt_edge_block = ''A aus'' @ [CHR 0xC3, CHR 0xAA] @ ''ncia de upgrade ocorreu em uma resposta de bloqueio da borda.''"

definition txt_not_available :: string where
  "txt_not_available = ''O endpoint HTTP n'' @ [CHR 0xC3, CHR 0xA3] @ ''o disponibiliza o recurso solicitado.''"

definition txt_http_error :: string where
  "txt_http_error = ''A resposta HTTP terminou em erro sem demonstrar exposi'' @ [CHR 0xC3, CHR 0xA7, CHR 0xC3, CHR 0xA3] @ ''o da aplica'' @ [CHR 0xC3, CHR 0xA7, CHR 0xC3, CHR 0xA3] @ ''o.''"

definition txt_plaintext :: string where
  "txt_plaintext = ''Conte'' @ [CHR 0xC3, CHR 0xBA] @ ''do HTML naveg'' @ [CHR 0xC3, CHR 0xA1] @ ''vel est'' @ [CHR 0xC3, CHR 0xA1] @ '' dispon'' @ [CHR 0xC3, CHR 0xAD] @ ''vel por HTTP sem upgrade para HTTPS.''"

definition txt_auth_form :: string where
  "txt_auth_form = ''Um formul'' @ [CHR 0xC3, CHR 0xA1] @ ''rio com campo de senha est'' @ [CHR 0xC3, CHR 0xA1] @ '' dispon'' @ [CHR 0xC3, CHR 0xAD] @ ''vel por HTTP.''"

definition txt_cookie :: string where
  "txt_cookie = ''A resposta HTTP emite cookie de aplica'' @ [CHR 0xC3, CHR 0xA7, CHR 0xC3, CHR 0xA3] @ ''o sens'' @ [CHR 0xC3, CHR 0xAD] @ ''vel sem o atributo Secure.''"

definition txt_priority :: string where
  "txt_priority = ''A prioridade de valida'' @ [CHR 0xC3, CHR 0xA7, CHR 0xC3, CHR 0xA3] @ ''o do transporte foi calculada sem alterar a severidade.''"

definition txt_dangling :: string where
  "txt_dangling = ''O cabe'' @ [CHR 0xC3, CHR 0xA7] @ ''alho Location aponta para um hostname sem resolu'' @ [CHR 0xC3, CHR 0xA7, CHR 0xC3, CHR 0xA3] @ ''o DNS utiliz'' @ [CHR 0xC3, CHR 0xA1] @ ''vel.''"

definition txt_provider_error :: string where
  "txt_provider_error = ''O destino do redirect apresentou uma assinatura espec'' @ [CHR 0xC3, CHR 0xAD] @ ''fica de recurso ausente no provedor.''"

definition txt_hsts_absent :: string where
  "txt_hsts_absent = ''O cabe'' @ [CHR 0xC3, CHR 0xA7] @ ''alho Strict-Transport-Security n'' @ [CHR 0xC3, CHR 0xA3] @ ''o foi observado na resposta HTTPS.''"

definition txt_hsts_present :: string where
  "txt_hsts_present = ''A resposta HTTPS publica uma pol'' @ [CHR 0xC3, CHR 0xAD] @ ''tica HSTS.''"

definition txt_csp_absent :: string where
  "txt_csp_absent = ''A p'' @ [CHR 0xC3, CHR 0xA1] @ ''gina HTML HTTPS n'' @ [CHR 0xC3, CHR 0xA3] @ ''o publica Content-Security-Policy; trata-se de uma observa'' @ [CHR 0xC3, CHR 0xA7, CHR 0xC3, CHR 0xA3] @ ''o de hardening.''"

definition txt_csp_present :: string where
  "txt_csp_present = ''A p'' @ [CHR 0xC3, CHR 0xA1] @ ''gina HTML HTTPS publica Content-Security-Policy.''"

subsection \<open>Status classes and lookups\<close>

definition is_redirect_status :: "int \<Rightarrow> bool" where
  "is_redirect_status s \<longleftrightarrow> s = 301 \<or> s = 302 \<or> s = 303 \<or> s = 307 \<or> s = 308"

definition blocked_status :: "int \<Rightarrow> bool" where
  "blocked_status s \<longleftrightarrow> s = 401 \<or> s = 403 \<or> s = 406 \<or> s = 429"

definition unavailable_status :: "int \<Rightarrow> bool" where
  "unavailable_status s \<longleftrightarrow> s = 404 \<or> s = 410"

text \<open>The first header, in map order, whose name matches and which has a value.\<close>

fun header :: "go_env \<Rightarrow> (string, string list) gomap \<Rightarrow> string \<Rightarrow> string" where
  "header G [] name = []"
| "header G ((key, values) # hs) name =
     (if equal_fold G key name \<and> values \<noteq> [] then trim_space (hd values) else header G hs name)"

definition contains_fold :: "go_env \<Rightarrow> string list \<Rightarrow> string \<Rightarrow> bool" where
  "contains_fold G values target \<longleftrightarrow> list_ex (\<lambda>v. equal_fold G v target) values"

definition format_bool :: "bool \<Rightarrow> string" where
  "format_bool b = (if b then ''true'' else ''false'')"

subsection \<open>Recording results\<close>

definition add_derived :: "evidence \<Rightarrow> host_analysis \<Rightarrow> host_analysis" where
  "add_derived ev a =
     (if list_ex (\<lambda>e. ev_type e = ev_type ev \<and> ev_source e = ev_source ev) (ha_evidences a) then a
      else add_evidence ev a)"

text \<open>An evidence of the source \<open>INFERENCE\<close> with the fields the code writes.\<close>

definition derived :: "string \<Rightarrow> string \<Rightarrow> int \<Rightarrow> int \<Rightarrow> bool \<Rightarrow> meta \<Rightarrow> evidence" where
  "derived typ desc weight conf neg m =
     \<lparr>ev_type = typ, ev_source = ''INFERENCE'', ev_description = desc, ev_weight = weight,
      ev_confidence = conf, ev_is_negative = neg, ev_metadata = m\<rparr>"

definition infer ::
  "string \<Rightarrow> result_state \<Rightarrow> string \<Rightarrow> string list \<Rightarrow> int \<Rightarrow> int \<Rightarrow> int \<Rightarrow> host_analysis \<Rightarrow> host_analysis"
where
  "infer rule state find_name reasons obs cls imp a = add_inference
     \<lparr>inf_rule = rule, inf_state = state, inf_finding = find_name, inf_reason_codes = reasons,
      inf_observation_confidence = obs, inf_classification_confidence = cls,
      inf_impact_confidence = imp, inf_impact_confirmed = (state = ResultConfirmed)\<rparr> a"

definition remove_derived_evidence :: "host_analysis \<Rightarrow> host_analysis" where
  "remove_derived_evidence a =
     a\<lparr>ha_evidences := filter (\<lambda>e. ev_source e \<noteq> ''INFERENCE'') (ha_evidences a)\<rparr>"

subsection \<open>Correlating the two schemes\<close>

fun count_fields :: "(string \<Rightarrow> nat) \<Rightarrow> string list \<Rightarrow> (string \<Rightarrow> nat)" where
  "count_fields counts [] = counts"
| "count_fields counts (f # fs) = count_fields (counts(f := counts f + 1)) fs"

fun overlap_count :: "(string \<Rightarrow> nat) \<Rightarrow> string list \<Rightarrow> nat" where
  "overlap_count counts [] = 0"
| "overlap_count counts (f # fs) =
     (if counts f > 0 then Suc (overlap_count (counts(f := counts f - 1)) fs)
      else overlap_count counts fs)"

definition fields_similarity :: "string list \<Rightarrow> string list \<Rightarrow> rat" where
  "fields_similarity l r =
     (if l = [] \<or> r = [] then 0
      else fl64 (fl64 (200 * fl64 (of_nat (overlap_count (count_fields (\<lambda>_. 0) l) r)))
        / fl64 (of_nat (length l + length r))))"

definition body_similarity :: "go_env \<Rightarrow> string \<Rightarrow> string \<Rightarrow> string \<Rightarrow> string \<Rightarrow> rat" where
  "body_similarity G left right left_hash right_hash =
     (if left = [] \<and> right = [] then 0
      else if left_hash \<noteq> [] \<and> left_hash = right_hash then 100
      else fields_similarity (go_fields (to_lower G left)) (go_fields (to_lower G right)))"

definition correlate ::
  "go_env \<Rightarrow> http_observation option \<Rightarrow> http_observation option \<Rightarrow> http_correlation" where
  "correlate G http https =
     (let r0 = zero_http_correlation;
          r1 = (case http of None \<Rightarrow> r0 | Some o1 \<Rightarrow> r0\<lparr>
             hc_http_status := ho_status_code o1, hc_http_content_type := ho_content_type o1,
             hc_http_body_hash := ho_body_hash o1, hc_http_body_length := ho_body_length o1,
             hc_http_server := ho_server o1, hc_http_location := ho_location o1,
             hc_http_response_kind := ho_response_kind o1,
             hc_http_edge_provider := ho_edge_provider o1\<rparr>);
          r2 = (case https of None \<Rightarrow> r1 | Some o2 \<Rightarrow> r1\<lparr>
             hc_https_status := ho_status_code o2, hc_https_content_type := ho_content_type o2,
             hc_https_body_hash := ho_body_hash o2, hc_https_body_length := ho_body_length o2,
             hc_https_server := ho_server o2, hc_https_location := ho_location o2,
             hc_https_response_kind := ho_response_kind o2,
             hc_https_edge_provider := ho_edge_provider o2\<rparr>)
      in case (http, https) of
        (Some o1, Some o2) \<Rightarrow>
          (let same = ho_server o1 \<noteq> [] \<and> equal_fold G (ho_server o1) (ho_server o2);
               sim = body_similarity G (ho_normalized_body o1) (ho_normalized_body o2)
                 (ho_body_hash o1) (ho_body_hash o2)
           in r2\<lparr>hc_same_server := same, hc_body_similarity := sim,
                hc_reason_codes := (if ho_status_code o1 = ho_status_code o2 then [''SAME_STATUS''] else []) @
                  (if same then [''SAME_SERVER''] else []) @
                  (if sim \<ge> 90 then [''SIMILAR_CONTENT''] else [])\<rparr>)
      | _ \<Rightarrow> r2)"

subsection \<open>Redirects\<close>

definition https_upgrade :: "go_env \<Rightarrow> host_analysis \<Rightarrow> http_observation \<Rightarrow> string \<times> bool" where
  "https_upgrade G a obs =
     (case map_of (ha_redirects a) ''http'' of
        Some chain \<Rightarrow>
          (let completed = chain_stopped_reason chain = ''FINAL_RESPONSE'' \<or>
             chain_stopped_reason chain = ''DESTINATION_PROVIDER_ERROR''
           in (chain_final_url chain,
               completed \<and> prefix ''https://'' (to_lower G (chain_final_url chain))))
      | None \<Rightarrow>
          if \<not> is_redirect_status (ho_status_code obs) then (ho_location obs, False)
          else (ho_location obs,
            (case url_parse G (ho_location obs) of
               None \<Rightarrow> False
             | Some u \<Rightarrow> equal_fold G (url_scheme u) ''https'' \<and> url_hostname u \<noteq> [])))"

definition https_downgrade :: "go_env \<Rightarrow> host_analysis \<Rightarrow> http_observation \<Rightarrow> string \<times> bool" where
  "https_downgrade G a obs =
     (let by_location = (ho_location obs,
        (case url_parse G (ho_location obs) of
           None \<Rightarrow> False
         | Some u \<Rightarrow> equal_fold G (url_scheme u) ''http'' \<and> url_hostname u \<noteq> []))
      in case map_of (ha_redirects a) ''https'' of
        Some chain \<Rightarrow>
          if prefix ''http://'' (to_lower G (chain_final_url chain)) then (chain_final_url chain, True)
          else by_location
      | None \<Rightarrow> by_location)"

definition inconsistent_https_port :: "go_env \<Rightarrow> string \<Rightarrow> bool" where
  "inconsistent_https_port G location =
     (case url_parse G location of
        None \<Rightarrow> False
      | Some u \<Rightarrow> url_port u \<noteq> [] \<and> url_port u \<noteq> ''443'')"

subsection \<open>HTTP without upgrade\<close>

definition sensitive_names :: "http_observation \<Rightarrow> string list" where
  "sensitive_names obs = map ck_name (filter (\<lambda>c. ck_sensitive c \<and> \<not> ck_secure c) (ho_cookies obs))"

definition analyze_plaintext ::
  "go_env \<Rightarrow> http_observation \<Rightarrow> http_correlation \<Rightarrow> string list \<Rightarrow> host_analysis \<Rightarrow> host_analysis"
where
  "analyze_plaintext G obs corr reasons0 a0 =
     (let sensitive = sensitive_names obs;
          similar = hc_body_similarity corr \<ge> 90;
          reasons = reasons0
            @ (if ho_html_document obs then ''HTML_CONTENT'' #
                 (if similar then [''HTTP_HTTPS_CONTENT_SIMILAR''] else []) else [])
            @ (if ho_password_form obs then [''PASSWORD_FORM''] else [])
            @ (if sensitive \<noteq> [] then [''SENSITIVE_COOKIE_WITHOUT_SECURE''] else []);
          a1 = (if ho_html_document obs then
             add_derived (derived ''PLAINTEXT_WEB_CONTENT'' txt_plaintext 20 95 False
               [(''similarity'', format_f1 (hc_body_similarity corr))]) a0 else a0);
          a2 = (if ho_password_form obs then
             add_derived (derived ''PLAINTEXT_AUTH_INTERFACE'' txt_auth_form 60 100 False []) a1 else a1);
          a3 = (if sensitive \<noteq> [] then
             add_derived (derived ''HTTP_SENSITIVE_COOKIE_WITHOUT_SECURE'' txt_cookie 60 95 False
               [(''cookies'', join_with '','' sensitive)]) a2 else a2);
          hsts_absent = (case get_http_observation a3 ''https'' of
             None \<Rightarrow> False
           | Some o2 \<Rightarrow> ho_complete o2 \<and> header G (ho_headers o2) ''Strict-Transport-Security'' = []);
          priority = 2 + (if similar then 3 else 0) + (if ho_html_document obs then 1 else 0)
            + (if ho_password_form obs then 4 else 0) + (if sensitive \<noteq> [] then 4 else 0)
            + (if hsts_absent then 1 else 0);
          signals = ''HTTP_SERVED'' # (if similar then [''SAME_CONTENT''] else [])
            @ (if ho_html_document obs then [''HTML''] else [])
            @ (if ho_password_form obs then [''LOGIN_FORM''] else [])
            @ (if sensitive \<noteq> [] then [''SENSITIVE_COOKIE''] else [])
            @ (if hsts_absent then [''HSTS_ABSENT''] else []);
          a4 = a3\<lparr>ha_http_correlation := map_option (\<lambda>c. c\<lparr>hc_transport_priority := priority,
             hc_transport_signals := signals\<rparr>) (ha_http_correlation a3)\<rparr>;
          a5 = add_derived (derived ''TRANSPORT_PRIORITY_SCORE'' txt_priority 0 100 False
             [(''score'', itoa priority), (''signals'', join_with '','' signals)]) a4
      in if ho_password_form obs then
           infer ''PLAINTEXT_AUTH_INTERFACE'' ResultConfirmed ''PLAINTEXT_AUTH_INTERFACE'' reasons 100 100 90 a5
         else if sensitive \<noteq> [] then
           infer ''SENSITIVE_COOKIE_OVER_HTTP'' ResultConfirmed ''HTTP_SENSITIVE_COOKIE_WITHOUT_SECURE''
             reasons 100 95 85 a5
         else if ho_html_document obs then
           infer ''PLAINTEXT_WEB_CONTENT'' ResultCandidate ''PLAINTEXT_WEB_CONTENT'' reasons 100 95 45 a5
         else infer ''HTTP_NO_UPGRADE_OBSERVED'' ResultObservation [] reasons 100 80 0 a5)"

text \<open>The reason codes collected before the status is examined.\<close>

definition edge_response :: "http_observation \<Rightarrow> http_observation option \<Rightarrow> bool" where
  "edge_response o1 https \<longleftrightarrow> ho_response_kind o1 = ''EDGE_RESPONSE'' \<or>
     (case https of None \<Rightarrow> False | Some o2 \<Rightarrow> ho_response_kind o2 = ''EDGE_RESPONSE'')"

definition add_edge_provider :: "go_env \<Rightarrow> string list \<Rightarrow> string \<Rightarrow> string list" where
  "add_edge_provider G reasons provider =
     (if provider \<noteq> [] \<and> \<not> contains_fold G reasons (''EDGE_PROVIDER_'' @ provider)
      then reasons @ [''EDGE_PROVIDER_'' @ provider] else reasons)"

definition no_upgrade_reasons :: "go_env \<Rightarrow> http_observation \<Rightarrow> http_observation option \<Rightarrow> string list" where
  "no_upgrade_reasons G o1 https =
     (let r0 = [''HTTP_NO_HTTPS_UPGRADE'', ''HTTP_STATUS_'' @ itoa (ho_status_code o1)]
            @ (if edge_response o1 https then [''EDGE_RESPONSE''] else []);
          r1 = add_edge_provider G r0 (ho_edge_provider o1);
          r2 = (case https of None \<Rightarrow> r1 | Some o2 \<Rightarrow> add_edge_provider G r1 (ho_edge_provider o2))
      in case https of
           Some o2 \<Rightarrow> if ho_complete o2 then r2 @ [''HTTPS_STATUS_'' @ itoa (ho_status_code o2)] else r2
         | None \<Rightarrow> r2)"

text \<open>The switch on the status of an HTTP response that does not upgrade.\<close>

definition analyze_no_upgrade ::
  "go_env \<Rightarrow> http_observation \<Rightarrow> http_observation option \<Rightarrow> http_correlation \<Rightarrow> host_analysis \<Rightarrow> host_analysis"
where
  "analyze_no_upgrade G o1 https corr a =
     (let reasons = no_upgrade_reasons G o1 https; edge = edge_response o1 https in
      if blocked_status (ho_status_code o1) then
        (let a1 = add_derived (derived ''HTTP_BLOCKED_WITHOUT_REDIRECT'' txt_blocked 0 100 False []) a;
             a2 = (if edge then add_derived (derived ''HTTP_EDGE_BLOCK'' txt_edge_block 0 95 False []) a1 else a1)
         in infer (if edge then ''EDGE_BLOCKED_NO_EXPOSURE'' else ''HTTP_BLOCKED_NO_EXPOSURE'')
              ResultSuppressed (if edge then [] else ''HTTP_BLOCKED_WITHOUT_REDIRECT'') reasons 100 95 0 a2)
      else if unavailable_status (ho_status_code o1) then
        infer ''HTTP_RESOURCE_NOT_AVAILABLE'' ResultSuppressed [] reasons 100 95 0
          (add_derived (derived ''RESOURCE_NOT_AVAILABLE'' txt_not_available 0 100 False []) a)
      else if ho_status_code o1 \<ge> 500 then
        infer ''HTTP_ERROR_NO_EXPOSURE'' ResultSuppressed [] reasons 100 90 0
          (add_derived (derived ''HTTP_ERROR_WITHOUT_REDIRECT'' txt_http_error 0 100 False []) a)
      else if ho_status_code o1 \<ge> 200 \<and> ho_status_code o1 < 300 then
        analyze_plaintext G o1 corr reasons a
      else infer ''HTTP_NO_UPGRADE_OBSERVED'' ResultObservation [] reasons 100 80 0 a)"

definition analyze_upgrade_missing ::
  "go_env \<Rightarrow> http_observation \<Rightarrow> http_observation option \<Rightarrow> http_correlation \<Rightarrow> host_analysis \<Rightarrow> host_analysis"
where
  "analyze_upgrade_missing G o1 https corr a =
     (let a1 = add_derived (derived ''HTTP_NO_HTTPS_UPGRADE'' txt_no_upgrade 0 100 False
            [(''status'', itoa (ho_status_code o1)), (''location'', ho_location o1)]) a;
          https_ok = (case https of None \<Rightarrow> False | Some o2 \<Rightarrow> ho_complete o2);
          a2 = (if \<not> https_ok then
             add_derived (derived ''HTTPS_UNAVAILABLE'' txt_https_unavailable 0 80 False []) a1 else a1)
      in analyze_no_upgrade G o1 https corr a2)"

definition analyze_upgraded :: "go_env \<Rightarrow> string \<Rightarrow> host_analysis \<Rightarrow> host_analysis" where
  "analyze_upgraded G upgrade_url a =
     (let a1 = add_derived (derived ''HTTP_HTTPS_UPGRADE_PRESENT'' txt_upgrade 0 100 False
            [(''location'', upgrade_url)]) a
      in if inconsistent_https_port G upgrade_url then
           infer ''HTTP_UPGRADE_NONSTANDARD_PORT'' ResultCandidate ''HTTP_HTTPS_PORT_INCONSISTENT''
             [''HTTP_REDIRECTS_TO_NONSTANDARD_HTTPS_PORT''] 100 85 35
             (add_derived (derived ''HTTP_HTTPS_PORT_INCONSISTENT'' txt_port 10 100 False
               [(''location'', upgrade_url)]) a1)
         else infer ''HTTP_HTTPS_UPGRADE'' ResultHealthy [] [''HTTP_REDIRECTS_TO_HTTPS''] 100 100 0 a1)"

definition analyze_downgrade :: "go_env \<Rightarrow> http_observation option \<Rightarrow> host_analysis \<Rightarrow> host_analysis" where
  "analyze_downgrade G https a =
     (case https of
        None \<Rightarrow> a
      | Some o2 \<Rightarrow>
          (if ho_complete o2 \<and> is_redirect_status (ho_status_code o2) then
             (case https_downgrade G a o2 of
                (target, True) \<Rightarrow>
                  infer ''HTTPS_DOWNGRADE'' ResultCandidate ''HTTPS_DOWNGRADE_REDIRECT''
                    [''HTTPS_REDIRECTS_TO_HTTP''] 100 95 70
                    (add_derived (derived ''HTTPS_DOWNGRADE_REDIRECT'' txt_downgrade 15 100 False
                      [(''location'', target)]) a)
              | _ \<Rightarrow> a)
           else a))"

definition record_correlation ::
  "http_observation option \<Rightarrow> http_observation option \<Rightarrow> http_correlation \<Rightarrow> host_analysis \<Rightarrow> host_analysis"
where
  "record_correlation http https corr a =
     (let a1 = set_http_correlation corr a in
      case (http, https) of
        (Some o1, Some o2) \<Rightarrow>
          (if ho_complete o1 \<and> ho_complete o2 \<and> hc_body_similarity corr \<ge> 90 then
             add_derived (derived ''HTTP_HTTPS_CONTENT_CORRELATED'' txt_correlated 0 95 False
               [(''similarity'', format_f1 (hc_body_similarity corr))]) a1
           else a1)
      | _ \<Rightarrow> a1)"

definition analyze_upgrade ::
  "go_env \<Rightarrow> http_observation \<Rightarrow> http_observation option \<Rightarrow> http_correlation \<Rightarrow> host_analysis \<Rightarrow> host_analysis"
where
  "analyze_upgrade G o1 https corr a =
     (case https_upgrade G a o1 of
        (upgrade_url, upgraded) \<Rightarrow>
          if upgraded then analyze_upgraded G upgrade_url a
          else analyze_upgrade_missing G o1 https corr a)"

definition analyze_http :: "go_env \<Rightarrow> host_analysis \<Rightarrow> host_analysis" where
  "analyze_http G a =
     (let http = get_http_observation a ''http''; https = get_http_observation a ''https'' in
      if http = None \<and> https = None then a
      else
        (let corr = correlate G http https;
             a3 = analyze_downgrade G https (record_correlation http https corr a)
         in case http of
              None \<Rightarrow> a3
            | Some o1 \<Rightarrow> if \<not> ho_complete o1 then a3 else analyze_upgrade G o1 https corr a3))"

subsection \<open>Redirect chains and response headers\<close>

definition analyze_chain :: "redirect_chain \<Rightarrow> host_analysis \<Rightarrow> host_analysis" where
  "analyze_chain chain a =
     (if chain_hops chain = [] then a
      else
        (let hop = last (chain_hops chain); why = chain_stopped_reason chain in
         if why \<in> {''DESTINATION_NXDOMAIN'', ''DESTINATION_NO_DATA''} then
           infer ''REDIRECT_DESTINATION_DNS_MISSING'' ResultCandidate ''DANGLING_REDIRECT''
             [''REDIRECT_LOCATION_PRESENT'', ''DESTINATION_'' @ dns_status_text (hop_dns_status hop)] 100 95 35
             (add_derived (derived ''DANGLING_REDIRECT'' txt_dangling 20 95 False
               [(''target_host'', hop_hostname hop), (''target_url'', hop_url hop),
                (''dns_status'', dns_status_text (hop_dns_status hop)),
                (''cname'', join_with '','' (hop_cname hop))]) a)
         else if why \<in> {''DESTINATION_SERVFAIL'', ''DESTINATION_TIMEOUT'', ''DESTINATION_REFUSED'',
             ''DESTINATION_ERROR''} then
           infer ''REDIRECT_DESTINATION_INCONCLUSIVE'' ResultInconclusive []
             [''REDIRECT_LOCATION_PRESENT'', why] 100 70 0 a
         else if why = ''DESTINATION_PROVIDER_ERROR'' then
           infer ''REDIRECT_DESTINATION_PROVIDER_ERROR'' ResultCandidate ''DANGLING_REDIRECT''
             [''REDIRECT_LOCATION_PRESENT'', ''PROVIDER_SPECIFIC_ERROR''] 100 95 45
             (add_derived (derived ''DANGLING_REDIRECT'' txt_provider_error 20 95 False
               [(''target_host'', hop_hostname hop), (''target_url'', hop_url hop),
                (''provider'', hop_provider hop), (''matched_fingerprint'', hop_matched_fingerprint hop),
                (''http_status'', itoa (hop_status_code hop))]) a)
         else if why = ''UNSUPPORTED_PROTOCOL'' then
           infer ''UNSUPPORTED_PROTOCOL'' ResultInconclusive []
             [''REDIRECT_LOCATION_PRESENT'', ''UNSUPPORTED_PROTOCOL''] 100 100 0 a
         else a))"

definition analyze_redirects :: "host_analysis \<Rightarrow> host_analysis" where
  "analyze_redirects a = fold (\<lambda>(_, chain). analyze_chain chain) (ha_redirects a) a"

fun hsts_directives :: "go_env \<Rightarrow> string list \<Rightarrow> string" where
  "hsts_directives G [] = []"
| "hsts_directives G (d # ds) =
     (let (name, amount, ok) = cut_at CHR ''='' (trim_space d) in
      if ok \<and> equal_fold G (trim_space name) ''max-age'' then trim_space amount
      else hsts_directives G ds)"

definition hsts_max_age :: "go_env \<Rightarrow> string \<Rightarrow> string" where
  "hsts_max_age G value = hsts_directives G (split_on CHR '';'' value)"

definition analyze_headers :: "go_env \<Rightarrow> host_analysis \<Rightarrow> host_analysis" where
  "analyze_headers G a =
     (if \<not> contains_fold G (ha_tested_vectors a) ''SEC_HEADERS'' then a
      else case get_http_observation a ''https'' of
        None \<Rightarrow> a
      | Some obs \<Rightarrow>
        if \<not> ho_complete obs then a
        else
          (let hsts = header G (ho_headers obs) ''Strict-Transport-Security'';
               csp = header G (ho_headers obs) ''Content-Security-Policy'';
               lower = to_lower G hsts;
               a1 = (if hsts = [] then
                 infer ''HSTS_POSTURE_ONLY'' ResultObservation [] [''HTTPS_RESPONSE'', ''HSTS_ABSENT''] 100 100 0
                   (add_derived (derived ''HTTPS_HSTS_ABSENT'' txt_hsts_absent 0 100 False []) a)
               else
                 add_derived (derived ''HTTPS_HSTS_PRESENT'' txt_hsts_present 0 100 True
                   [(''value'', hsts), (''max_age'', hsts_max_age G hsts),
                    (''include_subdomains'', format_bool (contains_str lower ''includesubdomains'')),
                    (''preload'', format_bool (contains_str lower ''preload''))]) a)
           in if ho_status_code obs < 200 \<or> ho_status_code obs \<ge> 300 \<or> \<not> ho_html_document obs then a1
              else if csp = [] then
                infer ''CSP_HARDENING_ONLY'' ResultObservation []
                  [''HTTPS_STATUS_2XX'', ''HTML_CONTENT'', ''CSP_ABSENT''] 100 100 0
                  (add_derived (derived ''HTTPS_CSP_ABSENT'' txt_csp_absent 0 100 False []) a1)
              else add_derived (derived ''HTTPS_CSP_PRESENT'' txt_csp_present 0 100 True []) a1))"

text \<open>\<open>Analyze\<close>: forget what an earlier run derived, then run the three analyses in order.\<close>

definition reset_inference :: "host_analysis \<Rightarrow> host_analysis" where
  "reset_inference a = remove_derived_evidence
     (a\<lparr>ha_inferences := [], ha_decision := None, ha_result_state := ResultUnset,
        ha_http_correlation := None\<rparr>)"

definition analyze :: "go_env \<Rightarrow> host_analysis \<Rightarrow> host_analysis" where
  "analyze G a = analyze_headers G (analyze_redirects (analyze_http G (reset_inference a)))"

lemma derived_source [simp]: "ev_source (derived t d w c n m) = ''INFERENCE''"
  by (simp add: derived_def)

lemma derived_type [simp]: "ev_type (derived t d w c n m) = t"
  by (simp add: derived_def)

subsection \<open>Invariants of the derivation\<close>

text \<open>
  The analysis changes its argument through four operations only. A property that each of
  them keeps is kept by every handler; the handlers are walked once, here.
\<close>

locale handler_invariant =
  fixes inv :: "host_analysis \<Rightarrow> bool"
  assumes inv_add: "inv a \<Longrightarrow> inv (add_derived (derived t d w c n m) a)"
    and inv_infer: "inv a \<Longrightarrow> s \<noteq> ResultConfirmed \<Longrightarrow> inv (infer r s f rs x y z a)"
    and inv_set: "inv a \<Longrightarrow> inv (set_http_correlation corr a)"
    and inv_update: "inv a \<Longrightarrow> inv (ha_http_correlation_update g a)"
    and inv_plaintext: "inv a \<Longrightarrow> inv (analyze_plaintext G obs corr rs a)"
begin

lemma inv_if: "(c \<Longrightarrow> inv a) \<Longrightarrow> (\<not> c \<Longrightarrow> inv b) \<Longrightarrow> inv (if c then a else b)"
  by simp

lemma inv_option: "inv x \<Longrightarrow> (\<And>v. inv (f v)) \<Longrightarrow> inv (case y of None \<Rightarrow> x | Some v \<Rightarrow> f v)"
  by (cases y) simp_all

lemma inv_prod: "(\<And>x y. inv (f x y)) \<Longrightarrow> inv (case p of (x, y) \<Rightarrow> f x y)"
  by (cases p) simp

lemmas inv_intros = inv_if inv_option inv_prod inv_add inv_infer inv_set inv_update

lemma inv_no_upgrade: "inv a \<Longrightarrow> inv (analyze_no_upgrade G o1 https corr a)"
  unfolding analyze_no_upgrade_def Let_def by (intro inv_intros inv_plaintext) simp_all

lemma inv_upgrade: "inv a \<Longrightarrow> inv (analyze_upgrade G o1 https corr a)"
  unfolding analyze_upgrade_def analyze_upgraded_def analyze_upgrade_missing_def Let_def
  by (intro inv_intros inv_no_upgrade) simp_all

lemma inv_downgrade: "inv a \<Longrightarrow> inv (analyze_downgrade G https a)"
  unfolding analyze_downgrade_def
  by (auto intro!: inv_intros split: option.split prod.split bool.split)

lemma inv_record: "inv a \<Longrightarrow> inv (record_correlation http https corr a)"
  unfolding record_correlation_def Let_def prod.case by (intro inv_intros)

lemma inv_http: "inv a \<Longrightarrow> inv (analyze_http G a)"
  unfolding analyze_http_def Let_def by (intro inv_intros inv_upgrade inv_downgrade inv_record)

lemma inv_chains: "inv a \<Longrightarrow> inv (fold (\<lambda>(_, c). analyze_chain c) cs a)"
proof (induction cs arbitrary: a)
  case (Cons c cs)
  have "inv (analyze_chain (snd c) a)"
    using Cons.prems unfolding analyze_chain_def Let_def by (intro inv_intros) simp_all
  then show ?case by (cases c) (simp add: Cons.IH)
qed simp

lemma inv_headers: "inv a \<Longrightarrow> inv (analyze_headers G a)"
  unfolding analyze_headers_def Let_def by (intro inv_intros) simp_all

lemma inv_analyze: "inv (reset_inference a) \<Longrightarrow> inv (analyze G a)"
  unfolding analyze_def analyze_redirects_def by (intro inv_headers inv_chains inv_http)

end

text \<open>
  A property that the four operations keep whatever is inferred is kept by the plaintext
  handler too, the only one that confirms an impact.
\<close>

locale derivation_invariant =
  fixes inv :: "host_analysis \<Rightarrow> bool"
  assumes keeps_add: "inv a \<Longrightarrow> inv (add_derived (derived t d w c n m) a)"
    and keeps_infer: "inv a \<Longrightarrow> inv (infer r s f rs x y z a)"
    and keeps_set: "inv a \<Longrightarrow> inv (set_http_correlation corr a)"
    and keeps_update: "inv a \<Longrightarrow> inv (ha_http_correlation_update g a)"
begin

lemma keeps_if: "(c \<Longrightarrow> inv a) \<Longrightarrow> (\<not> c \<Longrightarrow> inv b) \<Longrightarrow> inv (if c then a else b)"
  by simp

lemma keeps_plaintext: "inv a \<Longrightarrow> inv (analyze_plaintext G obs corr rs a)"
  unfolding analyze_plaintext_def Let_def
  by (intro keeps_if keeps_add keeps_infer keeps_set keeps_update)

end

sublocale derivation_invariant \<subseteq> handler_invariant inv
  by unfold_locales (blast intro: keeps_add keeps_infer keeps_set keeps_update keeps_plaintext)+

subsection \<open>What the analysis leaves alone\<close>

text \<open>Every step writes only what \<open>reset_inference\<close> erases.\<close>

interpretation frame: derivation_invariant "\<lambda>b. reset_inference b = r" for r
  by unfold_locales
    (auto simp: reset_inference_def remove_derived_evidence_def add_derived_def add_evidence_def
      infer_def add_inference_def set_http_correlation_def)

lemma reset_reset [frame_simps]: "reset_inference (reset_inference a) = reset_inference a"
  by (simp add: reset_inference_def remove_derived_evidence_def)

lemma reset_steps [frame_simps]:
  "reset_inference (analyze_http G a) = reset_inference a"
  "reset_inference (fold (\<lambda>(_, c). analyze_chain c) cs a) = reset_inference a"
  "reset_inference (analyze_headers G a) = reset_inference a"
  "reset_inference (analyze_downgrade G https a) = reset_inference a"
  "reset_inference (record_correlation http https corr a) = reset_inference a"
  by (rule frame.inv_http frame.inv_chains frame.inv_headers frame.inv_downgrade frame.inv_record,
      rule refl)+

lemma reset_analyze [frame_simps]: "reset_inference (analyze G a) = reset_inference a"
  by (rule frame.inv_analyze) (rule reset_reset)

lemma analyze_reset: "analyze G (reset_inference a) = analyze G a"
  by (simp add: analyze_def frame_simps)

text \<open>Consequences for the fields the inference never writes: any reading \<open>f\<close> that ignores
  what \<open>reset_inference\<close> erases is unchanged.\<close>

lemma analyze_frame:
  assumes "\<And>b. f (reset_inference b) = f b"
  shows "f (analyze G a) = f a"
  by (metis assms reset_analyze)

lemma analyze_fields [simp]:
  "ha_host (analyze G a) = ha_host a"
  "ha_dns (analyze G a) = ha_dns a"
  "ha_http_observations (analyze G a) = ha_http_observations a"
  "ha_redirects (analyze G a) = ha_redirects a"
  "ha_tested_vectors (analyze G a) = ha_tested_vectors a"
  "ha_verification_score (analyze G a) = ha_verification_score a"
  "ha_active_verification (analyze G a) = ha_active_verification a"
  "ha_provider_candidates (analyze G a) = ha_provider_candidates a"
  "ha_classification (analyze G a) = ha_classification a"
  by (rule analyze_frame, simp add: reset_inference_def remove_derived_evidence_def)+

subsection \<open>What is derived\<close>

text \<open>The kinds of evidence that state an exposure, and when the code may conclude one.\<close>

definition exposure_type :: "string \<Rightarrow> bool" where
  "exposure_type t \<longleftrightarrow> t \<in> {''PLAINTEXT_WEB_CONTENT'', ''PLAINTEXT_AUTH_INTERFACE'',
     ''HTTP_SENSITIVE_COOKIE_WITHOUT_SECURE''}"

definition serves_plaintext :: "go_env \<Rightarrow> host_analysis \<Rightarrow> bool" where
  "serves_plaintext G a \<longleftrightarrow> (\<exists>o1. get_http_observation a ''http'' = Some o1 \<and> ho_complete o1 \<and>
     200 \<le> ho_status_code o1 \<and> ho_status_code o1 < 300 \<and> \<not> snd (https_upgrade G a o1))"

definition serves_secret :: "host_analysis \<Rightarrow> bool" where
  "serves_secret a \<longleftrightarrow> (\<exists>o1. get_http_observation a ''http'' = Some o1 \<and>
     (ho_password_form o1 \<or> sensitive_names o1 \<noteq> []))"

text \<open>An invariant of the inferences and of the derived evidence, kept step by step.\<close>

definition conclusions_ok :: "bool \<Rightarrow> bool \<Rightarrow> host_analysis \<Rightarrow> bool" where
  "conclusions_ok plain secret a \<longleftrightarrow>
     (\<forall>i \<in> set (ha_inferences a). (inf_state i = ResultConfirmed \<longrightarrow> plain \<and> secret) \<and>
        (inf_impact_confirmed i \<longleftrightarrow> inf_state i = ResultConfirmed)) \<and>
     (\<forall>e \<in> set (ha_evidences a). ev_source e = ''INFERENCE'' \<longrightarrow> exposure_type (ev_type e) \<longrightarrow> plain)"

lemma ok_reset: "conclusions_ok p s (reset_inference a)"
  by (simp add: conclusions_ok_def reset_inference_def remove_derived_evidence_def)

lemma ok_add:
  "conclusions_ok p s a \<Longrightarrow> exposure_type t \<longrightarrow> p \<Longrightarrow> conclusions_ok p s (add_derived (derived t d w c n m) a)"
  unfolding conclusions_ok_def add_derived_def add_evidence_def by auto

lemma ok_infer:
  "conclusions_ok p s a \<Longrightarrow> st = ResultConfirmed \<longrightarrow> p \<and> s \<Longrightarrow> conclusions_ok p s (infer r st f rs x y z a)"
  unfolding conclusions_ok_def infer_def add_inference_def by auto

lemma ok_if:
  "(c \<Longrightarrow> conclusions_ok p s a) \<Longrightarrow> (\<not> c \<Longrightarrow> conclusions_ok p s b) \<Longrightarrow>
   conclusions_ok p s (if c then a else b)"
  by simp

lemma ok_correlation:
  "conclusions_ok p s a \<Longrightarrow> conclusions_ok p s (set_http_correlation c a)"
  "conclusions_ok p s a \<Longrightarrow> conclusions_ok p s (ha_http_correlation_update g a)"
  by (simp_all add: conclusions_ok_def set_http_correlation_def)

lemmas ok_intros = ok_if ok_add ok_infer ok_correlation

lemma not_exposure [simp]:
  "\<not> exposure_type ''TRANSPORT_PRIORITY_SCORE''" "\<not> exposure_type ''HTTP_BLOCKED_WITHOUT_REDIRECT''"
  "\<not> exposure_type ''HTTP_EDGE_BLOCK''" "\<not> exposure_type ''RESOURCE_NOT_AVAILABLE''"
  "\<not> exposure_type ''HTTP_ERROR_WITHOUT_REDIRECT''" "\<not> exposure_type ''HTTP_NO_HTTPS_UPGRADE''"
  "\<not> exposure_type ''HTTPS_UNAVAILABLE''" "\<not> exposure_type ''HTTP_HTTPS_UPGRADE_PRESENT''"
  "\<not> exposure_type ''HTTP_HTTPS_PORT_INCONSISTENT''" "\<not> exposure_type ''HTTPS_DOWNGRADE_REDIRECT''"
  "\<not> exposure_type ''HTTP_HTTPS_CONTENT_CORRELATED''" "\<not> exposure_type ''DANGLING_REDIRECT''"
  "\<not> exposure_type ''HTTPS_HSTS_ABSENT''" "\<not> exposure_type ''HTTPS_HSTS_PRESENT''"
  "\<not> exposure_type ''HTTPS_CSP_ABSENT''" "\<not> exposure_type ''HTTPS_CSP_PRESENT''"
  by (simp_all add: exposure_type_def)

lemma plaintext_ok:
  assumes "conclusions_ok True secret a"
    and "ho_password_form obs \<or> sensitive_names obs \<noteq> [] \<Longrightarrow> secret"
  shows "conclusions_ok True secret (analyze_plaintext G obs corr rs a)"
  unfolding analyze_plaintext_def Let_def
  by (intro ok_intros assms(1)) (use assms(2) in auto)

lemma no_upgrade_ok:
  assumes "conclusions_ok plain secret a"
    and "200 \<le> ho_status_code o1 \<and> ho_status_code o1 < 300 \<Longrightarrow> plain"
    and "ho_password_form o1 \<or> sensitive_names o1 \<noteq> [] \<Longrightarrow> secret"
  shows "conclusions_ok plain secret (analyze_no_upgrade G o1 https corr a)"
proof (cases "200 \<le> ho_status_code o1 \<and> ho_status_code o1 < 300")
  case True
  with assms have plain by blast
  with True assms show ?thesis
    by (auto simp: analyze_no_upgrade_def Let_def blocked_status_def unavailable_status_def
        intro!: plaintext_ok)
next
  case False
  then show ?thesis
    unfolding analyze_no_upgrade_def Let_def
    by (intro ok_intros assms(1)) auto
qed

lemma upgrade_missing_ok:
  assumes "conclusions_ok plain secret a"
    and "200 \<le> ho_status_code o1 \<and> ho_status_code o1 < 300 \<Longrightarrow> plain"
    and "ho_password_form o1 \<or> sensitive_names o1 \<noteq> [] \<Longrightarrow> secret"
  shows "conclusions_ok plain secret (analyze_upgrade_missing G o1 https corr a)"
  unfolding analyze_upgrade_missing_def Let_def
  by (intro no_upgrade_ok ok_intros assms(1)) (use assms(2,3) in auto)

lemma upgraded_ok:
  "conclusions_ok plain secret a \<Longrightarrow> conclusions_ok plain secret (analyze_upgraded G u a)"
  unfolding analyze_upgraded_def Let_def by (intro ok_intros) auto

lemma downgrade_ok:
  "conclusions_ok plain secret a \<Longrightarrow> conclusions_ok plain secret (analyze_downgrade G https a)"
  unfolding analyze_downgrade_def
  by (auto intro!: ok_intros split: option.split prod.split bool.split)

lemma chain_ok:
  "conclusions_ok plain secret a \<Longrightarrow> conclusions_ok plain secret (analyze_chain c a)"
  unfolding analyze_chain_def Let_def by (intro ok_intros) auto

lemma chains_ok:
  "conclusions_ok plain secret a \<Longrightarrow>
   conclusions_ok plain secret (fold (\<lambda>(_, c). analyze_chain c) cs a)"
  by (induction cs arbitrary: a) (auto simp: chain_ok)

lemma headers_ok:
  "conclusions_ok plain secret a \<Longrightarrow> conclusions_ok plain secret (analyze_headers G a)"
  unfolding analyze_headers_def Let_def
  by (cases "get_http_observation a ''https''") (auto intro!: ok_intros)

text \<open>The fields the steps read are those of the analysis they started from.\<close>

lemma frame_reset:
  assumes "reset_inference a = reset_inference b"
  shows "ha_redirects a = ha_redirects b" and "ha_http_observations a = ha_http_observations b"
  using arg_cong [OF assms, of ha_redirects] arg_cong [OF assms, of ha_http_observations]
  by (simp_all add: reset_inference_def remove_derived_evidence_def)

lemma https_upgrade_frame:
  assumes "reset_inference a = reset_inference b"
  shows "https_upgrade G a = https_upgrade G b"
  by (rule ext) (simp only: https_upgrade_def frame_reset(1) [OF assms])

lemma record_ok:
  "conclusions_ok p s a \<Longrightarrow> conclusions_ok p s (record_correlation http https corr a)"
  unfolding record_correlation_def Let_def by (auto intro!: ok_intros split: option.split)

lemma upgrade_ok:
  assumes "conclusions_ok (serves_plaintext G a) (serves_secret a) b"
    and "reset_inference b = reset_inference a"
    and "get_http_observation a ''http'' = Some o1" and "ho_complete o1"
  shows "conclusions_ok (serves_plaintext G a) (serves_secret a) (analyze_upgrade G o1 https corr b)"
proof (cases "https_upgrade G b o1")
  case (Pair u upgraded)
  have "https_upgrade G a o1 = (u, upgraded)"
    using https_upgrade_frame [OF assms(2)] Pair by simp
  with assms Pair show ?thesis
    by (auto simp: analyze_upgrade_def serves_plaintext_def serves_secret_def
        intro!: upgraded_ok upgrade_missing_ok)
qed

lemma http_ok:
  "conclusions_ok (serves_plaintext G a) (serves_secret a) (analyze_http G (reset_inference a))"
  (is "?ok (analyze_http G ?b)")
proof -
  have obs: "get_http_observation ?b s = get_http_observation a s" for s
    by (simp add: get_http_observation_def reset_inference_def remove_derived_evidence_def)
  define http where "http = get_http_observation a ''http''"
  define https where "https = get_http_observation a ''https''"
  define corr where "corr = correlate G http https"
  define a3 where "a3 = analyze_downgrade G https (record_correlation http https corr ?b)"
  have a3: "?ok a3" "reset_inference a3 = reset_inference a"
    by (simp_all add: a3_def downgrade_ok record_ok ok_reset frame_simps)
  have "analyze_http G ?b = (if http = None \<and> https = None then ?b else case http of
      None \<Rightarrow> a3
    | Some o1 \<Rightarrow> if \<not> ho_complete o1 then a3 else analyze_upgrade G o1 https corr a3)"
    by (simp only: analyze_http_def Let_def obs http_def https_def corr_def a3_def)
  moreover have "?ok (analyze_upgrade G o1 https corr a3)" if "http = Some o1" "ho_complete o1" for o1
    using that by (intro upgrade_ok a3) (simp_all add: http_def)
  ultimately show ?thesis
    by (cases http) (simp_all add: a3(1) ok_reset)
qed

lemma analyze_ok: "conclusions_ok (serves_plaintext G a) (serves_secret a) (analyze G a)"
  by (simp add: analyze_def analyze_redirects_def headers_ok chains_ok http_ok)

subsection \<open>No derived type twice\<close>

definition derived_types :: "host_analysis \<Rightarrow> string list" where
  "derived_types a = map ev_type (filter (\<lambda>e. ev_source e = ''INFERENCE'') (ha_evidences a))"

interpretation once: derivation_invariant "\<lambda>a. distinct (derived_types a)"
  by unfold_locales
    (auto simp: derived_types_def add_derived_def add_evidence_def infer_def add_inference_def
      set_http_correlation_def list_ex_iff)

subsection \<open>A confirmed inference is backed by evidence\<close>

definition confirmed_backed :: "host_analysis \<Rightarrow> bool" where
  "confirmed_backed a \<longleftrightarrow> (list_ex (\<lambda>i. inf_state i = ResultConfirmed) (ha_inferences a) \<longrightarrow>
     has_type (ha_evidences a) ''PLAINTEXT_AUTH_INTERFACE'' \<or>
     has_type (ha_evidences a) ''HTTP_SENSITIVE_COOKIE_WITHOUT_SECURE'')"

lemma has_type_add_derived:
  "has_type (ha_evidences (add_derived ev a)) t \<longleftrightarrow> has_type (ha_evidences a) t \<or> ev_type ev = t"
  by (auto simp: add_derived_def add_evidence_def has_type_def list_ex_iff)

lemma has_type_infer [simp]: "ha_evidences (infer r s f rs x y z a) = ha_evidences a"
  by (simp add: infer_def add_inference_def)

lemma inferences_add_derived [simp]: "ha_inferences (add_derived ev a) = ha_inferences a"
  by (simp add: add_derived_def add_evidence_def)

lemma backed_infer:
  "confirmed_backed a \<Longrightarrow> s \<noteq> ResultConfirmed \<or> has_type (ha_evidences a) ''PLAINTEXT_AUTH_INTERFACE'' \<or>
     has_type (ha_evidences a) ''HTTP_SENSITIVE_COOKIE_WITHOUT_SECURE'' \<Longrightarrow>
   confirmed_backed (infer r s f rs x y z a)"
  by (auto simp: confirmed_backed_def infer_def add_inference_def)

lemma backed_add: "confirmed_backed a \<Longrightarrow> confirmed_backed (add_derived ev a)"
  by (auto simp: confirmed_backed_def has_type_add_derived)

lemma backed_update:
  "confirmed_backed a \<Longrightarrow> confirmed_backed (ha_http_correlation_update g a)"
  "confirmed_backed a \<Longrightarrow> confirmed_backed (set_http_correlation c a)"
  by (simp_all add: confirmed_backed_def set_http_correlation_def)

lemma backed_if: "(c \<Longrightarrow> confirmed_backed a) \<Longrightarrow> (\<not> c \<Longrightarrow> confirmed_backed b) \<Longrightarrow>
    confirmed_backed (if c then a else b)"
  by simp

lemma backed_plaintext:
  assumes "confirmed_backed a"
  shows "confirmed_backed (analyze_plaintext G obs corr rs a)"
  unfolding analyze_plaintext_def Let_def
  by (intro backed_if backed_infer backed_add backed_update assms) (simp_all add: has_type_add_derived)

interpretation backed: handler_invariant confirmed_backed
  by unfold_locales (blast intro: backed_add backed_infer backed_update backed_plaintext)+

lemma analyze_confirmed_backed: "confirmed_backed (analyze G a)"
  by (rule backed.inv_analyze)
    (simp add: confirmed_backed_def reset_inference_def remove_derived_evidence_def)

subsection \<open>Similarity of two bodies\<close>

lemma count_fields_count: "count_fields c fs f = c f + count (mset fs) f"
  by (induction fs arbitrary: c) auto

text \<open>The counting loop computes the size of the multiset intersection.\<close>

lemma overlap_count_inter:
  "(\<And>f. counts f = count M f) \<Longrightarrow> overlap_count counts fs = size (M \<inter># mset fs)"
proof (induction fs arbitrary: counts M)
  case (Cons f fs)
  show ?case
  proof (cases "f \<in># M")
    case True
    then obtain N where N: "M = add_mset f N" by (blast dest: multi_member_split)
    have "overlap_count (counts(f := counts f - 1)) fs = size (N \<inter># mset fs)"
      using Cons.prems by (intro Cons.IH) (simp add: N)
    with True Cons.prems [of f] N show ?thesis by simp
  next
    case False
    with Cons show ?thesis by (simp add: not_in_iff inter_add_right1)
  qed
qed simp

definition common_fields :: "string list \<Rightarrow> string list \<Rightarrow> nat" where
  "common_fields l r = size (mset l \<inter># mset r)"

lemma fields_similarity_alt:
  "fields_similarity l r =
     (if l = [] \<or> r = [] then 0
      else fl64 (fl64 (200 * fl64 (of_nat (common_fields l r))) / fl64 (of_nat (length l + length r))))"
  using overlap_count_inter [of "count_fields (\<lambda>_. 0) l" "mset l" r]
  by (simp add: fields_similarity_def common_fields_def count_fields_count)

lemma common_fields_sym: "common_fields l r = common_fields r l"
  by (simp add: common_fields_def subset_mset.inf_commute)

lemma common_fields_le:
  "common_fields l r \<le> length l" "common_fields l r \<le> length r"
  unfolding common_fields_def
  using size_mset_mono [of "mset l \<inter># mset r" "mset l"] size_mset_mono [of "mset l \<inter># mset r" "mset r"]
  by auto

lemma fields_similarity_bounds:
  assumes "length l + length r < 2 ^ 45"
  shows "0 \<le> fields_similarity l r \<and> fields_similarity l r \<le> 100"
proof (cases "l = [] \<or> r = []")
  case False
  let ?c = "common_fields l r" and ?n = "length l + length r"
  have n: "0 < ?n" and c: "2 * ?c \<le> ?n" using False common_fields_le [of l r] by auto
  have "fl64 (of_nat ?c) = of_nat ?c" "fl64 (of_nat ?n) = of_nat ?n"
    using fl64_of_int [of "int ?c"] fl64_of_int [of "int ?n"] c assms by simp_all
  moreover have "fl64 (200 * of_nat ?c) = 200 * of_nat ?c"
    using fl64_of_int [of "200 * int ?c"] c assms by simp
  ultimately have s: "fields_similarity l r = fl64 (200 * of_nat ?c / of_nat ?n)"
    using False by (simp add: fields_similarity_alt)
  have "(of_nat (2 * ?c) :: rat) \<le> of_nat ?n" using c by (simp only: of_nat_le_iff)
  then have "(200 * of_nat ?c :: rat) \<le> 100 * of_nat ?n" by simp
  then have "(200 * of_nat ?c / of_nat ?n :: rat) \<le> of_int 100"
    using n by (simp add: divide_le_eq del: of_nat_add)
  then have "fl64 (200 * of_nat ?c / of_nat ?n) \<le> of_int 100" by (rule fl64_le_int) simp
  moreover have "0 \<le> fl64 (200 * of_nat ?c / of_nat ?n)" by (rule fl64_nonneg) simp
  ultimately show ?thesis using s by simp
qed (simp add: fields_similarity_def)

lemma fields_similarity_sym: "fields_similarity l r = fields_similarity r l"
  by (simp add: fields_similarity_alt common_fields_sym [of l r] add.commute disj_commute)

subsection \<open>Properties\<close>

text \<open>Deriving is idempotent: analysing an analysis again, with the same observations,
  changes nothing, because every step writes only fields and evidence that the next run
  erases before it starts.\<close>

theorem analyze_idempotent: "analyze G (analyze G a) = analyze G a"
  using analyze_reset [of G "analyze G a"] by (simp add: reset_analyze analyze_reset)

text \<open>The inference owns only its own evidence: what the collectors recorded is kept, in
  its order, and no derived type is recorded twice.\<close>

theorem analyze_evidence_frame:
  "filter (\<lambda>e. ev_source e \<noteq> ''INFERENCE'') (ha_evidences (analyze G a)) =
     filter (\<lambda>e. ev_source e \<noteq> ''INFERENCE'') (ha_evidences a) \<and>
   distinct (derived_types (analyze G a))"
proof
  show "filter (\<lambda>e. ev_source e \<noteq> ''INFERENCE'') (ha_evidences (analyze G a)) =
      filter (\<lambda>e. ev_source e \<noteq> ''INFERENCE'') (ha_evidences a)"
    using arg_cong [OF reset_analyze [of G a], of ha_evidences]
    by (simp add: reset_inference_def remove_derived_evidence_def)
  have "derived_types (reset_inference a) = []"
    by (simp add: derived_types_def reset_inference_def remove_derived_evidence_def filter_empty_conv)
  then show "distinct (derived_types (analyze G a))" by (intro once.inv_analyze) simp
qed

text \<open>An inference that confirms an impact exists only where the host served a complete
  successful plain HTTP response that did not upgrade to HTTPS and that contained a password
  form or a sensitive cookie without the Secure attribute.\<close>

theorem confirmed_needs_plaintext_secret:
  assumes "i \<in> set (ha_inferences (analyze G a))" and "inf_state i = ResultConfirmed"
  shows "serves_plaintext G a \<and> serves_secret a"
  using analyze_ok [of G a] assms by (auto simp: conclusions_ok_def)

text \<open>Derived evidence of plaintext exposure is never recorded for a blocked, missing,
  failed or upgraded HTTP response.\<close>

theorem exposure_needs_plaintext:
  assumes "e \<in> set (ha_evidences (analyze G a))" and "ev_source e = ''INFERENCE''"
    and "exposure_type (ev_type e)"
  shows "serves_plaintext G a"
  using analyze_ok [of G a] assms by (auto simp: conclusions_ok_def)

text \<open>The similarity of two bodies is a percentage and does not depend on which of the two
  is the HTTP and which the HTTPS body.\<close>

theorem body_similarity_percentage:
  assumes "length (go_fields (to_lower G l)) + length (go_fields (to_lower G r)) < 2 ^ 45"
  shows "0 \<le> body_similarity G l r hl hr \<and> body_similarity G l r hl hr \<le> 100 \<and>
    body_similarity G r l hr hl = body_similarity G l r hl hr"
  using fields_similarity_bounds [OF assms]
  by (auto simp: body_similarity_def fields_similarity_sym [of "go_fields (to_lower G r)"])

text \<open>A login page served without upgrade, next to a correct HTTPS site.\<close>

definition login_over_http :: host_analysis where
  "login_over_http = zero_host_analysis\<lparr>ha_http_observations :=
     [(''http'', zero_http_observation\<lparr>ho_status_code := 200, ho_complete := True,
        ho_html_document := True, ho_password_form := True\<rparr>)]\<rparr>"

lemma login_over_http_inferences:
  "map (\<lambda>i. (inf_rule i, inf_state i)) (ha_inferences (analyze ascii_env login_over_http)) =
     [(''PLAINTEXT_AUTH_INTERFACE'', ResultConfirmed)]"
  by code_simp

theorem confirmed_needs_plaintext_secret_witness:
  "serves_plaintext ascii_env login_over_http \<and> serves_secret login_over_http"
proof -
  obtain i where "i \<in> set (ha_inferences (analyze ascii_env login_over_http))"
      and "inf_state i = ResultConfirmed"
    using login_over_http_inferences by (cases "ha_inferences (analyze ascii_env login_over_http)") auto
  then show ?thesis by (rule confirmed_needs_plaintext_secret)
qed

lemma login_over_http_evidence:
  "map (\<lambda>e. (ev_type e, ev_source e)) (ha_evidences (analyze ascii_env login_over_http)) =
     [(''HTTP_NO_HTTPS_UPGRADE'', ''INFERENCE''), (''HTTPS_UNAVAILABLE'', ''INFERENCE''),
      (''PLAINTEXT_WEB_CONTENT'', ''INFERENCE''), (''PLAINTEXT_AUTH_INTERFACE'', ''INFERENCE''),
      (''TRANSPORT_PRIORITY_SCORE'', ''INFERENCE'')]"
  by code_simp

theorem exposure_needs_plaintext_witness: "serves_plaintext ascii_env login_over_http"
proof -
  have "(''PLAINTEXT_WEB_CONTENT'', ''INFERENCE'') \<in>
      (\<lambda>e. (ev_type e, ev_source e)) ` set (ha_evidences (analyze ascii_env login_over_http))"
    unfolding set_map [symmetric] login_over_http_evidence by simp
  then obtain e where "e \<in> set (ha_evidences (analyze ascii_env login_over_http))"
      and "ev_source e = ''INFERENCE''" and "exposure_type (ev_type e)"
    by (auto simp: exposure_type_def)
  then show ?thesis by (rule exposure_needs_plaintext)
qed

theorem body_similarity_percentage_witness:
  "0 \<le> body_similarity ascii_env ''a b c'' ''b d'' [] [] \<and>
   body_similarity ascii_env ''a b c'' ''b d'' [] [] \<le> 100 \<and>
   body_similarity ascii_env ''b d'' ''a b c'' [] [] = body_similarity ascii_env ''a b c'' ''b d'' [] []"
proof (rule body_similarity_percentage)
  have "length (go_fields (to_lower ascii_env ''a b c'')) = 3"
    "length (go_fields (to_lower ascii_env ''b d'')) = 2"
    by (simp_all add: to_lower_ascii lower_char_def go_fields_def fields_func_def rune_chunks_ascii
        is_space_def in_range_def)
  then show "length (go_fields (to_lower ascii_env ''a b c'')) +
      length (go_fields (to_lower ascii_env ''b d'')) < 2 ^ 45"
    by simp
qed

subsection \<open>The order of the redirect chains\<close>

definition dead_chain :: "string \<Rightarrow> string \<Rightarrow> redirect_chain" where
  "dead_chain why host = \<lparr>chain_scheme = [], chain_hops = [zero_redirect_hop\<lparr>hop_hostname := host\<rparr>],
     chain_final_url = [], chain_stopped_reason = why\<rparr>"

text \<open>C14. The chains are kept in a map and ranged over: with one chain to a missing name and
  one to a provider's error page, the order the runtime picks decides which of the two
  destinations the single recorded \<open>DANGLING_REDIRECT\<close> evidence names.\<close>

theorem redirect_order_matters:
  "let x = (''http'', dead_chain ''DESTINATION_NXDOMAIN'' ''gone.example'');
       y = (''https'', dead_chain ''DESTINATION_PROVIDER_ERROR'' ''bucket.example'');
       target = (\<lambda>cs. map (\<lambda>e. meta_get (ev_metadata e) ''target_host'')
         (ha_evidences (analyze_redirects (zero_host_analysis\<lparr>ha_redirects := cs\<rparr>))))
   in mset [x, y] = mset [y, x] \<and> target [x, y] = [''gone.example''] \<and> target [y, x] = [''bucket.example'']"
proof -
  have one: "map (\<lambda>e. meta_get (ev_metadata e) ''target_host'')
      (ha_evidences (analyze_redirects (zero_host_analysis\<lparr>ha_redirects :=
        [(''http'', dead_chain ''DESTINATION_NXDOMAIN'' ''gone.example''),
         (''https'', dead_chain ''DESTINATION_PROVIDER_ERROR'' ''bucket.example'')]\<rparr>))) = [''gone.example'']"
    by code_simp
  have two: "map (\<lambda>e. meta_get (ev_metadata e) ''target_host'')
      (ha_evidences (analyze_redirects (zero_host_analysis\<lparr>ha_redirects :=
        [(''https'', dead_chain ''DESTINATION_PROVIDER_ERROR'' ''bucket.example''),
         (''http'', dead_chain ''DESTINATION_NXDOMAIN'' ''gone.example'')]\<rparr>))) = [''bucket.example'']"
    by code_simp
  show ?thesis unfolding Let_def by (intro conjI one two) simp
qed

end
