(* ===== verification/Classification.thy ===== *)
theory Classification
  imports Inference
begin

section \<open>Classification (internal/classification)\<close>

text \<open>
  Scores, the semantic rules of \<open>Classify\<close> in their order of priority, the decision record
  written when \<open>Classify\<close> returns, the detection of unknown providers and the whole of
  \<open>Process\<close>. Levels are strings, as in the source, because a stored analysis may carry any
  string; \<open>risk_rank\<close> orders them.

  Proved: the level depends on the set of evidence and on the active verification only; the
  levels that assert control need a claim or a structured proof; an adverse finding survives
  any further evidence; the scores are percentages; the decision agrees with the level, and an
  impact is confirmed exactly at the levels that assert one.
\<close>

subsection \<open>Levels (levels.go)\<close>

abbreviation LevelTakenOver :: string where "LevelTakenOver \<equiv> ''TAKEN_OVER''"
abbreviation LevelConfirmed :: string where "LevelConfirmed \<equiv> ''CONFIRMED_TAKEOVERABLE''"
abbreviation LevelTakeoverable :: string where "LevelTakeoverable \<equiv> ''TAKEOVERABLE''"
abbreviation LevelLikelyTakeoverable :: string where
  "LevelLikelyTakeoverable \<equiv> ''LIKELY_TAKEOVERABLE''"
abbreviation LevelZoneControlConfirmed :: string where
  "LevelZoneControlConfirmed \<equiv> ''ZONE_CONTROL_CONFIRMED''"
abbreviation LevelDelegationClaimabilityVerified :: string where
  "LevelDelegationClaimabilityVerified \<equiv> ''DELEGATION_CLAIMABILITY_VERIFIED''"
abbreviation LevelDelegationTakeoverCandidate :: string where
  "LevelDelegationTakeoverCandidate \<equiv> ''DELEGATION_TAKEOVER_CANDIDATE''"
abbreviation LevelDelegationBroken :: string where "LevelDelegationBroken \<equiv> ''DELEGATION_BROKEN''"
abbreviation LevelExposed :: string where "LevelExposed \<equiv> ''EXPOSED''"
abbreviation LevelOrphaned :: string where "LevelOrphaned \<equiv> ''ORPHANED''"
abbreviation LevelMisconfigured :: string where "LevelMisconfigured \<equiv> ''MISCONFIGURED''"
abbreviation LevelUnknown :: string where "LevelUnknown \<equiv> ''UNKNOWN''"
abbreviation LevelInsufficientEvidence :: string where
  "LevelInsufficientEvidence \<equiv> ''INSUFFICIENT_EVIDENCE''"
abbreviation LevelHealthy :: string where "LevelHealthy \<equiv> ''HEALTHY''"

definition risk_rank :: "string \<Rightarrow> int" where
  "risk_rank l =
     (if l = LevelHealthy then 0
      else if l = LevelInsufficientEvidence then 1
      else if l = LevelUnknown \<or> l = [] then 2
      else if l = LevelMisconfigured then 3
      else if l = LevelExposed then 4
      else if l = LevelOrphaned \<or> l = LevelDelegationBroken then 5
      else if l = LevelLikelyTakeoverable \<or> l = LevelDelegationTakeoverCandidate then 6
      else if l = LevelTakeoverable then 7
      else if l = LevelConfirmed \<or> l = LevelDelegationClaimabilityVerified then 8
      else if l = LevelZoneControlConfirmed then 9
      else if l = LevelTakenOver then 10
      else 2)"

subsection \<open>Scores (scoring.go)\<close>

definition evidence_weights :: "(string, int) gomap" where
  "evidence_weights =
     [(''HTTP_BODY_MATCH'', 50), (''NS_REFUSED'', 40), (''NS_SERVFAIL'', 30), (''NS_TIMEOUT'', 10),
      (''CNAME_MATCH'', 20), (''HTTP_STATUS_404'', 0), (''NXDOMAIN_EXPECTED'', 10),
      (''LEGACY_MATCH'', 20)]"

definition evidence_weight :: "evidence \<Rightarrow> int" where
  "evidence_weight ev =
     (case map_of evidence_weights (ev_type ev) of Some w \<Rightarrow> w | None \<Rightarrow> ev_weight ev)"

definition score_key :: "evidence \<Rightarrow> string" where
  "score_key ev = ev_type ev @ ''|'' @ ev_source ev"

record score_state =
  sc_risk :: int
  sc_mitigation :: int
  sc_conf_sum :: int
  sc_conf_count :: int

definition score_evidence :: "evidence \<Rightarrow> score_state \<Rightarrow> score_state" where
  "score_evidence ev s =
     (let weight = evidence_weight ev;
          conf = (if ev_confidence ev = 0 then 100 else ev_confidence ev);
          points = go_div (wrap64 (weight * conf)) 100
      in if ev_is_negative ev then s\<lparr>sc_mitigation := wrap64 (sc_mitigation s + points)\<rparr>
         else
           (let s' = s\<lparr>sc_risk := wrap64 (sc_risk s + points)\<rparr> in
            if weight > 0 then
              s'\<lparr>sc_conf_sum := wrap64 (sc_conf_sum s' + conf), sc_conf_count := sc_conf_count s' + 1\<rparr>
            else s'))"

fun score_loop :: "string set \<Rightarrow> evidence list \<Rightarrow> score_state \<Rightarrow> score_state" where
  "score_loop seen [] s = s"
| "score_loop seen (ev # evs) s =
     (if score_key ev \<in> seen then score_loop seen evs s
      else score_loop (insert (score_key ev) seen) evs (score_evidence ev s))"

definition calculate_scores :: "host_analysis \<Rightarrow> host_analysis" where
  "calculate_scores a =
     (let s = score_loop {} (ha_evidences a)
            \<lparr>sc_risk = 0, sc_mitigation = 0, sc_conf_sum = 0, sc_conf_count = 0\<rparr>
      in a\<lparr>ha_risk_score := (if sc_risk s > 100 then 100 else sc_risk s),
           ha_mitigation_score := (if sc_mitigation s > 100 then 100 else sc_mitigation s),
           ha_confidence_score :=
             (if sc_conf_count s > 0 then go_div (sc_conf_sum s) (sc_conf_count s) else 0)\<rparr>)"

subsection \<open>Rules (rules.go)\<close>

definition generic_fingerprint_text :: "go_env \<Rightarrow> string \<Rightarrow> bool" where
  "generic_fingerprint_text G value =
     (let normalized = join_with '' '' (fields_func (\<lambda>r. \<not> is_letter G r \<and> \<not> is_digit G r) (to_lower G value)) in
      if normalized \<in> {''not found'', ''404 not found'', ''page not found'', ''site not found''} then True
      else
        (let fields = go_fields normalized in
         if fields = [] then True
         else if list_ex (\<lambda>f. f \<notin> {''404'', ''error'', ''page'', ''site'', ''not'', ''found''}) fields then False
         else contains_str ('' '' @ normalized @ '' '') '' not '' \<and>
           contains_str ('' '' @ normalized @ '' '') '' found ''))"

definition has_healthy_http_response :: "host_analysis \<Rightarrow> bool" where
  "has_healthy_http_response a \<longleftrightarrow>
     list_ex (\<lambda>e. ev_type e = ''HTTP_RESPONSE'' \<and>
       (case atoi (meta_get (ev_metadata e) ''status'') of
          None \<Rightarrow> False
        | Some status \<Rightarrow> status \<ge> 200 \<and> status < 400)) (ha_evidences a)"

definition provider_bound_http :: "go_env \<Rightarrow> evidence \<Rightarrow> evidence \<Rightarrow> bool" where
  "provider_bound_http G cn body \<longleftrightarrow>
     ev_type body = ''HTTP_BODY_MATCH'' \<and> ev_source body = ev_source cn \<and>
     meta_get (ev_metadata cn) ''provider_id'' \<noteq> [] \<and>
     meta_get (ev_metadata body) ''provider_id'' = meta_get (ev_metadata cn) ''provider_id'' \<and>
     meta_get (ev_metadata body) ''matched_cname'' = meta_get (ev_metadata cn) ''matched_cname'' \<and>
     meta_get (ev_metadata body) ''rule_id'' \<noteq> [] \<and>
     \<not> generic_fingerprint_text G (meta_get (ev_metadata body) ''matched_fingerprint'')"

definition provider_bound_mutation :: "go_env \<Rightarrow> evidence \<Rightarrow> evidence \<Rightarrow> bool" where
  "provider_bound_mutation G cn m \<longleftrightarrow>
     ev_type m = ''HTTP_MUTATION_REVEALED_PROVIDER_FINGERPRINT'' \<and> ev_source m = ev_source cn \<and>
     meta_get (ev_metadata cn) ''provider_id'' \<noteq> [] \<and>
     meta_get (ev_metadata m) ''provider_id'' = meta_get (ev_metadata cn) ''provider_id'' \<and>
     meta_get (ev_metadata m) ''cname'' = meta_get (ev_metadata cn) ''matched_cname'' \<and>
     meta_get (ev_metadata m) ''rule_id'' \<noteq> [] \<and>
     \<not> generic_fingerprint_text G (meta_get (ev_metadata m) ''matched_fingerprint'') \<and>
     meta_get (ev_metadata m) ''confirmations'' = ''2''"

text \<open>The two nested loops over the evidence differ in the inner test.\<close>

definition bound_pair :: "(evidence \<Rightarrow> evidence \<Rightarrow> bool) \<Rightarrow> evidence list \<Rightarrow> bool" where
  "bound_pair test evs \<longleftrightarrow>
     list_ex (\<lambda>cn. ev_type cn = ''CNAME_PROVIDER_MATCH'' \<and> ev_source cn \<noteq> [] \<and>
       list_ex (test cn) evs) evs"

definition context_types :: "string list" where
  "context_types = [
    ''ASN_MATCH'', ''CAA_ISSUER_MISMATCH'', ''CAA_POLICY_INCONSISTENT'', ''CAA_RECORD_PRESENT'',
    ''CDN_DETECTED'', ''CLOUD_IP_CONTEXT'', ''CNAME_CHAIN_TRACE'', ''CNAME_PROVIDER_MATCH'',
    ''DNAME_ALIAS'', ''HTTPS_BINDING'', ''HTTPS_PROVIDER_MATCH'', ''SVCB_BINDING'',
    ''SVCB_PROVIDER_MATCH'', ''DNSSEC_ARTIFACTS_OBSERVED'', ''DNS_CONSENSUS_STATE'',
    ''DNSSEC_SERVFAIL_INCONCLUSIVE'', ''DNSSEC_VALIDATED'', ''EMAIL_DMARC_MISSING'',
    ''EMAIL_SPF_MISSING'', ''HTTP_OK_ACTIVE'', ''HTTP_RESPONSE'', ''HTTP_HSTS_MISSING'',
    ''HTTP_CSP_MISSING'', ''HTTPS_HSTS_ABSENT'', ''HTTPS_HSTS_PRESENT'', ''HTTPS_CSP_ABSENT'',
    ''HTTPS_CSP_PRESENT'', ''HTTP_NO_HTTPS_UPGRADE'', ''HTTP_HTTPS_UPGRADE_PRESENT'',
    ''HTTP_HTTPS_CONTENT_CORRELATED'', ''TRANSPORT_PRIORITY_SCORE'',
    ''HTTP_BLOCKED_WITHOUT_REDIRECT'', ''HTTP_EDGE_BLOCK'', ''HTTP_ERROR_WITHOUT_REDIRECT'',
    ''RESOURCE_NOT_AVAILABLE'', ''EDGE_RESPONSE'', ''APPLICATION_RESPONSE'', ''ACCESS_RESPONSE'',
    ''ERROR_RESPONSE'', ''REDIRECT_RESPONSE'', ''HTTP_REDIRECT_HOP'',
    ''REDIRECT_TARGET_OUT_OF_SCOPE'', ''RELATED_DOMAIN_COOKIE_SCOPE'',
    ''RELATED_DOMAIN_CORS_CREDENTIALS'', ''CORS_PUBLIC_WILDCARD_OBSERVED'',
    ''REDIRECT_DEPTH_LIMIT'', ''REDIRECT_UNSUPPORTED_PROTOCOL'', ''HTTPS_UNAVAILABLE'',
    ''VHOST_DIFFERENTIAL'', ''HTTP_WILDCARD_DETECTED'', ''MX_PROVIDER_MATCH'', ''MX_UNRESOLVABLE'',
    ''NULL_MX_PRESENT'', ''NS_PROVIDER_MATCH'', ''NXDOMAIN_EXPECTED'',
    ''ORIGIN_EXPOSURE_CANDIDATE'', ''ORIGIN_EXPOSURE_HINT'', ''PROVIDER_MIGRATION_DETECTED'',
    ''PROVIDER_MIGRATION_STALE_REFERENCE'', ''SNI_CERT_MISMATCH'', ''SRV_PROVIDER_MATCH'',
    ''SRV_UNRESOLVABLE'', ''SHADOW_IT_DETECTED'', ''TLS_CERTIFICATE_DRIFT'',
    ''TLS_CERTIFICATE_OBSERVED'', ''TLS_PROVIDER_MATCH'', ''TLS_SAN_CANDIDATE'', ''TLS_SAN_MATCH'',
    ''TXT_OWNERSHIP_TOKEN_RESIDUAL'', ''TXT_VERIFICATION_TOKEN'']"

definition has_only_context_evidence :: "evidence list \<Rightarrow> bool" where
  "has_only_context_evidence evs \<longleftrightarrow>
     evs \<noteq> [] \<and> list_all (\<lambda>e. ev_type e \<in> set context_types) evs"

definition control_proven :: "host_analysis \<Rightarrow> bool" where
  "control_proven a \<longleftrightarrow> ha_verification_score a = 100 \<and>
     (case ha_active_verification a of
        None \<Rightarrow> False
      | Some v \<Rightarrow> vr_verified v \<and> vr_control_proven v \<and> vr_confidence v = 100)"

definition exposed_types :: "string list" where
  "exposed_types = [''CLOUD_S3_LISTABLE'', ''CLOUD_S3_WRITABLE'', ''CLOUD_AZURE_BLOB_LISTABLE'',
     ''CLOUD_GCS_LISTABLE'', ''DNS_AXFR_ALLOWED'', ''ORIGIN_DIRECT_MATCH'',
     ''PLAINTEXT_AUTH_INTERFACE'', ''HTTP_SENSITIVE_COOKIE_WITHOUT_SECURE'']"

definition misconfigured_types :: "string list" where
  "misconfigured_types = [''NS_REFUSED'', ''NS_SERVFAIL'', ''NS_ALL_DEAD'', ''NS_ORPHANED'',
     ''LAME_DELEGATION'', ''NS_SOA_MISMATCH'', ''MX_BROKEN'', ''MX_PRIMARY_BROKEN_WITH_FALLBACK'',
     ''MX_BACKUP_BROKEN'', ''SRV_BROKEN'', ''MX_DANGLING'', ''SRV_DANGLING'', ''DNSSEC_BOGUS'',
     ''SPF_BROKEN_INCLUDE'', ''SPF_DANGLING_TAKEOVER'', ''SPF_INCLUDE_WITHOUT_POLICY'',
     ''SPF_INCLUDE_CYCLE'', ''SPF_LOOKUP_LIMIT_EXCEEDED'', ''EMAIL_SPF_PERMISSIVE'',
     ''HTTP_OPEN_REDIRECT'', ''DANGLING_REDIRECT'', ''PLAINTEXT_WEB_CONTENT'',
     ''HTTP_HTTPS_PORT_INCONSISTENT'', ''HTTPS_DOWNGRADE_REDIRECT'', ''CSP_DANGLING_DEPENDENCY'',
     ''SUBRESOURCE_DANGLING'', ''DEAD_ASSET_REFERENCE'', ''DEAD_ASSET_HTTP'']"

definition has_any :: "evidence list \<Rightarrow> string list \<Rightarrow> bool" where
  "has_any evs ts \<longleftrightarrow> list_ex (has_type evs) ts"

definition classify_level :: "go_env \<Rightarrow> host_analysis \<Rightarrow> string" where
  "classify_level G a =
     (let evs = ha_evidences a in
      if has_type evs ''ZONE_CONTROL_CONFIRMED'' then LevelZoneControlConfirmed
      else if has_type evs ''CLAIM_SUCCESS'' then LevelTakenOver
      else if control_proven a then LevelConfirmed
      else if bound_pair (provider_bound_mutation G) evs \<or> bound_pair (provider_bound_http G) evs
        then LevelLikelyTakeoverable
      else if has_type evs ''DELEGATION_CLAIMABILITY_VERIFIED'' then LevelDelegationClaimabilityVerified
      else if has_type evs ''DELEGATION_CLAIMABILITY_NOT_DEMONSTRATED'' then LevelDelegationBroken
      else if has_type evs ''DELEGATION_TAKEOVER_CANDIDATE'' then LevelDelegationTakeoverCandidate
      else if has_type evs ''DELEGATION_BROKEN'' then LevelDelegationBroken
      else if has_any evs exposed_types then LevelExposed
      else if has_type evs ''CNAME_DANGLING'' then LevelOrphaned
      else if has_any evs misconfigured_types then LevelMisconfigured
      else if has_healthy_http_response a \<and> has_any evs [''CDN_DETECTED'', ''TECHNOLOGY_DETECTED''] \<and>
        \<not> has_any evs [''HTTP_STATUS_404'', ''CNAME_DANGLING'', ''NXDOMAIN''] then LevelHealthy
      else if evs \<noteq> [] then
        (if has_only_context_evidence evs then LevelInsufficientEvidence else LevelUnknown)
      else LevelInsufficientEvidence)"

subsection \<open>The decision (result.go)\<close>

definition state_for_level :: "string \<Rightarrow> result_state" where
  "state_for_level l =
     (if l \<in> {LevelTakenOver, LevelConfirmed, LevelZoneControlConfirmed,
        LevelDelegationClaimabilityVerified, LevelExposed} then ResultConfirmed
      else if l \<in> {LevelTakeoverable, LevelLikelyTakeoverable, LevelDelegationTakeoverCandidate,
        LevelDelegationBroken, LevelOrphaned, LevelMisconfigured} then ResultCandidate
      else if l = LevelHealthy then ResultHealthy
      else ResultInconclusive)"

fun inference_rank :: "result_state \<Rightarrow> int" where
  "inference_rank ResultConfirmed = 6"
| "inference_rank ResultCandidate = 5"
| "inference_rank ResultSuppressed = 4"
| "inference_rank ResultObservation = 3"
| "inference_rank ResultInconclusive = 2"
| "inference_rank ResultHealthy = 1"
| "inference_rank ResultUnset = 0"

text \<open>The first of the inferences with the greatest rank.\<close>

definition better_inference :: "inference \<Rightarrow> inference option \<Rightarrow> inference option" where
  "better_inference i best =
     (case best of
        None \<Rightarrow> Some i
      | Some b \<Rightarrow> if inference_rank (inf_state i) > inference_rank (inf_state b) then Some i else Some b)"

definition strongest_inference :: "inference list \<Rightarrow> inference option" where
  "strongest_inference is = fold better_inference is None"

definition inference_for_state :: "inference list \<Rightarrow> result_state \<Rightarrow> inference option" where
  "inference_for_state is state =
     (if state = ResultInconclusive \<or> state = ResultObservation then strongest_inference is
      else find (\<lambda>i. inf_state i = state) is)"

text \<open>Up to six distinct types, in order of appearance.\<close>

fun evidence_reasons_from :: "string set \<Rightarrow> string list \<Rightarrow> evidence list \<Rightarrow> string list" where
  "evidence_reasons_from seen reasons [] = reasons"
| "evidence_reasons_from seen reasons (e # evs) =
     (if ev_is_negative e \<or> ev_type e = ''HTTP_RESPONSE'' \<or> trim_space (ev_type e) = [] then
        evidence_reasons_from seen reasons evs
      else if ev_type e \<in> seen then evidence_reasons_from seen reasons evs
      else
        (let reasons' = reasons @ [ev_type e] in
         if length reasons' = 6 then reasons'
         else evidence_reasons_from (insert (ev_type e) seen) reasons' evs))"

definition evidence_reasons :: "host_analysis \<Rightarrow> string list" where
  "evidence_reasons a = evidence_reasons_from {} [] (ha_evidences a)"

definition evidence_confidence :: "host_analysis \<Rightarrow> int" where
  "evidence_confidence a =
     fold (\<lambda>e c. if ev_confidence e > c then ev_confidence e else c) (ha_evidences a) 0"

definition conexao_recusada :: string where
  "conexao_recusada = ''conex'' @ [CHR 0xC3, CHR 0xA3] @ ''o recusada''"

definition transport_reason :: "go_env \<Rightarrow> http_observation \<Rightarrow> string option" where
  "transport_reason G obs =
     (let message = to_lower G (ho_transport_error obs @ '' '' @ ho_parse_error obs) in
      if contains_str message ''timeout'' \<or> contains_str message ''tempo limite'' then Some ''TIMEOUT''
      else if contains_str message ''tls'' \<or> contains_str message ''x509'' \<or>
        contains_str message ''certificate'' then Some ''TLS_ERROR''
      else if contains_str message ''connection refused'' \<or> contains_str message conexao_recusada
        then Some ''CONNECTION_REFUSED''
      else None)"

fun first_reason :: "go_env \<Rightarrow> (string, http_observation) gomap \<Rightarrow> string option" where
  "first_reason G [] = None"
| "first_reason G ((_, obs) # m) =
     (case transport_reason G obs of Some r \<Rightarrow> Some r | None \<Rightarrow> first_reason G m)"

definition inconclusive_reason :: "go_env \<Rightarrow> host_analysis \<Rightarrow> string \<Rightarrow> string" where
  "inconclusive_reason G a level =
     (if level \<noteq> LevelUnknown \<and> level \<noteq> LevelInsufficientEvidence then []
      else case first_reason G (ha_http_observations a) of
        Some r \<Rightarrow> r
      | None \<Rightarrow>
          if list_ex (\<lambda>e. ev_type e \<in> {''NS_SERVFAIL'', ''DNSSEC_SERVFAIL_INCONCLUSIVE''}) (ha_evidences a)
          then ''DNS_SERVFAIL'' else ''INSUFFICIENT_EVIDENCE'')"

definition decision_state :: "host_analysis \<Rightarrow> string \<Rightarrow> result_state" where
  "decision_state a level =
     (let state0 = state_for_level level;
          selected = inference_for_state (ha_inferences a) state0;
          state1 = (case selected of
             Some i \<Rightarrow> if state0 = ResultInconclusive then
                (if inf_state i = ResultHealthy then ResultObservation else inf_state i) else state0
           | None \<Rightarrow> state0)
      in case selected of
           Some i \<Rightarrow> if state1 = ResultObservation \<and> inf_state i = ResultSuppressed
             then ResultSuppressed else state1
         | None \<Rightarrow> state1)"

definition update_decision :: "go_env \<Rightarrow> host_analysis \<Rightarrow> string \<Rightarrow> host_analysis" where
  "update_decision G a level =
     (let selected = inference_for_state (ha_inferences a) (state_for_level level);
          state = decision_state a level;
          d0 = (case selected of
             None \<Rightarrow> \<lparr>dec_state = state, dec_rule = [], dec_reason_codes = [],
               dec_observation_confidence = 0, dec_classification_confidence = 0,
               dec_impact_confidence = 0, dec_impact_confirmed = False\<rparr>
           | Some i \<Rightarrow> \<lparr>dec_state = state, dec_rule = inf_rule i, dec_reason_codes = inf_reason_codes i,
               dec_observation_confidence = inf_observation_confidence i,
               dec_classification_confidence = inf_classification_confidence i,
               dec_impact_confidence = inf_impact_confidence i, dec_impact_confirmed = False\<rparr>);
          d1 = (if dec_reason_codes d0 = [] then d0\<lparr>dec_reason_codes := evidence_reasons a\<rparr> else d0);
          d2 = (if dec_rule d1 = [] then d1\<lparr>dec_rule := inconclusive_reason G a level\<rparr> else d1);
          d3 = (if dec_observation_confidence d2 = 0
                then d2\<lparr>dec_observation_confidence := evidence_confidence a\<rparr> else d2);
          d4 = (if ha_confidence_score a > 0
                then d3\<lparr>dec_classification_confidence := ha_confidence_score a\<rparr> else d3);
          d5 = (if dec_classification_confidence d4 = 0
                then d4\<lparr>dec_classification_confidence := evidence_confidence a\<rparr> else d4);
          d6 = (if state = ResultConfirmed then
                  (let e0 = d5\<lparr>dec_impact_confirmed := True\<rparr>;
                       e1 = (case ha_active_verification a of
                          None \<Rightarrow> e0
                        | Some v \<Rightarrow> if vr_control_proven v
                            then e0\<lparr>dec_classification_confidence := vr_confidence v\<rparr> else e0)
                   in if dec_impact_confidence e1 = 0 then e1\<lparr>dec_impact_confidence := 100\<rparr> else e1)
                else d5)
      in a\<lparr>ha_result_state := state, ha_decision := Some d6\<rparr>)"

text \<open>\<open>Classify\<close> returns the level; its deferred call writes the decision.\<close>

definition classify :: "go_env \<Rightarrow> host_analysis \<Rightarrow> host_analysis \<times> string" where
  "classify G a = (let level = classify_level G a in (update_decision G a level, level))"

subsection \<open>Unknown providers (unknown.go, internal/dns/resolver.go)\<close>

definition extract_root_domain :: "go_env \<Rightarrow> string \<Rightarrow> string" where
  "extract_root_domain G fqdn =
     (let normalized = to_lower G (trim_suffix (trim_space fqdn) ''.'') in
      case etld_plus_one G normalized of None \<Rightarrow> normalized | Some r \<Rightarrow> r)"

definition known_provider_evidence :: "evidence \<Rightarrow> bool" where
  "known_provider_evidence e \<longleftrightarrow> contains_str (ev_type e) ''PROVIDER_MATCH'' \<and>
     ev_type e \<noteq> ''CLOUD_PROVIDER_MATCH'' \<and> ev_type e \<noteq> ''ASN_PROVIDER_MATCH''"

definition orphan_signal :: "evidence \<Rightarrow> bool" where
  "orphan_signal e \<longleftrightarrow> ev_type e \<in> {''CNAME_DANGLING'', ''CNAME_UNRESOLVABLE'', ''MX_BROKEN'',
     ''SRV_BROKEN'', ''NS_ORPHANED'', ''CNAME_NXDOMAIN''}"

definition unknown_target :: "host_analysis \<Rightarrow> string" where
  "unknown_target a =
     (if rs_cname (ha_dns a) \<noteq> [] then last (rs_cname (ha_dns a))
      else if rs_ns (ha_dns a) \<noteq> [] then hd (rs_ns (ha_dns a)) else [])"

text \<open>\<open>t1\<close> and \<open>t2\<close> are what the two calls of \<open>time.Now()\<close> return.\<close>

definition detect_unknown_provider :: "go_env \<Rightarrow> time \<Rightarrow> time \<Rightarrow> host_analysis \<Rightarrow> host_analysis" where
  "detect_unknown_provider G t1 t2 a =
     (if list_ex known_provider_evidence (ha_evidences a) then a
      else if unknown_target a = [] then a
      else
        (let unknown_root = extract_root_domain G (unknown_target a);
             host_root = extract_root_domain G (ha_host a);
             signals = length (filter orphan_signal (ha_evidences a))
         in if unknown_root \<noteq> [] \<and> unknown_root \<noteq> host_root then
              a\<lparr>ha_unknown_provider := Some \<lparr>up_root_domain = unknown_root, up_frequency = 1,
                 up_severity = (if signals > 0 then ''HIGH'' else ''MEDIUM''),
                 up_first_seen = t1, up_last_seen = t2, up_example_hosts = [ha_host a],
                 up_last_discovery_score = 0\<rparr>\<rparr>
            else a))"

subsection \<open>Process (engine.go)\<close>

definition process_analysis :: "go_env \<Rightarrow> time \<Rightarrow> time \<Rightarrow> host_analysis \<Rightarrow> host_analysis" where
  "process_analysis G t1 t2 a =
     (case classify G (calculate_scores (analyze G a)) of
        (a', level) \<Rightarrow> detect_unknown_provider G t1 t2 (a'\<lparr>ha_classification := level\<rparr>))"


subsection \<open>Lemmas on the rules\<close>

lemma bound_pair_set: "set xs = set ys \<Longrightarrow> bound_pair t xs = bound_pair t ys"
  by (auto simp: bound_pair_def list_ex_iff)

lemma bound_pair_mono: "bound_pair t xs \<Longrightarrow> set xs \<subseteq> set ys \<Longrightarrow> bound_pair t ys"
  by (auto simp: bound_pair_def list_ex_iff)

lemma has_type_set: "set xs = set ys \<Longrightarrow> has_type xs t = has_type ys t"
  by (simp add: has_type_iff)

lemma has_type_mono: "has_type xs t \<Longrightarrow> set xs \<subseteq> set ys \<Longrightarrow> has_type ys t"
  by (auto simp: has_type_iff)

lemma has_any_iff: "has_any evs ts \<longleftrightarrow> (\<exists>t \<in> set ts. has_type evs t)"
  by (simp add: has_any_def list_ex_iff)

lemma has_any_set: "set xs = set ys \<Longrightarrow> has_any xs ts = has_any ys ts"
  by (simp add: has_any_iff has_type_set [of xs ys])

lemma has_any_mono: "has_any xs ts \<Longrightarrow> set xs \<subseteq> set ys \<Longrightarrow> has_any ys ts"
  by (auto simp: has_any_iff intro: has_type_mono)

lemma only_context_set:
  "set xs = set ys \<Longrightarrow> has_only_context_evidence xs = has_only_context_evidence ys"
  using list_all_set [of xs ys] by (auto simp: has_only_context_evidence_def)

lemma healthy_set:
  "set (ha_evidences a) = set (ha_evidences b) \<Longrightarrow>
   has_healthy_http_response a = has_healthy_http_response b"
  by (auto simp: has_healthy_http_response_def list_ex_iff)

lemmas same_evidence_rules = bound_pair_set has_type_set has_any_set only_context_set healthy_set

text \<open>The adverse rules, as one condition: a level of rank three or more.\<close>

definition adverse_signal :: "go_env \<Rightarrow> host_analysis \<Rightarrow> bool" where
  "adverse_signal G a \<longleftrightarrow>
     control_proven a \<or> bound_pair (provider_bound_mutation G) (ha_evidences a) \<or>
     bound_pair (provider_bound_http G) (ha_evidences a) \<or>
     has_any (ha_evidences a)
       ([''ZONE_CONTROL_CONFIRMED'', ''CLAIM_SUCCESS'', ''DELEGATION_CLAIMABILITY_VERIFIED'',
         ''DELEGATION_CLAIMABILITY_NOT_DEMONSTRATED'', ''DELEGATION_TAKEOVER_CANDIDATE'',
         ''DELEGATION_BROKEN'', ''CNAME_DANGLING''] @ exposed_types @ misconfigured_types)"

lemma has_any_Cons [simp]: "has_any evs (t # ts) \<longleftrightarrow> has_type evs t \<or> has_any evs ts"
  by (simp add: has_any_def)

lemma has_any_Nil [simp]: "\<not> has_any evs []"
  by (simp add: has_any_def)

lemma has_any_append [simp]: "has_any evs (ts @ us) \<longleftrightarrow> has_any evs ts \<or> has_any evs us"
  by (simp add: has_any_def)

lemma risk_rank_levels [simp]:
  "risk_rank ''ZONE_CONTROL_CONFIRMED'' = 9" "risk_rank ''TAKEN_OVER'' = 10"
  "risk_rank ''CONFIRMED_TAKEOVERABLE'' = 8" "risk_rank ''LIKELY_TAKEOVERABLE'' = 6"
  "risk_rank ''DELEGATION_CLAIMABILITY_VERIFIED'' = 8" "risk_rank ''DELEGATION_BROKEN'' = 5"
  "risk_rank ''DELEGATION_TAKEOVER_CANDIDATE'' = 6" "risk_rank ''EXPOSED'' = 4"
  "risk_rank ''ORPHANED'' = 5" "risk_rank ''MISCONFIGURED'' = 3" "risk_rank ''HEALTHY'' = 0"
  "risk_rank ''INSUFFICIENT_EVIDENCE'' = 1" "risk_rank ''UNKNOWN'' = 2"
  by (simp_all add: risk_rank_def)

lemma adverse_level: "risk_rank (classify_level G a) \<ge> 3 \<longleftrightarrow> adverse_signal G a"
  unfolding classify_level_def adverse_signal_def Let_def by (simp split del: if_split) auto


subsection \<open>Lemmas on the scores\<close>

lemma score_loop_dedup:
  "score_loop seen evs s = fold score_evidence (dedup_by score_key seen evs) s"
  by (induction evs arbitrary: seen s) auto

definition score_confidence :: "evidence \<Rightarrow> int" where
  "score_confidence e = (if ev_confidence e = 0 then 100 else ev_confidence e)"

definition score_points :: "evidence \<Rightarrow> int" where
  "score_points e = evidence_weight e * score_confidence e div 100"

definition bounded_evidence :: "evidence \<Rightarrow> bool" where
  "bounded_evidence e \<longleftrightarrow> 0 \<le> ev_weight e \<and> ev_weight e \<le> 1000000 \<and>
     0 \<le> ev_confidence e \<and> ev_confidence e \<le> 100"

lemma evidence_weight_bounds:
  "bounded_evidence e \<Longrightarrow> 0 \<le> evidence_weight e \<and> evidence_weight e \<le> 1000000"
  by (simp add: bounded_evidence_def evidence_weight_def evidence_weights_def)

lemma score_confidence_bounds:
  "bounded_evidence e \<Longrightarrow> 0 \<le> score_confidence e \<and> score_confidence e \<le> 100"
  by (simp add: bounded_evidence_def score_confidence_def)

lemma score_product_bounds:
  assumes "bounded_evidence e"
  shows "0 \<le> evidence_weight e * score_confidence e"
    and "evidence_weight e * score_confidence e \<le> 100000000"
proof -
  from assms have w: "0 \<le> evidence_weight e" "evidence_weight e \<le> 1000000"
    and c: "0 \<le> score_confidence e" "score_confidence e \<le> 100"
    using evidence_weight_bounds score_confidence_bounds by auto
  show "0 \<le> evidence_weight e * score_confidence e" using w c by simp
  have "evidence_weight e * score_confidence e \<le> 1000000 * 100"
    using w c by (intro mult_mono) auto
  then show "evidence_weight e * score_confidence e \<le> 100000000" by simp
qed

lemma score_points_bounds:
  assumes "bounded_evidence e"
  shows "0 \<le> score_points e" and "score_points e \<le> 1000000"
  using score_product_bounds [OF assms] by (auto simp: score_points_def)

definition score_room :: "score_state \<Rightarrow> nat \<Rightarrow> bool" where
  "score_room s n \<longleftrightarrow> 0 \<le> sc_risk s \<and> sc_risk s + 1000000 * int n < 2 ^ 63 \<and>
     0 \<le> sc_mitigation s \<and> sc_mitigation s + 1000000 * int n < 2 ^ 63 \<and>
     0 \<le> sc_conf_sum s \<and> sc_conf_sum s \<le> 100 * sc_conf_count s \<and>
     0 \<le> sc_conf_count s \<and> sc_conf_sum s + 1000000 * int n < 2 ^ 63"

lemma score_evidence_step:
  assumes e: "bounded_evidence e" and s: "score_room s (Suc n)"
  shows "score_room (score_evidence e s) n \<and>
    sc_risk (score_evidence e s) = sc_risk s + (if ev_is_negative e then 0 else score_points e) \<and>
    sc_mitigation (score_evidence e s) = sc_mitigation s + (if ev_is_negative e then score_points e else 0)"
proof -
  note p = score_product_bounds [OF e] and q = score_points_bounds [OF e]
    and c = score_confidence_bounds [OF e]
  have prod: "wrap64 (evidence_weight e * score_confidence e) = evidence_weight e * score_confidence e"
    using p by (intro wrap64_id) auto
  have div: "go_div (evidence_weight e * score_confidence e) 100 = score_points e"
    using p by (simp add: go_div_nonneg score_points_def)
  have risk: "wrap64 (sc_risk s + score_points e) = sc_risk s + score_points e"
    and mit: "wrap64 (sc_mitigation s + score_points e) = sc_mitigation s + score_points e"
    and sum: "wrap64 (sc_conf_sum s + score_confidence e) = sc_conf_sum s + score_confidence e"
    using s q c by (auto simp: score_room_def intro!: wrap64_id)
  show ?thesis
    unfolding score_evidence_def Let_def score_confidence_def [symmetric] prod div
    using s q c by (auto simp: score_room_def risk mit sum distrib_left)
qed

lemma score_fold:
  assumes "\<forall>e \<in> set evs. bounded_evidence e" and "score_room s (length evs)"
  shows "score_room (fold score_evidence evs s) 0 \<and>
    sc_risk (fold score_evidence evs s) =
      sc_risk s + sum_list (map score_points (filter (\<lambda>e. \<not> ev_is_negative e) evs)) \<and>
    sc_mitigation (fold score_evidence evs s) =
      sc_mitigation s + sum_list (map score_points (filter ev_is_negative evs))"
  using assms
proof (induction evs arbitrary: s)
  case Nil
  then show ?case by simp
next
  case (Cons e evs)
  then have "score_room (score_evidence e s) (length evs)"
    and "sc_risk (score_evidence e s) = sc_risk s + (if ev_is_negative e then 0 else score_points e)"
    and "sc_mitigation (score_evidence e s) =
      sc_mitigation s + (if ev_is_negative e then score_points e else 0)"
    using score_evidence_step [of e s "length evs"] by simp_all
  with Cons.IH [of "score_evidence e s"] Cons.prems show ?case by simp
qed

lemma length_dedup_by: "length (dedup_by f S xs) \<le> length xs"
  by (induction f S xs rule: dedup_by.induct) auto

lemma score_initial:
  "n < 2 ^ 40 \<Longrightarrow>
   score_room \<lparr>sc_risk = 0, sc_mitigation = 0, sc_conf_sum = 0, sc_conf_count = 0\<rparr> n"
  by (simp add: score_room_def)

lemma evidence_reasons_take:
  "length rs < 6 \<Longrightarrow>
   evidence_reasons_from seen rs evs =
     take 6 (rs @ dedup_by (\<lambda>t. t) seen (map ev_type
       (filter (\<lambda>e. \<not> (ev_is_negative e \<or> ev_type e = ''HTTP_RESPONSE'' \<or> trim_space (ev_type e) = [])) evs)))"
proof (induction evs arbitrary: seen rs)
  case (Cons e evs)
  show ?case
  proof (cases "length rs = 5")
    case True
    then show ?thesis using Cons.IH [of rs seen] Cons.prems by (simp add: Let_def)
  next
    case False
    with Cons.prems have "length (rs @ [ev_type e]) < 6" by simp
    from Cons.IH [OF this] Cons.IH [OF Cons.prems] show ?thesis
      using False Cons.prems by (auto simp: Let_def)
  qed
qed simp

subsection \<open>Lemmas on the decision\<close>

lemma update_decision_fields [simp]:
  "ha_evidences (update_decision G a l) = ha_evidences a"
  "ha_result_state (update_decision G a l) = decision_state a l"
  "ha_host (update_decision G a l) = ha_host a"
  "ha_dns (update_decision G a l) = ha_dns a"
  by (simp_all add: update_decision_def Let_def)

lemma update_decision_decision:
  "\<exists>d. ha_decision (update_decision G a l) = Some d \<and> dec_state d = decision_state a l \<and>
     dec_impact_confirmed d = (decision_state a l = ResultConfirmed)"
  by (cases "inference_for_state (ha_inferences a) (state_for_level l)")
    (auto simp: update_decision_def Let_def split: option.split)

lemma calculate_scores_fields [simp]:
  "ha_evidences (calculate_scores a) = ha_evidences a"
  "ha_inferences (calculate_scores a) = ha_inferences a"
  "ha_verification_score (calculate_scores a) = ha_verification_score a"
  "ha_active_verification (calculate_scores a) = ha_active_verification a"
  "ha_host (calculate_scores a) = ha_host a"
  "ha_dns (calculate_scores a) = ha_dns a"
  by (simp_all add: calculate_scores_def Let_def)

lemma detect_fields [simp]:
  "ha_evidences (detect_unknown_provider G t1 t2 a) = ha_evidences a"
  "ha_result_state (detect_unknown_provider G t1 t2 a) = ha_result_state a"
  "ha_decision (detect_unknown_provider G t1 t2 a) = ha_decision a"
  "ha_classification (detect_unknown_provider G t1 t2 a) = ha_classification a"
  by (simp_all add: detect_unknown_provider_def Let_def)

lemma classify_level_cong:
  assumes "set (ha_evidences a) = set (ha_evidences b)"
    and "ha_verification_score a = ha_verification_score b"
    and "ha_active_verification a = ha_active_verification b"
  shows "classify_level G a = classify_level G b"
proof -
  have proven: "control_proven a = control_proven b" using assms(2,3) by (simp add: control_proven_def)
  have empty: "(ha_evidences a = []) = (ha_evidences b = [])" using assms(1)
    by (metis set_empty2)
  show ?thesis
    unfolding classify_level_def Let_def
    by (simp only: same_evidence_rules [OF assms(1)] proven empty)
qed

lemma strongest_from:
  "fold better_inference is best = Some i \<Longrightarrow> i \<in> set is \<or> best = Some i"
  by (induction "is" arbitrary: best) (auto simp: better_inference_def split: option.splits if_splits)

lemma strongest_in: "strongest_inference is = Some i \<Longrightarrow> i \<in> set is"
  using strongest_from [of "is" None] by (auto simp: strongest_inference_def)

lemma decision_state_confirmed:
  assumes "\<forall>i \<in> set (ha_inferences a). inf_state i \<noteq> ResultConfirmed"
  shows "decision_state a l = ResultConfirmed \<longleftrightarrow> state_for_level l = ResultConfirmed"
  using assms by (auto simp: decision_state_def Let_def inference_for_state_def
      dest!: strongest_in split: option.splits if_splits)

lemma decision_state_decided:
  "state_for_level l \<noteq> ResultInconclusive \<Longrightarrow> state_for_level l \<noteq> ResultObservation \<Longrightarrow>
   decision_state a l = state_for_level l"
  by (auto simp: decision_state_def Let_def split: option.splits)

lemma state_for_classified:
  "risk_rank (classify_level G a) \<ge> 3 \<Longrightarrow>
   state_for_level (classify_level G a) \<in> {ResultConfirmed, ResultCandidate}"
  unfolding classify_level_def Let_def
  by (auto simp: state_for_level_def split: if_splits)


subsection \<open>Properties\<close>

text \<open>The level depends only on which evidence is present and on the active verification:
  not on the order or repetition of the evidence, nor on the numeric scores.\<close>

theorem classify_order_independent:
  assumes "set (ha_evidences a) = set (ha_evidences b)"
    and "ha_verification_score a = ha_verification_score b"
    and "ha_active_verification a = ha_active_verification b"
  shows "snd (classify G a) = snd (classify G b) \<and>
    snd (classify G (calculate_scores a)) = snd (classify G b)"
  using classify_level_cong [OF assms] classify_level_cong [of "calculate_scores a" b] assms
  by (simp add: classify_def Let_def)


text \<open>C20. LIKELY_TAKEOVERABLE rests on two pieces of evidence of the same source that name the
  same provider and CNAME: a provider match, and a body or mutation fingerprint that comes from
  a rule, is not a generic error text and, for a mutation, was confirmed twice.\<close>

theorem likely_needs_bound_fingerprint:
  assumes "classify_level G a = LevelLikelyTakeoverable"
  shows "\<exists>cn e. cn \<in> set (ha_evidences a) \<and> e \<in> set (ha_evidences a) \<and>
    ev_type cn = ''CNAME_PROVIDER_MATCH'' \<and> ev_source cn \<noteq> [] \<and> ev_source e = ev_source cn \<and>
    meta_get (ev_metadata e) ''provider_id'' = meta_get (ev_metadata cn) ''provider_id'' \<and>
    meta_get (ev_metadata cn) ''provider_id'' \<noteq> [] \<and> meta_get (ev_metadata e) ''rule_id'' \<noteq> [] \<and>
    \<not> generic_fingerprint_text G (meta_get (ev_metadata e) ''matched_fingerprint'') \<and>
    (ev_type e = ''HTTP_BODY_MATCH'' \<and>
       meta_get (ev_metadata e) ''matched_cname'' = meta_get (ev_metadata cn) ''matched_cname'' \<or>
     ev_type e = ''HTTP_MUTATION_REVEALED_PROVIDER_FINGERPRINT'' \<and>
       meta_get (ev_metadata e) ''cname'' = meta_get (ev_metadata cn) ''matched_cname'' \<and>
       meta_get (ev_metadata e) ''confirmations'' = ''2'')"
proof -
  have "bound_pair (provider_bound_mutation G) (ha_evidences a) \<or>
      bound_pair (provider_bound_http G) (ha_evidences a)"
    using assms unfolding classify_level_def Let_def by (simp split: if_splits)
  then show ?thesis
    unfolding bound_pair_def provider_bound_mutation_def provider_bound_http_def list_ex_iff by blast
qed

text \<open>An adverse finding (MISCONFIGURED or worse) is never withdrawn by more evidence: with
  the same verification and at least the same evidence the level stays adverse.\<close>

theorem adverse_finding_persists:
  assumes "risk_rank (classify_level G a) \<ge> 3"
    and "set (ha_evidences a) \<subseteq> set (ha_evidences b)"
    and "ha_verification_score a = ha_verification_score b"
    and "ha_active_verification a = ha_active_verification b"
  shows "risk_rank (classify_level G b) \<ge> 3"
proof -
  from assms(1) have "adverse_signal G a" by (simp only: adverse_level)
  moreover have "control_proven a = control_proven b" using assms by (simp add: control_proven_def)
  ultimately have "adverse_signal G b"
    unfolding adverse_signal_def using assms(2) by (blast intro: bound_pair_mono has_any_mono)
  then show ?thesis by (simp only: adverse_level)
qed

text \<open>The scores count each type and source once: with weights up to a million and
  confidences in percent, the risk and mitigation scores are the sums of the weighted points of
  the first evidence of each key, cut at 100, and all three scores are percentages.\<close>

theorem calculate_scores_exact:
  assumes "\<forall>e \<in> set (ha_evidences a). bounded_evidence e" and "length (ha_evidences a) < 2 ^ 40"
  shows "ha_risk_score (calculate_scores a) = min 100 (sum_list (map score_points
      (filter (\<lambda>e. \<not> ev_is_negative e) (dedup_by score_key {} (ha_evidences a))))) \<and>
    ha_mitigation_score (calculate_scores a) = min 100 (sum_list (map score_points
      (filter ev_is_negative (dedup_by score_key {} (ha_evidences a))))) \<and>
    0 \<le> ha_risk_score (calculate_scores a) \<and> ha_risk_score (calculate_scores a) \<le> 100 \<and>
    0 \<le> ha_mitigation_score (calculate_scores a) \<and> ha_mitigation_score (calculate_scores a) \<le> 100 \<and>
    0 \<le> ha_confidence_score (calculate_scores a) \<and> ha_confidence_score (calculate_scores a) \<le> 100"
proof -
  define evs where "evs = dedup_by score_key {} (ha_evidences a)"
  define s where "s = fold score_evidence evs
    \<lparr>sc_risk = 0, sc_mitigation = 0, sc_conf_sum = 0, sc_conf_count = 0\<rparr>"
  have "\<forall>e \<in> set evs. bounded_evidence e"
    using assms(1) set_dedup_by_subset [of score_key "{}"] by (auto simp: evs_def)
  moreover have "length evs < 2 ^ 40"
    using assms(2) length_dedup_by [of score_key "{}" "ha_evidences a"] by (simp add: evs_def)
  ultimately have s: "score_room s 0" "sc_risk s = sum_list (map score_points (filter (\<lambda>e. \<not> ev_is_negative e) evs))"
      "sc_mitigation s = sum_list (map score_points (filter ev_is_negative evs))"
    using score_fold [OF _ score_initial] by (simp_all add: s_def)
  have avg: "0 \<le> go_div (sc_conf_sum s) (sc_conf_count s) \<and> go_div (sc_conf_sum s) (sc_conf_count s) \<le> 100"
    if "sc_conf_count s > 0"
  proof -
    have "sc_conf_sum s div sc_conf_count s \<le> (100 * sc_conf_count s) div sc_conf_count s"
      using s(1) that by (intro zdiv_mono1) (auto simp: score_room_def)
    then show ?thesis using s(1) that by (simp add: go_div_nonneg score_room_def pos_imp_zdiv_nonneg_iff)
  qed
  have "calculate_scores a = a\<lparr>ha_risk_score := (if sc_risk s > 100 then 100 else sc_risk s),
      ha_mitigation_score := (if sc_mitigation s > 100 then 100 else sc_mitigation s),
      ha_confidence_score := (if sc_conf_count s > 0 then go_div (sc_conf_sum s) (sc_conf_count s) else 0)\<rparr>"
    by (simp add: calculate_scores_def score_loop_dedup s_def evs_def Let_def)
  then show ?thesis
    using s avg by (auto simp: evs_def [symmetric] score_room_def min_def)
qed

text \<open>C7. The reasons of a decision without a selected inference are the first six distinct
  types of the positive evidence, in order, without the HTTP context and blank types.\<close>

theorem evidence_reasons_exact:
  "evidence_reasons a = take 6 (dedup_by (\<lambda>t. t) {} (map ev_type
     (filter (\<lambda>e. \<not> (ev_is_negative e \<or> ev_type e = ''HTTP_RESPONSE'' \<or> trim_space (ev_type e) = []))
       (ha_evidences a)))) \<and>
   distinct (evidence_reasons a) \<and> length (evidence_reasons a) \<le> 6"
  unfolding evidence_reasons_def
  by (simp add: evidence_reasons_take distinct_take [OF distinct_dedup_by [of "\<lambda>t. t", simplified]])

text \<open>C19. After \<open>Process\<close> the result state is the state of the decision, and the decision
  confirms an impact exactly at the levels that assert one: an inference alone never does.\<close>

theorem impact_confirmed_exactly:
  "\<exists>d. ha_decision (process_analysis G t1 t2 a) = Some d \<and>
     dec_state d = ha_result_state (process_analysis G t1 t2 a) \<and>
     (dec_impact_confirmed d \<longleftrightarrow>
        ha_classification (process_analysis G t1 t2 a) \<in>
          {LevelTakenOver, LevelConfirmed, LevelZoneControlConfirmed,
           LevelDelegationClaimabilityVerified, LevelExposed})"
proof -
  define b where "b = calculate_scores (analyze G a)"
  define l where "l = classify_level G b"
  have process: "process_analysis G t1 t2 a =
      detect_unknown_provider G t1 t2 ((update_decision G b l)\<lparr>ha_classification := l\<rparr>)"
    by (simp add: process_analysis_def classify_def Let_def b_def l_def)
  have "decision_state b l = ResultConfirmed \<longleftrightarrow> state_for_level l = ResultConfirmed"
  proof (cases "risk_rank l \<ge> 3")
    case True
    then have "state_for_level l \<in> {ResultConfirmed, ResultCandidate}"
      unfolding l_def by (rule state_for_classified)
    then show ?thesis using decision_state_decided [of l b] by auto
  next
    case False
    then have "\<not> adverse_signal G b" using adverse_level [of G b] by (simp add: l_def)
    then have "\<not> has_type (ha_evidences (analyze G a)) ''PLAINTEXT_AUTH_INTERFACE''"
        "\<not> has_type (ha_evidences (analyze G a)) ''HTTP_SENSITIVE_COOKIE_WITHOUT_SECURE''"
      by (auto simp: adverse_signal_def exposed_types_def b_def)
    then have "\<forall>i \<in> set (ha_inferences b). inf_state i \<noteq> ResultConfirmed"
      using analyze_confirmed_backed [of G a] by (auto simp: confirmed_backed_def b_def list_ex_iff)
    then show ?thesis by (rule decision_state_confirmed)
  qed
  moreover have "state_for_level l = ResultConfirmed \<longleftrightarrow>
      l \<in> {LevelTakenOver, LevelConfirmed, LevelZoneControlConfirmed,
           LevelDelegationClaimabilityVerified, LevelExposed}"
    by (auto simp: state_for_level_def)
  ultimately show ?thesis
    using update_decision_decision [of G b l] unfolding process by auto
qed

text \<open>C8. A provider is reported as unknown only when the last alias (or the first name server)
  of the host belongs to another registrable domain than the host and no evidence matched a
  known provider; the severity is HIGH exactly when the record is orphaned.\<close>

theorem unknown_provider_reported:
  assumes "ha_unknown_provider a = None"
    and "ha_unknown_provider (detect_unknown_provider G t1 t2 a) = Some p"
  shows "up_root_domain p = extract_root_domain G (unknown_target a) \<and>
    up_root_domain p \<noteq> extract_root_domain G (ha_host a) \<and> up_root_domain p \<noteq> [] \<and>
    (\<forall>e \<in> set (ha_evidences a). \<not> known_provider_evidence e) \<and>
    (up_severity p = ''HIGH'' \<longleftrightarrow> (\<exists>e \<in> set (ha_evidences a). orphan_signal e))"
  using assms
  by (auto simp: detect_unknown_provider_def Let_def list_ex_iff filter_empty_conv split: if_splits)

subsection \<open>Concrete analyses\<close>

definition some_evidence :: "string \<Rightarrow> string \<Rightarrow> meta \<Rightarrow> evidence" where
  "some_evidence t source md = zero_evidence\<lparr>ev_type := t, ev_source := source, ev_metadata := md\<rparr>"

definition with_evidences :: "evidence list \<Rightarrow> host_analysis" where
  "with_evidences evs = zero_host_analysis\<lparr>ha_evidences := evs\<rparr>"

lemma with_evidences_simps [simp]:
  "ha_evidences (with_evidences evs) = evs" "ha_verification_score (with_evidences evs) = 0"
  "ha_active_verification (with_evidences evs) = None"
  "ha_unknown_provider (with_evidences evs) = None"
  by (simp_all add: with_evidences_def zero_host_analysis_def)

definition bucket_cname :: evidence where
  "bucket_cname = some_evidence ''CNAME_PROVIDER_MATCH'' ''aws''
     [(''provider_id'', ''aws-s3''), (''matched_cname'', ''b.s3.amazonaws.com'')]"

definition bucket_body :: evidence where
  "bucket_body = some_evidence ''HTTP_BODY_MATCH'' ''aws''
     [(''provider_id'', ''aws-s3''), (''matched_cname'', ''b.s3.amazonaws.com''), (''rule_id'', ''r1''),
      (''matched_fingerprint'', ''NoSuchBucket'')]"

definition verified_delegation :: evidence where
  "verified_delegation = some_evidence ''DELEGATION_CLAIMABILITY_VERIFIED'' ''dns'' []"

text \<open>The adverse rank itself may fall when evidence is added: the provider fingerprint is
  tested before the verified delegation.\<close>

lemmas concrete_evidence = bucket_cname_def bucket_body_def verified_delegation_def
  some_evidence_def zero_evidence_def

lemmas plain_lemmas = plain_char_def is_space_def in_range_def

lemma nosuchbucket_specific: "\<not> generic_fingerprint_text ascii_env ''NoSuchBucket''"
proof -
  have "to_lower ascii_env ''NoSuchBucket'' = ''nosuchbucket''"
    by (simp add: to_lower_ascii lower_char_def in_range_def char_of_def bit_iff_odd)
  moreover have "fields_func (\<lambda>r. \<not> is_letter ascii_env r \<and> \<not> is_digit ascii_env r) ''nosuchbucket'' =
      [''nosuchbucket'']"
    by (rule fields_func_one) (simp_all add: is_letter_def in_range_def)
  moreover have "go_fields ''nosuchbucket'' = [''nosuchbucket'']"
    by (rule go_fields_plain) (simp_all add: plain_lemmas)
  ultimately show ?thesis
    by (simp add: generic_fingerprint_text_def Let_def)
qed

lemma bucket_pair: "bound_pair (provider_bound_http ascii_env) (bucket_cname # bucket_body # evs)"
  by (simp add: bound_pair_def provider_bound_http_def concrete_evidence nosuchbucket_specific)

lemma rank_may_fall:
  "classify_level G (with_evidences [verified_delegation]) = LevelDelegationClaimabilityVerified"
  "classify_level ascii_env (with_evidences [bucket_cname, bucket_body, verified_delegation]) =
     LevelLikelyTakeoverable"
proof -
  have "has_type [verified_delegation] t \<longleftrightarrow> t = ''DELEGATION_CLAIMABILITY_VERIFIED''" for t
    by (auto simp: concrete_evidence)
  then show "classify_level G (with_evidences [verified_delegation]) = LevelDelegationClaimabilityVerified"
    by (simp add: classify_level_def Let_def control_proven_def bound_pair_def verified_delegation_def some_evidence_def)
  have "has_type [bucket_cname, bucket_body, verified_delegation] t \<longleftrightarrow>
      t \<in> {''CNAME_PROVIDER_MATCH'', ''HTTP_BODY_MATCH'', ''DELEGATION_CLAIMABILITY_VERIFIED''}" for t
    by (auto simp: concrete_evidence)
  then show "classify_level ascii_env (with_evidences [bucket_cname, bucket_body, verified_delegation]) =
      LevelLikelyTakeoverable"
    by (simp add: classify_level_def Let_def control_proven_def bucket_pair del: has_type_Cons)
qed

theorem classify_order_independent_witness:
  "snd (classify ascii_env (with_evidences [bucket_cname, bucket_body])) =
     snd (classify ascii_env (with_evidences [bucket_body, bucket_cname])) \<and>
   snd (classify ascii_env (calculate_scores (with_evidences [bucket_cname, bucket_body]))) =
     snd (classify ascii_env (with_evidences [bucket_body, bucket_cname]))"
  by (rule classify_order_independent) auto


lemma bucket_likely:
  "classify_level ascii_env (with_evidences [bucket_cname, bucket_body]) = LevelLikelyTakeoverable"
proof -
  have "has_type [bucket_cname, bucket_body] t \<longleftrightarrow> t \<in> {''CNAME_PROVIDER_MATCH'', ''HTTP_BODY_MATCH''}" for t
    by (auto simp: concrete_evidence)
  then show ?thesis
    by (simp add: classify_level_def Let_def control_proven_def bucket_pair del: has_type_Cons)
qed

theorem likely_needs_bound_fingerprint_witness:
  "\<exists>cn e. cn \<in> {bucket_cname, bucket_body} \<and> e \<in> {bucket_cname, bucket_body} \<and>
     ev_type cn = ''CNAME_PROVIDER_MATCH'' \<and> meta_get (ev_metadata e) ''rule_id'' \<noteq> []"
  using likely_needs_bound_fingerprint [OF bucket_likely] by simp blast

theorem adverse_finding_persists_witness:
  "risk_rank (classify_level ascii_env (with_evidences [bucket_cname, verified_delegation])) \<ge> 3"
proof (rule adverse_finding_persists)
  show "risk_rank (classify_level ascii_env (with_evidences [verified_delegation])) \<ge> 3"
    by (simp only: rank_may_fall risk_rank_levels)
qed auto

theorem calculate_scores_exact_witness:
  "ha_risk_score (calculate_scores (with_evidences [bucket_body, bucket_cname, bucket_body])) =
     min 100 (sum_list (map score_points [bucket_body, bucket_cname]))"
proof -
  have "dedup_by score_key {} [bucket_body, bucket_cname, bucket_body] = [bucket_body, bucket_cname]"
    by code_simp
  moreover have "\<not> ev_is_negative bucket_body" "\<not> ev_is_negative bucket_cname"
    by (simp_all add: bucket_body_def bucket_cname_def some_evidence_def zero_evidence_def)
  moreover have "\<forall>e \<in> set [bucket_body, bucket_cname, bucket_body]. bounded_evidence e"
    by (simp add: bounded_evidence_def bucket_body_def bucket_cname_def some_evidence_def zero_evidence_def)
  ultimately show ?thesis
    using calculate_scores_exact [of "with_evidences [bucket_body, bucket_cname, bucket_body]"] by simp
qed

definition foreign_host :: host_analysis where
  "foreign_host = (with_evidences [some_evidence ''CNAME_DANGLING'' ''dns'' []])
     \<lparr>ha_host := ''a.test'', ha_dns := zero_dns_record_set\<lparr>rs_cname := [''gone.invalid'']\<rparr>\<rparr>"

theorem unknown_provider_reported_witness:
  "\<exists>p. ha_unknown_provider (detect_unknown_provider ascii_env 0 0 foreign_host) = Some p \<and>
     up_severity p = ''HIGH'' \<and> up_root_domain p \<noteq> extract_root_domain ascii_env ''a.test''"
proof -
  have none: "ha_unknown_provider foreign_host = None"
    by (simp add: foreign_host_def)
  have "extract_root_domain ascii_env ''gone.invalid'' \<noteq> extract_root_domain ascii_env ''a.test''"
    "extract_root_domain ascii_env ''gone.invalid'' \<noteq> []"
    by (simp_all add: extract_root_domain_def trim_suffix_def trim_space_plain to_lower_plain
        plain_lemmas suffix_to_prefix)
  then have "ha_unknown_provider (detect_unknown_provider ascii_env 0 0 foreign_host) \<noteq> None"
    by (simp add: detect_unknown_provider_def Let_def foreign_host_def unknown_target_def
        known_provider_evidence_def some_evidence_def zero_evidence_def)
  then obtain p where some: "ha_unknown_provider (detect_unknown_provider ascii_env 0 0 foreign_host) = Some p"
    by auto
  moreover have "\<exists>e \<in> set (ha_evidences foreign_host). orphan_signal e"
    by (simp add: foreign_host_def some_evidence_def orphan_signal_def)
  moreover have "ha_host foreign_host = ''a.test''" by (simp add: foreign_host_def)
  ultimately show ?thesis
    using unknown_provider_reported [OF none some] by auto
qed

end
