(* ===== verification/Confidence.thy ===== *)
theory Confidence
  imports Classification
begin

section \<open>Confidence of a classification (internal/confidence)\<close>

text \<open>
  \<open>calculate\<close> follows \<open>Calculate\<close>: the coverage of the requested vectors, the knowledge score, and
  the percentage of the classification, in \<open>float64\<close> arithmetic (theory GoFloat). The coverage
  weights are integers and the knowledge weights are quarters, and the sums stay far below
  \<open>2 ^ 50\<close>, so the additions of these two loops are exact and are written on numbers; every other
  operation rounds with \<open>fl64\<close>.

  Proved: the coverage is a percentage, grows with the tested vectors, does not depend on the
  order in which the map of expected vectors is visited, and is 100 exactly when everything
  expected was tested; a percentage never exceeds the coverage unless a claim succeeded, and 100
  percent is given exactly to the two levels that record a successful claim.
\<close>

record verdict =
  vd_percentage :: rat
  vd_label :: string
  vd_reasons :: "string list"
  vd_coverage_score :: rat

subsection \<open>Coverage\<close>

definition vector_weights :: "(string, int) gomap" where
  "vector_weights =
     [(''DNS'', 20), (''HTTP'', 20), (''TLS'', 15), (''MX'', 10), (''TXT'', 10), (''SRV'', 10),
      (''A_AAAA_ASN'', 10), (''CAA'', 5), (''NS_DELEGATION'', 20), (''EMAIL'', 10),
      (''SEC_HEADERS'', 5), (''OPEN_REDIRECT'', 5), (''AXFR'', 10), (''DNSSEC'', 5),
      (''SHADOW_IT'', 5), (''CLOUD'', 10), (''HTTP_MUTATOR'', 10), (''HTTP_FRAMING_LAB'', 10),
      (''HTTP_POSTURE'', 5), (''REDIRECT_CHAIN'', 5), (''VHOST'', 5), (''WEB_DEPENDENCIES'', 5),
      (''SNI'', 5), (''TLS_SAN_DISCOVERY'', 5), (''TLS_SAN_PIVOT'', 5), (''ORIGIN_EXPOSURE'', 5),
      (''PROVIDER_HISTORY'', 5)]"

definition vector_weight :: "string \<Rightarrow> int" where
  "vector_weight v = (case map_of vector_weights v of Some w \<Rightarrow> w | None \<Rightarrow> 0)"

definition base_vectors :: "(string, bool) gomap" where
  "base_vectors = [(''DNS'', True), (''HTTP'', True), (''TLS'', True), (''MX'', True), (''TXT'', True),
     (''SRV'', True), (''A_AAAA_ASN'', True), (''CAA'', True)]"

text \<open>The keys a profile adds are all different from the base keys and from each other.\<close>

definition profile_vectors :: "scan_profile \<Rightarrow> (string, bool) gomap" where
  "profile_vectors p =
     [(''HTTP_POSTURE'', sp_version p \<ge> 2),
      (''REDIRECT_CHAIN'', sp_follow_redirects p \<and> sp_version p \<ge> 2),
      (''VHOST'', sp_check_v_host p),
      (''WEB_DEPENDENCIES'', sp_check_web_deps p),
      (''SNI'', sp_check_sni p),
      (''TLS_SAN_DISCOVERY'', sp_version p \<ge> 3 \<and> \<not> sp_pivot_san p),
      (''TLS_SAN_PIVOT'', sp_pivot_san p),
      (''ORIGIN_EXPOSURE'', sp_check_origin p),
      (''PROVIDER_HISTORY'', sp_version p \<ge> 2),
      (''NS_DELEGATION'', sp_check_ns p),
      (''EMAIL'', sp_check_email p),
      (''SEC_HEADERS'', sp_check_headers p),
      (''OPEN_REDIRECT'', sp_check_redirects p),
      (''AXFR'', sp_check_axfr p),
      (''DNSSEC'', sp_check_dnssec p),
      (''SHADOW_IT'', sp_check_shadow_it p),
      (''CLOUD'', sp_check_cloud p),
      (''HTTP_MUTATOR'', sp_check_evasion p),
      (''HTTP_FRAMING_LAB'', sp_check_framing p)]"

definition expected_vectors :: "scan_profile option \<Rightarrow> (string, bool) gomap" where
  "expected_vectors profile = (case profile of
     None \<Rightarrow> base_vectors
   | Some p \<Rightarrow> fold (\<lambda>(k, v) m. map_put m k v) (profile_vectors p) base_vectors)"

definition canonical_vector :: "string \<Rightarrow> string" where
  "canonical_vector v = (if v = ''NS'' then ''NS_DELEGATION'' else if v = ''ASN'' then ''A_AAAA_ASN'' else v)"

fun coverage_loop :: "string set \<Rightarrow> (string, bool) gomap \<Rightarrow> int \<times> int \<Rightarrow> int \<times> int" where
  "coverage_loop tested [] acc = acc"
| "coverage_loop tested ((v, enabled) # m) (completed, expected) =
     (if \<not> enabled then coverage_loop tested m (completed, expected)
      else coverage_loop tested m
        ((if v \<in> tested then completed + vector_weight v else completed),
         expected + vector_weight v))"

definition coverage_of :: "string list \<Rightarrow> (string, bool) gomap \<Rightarrow> rat" where
  "coverage_of tested expected_map =
     (let tested_set = set (map canonical_vector tested);
          (completed, expected) = coverage_loop tested_set expected_map (0, 0)
      in if expected = 0 then 0
         else min (fl64 (fl64 (of_int completed / of_int expected) * 100)) 100)"

definition calculate_coverage :: "string list \<Rightarrow> scan_profile option \<Rightarrow> rat" where
  "calculate_coverage tested profile = coverage_of tested (expected_vectors profile)"

subsection \<open>Knowledge\<close>

definition knowledge_points :: "string \<Rightarrow> rat" where
  "knowledge_points t =
     (if t \<in> {''CNAME_PROVIDER_MATCH'', ''NS_PROVIDER_MATCH'', ''MX_PROVIDER_MATCH''} then 40
      else if t = ''HTTP_BODY_MATCH'' then 15
      else if t = ''VERIFIER_CONFIRMED'' then 10
      else if t = ''TLS_PROVIDER_MATCH'' then 10
      else if t \<in> {''CLOUD_PROVIDER_MATCH'', ''ASN_PROVIDER_MATCH'', ''CLOUD_IP_CONTEXT''} then 15 / 4
      else 0)"

fun knowledge_loop :: "string set \<Rightarrow> evidence list \<Rightarrow> rat \<Rightarrow> rat" where
  "knowledge_loop seen [] score = score"
| "knowledge_loop seen (e # evs) score =
     (if ev_type e \<in> seen then knowledge_loop seen evs score
      else knowledge_loop (insert (ev_type e) seen) evs (score + knowledge_points (ev_type e)))"

definition calculate_knowledge :: "evidence list \<Rightarrow> rat" where
  "calculate_knowledge evs =
     (let score = knowledge_loop {} evs 0 in if score > 100 then 100 else score)"

subsection \<open>The verdict\<close>

definition txt_long_lived :: string where
  "txt_long_lived = ''Observado por um per'' @ [CHR 0xC3, CHR 0xAD] @ ''odo prolongado''"

definition txt_unknown_provider :: string where
  "txt_unknown_provider = ''UNKNOWN_PROVIDER (confian'' @ [CHR 0xC3, CHR 0xA7] @ ''a limitada)''"

definition txt_no_orphan :: string where
  "txt_no_orphan = ''Nenhum indicador de recurso '' @ [CHR 0xC3, CHR 0xB3] @ ''rf'' @
     [CHR 0xC3, CHR 0xA3] @ ''o encontrado''"

definition txt_no_takeover :: string where
  "txt_no_takeover = ''Nenhum indicador de takeover encontrado''"

definition txt_cookie_impact :: string where
  "txt_cookie_impact = ''Impacto potencial: cookie emitido para o dom'' @ [CHR 0xC3, CHR 0xAD] @
     ''nio registr'' @ [CHR 0xC3, CHR 0xA1] @ ''vel''"

definition txt_cors_impact :: string where
  "txt_cors_impact = ''Impacto potencial: origem candidata refletida com credenciais em CORS''"

definition txt_nothing_scored :: string where
  "txt_nothing_scored = ''Nenhuma evid'' @ [CHR 0xC3, CHR 0xAA] @
     ''ncia pontuada sustenta uma confian'' @ [CHR 0xC3, CHR 0xA7] @ ''a diferente de zero''"

definition percent_label :: "rat \<Rightarrow> string" where
  "percent_label x = format_f1 x @ ''%''"

text \<open>The float constants 99.9, 0.2, 1.15 and 1.20.\<close>

definition percent_cap :: rat where "percent_cap = fl64 (999 / 10)"
definition mitigation_factor :: rat where "mitigation_factor = fl64 (1 / 5)"
definition orphan_factor :: rat where "orphan_factor = fl64 (23 / 20)"
definition correlated_factor :: rat where "correlated_factor = fl64 (6 / 5)"

definition healthy_verdict :: "host_analysis \<Rightarrow> rat \<Rightarrow> verdict" where
  "healthy_verdict a coverage =
     (let bonus = fl64 (fl64 (of_int (ha_mitigation_score a)) * mitigation_factor);
          computed0 = fl64 (80 + bonus);
          computed = (if computed0 > percent_cap then percent_cap else computed0);
          percentage0 = min computed coverage;
          limited = coverage \<ge> 80 \<and> ha_knowledge_score a \<le> 30 \<and> ha_unknown_provider a \<noteq> None;
          percentage = (if limited \<and> percentage0 > 45 then 45 else percentage0)
      in \<lparr>vd_percentage = percentage, vd_label = percent_label percentage,
          vd_reasons = (if limited then [txt_unknown_provider] else []) @ [txt_no_orphan, txt_no_takeover] @
            map ev_type (filter ev_is_negative (ha_evidences a)),
          vd_coverage_score = coverage\<rparr>)"

fun reinforce :: "evidence list \<Rightarrow> rat \<times> string list \<Rightarrow> rat \<times> string list" where
  "reinforce [] acc = acc"
| "reinforce (e # evs) (multiplier, reasons) =
     (let (multiplier', reasons') =
            (if ev_type e = ''LONG_LIVED_ORPHAN'' then (orphan_factor, reasons @ [txt_long_lived])
             else if ev_type e = ''CORRELATED_PROVIDER_CONFIRMATION'' then (correlated_factor, reasons)
             else (multiplier, reasons));
          reasons'' = (if \<not> ev_is_negative e \<and> length reasons' < 4 then reasons' @ [ev_type e] else reasons')
      in reinforce evs (multiplier', reasons''))"

definition scored_verdict :: "host_analysis \<Rightarrow> rat \<Rightarrow> verdict" where
  "scored_verdict a coverage =
     (let base = fl64 (of_int (ha_confidence_score a));
          (multiplier, reasons0) = reinforce (ha_evidences a) (1, []);
          computed = min (fl64 (base * multiplier)) percent_cap;
          percentage = min computed coverage;
          reasons = reasons0
            @ (if ha_classification a = LevelTakeoverable \<and> ha_parent_cookie_scope a then [txt_cookie_impact] else [])
            @ (if ha_classification a = LevelTakeoverable \<and> ha_parent_cors_wildcard a then [txt_cors_impact] else [])
            @ (if computed = 0 then [txt_nothing_scored] else [])
      in \<lparr>vd_percentage = percentage, vd_label = percent_label percentage, vd_reasons = reasons,
          vd_coverage_score = coverage\<rparr>)"

definition calculate :: "host_analysis \<Rightarrow> host_analysis \<times> verdict" where
  "calculate a0 =
     (let coverage = calculate_coverage (ha_tested_vectors a0) (ha_scan_profile a0);
          a = a0\<lparr>ha_coverage_score := coverage, ha_knowledge_score := calculate_knowledge (ha_evidences a0)\<rparr>
      in (a,
        if ha_classification a = LevelTakenOver \<or> ha_classification a = LevelZoneControlConfirmed then
          \<lparr>vd_percentage = 100, vd_label = ''100.0%'', vd_reasons = [''PROVEN_CLAIM_SUCCESS''],
           vd_coverage_score = coverage\<rparr>
        else if ha_classification a = LevelInsufficientEvidence then
          \<lparr>vd_percentage = 0, vd_label = ''0.0%'', vd_reasons = [''NO_POSITIVE_HEALTH_OR_RISK_SIGNAL''],
           vd_coverage_score = coverage\<rparr>
        else if ha_classification a = LevelHealthy then healthy_verdict a coverage
        else scored_verdict a coverage))"


subsection \<open>Lemmas on the coverage\<close>

definition enabled_weight :: "(string \<Rightarrow> bool) \<Rightarrow> (string, bool) gomap \<Rightarrow> int" where
  "enabled_weight P m = sum_list (map (\<lambda>(v, enabled). if enabled \<and> P v then vector_weight v else 0) m)"

lemma enabled_weight_simps [simp]:
  "enabled_weight P [] = 0"
  "enabled_weight P ((v, b) # m) = (if b \<and> P v then vector_weight v else 0) + enabled_weight P m"
  by (simp_all add: enabled_weight_def)

lemma coverage_loop_sums:
  "coverage_loop T m (c, e) =
     (c + enabled_weight (\<lambda>v. v \<in> T) m, e + enabled_weight (\<lambda>_. True) m)"
  by (induction m arbitrary: c e) auto

lemma enabled_weight_perm [det_intros]: "mset m = mset m' \<Longrightarrow> enabled_weight P m = enabled_weight P m'"
  by (simp add: enabled_weight_def flip: sum_mset_sum_list)

definition weighted :: "(string, bool) gomap \<Rightarrow> bool" where
  "weighted m \<longleftrightarrow> (\<forall>(v, b) \<in> set m. 5 \<le> vector_weight v \<and> vector_weight v \<le> 20)"

lemma enabled_weight_bounds:
  assumes "weighted m"
  shows "0 \<le> enabled_weight P m" and "enabled_weight P m \<le> 20 * int (length m)"
    and "enabled_weight P m \<le> enabled_weight (\<lambda>_. True) m"
  using assms by (induction m) (auto simp: weighted_def)

lemma enabled_weight_mono:
  assumes "weighted m" and "\<forall>v. P v \<longrightarrow> Q v"
  shows "enabled_weight P m \<le> enabled_weight Q m"
  using assms by (induction m) (auto simp: weighted_def)

lemma enabled_weight_gap:
  assumes "weighted m" and "(v, True) \<in> set m" and "\<not> P v"
  shows "enabled_weight P m + 5 \<le> enabled_weight (\<lambda>_. True) m"
  using assms
proof (induction m)
  case (Cons x m)
  then have "weighted m" by (simp add: weighted_def)
  with Cons show ?case
    using enabled_weight_bounds(3) [of m P] by (auto simp: weighted_def split: if_splits)
qed simp

lemma enabled_weight_all:
  assumes "\<And>v. (v, True) \<in> set m \<Longrightarrow> P v"
  shows "enabled_weight P m = enabled_weight (\<lambda>_. True) m"
  unfolding enabled_weight_def
  by (rule arg_cong [where f = sum_list], rule map_cong) (use assms in auto)

lemma weighted_map_put: "weighted m \<Longrightarrow> 5 \<le> vector_weight k \<Longrightarrow> vector_weight k \<le> 20 \<Longrightarrow> weighted (map_put m k b)"
  by (induction m k b rule: map_put.induct) (auto simp: weighted_def)

lemma weighted_put_all:
  "weighted m \<Longrightarrow> weighted kvs \<Longrightarrow> weighted (fold (\<lambda>(k, v) m. map_put m k v) kvs m)"
proof (induction kvs arbitrary: m)
  case (Cons x kvs)
  obtain k b where x: "x = (k, b)" by (cases x)
  with Cons.prems have "weighted kvs" "5 \<le> vector_weight k" "vector_weight k \<le> 20"
    by (simp_all add: weighted_def)
  with Cons.IH [of "map_put m k b"] Cons.prems(1) x show ?case by (simp add: weighted_map_put)
qed simp

lemma vector_weight_known:
  assumes "map_of vector_weights v = Some w"
  shows "5 \<le> vector_weight v \<and> vector_weight v \<le> 20"
proof -
  have "\<forall>(k, w) \<in> set vector_weights. 5 \<le> w \<and> w \<le> 20" by (simp add: vector_weights_def)
  with map_of_SomeD [OF assms] show ?thesis using assms by (auto simp: vector_weight_def)
qed

lemma weighted_keys:
  "list_all (\<lambda>k. map_of vector_weights k \<noteq> None) (map fst m) \<Longrightarrow> weighted m"
  unfolding weighted_def list_all_iff using vector_weight_known by fastforce

lemma weighted_profile: "weighted (profile_vectors p)" and weighted_base: "weighted base_vectors"
  by (rule weighted_keys, simp add: profile_vectors_def base_vectors_def, simp add: vector_weights_def)+

lemma weighted_expected: "weighted (expected_vectors profile)"
  by (cases profile) (simp_all add: expected_vectors_def weighted_base weighted_put_all weighted_profile)

lemma length_map_put: "length (map_put m k v) \<le> Suc (length m)"
  by (induction m k v rule: map_put.induct) auto

lemma length_put_all: "length (fold (\<lambda>(k, v) m. map_put m k v) kvs m) \<le> length m + length kvs"
proof (induction kvs arbitrary: m)
  case (Cons x kvs)
  obtain k v where "x = (k, v)" by (cases x)
  with Cons [of "map_put m k v"] length_map_put [of m k v] show ?case by simp
qed simp

lemma length_expected: "length (expected_vectors profile) \<le> 27"
proof (cases profile)
  case (Some p)
  then show ?thesis
    using length_put_all [of "profile_vectors p" base_vectors]
    by (simp add: expected_vectors_def base_vectors_def profile_vectors_def)
qed (simp add: expected_vectors_def base_vectors_def)

lemma dns_expected: "(''DNS'', True) \<in> set (expected_vectors profile)"
proof (cases profile)
  case (Some p)
  have "map_of (fold (\<lambda>(k, v) m. map_put m k v) kvs m) k = map_of m k"
    if "k \<notin> fst ` set kvs" for k m and kvs :: "(string, bool) gomap"
    using that by (induction kvs arbitrary: m) auto
  from this [of "''DNS''" "profile_vectors p" base_vectors]
  have "map_of (expected_vectors profile) ''DNS'' = Some True"
    using Some by (simp add: expected_vectors_def profile_vectors_def base_vectors_def)
  then show ?thesis by (rule map_of_SomeD)
qed (simp add: expected_vectors_def base_vectors_def)

lemma fl64_ratio:
  assumes "0 \<le> c" and "c \<le> e" and "0 < (e :: int)" and "e \<le> 1000"
  shows "0 \<le> fl64 (fl64 (of_int c / of_int e) * 100)"
    and "c < e \<Longrightarrow> fl64 (fl64 (of_int c / of_int e) * 100) < 100"
    and "c = e \<Longrightarrow> fl64 (fl64 (of_int c / of_int e) * 100) = 100"
proof -
  show "0 \<le> fl64 (fl64 (of_int c / of_int e) * 100)"
    using assms by (intro fl64_nonneg mult_nonneg_nonneg) auto
  show "fl64 (fl64 (of_int c / of_int e) * 100) = 100" if "c = e"
    using that assms fl64_numeral [of "num.Bit0 (num.Bit0 (num.Bit1 (num.Bit0 (num.Bit0 (num.Bit1 num.One)))))"]
    by simp
  show "fl64 (fl64 (of_int c / of_int e) * 100) < 100" if "c < e"
  proof -
    have "of_int c / of_int e \<le> (1023 / 1024 :: rat)"
    proof -
      have "1024 * c \<le> 1023 * e" using that assms by linarith
      then have "(1024 :: rat) * of_int c \<le> 1023 * of_int e"
        by (metis of_int_le_iff of_int_mult of_int_numeral)
      then show ?thesis using assms by (simp add: field_simps)
    qed
    then have "fl64 (of_int c / of_int e) \<le> fl64 (1023 / 1024)" by (rule fl64_mono)
    moreover have "fl64 (1023 / 1024) = (1023 / 1024 :: rat)" by code_simp
    ultimately have "fl64 (of_int c / of_int e) * 100 \<le> 12790 / 128" by linarith
    then have "fl64 (fl64 (of_int c / of_int e) * 100) \<le> fl64 (12790 / 128)"
      by (intro fl64_mono) simp
    moreover have "fl64 (12790 / 128) < (100 :: rat)" by code_simp
    ultimately show ?thesis by linarith
  qed
qed

lemma coverage_alt:
  "coverage_of tested m =
     (let c = enabled_weight (\<lambda>v. v \<in> canonical_vector ` set tested) m;
          e = enabled_weight (\<lambda>_. True) m
      in if e = 0 then 0 else min (fl64 (fl64 (of_int c / of_int e) * 100)) 100)"
  by (simp add: coverage_of_def coverage_loop_sums Let_def)

lemma expected_total:
  "0 < enabled_weight (\<lambda>_. True) (expected_vectors profile)"
  "enabled_weight (\<lambda>_. True) (expected_vectors profile) \<le> 1000"
proof -
  show "0 < enabled_weight (\<lambda>_. True) (expected_vectors profile)"
    using enabled_weight_gap [OF weighted_expected [of profile] dns_expected, of "\<lambda>_. False"]
      enabled_weight_bounds(1) [OF weighted_expected, of "\<lambda>_. False" profile] by simp
  show "enabled_weight (\<lambda>_. True) (expected_vectors profile) \<le> 1000"
    using enabled_weight_bounds(2) [OF weighted_expected, of "\<lambda>_. True" profile]
      length_expected [of profile] by linarith
qed


lemma coverage_alt_pos:
  "coverage_of tested (expected_vectors profile) =
     min (fl64 (fl64 (of_int (enabled_weight (\<lambda>v. v \<in> canonical_vector ` set tested) (expected_vectors profile)) /
       of_int (enabled_weight (\<lambda>_. True) (expected_vectors profile))) * 100)) 100"
  using expected_total(1) [of profile] by (simp add: coverage_alt)

subsection \<open>Lemmas on the percentage\<close>

lemma percent_cap_less: "percent_cap < 100"
  unfolding percent_cap_def by code_simp

lemma healthy_bounds:
  "vd_percentage (healthy_verdict a cov) \<le> cov \<and> vd_percentage (healthy_verdict a cov) \<le> percent_cap"
  by (auto simp: healthy_verdict_def Let_def min_def)

lemma scored_bounds:
  "vd_percentage (scored_verdict a cov) \<le> cov \<and> vd_percentage (scored_verdict a cov) \<le> percent_cap"
  by (auto simp: scored_verdict_def Let_def split: prod.split)

lemma calculate_percentage_cases:
  "vd_percentage (snd (calculate a)) =
     (if ha_classification a \<in> {LevelTakenOver, LevelZoneControlConfirmed} then 100
      else if ha_classification a = LevelInsufficientEvidence then 0
      else if ha_classification a = LevelHealthy
        then vd_percentage (healthy_verdict (fst (calculate a)) (vd_coverage_score (snd (calculate a))))
        else vd_percentage (scored_verdict (fst (calculate a)) (vd_coverage_score (snd (calculate a)))))"
  by (auto simp: calculate_def Let_def healthy_verdict_def scored_verdict_def split: prod.split)

lemma calculate_coverage_score [simp]:
  "vd_coverage_score (snd (calculate a)) = calculate_coverage (ha_tested_vectors a) (ha_scan_profile a)"
  by (auto simp: calculate_def Let_def healthy_verdict_def scored_verdict_def split: prod.split)

lemma coverage_bounds:
  "0 \<le> calculate_coverage tested profile" "calculate_coverage tested profile \<le> 100"
  unfolding calculate_coverage_def coverage_alt Let_def
  using fl64_ratio(1) [OF enabled_weight_bounds(1,3) [OF weighted_expected] expected_total]
  by (auto simp: min_def)

subsection \<open>Properties\<close>

text \<open>The coverage is a percentage, does not depend on the order in which the map of the
  expected vectors is visited, and is 100 exactly when every expected vector was tested.\<close>

theorem coverage_complete:
  "0 \<le> calculate_coverage tested profile \<and> calculate_coverage tested profile \<le> 100 \<and>
   (calculate_coverage tested profile = 100 \<longleftrightarrow>
      {v. (v, True) \<in> set (expected_vectors profile)} \<subseteq> canonical_vector ` set tested)"
proof -
  define m where "m = expected_vectors profile"
  define P where "P = (\<lambda>v. v \<in> canonical_vector ` set tested)"
  note total = expected_total [of profile, folded m_def]
  note w = weighted_expected [of profile, folded m_def]
  note bounds = enabled_weight_bounds(1,3) [OF w, of P]
  have cov: "calculate_coverage tested profile =
      min (fl64 (fl64 (of_int (enabled_weight P m) / of_int (enabled_weight (\<lambda>_. True) m)) * 100)) 100"
    using total(1) by (simp add: calculate_coverage_def coverage_alt Let_def P_def m_def)
  have "calculate_coverage tested profile = 100 \<longleftrightarrow> enabled_weight P m = enabled_weight (\<lambda>_. True) m"
    using fl64_ratio(2,3) [OF bounds total] bounds(2) by (fastforce simp: cov min_def)
  also have "\<dots> \<longleftrightarrow> (\<forall>v. (v, True) \<in> set m \<longrightarrow> P v)"
    using enabled_weight_gap [OF w, of _ P] enabled_weight_all [of m P] by fastforce
  also have "\<dots> \<longleftrightarrow> {v. (v, True) \<in> set m} \<subseteq> canonical_vector ` set tested"
    by (auto simp: P_def)
  finally show ?thesis using coverage_bounds [of tested profile] by (simp add: m_def)
qed

text \<open>Testing more vectors never lowers the coverage, and the map of expected vectors may be
  visited in any order.\<close>

theorem coverage_monotone:
  assumes "set tested \<subseteq> set tested'" and "mset m = mset (expected_vectors profile)"
  shows "calculate_coverage tested profile \<le> calculate_coverage tested' profile \<and>
    coverage_of tested m = calculate_coverage tested profile"
proof
  let ?m = "expected_vectors profile"
  have "enabled_weight (\<lambda>v. v \<in> canonical_vector ` set tested) ?m \<le>
      enabled_weight (\<lambda>v. v \<in> canonical_vector ` set tested') ?m"
    using assms(1) by (intro enabled_weight_mono weighted_expected) auto
  then show "calculate_coverage tested profile \<le> calculate_coverage tested' profile"
    using expected_total(1) [of profile] unfolding calculate_coverage_def coverage_alt_pos
    by (intro min.mono fl64_mono mult_right_mono divide_right_mono) simp_all
  show "coverage_of tested m = calculate_coverage tested profile"
    unfolding calculate_coverage_def coverage_alt by (simp add: enabled_weight_perm [OF assms(2)])
qed

text \<open>A percentage of 100 is given exactly to the levels that record a successful claim;
  every other level stays below 100 and at most at the coverage.\<close>

theorem full_confidence_needs_claim:
  "if ha_classification a \<in> {LevelTakenOver, LevelZoneControlConfirmed}
   then vd_percentage (snd (calculate a)) = 100
   else vd_percentage (snd (calculate a)) < 100 \<and>
     vd_percentage (snd (calculate a)) \<le> calculate_coverage (ha_tested_vectors a) (ha_scan_profile a)"
  using healthy_bounds [of "fst (calculate a)"] scored_bounds [of "fst (calculate a)"] percent_cap_less
    coverage_bounds(1)
  by (auto simp: calculate_percentage_cases intro: le_less_trans)

text \<open>The classification never gives TAKEOVERABLE, so after \<open>Process\<close> the signals of the
  related domain change neither the percentage nor the reasons of the verdict.\<close>

theorem related_impact_never_reported:
  "snd (calculate ((process_analysis G t1 t2 a)\<lparr>ha_parent_cookie_scope := c, ha_parent_cors_wildcard := w\<rparr>)) =
     snd (calculate (process_analysis G t1 t2 a))"
proof -
  define p where "p = process_analysis G t1 t2 a"
  have "ha_classification p \<noteq> LevelTakeoverable"
    unfolding p_def process_analysis_def classify_def Let_def
    by (simp add: classify_level_def Let_def)
  then show ?thesis
    unfolding p_def [symmetric]
    by (simp add: calculate_def Let_def healthy_verdict_def scored_verdict_def split: prod.split)
qed

subsection \<open>Concrete verdicts\<close>

definition reinforced :: "evidence list \<Rightarrow> host_analysis" where
  "reinforced evs = (with_evidences evs)
     \<lparr>ha_classification := LevelOrphaned, ha_confidence_score := 50,
      ha_tested_vectors := [''DNS'', ''HTTP'', ''TLS'', ''MX'', ''TXT'', ''SRV'', ''ASN'', ''CAA'']\<rparr>"

definition long_lived :: evidence where
  "long_lived = some_evidence ''LONG_LIVED_ORPHAN'' ''HISTORY'' []"

definition correlated :: evidence where
  "correlated = some_evidence ''CORRELATED_PROVIDER_CONFIRMATION'' ''CORRELATOR'' []"

text \<open>C23. The two reinforcements do not add up and the last one in the list wins: the same
  evidence gives two percentages depending on its order.\<close>

theorem reinforcement_order_matters:
  "vd_percentage (snd (calculate (reinforced [long_lived, correlated]))) = 60 \<and>
   vd_percentage (snd (calculate (reinforced [correlated, long_lived]))) < 58"
  by code_simp

theorem coverage_monotone_witness:
  "calculate_coverage [''DNS''] None \<le> calculate_coverage [''DNS'', ''TLS''] None \<and>
   coverage_of [''DNS''] (rev base_vectors) = calculate_coverage [''DNS''] None"
  by (rule coverage_monotone) (simp_all add: expected_vectors_def)

end
