(* ===== verification/ClaimModel.thy ===== *)
theory ClaimModel
  imports Classification
begin

section \<open>Authorised claims (internal/claim): data and operations\<close>

text \<open>
  The engine that claims an orphaned resource on behalf of the operator, proves control and
  releases it again (\<open>engine.go\<close>, \<open>types.go\<close>). What the engine calls is a parameter: the audit
  store and the providers are functions of a record \<open>claim_env\<close> over an arbitrary world \<open>'w\<close>,
  which each call receives and returns. A Go pair of a value and an error is a sum, an error
  alone an option. An error keeps the structure that \<open>errors.Is\<close> and \<open>errors.As\<close> inspect. A
  provider is named by the key of the engine's map, which is what its \<open>ProviderID\<close> returned;
  the list of names is in the order in which \<open>range\<close> visits the map.

  \<open>operationMu\<close> is held during the whole of \<open>Execute\<close> (after the eligibility tests, which read
  nothing that changes) and of \<open>Reconcile\<close>, so each is one atomic step. The 10 and 30 second
  timeouts are part of the calls they are passed to.

  The text of a stored receipt is represented by what \<open>json.Unmarshal\<close> makes of it: no text,
  a text that decodes to a receipt, or a text that does not decode.
\<close>

subsection \<open>Receipts and errors (types.go)\<close>

record receipt =
  rc_provider_id :: string
  rc_external_id :: string
  rc_metadata :: meta
  rc_claimed_at :: time

definition zero_receipt :: receipt where
  "zero_receipt = \<lparr>rc_provider_id = [], rc_external_id = [], rc_metadata = [], rc_claimed_at = 0\<rparr>"

record control_proof =
  cp_controlled :: bool
  cp_details :: string

record release_receipt =
  rr_released_at :: time
  rr_details :: string

record claim_request =
  rq_host :: string
  rq_candidate :: provider_candidate
  rq_proof_token :: string
  rq_vector :: string
  rq_resource :: string
  rq_metadata :: meta

datatype claim_status = StatusUnsupported | StatusAttempting | StatusClaimSucceeded
  | StatusClaimFailed | StatusReleasePending | StatusReleaseSucceeded | StatusReleaseFailed

fun status_text :: "claim_status \<Rightarrow> string" where
  "status_text StatusUnsupported = ''UNSUPPORTED''"
| "status_text StatusAttempting = ''ATTEMPTING''"
| "status_text StatusClaimSucceeded = ''CLAIM_SUCCEEDED''"
| "status_text StatusClaimFailed = ''CLAIM_FAILED''"
| "status_text StatusReleasePending = ''RELEASE_PENDING''"
| "status_text StatusReleaseSucceeded = ''RELEASE_SUCCEEDED''"
| "status_text StatusReleaseFailed = ''RELEASE_FAILED''"

text \<open>
  \<open>Wrapped pre e post\<close> is an error built with \<open>%w\<close> and text around it, \<open>Joined\<close> the result of
  \<open>errors.Join\<close> on errors that are not nil, \<open>ClaimFailure\<close> the struct of that name with its
  wrapped error.
\<close>

datatype claim_error =
  ErrClaimNotMatched
| ErrUnsafeClaimState
| PlainError string
| Wrapped string claim_error string
| ClaimFailure receipt "claim_error option"
| Joined "claim_error list"

definition reivindicacao :: string where
  "reivindicacao = (''reivindica'' @ [CHR 0xC3, CHR 0xA7, CHR 0xC3, CHR 0xA3] @ ''o'')"

definition txt_not_matched :: string where
  "txt_not_matched = ''a '' @ reivindicacao @ ('' no provedor n'' @ [CHR 0xC3, CHR 0xA3] @ ''o correspondeu '' @ [CHR 0xC3, CHR 0xA0] @ '' refer'' @ [CHR 0xC3, CHR 0xAA] @ ''ncia '' @ [CHR 0xC3, CHR 0xB3] @ ''rf'' @ [CHR 0xC3, CHR 0xA3])"

definition txt_unsafe_state :: string where
  "txt_unsafe_state = (''a execu'' @ [CHR 0xC3, CHR 0xA7, CHR 0xC3, CHR 0xA3] @ ''o agressiva foi interrompida por um estado de '') @ reivindicacao @ '' inseguro''"

definition txt_partial_failed :: string where
  "txt_partial_failed = ''a '' @ reivindicacao @ '' parcial falhou''"

fun error_text :: "claim_error \<Rightarrow> string" where
  "error_text ErrClaimNotMatched = txt_not_matched"
| "error_text ErrUnsafeClaimState = txt_unsafe_state"
| "error_text (PlainError s) = s"
| "error_text (Wrapped pre e post) = pre @ error_text e @ post"
| "error_text (ClaimFailure r None) = txt_partial_failed"
| "error_text (ClaimFailure r (Some e)) = error_text e"
| "error_text (Joined es) = join_with [CHR 10] (map error_text es)"

text \<open>\<open>errors.As\<close> with a \<open>*ClaimFailure\<close>: the first one on the way through the tree.\<close>

fun as_claim_failure :: "claim_error \<Rightarrow> receipt option"
  and first_claim_failure :: "claim_error list \<Rightarrow> receipt option"
where
  "as_claim_failure (ClaimFailure r cause) = Some r"
| "as_claim_failure (Wrapped pre e post) = as_claim_failure e"
| "as_claim_failure (Joined es) = first_claim_failure es"
| "as_claim_failure ErrClaimNotMatched = None"
| "as_claim_failure ErrUnsafeClaimState = None"
| "as_claim_failure (PlainError s) = None"
| "first_claim_failure [] = None"
| "first_claim_failure (e # es) =
     (case as_claim_failure e of Some r \<Rightarrow> Some r | None \<Rightarrow> first_claim_failure es)"

text \<open>\<open>errors.Is\<close> with \<open>ErrClaimNotMatched\<close>.\<close>

fun is_not_matched :: "claim_error \<Rightarrow> bool" where
  "is_not_matched ErrClaimNotMatched = True"
| "is_not_matched (ClaimFailure r (Some e)) = is_not_matched e"
| "is_not_matched (Wrapped pre e post) = is_not_matched e"
| "is_not_matched (Joined es) = list_ex is_not_matched es"
| "is_not_matched _ = False"

text \<open>\<open>errors.Join\<close>: nil errors are dropped, and the result is nil when nothing is left.\<close>

definition join_errors :: "claim_error option list \<Rightarrow> claim_error option" where
  "join_errors es = (let present = List.map_filter (\<lambda>e. e) es in if present = [] then None else Some (Joined present))"

subsection \<open>The interfaces\<close>

datatype receipt_text = NoText | Encoded receipt | Malformed string

text \<open>\<open>json.Marshal\<close> fails on a time whose year has not four digits; times are nanoseconds since
  the epoch.\<close>

definition json_time_ok :: "time \<Rightarrow> bool" where
  "json_time_ok t \<longleftrightarrow> - 62167219200 \<le> t div 1000000000 \<and> t div 1000000000 < 253402300800"

definition json_marshal :: "receipt \<Rightarrow> claim_error + receipt_text" where
  "json_marshal r =
     (if json_time_ok (rc_claimed_at r) then Inr (Encoded r)
      else Inl (PlainError ''json: error calling MarshalJSON for type time.Time: Time.MarshalJSON: year outside of range [0,9999]''))"

fun json_unmarshal :: "receipt_text \<Rightarrow> receipt option" where
  "json_unmarshal (Encoded r) = Some r"
| "json_unmarshal _ = None"

record claim_audit =
  ca_id :: int
  ca_host :: string
  ca_provider_id :: string
  ca_status :: string
  ca_external_id :: string
  ca_receipt_json :: receipt_text
  ca_last_error :: string

definition zero_claim_audit :: claim_audit where
  "zero_claim_audit = \<lparr>ca_id = 0, ca_host = [], ca_provider_id = [], ca_status = [],
     ca_external_id = [], ca_receipt_json = NoText, ca_last_error = []\<rparr>"

record 'w claim_env =
  ce_create :: "claim_audit \<Rightarrow> 'w \<Rightarrow> (claim_error + int) \<times> 'w"
  ce_update :: "int \<Rightarrow> string \<Rightarrow> string \<Rightarrow> receipt_text \<Rightarrow> string \<Rightarrow> 'w \<Rightarrow> claim_error option \<times> 'w"
  ce_pending :: "'w \<Rightarrow> (claim_error + claim_audit list) \<times> 'w"
  ce_supports :: "string \<Rightarrow> provider_candidate \<Rightarrow> bool"
  ce_claim :: "string \<Rightarrow> claim_request \<Rightarrow> 'w \<Rightarrow> (claim_error + receipt) \<times> 'w"
  ce_verify_control :: "string \<Rightarrow> receipt \<Rightarrow> 'w \<Rightarrow> (claim_error + control_proof) \<times> 'w"
  ce_release :: "string \<Rightarrow> receipt \<Rightarrow> 'w \<Rightarrow> (claim_error + release_receipt) \<times> 'w"
  ce_recovers :: "string \<Rightarrow> bool"
  ce_recover :: "string \<Rightarrow> receipt \<Rightarrow> 'w \<Rightarrow> (claim_error + receipt \<times> bool) \<times> 'w"
  ce_random :: "'w \<Rightarrow> (claim_error + nat list) \<times> 'w"
  ce_now :: "'w \<Rightarrow> time \<times> 'w"

subsection \<open>The engine\<close>

record claim_engine =
  eng_providers :: "string list"
  eng_allowlist :: "string set"
  eng_attempted :: "string set"
  eng_halted :: "claim_error option"

definition normalize_host :: "go_env \<Rightarrow> string \<Rightarrow> string" where
  "normalize_host G host = to_lower G (trim_suffix (trim_space host) ''.'')"

text \<open>A provider is given by its \<open>ProviderID\<close>, or \<open>None\<close> for nil.\<close>

definition new_engine ::
  "go_env \<Rightarrow> bool \<Rightarrow> string list \<Rightarrow> string option list \<Rightarrow> claim_error + claim_engine"
where
  "new_engine G has_store allowlist providers =
     (if \<not> has_store then Inl (PlainError (''o armazenamento da auditoria de '' @ reivindicacao @ ('' '' @ [CHR 0xC3, CHR 0xA9] @ '' obrigat'' @ [CHR 0xC3, CHR 0xB3] @ ''rio'')))
      else
        (let allowed = filter (\<lambda>h. h \<noteq> []) (map (normalize_host G) allowlist);
             ids = filter (\<lambda>p. p \<noteq> []) (List.map_filter (\<lambda>p. p) providers)
         in if allowed = [] then
              Inl (PlainError (''a '' @ reivindicacao @ ('' autom'' @ [CHR 0xC3, CHR 0xA1] @ ''tica exige uma lista permitida expl'' @ [CHR 0xC3, CHR 0xAD] @ ''cita de hosts n'' @ [CHR 0xC3, CHR 0xA3] @ ''o vazia'')))
            else if ids = [] then
              Inl (PlainError (''a '' @ reivindicacao @ ('' autom'' @ [CHR 0xC3, CHR 0xA1] @ ''tica exige ao menos uma implementa'' @ [CHR 0xC3, CHR 0xA7, CHR 0xC3, CHR 0xA3] @ ''o real de provedor'')))
            else Inr \<lparr>eng_providers = dedup_by (\<lambda>p. p) {} ids, eng_allowlist = set allowed,
              eng_attempted = {}, eng_halted = None\<rparr>))"

definition claim_vector :: "go_env \<Rightarrow> provider_candidate \<Rightarrow> string" where
  "claim_vector G c =
     (let vector = to_upper G (trim_space (pc_vector c)) in if vector = [] then ''CNAME'' else vector)"

definition claim_eligible_candidate :: "go_env \<Rightarrow> host_analysis \<Rightarrow> provider_candidate \<Rightarrow> bool" where
  "claim_eligible_candidate G a c =
     (if claim_vector G c = ''NS'' then
        has_type (ha_evidences a) ''DELEGATION_TAKEOVER_CANDIDATE'' \<or>
        has_type (ha_evidences a) ''DELEGATION_CLAIMABILITY_VERIFIED''
      else ha_classification a \<in> {LevelLikelyTakeoverable, LevelTakeoverable, LevelOrphaned})"

definition claim_eligible_analysis :: "go_env \<Rightarrow> host_analysis \<Rightarrow> bool" where
  "claim_eligible_analysis G a = list_ex (claim_eligible_candidate G a) (ha_provider_candidates a)"

fun provider_for_candidates ::
  "go_env \<Rightarrow> 'w claim_env \<Rightarrow> string list \<Rightarrow> host_analysis \<Rightarrow> provider_candidate list \<Rightarrow>
    (string \<times> provider_candidate) option"
where
  "provider_for_candidates G E ids a [] = None"
| "provider_for_candidates G E ids a (c # cs) =
     (if \<not> claim_eligible_candidate G a c then provider_for_candidates G E ids a cs
      else case find (\<lambda>p. ce_supports E p c) ids of
        Some p \<Rightarrow> Some (p, c)
      | None \<Rightarrow> provider_for_candidates G E ids a cs)"

definition provider_for ::
  "go_env \<Rightarrow> 'w claim_env \<Rightarrow> claim_engine \<Rightarrow> host_analysis \<Rightarrow> (string \<times> provider_candidate) option"
where
  "provider_for G E eng a = provider_for_candidates G E (eng_providers eng) a (ha_provider_candidates a)"

definition begin_attempt :: "string \<Rightarrow> claim_engine \<Rightarrow> bool \<times> claim_engine" where
  "begin_attempt key eng =
     (if key \<in> eng_attempted eng then (False, eng)
      else (True, eng\<lparr>eng_attempted := insert key (eng_attempted eng)\<rparr>))"

text \<open>The first cause is kept; every caller passes a cause.\<close>

definition halt_unsafe :: "claim_error \<Rightarrow> claim_engine \<Rightarrow> claim_error \<times> claim_engine" where
  "halt_unsafe cause eng =
     (case eng_halted eng of
        Some e \<Rightarrow> (e, eng)
      | None \<Rightarrow>
          (let e = Wrapped [] ErrUnsafeClaimState ('': '' @ error_text cause)
           in (e, eng\<lparr>eng_halted := Some e\<rparr>)))"

definition clear_unsafe :: "claim_engine \<Rightarrow> claim_engine" where
  "clear_unsafe eng = eng\<lparr>eng_halted := None\<rparr>"

definition update_audit ::
  "'w claim_env \<Rightarrow> int \<Rightarrow> claim_status \<Rightarrow> receipt \<Rightarrow> claim_error option \<Rightarrow> 'w \<Rightarrow> claim_error option \<times> 'w"
where
  "update_audit E ident status r operation_err w =
     (let last_error = (case operation_err of None \<Rightarrow> [] | Some e \<Rightarrow> error_text e) in
      if rc_external_id r \<noteq> [] then
        (case json_marshal r of
           Inl e \<Rightarrow> (Some e, w)
         | Inr t \<Rightarrow> ce_update E ident (status_text status) (rc_external_id r) t last_error w)
      else ce_update E ident (status_text status) (rc_external_id r) NoText last_error w)"

definition hex_digit :: "nat \<Rightarrow> char" where
  "hex_digit n = (if n < 10 then char_of (48 + n) else char_of (87 + n))"

definition hex_encode :: "nat list \<Rightarrow> string" where
  "hex_encode bs = concat (map (\<lambda>b. [hex_digit (b div 16), hex_digit (b mod 16)]) bs)"

text \<open>\<open>rand.Read\<close> fills sixteen bytes.\<close>

definition random_proof_token :: "'w claim_env \<Rightarrow> 'w \<Rightarrow> (claim_error + string) \<times> 'w" where
  "random_proof_token E w =
     (case ce_random E w of
        (Inl e, w1) \<Rightarrow> (Inl (Wrapped (''gerando token de prova da '' @ reivindicacao @ '': '') e []), w1)
      | (Inr bytes, w1) \<Rightarrow> (Inr (hex_encode bytes), w1))"

definition provisional_receipt :: "go_env \<Rightarrow> string \<Rightarrow> claim_request \<Rightarrow> time \<Rightarrow> receipt" where
  "provisional_receipt G provider rq now =
     \<lparr>rc_provider_id = provider, rc_external_id = [],
      rc_metadata = map_put (map_put (map_put (map_put (rq_metadata rq)
        ''request_host'' (normalize_host G (rq_host rq)))
        ''request_resource'' (normalize_host G (rq_resource rq)))
        ''request_vector'' (to_upper G (trim_space (rq_vector rq))))
        ''proof_token'' (rq_proof_token rq),
      rc_claimed_at = now\<rparr>"

subsection \<open>Evidence of a claim\<close>

definition claim_evidence :: "string \<Rightarrow> string \<Rightarrow> string \<Rightarrow> int \<Rightarrow> bool \<Rightarrow> meta \<Rightarrow> evidence" where
  "claim_evidence t source description weight negative md =
     \<lparr>ev_type = t, ev_source = source, ev_description = description, ev_weight = weight,
      ev_confidence = 100, ev_is_negative = negative, ev_metadata = md\<rparr>"

definition control_evidence_type :: "go_env \<Rightarrow> string \<Rightarrow> string" where
  "control_evidence_type G vector =
     (let v = to_upper G vector in
      if v = ''NS'' then ''ZONE_CONTROL_CONFIRMED''
      else if v = ''MX'' then ''MX_DELIVERY_CONTROL_VERIFIED''
      else if v = ''SRV'' then ''SRV_SERVICE_CONTROL_VERIFIED''
      else if v = ''SPF'' then ''SPF_AUTHORIZATION_CONTROL_VERIFIED''
      else if v = ''TXT'' then ''TXT_BINDING_CONTROL_VERIFIED''
      else if v = ''A'' \<or> v = ''AAAA'' then ''CLOUD_IP_CONTROL_VERIFIED''
      else ''CLAIM_SUCCESS'')"

definition mark_vector_control_confirmed :: "go_env \<Rightarrow> string \<Rightarrow> string \<Rightarrow> host_analysis \<Rightarrow> host_analysis" where
  "mark_vector_control_confirmed G vector resource a =
     (let v = to_upper G vector in
      if v = ''NS'' then
        a\<lparr>ha_delegation := map_option (\<lambda>d. d\<lparr>dlg_claimability := ClaimabilityControlConfirmed\<rparr>) (ha_delegation a)\<rparr>
      else if v = ''MX'' then
        a\<lparr>ha_mx_candidates := map (\<lambda>c. if mxc_target c = resource
          then c\<lparr>mxc_claimability := ClaimabilityControlConfirmed\<rparr> else c) (ha_mx_candidates a)\<rparr>
      else if v = ''SRV'' then
        a\<lparr>ha_srv_candidates := map (\<lambda>c. if srv_target (srvc_record c) = resource
          then c\<lparr>srvc_claimability := ClaimabilityControlConfirmed\<rparr> else c) (ha_srv_candidates a)\<rparr>
      else if v = ''SPF'' then
        a\<lparr>ha_spf_candidates := map (\<lambda>c. if spfc_domain c = resource
          then c\<lparr>spfc_claimability := ClaimabilityControlConfirmed\<rparr> else c) (ha_spf_candidates a)\<rparr>
      else if v = ''TXT'' then
        a\<lparr>ha_txt_candidates := map (\<lambda>c. c\<lparr>txtc_claimability := ClaimabilityControlConfirmed,
          txtc_state := ''CONTROL_CONFIRMED''\<rparr>) (ha_txt_candidates a)\<rparr>
      else if v = ''A'' \<or> v = ''AAAA'' then
        a\<lparr>ha_cloud_ip_candidates := map (\<lambda>c. if cip_ip c = resource
          then c\<lparr>cip_claimability := ClaimabilityControlConfirmed\<rparr> else c) (ha_cloud_ip_candidates a)\<rparr>
      else a)"

definition mark_claim_not_demonstrated ::
  "go_env \<Rightarrow> string \<Rightarrow> string \<Rightarrow> string \<Rightarrow> int \<Rightarrow> claim_error \<Rightarrow> host_analysis \<Rightarrow> host_analysis"
where
  "mark_claim_not_demonstrated G vector resource provider audit_id e a =
     (let ns = equal_fold G vector ''NS'';
          a1 = (if ns then a\<lparr>ha_delegation :=
            map_option (\<lambda>d. d\<lparr>dlg_claimability := ClaimabilityNotVerified\<rparr>) (ha_delegation a)\<rparr> else a)
      in add_evidence (claim_evidence
           (if ns then ''DELEGATION_CLAIMABILITY_NOT_DEMONSTRATED'' else ''CLAIMABILITY_NOT_DEMONSTRATED'')
           provider (error_text e) 0 True
           [(''audit_id'', itoa audit_id), (''vector'', vector), (''resource'', resource)]) a1)"

subsection \<open>Execute, branch by branch\<close>

text \<open>
  Every branch returns the error, the engine, the analysis and the world. \<open>execute_unsupported\<close>
  is the branch without a provider, \<open>execute_failed\<close> what follows an error of \<open>Claim\<close>,
  \<open>execute_invalid\<close> what follows a receipt without identity, \<open>execute_unpersisted\<close> what follows
  a success that could not be recorded, \<open>execute_control\<close> the proof of control and
  \<open>execute_release\<close> the release.
\<close>

type_synonym 'w claim_outcome = "claim_error option \<times> claim_engine \<times> host_analysis \<times> 'w"

definition txt_unsupported_error :: string where
  "txt_unsupported_error = ''nenhum provedor com '' @ reivindicacao @ '' real oferece suporte ao candidato vinculado ao provedor''"

definition txt_unsupported :: string where
  "txt_unsupported = ''Nenhum provedor com '' @ reivindicacao @ '' real oferece suporte ao candidato vinculado ao provedor.''"

definition txt_duplicate :: string where
  "txt_duplicate = (''O mesmo recurso do provedor j'' @ [CHR 0xC3, CHR 0xA1] @ '' foi testado durante este lote da varredura.'')"

definition txt_invalid_receipt :: string where
  "txt_invalid_receipt = ''o provedor retornou um recibo de '' @ reivindicacao @ ('' inv'' @ [CHR 0xC3, CHR 0xA1] @ ''lido'')"

definition txt_no_proof :: string where
  "txt_no_proof = ''a '' @ reivindicacao @ ('' no provedor n'' @ [CHR 0xC3, CHR 0xA3] @ ''o produziu uma prova positiva de controle'')"

definition txt_controlled :: string where
  "txt_controlled = ''Recurso reivindicado e controle verificado em ambiente explicitamente autorizado.''"

definition txt_vector_controlled :: string where
  "txt_vector_controlled = (''O controle ativo do vetor foi comprovado por um fluxo autorizado de cria'' @ [CHR 0xC3, CHR 0xA7, CHR 0xC3, CHR 0xA3] @ ''o, verifica'' @ [CHR 0xC3, CHR 0xA7, CHR 0xC3, CHR 0xA3] @ ''o e libera'' @ [CHR 0xC3, CHR 0xA7, CHR 0xC3, CHR 0xA3] @ ''o.'')"

definition txt_reverted :: string where
  "txt_reverted = ''A '' @ reivindicacao @ '' parcial no provedor foi revertida.''"

definition txt_audit_warning :: string where
  "txt_audit_warning = (''O estado RELEASE_PENDING n'' @ [CHR 0xC3, CHR 0xA3] @ ''o p'' @ [CHR 0xC3, CHR 0xB4] @ ''de ser persistido antes da libera'' @ [CHR 0xC3, CHR 0xA7, CHR 0xC3, CHR 0xA3] @ ''o, mas a libera'' @ [CHR 0xC3, CHR 0xA7, CHR 0xC3, CHR 0xA3] @ ''o final foi confirmada.'')"

definition execute_unsupported ::
  "'w claim_env \<Rightarrow> string \<Rightarrow> claim_engine \<Rightarrow> host_analysis \<Rightarrow> 'w \<Rightarrow> 'w claim_outcome"
where
  "execute_unsupported E host eng a w =
     (case ce_create E (zero_claim_audit\<lparr>ca_host := host, ca_provider_id := ''unsupported'',
         ca_status := status_text StatusUnsupported, ca_last_error := txt_unsupported_error\<rparr>) w of
        (Inl e, w1) \<Rightarrow> (Some e, eng, a, w1)
      | (Inr audit_id, w1) \<Rightarrow>
          (None, eng, add_evidence (claim_evidence ''CLAIM_UNSUPPORTED'' ''CLAIM_ENGINE'' txt_unsupported 0 False
             [(''audit_id'', itoa audit_id)]) a, w1))"

definition claim_failed_result ::
  "go_env \<Rightarrow> string \<Rightarrow> string \<Rightarrow> string \<Rightarrow> int \<Rightarrow> claim_error \<Rightarrow> claim_error option \<Rightarrow>
    claim_engine \<Rightarrow> host_analysis \<Rightarrow> 'w \<Rightarrow> 'w claim_outcome"
where
  "claim_failed_result G p vector resource audit_id e audit_err eng a w =
     (let a1 = (if is_not_matched e then mark_claim_not_demonstrated G vector resource p audit_id e a else a)
      in (join_errors [Some (Wrapped (''a '' @ reivindicacao @ '' de '' @ p @ '' falhou: '') e []), audit_err],
          eng,
          add_evidence (claim_evidence ''CLAIM_FAILED'' p (error_text e) 0 False
            [(''audit_id'', itoa audit_id)]) a1,
          w))"

definition execute_failed ::
  "go_env \<Rightarrow> 'w claim_env \<Rightarrow> string \<Rightarrow> string \<Rightarrow> string \<Rightarrow> int \<Rightarrow> claim_error \<Rightarrow>
    claim_engine \<Rightarrow> host_analysis \<Rightarrow> 'w \<Rightarrow> 'w claim_outcome"
where
  "execute_failed G E p vector resource audit_id e eng a w =
     (case as_claim_failure e of
        None \<Rightarrow>
          (case update_audit E audit_id StatusClaimFailed zero_receipt (Some e) w of
             (audit_err, w1) \<Rightarrow> claim_failed_result G p vector resource audit_id e audit_err eng a w1)
      | Some partial \<Rightarrow>
          if rc_external_id partial = [] then
            (case halt_unsafe (Wrapped (p @ ('' pode ter criado um recurso sem devolver identidade recuper'' @ [CHR 0xC3, CHR 0xA1] @ ''vel: '')) e []) eng of
               (unsafe, eng1) \<Rightarrow>
                 (Some unsafe, eng1, add_evidence (claim_evidence ''CLAIM_RECOVERY_REQUIRED'' p (error_text unsafe) 0 False
                    [(''audit_id'', itoa audit_id)]) a, w))
          else
            (case update_audit E audit_id StatusReleasePending partial (Some e) w of
               (audit_err, w1) \<Rightarrow>
            (case ce_release E p partial w1 of
               (Inl release_err, w2) \<Rightarrow>
                 (case update_audit E audit_id StatusReleaseFailed partial (Some release_err) w2 of
                    (status_err, w3) \<Rightarrow>
                 (case halt_unsafe (Wrapped (''a '' @ reivindicacao @ '' parcial de '' @ p @ ('' falhou e a libera'' @ [CHR 0xC3, CHR 0xA7, CHR 0xC3, CHR 0xA3] @ ''o tamb'' @ [CHR 0xC3, CHR 0xA9] @ ''m falhou: '')) release_err []) eng of
                    (unsafe, eng1) \<Rightarrow>
                      (join_errors [Some unsafe, audit_err, status_err], eng1,
                       add_evidence (claim_evidence ''CLAIM_RELEASE_FAILED'' p (error_text release_err) 0 False
                         [(''audit_id'', itoa audit_id), (''external_id'', rc_external_id partial)]) a, w3)))
             | (Inr _, w2) \<Rightarrow>
                 (case update_audit E audit_id StatusReleaseSucceeded partial (Some e) w2 of
                    (status_err, w3) \<Rightarrow>
                      claim_failed_result G p vector resource audit_id e (join_errors [audit_err, status_err]) eng
                        (add_evidence (claim_evidence ''CLAIM_RELEASE_SUCCEEDED'' p txt_reverted 0 False
                          [(''audit_id'', itoa audit_id), (''external_id'', rc_external_id partial)]) a) w3))))"

definition execute_invalid ::
  "'w claim_env \<Rightarrow> string \<Rightarrow> int \<Rightarrow> receipt \<Rightarrow> receipt \<Rightarrow> claim_engine \<Rightarrow> host_analysis \<Rightarrow> 'w \<Rightarrow> 'w claim_outcome"
where
  "execute_invalid E p audit_id provisional r eng a w =
     (let invalid = PlainError txt_invalid_receipt in
      case update_audit E audit_id StatusAttempting provisional (Some invalid) w of
        (persist_err, w1) \<Rightarrow>
          if rc_external_id r \<noteq> [] then
            (case ce_release E p r w1 of
               (Inl release_err, w2) \<Rightarrow>
                 (case update_audit E audit_id StatusReleaseFailed r (Some release_err) w2 of
                    (status_err, w3) \<Rightarrow>
                 (case halt_unsafe (Wrapped ((''a limpeza do recibo inv'' @ [CHR 0xC3, CHR 0xA1] @ ''lido falhou: '')) release_err []) eng of
                    (unsafe, eng1) \<Rightarrow>
                      (join_errors [Some invalid, persist_err, Some unsafe, status_err], eng1, a, w3)))
             | (Inr _, w2) \<Rightarrow>
                 (case update_audit E audit_id StatusReleaseSucceeded r (Some invalid) w2 of
                    (status_err, w3) \<Rightarrow> (join_errors [Some invalid, persist_err, status_err], eng, a, w3)))
          else
            (case halt_unsafe (Wrapped [] invalid ((''; a cria'' @ [CHR 0xC3, CHR 0xA7, CHR 0xC3, CHR 0xA3] @ ''o externa n'' @ [CHR 0xC3, CHR 0xA3] @ ''o pode ser descartada sem uma identidade de recurso''))) eng of
               (unsafe, eng1) \<Rightarrow> (join_errors [Some unsafe, persist_err], eng1, a, w1)))"

definition execute_unpersisted ::
  "'w claim_env \<Rightarrow> string \<Rightarrow> int \<Rightarrow> receipt \<Rightarrow> claim_error \<Rightarrow> claim_engine \<Rightarrow> host_analysis \<Rightarrow> 'w \<Rightarrow> 'w claim_outcome"
where
  "execute_unpersisted E p audit_id r e eng a w =
     (let persist = Wrapped (''persistindo o recibo da '' @ reivindicacao @ '' bem-sucedida: '') e [] in
      case ce_release E p r w of
        (Inl release_err, w1) \<Rightarrow>
          (case update_audit E audit_id StatusReleaseFailed r (Some release_err) w1 of
             (status_err, w2) \<Rightarrow>
          (case halt_unsafe (Wrapped ((''a revers'' @ [CHR 0xC3, CHR 0xA3] @ ''o de emerg'' @ [CHR 0xC3, CHR 0xAA] @ ''ncia tamb'' @ [CHR 0xC3, CHR 0xA9] @ ''m falhou: '')) release_err []) eng of
             (unsafe, eng1) \<Rightarrow> (join_errors [Some persist, Some unsafe, status_err], eng1, a, w2)))
      | (Inr _, w1) \<Rightarrow>
          (case update_audit E audit_id StatusReleaseSucceeded r (Some persist) w1 of
             (status_err, w2) \<Rightarrow> (join_errors [Some persist, status_err], eng, a, w2)))"

definition record_control ::
  "go_env \<Rightarrow> string \<Rightarrow> string \<Rightarrow> string \<Rightarrow> int \<Rightarrow> receipt \<Rightarrow> control_proof \<Rightarrow> host_analysis \<Rightarrow> host_analysis"
where
  "record_control G p vector resource audit_id r proof a =
     (let t = control_evidence_type G vector;
          a1 = add_evidence (claim_evidence t p txt_controlled 100 False
            [(''audit_id'', itoa audit_id), (''external_id'', rc_external_id r),
             (''provider_id'', rc_provider_id r), (''proof'', cp_details proof),
             (''vector'', vector), (''resource'', resource)]) a;
          a2 = (if t \<noteq> ''CLAIM_SUCCESS'' then
            add_evidence (claim_evidence ''CLAIM_SUCCESS'' p txt_vector_controlled 100 False
              [(''vector'', vector), (''resource'', resource), (''proof'', cp_details proof)]) a1 else a1);
          a3 = a2\<lparr>ha_verification_score := 100,
            ha_active_verification := Some \<lparr>vr_provider = p, vr_vector = vector, vr_resource = resource,
              vr_verified = True, vr_control_proven = True, vr_confidence = 100, vr_evidence = cp_details proof\<rparr>\<rparr>
      in mark_vector_control_confirmed G vector resource a3)"

definition execute_control ::
  "go_env \<Rightarrow> 'w claim_env \<Rightarrow> string \<Rightarrow> string \<Rightarrow> string \<Rightarrow> int \<Rightarrow> receipt \<Rightarrow> host_analysis \<Rightarrow> 'w \<Rightarrow>
    claim_error option \<times> host_analysis \<times> 'w"
where
  "execute_control G E p vector resource audit_id r a w =
     (case ce_verify_control E p r w of
        (result, w1) \<Rightarrow>
          (case (case result of Inl e \<Rightarrow> Inl e
              | Inr proof \<Rightarrow> if cp_controlled proof then Inr proof else Inl (PlainError txt_no_proof)) of
             Inr proof \<Rightarrow> (None, record_control G p vector resource audit_id r proof a, w1)
           | Inl e \<Rightarrow> (Some e, add_evidence (claim_evidence ''CLAIM_CONTROL_FAILED'' p (error_text e) 0 False
               [(''audit_id'', itoa audit_id), (''external_id'', rc_external_id r)]) a, w1)))"

definition execute_release ::
  "'w claim_env \<Rightarrow> string \<Rightarrow> int \<Rightarrow> receipt \<Rightarrow> claim_error option \<Rightarrow> claim_engine \<Rightarrow> host_analysis \<Rightarrow> 'w \<Rightarrow> 'w claim_outcome"
where
  "execute_release E p audit_id r control_err eng a w =
     (case update_audit E audit_id StatusReleasePending r control_err w of
        (pending_err, w1) \<Rightarrow>
     (case ce_release E p r w1 of
        (Inl release_err, w2) \<Rightarrow>
          (case update_audit E audit_id StatusReleaseFailed r (Some release_err) w2 of
             (status_err, w3) \<Rightarrow>
          (case halt_unsafe (Wrapped ((''a libera'' @ [CHR 0xC3, CHR 0xA7, CHR 0xC3, CHR 0xA3] @ ''o de '') @ rc_external_id r @ '' falhou: '') release_err []) eng of
             (unsafe, eng1) \<Rightarrow>
               (join_errors [Some unsafe, status_err], eng1,
                add_evidence (claim_evidence ''CLAIM_RELEASE_FAILED'' p (error_text release_err) 0 False
                  [(''audit_id'', itoa audit_id), (''external_id'', rc_external_id r)]) a, w3)))
      | (Inr release, w2) \<Rightarrow>
          (case update_audit E audit_id StatusReleaseSucceeded r control_err w2 of
             (Some e, w3) \<Rightarrow> (Some (Wrapped ((''persistindo o sucesso da libera'' @ [CHR 0xC3, CHR 0xA7, CHR 0xC3, CHR 0xA3] @ ''o: '')) e []), eng, a, w3)
           | (None, w3) \<Rightarrow>
               (let a1 = (if pending_err \<noteq> None then
                      add_evidence (claim_evidence ''CLAIM_AUDIT_WARNING'' p txt_audit_warning 0 False
                        [(''audit_id'', itoa audit_id)]) a else a);
                    a2 = add_evidence (claim_evidence ''CLAIM_RELEASE_SUCCEEDED'' p (rr_details release) 0 False
                      [(''audit_id'', itoa audit_id), (''external_id'', rc_external_id r)]) a1
                in (map_option (\<lambda>e. Wrapped ((''a verifica'' @ [CHR 0xC3, CHR 0xA7, CHR 0xC3, CHR 0xA3] @ ''o de controle falhou ap'' @ [CHR 0xC3, CHR 0xB3] @ ''s a '') @ reivindicacao @ '': '') e []) control_err,
                    eng, a2, w3)))))"

definition execute_claimed ::
  "go_env \<Rightarrow> 'w claim_env \<Rightarrow> string \<Rightarrow> string \<Rightarrow> string \<Rightarrow> int \<Rightarrow> receipt \<Rightarrow> receipt \<Rightarrow>
    claim_engine \<Rightarrow> host_analysis \<Rightarrow> 'w \<Rightarrow> 'w claim_outcome"
where
  "execute_claimed G E p vector resource audit_id provisional r eng a w =
     (if rc_provider_id r \<noteq> p \<or> rc_external_id r = [] then execute_invalid E p audit_id provisional r eng a w
      else case update_audit E audit_id StatusClaimSucceeded r None w of
        (Some e, w1) \<Rightarrow> execute_unpersisted E p audit_id r e eng a w1
      | (None, w1) \<Rightarrow>
          (case execute_control G E p vector resource audit_id r a w1 of
             (control_err, a1, w2) \<Rightarrow> execute_release E p audit_id r control_err eng a1 w2))"

definition claim_resource :: "provider_candidate \<Rightarrow> string" where
  "claim_resource c = (if pc_resource c = [] then pc_cname c else pc_resource c)"

definition attempt_key :: "go_env \<Rightarrow> string \<Rightarrow> provider_candidate \<Rightarrow> string" where
  "attempt_key G p c = to_lower G (p @ ''|'' @ claim_vector G c @ ''|'' @ normalize_host G (claim_resource c))"

definition claim_request_for :: "go_env \<Rightarrow> string \<Rightarrow> provider_candidate \<Rightarrow> string \<Rightarrow> claim_request" where
  "claim_request_for G host c token =
     \<lparr>rq_host = host, rq_candidate = c, rq_proof_token = token, rq_vector = claim_vector G c,
      rq_resource = claim_resource c, rq_metadata = pc_metadata c\<rparr>"

text \<open>From the proof token to the claim: nothing is claimed before the preventive record exists.\<close>

definition execute_attempt ::
  "go_env \<Rightarrow> 'w claim_env \<Rightarrow> string \<Rightarrow> string \<Rightarrow> provider_candidate \<Rightarrow> claim_engine \<Rightarrow> host_analysis \<Rightarrow> 'w \<Rightarrow> 'w claim_outcome"
where
  "execute_attempt G E host p c eng a w =
     (case random_proof_token E w of
        (Inl e, w1) \<Rightarrow> (Some e, eng, a, w1)
      | (Inr token, w1) \<Rightarrow>
          (case ce_now E w1 of (now, w2) \<Rightarrow>
             (let rq = claim_request_for G host c token; provisional = provisional_receipt G p rq now in
              case json_marshal provisional of
                Inl e \<Rightarrow> (Some (Wrapped (''codificando o registro preventivo da '' @ reivindicacao @ '': '') e []), eng, a, w2)
              | Inr t \<Rightarrow>
                  (case ce_create E (zero_claim_audit\<lparr>ca_host := host, ca_provider_id := p,
                      ca_status := status_text StatusAttempting, ca_receipt_json := t\<rparr>) w2 of
                     (Inl e, w3) \<Rightarrow> (Some (Wrapped (''criando o registro preventivo da '' @ reivindicacao @ '': '') e []), eng, a, w3)
                   | (Inr audit_id, w3) \<Rightarrow>
                       (case ce_claim E p rq w3 of
                          (Inl e, w4) \<Rightarrow> execute_failed G E p (claim_vector G c) (claim_resource c) audit_id e eng a w4
                        | (Inr r, w4) \<Rightarrow> execute_claimed G E p (claim_vector G c) (claim_resource c) audit_id provisional r eng a w4)))))"

definition execute_guarded ::
  "go_env \<Rightarrow> 'w claim_env \<Rightarrow> string \<Rightarrow> claim_engine \<Rightarrow> host_analysis \<Rightarrow> 'w \<Rightarrow> 'w claim_outcome"
where
  "execute_guarded G E host eng a w =
     (case provider_for G E eng a of
        None \<Rightarrow> execute_unsupported E host eng a w
      | Some (p, c) \<Rightarrow>
          (case begin_attempt (attempt_key G p c) eng of
             (False, eng1) \<Rightarrow>
               (None, eng1, add_evidence (claim_evidence ''CLAIM_DUPLICATE_RESOURCE_SKIPPED'' p txt_duplicate 0 True
                  [(''vector'', claim_vector G c), (''resource'', claim_resource c)]) a, w)
           | (True, eng1) \<Rightarrow> execute_attempt G E host p c eng1 a w))"

definition execute ::
  "go_env \<Rightarrow> 'w claim_env \<Rightarrow> claim_engine \<Rightarrow> host_analysis \<Rightarrow> 'w \<Rightarrow> 'w claim_outcome"
where
  "execute G E eng a w =
     (if \<not> claim_eligible_analysis G a then (None, eng, a, w)
      else if normalize_host G (ha_host a) \<notin> eng_allowlist eng then (None, eng, a, w)
      else case eng_halted eng of
        Some unsafe \<Rightarrow>
          (Some unsafe, eng, add_evidence (claim_evidence ''CLAIM_ENGINE_HALTED'' ''CLAIM_ENGINE''
             (error_text unsafe) 0 False []) a, w)
      | None \<Rightarrow> execute_guarded G E (normalize_host G (ha_host a)) eng a w)"

subsection \<open>Reconcile\<close>

text \<open>The outcome for one pending record: the texts it adds to the list of failures.\<close>

definition failure_text :: "claim_audit \<Rightarrow> string \<Rightarrow> string" where
  "failure_text record what = ''auditoria '' @ itoa (ca_id record) @ what"

definition reconcile_release ::
  "'w claim_env \<Rightarrow> string \<Rightarrow> claim_audit \<Rightarrow> receipt \<Rightarrow> 'w \<Rightarrow> string list \<times> 'w"
where
  "reconcile_release E p record r w =
     (if rc_external_id r = [] then ([failure_text record '': recibo sem identificador externo''], w)
      else case update_audit E (ca_id record) StatusReleasePending r None w of
        (Some e, w1) \<Rightarrow> ([failure_text record ('': '' @ error_text e)], w1)
      | (None, w1) \<Rightarrow>
          (case ce_release E p r w1 of
             (Inl e, w2) \<Rightarrow>
               (case update_audit E (ca_id record) StatusReleaseFailed r (Some e) w2 of
                  (_, w3) \<Rightarrow> ([failure_text record ('': '' @ error_text e)], w3))
           | (Inr _, w2) \<Rightarrow>
               (case update_audit E (ca_id record) StatusReleaseSucceeded r None w2 of
                  (Some e, w3) \<Rightarrow> ([failure_text record ('': '' @ error_text e)], w3)
                | (None, w3) \<Rightarrow> ([], w3))))"

definition reconcile_attempting ::
  "'w claim_env \<Rightarrow> string \<Rightarrow> claim_audit \<Rightarrow> receipt \<Rightarrow> 'w \<Rightarrow> string list \<times> 'w"
where
  "reconcile_attempting E p record r w =
     (if \<not> ce_recovers E p then
        ([failure_text record ('': o provedor n'' @ [CHR 0xC3, CHR 0xA3] @ ''o oferece reconcilia'' @ [CHR 0xC3, CHR 0xA7, CHR 0xC3, CHR 0xA3] @ ''o de tentativas interrompidas'')], w)
      else case ce_recover E p r w of
        (Inl e, w1) \<Rightarrow>
          ([failure_text record ('': recuperando '' @ reivindicacao @ '' interrompida: '' @ error_text e)], w1)
      | (Inr (recovered, found), w1) \<Rightarrow>
          if \<not> found then
            (case update_audit E (ca_id record) StatusClaimFailed zero_receipt
                (Some (PlainError ''nenhum recurso criado por esta tentativa foi localizado'')) w1 of
               (Some e, w2) \<Rightarrow> ([failure_text record ('': '' @ error_text e)], w2)
             | (None, w2) \<Rightarrow> ([], w2))
          else
            (case update_audit E (ca_id record) StatusClaimSucceeded recovered None w1 of
               (Some e, w2) \<Rightarrow> ([failure_text record ('': persistindo recibo recuperado: '' @ error_text e)], w2)
             | (None, w2) \<Rightarrow> reconcile_release E p record recovered w2))"

definition reconcile_record ::
  "'w claim_env \<Rightarrow> claim_engine \<Rightarrow> claim_audit \<Rightarrow> 'w \<Rightarrow> string list \<times> 'w"
where
  "reconcile_record E eng record w =
     (if ca_provider_id record \<notin> set (eng_providers eng) then
        ([failure_text record (('': provedor n'' @ [CHR 0xC3, CHR 0xA3] @ ''o suportado '') @ ca_provider_id record)], w)
      else case json_unmarshal (ca_receipt_json record) of
        None \<Rightarrow> ([failure_text record ('': recibo inv'' @ [CHR 0xC3, CHR 0xA1] @ ''lido'')], w)
      | Some r \<Rightarrow>
          if ca_status record = status_text StatusAttempting
          then reconcile_attempting E (ca_provider_id record) record r w
          else reconcile_release E (ca_provider_id record) record r w)"

fun reconcile_records ::
  "'w claim_env \<Rightarrow> claim_engine \<Rightarrow> claim_audit list \<Rightarrow> 'w \<Rightarrow> string list \<times> 'w"
where
  "reconcile_records E eng [] w = ([], w)"
| "reconcile_records E eng (record # records) w =
     (case reconcile_record E eng record w of
        (failures, w1) \<Rightarrow>
          (case reconcile_records E eng records w1 of (rest, w2) \<Rightarrow> (failures @ rest, w2)))"

definition reconcile :: "'w claim_env \<Rightarrow> claim_engine \<Rightarrow> 'w \<Rightarrow> claim_error option \<times> claim_engine \<times> 'w" where
  "reconcile E eng w =
     (case ce_pending E w of
        (Inl e, w1) \<Rightarrow>
          (case halt_unsafe (Wrapped ''consultando a auditoria pendente: '' e []) eng of
             (unsafe, eng1) \<Rightarrow> (Some unsafe, eng1, w1))
      | (Inr records, w1) \<Rightarrow>
          (case reconcile_records E eng records w1 of
             (failures, w2) \<Rightarrow>
               if failures \<noteq> [] then
                 (case halt_unsafe (PlainError ((''falhas na reconcilia'' @ [CHR 0xC3, CHR 0xA7, CHR 0xC3, CHR 0xA3] @ ''o de reivindica'' @ [CHR 0xC3, CHR 0xA7, CHR 0xC3, CHR 0xB5] @ ''es: '') @ join_with ''; '' failures)) eng of
                    (unsafe, eng1) \<Rightarrow> (Some unsafe, eng1, w2))
               else (None, clear_unsafe eng, w2)))"

subsection \<open>The audit table (internal/storage/store.go)\<close>

text \<open>
  What the three SQL statements of the store do to the table \<open>claim_audits\<close> when they succeed:
  insert with the next identifier, update the row with that identifier, and select in order of
  identifier the rows in an open state whose receipt text is not empty. The time stamps of a row
  are not read by the engine and are left out.
\<close>

definition create_claim_audit :: "claim_audit \<Rightarrow> claim_audit list \<Rightarrow> int \<times> claim_audit list" where
  "create_claim_audit record rows =
     (let ident = int (length rows) + 1 in (ident, rows @ [record\<lparr>ca_id := ident\<rparr>]))"

definition update_claim_audit ::
  "int \<Rightarrow> string \<Rightarrow> string \<Rightarrow> receipt_text \<Rightarrow> string \<Rightarrow> claim_audit list \<Rightarrow> claim_audit list"
where
  "update_claim_audit ident status external_id t last_error rows =
     map (\<lambda>row. if ca_id row = ident then row\<lparr>ca_status := status, ca_external_id := external_id,
       ca_receipt_json := t, ca_last_error := last_error\<rparr> else row) rows"

definition open_status :: "string \<Rightarrow> bool" where
  "open_status s \<longleftrightarrow> s \<in> {''ATTEMPTING'', ''CLAIM_SUCCEEDED'', ''RELEASE_PENDING'', ''RELEASE_FAILED''}"

definition pending_claim_audits :: "claim_audit list \<Rightarrow> claim_audit list" where
  "pending_claim_audits rows = filter (\<lambda>row. open_status (ca_status row) \<and> ca_receipt_json row \<noteq> NoText) rows"

end
