(* ===== verification/ClaimSafety.thy ===== *)
theory ClaimSafety
  imports ClaimModel
begin

section \<open>Authorised claims: what the engine guarantees\<close>

text \<open>
  \<open>traced E\<close> is the environment \<open>E\<close> with a log of the calls and their results, so a statement about
  what the engine does to the outside is a statement about the log. Proved: a claim is made only
  for an allowed host, an eligible candidate and a resource not tried before, by an engine that is
  not halted, and directly after a preventive record was stored; whatever a claim leaves behind is
  released or halts the engine; control is reported only after a positive proof; and \<open>Reconcile\<close>
  lifts the halt only after every record it read was released or found to be empty. The contract
  of the audit store is a locale, interpreted on the table of the store; with it one shows that a
  receipt without identity removes its own preventive record from what \<open>Reconcile\<close> reads.
\<close>

subsection \<open>The log\<close>

datatype claim_event =
  AuditCreated claim_audit "claim_error + int"
| AuditUpdated int string string receipt_text string "claim_error option"
| PendingRead "claim_error + claim_audit list"
| ClaimCalled string claim_request "claim_error + receipt"
| ControlChecked string receipt "claim_error + control_proof"
| Released string receipt "claim_error + release_receipt"
| Recovered string receipt "claim_error + receipt \<times> bool"

type_synonym 'w traced_world = "'w \<times> claim_event list"

definition logged :: "('r \<Rightarrow> claim_event) \<Rightarrow> ('w \<Rightarrow> 'r \<times> 'w) \<Rightarrow> 'w traced_world \<Rightarrow> 'r \<times> 'w traced_world" where
  "logged ev f s = (case f (fst s) of (r, w) \<Rightarrow> (r, (w, snd s @ [ev r])))"

definition unlogged :: "('w \<Rightarrow> 'r \<times> 'w) \<Rightarrow> 'w traced_world \<Rightarrow> 'r \<times> 'w traced_world" where
  "unlogged f s = (case f (fst s) of (r, w) \<Rightarrow> (r, (w, snd s)))"

definition traced :: "'w claim_env \<Rightarrow> 'w traced_world claim_env" where
  "traced E = \<lparr>
     ce_create = \<lambda>record. logged (AuditCreated record) (ce_create E record),
     ce_update = \<lambda>i s x t l. logged (AuditUpdated i s x t l) (ce_update E i s x t l),
     ce_pending = logged PendingRead (ce_pending E),
     ce_supports = ce_supports E,
     ce_claim = \<lambda>p rq. logged (ClaimCalled p rq) (ce_claim E p rq),
     ce_verify_control = \<lambda>p r. logged (ControlChecked p r) (ce_verify_control E p r),
     ce_release = \<lambda>p r. logged (Released p r) (ce_release E p r),
     ce_recovers = ce_recovers E,
     ce_recover = \<lambda>p r. logged (Recovered p r) (ce_recover E p r),
     ce_random = unlogged (ce_random E),
     ce_now = unlogged (ce_now E)\<rparr>"

lemma traced_simps [simp]:
  "ce_create (traced E) record = logged (AuditCreated record) (ce_create E record)"
  "ce_update (traced E) i s x t l = logged (AuditUpdated i s x t l) (ce_update E i s x t l)"
  "ce_pending (traced E) = logged PendingRead (ce_pending E)"
  "ce_supports (traced E) = ce_supports E"
  "ce_claim (traced E) p rq = logged (ClaimCalled p rq) (ce_claim E p rq)"
  "ce_verify_control (traced E) p r = logged (ControlChecked p r) (ce_verify_control E p r)"
  "ce_release (traced E) p r = logged (Released p r) (ce_release E p r)"
  "ce_recovers (traced E) = ce_recovers E"
  "ce_recover (traced E) p r = logged (Recovered p r) (ce_recover E p r)"
  "ce_random (traced E) = unlogged (ce_random E)"
  "ce_now (traced E) = unlogged (ce_now E)"
  by (simp_all add: traced_def)

text \<open>Logging does not change what the engine does.\<close>

lemma logged_erase: "map_prod id fst (logged ev f s) = f (fst s)"
  by (simp add: logged_def split: prod.split)

lemma logged_eq: "logged ev f s = (r, s') \<longleftrightarrow> (\<exists>w. f (fst s) = (r, w) \<and> s' = (w, snd s @ [ev r]))"
  by (auto simp: logged_def split: prod.splits)

lemma unlogged_eq: "unlogged f s = (r, s') \<longleftrightarrow> (\<exists>w. f (fst s) = (r, w) \<and> s' = (w, snd s))"
  by (auto simp: unlogged_def split: prod.splits)

subsection \<open>What the branches append\<close>

fun is_claim :: "claim_event \<Rightarrow> bool" where
  "is_claim (ClaimCalled p rq res) = True"
| "is_claim _ = False"

text \<open>\<open>extends s s'\<close>: from \<open>s\<close> to \<open>s'\<close> the log grew by events that are not claims.\<close>

definition extends :: "'w traced_world \<Rightarrow> 'w traced_world \<Rightarrow> bool" where
  "extends s s' \<longleftrightarrow> (\<exists>evs. snd s' = snd s @ evs \<and> \<not> list_ex is_claim evs)"

lemma extends_refl [simp]: "extends s s"
  by (simp add: extends_def)

lemma extends_trans: "extends s s' \<Longrightarrow> extends s' s'' \<Longrightarrow> extends s s''"
  by (auto simp: extends_def)

lemma extends_logged: "logged ev f s = (r, s') \<Longrightarrow> \<not> is_claim (ev r) \<Longrightarrow> extends s s'"
  by (auto simp: logged_eq extends_def)

lemma extends_set: "extends s s' \<Longrightarrow> x \<in> set (snd s) \<Longrightarrow> x \<in> set (snd s')"
  by (auto simp: extends_def)

lemma extends_update: "update_audit (traced E) i st r e s = (res, s') \<Longrightarrow> extends s s'"
  by (auto simp: update_audit_def Let_def split: if_splits sum.splits dest: extends_logged)

definition freed :: "string \<Rightarrow> receipt \<Rightarrow> 'w traced_world \<Rightarrow> bool" where
  "freed p r s \<longleftrightarrow> (\<exists>rr. Released p r (Inr rr) \<in> set (snd s))"

lemma freed_extends: "freed p r s \<Longrightarrow> extends s s' \<Longrightarrow> freed p r s'"
  by (auto simp: freed_def dest: extends_set)

lemma release_logged:
  "logged (Released p r) f s = (res, s') \<Longrightarrow> extends s s' \<and> (case res of Inr rr \<Rightarrow> freed p r s' | Inl e \<Rightarrow> True)"
  by (auto simp: logged_eq extends_def freed_def split: sum.splits)

lemma halt_unsafe_halts: "halt_unsafe cause eng = (e, eng') \<Longrightarrow>
    eng_halted eng' = Some e \<and> eng_attempted eng' = eng_attempted eng"
  by (auto simp: halt_unsafe_def Let_def split: option.splits)

text \<open>A branch that ends in a release or in a halt.\<close>

definition safe_end :: "string \<Rightarrow> receipt \<Rightarrow> claim_engine \<Rightarrow> 'w traced_world \<Rightarrow> 'w traced_world claim_outcome \<Rightarrow> bool" where
  "safe_end p r eng s result \<longleftrightarrow>
     (case result of (err, eng', a, s') \<Rightarrow> extends s s' \<and> (freed p r s' \<or> eng_halted eng' \<noteq> None) \<and>
       eng_attempted eng' = eng_attempted eng)"

lemmas branch_splits = prod.splits sum.splits option.splits if_splits

lemmas step_facts = extends_update release_logged halt_unsafe_halts extends_logged

lemma safe_end_I:
  "result = (err, eng', a, s') \<Longrightarrow> extends s s' \<Longrightarrow> freed p r s' \<or> eng_halted eng' \<noteq> None \<Longrightarrow>
   eng_attempted eng' = eng_attempted eng \<Longrightarrow> safe_end p r eng s result"
  by (simp add: safe_end_def)

lemma execute_release_safe: "safe_end p r eng s (execute_release (traced E) p i r ce eng a s)"
proof -
  obtain e1 s1 where u1: "update_audit (traced E) i StatusReleasePending r ce s = (e1, s1)" by (rule prod.exhaust)
  obtain res s2 where rel: "logged (Released p r) (ce_release E p r) s1 = (res, s2)" by (rule prod.exhaust)
  note f = extends_update [OF u1] release_logged [OF rel]
  show ?thesis
  proof (cases res)
    case (Inl err)
    obtain e3 s3 where u3: "update_audit (traced E) i StatusReleaseFailed r (Some err) s2 = (e3, s3)"
      by (rule prod.exhaust)
    with u1 rel Inl f extends_update [OF u3] show ?thesis
      by (auto simp: execute_release_def safe_end_def split: prod.split dest: halt_unsafe_halts
          intro: extends_trans)
  next
    case (Inr rr)
    obtain e3 s3 where u3: "update_audit (traced E) i StatusReleaseSucceeded r ce s2 = (e3, s3)"
      by (rule prod.exhaust)
    with u1 rel Inr f extends_update [OF u3] show ?thesis
      by (auto simp: execute_release_def safe_end_def Let_def split: option.split
          intro: extends_trans freed_extends)
  qed
qed


lemma execute_unpersisted_safe: "safe_end p r eng s (execute_unpersisted (traced E) p i r e eng a s)"
proof -
  obtain res s1 where rel: "logged (Released p r) (ce_release E p r) s = (res, s1)" by (rule prod.exhaust)
  note f = release_logged [OF rel]
  show ?thesis
  proof (cases res)
    case (Inl err)
    obtain e2 s2 where u: "update_audit (traced E) i StatusReleaseFailed r (Some err) s1 = (e2, s2)"
      by (rule prod.exhaust)
    with rel Inl f extends_update [OF u] show ?thesis
      by (auto simp: execute_unpersisted_def safe_end_def Let_def split: prod.split dest: halt_unsafe_halts
          intro: extends_trans)
  next
    case (Inr rr)
    let ?persist = "Wrapped (''persistindo o recibo da '' @ reivindicacao @ '' bem-sucedida: '') e []"
    obtain e2 s2 where u: "update_audit (traced E) i StatusReleaseSucceeded r (Some ?persist) s1 = (e2, s2)"
      by (rule prod.exhaust)
    with rel Inr f extends_update [OF u] show ?thesis
      by (auto simp: execute_unpersisted_def safe_end_def Let_def intro: extends_trans freed_extends)
  qed
qed

lemma execute_invalid_safe: "safe_end p r eng s (execute_invalid (traced E) p i prov r eng a s)"
proof -
  let ?invalid = "PlainError txt_invalid_receipt"
  obtain e1 s1 where u1: "update_audit (traced E) i StatusAttempting prov (Some ?invalid) s = (e1, s1)"
    by (rule prod.exhaust)
  show ?thesis
  proof (cases "rc_external_id r = []")
    case True
    with u1 extends_update [OF u1] show ?thesis
      by (auto simp: execute_invalid_def safe_end_def Let_def split: prod.split dest: halt_unsafe_halts)
  next
    case False
    obtain res s2 where rel: "logged (Released p r) (ce_release E p r) s1 = (res, s2)" by (rule prod.exhaust)
    note f = extends_update [OF u1] release_logged [OF rel]
    show ?thesis
    proof (cases res)
      case (Inl err)
      obtain e3 s3 where u3: "update_audit (traced E) i StatusReleaseFailed r (Some err) s2 = (e3, s3)"
        by (rule prod.exhaust)
      with u1 rel Inl f False extends_update [OF u3] show ?thesis
        by (auto simp: execute_invalid_def safe_end_def Let_def split: prod.split dest: halt_unsafe_halts
            intro: extends_trans)
    next
      case (Inr rr)
      obtain e3 s3 where u3: "update_audit (traced E) i StatusReleaseSucceeded r (Some ?invalid) s2 = (e3, s3)"
        by (rule prod.exhaust)
      with u1 rel Inr f False extends_update [OF u3] show ?thesis
        by (auto simp: execute_invalid_def safe_end_def Let_def intro: extends_trans freed_extends)
    qed
  qed
qed

lemma execute_control_extends:
  "execute_control G (traced E) p vector resource i r a s = (ce, a', s') \<Longrightarrow> extends s s'"
  by (auto simp: execute_control_def split: prod.splits sum.splits if_splits dest: extends_logged)

lemma safe_end_after: "extends s s' \<Longrightarrow> safe_end p r eng s' result \<Longrightarrow> safe_end p r eng s result"
  by (auto simp: safe_end_def intro: extends_trans)

lemma execute_claimed_safe:
  "safe_end p r eng s (execute_claimed G (traced E) p vector resource i prov r eng a s)"
proof (cases "rc_provider_id r \<noteq> p \<or> rc_external_id r = []")
  case True
  then show ?thesis using execute_invalid_safe by (simp add: execute_claimed_def)
next
  case False
  obtain e1 s1 where u1: "update_audit (traced E) i StatusClaimSucceeded r None s = (e1, s1)"
    by (rule prod.exhaust)
  show ?thesis
  proof (cases e1)
    case (Some e)
    with False u1 show ?thesis
      using safe_end_after [OF extends_update [OF u1] execute_unpersisted_safe]
      by (simp add: execute_claimed_def)
  next
    case None
    obtain ce a1 s2 where c: "execute_control G (traced E) p vector resource i r a s1 = (ce, a1, s2)"
      by (rule prod_cases3)
    from False u1 None c show ?thesis
      using safe_end_after [OF extends_trans [OF extends_update [OF u1] execute_control_extends [OF c]]
          execute_release_safe]
      by (simp add: execute_claimed_def)
  qed
qed

lemma claim_failed_result_shape:
  "claim_failed_result G p v rs i e ae eng a s = (err, eng', a', s') \<Longrightarrow> eng' = eng \<and> s' = s"
  by (simp add: claim_failed_result_def Let_def)

lemma execute_failed_safe:
  assumes "as_claim_failure e = Some r"
  shows "safe_end p r eng s (execute_failed G (traced E) p vector resource i e eng a s)"
proof (cases "rc_external_id r = []")
  case True
  with assms show ?thesis
    by (auto simp: execute_failed_def safe_end_def split: prod.split dest: halt_unsafe_halts)
next
  case False
  obtain e1 s1 where u1: "update_audit (traced E) i StatusReleasePending r (Some e) s = (e1, s1)"
    by (rule prod.exhaust)
  obtain res s2 where rel: "logged (Released p r) (ce_release E p r) s1 = (res, s2)" by (rule prod.exhaust)
  note f = extends_update [OF u1] release_logged [OF rel]
  show ?thesis
  proof (cases res)
    case (Inl err)
    obtain e3 s3 where u3: "update_audit (traced E) i StatusReleaseFailed r (Some err) s2 = (e3, s3)"
      by (rule prod.exhaust)
    with assms u1 rel Inl f False extends_update [OF u3] show ?thesis
      by (auto simp: execute_failed_def safe_end_def split: prod.split dest: halt_unsafe_halts
          intro: extends_trans)
  next
    case (Inr rr)
    obtain e3 s3 where u3: "update_audit (traced E) i StatusReleaseSucceeded r (Some e) s2 = (e3, s3)"
      by (rule prod.exhaust)
    with assms u1 rel Inr f False extends_update [OF u3] show ?thesis
      by (auto simp: execute_failed_def safe_end_def Let_def split: prod.split
          dest!: claim_failed_result_shape intro: extends_trans freed_extends)
  qed
qed

lemma execute_failed_plain:
  assumes "as_claim_failure e = None"
    and "execute_failed G (traced E) p vector resource i e eng a s = (err, eng', a', s')"
  shows "extends s s' \<and> eng' = eng"
  using assms
  by (auto simp: execute_failed_def split: prod.splits dest!: claim_failed_result_shape dest: extends_update)

subsection \<open>One execution\<close>

text \<open>What a claim may have left with the provider is gone, or the engine is halted.\<close>

fun outcome_safe :: "claim_engine \<Rightarrow> 'w traced_world \<Rightarrow> claim_event \<Rightarrow> bool" where
  "outcome_safe eng s (ClaimCalled p rq (Inr r)) \<longleftrightarrow> freed p r s \<or> eng_halted eng \<noteq> None"
| "outcome_safe eng s (ClaimCalled p rq (Inl e)) \<longleftrightarrow>
     (case as_claim_failure e of None \<Rightarrow> True | Some r \<Rightarrow> freed p r s \<or> eng_halted eng \<noteq> None)"
| "outcome_safe eng s ev \<longleftrightarrow> True"

definition preventive_record :: "go_env \<Rightarrow> string \<Rightarrow> string \<Rightarrow> claim_request \<Rightarrow> time \<Rightarrow> claim_audit" where
  "preventive_record G host p rq now = zero_claim_audit\<lparr>ca_host := host, ca_provider_id := p,
     ca_status := status_text StatusAttempting, ca_receipt_json := Encoded (provisional_receipt G p rq now)\<rparr>"

text \<open>The log of an execution that claims: the record, the claim, and no other claim.\<close>

definition claims_once ::
  "go_env \<Rightarrow> string \<Rightarrow> string \<Rightarrow> provider_candidate \<Rightarrow> 'w traced_world \<Rightarrow> claim_engine \<Rightarrow> 'w traced_world \<Rightarrow> bool"
where
  "claims_once G host p c s eng' s' \<longleftrightarrow>
     (\<exists>token now ident res rest.
        snd s' = snd s @ [AuditCreated (preventive_record G host p (claim_request_for G host c token) now) (Inr ident),
            ClaimCalled p (claim_request_for G host c token) res] @ rest \<and>
        \<not> list_ex is_claim rest \<and>
        outcome_safe eng' s' (ClaimCalled p (claim_request_for G host c token) res))"

lemma extends_claims_once:
  assumes "snd s1 = snd s @ [AuditCreated (preventive_record G host p (claim_request_for G host c token) now) (Inr ident),
            ClaimCalled p (claim_request_for G host c token) res]"
    and "extends s1 s'" and "outcome_safe eng' s' (ClaimCalled p (claim_request_for G host c token) res)"
  shows "claims_once G host p c s eng' s'"
proof -
  from assms(2) obtain rest where "snd s' = snd s1 @ rest" "\<not> list_ex is_claim rest"
    by (auto simp: extends_def)
  then show ?thesis
    unfolding claims_once_def
    by (intro exI [of _ token] exI [of _ now] exI [of _ ident] exI [of _ res] exI [of _ rest])
      (simp add: assms(1,3))
qed

lemma random_token_unlogged: "random_proof_token (traced E) s = (res, s') \<Longrightarrow> snd s' = snd s"
  by (auto simp: random_proof_token_def unlogged_def split: prod.splits sum.splits)

lemma execute_attempt_safe:
  assumes "execute_attempt G (traced E) host p c eng a s = (err, eng', a', s')"
  shows "eng_attempted eng' = eng_attempted eng \<and>
    (extends s s' \<and> eng' = eng \<or> claims_once G host p c s eng' s')"
proof -
  obtain tok s1 where t: "random_proof_token (traced E) s = (tok, s1)" by (rule prod.exhaust)
  note st = random_token_unlogged [OF t]
  show ?thesis
  proof (cases tok)
    case (Inl e)
    with assms t st show ?thesis by (simp add: execute_attempt_def extends_def)
  next
    case (Inr token)
    obtain now s2 where n: "unlogged (ce_now E) s1 = (now, s2)" by (rule prod.exhaust)
    then have sn: "snd s2 = snd s" using st by (auto simp: unlogged_eq)
    let ?rq = "claim_request_for G host c token"
    let ?prov = "provisional_receipt G p ?rq now"
    let ?row = "zero_claim_audit\<lparr>ca_host := host, ca_provider_id := p,
        ca_status := status_text StatusAttempting, ca_receipt_json := Encoded ?prov\<rparr>"
    show ?thesis
    proof (cases "json_time_ok (rc_claimed_at ?prov)")
      case False
      with assms t Inr n sn show ?thesis
        by (simp add: execute_attempt_def json_marshal_def extends_def Let_def)
    next
      case True
      obtain cr s3 where c: "logged (AuditCreated ?row) (ce_create E ?row) s2 = (cr, s3)" by (rule prod.exhaust)
      show ?thesis
      proof (cases cr)
        case (Inl e)
        with assms t Inr n c True sn extends_logged [OF c] show ?thesis
          by (auto simp: execute_attempt_def json_marshal_def extends_def Let_def)
      next
        case created: (Inr ident)
        obtain res s4 where cl: "logged (ClaimCalled p ?rq) (ce_claim E p ?rq) s3 = (res, s4)" by (rule prod.exhaust)
        have log: "snd s4 = snd s @ [AuditCreated (preventive_record G host p ?rq now) (Inr ident), ClaimCalled p ?rq res]"
          using c cl created sn by (auto simp: logged_eq preventive_record_def)
        note start = t Inr n c True created cl
        show ?thesis
        proof (cases res)
          case (Inl e)
          have run: "execute_failed G (traced E) p (claim_vector G c) (claim_resource c) ident e eng a s4 = (err, eng', a', s')"
            using assms start Inl by (simp add: execute_attempt_def json_marshal_def Let_def)
          show ?thesis
          proof (cases "as_claim_failure e")
            case None
            with execute_failed_plain [OF None run] extends_claims_once [OF log] Inl show ?thesis by auto
          next
            case (Some r)
            with execute_failed_safe [OF Some, of p eng s4 G E "claim_vector G c" "claim_resource c" ident a] run
              extends_claims_once [OF log] Inl show ?thesis by (auto simp: safe_end_def)
          qed
        next
          case claimed: (Inr r)
          have run: "execute_claimed G (traced E) p (claim_vector G c) (claim_resource c) ident ?prov r eng a s4 = (err, eng', a', s')"
            using assms start claimed by (simp add: execute_attempt_def json_marshal_def Let_def)
          with execute_claimed_safe [of p r eng s4 G E "claim_vector G c" "claim_resource c" ident ?prov a]
            extends_claims_once [OF log] claimed show ?thesis by (auto simp: safe_end_def)
        qed
      qed
    qed
  qed
qed


lemma provider_for_candidates_found:
  "provider_for_candidates G E ids a cs = Some (p, c) \<Longrightarrow>
   c \<in> set cs \<and> p \<in> set ids \<and> ce_supports E p c \<and> claim_eligible_candidate G a c"
  by (induction cs) (auto split: if_splits option.splits dest: find_Some_iff2)

lemma provider_for_found:
  "provider_for G E eng a = Some (p, c) \<Longrightarrow>
   c \<in> set (ha_provider_candidates a) \<and> p \<in> set (eng_providers eng) \<and> ce_supports E p c \<and>
   claim_eligible_candidate G a c"
  unfolding provider_for_def by (rule provider_for_candidates_found)

lemma provider_for_traced [simp]: "provider_for G (traced E) eng a = provider_for G E eng a"
proof -
  have "provider_for_candidates G (traced E) ids a cs = provider_for_candidates G E ids a cs" for ids cs
    by (induction cs) (auto split: option.split)
  then show ?thesis by (simp add: provider_for_def)
qed

text \<open>What one execution may do: nothing outside except the record of an unsupported candidate,
  or one claim under all the conditions.\<close>

definition may_claim :: "go_env \<Rightarrow> 'w claim_env \<Rightarrow> claim_engine \<Rightarrow> host_analysis \<Rightarrow> string \<Rightarrow> provider_candidate \<Rightarrow> bool" where
  "may_claim G E eng a p c \<longleftrightarrow>
     normalize_host G (ha_host a) \<in> eng_allowlist eng \<and> eng_halted eng = None \<and>
     c \<in> set (ha_provider_candidates a) \<and> claim_eligible_candidate G a c \<and>
     p \<in> set (eng_providers eng) \<and> ce_supports E p c \<and> attempt_key G p c \<notin> eng_attempted eng"

lemma execute_cases:
  assumes "execute G (traced E) eng a s = (err, eng', a', s')"
  obtains (idle) "extends s s'" "eng_attempted eng \<subseteq> eng_attempted eng'" "eng_halted eng' = eng_halted eng"
      "eng_halted eng \<noteq> None \<Longrightarrow> s' = s"
  | (claim) p c where "may_claim G E eng a p c"
      "eng_attempted eng' = insert (attempt_key G p c) (eng_attempted eng)"
      "claims_once G (normalize_host G (ha_host a)) p c s eng' s'"
proof -
  let ?host = "normalize_host G (ha_host a)"
  consider (out) "\<not> claim_eligible_analysis G a \<or> ?host \<notin> eng_allowlist eng"
    | (halted) "?host \<in> eng_allowlist eng" "claim_eligible_analysis G a" "eng_halted eng \<noteq> None"
    | (none) "?host \<in> eng_allowlist eng" "claim_eligible_analysis G a" "eng_halted eng = None"
        "provider_for G E eng a = None"
    | (some) p c where "?host \<in> eng_allowlist eng" "claim_eligible_analysis G a" "eng_halted eng = None"
        "provider_for G E eng a = Some (p, c)"
    by (cases "provider_for G E eng a") auto
  then show thesis
  proof cases
    case out
    with assms have "s' = s" "eng' = eng" by (auto simp: execute_def split: if_splits)
    then show thesis by (intro idle) auto
  next
    case halted
    with assms have "s' = s" "eng' = eng" by (auto simp: execute_def)
    then show thesis by (intro idle) auto
  next
    case none
    with assms have "execute_unsupported (traced E) ?host eng a s = (err, eng', a', s')"
      by (simp add: execute_def execute_guarded_def)
    then have "extends s s' \<and> eng' = eng"
      by (auto simp: execute_unsupported_def split: prod.splits sum.splits dest: extends_logged)
    with none show thesis by (intro idle) auto
  next
    case some
    show thesis
    proof (cases "attempt_key G p c \<in> eng_attempted eng")
      case True
      with some assms have "s' = s" "eng' = eng"
        by (auto simp: execute_def execute_guarded_def begin_attempt_def)
      then show thesis by (intro idle) auto
    next
      case False
      let ?eng = "eng\<lparr>eng_attempted := insert (attempt_key G p c) (eng_attempted eng)\<rparr>"
      from False some assms have run: "execute_attempt G (traced E) ?host p c ?eng a s = (err, eng', a', s')"
        by (simp add: execute_def execute_guarded_def begin_attempt_def)
      note result = execute_attempt_safe [OF run]
      have "may_claim G E eng a p c"
        using some False provider_for_found [OF some(4)] by (simp add: may_claim_def)
      with result show thesis using claim idle some by (auto simp: subset_insertI)
    qed
  qed
qed

subsection \<open>Runs\<close>

text \<open>The analyses of a scan are executed one after another, in whatever order the workers reach
  the lock.\<close>

fun run_claims ::
  "go_env \<Rightarrow> 'w claim_env \<Rightarrow> claim_engine \<Rightarrow> host_analysis list \<Rightarrow> 'w \<Rightarrow> claim_engine \<times> 'w"
where
  "run_claims G E eng [] w = (eng, w)"
| "run_claims G E eng (a # as) w =
     (case execute G E eng a w of (err, eng1, a1, w1) \<Rightarrow> run_claims G E eng1 as w1)"

definition request_key :: "go_env \<Rightarrow> string \<Rightarrow> claim_request \<Rightarrow> string" where
  "request_key G p rq = to_lower G (p @ ''|'' @ rq_vector rq @ ''|'' @ normalize_host G (rq_resource rq))"

fun event_keys :: "go_env \<Rightarrow> claim_event list \<Rightarrow> string list" where
  "event_keys G [] = []"
| "event_keys G (ClaimCalled p rq res # evs) = request_key G p rq # event_keys G evs"
| "event_keys G (_ # evs) = event_keys G evs"

lemma event_keys_append [simp]: "event_keys G (xs @ ys) = event_keys G xs @ event_keys G ys"
  by (induction G xs rule: event_keys.induct) auto

lemma event_keys_none: "\<not> list_ex is_claim evs \<Longrightarrow> event_keys G evs = []"
  by (induction G evs rule: event_keys.induct) auto

lemma request_key_attempt: "request_key G p (claim_request_for G host c token) = attempt_key G p c"
  by (simp add: request_key_def attempt_key_def claim_request_for_def)

definition all_safe :: "claim_engine \<Rightarrow> 'w traced_world \<Rightarrow> bool" where
  "all_safe eng s \<longleftrightarrow> list_all (outcome_safe eng s) (snd s)"

definition run_invariant :: "go_env \<Rightarrow> claim_engine \<Rightarrow> 'w traced_world \<Rightarrow> bool" where
  "run_invariant G eng s \<longleftrightarrow> all_safe eng s \<and> distinct (event_keys G (snd s)) \<and>
     set (event_keys G (snd s)) \<subseteq> eng_attempted eng"

lemma outcome_safe_keep:
  assumes "outcome_safe eng s ev" and "set (snd s) \<subseteq> set (snd s')"
    and "eng_halted eng \<noteq> None \<Longrightarrow> eng_halted eng' \<noteq> None"
  shows "outcome_safe eng' s' ev"
  using assms by (cases "(eng, s, ev)" rule: outcome_safe.cases) (auto simp: freed_def split: option.splits)

lemma outcome_safe_other: "\<not> is_claim ev \<Longrightarrow> outcome_safe eng s ev"
  by (cases ev) auto

lemma all_safe_extend:
  assumes "all_safe eng s" and "snd s' = snd s @ evs" and "\<forall>ev \<in> set evs. outcome_safe eng' s' ev"
    and "eng_halted eng \<noteq> None \<Longrightarrow> eng_halted eng' \<noteq> None"
  shows "all_safe eng' s'"
proof -
  have "outcome_safe eng' s' ev" if "ev \<in> set (snd s)" for ev
    using assms that by (intro outcome_safe_keep [of eng s ev s' eng']) (auto simp: all_safe_def list_all_iff)
  with assms(2,3) show ?thesis by (auto simp: all_safe_def list_all_iff)
qed

lemma execute_invariant:
  assumes "execute G (traced E) eng a s = (err, eng', a', s')" and "run_invariant G eng s"
  shows "run_invariant G eng' s'"
proof (rule execute_cases [OF assms(1)])
  assume "extends s s'" "eng_attempted eng \<subseteq> eng_attempted eng'" "eng_halted eng' = eng_halted eng"
  moreover from this(1) obtain evs where evs: "snd s' = snd s @ evs" "\<not> list_ex is_claim evs"
    by (auto simp: extends_def)
  moreover have "\<forall>ev \<in> set evs. outcome_safe eng' s' ev"
    using evs(2) by (auto simp: list_ex_iff intro: outcome_safe_other)
  ultimately show ?thesis
    using assms(2) all_safe_extend [of eng s s' evs eng'] event_keys_none [OF evs(2), of G]
    by (auto simp: run_invariant_def)
next
  fix p c
  assume may: "may_claim G E eng a p c"
    and att: "eng_attempted eng' = insert (attempt_key G p c) (eng_attempted eng)"
    and once: "claims_once G (normalize_host G (ha_host a)) p c s eng' s'"
  from once obtain token now ident res rest where
    log: "snd s' = snd s @ [AuditCreated (preventive_record G (normalize_host G (ha_host a)) p
        (claim_request_for G (normalize_host G (ha_host a)) c token) now) (Inr ident),
        ClaimCalled p (claim_request_for G (normalize_host G (ha_host a)) c token) res] @ rest"
    and rest: "\<not> list_ex is_claim rest"
    and safe: "outcome_safe eng' s' (ClaimCalled p (claim_request_for G (normalize_host G (ha_host a)) c token) res)"
    by (auto simp: claims_once_def)
  have "\<forall>ev \<in> set rest. outcome_safe eng' s' ev"
    using rest by (auto simp: list_ex_iff intro: outcome_safe_other)
  then have "all_safe eng' s'"
    using assms(2) safe may by (intro all_safe_extend [of eng s, OF _ log]) (auto simp: run_invariant_def may_claim_def)
  then show ?thesis
    using assms(2) may att log event_keys_none [OF rest, of G]
    by (auto simp: run_invariant_def may_claim_def request_key_attempt)
qed

lemma run_claims_invariant:
  "run_claims G (traced E) eng as s = (eng', s') \<Longrightarrow> run_invariant G eng s \<Longrightarrow> run_invariant G eng' s'"
  by (induction "as" arbitrary: eng s) (auto split: prod.splits dest: execute_invariant)


subsection \<open>Control is reported only after a proof\<close>

definition control_signal :: "host_analysis \<Rightarrow> bool" where
  "control_signal a \<longleftrightarrow> has_type (ha_evidences a) ''ZONE_CONTROL_CONFIRMED'' \<or>
     has_type (ha_evidences a) ''CLAIM_SUCCESS'' \<or> control_proven a"

definition proven_in :: "'w traced_world \<Rightarrow> bool" where
  "proven_in s \<longleftrightarrow> (\<exists>p r proof. ControlChecked p r (Inr proof) \<in> set (snd s) \<and> cp_controlled proof)"

lemma proven_inI: "ControlChecked p r (Inr proof) \<in> set (snd s) \<Longrightarrow> cp_controlled proof \<Longrightarrow> proven_in s"
  by (auto simp: proven_in_def)

lemma proven_in_extends: "proven_in s \<Longrightarrow> extends s s' \<Longrightarrow> proven_in s'"
  by (auto simp: proven_in_def dest: extends_set)

lemma control_proven_add [simp]: "control_proven (add_evidence e a) = control_proven a"
  by (simp add: control_proven_def add_evidence_def)

lemma control_signal_add:
  "control_signal (add_evidence e a) \<longleftrightarrow>
     control_signal a \<or> ev_type e = ''ZONE_CONTROL_CONFIRMED'' \<or> ev_type e = ''CLAIM_SUCCESS''"
  by (auto simp: control_signal_def add_evidence_def control_proven_def)

lemma claim_evidence_type [simp]: "ev_type (claim_evidence t s d w n m) = t"
  by (simp add: claim_evidence_def)

lemma control_signal_delegation [simp]: "control_signal (a\<lparr>ha_delegation := d\<rparr>) = control_signal a"
  by (simp add: control_signal_def control_proven_def)

lemma control_signal_not_demonstrated [simp]:
  "control_signal (mark_claim_not_demonstrated G v rs p i e a) = control_signal a"
  by (simp add: mark_claim_not_demonstrated_def Let_def control_signal_add)

lemma claim_failed_signal:
  "claim_failed_result G p v rs i e ae eng a s = (err, eng', a', s') \<Longrightarrow> control_signal a' = control_signal a"
  by (auto simp: claim_failed_result_def Let_def control_signal_add split: if_splits)

lemma execute_failed_signal:
  "execute_failed G E p v rs i e eng a s = (err, eng', a', s') \<Longrightarrow> control_signal a' = control_signal a"
  by (auto simp: execute_failed_def control_signal_add split: option.splits prod.splits sum.splits if_splits
      dest!: claim_failed_signal)

lemma execute_invalid_signal:
  "execute_invalid E p i prov r eng a s = (err, eng', a', s') \<Longrightarrow> a' = a"
  by (auto simp: execute_invalid_def Let_def split: prod.splits sum.splits if_splits)

lemma execute_unpersisted_signal:
  "execute_unpersisted E p i r e eng a s = (err, eng', a', s') \<Longrightarrow> a' = a"
  by (auto simp: execute_unpersisted_def Let_def split: prod.splits sum.splits)

lemma execute_release_signal:
  "execute_release E p i r ce eng a s = (err, eng', a', s') \<Longrightarrow> control_signal a' = control_signal a"
  by (auto simp: execute_release_def Let_def control_signal_add split: prod.splits sum.splits option.splits if_splits)

lemma execute_control_signal:
  "execute_control G (traced E) p v rs i r a s = (ce, a', s') \<Longrightarrow>
   control_signal a' \<Longrightarrow> control_signal a \<or> proven_in s'"
  by (auto simp: execute_control_def control_signal_add logged_eq intro: proven_inI
      split: prod.splits sum.splits if_splits)

lemma execute_claimed_signal:
  assumes "execute_claimed G (traced E) p v rs i prov r eng a s = (err, eng', a', s')" and "control_signal a'"
  shows "control_signal a \<or> proven_in s'"
proof (cases "rc_provider_id r \<noteq> p \<or> rc_external_id r = []")
  case True
  with assms show ?thesis by (auto simp: execute_claimed_def dest: execute_invalid_signal)
next
  case False
  obtain e1 s1 where u1: "update_audit (traced E) i StatusClaimSucceeded r None s = (e1, s1)"
    by (rule prod.exhaust)
  show ?thesis
  proof (cases e1)
    case (Some e)
    with False u1 assms show ?thesis by (auto simp: execute_claimed_def dest: execute_unpersisted_signal)
  next
    case None
    obtain ce a1 s2 where c: "execute_control G (traced E) p v rs i r a s1 = (ce, a1, s2)" by (rule prod_cases3)
    with False u1 None assms(1)
    have rel: "execute_release (traced E) p i r ce eng a1 s2 = (err, eng', a', s')"
      by (simp add: execute_claimed_def)
    have "extends s2 s'" using execute_release_safe [of p r eng s2 E i ce a1] rel by (simp add: safe_end_def)
    moreover have "control_signal a1" using execute_release_signal [OF rel] assms(2) by simp
    ultimately show ?thesis
      using execute_control_signal [OF c] by (auto intro: proven_in_extends)
  qed
qed

lemma execute_attempt_signal:
  "execute_attempt G (traced E) host p c eng a s = (err, eng', a', s') \<Longrightarrow> control_signal a' \<Longrightarrow>
   control_signal a \<or> proven_in s'"
  by (auto simp: execute_attempt_def Let_def split: prod.splits sum.splits
      dest: execute_failed_signal execute_claimed_signal)

lemma execute_signal:
  "execute G (traced E) eng a s = (err, eng', a', s') \<Longrightarrow> control_signal a' \<Longrightarrow>
   control_signal a \<or> proven_in s'"
  by (auto simp: execute_def execute_guarded_def execute_unsupported_def control_signal_add
      split: option.splits prod.splits sum.splits if_splits bool.splits dest: execute_attempt_signal)

subsection \<open>Reconcile\<close>

text \<open>A record is settled in the log when its receipt was released, or the provider found nothing,
  and that was stored.\<close>

fun stored_event :: "int \<Rightarrow> claim_status \<Rightarrow> claim_event \<Rightarrow> bool" where
  "stored_event i st (AuditUpdated i' s x t l None) \<longleftrightarrow> i = i' \<and> s = status_text st"
| "stored_event i st ev \<longleftrightarrow> False"

fun released_event :: "string \<Rightarrow> claim_event \<Rightarrow> bool" where
  "released_event p (Released p' r (Inr rr)) \<longleftrightarrow> p = p'"
| "released_event p ev \<longleftrightarrow> False"

fun absent_event :: "string \<Rightarrow> claim_event \<Rightarrow> bool" where
  "absent_event p (Recovered p' r (Inr (r', found))) \<longleftrightarrow> p = p' \<and> \<not> found"
| "absent_event p ev \<longleftrightarrow> False"

definition settled :: "claim_event list \<Rightarrow> claim_audit \<Rightarrow> bool" where
  "settled evs record \<longleftrightarrow>
     list_ex (released_event (ca_provider_id record)) evs \<and>
       list_ex (stored_event (ca_id record) StatusReleaseSucceeded) evs \<or>
     list_ex (absent_event (ca_provider_id record)) evs \<and>
       list_ex (stored_event (ca_id record) StatusClaimFailed) evs"

lemma settled_append [simp]: "settled evs record \<Longrightarrow> settled (evs @ evs') record"
  "settled evs record \<Longrightarrow> settled (evs' @ evs) record"
  by (auto simp: settled_def)

text \<open>Each call of the reconciliation as the events it appends.\<close>

lemma update_events:
  assumes "update_audit (traced E) i st r e s = (res, s')"
  shows "\<exists>evs. snd s' = snd s @ evs \<and> (res = None \<longrightarrow> list_ex (stored_event i st) evs)"
  using assms by (auto simp: update_audit_def Let_def logged_eq split: if_splits sum.splits)

lemma release_events:
  assumes "logged (Released p r) f s = (res, s')"
  shows "\<exists>evs. snd s' = snd s @ evs \<and> (\<forall>rr. res = Inr rr \<longrightarrow> list_ex (released_event p) evs)"
  using assms by (auto simp: logged_eq)

lemma recover_events:
  assumes "logged (Recovered p r) f s = (res, s')"
  shows "\<exists>evs. snd s' = snd s @ evs \<and> (\<forall>r'. res = Inr (r', False) \<longrightarrow> list_ex (absent_event p) evs)"
  using assms by (auto simp: logged_eq)

definition settles :: "claim_audit \<Rightarrow> 'w traced_world \<Rightarrow> string list \<Rightarrow> 'w traced_world \<Rightarrow> bool" where
  "settles record s fs s' \<longleftrightarrow> (\<exists>evs. snd s' = snd s @ evs \<and> (fs = [] \<longrightarrow> settled evs record))"

lemma settles_after: "snd s1 = snd s @ evs \<Longrightarrow> settles record s1 fs s' \<Longrightarrow> settles record s fs s'"
  by (auto simp: settles_def)

lemma settles_failure: "snd s' = snd s @ evs \<Longrightarrow> settles record s (f # fs) s'"
  by (simp add: settles_def)

lemma settles_unchanged: "settles record s (f # fs) s"
  by (simp add: settles_def)

lemma reconcile_release_settles:
  assumes run: "reconcile_release (traced E) (ca_provider_id record) record r s = (fs, s')"
  shows "settles record s fs s'"
proof (cases "rc_external_id r = []")
  case True
  with run show ?thesis by (auto simp: reconcile_release_def settles_def)
next
  case False
  obtain e1 s1 where u1: "update_audit (traced E) (ca_id record) StatusReleasePending r None s = (e1, s1)"
    by (rule prod.exhaust)
  obtain evs1 where v1: "snd s1 = snd s @ evs1" using update_events [OF u1] by auto
  show ?thesis
  proof (cases e1)
    case (Some e)
    with run False u1 v1 show ?thesis by (auto simp: reconcile_release_def intro: settles_failure)
  next
    case None
    obtain res s2 where rel: "logged (Released (ca_provider_id record) r) (ce_release E (ca_provider_id record) r) s1 = (res, s2)"
      by (rule prod.exhaust)
    obtain evs2 where v2: "snd s2 = snd s1 @ evs2"
        "\<forall>rr. res = Inr rr \<longrightarrow> list_ex (released_event (ca_provider_id record)) evs2"
      using release_events [OF rel] by auto
    note start = run False u1 None rel
    show ?thesis
    proof (cases res)
      case (Inl e)
      obtain e3 s3 where u3: "update_audit (traced E) (ca_id record) StatusReleaseFailed r (Some e) s2 = (e3, s3)"
        by (rule prod.exhaust)
      obtain evs3 where "snd s3 = snd s2 @ evs3" using update_events [OF u3] by auto
      with start Inl u3 v1 v2 show ?thesis by (auto simp: reconcile_release_def settles_def)
    next
      case (Inr rr)
      obtain e3 s3 where u3: "update_audit (traced E) (ca_id record) StatusReleaseSucceeded r None s2 = (e3, s3)"
        by (rule prod.exhaust)
      obtain evs3 where "snd s3 = snd s2 @ evs3"
          "e3 = None \<longrightarrow> list_ex (stored_event (ca_id record) StatusReleaseSucceeded) evs3"
        using update_events [OF u3] by auto
      with start Inr u3 v1 v2 show ?thesis
        by (auto simp: reconcile_release_def settles_def settled_def split: option.splits)
    qed
  qed
qed

lemma reconcile_attempting_settles:
  assumes run: "reconcile_attempting (traced E) (ca_provider_id record) record r s = (fs, s')"
  shows "settles record s fs s'"
proof (cases "ce_recovers E (ca_provider_id record)")
  case False
  with run show ?thesis by (auto simp: reconcile_attempting_def settles_def)
next
  case True
  obtain res s1 where rec: "logged (Recovered (ca_provider_id record) r) (ce_recover E (ca_provider_id record) r) s = (res, s1)"
    by (rule prod.exhaust)
  obtain evs1 where v1: "snd s1 = snd s @ evs1"
      "\<forall>r'. res = Inr (r', False) \<longrightarrow> list_ex (absent_event (ca_provider_id record)) evs1"
    using recover_events [OF rec] by auto
  note start = run True rec
  consider (error) e where "res = Inl e" | (absent) r' where "res = Inr (r', False)"
    | (found) r' where "res = Inr (r', True)"
    by (metis (full_types) prod.exhaust sum.exhaust)
  then show ?thesis
  proof cases
    case error
    with start v1 show ?thesis by (auto simp: reconcile_attempting_def intro: settles_failure)
  next
    case absent
    obtain e2 s2 where u2: "update_audit (traced E) (ca_id record) StatusClaimFailed zero_receipt
        (Some (PlainError ''nenhum recurso criado por esta tentativa foi localizado'')) s1 = (e2, s2)"
      by (rule prod.exhaust)
    obtain evs2 where "snd s2 = snd s1 @ evs2"
        "e2 = None \<longrightarrow> list_ex (stored_event (ca_id record) StatusClaimFailed) evs2"
      using update_events [OF u2] by auto
    with start absent u2 v1 show ?thesis
      by (auto simp: reconcile_attempting_def settles_def settled_def split: option.splits)
  next
    case found
    obtain e2 s2 where u2: "update_audit (traced E) (ca_id record) StatusClaimSucceeded r' None s1 = (e2, s2)"
      by (rule prod.exhaust)
    obtain evs2 where v2: "snd s2 = snd s1 @ evs2" using update_events [OF u2] by auto
    with start found u2 v1 show ?thesis
      by (auto simp: reconcile_attempting_def split: option.splits
          intro: settles_failure [of s' s "evs1 @ evs2"]
            settles_after [of s2 s "evs1 @ evs2", OF _ reconcile_release_settles])
  qed
qed

lemma reconcile_record_settles: "reconcile_record (traced E) eng record s = (fs, s') \<Longrightarrow> settles record s fs s'"
  by (auto simp: reconcile_record_def split: if_splits option.splits
      intro: reconcile_attempting_settles reconcile_release_settles settles_unchanged)

lemma reconcile_records_settle:
  "reconcile_records (traced E) eng records s = (fs, s') \<Longrightarrow>
   \<exists>evs. snd s' = snd s @ evs \<and> (fs = [] \<longrightarrow> list_all (settled evs) records)"
proof (induction records arbitrary: s fs)
  case Nil
  then show ?case by simp
next
  case (Cons audit audits)
  obtain f1 s1 where r1: "reconcile_record (traced E) eng audit s = (f1, s1)" by (rule prod.exhaust)
  obtain f2 where r2: "reconcile_records (traced E) eng audits s1 = (f2, s')" and fs: "fs = f1 @ f2"
    using Cons.prems r1 by (auto split: prod.splits)
  obtain evs1 where "snd s1 = snd s @ evs1" "f1 = [] \<longrightarrow> settled evs1 audit"
    using reconcile_record_settles [OF r1] by (auto simp: settles_def)
  moreover obtain evs2 where "snd s' = snd s1 @ evs2" "f2 = [] \<longrightarrow> list_all (settled evs2) audits"
    using Cons.IH [OF r2] by auto
  ultimately show ?case using fs by (auto simp: list_all_iff)
qed


subsection \<open>The contract of the audit store\<close>

text \<open>What the engine relies on: a row that is read as pending carries the text and the state it
  was last given, and is in an open state with a receipt.\<close>

locale audit_store =
  fixes create :: "claim_audit \<Rightarrow> 's \<Rightarrow> int \<times> 's"
    and update :: "int \<Rightarrow> string \<Rightarrow> string \<Rightarrow> receipt_text \<Rightarrow> string \<Rightarrow> 's \<Rightarrow> 's"
    and pending :: "'s \<Rightarrow> claim_audit list"
  assumes pending_open: "row \<in> set (pending st) \<Longrightarrow> open_status (ca_status row) \<and> ca_receipt_json row \<noteq> NoText"
    and pending_updated: "row \<in> set (pending (update i s x t l st)) \<Longrightarrow> ca_id row = i \<Longrightarrow>
      ca_status row = s \<and> ca_receipt_json row = t"
    and pending_other: "ca_id row \<noteq> i \<Longrightarrow> row \<in> set (pending (update i s x t l st)) \<longleftrightarrow> row \<in> set (pending st)"
    and pending_created: "create rec st = (i, st') \<Longrightarrow> open_status (ca_status rec) \<Longrightarrow>
      ca_receipt_json rec \<noteq> NoText \<Longrightarrow> rec\<lparr>ca_id := i\<rparr> \<in> set (pending st')"
begin

lemma closed_not_pending:
  "\<not> open_status s \<or> t = NoText \<Longrightarrow> i \<notin> ca_id ` set (pending (update i s x t l st))"
proof
  assume closed: "\<not> open_status s \<or> t = NoText" and "i \<in> ca_id ` set (pending (update i s x t l st))"
  then obtain row where "row \<in> set (pending (update i s x t l st))" "ca_id row = i" by auto
  from pending_updated [OF this] pending_open [OF this(1)] closed show False by simp
qed

lemma pending_after_close:
  assumes "\<not> open_status s \<or> t = NoText"
  shows "set (pending (update i s x t l st)) = {row \<in> set (pending st). ca_id row \<noteq> i}"
proof -
  have "row \<in> set (pending (update i s x t l st)) \<longleftrightarrow> row \<in> set (pending st) \<and> ca_id row \<noteq> i" for row
    using closed_not_pending [OF assms, of i x l st] pending_other [of row i s x t l st]
    by (cases "ca_id row = i") (auto simp: image_iff)
  then show ?thesis by auto
qed

lemma created_is_pending:
  "create rec st = (i, st') \<Longrightarrow> open_status (ca_status rec) \<Longrightarrow> ca_receipt_json rec \<noteq> NoText \<Longrightarrow>
   i \<in> ca_id ` set (pending st')"
  using pending_created [of rec st i st'] by force

end

interpretation audit_table: audit_store create_claim_audit update_claim_audit pending_claim_audits
  by unfold_locales
    (auto simp: pending_claim_audits_def update_claim_audit_def create_claim_audit_def Let_def)

text \<open>The environment whose store is the table, next to any provider world.\<close>

definition table_env :: "'v claim_env \<Rightarrow> (claim_audit list \<times> 'v) claim_env" where
  "table_env P = \<lparr>
     ce_create = \<lambda>record (rows, v). (case create_claim_audit record rows of (i, rows') \<Rightarrow> (Inr i, (rows', v))),
     ce_update = \<lambda>i s x t l (rows, v). (None, (update_claim_audit i s x t l rows, v)),
     ce_pending = \<lambda>(rows, v). (Inr (pending_claim_audits rows), (rows, v)),
     ce_supports = ce_supports P,
     ce_claim = \<lambda>p rq (rows, v). (case ce_claim P p rq v of (res, v') \<Rightarrow> (res, (rows, v'))),
     ce_verify_control = \<lambda>p r (rows, v). (case ce_verify_control P p r v of (res, v') \<Rightarrow> (res, (rows, v'))),
     ce_release = \<lambda>p r (rows, v). (case ce_release P p r v of (res, v') \<Rightarrow> (res, (rows, v'))),
     ce_recovers = ce_recovers P,
     ce_recover = \<lambda>p r (rows, v). (case ce_recover P p r v of (res, v') \<Rightarrow> (res, (rows, v'))),
     ce_random = \<lambda>(rows, v). (case ce_random P v of (res, v') \<Rightarrow> (res, (rows, v'))),
     ce_now = \<lambda>(rows, v). (case ce_now P v of (t, v') \<Rightarrow> (t, (rows, v')))\<rparr>"

lemma table_env_simps [simp]:
  "ce_update (table_env P) i s x t l (rows, v) = (None, (update_claim_audit i s x t l rows, v))"
  "ce_pending (table_env P) (rows, v) = (Inr (pending_claim_audits rows), (rows, v))"
  by (simp_all add: table_env_def)

lemma invalid_without_identity:
  assumes "rc_external_id r = []" and "rc_external_id prov = []" and "eng_halted eng = None"
  shows "\<exists>e. execute_invalid (table_env P) p i prov r eng a (rows, v) =
    (Some (Joined [e]), eng\<lparr>eng_halted := Some e\<rparr>, a,
     (update_claim_audit i ''ATTEMPTING'' [] NoText txt_invalid_receipt rows, v))"
  using assms
  by (simp add: execute_invalid_def update_audit_def halt_unsafe_def join_errors_def List.map_filter_def Let_def)

subsection \<open>Properties\<close>

text \<open>C2. One execution makes at most one claim, and only when the engine is not halted, the host is
  on the allow list, the candidate is eligible and supported, and its resource was not tried
  before; the claim follows directly a stored preventive record that carries its proof token.
  An execution without a claim leaves the halt as it was.\<close>

theorem claim_needs_authorisation:
  "case execute G (traced E) eng a (w, []) of (err, eng', a', s') \<Rightarrow>
     if list_ex is_claim (snd s')
     then \<exists>p c. may_claim G E eng a p c \<and> claims_once G (normalize_host G (ha_host a)) p c (w, []) eng' s'
     else eng_halted eng' = eng_halted eng"
proof -
  obtain err eng' a' s' where run: "execute G (traced E) eng a (w, []) = (err, eng', a', s')"
    by (metis prod_cases4)
  show ?thesis
  proof (rule execute_cases [OF run])
    assume "extends (w, []) s'" "eng_halted eng' = eng_halted eng"
    then show ?thesis using run by (auto simp: extends_def)
  next
    fix p c
    assume "may_claim G E eng a p c"
      and "claims_once G (normalize_host G (ha_host a)) p c (w, []) eng' s'"
    moreover from this(2) have "list_ex is_claim (snd s')" by (auto simp: claims_once_def)
    ultimately show ?thesis using run by auto
  qed
qed

text \<open>C3. Whatever the providers and the store answer, after any sequence of executions every
  resource a claim obtained, and every identified resource of a failed claim, was released, or
  the engine is halted.\<close>

theorem claims_leave_nothing:
  "case run_claims G (traced E) eng as (w, []) of (eng', s') \<Rightarrow> list_all (outcome_safe eng' s') (snd s')"
proof -
  obtain eng' s' where run: "run_claims G (traced E) eng as (w, []) = (eng', s')" by (rule prod.exhaust)
  have "run_invariant G eng (w, [])" by (simp add: run_invariant_def all_safe_def)
  from run_claims_invariant [OF run this] show ?thesis
    using run by (simp add: run_invariant_def all_safe_def)
qed

text \<open>In a sequence of executions no resource of a provider is claimed twice.\<close>

theorem one_claim_per_resource:
  "case run_claims G (traced E) eng as (w, []) of (eng', s') \<Rightarrow>
     distinct (event_keys G (snd s')) \<and> set (event_keys G (snd s')) \<subseteq> eng_attempted eng'"
proof -
  obtain eng' s' where run: "run_claims G (traced E) eng as (w, []) = (eng', s')" by (rule prod.exhaust)
  have "run_invariant G eng (w, [])" by (simp add: run_invariant_def all_safe_def)
  from run_claims_invariant [OF run this] show ?thesis
    using run by (simp add: run_invariant_def)
qed

text \<open>C22. If an execution turns the level of a host into one of the three that assert proven
  control, then a provider confirmed control of the claimed resource during that execution.\<close>

theorem control_level_needs_positive_proof:
  assumes "execute G (traced E) eng a (w, []) = (err, eng', a', s')"
    and "classify_level G a' \<in> {LevelZoneControlConfirmed, LevelTakenOver, LevelConfirmed}"
    and "classify_level G a \<notin> {LevelZoneControlConfirmed, LevelTakenOver, LevelConfirmed}"
  shows "\<exists>p r proof. ControlChecked p r (Inr proof) \<in> set (snd s') \<and> cp_controlled proof"
proof -
  have "control_signal b \<longleftrightarrow> classify_level G b \<in> {LevelZoneControlConfirmed, LevelTakenOver, LevelConfirmed}" for b
    unfolding classify_level_def control_signal_def Let_def by simp
  then show ?thesis using execute_signal [OF assms(1)] assms(2,3) by (auto simp: proven_in_def)
qed

text \<open>\<open>Reconcile\<close> lifts the halt exactly when it returns without error, and then every record it
  read was settled: its resource was released, or the provider found none, and that was stored.\<close>

theorem reconcile_clears_settled:
  "case reconcile (traced E) eng (w, []) of (err, eng', s') \<Rightarrow>
     if err = None
     then eng_halted eng' = None \<and>
       (\<exists>records. PendingRead (Inr records) \<in> set (snd s') \<and> list_all (settled (snd s')) records)
     else eng_halted eng' \<noteq> None"
proof -
  obtain res s1 where read: "logged PendingRead (ce_pending E) (w, []) = (res, s1)" by (rule prod.exhaust)
  show ?thesis
  proof (cases res)
    case (Inl e)
    with read show ?thesis by (auto simp: reconcile_def split: prod.split dest: halt_unsafe_halts)
  next
    case (Inr records)
    obtain fs s2 where run: "reconcile_records (traced E) eng records s1 = (fs, s2)" by (rule prod.exhaust)
    obtain evs where "snd s2 = snd s1 @ evs" "fs = [] \<longrightarrow> list_all (settled evs) records"
      using reconcile_records_settle [OF run] by auto
    moreover have "PendingRead (Inr records) \<in> set (snd s1)" using read Inr by (auto simp: logged_eq)
    ultimately show ?thesis
      using read Inr run
      by (auto simp: reconcile_def clear_unsafe_def list_all_iff split: prod.split dest: halt_unsafe_halts)
  qed
qed

text \<open>C38. A provider that reports success without the identity of the resource halts the engine, but
  the update that is meant to keep the preventive record erases its receipt text: \<open>Reconcile\<close> no
  longer reads that record and, when nothing else is pending, lifts the halt without having asked
  the provider anything.\<close>

theorem invalid_receipt_is_forgotten:
  assumes "rc_external_id r = []" and "eng_halted eng = None"
    and "{row \<in> set (pending_claim_audits rows). ca_id row \<noteq> i} = {}"
  shows "case execute_claimed G (table_env P) p vector resource i (provisional_receipt G p rq now) r eng a (rows, v) of
      (err, eng', a', w') \<Rightarrow> err \<noteq> None \<and> eng_halted eng' \<noteq> None \<and> snd w' = v \<and>
        reconcile (table_env P) eng' w' = (None, eng, w')"
proof -
  let ?prov = "provisional_receipt G p rq now"
  let ?rows = "update_claim_audit i ''ATTEMPTING'' [] NoText txt_invalid_receipt rows"
  have "rc_external_id ?prov = []" by (simp add: provisional_receipt_def)
  from invalid_without_identity [OF assms(1) this assms(2), of P p i a rows v] obtain e where
    run: "execute_claimed G (table_env P) p vector resource i ?prov r eng a (rows, v) =
      (Some (Joined [e]), eng\<lparr>eng_halted := Some e\<rparr>, a, (?rows, v))"
    using assms(1) by (auto simp: execute_claimed_def)
  have none: "pending_claim_audits ?rows = []"
    using audit_table.pending_after_close [of "''ATTEMPTING''" NoText i "[]" txt_invalid_receipt rows]
      assms(3) by (simp only: set_empty simp_thms)
  have "reconcile (table_env P) (eng\<lparr>eng_halted := Some e\<rparr>) (?rows, v) = (None, eng, (?rows, v))"
    using none assms(2) by (simp add: reconcile_def clear_unsafe_def)
  then show ?thesis by (simp add: run)
qed


subsection \<open>A concrete provider\<close>

definition obedient_env :: "unit claim_env" where
  "obedient_env = \<lparr>
     ce_create = \<lambda>_ w. (Inr 1, w), ce_update = \<lambda>_ _ _ _ _ w. (None, w), ce_pending = \<lambda>w. (Inr [], w),
     ce_supports = \<lambda>_ _. True,
     ce_claim = \<lambda>p rq w. (Inr \<lparr>rc_provider_id = p, rc_external_id = ''bucket'', rc_metadata = [], rc_claimed_at = 0\<rparr>, w),
     ce_verify_control = \<lambda>_ _ w. (Inr \<lparr>cp_controlled = True, cp_details = ''proof''\<rparr>, w),
     ce_release = \<lambda>_ _ w. (Inr \<lparr>rr_released_at = 0, rr_details = ''released''\<rparr>, w),
     ce_recovers = \<lambda>_. False, ce_recover = \<lambda>_ r w. (Inr (r, False), w),
     ce_random = \<lambda>w. (Inr [255, 0], w), ce_now = \<lambda>w. (0, w)\<rparr>"

definition authorised_engine :: claim_engine where
  "authorised_engine = \<lparr>eng_providers = [''aws''], eng_allowlist = {''a.test''}, eng_attempted = {}, eng_halted = None\<rparr>"

definition orphaned_host :: host_analysis where
  "orphaned_host = zero_host_analysis\<lparr>ha_host := ''a.test'', ha_classification := LevelOrphaned,
     ha_provider_candidates := [zero_provider_candidate\<lparr>pc_provider_id := ''aws'', pc_cname := ''b.test''\<rparr>]\<rparr>"

lemma orphaned_host_key: "normalize_host ascii_env ''a.test'' = ''a.test''"
  by (simp add: normalize_host_def trim_suffix_def trim_space_plain to_lower_plain plain_lemmas suffix_to_prefix)

lemma orphaned_host_vector:
  "claim_vector G (zero_provider_candidate\<lparr>pc_provider_id := p, pc_cname := c\<rparr>) = ''CNAME''"
  by (simp add: claim_vector_def zero_provider_candidate_def trim_space_plain to_upper_ascii)

lemma cname_control_type: "control_evidence_type ascii_env ''CNAME'' = ''CLAIM_SUCCESS''"
  by (simp add: control_evidence_type_def Let_def to_upper_ascii upper_char_def in_range_def)

lemma evidences_mark_control [simp]:
  "ha_evidences (mark_vector_control_confirmed G v rs a) = ha_evidences a"
  by (simp add: mark_vector_control_confirmed_def Let_def)

lemma orphaned_host_claimed:
  "case execute ascii_env (traced obedient_env) authorised_engine orphaned_host ((), []) of (err, eng', a', s') \<Rightarrow>
     has_type (ha_evidences a') ''CLAIM_SUCCESS''"
  using orphaned_host_key orphaned_host_vector cname_control_type
  by (simp add: execute_def claim_eligible_analysis_def claim_eligible_candidate_def orphaned_host_def
      authorised_engine_def execute_guarded_def provider_for_def begin_attempt_def execute_attempt_def
      random_proof_token_def unlogged_def logged_def obedient_env_def traced_def json_marshal_def
      json_time_ok_def provisional_receipt_def execute_claimed_def update_audit_def execute_control_def
      execute_release_def Let_def record_control_def add_evidence_def)

theorem control_level_needs_positive_proof_witness:
  "case execute ascii_env (traced obedient_env) authorised_engine orphaned_host ((), []) of (err, eng', a', s') \<Rightarrow>
     \<exists>p r proof. ControlChecked p r (Inr proof) \<in> set (snd s') \<and> cp_controlled proof"
proof -
  obtain err eng' a' s' where run:
    "execute ascii_env (traced obedient_env) authorised_engine orphaned_host ((), []) = (err, eng', a', s')"
    by (metis prod_cases4)
  have "has_type (ha_evidences a') ''CLAIM_SUCCESS''" using orphaned_host_claimed run by simp
  then have after: "classify_level ascii_env a' \<in> {LevelZoneControlConfirmed, LevelTakenOver, LevelConfirmed}"
    by (simp add: classify_level_def Let_def)
  have before: "classify_level ascii_env orphaned_host \<notin> {LevelZoneControlConfirmed, LevelTakenOver, LevelConfirmed}"
    by (simp add: classify_level_def Let_def orphaned_host_def zero_host_analysis_def control_proven_def
        bound_pair_def has_any_def has_healthy_http_response_def)
  show ?thesis
    using control_level_needs_positive_proof [OF run after before] run by simp
qed

definition interrupted_audit :: claim_audit where
  "interrupted_audit = zero_claim_audit\<lparr>ca_id := 1, ca_host := ''a.test'', ca_provider_id := ''aws'',
     ca_status := ''ATTEMPTING'', ca_receipt_json := Encoded zero_receipt\<rparr>"

theorem invalid_receipt_is_forgotten_witness:
  "case execute_claimed ascii_env (table_env obedient_env) ''aws'' ''CNAME'' ''b.test'' 1
      (provisional_receipt ascii_env ''aws'' (claim_request_for ascii_env ''a.test'' zero_provider_candidate ''ff'') 0)
      zero_receipt authorised_engine orphaned_host ([interrupted_audit], ()) of
    (err, eng', a', w') \<Rightarrow> err \<noteq> None \<and> eng_halted eng' \<noteq> None \<and> snd w' = () \<and>
      reconcile (table_env obedient_env) eng' w' = (None, authorised_engine, w')"
  by (rule invalid_receipt_is_forgotten)
    (simp_all add: zero_receipt_def authorised_engine_def interrupted_audit_def pending_claim_audits_def)

end
