(* ===== verification/Finding.thy ===== *)
theory Finding
  imports Classification
begin

section \<open>The primary cause of a finding (internal/finding)\<close>

text \<open>
  \<open>primary\<close> follows \<open>Primary\<close>: the evidence that the reports and notifications present as the
  cause, with its vector and the affected resource. A nil analysis is \<open>None\<close>.

  Proved: no listed cause is passed over for a less important one, and what is presented is one
  of the analysis' own evidences; what the highest levels present; which listed causes get no
  vector of their own; and that the cause may belong to a level below the one reported.
\<close>

record finding_context =
  fc_vector :: string
  fc_resource :: string
  fc_evidence :: evidence

definition priorities :: "string list" where
  "priorities = [
    ''CLAIM_SUCCESS'', ''ZONE_CONTROL_CONFIRMED'', ''DELEGATION_CLAIMABILITY_VERIFIED'',
    ''DELEGATION_CLAIMABILITY_NOT_DEMONSTRATED'', ''HTTP_MUTATION_REVEALED_PROVIDER_FINGERPRINT'',
    ''HTTP_BODY_MATCH'', ''DELEGATION_TAKEOVER_CANDIDATE'', ''DNS_AXFR_ALLOWED'',
    ''CNAME_DANGLING'', ''DELEGATION_BROKEN'', ''STALE_CLOUD_IP_CANDIDATE'',
    ''ORIGIN_DIRECT_MATCH'', ''CLOUD_S3_WRITABLE'', ''CLOUD_S3_LISTABLE'',
    ''CLOUD_AZURE_BLOB_LISTABLE'', ''CLOUD_GCS_LISTABLE'', ''MX_BROKEN'',
    ''MX_PRIMARY_BROKEN_WITH_FALLBACK'', ''MX_BACKUP_BROKEN'', ''MX_DANGLING'',
    ''MX_UNRESOLVABLE'', ''SRV_BROKEN'', ''SRV_DANGLING'', ''SRV_UNRESOLVABLE'',
    ''SPF_DANGLING_TAKEOVER'', ''SPF_BROKEN_INCLUDE'', ''SPF_INCLUDE_WITHOUT_POLICY'',
    ''SPF_LOOKUP_LIMIT_EXCEEDED'', ''SPF_INCLUDE_CYCLE'', ''DANGLING_REDIRECT'',
    ''CSP_DANGLING_DEPENDENCY'', ''SUBRESOURCE_DANGLING'', ''DEAD_ASSET_REFERENCE'',
    ''DEAD_ASSET_HTTP'', ''PLAINTEXT_AUTH_INTERFACE'', ''HTTP_SENSITIVE_COOKIE_WITHOUT_SECURE'',
    ''PLAINTEXT_WEB_CONTENT'', ''HTTPS_DOWNGRADE_REDIRECT'', ''HTTP_HTTPS_PORT_INCONSISTENT'',
    ''HTTP_NO_HTTPS_UPGRADE'', ''HTTP_OPEN_REDIRECT'', ''SHADOW_IT_DETECTED'',
    ''EMAIL_SPF_PERMISSIVE'', ''EMAIL_SPF_MISSING'', ''EMAIL_DMARC_MISSING'',
    ''HTTP_HSTS_MISSING'', ''HTTP_CSP_MISSING'', ''NS_ALL_DEAD'', ''NS_ORPHANED'',
    ''LAME_DELEGATION'', ''NS_REFUSED'', ''NS_SERVFAIL'', ''NS_SOA_MISMATCH'', ''DNSSEC_BOGUS'',
    ''TLS_EXPIRED'', ''TLS_SELF_SIGNED'', ''TLS_MISMATCH'']"

definition by_type :: "host_analysis \<Rightarrow> string \<Rightarrow> evidence" where
  "by_type a t = (case find (\<lambda>e. ev_type e = t) (ha_evidences a) of None \<Rightarrow> zero_evidence | Some e \<Rightarrow> e)"

definition is_delegation_evidence :: "string \<Rightarrow> bool" where
  "is_delegation_evidence t \<longleftrightarrow> prefix ''DELEGATION_'' t \<or> prefix ''ZONE_CONTROL_'' t \<or>
     prefix ''NS_'' t \<or> t = ''LAME_DELEGATION''"

definition value_or :: "string \<Rightarrow> string \<Rightarrow> string" where
  "value_or v fallback = (if trim_space v = [] then fallback else v)"

text \<open>The two loops that select the evidence; both leave with \<open>break\<close>.\<close>

definition primary_evidence :: "host_analysis \<Rightarrow> evidence" where
  "primary_evidence a =
     (let first = (case find (\<lambda>t. ev_type (by_type a t) \<noteq> []) priorities of
          None \<Rightarrow> zero_evidence | Some t \<Rightarrow> by_type a t)
      in if ev_type first = [] then
           (case find (\<lambda>e. \<not> ev_is_negative e) (ha_evidences a) of None \<Rightarrow> first | Some e \<Rightarrow> e)
         else first)"

text \<open>The value of a metadata entry, or the resource found so far when it is empty.\<close>

definition meta_or :: "evidence \<Rightarrow> string \<Rightarrow> string \<Rightarrow> string" where
  "meta_or e k fallback = (if meta_get (ev_metadata e) k \<noteq> [] then meta_get (ev_metadata e) k else fallback)"

text \<open>The \<open>switch\<close> on the selected type: the vector and the resource, which starts as the host.\<close>

definition locate :: "host_analysis \<Rightarrow> evidence \<Rightarrow> string \<times> string" where
  "locate a e =
     (let t = ev_type e; host = ha_host a in
      if is_delegation_evidence t then
        (''NS'', (case ha_delegation a of
           Some d \<Rightarrow> if dlg_zone d \<noteq> [] then dlg_zone d else meta_or e ''zone'' host
         | None \<Rightarrow> meta_or e ''zone'' host))
      else if t = ''DNS_AXFR_ALLOWED'' then (''AXFR'', meta_or e ''zone'' host)
      else if prefix ''CNAME_'' t \<or> t = ''HTTP_BODY_MATCH'' \<or>
        t = ''HTTP_MUTATION_REVEALED_PROVIDER_FINGERPRINT'' then
        (''CNAME'', if rs_cname (ha_dns a) \<noteq> [] then last (rs_cname (ha_dns a)) else host)
      else if prefix ''MX_'' t then (''MX'', meta_or e ''mx_target'' host)
      else if prefix ''SRV_'' t then (''SRV'', meta_or e ''srv_owner'' host)
      else if prefix ''SPF_'' t then (''SPF'', meta_or e ''domain'' host)
      else if prefix ''EMAIL_'' t then (''EMAIL'', meta_or e ''domain'' (meta_or e ''owner'' host))
      else if prefix ''HTTP_'' t \<or> t = ''DANGLING_REDIRECT'' \<or> t = ''HTTPS_DOWNGRADE_REDIRECT'' \<or>
        contains_str t ''DEPENDENCY'' \<or> prefix ''SUBRESOURCE_'' t \<or> prefix ''DEAD_ASSET_'' t then
        (''HTTP'', host)
      else if prefix ''TLS_'' t then (''TLS'', host)
      else if prefix ''SNI_'' t then (''TLS'', host)
      else if prefix ''CAA_'' t then (''CAA'', host)
      else if prefix ''TXT_'' t then (''TXT'', host)
      else if prefix ''DNSSEC_'' t then (''DNSSEC'', host)
      else if prefix ''PROVIDER_MIGRATION_'' t then (''HISTORY'', host)
      else if t = ''RELATED_DOMAIN_COOKIE_SCOPE'' then (''COOKIE'', host)
      else if prefix ''RELATED_DOMAIN_CORS_'' t \<or> prefix ''CORS_'' t then (''CORS'', host)
      else if prefix ''CLOUD_'' t \<or> t = ''STALE_CLOUD_IP_CANDIDATE'' then (''CLOUD'', host)
      else if prefix ''ORIGIN_'' t then (''ORIGIN'', meta_or e ''target'' host)
      else if t = ''SHADOW_IT_DETECTED'' then (''SHADOW_IT'', host)
      else (''GENERAL'', host))"

definition primary :: "host_analysis option \<Rightarrow> finding_context" where
  "primary analysis =
     (case analysis of
        None \<Rightarrow> \<lparr>fc_vector = ''GENERAL'', fc_resource = [], fc_evidence = zero_evidence\<rparr>
      | Some a \<Rightarrow>
         (let e = primary_evidence a in
          case locate a e of (vector, resource) \<Rightarrow>
            (case (ev_type e, ha_active_verification a) of
               ([], Some v) \<Rightarrow> \<lparr>fc_vector = value_or (vr_vector v) vector,
                  fc_resource = value_or (vr_resource v) resource, fc_evidence = e\<rparr>
             | _ \<Rightarrow> \<lparr>fc_vector = vector, fc_resource = resource, fc_evidence = e\<rparr>)))"

subsection \<open>The selection\<close>

text \<open>The position of a type in the list; a type that is not listed comes after all of them.\<close>

fun rank_in :: "string list \<Rightarrow> string \<Rightarrow> nat" where
  "rank_in [] t = 0"
| "rank_in (x # xs) t = (if x = t then 0 else Suc (rank_in xs t))"

lemma rank_in_le [simp]: "rank_in ts t \<le> length ts"
  by (induction ts) auto

lemma rank_in_absent: "t \<notin> set ts \<Longrightarrow> rank_in ts t = length ts"
  by (induction ts) auto

lemma rank_in_find:
  "find P ts = Some t \<Longrightarrow> P u \<Longrightarrow> rank_in ts t \<le> rank_in ts u"
  by (induction ts) (auto split: if_splits)

lemma rank_in_find_none: "find P ts = None \<Longrightarrow> P u \<Longrightarrow> rank_in ts u = length ts"
  by (rule rank_in_absent) (auto simp: find_None_iff)

lemma by_type_found:
  "t \<noteq> [] \<Longrightarrow> ev_type (by_type a t) \<noteq> [] \<longleftrightarrow> has_type (ha_evidences a) t"
  by (auto simp: by_type_def has_type_iff zero_evidence_def find_None_iff find_Some_iff
      split: option.splits)

lemma by_type_type: "ev_type (by_type a t) \<noteq> [] \<Longrightarrow> ev_type (by_type a t) = t"
  by (auto simp: by_type_def zero_evidence_def split: option.splits dest: find_Some_iff2)

lemma by_type_member: "ev_type (by_type a t) \<noteq> [] \<Longrightarrow> by_type a t \<in> set (ha_evidences a)"
  by (auto simp: by_type_def zero_evidence_def split: option.splits dest: find_Some_iff2)

lemma priorities_not_empty: "[] \<notin> set priorities"
  by (simp add: priorities_def)

lemma primary_evidence_listed:
  assumes "t \<in> set priorities" "has_type (ha_evidences a) t"
  obtains u where "find (\<lambda>t. ev_type (by_type a t) \<noteq> []) priorities = Some u"
    and "primary_evidence a = by_type a u" and "ev_type (primary_evidence a) = u"
proof -
  have "t \<noteq> []" using assms(1) priorities_not_empty by auto
  hence "ev_type (by_type a t) \<noteq> []" using assms(2) by (simp add: by_type_found)
  hence "find (\<lambda>t. ev_type (by_type a t) \<noteq> []) priorities \<noteq> None"
    using assms(1) by (auto simp: find_None_iff)
  then obtain u where u: "find (\<lambda>t. ev_type (by_type a t) \<noteq> []) priorities = Some u" by blast
  hence "ev_type (by_type a u) \<noteq> []" by (auto simp: find_Some_iff)
  with u have "primary_evidence a = by_type a u" by (simp add: primary_evidence_def)
  moreover from \<open>ev_type (by_type a u) \<noteq> []\<close> have "ev_type (by_type a u) = u" by (rule by_type_type)
  ultimately show ?thesis using that u by simp
qed

lemma primary_evidence_rank:
  assumes "e \<in> set (ha_evidences a)"
  shows "rank_in priorities (ev_type (primary_evidence a)) \<le> rank_in priorities (ev_type e)"
proof (cases "ev_type e \<in> set priorities")
  case True
  moreover have ht: "has_type (ha_evidences a) (ev_type e)" using assms by (auto simp: has_type_iff)
  ultimately obtain u where u: "find (\<lambda>t. ev_type (by_type a t) \<noteq> []) priorities = Some u"
    "ev_type (primary_evidence a) = u"
    by (rule primary_evidence_listed)
  moreover have "ev_type e \<noteq> []" using True priorities_not_empty by auto
  ultimately show ?thesis using rank_in_find [OF u(1), of "ev_type e"] ht by (simp add: by_type_found)
next
  case False
  thus ?thesis by (simp add: rank_in_absent)
qed

lemma primary_evidence_member:
  "primary_evidence a \<in> insert zero_evidence (set (ha_evidences a))"
proof -
  have "find (\<lambda>t. ev_type (by_type a t) \<noteq> []) priorities = Some t \<Longrightarrow> by_type a t \<in> set (ha_evidences a)" for t
    by (rule by_type_member) (auto simp: find_Some_iff)
  thus ?thesis
    by (auto simp: primary_evidence_def Let_def find_Some_iff split: option.splits if_splits
        dest: find_Some_iff2)
qed

lemma primary_evidence_of [simp]: "fc_evidence (primary (Some a)) = primary_evidence a"
  by (simp add: primary_def Let_def split: prod.split list.split option.split)

lemma rank_in_take: "rank_in ts t < n \<Longrightarrow> t \<in> set ts \<Longrightarrow> t \<in> set (take n ts)"
proof (induction ts arbitrary: n)
  case (Cons x ts)
  thus ?case by (cases n) (auto split: if_splits)
qed simp

text \<open>A listed type that is present bounds the selected type, which is present itself.\<close>

lemma cause_before:
  assumes "has_type (ha_evidences a) t" "t \<in> set priorities"
  shows "ev_type (primary_evidence a) \<in> set (take (Suc (rank_in priorities t)) priorities) \<and>
    has_type (ha_evidences a) (ev_type (primary_evidence a))"
proof -
  obtain u where u: "find (\<lambda>t. ev_type (by_type a t) \<noteq> []) priorities = Some u"
    "primary_evidence a = by_type a u" "ev_type (primary_evidence a) = u"
    by (rule primary_evidence_listed [OF assms(2,1)])
  have mem: "u \<in> set priorities" using u(1) by (auto simp: find_Some_iff)
  hence "u \<noteq> []" using priorities_not_empty by auto
  hence present: "has_type (ha_evidences a) u"
    using u(2,3) by (metis by_type_found)
  have "t \<noteq> []" using assms(2) priorities_not_empty by auto
  hence "rank_in priorities u \<le> rank_in priorities t"
    using rank_in_find [OF u(1), of t] assms(1) by (simp add: by_type_found)
  hence "u \<in> set (take (Suc (rank_in priorities t)) priorities)"
    using mem by (intro rank_in_take) simp_all
  with present u(3) show ?thesis by simp
qed

subsection \<open>The cause and the level\<close>

text \<open>The causes that an analysis with this level may present.\<close>

definition level_causes :: "string \<Rightarrow> string list option" where
  "level_causes l =
     (if l = LevelTakenOver then Some [''CLAIM_SUCCESS'']
      else if l = LevelZoneControlConfirmed then Some [''CLAIM_SUCCESS'', ''ZONE_CONTROL_CONFIRMED'']
      else if l = LevelDelegationClaimabilityVerified then Some [''DELEGATION_CLAIMABILITY_VERIFIED'']
      else if l = LevelLikelyTakeoverable then
        Some [''DELEGATION_CLAIMABILITY_VERIFIED'', ''DELEGATION_CLAIMABILITY_NOT_DEMONSTRATED'',
          ''HTTP_MUTATION_REVEALED_PROVIDER_FINGERPRINT'', ''HTTP_BODY_MATCH'']
      else if l = LevelDelegationTakeoverCandidate then
        Some [''HTTP_MUTATION_REVEALED_PROVIDER_FINGERPRINT'', ''HTTP_BODY_MATCH'',
          ''DELEGATION_TAKEOVER_CANDIDATE'']
      else if l = LevelOrphaned then
        Some [''HTTP_MUTATION_REVEALED_PROVIDER_FINGERPRINT'', ''HTTP_BODY_MATCH'', ''CNAME_DANGLING'']
      else if l \<in> {LevelDelegationBroken, LevelExposed, LevelMisconfigured} then Some (drop 3 priorities)
      else None)"

lemma control_types_first:
  "priorities = ''CLAIM_SUCCESS'' # ''ZONE_CONTROL_CONFIRMED'' # ''DELEGATION_CLAIMABILITY_VERIFIED'' #
     drop 3 priorities"
  by (simp add: priorities_def)

lemma cause_listed:
  assumes "has_type (ha_evidences a) t" "t \<in> set priorities"
    and "\<not> has_type (ha_evidences a) ''CLAIM_SUCCESS''"
    and "\<not> has_type (ha_evidences a) ''ZONE_CONTROL_CONFIRMED''"
    and "\<not> has_type (ha_evidences a) ''DELEGATION_CLAIMABILITY_VERIFIED''"
  shows "ev_type (primary_evidence a) \<in> set (drop 3 priorities)"
proof -
  from cause_before [OF assms(1,2)] have "ev_type (primary_evidence a) \<in> set priorities"
    and present: "has_type (ha_evidences a) (ev_type (primary_evidence a))"
    by (auto dest: in_set_takeD)
  hence "ev_type (primary_evidence a) \<in> {''CLAIM_SUCCESS'', ''ZONE_CONTROL_CONFIRMED'',
      ''DELEGATION_CLAIMABILITY_VERIFIED''} \<union> set (drop 3 priorities)"
    by (subst (asm) control_types_first) auto
  with present assms(3-5) show ?thesis by auto
qed

lemma exposed_listed: "set exposed_types \<subseteq> set priorities"
  by (simp add: exposed_types_def priorities_def)

lemma misconfigured_listed: "set misconfigured_types \<subseteq> set priorities"
  by (simp add: misconfigured_types_def priorities_def)

lemma any_listed:
  "has_any evs ts \<Longrightarrow> set ts \<subseteq> set priorities \<Longrightarrow> \<exists>t \<in> set priorities. has_type evs t"
  by (auto simp: has_any_iff)

text \<open>The cause below each of the first listed types.\<close>

lemma cause_claim:
  "has_type (ha_evidences a) ''CLAIM_SUCCESS'' \<Longrightarrow> ev_type (primary_evidence a) = ''CLAIM_SUCCESS''"
  using cause_before [of a "''CLAIM_SUCCESS''"] by (simp add: priorities_def)

lemma cause_zone:
  "has_type (ha_evidences a) ''ZONE_CONTROL_CONFIRMED'' \<Longrightarrow>
     ev_type (primary_evidence a) \<in> {''CLAIM_SUCCESS'', ''ZONE_CONTROL_CONFIRMED''}"
  using cause_before [of a "''ZONE_CONTROL_CONFIRMED''"] by (auto simp: priorities_def)

lemma cause_up_to:
  assumes "has_type (ha_evidences a) t" "t \<in> set priorities"
    and "\<not> has_type (ha_evidences a) ''CLAIM_SUCCESS''"
    and "\<not> has_type (ha_evidences a) ''ZONE_CONTROL_CONFIRMED''"
  shows "ev_type (primary_evidence a) \<in>
    set (filter (has_type (ha_evidences a)) (take (Suc (rank_in priorities t)) priorities))"
  using cause_before [OF assms(1,2)] by simp

lemma bound_types:
  "bound_pair (provider_bound_mutation G) evs \<Longrightarrow> has_type evs ''HTTP_MUTATION_REVEALED_PROVIDER_FINGERPRINT''"
  "bound_pair (provider_bound_http G) evs \<Longrightarrow> has_type evs ''HTTP_BODY_MATCH''"
  by (auto simp: bound_pair_def list_ex_iff provider_bound_mutation_def provider_bound_http_def has_type_def)

text \<open>What the rules of \<open>Classify\<close> found at each of these levels.\<close>

lemma level_signals:
  "classify_level G a = LevelTakenOver \<Longrightarrow> has_type (ha_evidences a) ''CLAIM_SUCCESS''"
  "classify_level G a = LevelZoneControlConfirmed \<Longrightarrow> has_type (ha_evidences a) ''ZONE_CONTROL_CONFIRMED''"
  "classify_level G a \<notin> {LevelTakenOver, LevelZoneControlConfirmed} \<Longrightarrow>
     \<not> has_type (ha_evidences a) ''CLAIM_SUCCESS'' \<and> \<not> has_type (ha_evidences a) ''ZONE_CONTROL_CONFIRMED''"
  by (auto simp: classify_level_def Let_def split: if_splits)

lemma likely_signals:
  assumes "classify_level G a = LevelLikelyTakeoverable"
  shows "has_type (ha_evidences a) ''HTTP_MUTATION_REVEALED_PROVIDER_FINGERPRINT'' \<or>
    has_type (ha_evidences a) ''HTTP_BODY_MATCH''"
proof -
  have "bound_pair (provider_bound_mutation G) (ha_evidences a) \<or> bound_pair (provider_bound_http G) (ha_evidences a)"
    using assms by (auto simp: classify_level_def Let_def split: if_splits)
  thus ?thesis using bound_types by blast
qed

lemma delegation_signals:
  "classify_level G a = LevelDelegationClaimabilityVerified \<Longrightarrow>
     has_type (ha_evidences a) ''DELEGATION_CLAIMABILITY_VERIFIED''"
  "classify_level G a \<in> {LevelDelegationTakeoverCandidate, LevelDelegationBroken, LevelExposed,
     LevelOrphaned, LevelMisconfigured} \<Longrightarrow>
     \<not> has_type (ha_evidences a) ''DELEGATION_CLAIMABILITY_VERIFIED''"
  "classify_level G a = LevelDelegationTakeoverCandidate \<Longrightarrow>
     has_type (ha_evidences a) ''DELEGATION_TAKEOVER_CANDIDATE'' \<and>
     \<not> has_type (ha_evidences a) ''DELEGATION_CLAIMABILITY_NOT_DEMONSTRATED''"
  "classify_level G a = LevelDelegationBroken \<Longrightarrow>
     has_type (ha_evidences a) ''DELEGATION_CLAIMABILITY_NOT_DEMONSTRATED'' \<or>
     has_type (ha_evidences a) ''DELEGATION_BROKEN''"
  "classify_level G a = LevelOrphaned \<Longrightarrow> has_type (ha_evidences a) ''CNAME_DANGLING'' \<and>
     \<not> has_type (ha_evidences a) ''DELEGATION_CLAIMABILITY_NOT_DEMONSTRATED'' \<and>
     \<not> has_type (ha_evidences a) ''DELEGATION_TAKEOVER_CANDIDATE'' \<and>
     \<not> has_any (ha_evidences a) exposed_types"
  "classify_level G a = LevelExposed \<Longrightarrow> has_any (ha_evidences a) exposed_types"
  "classify_level G a = LevelMisconfigured \<Longrightarrow> has_any (ha_evidences a) misconfigured_types"
  by (auto simp: classify_level_def Let_def split: if_splits)

lemma if_member: "x \<in> S \<Longrightarrow> y \<in> S \<Longrightarrow> (if b then x else y) \<in> S"
  by simp

lemma classify_levels:
  "classify_level G a \<in> set [LevelTakenOver, LevelZoneControlConfirmed,
     LevelDelegationClaimabilityVerified, LevelLikelyTakeoverable, LevelDelegationTakeoverCandidate,
     LevelOrphaned, LevelDelegationBroken, LevelExposed, LevelMisconfigured, LevelConfirmed,
     LevelHealthy, LevelUnknown, LevelInsufficientEvidence]"
  unfolding classify_level_def Let_def by (intro if_member) simp_all

text \<open>What is presented as the cause fits the level that \<open>Classify\<close> gave: a taken-over
  host presents its claim, a verified delegation its verification, and so on; the lower adverse
  levels present a listed cause that asserts no control.\<close>

theorem cause_fits_level:
  "case level_causes (classify_level G a) of
     Some causes \<Rightarrow> ev_type (fc_evidence (primary (Some a))) \<in> set causes
   | None \<Rightarrow> risk_rank (classify_level G a) < 3 \<or> classify_level G a = LevelConfirmed"
proof -
  let ?l = "classify_level G a" and ?evs = "ha_evidences a" and ?t = "ev_type (primary_evidence a)"
  note no_control = level_signals(3) [of G a] and del = delegation_signals [of G a]
  consider "?l = LevelTakenOver" | "?l = LevelZoneControlConfirmed"
    | "?l = LevelDelegationClaimabilityVerified" | "?l = LevelLikelyTakeoverable"
    | "?l = LevelDelegationTakeoverCandidate" | "?l = LevelOrphaned" | "?l = LevelDelegationBroken"
    | "?l = LevelExposed" | "?l = LevelMisconfigured" | "?l = LevelConfirmed"
    | "?l \<in> {LevelHealthy, LevelUnknown, LevelInsufficientEvidence}"
    using classify_levels [of G a] by auto
  thus ?thesis
  proof cases
    case 1 thus ?thesis using level_signals(1) [of G a] cause_claim [of a] by (simp add: level_causes_def)
  next
    case 2 thus ?thesis using level_signals(2) [of G a] cause_zone [of a] by (simp add: level_causes_def)
  next
    case 3
    thus ?thesis using no_control del(1) cause_up_to [of a "''DELEGATION_CLAIMABILITY_VERIFIED''"]
      by (simp add: level_causes_def priorities_def)
  next
    case 4
    hence "\<not> has_type ?evs ''CLAIM_SUCCESS''" "\<not> has_type ?evs ''ZONE_CONTROL_CONFIRMED''"
      using no_control by simp_all
    with 4 likely_signals [of G a] show ?thesis
      using cause_up_to [of a "''HTTP_MUTATION_REVEALED_PROVIDER_FINGERPRINT''"]
        cause_up_to [of a "''HTTP_BODY_MATCH''"]
      by (auto simp: level_causes_def priorities_def split: if_splits)
  next
    case 5
    thus ?thesis using no_control del(2,3) cause_up_to [of a "''DELEGATION_TAKEOVER_CANDIDATE''"]
      by (auto simp: level_causes_def priorities_def split: if_splits)
  next
    case 6
    hence "\<not> has_type ?evs ''DNS_AXFR_ALLOWED''" using del(5) by (simp add: has_any_def exposed_types_def)
    with 6 show ?thesis using no_control del(2,5) cause_up_to [of a "''CNAME_DANGLING''"]
      by (auto simp: level_causes_def priorities_def split: if_splits)
  next
    case 7
    hence "\<exists>t \<in> set priorities. has_type ?evs t" using del(4) by (auto simp: priorities_def)
    with 7 show ?thesis using no_control del(2) cause_listed [of a] by (auto simp: level_causes_def)
  next
    case 8
    with 8 show ?thesis using no_control del(2,6) any_listed [OF _ exposed_listed] cause_listed [of a]
      by (auto simp: level_causes_def)
  next
    case 9
    with 9 show ?thesis using no_control del(2,7) any_listed [OF _ misconfigured_listed] cause_listed [of a]
      by (auto simp: level_causes_def)
  next
    case 10 thus ?thesis by (simp add: level_causes_def)
  next
    case 11 thus ?thesis by (auto simp: level_causes_def risk_rank_def)
  qed
qed

text \<open>The evidence presented as the cause is one of the analysis (or none at all), and no
  evidence of the analysis has a type that comes earlier in the list of priorities.\<close>

theorem primary_is_first:
  "fc_evidence (primary (Some a)) \<in> insert zero_evidence (set (ha_evidences a)) \<and>
   list_all (\<lambda>e. rank_in priorities (ev_type (fc_evidence (primary (Some a)))) \<le>
     rank_in priorities (ev_type e)) (ha_evidences a)"
  using primary_evidence_member [of a] primary_evidence_rank by (auto simp: list_all_iff)

text \<open>Of the listed causes, three get no vector of their own.\<close>

lemma causes_without_vector:
  "filter (\<lambda>t. fst (locate a (e\<lparr>ev_type := t\<rparr>)) = ''GENERAL'') priorities =
     [''CLAIM_SUCCESS'', ''PLAINTEXT_AUTH_INTERFACE'', ''PLAINTEXT_WEB_CONTENT'']"
  by (simp add: priorities_def locate_def is_delegation_evidence_def Let_def)

text \<open>An unresolvable mail exchanger, which the classification treats as context, is listed
  before a broken service, which gives the level.\<close>

definition broken_service :: host_analysis where
  "broken_service = zero_host_analysis\<lparr>ha_host := ''h.example'',
     ha_evidences := [zero_evidence\<lparr>ev_type := ''SRV_BROKEN'', ev_metadata := [(''srv_owner'', ''_sip._tcp'')]\<rparr>,
       zero_evidence\<lparr>ev_type := ''MX_UNRESOLVABLE'', ev_metadata := [(''mx_target'', ''mx.example'')]\<rparr>]\<rparr>"

text \<open>Context evidence can be presented above the cause of the classification: the host is
  MISCONFIGURED because of its broken service, and the report names the mail exchanger.\<close>

theorem context_presented_as_cause:
  "classify_level ascii_env broken_service = LevelMisconfigured \<and>
   classify_level ascii_env (broken_service\<lparr>ha_evidences := tl (ha_evidences broken_service)\<rparr>) =
     LevelInsufficientEvidence \<and>
   fc_vector (primary (Some broken_service)) = ''MX'' \<and>
   fc_resource (primary (Some broken_service)) = ''mx.example''"
  by (simp add: broken_service_def classify_level_def primary_def primary_evidence_def by_type_def
      priorities_def locate_def is_delegation_evidence_def meta_or_def zero_evidence_def zero_host_analysis_def
      control_proven_def bound_pair_def has_any_def exposed_types_def misconfigured_types_def
      has_only_context_evidence_def context_types_def has_healthy_http_response_def)

end
