(* ===== verification/DnsNames.thy ===== *)
theory DnsNames
  imports DomainUtil "HOL-Library.List_Lexorder" "HOL-Library.Char_ord"
begin

section \<open>Names and sets of records (internal/dns)\<close>

text \<open>
  The pure part of the DNS package: normal forms of names, the ancestor relation that keeps a
  zone inside the scope of a host, and the record sets that are compared when a wildcard is
  recognised. \<open>sort.Strings\<close> is \<open>sort\<close> in the byte order of the library's list order; the
  source sorts duplicate-free lists, so it makes no difference that Go's sort is not stable.

  Proved: comparing record sets is equality of their sets of normal forms, whatever the order,
  the repetitions and the case; the ancestor relation is the suffix relation on labels; the
  parent of a zone has one label less.
\<close>

subsection \<open>Normal forms (authoritative.go)\<close>

definition normalize_dns_name :: "go_env \<Rightarrow> string \<Rightarrow> string" where
  "normalize_dns_name G v = trim_suffix (to_lower G (trim_space v)) ''.''"

definition unique_sorted :: "go_env \<Rightarrow> string list \<Rightarrow> string list" where
  "unique_sorted G vs = sort (dedup_by id {} (filter (\<lambda>v. v \<noteq> []) (map (normalize_dns_name G) vs)))"

definition equal_dns_name_sets :: "go_env \<Rightarrow> string list \<Rightarrow> string list \<Rightarrow> bool" where
  "equal_dns_name_sets G l r \<longleftrightarrow>
     (let l' = unique_sorted G l; r' = unique_sorted G r in
      if length l' \<noteq> length r' then False else list_all (\<lambda>i. l' ! i = r' ! i) [0..<length l'])"

definition is_dns_ancestor_or_self :: "go_env \<Rightarrow> string \<Rightarrow> string \<Rightarrow> bool" where
  "is_dns_ancestor_or_self G name zone \<longleftrightarrow>
     (let n = normalize_dns_name G name; z = normalize_dns_name G zone in
      n \<noteq> [] \<and> z \<noteq> [] \<and> (n = z \<or> suffix (''.'' @ z) n))"

definition parent_zone :: "go_env \<Rightarrow> string \<Rightarrow> string" where
  "parent_zone G zone =
     (let parts = split_on CHR ''.'' (normalize_dns_name G zone) in
      if length parts < 2 then [] else join_with ''.'' (tl parts))"

subsection \<open>Record sets and wildcards (resolver.go)\<close>

definition normalize_rrset :: "go_env \<Rightarrow> string list \<Rightarrow> string list" where
  "normalize_rrset G vs = sort (dedup_by id {} (filter (\<lambda>v. v \<noteq> []) (map (normalize_dns_name G) vs)))"

definition equal_rrset :: "go_env \<Rightarrow> string list \<Rightarrow> string list \<Rightarrow> bool" where
  "equal_rrset G l r \<longleftrightarrow>
     (let l' = normalize_rrset G l; r' = normalize_rrset G r in
      if length l' \<noteq> length r' then False else list_all (\<lambda>i. l' ! i = r' ! i) [0..<length l'])"

record wildcard_signature =
  ws_a :: "string list"
  ws_aaaa :: "string list"
  ws_cname :: "string list"

definition zero_signature :: wildcard_signature where
  "zero_signature = \<lparr>ws_a = [], ws_aaaa = [], ws_cname = []\<rparr>"

definition ws_empty :: "wildcard_signature \<Rightarrow> bool" where
  "ws_empty s \<longleftrightarrow> length (ws_a s) = 0 \<and> length (ws_aaaa s) = 0 \<and> length (ws_cname s) = 0"

definition matches_a :: "go_env \<Rightarrow> wildcard_signature \<Rightarrow> string list \<Rightarrow> bool" where
  "matches_a G s vs \<longleftrightarrow> length (ws_a s) > 0 \<and> equal_rrset G (ws_a s) vs"

definition matches_aaaa :: "go_env \<Rightarrow> wildcard_signature \<Rightarrow> string list \<Rightarrow> bool" where
  "matches_aaaa G s vs \<longleftrightarrow> length (ws_aaaa s) > 0 \<and> equal_rrset G (ws_aaaa s) vs"

definition matches_cname :: "go_env \<Rightarrow> wildcard_signature \<Rightarrow> string list \<Rightarrow> bool" where
  "matches_cname G s vs \<longleftrightarrow> length (ws_cname s) > 0 \<and> equal_rrset G (ws_cname s) vs"

definition normalize_wildcard_signature :: "go_env \<Rightarrow> wildcard_signature \<Rightarrow> wildcard_signature" where
  "normalize_wildcard_signature G s =
     \<lparr>ws_a = normalize_rrset G (ws_a s), ws_aaaa = normalize_rrset G (ws_aaaa s),
      ws_cname = normalize_rrset G (ws_cname s)\<rparr>"

definition equal_wildcard_signature ::
  "go_env \<Rightarrow> wildcard_signature \<Rightarrow> wildcard_signature \<Rightarrow> bool" where
  "equal_wildcard_signature G l r \<longleftrightarrow> equal_rrset G (ws_a l) (ws_a r) \<and>
     equal_rrset G (ws_aaaa l) (ws_aaaa r) \<and> equal_rrset G (ws_cname l) (ws_cname r)"

definition looks_like_srv_owner :: "go_env \<Rightarrow> string \<Rightarrow> bool" where
  "looks_like_srv_owner G host \<longleftrightarrow>
     (let labels = split_on CHR ''.'' (normalize_dns_name G host) in
      length labels \<ge> 3 \<and> prefix ''_'' (labels ! 0) \<and> (labels ! 1 = ''_tcp'' \<or> labels ! 1 = ''_udp''))"

subsection \<open>Lemmas\<close>

lemma list_all_nth_eq:
  "length xs = length ys \<Longrightarrow> list_all (\<lambda>i. xs ! i = ys ! i) [0..<length xs] \<longleftrightarrow> xs = ys"
  by (auto simp: list_all_iff intro: nth_equalityI)

lemma normalize_rrset_unique: "normalize_rrset G vs = unique_sorted G vs"
  by (simp add: normalize_rrset_def unique_sorted_def)

lemma set_unique_sorted [simp]: "set (unique_sorted G vs) = normalize_dns_name G ` set vs - {[]}"
  using keys_dedup_by [of id "{}" "filter (\<lambda>v. v \<noteq> []) (map (normalize_dns_name G) vs)"]
  by (auto simp: unique_sorted_def)

lemma distinct_unique_sorted [simp]: "distinct (unique_sorted G vs)"
  using distinct_dedup_by [of id "{}" "filter (\<lambda>v. v \<noteq> []) (map (normalize_dns_name G) vs)"]
  by (simp add: unique_sorted_def)

lemma sorted_unique_sorted [simp]: "sorted (unique_sorted G vs)"
  by (simp add: unique_sorted_def)

lemma unique_sorted_eq_iff:
  "unique_sorted G l = unique_sorted G r \<longleftrightarrow>
     normalize_dns_name G ` set l - {[]} = normalize_dns_name G ` set r - {[]}"
  by (metis set_unique_sorted sorted_distinct_set_unique distinct_unique_sorted sorted_unique_sorted)

lemma equal_dns_name_sets_eq: "equal_dns_name_sets G l r \<longleftrightarrow> unique_sorted G l = unique_sorted G r"
  using list_all_nth_eq [of "unique_sorted G l" "unique_sorted G r"]
  by (auto simp: equal_dns_name_sets_def Let_def)

lemma equal_rrset_eq: "equal_rrset G l r \<longleftrightarrow> unique_sorted G l = unique_sorted G r"
  using list_all_nth_eq [of "unique_sorted G l" "unique_sorted G r"]
  by (auto simp: equal_rrset_def normalize_rrset_unique Let_def)

lemma equal_rrset_equiv [simp, intro]:
  "equal_rrset G l l"
  "equal_rrset G l r \<Longrightarrow> equal_rrset G r l"
  "equal_rrset G l r \<Longrightarrow> equal_rrset G r u \<Longrightarrow> equal_rrset G l u"
  by (simp_all add: equal_rrset_eq)

lemma ancestor_labels:
  "is_dns_ancestor_or_self G name zone \<longleftrightarrow>
     normalize_dns_name G name \<noteq> [] \<and> normalize_dns_name G zone \<noteq> [] \<and>
     label_suffix (normalize_dns_name G zone) (normalize_dns_name G name)"
  by (auto simp: is_dns_ancestor_or_self_def label_suffix_iff Let_def)

lemma ancestor_trans:
  "is_dns_ancestor_or_self G a b \<Longrightarrow> is_dns_ancestor_or_self G b c \<Longrightarrow> is_dns_ancestor_or_self G a c"
  by (auto simp: ancestor_labels intro: label_suffix_trans)

lemma ancestor_antisym:
  "is_dns_ancestor_or_self G a b \<Longrightarrow> is_dns_ancestor_or_self G b a \<Longrightarrow>
   normalize_dns_name G a = normalize_dns_name G b"
  by (auto simp: ancestor_labels label_suffix_def intro: split_on_inj suffix_order.antisym)

text \<open>On a normal host name nothing changes.\<close>

lemma normalize_dns_name_valid: "valid_host h \<Longrightarrow> normalize_dns_name G h = h"
  by (simp add: normalize_dns_name_def valid_host_trim to_lower_ascii valid_host_ascii
      valid_host_lower trim_suffix_def valid_host_no_dot_end)

lemma join_tl_split:
  "length (split_on d s) \<ge> 2 \<Longrightarrow> split_on d (join_with [d] (tl (split_on d s))) = tl (split_on d s)"
proof (induction s)
  case (Cons c s)
  show ?case
  proof (cases "c = d")
    case True
    thus ?thesis by (simp add: join_split)
  next
    case False
    with Cons show ?thesis by (cases "split_on d s") auto
  qed
qed simp

lemma parent_zone_labels:
  "parent_zone G z \<noteq> [] \<Longrightarrow>
     split_on CHR ''.'' (parent_zone G z) = tl (split_on CHR ''.'' (normalize_dns_name G z))"
  by (auto simp: parent_zone_def Let_def join_tl_split split: if_splits)

end
