(* ===== verification/GoNet.thy ===== *)
theory GoNet
  imports GoUrl
begin

section \<open>Go's package net, as far as the program uses it\<close>

text \<open>
  Addresses and endpoints: \<open>ParseIP\<close>, \<open>IP.String\<close>, \<open>To4\<close>, \<open>SplitHostPort\<close> and \<open>JoinHostPort\<close>,
  defined on bytes. An address is the list of its 16 bytes; an IPv4 address is the mapped form,
  as \<open>ParseIP\<close> returns it. Errors of these functions are only tested, never read, so they are
  \<open>None\<close>.

  Proved: a dotted address is parsed back to its four bytes, and a joined endpoint is split
  again into its parts.
\<close>

type_synonym ip = "nat list"

subsection \<open>IPv4\<close>

definition v4_prefix :: "nat list" where
  "v4_prefix = [0, 0, 0, 0, 0, 0, 0, 0, 0, 0, 255, 255]"

definition v4_octet :: "string \<Rightarrow> nat option" where
  "v4_octet s =
     (if s \<noteq> [] \<and> list_all digit_char s \<and> (hd s = CHR ''0'' \<longrightarrow> length s = 1) \<and> nat_of_dec s \<le> 255
      then Some (nat_of_dec s) else None)"

definition parse_v4 :: "string \<Rightarrow> nat list option" where
  "parse_v4 s =
     (case split_on CHR ''.'' s of
        [a, b, c, d] \<Rightarrow>
          (case (v4_octet a, v4_octet b, v4_octet c, v4_octet d) of
             (Some w, Some x, Some y, Some z) \<Rightarrow> Some [w, x, y, z]
           | _ \<Rightarrow> None)
      | _ \<Rightarrow> None)"

definition v4_text :: "nat list \<Rightarrow> string" where
  "v4_text bs = join_with ''.'' (map nat_dec bs)"

definition to4 :: "ip \<Rightarrow> nat list option" where
  "to4 a = (if length a = 4 then Some a
     else if length a = 16 \<and> take 12 a = v4_prefix then Some (drop 12 a) else None)"

subsection \<open>IPv6\<close>

text \<open>The digits of one group: at most four, so that the value stays below \<open>2 ^ 16\<close>.\<close>

definition v6_group :: "string \<Rightarrow> (nat \<times> string) option" where
  "v6_group s =
     (let ds = takeWhile (\<lambda>c. hex_val c \<noteq> None) s in
      if ds = [] \<or> length ds > 4 then None
      else Some (foldl (\<lambda>n c. 16 * n + the (hex_val c)) 0 ds, drop (length ds) s))"

text \<open>The loop of \<open>parseIPv6\<close>: the bytes read so far, the position of the ellipsis, and the
  rest of the text. Each round reads two bytes, so \<open>fuel = 8\<close> rounds are the loop's bound
  \<open>i < 16\<close>. A group followed by a dot starts the trailing IPv4 form and ends the loop.\<close>

fun v6_loop :: "nat \<Rightarrow> nat list \<Rightarrow> nat option \<Rightarrow> string \<Rightarrow> (nat list \<times> nat option \<times> string) option" where
  "v6_loop 0 bs ell s = Some (bs, ell, s)"
| "v6_loop (Suc fuel) bs ell s =
     (case v6_group s of
        None \<Rightarrow> None
      | Some (g, rest) \<Rightarrow>
          if prefix ''.'' rest then
            (if (ell = None \<and> length bs \<noteq> 12) \<or> length bs + 4 > 16 then None
             else (case parse_v4 s of None \<Rightarrow> None | Some v \<Rightarrow> Some (bs @ v, ell, [])))
          else
            (let bs' = bs @ [g div 256, g mod 256] in
             case rest of
               [] \<Rightarrow> Some (bs', ell, [])
             | c # cs \<Rightarrow>
                 if c \<noteq> CHR '':'' \<or> cs = [] then None
                 else if hd cs = CHR '':'' then
                   (if ell \<noteq> None then None
                    else if tl cs = [] then Some (bs', Some (length bs'), [])
                    else v6_loop fuel bs' (Some (length bs')) (tl cs))
                 else v6_loop fuel bs' ell cs))"

definition v6_expand :: "nat list \<Rightarrow> nat option \<Rightarrow> ip option" where
  "v6_expand bs ell =
     (if length bs < 16 then
        (case ell of
           None \<Rightarrow> None
         | Some e \<Rightarrow> Some (take e bs @ replicate (16 - length bs) 0 @ drop e bs))
      else (if ell = None then Some bs else None))"

text \<open>\<open>ParseIP\<close> rejects an address with a zone, so \<open>%\<close> never leads to a result.\<close>

definition parse_v6 :: "string \<Rightarrow> ip option" where
  "parse_v6 s =
     (if CHR ''%'' \<in> set s then None
      else
        (let (ell, s') = (if prefix ''::'' s then (Some 0, drop 2 s) else (None, s)) in
         if ell = Some 0 \<and> s' = [] then Some (replicate 16 0)
         else
           (case v6_loop 8 [] ell s' of
              None \<Rightarrow> None
            | Some (bs, ell', rest) \<Rightarrow> if rest \<noteq> [] then None else v6_expand bs ell')))"

text \<open>The first of the characters \<open>.\<close>, \<open>:\<close> and \<open>%\<close> decides the family.\<close>

definition parse_ip :: "string \<Rightarrow> ip option" where
  "parse_ip s =
     (case find (\<lambda>c. c \<in> {CHR ''.'', CHR '':'', CHR ''%''}) s of
        Some c \<Rightarrow>
          if c = CHR ''.'' then (case parse_v4 s of None \<Rightarrow> None | Some v \<Rightarrow> Some (v4_prefix @ v))
          else if c = CHR '':'' then parse_v6 s else None
      | None \<Rightarrow> None)"

fun hex_nibble :: "nat \<Rightarrow> char" where
  "hex_nibble n = (if n < 10 then char_of (48 + n) else char_of (87 + n))"

fun hex_text :: "nat \<Rightarrow> string" where
  "hex_text n = (if n < 16 then [hex_nibble n] else hex_text (n div 16) @ [hex_nibble (n mod 16)])"

declare hex_text.simps [simp del]

fun groups_of :: "nat list \<Rightarrow> nat list" where
  "groups_of (a # b # bs) = (256 * a + b) # groups_of bs"
| "groups_of _ = []"

definition zero_run :: "nat list \<Rightarrow> nat" where
  "zero_run gs = length (takeWhile (\<lambda>g. g = 0) gs)"

text \<open>The first longest run of zero groups, if it has at least two.\<close>

definition best_run :: "nat list \<Rightarrow> (nat \<times> nat) option" where
  "best_run gs =
     fold (\<lambda>i best. let l = zero_run (drop i gs) in
             if l \<ge> 2 \<and> (case best of None \<Rightarrow> True | Some (_, m) \<Rightarrow> l > m) then Some (i, l) else best)
       [0..<length gs] None"

definition v6_text :: "ip \<Rightarrow> string" where
  "v6_text a =
     (let gs = groups_of a in
      case best_run gs of
        None \<Rightarrow> join_with '':'' (map hex_text gs)
      | Some (i, l) \<Rightarrow>
          join_with '':'' (map hex_text (take i gs)) @ ''::'' @ join_with '':'' (map hex_text (drop (i + l) gs)))"

definition ip_text :: "ip \<Rightarrow> string" where
  "ip_text a =
     (if a = [] then ''<nil>''
      else if length a \<noteq> 4 \<and> length a \<noteq> 16 then
        ''?'' @ concat (map (\<lambda>b. [hex_nibble (b div 16), hex_nibble (b mod 16)]) a)
      else (case to4 a of Some v \<Rightarrow> v4_text v | None \<Rightarrow> v6_text a))"

subsection \<open>Endpoints\<close>

text \<open>\<open>SplitHostPort\<close>: the host and port of \<open>host:port\<close> or \<open>[host]:port\<close>.\<close>

definition net_split_host_port :: "string \<Rightarrow> (string \<times> string) option" where
  "net_split_host_port hp =
     (case last_index CHR '':'' hp of
        None \<Rightarrow> None
      | Some i \<Rightarrow>
          if prefix ''['' hp then
            (let e = length (takeWhile (\<lambda>c. c \<noteq> CHR '']'') hp) in
             if e = length hp \<or> e + 1 \<noteq> i then None
             else if CHR ''['' \<in> set (drop 1 hp) \<or> CHR '']'' \<in> set (drop (e + 1) hp) then None
             else Some (drop 1 (take e hp), drop (i + 1) hp))
          else if CHR '':'' \<in> set (take i hp) \<or> CHR ''['' \<in> set hp \<or> CHR '']'' \<in> set hp then None
          else Some (take i hp, drop (i + 1) hp))"

definition join_host_port :: "string \<Rightarrow> string \<Rightarrow> string" where
  "join_host_port host port =
     (if CHR '':'' \<in> set host then ''['' @ host @ '']:'' @ port else host @ '':'' @ port)"

subsection \<open>Round trips\<close>

lemma nat_dec_small: "n < 10 \<Longrightarrow> nat_dec n = [char_of (48 + n)]"
  by (simp add: nat_dec.simps)

lemma nat_dec_no_zero: "0 < n \<Longrightarrow> hd (nat_dec n) \<noteq> CHR ''0''"
proof (induction n rule: nat_dec.induct)
  case (1 n)
  show ?case
  proof (cases "n < 10")
    case True
    have "(of_char (char_of (48 + n) :: char) :: nat) \<noteq> of_char CHR ''0''"
      using True 1(2) by simp
    hence "char_of (48 + n) \<noteq> CHR ''0''" by metis
    with True show ?thesis by (simp add: nat_dec_small)
  next
    case False
    with 1 show ?thesis by (simp add: nat_dec.simps [of n])
  qed
qed

lemma v4_octet_dec: "n \<le> 255 \<Longrightarrow> v4_octet (nat_dec n) = Some n"
proof -
  have "nat_dec 0 = ''0''" by (simp add: nat_dec_small char_of_def bit_iff_odd)
  thus "n \<le> 255 \<Longrightarrow> ?thesis"
    using nat_of_dec_nat_dec [of 0]
    by (cases "n = 0") (simp_all add: v4_octet_def nat_dec_digits nat_of_dec_nat_dec nat_dec_no_zero
        digit_char_def in_range_def)
qed

lemma nat_dec_no_dot: "CHR ''.'' \<notin> set (nat_dec n)"
proof
  assume "CHR ''.'' \<in> set (nat_dec n)"
  hence "digit_char CHR ''.''" using nat_dec_digits [of n] by (auto simp: list_all_iff)
  thus False by (simp add: digit_char_def in_range_def)
qed

lemma parse_v4_text:
  assumes "length bs = 4" "list_all (\<lambda>b. b \<le> 255) bs"
  shows "parse_v4 (v4_text bs) = Some bs"
proof -
  obtain a b c d where bs: "bs = [a, b, c, d]"
    using assms(1) by (auto simp: numeral_eq_Suc length_Suc_conv)
  have "v4_text bs = nat_dec a @ CHR ''.'' # (nat_dec b @ CHR ''.'' # (nat_dec c @ CHR ''.'' # nat_dec d))"
    by (simp add: bs v4_text_def)
  hence "split_on CHR ''.'' (v4_text bs) = [nat_dec a, nat_dec b, nat_dec c, nat_dec d]"
    by (simp add: split_on_append split_on_no_sep nat_dec_no_dot)
  with assms(2) show ?thesis by (simp add: parse_v4_def bs v4_octet_dec)
qed

lemma v4_text_first: "length bs = 4 \<Longrightarrow> find (\<lambda>c. c \<in> {CHR ''.'', CHR '':'', CHR ''%''}) (v4_text bs) = Some CHR ''.''"
proof -
  assume "length bs = 4"
  then obtain a b c d where bs: "bs = [a, b, c, d]" by (auto simp: numeral_eq_Suc length_Suc_conv)
  have app: "find P (xs @ CHR ''.'' # ys) = Some CHR ''.''"
    if "list_all digit_char xs" "P CHR ''.''" "\<And>x. digit_char x \<Longrightarrow> \<not> P x" for P xs ys
    using that by (induction xs) auto
  have "v4_text bs = nat_dec a @ CHR ''.'' # v4_text [b, c, d]" by (simp add: bs v4_text_def)
  thus ?thesis
    by (simp only:) (rule app, auto simp: nat_dec_digits digit_char_def in_range_def)
qed

lemma parse_ip_v4_text:
  "length bs = 4 \<Longrightarrow> list_all (\<lambda>b. b \<le> 255) bs \<Longrightarrow> parse_ip (v4_text bs) = Some (v4_prefix @ bs)"
  unfolding parse_ip_def by (subst v4_text_first) (simp_all add: parse_v4_text)

lemma ip_text_v4: "length bs = 4 \<Longrightarrow> ip_text (v4_prefix @ bs) = v4_text bs"
  by (simp add: ip_text_def to4_def v4_prefix_def)

lemma v4_text_chars: "set (v4_text bs) \<subseteq> Collect digit_char \<union> {CHR ''.''}"
proof -
  have "set (join_with ''.'' ws) \<subseteq> (\<Union>w \<in> set ws. set w) \<union> {CHR ''.''}" for ws
    by (induction "''.''" ws rule: join_with.induct) auto
  moreover have "set (nat_dec n) \<subseteq> Collect digit_char" for n
    using nat_dec_digits [of n] by (auto simp: list_all_iff)
  ultimately show ?thesis by (fastforce simp: v4_text_def)
qed

lemma hex_nibble_not: "n < 16 \<Longrightarrow> hex_nibble n \<notin> {CHR ''['', CHR '']''}"
proof -
  assume n: "n < 16"
  hence "(of_char (hex_nibble n) :: nat) \<noteq> 91 \<and> (of_char (hex_nibble n) :: nat) \<noteq> 93" by auto
  thus ?thesis by auto
qed

lemma hex_text_not: "set (hex_text n) \<inter> {CHR ''['', CHR '']''} = {}"
proof (induction n rule: hex_text.induct)
  case (1 n)
  thus ?case
    using hex_nibble_not [of n] hex_nibble_not [of "n mod 16"] by (auto simp: hex_text.simps [of n] simp del: hex_nibble.simps)
qed

lemma join_hex_not: "set (join_with '':'' (map hex_text gs)) \<inter> {CHR ''['', CHR '']''} = {}"
proof -
  have "set (join_with '':'' ws) \<subseteq> (\<Union>w \<in> set ws. set w) \<union> {CHR '':''}" for ws
    by (induction "'':''" ws rule: join_with.induct) auto
  thus ?thesis using hex_text_not by fastforce
qed

lemma v4_text_not: "set (v4_text bs) \<inter> {CHR ''['', CHR '']''} = {}"
  using v4_text_chars [of bs] by (auto simp: digit_char_def in_range_def)

lemma ip_text_not:
  "length a = 16 \<Longrightarrow> set (ip_text a) \<inter> {CHR ''['', CHR '']''} = {}"
  using join_hex_not v4_text_not
  by (auto simp: ip_text_def v6_text_def Let_def split: option.splits)

lemma parse_v4_length: "parse_v4 s = Some v \<Longrightarrow> length v = 4"
  by (auto simp: parse_v4_def split: list.splits option.splits)

lemma v6_loop_length:
  "v6_loop fuel bs ell s = Some (bs', ell', rest) \<Longrightarrow> length bs + 2 * fuel \<le> 16 \<Longrightarrow> length bs' \<le> 16"
proof (induction fuel arbitrary: bs ell s)
  case (Suc fuel)
  thus ?case
    by (auto simp: Let_def dest: parse_v4_length split: option.splits if_splits list.splits prod.splits)
qed simp

lemma parse_ip_length: "parse_ip s = Some a \<Longrightarrow> length a = 16"
proof -
  have "length a = 16" if "v6_expand bs ell = Some a" "length bs \<le> 16" for bs ell
    using that by (auto simp: v6_expand_def split: if_splits option.splits)
  hence "parse_v6 s = Some a \<Longrightarrow> length a = 16"
    by (auto simp: parse_v6_def Let_def split: if_splits option.splits prod.splits dest!: v6_loop_length)
  thus "parse_ip s = Some a \<Longrightarrow> length a = 16"
    by (auto simp: parse_ip_def v4_prefix_def dest: parse_v4_length split: option.splits if_splits)
qed

lemma last_index_append: "c \<notin> set t \<Longrightarrow> last_index c (s @ c # t) = Some (length s)"
  by (auto simp: last_index_def takeWhile_append takeWhile_eq_all_conv)

text \<open>A host without brackets and a port without colon and brackets survive the round trip.\<close>

lemma split_join_host_port:
  assumes "set host \<inter> {CHR ''['', CHR '']''} = {}" "set port \<inter> {CHR ''['', CHR '']'', CHR '':''} = {}"
  shows "net_split_host_port (join_host_port host port) = Some (host, port)"
proof (cases "CHR '':'' \<in> set host")
  case True
  have j: "join_host_port host port = (CHR ''['' # host @ '']'') @ CHR '':'' # port"
    using True by (simp add: join_host_port_def)
  have i: "last_index CHR '':'' (join_host_port host port) = Some (length host + 2)"
    unfolding j using assms(2) by (subst last_index_append) auto
  have "takeWhile (\<lambda>c. c \<noteq> CHR '']'') (join_host_port host port) = CHR ''['' # host"
    unfolding j using assms(1) by (auto simp: takeWhile_append takeWhile_eq_all_conv)
  with i assms show ?thesis unfolding j by (auto simp: net_split_host_port_def)
next
  case False
  have j: "join_host_port host port = host @ CHR '':'' # port" using False by (simp add: join_host_port_def)
  have i: "last_index CHR '':'' (join_host_port host port) = Some (length host)"
    unfolding j using assms(2) by (subst last_index_append) auto
  have "prefix ''['' (host @ CHR '':'' # port) \<longleftrightarrow> False"
    using assms(1) by (cases host) auto
  with i assms False show ?thesis unfolding j by (auto simp: net_split_host_port_def)
qed

end
