(* ===== verification/GoMonad.thy ===== *)
theory GoMonad
  imports Prelude "HOL-Library.State_Monad"
begin

section \<open>Code that runs against a changing world\<close>

text \<open>
  Components that call the network, a cache or a clock are written in the state monad of the
  library, with the source's order of effects. A Go pair of a value and an error is a sum
  (\<open>Inl\<close> the error). \<open>holds P m Q\<close> is a triple in the style of Hoare logic: started in a state
  with \<open>P\<close>, \<open>m\<close> ends with a value and a state related by \<open>Q\<close>. Its rules are collected in
  \<open>wp_intros\<close>, so that an invariant of a component is carried through its operations by
  \<open>intro wp_intros\<close>.
\<close>

abbreviation ret :: "'a \<Rightarrow> ('s, 'a) state" where
  "ret \<equiv> State_Monad.return"

definition reads :: "('s \<Rightarrow> 'a) \<Rightarrow> ('s, 'a) state" where
  "reads f = State (\<lambda>s. (f s, s))"

definition modifies :: "('s \<Rightarrow> 's) \<Rightarrow> ('s, unit) state" where
  "modifies f = State (\<lambda>s. ((), f s))"

text \<open>A call to the world that is the second part of the state.\<close>

definition calls :: "('w \<Rightarrow> 'a \<times> 'w) \<Rightarrow> ('r \<times> 'w, 'a) state" where
  "calls f = State (\<lambda>(r, w). case f w of (a, w') \<Rightarrow> (a, (r, w')))"

lemma run_reads [simp]: "run_state (reads f) s = (f s, s)"
  by (simp add: reads_def)

lemma run_modifies [simp]: "run_state (modifies f) s = ((), f s)"
  by (simp add: modifies_def)

lemma run_calls [simp]: "run_state (calls f) (r, w) = (fst (f w), (r, snd (f w)))"
  by (simp add: calls_def split: prod.split)

named_theorems wp_intros \<open>rules for triples\<close>

definition holds :: "('s \<Rightarrow> bool) \<Rightarrow> ('s, 'a) state \<Rightarrow> ('a \<Rightarrow> 's \<Rightarrow> bool) \<Rightarrow> bool" where
  "holds P m Q \<longleftrightarrow> (\<forall>s. P s \<longrightarrow> (case run_state m s of (a, s') \<Rightarrow> Q a s'))"

lemma holdsI: "(\<And>s a s'. P s \<Longrightarrow> run_state m s = (a, s') \<Longrightarrow> Q a s') \<Longrightarrow> holds P m Q"
  by (auto simp: holds_def split: prod.split)

lemma holdsD: "holds P m Q \<Longrightarrow> run_state m s = (a, s') \<Longrightarrow> P s \<Longrightarrow> Q a s'"
  by (auto simp: holds_def split: prod.splits)

lemma holds_ret [wp_intros]: "(\<And>s. P s \<Longrightarrow> Q a s) \<Longrightarrow> holds P (ret a) Q"
  by (simp add: holds_def)

lemma holds_bind: "holds P m R \<Longrightarrow> (\<And>a. holds (R a) (f a) Q) \<Longrightarrow> holds P (State_Monad.bind m f) Q"
  by (fastforce simp: holds_def split: prod.splits)

lemma holds_reads [wp_intros]: "(\<And>s. P s \<Longrightarrow> Q (f s) s) \<Longrightarrow> holds P (reads f) Q"
  by (simp add: holds_def)

lemma holds_modifies [wp_intros]: "(\<And>s. P s \<Longrightarrow> Q () (f s)) \<Longrightarrow> holds P (modifies f) Q"
  by (simp add: holds_def)

lemma holds_calls [wp_intros]:
  "(\<And>r w a w'. P (r, w) \<Longrightarrow> f w = (a, w') \<Longrightarrow> Q a (r, w')) \<Longrightarrow> holds P (calls f) Q"
  by (auto simp: holds_def calls_def split: prod.splits)

lemma holds_if [wp_intros]:
  "(b \<Longrightarrow> holds P m Q) \<Longrightarrow> (\<not> b \<Longrightarrow> holds P n Q) \<Longrightarrow> holds P (if b then m else n) Q"
  by simp

lemma holds_sum [wp_intros]:
  "(\<And>e. x = Inl e \<Longrightarrow> holds P (f e) Q) \<Longrightarrow> (\<And>v. x = Inr v \<Longrightarrow> holds P (g v) Q) \<Longrightarrow>
   holds P (case x of Inl e \<Rightarrow> f e | Inr v \<Rightarrow> g v) Q"
  by (cases x) simp_all

lemma holds_option [wp_intros]:
  "(x = None \<Longrightarrow> holds P m Q) \<Longrightarrow> (\<And>v. x = Some v \<Longrightarrow> holds P (g v) Q) \<Longrightarrow>
   holds P (case x of None \<Rightarrow> m | Some v \<Rightarrow> g v) Q"
  by (cases x) simp_all

lemma holds_prod [wp_intros]:
  "(\<And>a b. x = (a, b) \<Longrightarrow> holds P (f a b) Q) \<Longrightarrow> holds P (case x of (a, b) \<Rightarrow> f a b) Q"
  by (cases x) simp

lemma holds_weaken: "holds P m Q \<Longrightarrow> (\<And>a s. Q a s \<Longrightarrow> Q' a s) \<Longrightarrow> holds P m Q'"
  by (fastforce simp: holds_def split: prod.splits)

lemma holds_strengthen: "holds P' m Q \<Longrightarrow> (\<And>s. P s \<Longrightarrow> P' s) \<Longrightarrow> holds P m Q"
  by (auto simp: holds_def)

lemma holds_conj: "holds P m Q \<Longrightarrow> holds P m R \<Longrightarrow> holds P m (\<lambda>a s. Q a s \<and> R a s)"
  by (fastforce simp: holds_def split: prod.splits)

text \<open>Keeping an invariant.\<close>

definition keeps :: "('s \<Rightarrow> bool) \<Rightarrow> ('s, 'a) state \<Rightarrow> bool" where
  "keeps I m \<longleftrightarrow> holds I m (\<lambda>_. I)"

named_theorems keeps_intros \<open>rules for invariants\<close>

lemma keepsD: "keeps I m \<Longrightarrow> run_state m s = (a, s') \<Longrightarrow> I s \<Longrightarrow> I s'"
  unfolding keeps_def by (rule holdsD)

lemma keeps_ret [keeps_intros]: "keeps I (ret a)"
  by (simp add: keeps_def holds_def)

lemma keeps_bind [keeps_intros]: "keeps I m \<Longrightarrow> (\<And>a. keeps I (f a)) \<Longrightarrow> keeps I (State_Monad.bind m f)"
  unfolding keeps_def by (rule holds_bind)

lemma keeps_reads [keeps_intros]: "keeps I (reads f)"
  by (simp add: keeps_def holds_def)

lemma keeps_modifies [keeps_intros]: "(\<And>s. I s \<Longrightarrow> I (f s)) \<Longrightarrow> keeps I (modifies f)"
  by (simp add: keeps_def holds_def)

lemma keeps_cond [keeps_intros]: "(b \<Longrightarrow> keeps I m) \<Longrightarrow> (\<not> b \<Longrightarrow> keeps I n) \<Longrightarrow> keeps I (if b then m else n)"
  by simp

lemma keeps_sum [keeps_intros]:
  "(\<And>e. x = Inl e \<Longrightarrow> keeps I (f e)) \<Longrightarrow> (\<And>v. x = Inr v \<Longrightarrow> keeps I (g v)) \<Longrightarrow>
   keeps I (case x of Inl e \<Rightarrow> f e | Inr v \<Rightarrow> g v)"
  by (cases x) simp_all

lemma keeps_option [keeps_intros]:
  "(x = None \<Longrightarrow> keeps I m) \<Longrightarrow> (\<And>v. x = Some v \<Longrightarrow> keeps I (g v)) \<Longrightarrow>
   keeps I (case x of None \<Rightarrow> m | Some v \<Rightarrow> g v)"
  by (cases x) simp_all

lemma keeps_list [keeps_intros]:
  "(x = [] \<Longrightarrow> keeps I m) \<Longrightarrow> (\<And>v vs. x = v # vs \<Longrightarrow> keeps I (g v vs)) \<Longrightarrow>
   keeps I (case x of [] \<Rightarrow> m | v # vs \<Rightarrow> g v vs)"
  by (cases x) simp_all

lemma keeps_prod [keeps_intros]:
  "(\<And>a b. x = (a, b) \<Longrightarrow> keeps I (f a b)) \<Longrightarrow> keeps I (case x of (a, b) \<Rightarrow> f a b)"
  by (cases x) simp

lemma keeps_let [keeps_intros]: "(\<And>y. y = x \<Longrightarrow> keeps I (f y)) \<Longrightarrow> keeps I (let y = x in f y)"
  by (simp add: Let_def)

lemma keeps_calls [keeps_intros]: "(\<And>r w w'. I (r, w) = I (r, w')) \<Longrightarrow> keeps I (calls f)"
  unfolding keeps_def holds_def by (auto simp: calls_def split: prod.splits)

text \<open>A property of the value, whatever the state.\<close>

definition gives :: "('a \<Rightarrow> bool) \<Rightarrow> ('s, 'a) state \<Rightarrow> bool" where
  "gives R m \<longleftrightarrow> (\<forall>s. R (fst (run_state m s)))"

named_theorems gives_intros \<open>rules for values\<close>

lemma givesD: "gives R m \<Longrightarrow> run_state m s = (a, s') \<Longrightarrow> R a"
  by (metis gives_def fst_conv)

lemma givesI: "(\<And>s a s'. run_state m s = (a, s') \<Longrightarrow> R a) \<Longrightarrow> gives R m"
  by (metis gives_def prod.collapse)

lemma gives_ret [gives_intros]: "R a \<Longrightarrow> gives R (ret a)"
  by (simp add: gives_def)

lemma run_bindE:
  assumes "run_state (State_Monad.bind m f) s = (b, s')"
  obtains a s1 where "run_state m s = (a, s1)" "run_state (f a) s1 = (b, s')"
  using assms by (auto split: prod.splits)

lemma gives_bind:
  assumes "gives Q m" and "\<And>a. Q a \<Longrightarrow> gives R (f a)"
  shows "gives R (State_Monad.bind m f)"
proof (rule givesI)
  fix s b s' assume "run_state (State_Monad.bind m f) s = (b, s')"
  then obtain a s1 where "run_state m s = (a, s1)" "run_state (f a) s1 = (b, s')" by (rule run_bindE)
  with assms show "R b" by (meson givesD)
qed

lemma gives_bind_any: "(\<And>a. gives R (f a)) \<Longrightarrow> gives R (State_Monad.bind m f)"
  by (fastforce simp: gives_def split: prod.split)

lemma gives_if [gives_intros]: "(b \<Longrightarrow> gives R m) \<Longrightarrow> (\<not> b \<Longrightarrow> gives R n) \<Longrightarrow> gives R (if b then m else n)"
  by simp

lemma gives_sum [gives_intros]:
  "(\<And>e. x = Inl e \<Longrightarrow> gives R (f e)) \<Longrightarrow> (\<And>v. x = Inr v \<Longrightarrow> gives R (g v)) \<Longrightarrow>
   gives R (case x of Inl e \<Rightarrow> f e | Inr v \<Rightarrow> g v)"
  by (cases x) simp_all

lemma gives_option [gives_intros]:
  "(x = None \<Longrightarrow> gives R m) \<Longrightarrow> (\<And>v. x = Some v \<Longrightarrow> gives R (g v)) \<Longrightarrow>
   gives R (case x of None \<Rightarrow> m | Some v \<Rightarrow> g v)"
  by (cases x) simp_all

lemma gives_prod [gives_intros]:
  "(\<And>a b. x = (a, b) \<Longrightarrow> gives R (f a b)) \<Longrightarrow> gives R (case x of (a, b) \<Rightarrow> f a b)"
  by (cases x) simp

lemma gives_let [gives_intros]: "(\<And>y. y = x \<Longrightarrow> gives R (f y)) \<Longrightarrow> gives R (let y = x in f y)"
  by (simp add: Let_def)

lemma gives_weaken: "gives Q m \<Longrightarrow> (\<And>a. Q a \<Longrightarrow> R a) \<Longrightarrow> gives R m"
  by (simp add: gives_def)

lemma keeps_bind_gives:
  assumes "keeps I m" "gives R m" and "\<And>a. R a \<Longrightarrow> keeps I (f a)"
  shows "keeps I (State_Monad.bind m f)"
  unfolding keeps_def
proof (rule holdsI)
  fix s b s' assume "I s" and run: "run_state (State_Monad.bind m f) s = (b, s')"
  from run obtain a s1 where "run_state m s = (a, s1)" "run_state (f a) s1 = (b, s')" by (rule run_bindE)
  with \<open>I s\<close> assms show "I s'" by (meson keepsD givesD)
qed

end
