(* ===== verification/DnsModel.thy ===== *)
theory DnsModel
  imports DnsNames GoNet GoMonad CoreModel "HOL-Library.Product_Lexorder"
begin

section \<open>The DNS resolver (internal/dns/resolver.go): data and operations\<close>

text \<open>
  The resolver asks a set of servers in turn, with retries, or a DNS-over-HTTPS endpoint, and
  keeps the answers in memory. Every operation is a computation over the resolver's state and
  the world. What the resolver calls in other packages is a parameter, the record \<open>dns_env\<close>:
  the exchange of a message with a server, the HTTP request, the rate limiter, the context, the
  random bytes and the zone transfer of the DNS library. A message is what the code reads of it.
  A record of an answer has the case the type switches of the source distinguish, with
  \<open>RR_Other\<close> for every other type.

  A context error is an \<open>error\<close> value like any other, with the two properties the code tests:
  whether it is a \<open>net.Error\<close>, and whether \<open>errors.Is\<close> finds a cancelled or expired context.
  A library call that returns no error returns a message (the contract of the DNS client), so
  the tests against a nil response have no counterpart except where a nil is passed on.

  The maps that are \<open>sync.Map\<close> are association lists. A single-flight group runs its function
  once for concurrent calls with one key and looks the key up again first; run one after the
  other, as here, the calls meet in the cache. The HTTP client of the DoH transport is part of
  the world.
\<close>

subsection \<open>Errors\<close>

datatype endpoint_error =
    EmptyAddress
  | BadBracketedAddress string
  | MissingHost string
  | BadPort string
  | BadEndpoint string
  | UnbracketedAddress string
  | EmptyHost
  | BadHost string

datatype dns_error =
    LibraryError "bool option" bool string
  | PlainError string
  | EndpointFailure string endpoint_error
  | WrappedError string dns_error
  | WildcardFiltered string

text \<open>What \<open>errors.As\<close> finds of a \<open>net.Error\<close>: whether it is a timeout.\<close>

fun net_error :: "dns_error \<Rightarrow> bool option" where
  "net_error (LibraryError t _ _) = t"
| "net_error (WrappedError _ e) = net_error e"
| "net_error _ = None"

fun context_error :: "dns_error \<Rightarrow> bool" where
  "context_error (LibraryError _ c _) = c"
| "context_error (WrappedError _ e) = context_error e"
| "context_error _ = False"

definition is_net_error :: "dns_error \<Rightarrow> bool" where
  "is_net_error e \<longleftrightarrow> net_error e \<noteq> None"

text \<open>\<open>errorsAsNet\<close> unwraps by hand; together with the test of \<open>Timeout\<close> that follows each use.\<close>

fun timeout_error :: "dns_error \<Rightarrow> bool" where
  "timeout_error (LibraryError t _ _) = (t = Some True)"
| "timeout_error (WrappedError _ e) = timeout_error e"
| "timeout_error _ = False"

subsection \<open>Messages\<close>

abbreviation TypeA :: "16 word" where "TypeA \<equiv> 1"
abbreviation TypeNS :: "16 word" where "TypeNS \<equiv> 2"
abbreviation TypeCNAME :: "16 word" where "TypeCNAME \<equiv> 5"
abbreviation TypeSOA :: "16 word" where "TypeSOA \<equiv> 6"
abbreviation TypePTR :: "16 word" where "TypePTR \<equiv> 12"
abbreviation TypeMX :: "16 word" where "TypeMX \<equiv> 15"
abbreviation TypeTXT :: "16 word" where "TypeTXT \<equiv> 16"
abbreviation TypeAAAA :: "16 word" where "TypeAAAA \<equiv> 28"
abbreviation TypeSRV :: "16 word" where "TypeSRV \<equiv> 33"
abbreviation TypeDNAME :: "16 word" where "TypeDNAME \<equiv> 39"
abbreviation TypeDS :: "16 word" where "TypeDS \<equiv> 43"
abbreviation TypeDNSKEY :: "16 word" where "TypeDNSKEY \<equiv> 48"
abbreviation TypeSVCB :: "16 word" where "TypeSVCB \<equiv> 64"
abbreviation TypeHTTPS :: "16 word" where "TypeHTTPS \<equiv> 65"
abbreviation TypeAXFR :: "16 word" where "TypeAXFR \<equiv> 252"
abbreviation TypeCAA :: "16 word" where "TypeCAA \<equiv> 257"

abbreviation RcodeSuccess :: int where "RcodeSuccess \<equiv> 0"
abbreviation RcodeServerFailure :: int where "RcodeServerFailure \<equiv> 2"
abbreviation RcodeNameError :: int where "RcodeNameError \<equiv> 3"
abbreviation RcodeRefused :: int where "RcodeRefused \<equiv> 5"

datatype rr_data =
    RR_A ip
  | RR_AAAA ip
  | RR_CNAME string
  | RR_DNAME string
  | RR_NS string
  | RR_MX "16 word" string
  | RR_TXT "string list"
  | RR_SRV "16 word" "16 word" "16 word" string
  | RR_SOA string string
  | RR_CAA string string
  | RR_PTR string
  | RR_SVCB "16 word" string meta
  | RR_HTTPS "16 word" string meta
  | RR_DNSKEY
  | RR_DS
  | RR_RRSIG
  | RR_Other

record dns_rr =
  rr_name :: string
  rr_type :: "16 word"
  rr_ttl :: "32 word"
  rr_text :: string
  rr_data :: rr_data

record dns_msg =
  dm_rcode :: int
  dm_authoritative :: bool
  dm_authenticated :: bool
  dm_truncated :: bool
  dm_answer :: "dns_rr list"
  dm_ns :: "dns_rr list"
  dm_extra :: "dns_rr list"

record dns_query =
  dq_name :: string
  dq_class :: int
  dq_type :: "16 word"
  dq_recursion_desired :: bool
  dq_checking_disabled :: bool
  dq_do :: "bool option"

datatype transport = Udp | Tcp

record axfr_envelope =
  ae_error :: "dns_error option"
  ae_rr :: "dns_rr list"
  ae_context :: "dns_error option"

record 'w dns_env =
  de_go :: go_env
  de_fqdn :: "string \<Rightarrow> string"
  de_is_domain_name :: "string \<Rightarrow> bool"
  de_reverse_addr :: "string \<Rightarrow> dns_error + string"
  de_type_text :: "16 word \<Rightarrow> string"
  de_rcode_text :: "int \<Rightarrow> string"
  de_quote :: "string \<Rightarrow> string"
  de_wait :: "'w \<Rightarrow> dns_error option \<times> 'w"
  de_exchange :: "transport \<Rightarrow> int \<Rightarrow> string \<Rightarrow> dns_query \<Rightarrow> 'w \<Rightarrow> (dns_error + dns_msg) \<times> 'w"
  de_sleep :: "int \<Rightarrow> 'w \<Rightarrow> dns_error option \<times> 'w"
  de_context :: "'w \<Rightarrow> dns_error option"
  de_now_ms :: "'w \<Rightarrow> int \<times> 'w"
  de_random :: "nat \<Rightarrow> 'w \<Rightarrow> (dns_error + nat list) \<times> 'w"
  de_transfer :: "dns_query \<Rightarrow> string \<Rightarrow> 'w \<Rightarrow> (dns_error + axfr_envelope list) \<times> 'w"
  de_pack :: "dns_query \<Rightarrow> dns_error + string"
  de_unpack :: "string \<Rightarrow> dns_error + dns_msg"
  de_new_request :: "string \<Rightarrow> string \<Rightarrow> dns_error option"
  de_post :: "string \<Rightarrow> string \<Rightarrow> 'w \<Rightarrow> (dns_error + int \<times> (dns_error + string)) \<times> 'w"

subsection \<open>The resolver\<close>

record axfr_result =
  ax_success :: bool
  ax_names :: "string list"
  ax_err :: "dns_error option"

record wildcard_result =
  wr_is_wildcard :: bool
  wr_signature :: wildcard_signature

record authoritative_zone =
  az_zone :: string
  az_parent_zone :: string
  az_nameservers :: "string list"
  az_parent_nameservers :: "string list"
  az_parent_has_ds :: bool
  az_parent_ds_checked :: bool
  az_parent_delegation_verified :: bool
  az_glue :: "(string, string list) gomap"

record resolver =
  rv_servers :: "string list"
  rv_index :: "64 word"
  rv_doh_url :: string
  rv_config_error :: "dns_error option"
  rv_filter_wildcard :: bool
  rv_consensus :: bool
  rv_limited :: bool
  rv_timeout :: int
  rv_client_timeout :: int
  rv_query_cache :: "(string, dns_msg) gomap"
  rv_wildcard_cache :: "(string, wildcard_result) gomap"
  rv_zone_cache :: "(string, authoritative_zone) gomap"
  rv_ns_health_cache :: "(string, string \<times> dns_error option) gomap"
  rv_axfr_cache :: "(string, axfr_result) gomap"
  rv_dnssec_cache :: "(string, (string, bool) gomap) gomap"

type_synonym ('w, 'a) dns = "(resolver \<times> 'w, 'a) state"

abbreviation update_resolver :: "(resolver \<Rightarrow> resolver) \<Rightarrow> ('w, unit) dns" where
  "update_resolver f \<equiv> modifies (apfst f)"

abbreviation second :: int where "second \<equiv> 1000000000"

definition max_chain_depth :: nat where "max_chain_depth = 10"
definition max_retries :: nat where "max_retries = 3"
definition base_retry_delay :: int where "base_retry_delay = 100000000"
definition max_doh_response_size :: nat where "max_doh_response_size = 65535"
definition max_axfr_names :: nat where "max_axfr_names = 100000"

definition default_servers :: "string list" where
  "default_servers = [''1.1.1.1:53'', ''8.8.8.8:53'', ''9.9.9.9:53'', ''8.8.4.4:53'']"

text \<open>The endpoint \<open>host:port\<close> of a configured server; the port defaults to 53.\<close>

definition normalize_resolver_endpoint :: "'w dns_env \<Rightarrow> string \<Rightarrow> endpoint_error + string" where
  "normalize_resolver_endpoint E raw =
     (let G = de_go E; v = trim_space raw in
      if v = [] then Inl EmptyAddress
      else if prefix ''['' v \<and> suffix '']'' v then
        (let host = trim_suffix (trim_prefix v ''['') '']'' in
         case parse_ip host of
           Some a \<Rightarrow> Inr (join_host_port (ip_text a) ''53'')
         | None \<Rightarrow> Inl (BadBracketedAddress v))
      else (case net_split_host_port v of
        Some (host, port) \<Rightarrow>
          if host = [] then Inl (MissingHost v)
          else (case atoi port of
             None \<Rightarrow> Inl (BadPort v)
           | Some n \<Rightarrow>
               if n < 1 \<or> n > 65535 then Inl (BadPort v)
               else (case parse_ip host of
                  Some a \<Rightarrow> Inr (join_host_port (ip_text a) (itoa n))
                | None \<Rightarrow>
                    (let h = trim_suffix (to_lower G host) ''.'' in
                     if h = [] then Inl (MissingHost v) else Inr (join_host_port h (itoa n)))))
      | None \<Rightarrow>
          if prefix ''['' v \<or> suffix '']'' v then Inl (BadEndpoint v)
          else (case parse_ip v of
             Some a \<Rightarrow> Inr (join_host_port (ip_text a) ''53'')
           | None \<Rightarrow>
               if contains_str v '':'' then Inl (UnbracketedAddress v)
               else (let host = trim_suffix (to_lower G v) ''.'' in
                     if host = [] then Inl EmptyHost
                     else if \<not> de_is_domain_name E host then Inl (BadHost v)
                     else Inr (join_host_port host ''53'')))))"

text \<open>The loop of \<open>New\<close>: invalid servers are skipped and the first of them is remembered.\<close>

fun normalize_servers ::
  "'w dns_env \<Rightarrow> int \<Rightarrow> string list \<Rightarrow> string list \<Rightarrow> dns_error option \<Rightarrow> string list \<times> dns_error option"
where
  "normalize_servers E i [] acc err = (acc, err)"
| "normalize_servers E i (s # ss) acc err =
     (case normalize_resolver_endpoint E s of
        Inl e \<Rightarrow> normalize_servers E (i + 1) ss acc
          (case err of None \<Rightarrow> Some (EndpointFailure (''resolver '' @ itoa (i + 1)) e) | Some e0 \<Rightarrow> Some e0)
      | Inr endpoint \<Rightarrow> normalize_servers E (i + 1) ss (acc @ [endpoint]) err)"

definition new_resolver :: "'w dns_env \<Rightarrow> string list \<Rightarrow> resolver" where
  "new_resolver E servers =
     (case normalize_servers E 0 (if length servers = 0 then default_servers else servers) [] None of
        (normalized, err) \<Rightarrow>
          \<lparr>rv_servers = normalized, rv_index = 0, rv_doh_url = [], rv_config_error = err,
           rv_filter_wildcard = True, rv_consensus = False, rv_limited = False,
           rv_timeout = 5 * second, rv_client_timeout = 5 * second,
           rv_query_cache = [], rv_wildcard_cache = [], rv_zone_cache = [], rv_ns_health_cache = [],
           rv_axfr_cache = [], rv_dnssec_cache = []\<rparr>)"

definition set_doh :: "string \<Rightarrow> resolver \<Rightarrow> resolver" where
  "set_doh url r = r\<lparr>rv_doh_url := trim_space url\<rparr>"

definition set_wildcard_filtering :: "bool \<Rightarrow> resolver \<Rightarrow> resolver" where
  "set_wildcard_filtering b r = r\<lparr>rv_filter_wildcard := b\<rparr>"

definition set_consensus :: "bool \<Rightarrow> resolver \<Rightarrow> resolver" where
  "set_consensus b r = r\<lparr>rv_consensus := b\<rparr>"

definition consensus_available :: "resolver option \<Rightarrow> bool" where
  "consensus_available r \<longleftrightarrow>
     (case r of None \<Rightarrow> False | Some r \<Rightarrow> rv_doh_url r = [] \<and> length (rv_servers r) \<ge> 2)"

definition set_request_limiter :: "bool \<Rightarrow> resolver \<Rightarrow> resolver" where
  "set_request_limiter b r = r\<lparr>rv_limited := b\<rparr>"

definition set_timeout :: "int \<Rightarrow> resolver \<Rightarrow> resolver" where
  "set_timeout t r = (if t \<le> 0 then r else r\<lparr>rv_timeout := t, rv_client_timeout := t\<rparr>)"

definition clone_resolver :: "'w dns_env \<Rightarrow> resolver option \<Rightarrow> resolver option" where
  "clone_resolver E r =
     (case r of
        None \<Rightarrow> None
      | Some r \<Rightarrow>
          Some (set_timeout (rv_timeout r) (set_request_limiter (rv_limited r)
            (set_consensus (rv_consensus r) (set_wildcard_filtering (rv_filter_wildcard r)
              (set_doh (rv_doh_url r) (new_resolver E (rv_servers r))))))))"

definition clear_cache :: "resolver \<Rightarrow> resolver" where
  "clear_cache r = r\<lparr>rv_query_cache := [], rv_wildcard_cache := [], rv_zone_cache := [],
     rv_ns_health_cache := [], rv_axfr_cache := [], rv_dnssec_cache := []\<rparr>"

definition operation_timeout :: "resolver \<Rightarrow> int" where
  "operation_timeout r =
     (if rv_timeout r > 0 then rv_timeout r
      else if rv_client_timeout r > 0 then rv_client_timeout r else 5 * second)"

text \<open>\<open>LoadResolversFromFile\<close>: \<open>opened\<close> is the result of opening and scanning the file, its
  lines and the scanner's error.\<close>

fun load_lines :: "'w dns_env \<Rightarrow> int \<Rightarrow> string list \<Rightarrow> string list \<Rightarrow> dns_error + string list" where
  "load_lines E n [] acc = Inr acc"
| "load_lines E n (l # ls) acc =
     (let line = trim_space l in
      if line = [] \<or> prefix ''#'' line then load_lines E (n + 1) ls acc
      else (case normalize_resolver_endpoint E line of
         Inl e \<Rightarrow> Inl (EndpointFailure ((''resolvedor inv'' @ [CHR 0xC3, CHR 0xA1] @ ''lido na linha '') @ itoa (n + 1)) e)
       | Inr endpoint \<Rightarrow> load_lines E (n + 1) ls (acc @ [endpoint])))"

definition load_resolvers_from_file ::
  "'w dns_env \<Rightarrow> string \<Rightarrow> dns_error + string list \<times> dns_error option \<Rightarrow> dns_error + string list"
where
  "load_resolvers_from_file E path opened =
     (case opened of
        Inl e \<Rightarrow> Inl (WrappedError (''abrindo arquivo de resolvedores '' @ de_quote E path) e)
      | Inr (lines, scan_err) \<Rightarrow>
          (case load_lines E 0 lines [] of
             Inl e \<Rightarrow> Inl e
           | Inr servers \<Rightarrow>
               (case scan_err of
                  Some e \<Rightarrow> Inl (WrappedError ''lendo arquivo de resolvedores'' e)
                | None \<Rightarrow>
                    if length servers = 0 then
                      Inl (PlainError (''arquivo de resolvedores '' @ de_quote E path @
                        (''est'' @ [CHR 0xC3, CHR 0xA1] @ '' vazio ou cont'' @ [CHR 0xC3, CHR 0xA9] @ ''m apenas coment'' @ [CHR 0xC3, CHR 0xA1] @ ''rios'')))
                    else Inr servers)))"

subsection \<open>Exchanging messages\<close>

definition bool_text :: "bool \<Rightarrow> string" where
  "bool_text b = (if b then ''true'' else ''false'')"

definition set_question :: "string \<Rightarrow> 16 word \<Rightarrow> dns_query" where
  "set_question name qtype =
     \<lparr>dq_name = name, dq_class = 1, dq_type = qtype, dq_recursion_desired = True,
      dq_checking_disabled = False, dq_do = None\<rparr>"

definition dns_query_cache_key :: "'w dns_env \<Rightarrow> dns_query \<Rightarrow> string" where
  "dns_query_cache_key E q =
     itoa (dq_class q) @ '':'' @ itoa (uint (dq_type q)) @ '':'' @ to_lower (de_go E) (dq_name q) @
     '':rd='' @ bool_text (dq_recursion_desired q) @ '':cd='' @ bool_text (dq_checking_disabled q) @
     '':do='' @ bool_text (dq_do q = Some True)"

definition cacheable_dns_response :: "dns_msg \<Rightarrow> bool" where
  "cacheable_dns_response m \<longleftrightarrow> dm_rcode m = RcodeSuccess \<or> dm_rcode m = RcodeNameError"

definition limiter_wait :: "'w dns_env \<Rightarrow> ('w, dns_error option) dns" where
  "limiter_wait E = do {
     r \<leftarrow> reads fst;
     if \<not> rv_limited r then ret None else calls (de_wait E)
   }"

definition context_err :: "'w dns_env \<Rightarrow> ('w, dns_error option) dns" where
  "context_err E = reads (\<lambda>s. de_context E (snd s))"

text \<open>The atomic counter yields the index before the increment, modulo \<open>2 ^ 64\<close>.\<close>

definition pick_server :: "('w, string) dns" where
  "pick_server = do {
     r \<leftarrow> reads fst;
     update_resolver (\<lambda>r. r\<lparr>rv_index := rv_index r + 1\<rparr>);
     ret (rv_servers r ! (unat (rv_index r) mod length (rv_servers r)))
   }"

text \<open>One answered attempt: a truncated answer is asked for again over TCP.\<close>

definition retry_truncated :: "'w dns_env \<Rightarrow> string \<Rightarrow> dns_query \<Rightarrow> dns_msg \<Rightarrow> ('w, dns_error + dns_msg) dns" where
  "retry_truncated E server q resp =
     (if dm_truncated resp then do {
        waited \<leftarrow> limiter_wait E;
        case waited of
          Some e \<Rightarrow> ret (Inl e)
        | None \<Rightarrow> do {
            r \<leftarrow> reads fst;
            res \<leftarrow> calls (de_exchange E Tcp (rv_client_timeout r) server q);
            ret (case res of Inl _ \<Rightarrow> Inr resp | Inr resp_tcp \<Rightarrow> Inr resp_tcp)
          }
      } else ret (Inr resp))"

text \<open>The loop over the attempts; \<open>left\<close> attempts remain, so this is attempt
  \<open>max_retries - left\<close>, counted from 0.\<close>

fun exchange_attempts :: "'w dns_env \<Rightarrow> dns_query \<Rightarrow> nat \<Rightarrow> dns_error option \<Rightarrow> ('w, dns_error + dns_msg) dns" where
  "exchange_attempts E q 0 last_err =
     ret (Inl (case last_err of
        None \<Rightarrow> PlainError ((''consulta DNS falhou ap'' @ [CHR 0xC3, CHR 0xB3] @ ''s '') @ itoa (int max_retries) @ '' tentativas'')
      | Some e \<Rightarrow> WrappedError ((''consulta DNS falhou ap'' @ [CHR 0xC3, CHR 0xB3] @ ''s '') @ itoa (int max_retries) @ '' tentativas'') e))"
| "exchange_attempts E q (Suc left) last_err = do {
     server \<leftarrow> pick_server;
     waited \<leftarrow> limiter_wait E;
     case waited of
       Some e \<Rightarrow> ret (Inl e)
     | None \<Rightarrow> do {
         r \<leftarrow> reads fst;
         res \<leftarrow> calls (de_exchange E Udp (rv_client_timeout r) server q);
         case res of
           Inr resp \<Rightarrow> retry_truncated E server q resp
         | Inl e \<Rightarrow>
             if \<not> is_net_error e then ret (Inl e)
             else if left > 0 then do {
               cancelled \<leftarrow> calls (de_sleep E (base_retry_delay * 3 ^ (max_retries - Suc left)));
               case cancelled of
                 Some c \<Rightarrow> ret (Inl c)
               | None \<Rightarrow> exchange_attempts E q left (Some e)
             }
             else exchange_attempts E q left (Some e)
       }
   }"

definition exchange_doh :: "'w dns_env \<Rightarrow> dns_query \<Rightarrow> ('w, dns_error + dns_msg) dns" where
  "exchange_doh E q =
     (case de_pack E q of
        Inl e \<Rightarrow> ret (Inl (WrappedError ''codificando consulta DoH'' e))
      | Inr wire \<Rightarrow> do {
          waited \<leftarrow> limiter_wait E;
          case waited of
            Some e \<Rightarrow> ret (Inl (WrappedError (''aguardando permiss'' @ [CHR 0xC3, CHR 0xA3] @ ''o para a consulta DoH'') e))
          | None \<Rightarrow> do {
              r \<leftarrow> reads fst;
              case de_new_request E (rv_doh_url r) wire of
                Some e \<Rightarrow> ret (Inl (WrappedError (''criando requisi'' @ [CHR 0xC3, CHR 0xA7, CHR 0xC3, CHR 0xA3] @ ''o DoH'') e))
              | None \<Rightarrow> do {
                  res \<leftarrow> calls (de_post E (rv_doh_url r) wire);
                  case res of
                    Inl e \<Rightarrow> ret (Inl (WrappedError ''executando consulta DoH'' e))
                  | Inr (status, read) \<Rightarrow>
                      ret (if status \<ge> 300 \<and> status < 400 then
                          Inl (PlainError (''o endpoint DoH respondeu com redirecionamento HTTP '' @
                            itoa status @ ''; configure a URL final''))
                        else if status \<noteq> 200 then
                          Inl (PlainError (''o endpoint DoH respondeu com status HTTP '' @ itoa status))
                        else (case read of
                            Inl e \<Rightarrow> Inl (WrappedError ''lendo resposta DoH'' e)
                          | Inr stream \<Rightarrow>
                              (let body = take (max_doh_response_size + 1) stream in
                               if length body > max_doh_response_size then
                                 Inl (PlainError (''a resposta DoH excede o limite de '' @
                                   itoa (int max_doh_response_size) @ '' bytes''))
                               else (case de_unpack E body of
                                   Inl e \<Rightarrow> Inl (WrappedError ''decodificando resposta DoH'' e)
                                 | Inr m \<Rightarrow> Inr m))))
                }
            }
        })"

definition exchange_uncached :: "'w dns_env \<Rightarrow> dns_query \<Rightarrow> ('w, dns_error + dns_msg) dns" where
  "exchange_uncached E q = do {
     r \<leftarrow> reads fst;
     if rv_doh_url r \<noteq> [] then exchange_doh E q
     else (case rv_config_error r of
        Some e \<Rightarrow> ret (Inl (WrappedError (''configura'' @ [CHR 0xC3, CHR 0xA7, CHR 0xC3, CHR 0xA3] @ ''o dos resolvedores inv'' @ [CHR 0xC3, CHR 0xA1] @ ''lida'') e))
      | None \<Rightarrow>
          if length (rv_servers r) = 0 then ret (Inl (PlainError (''nenhum resolver DNS v'' @ [CHR 0xC3, CHR 0xA1] @ ''lido foi configurado'')))
          else exchange_attempts E q max_retries None)
   }"

definition exchange :: "'w dns_env \<Rightarrow> dns_query \<Rightarrow> ('w, dns_error + dns_msg) dns" where
  "exchange E q = do {
     r \<leftarrow> reads fst;
     let key = dns_query_cache_key E q;
     case map_of (rv_query_cache r) key of
       Some cached \<Rightarrow> ret (Inr cached)
     | None \<Rightarrow> do {
         res \<leftarrow> exchange_uncached E q;
         case res of
           Inl e \<Rightarrow> ret (Inl e)
         | Inr m \<Rightarrow> do {
             (if cacheable_dns_response m
              then update_resolver (\<lambda>r. r\<lparr>rv_query_cache := map_put (rv_query_cache r) key m\<rparr>)
              else ret ());
             ret (Inr m)
           }
       }
   }"

definition query :: "'w dns_env \<Rightarrow> string \<Rightarrow> 16 word \<Rightarrow> ('w, dns_error + dns_msg) dns" where
  "query E name qtype = exchange E (set_question (de_fqdn E name) qtype)"

subsection \<open>Reading answers\<close>

definition bare_name :: "go_env \<Rightarrow> string \<Rightarrow> string" where
  "bare_name G t = trim_suffix (to_lower G t) ''.''"

definition answers :: "(rr_data \<Rightarrow> 'a option) \<Rightarrow> dns_msg \<Rightarrow> 'a list" where
  "answers f m = List.map_filter (\<lambda>rr. f (rr_data rr)) (dm_answer m)"

definition answers_ok :: "(rr_data \<Rightarrow> 'a option) \<Rightarrow> dns_msg \<Rightarrow> 'a list" where
  "answers_ok f m = (if dm_rcode m = RcodeSuccess then answers f m else [])"

fun cname_of :: "go_env \<Rightarrow> rr_data \<Rightarrow> string option" where
  "cname_of G (RR_CNAME t) = Some (bare_name G t)"
| "cname_of G _ = None"

fun a_of :: "rr_data \<Rightarrow> string option" where
  "a_of (RR_A a) = Some (ip_text a)"
| "a_of _ = None"

fun aaaa_of :: "rr_data \<Rightarrow> string option" where
  "aaaa_of (RR_AAAA a) = Some (ip_text a)"
| "aaaa_of _ = None"

fun mx_of :: "go_env \<Rightarrow> rr_data \<Rightarrow> mx_record option" where
  "mx_of G (RR_MX preference t) =
     (if preference = 0 \<and> trim_space t = ''.'' then Some \<lparr>mx_preference = 0, mx_target = ''.''\<rparr>
      else (let target = bare_name G t in
        if target \<noteq> [] then Some \<lparr>mx_preference = preference, mx_target = target\<rparr> else None))"
| "mx_of G _ = None"

fun ns_of :: "go_env \<Rightarrow> rr_data \<Rightarrow> string option" where
  "ns_of G (RR_NS t) = Some (bare_name G t)"
| "ns_of G _ = None"

fun txt_of :: "rr_data \<Rightarrow> string option" where
  "txt_of (RR_TXT ts) = Some (join_with '' '' ts)"
| "txt_of _ = None"

fun srv_text_of :: "go_env \<Rightarrow> rr_data \<Rightarrow> string option" where
  "srv_text_of G (RR_SRV _ _ port t) = Some (bare_name G t @ '':'' @ itoa (uint port))"
| "srv_text_of G _ = None"

fun soa_of :: "rr_data \<Rightarrow> string option" where
  "soa_of (RR_SOA ns mbox) = Some (ns @ '' '' @ mbox)"
| "soa_of _ = None"

fun caa_of :: "rr_data \<Rightarrow> string option" where
  "caa_of (RR_CAA tag v) = Some (tag @ '' '' @ v)"
| "caa_of _ = None"

fun ptr_of :: "rr_data \<Rightarrow> string option" where
  "ptr_of (RR_PTR t) = Some t"
| "ptr_of _ = None"

text \<open>The parameters of a binding are a map, so a repeated key keeps its last value.\<close>

definition binding_params :: "meta \<Rightarrow> meta" where
  "binding_params kvs = fold (\<lambda>(k, v) m. map_put m k v) kvs []"

fun binding_of :: "go_env \<Rightarrow> rr_data \<Rightarrow> service_binding option" where
  "binding_of G (RR_SVCB p t kvs) =
     Some \<lparr>sb_priority = p, sb_target = normalize_dns_name G t, sb_params = binding_params kvs\<rparr>"
| "binding_of G (RR_HTTPS p t kvs) =
     Some \<lparr>sb_priority = p, sb_target = normalize_dns_name G t, sb_params = binding_params kvs\<rparr>"
| "binding_of G _ = None"

definition response_status :: "dns_msg option \<Rightarrow> 16 word \<Rightarrow> dns_status" where
  "response_status resp qtype =
     (case resp of
        None \<Rightarrow> DNSStatusError
      | Some m \<Rightarrow>
          if dm_rcode m = RcodeNameError then DNSStatusNXDomain
          else if dm_rcode m = RcodeServerFailure then DNSStatusServFail
          else if dm_rcode m = RcodeRefused then DNSStatusRefused
          else if dm_rcode m = RcodeSuccess then
            (if list_ex (\<lambda>rr. rr_type rr = qtype) (dm_answer m) then DNSStatusResolved else DNSStatusNoData)
          else DNSStatusError)"

subsection \<open>Resolving\<close>

definition resolve_with ::
  "'w dns_env \<Rightarrow> string \<Rightarrow> 16 word \<Rightarrow> (dns_error \<Rightarrow> dns_error) \<Rightarrow> (dns_msg \<Rightarrow> 'a) \<Rightarrow> ('w, dns_error + 'a) dns"
where
  "resolve_with E name qtype wrap f = do {
     res \<leftarrow> query E name qtype;
     ret (case res of Inl e \<Rightarrow> Inl (wrap e) | Inr m \<Rightarrow> Inr (f m))
   }"

definition resolve_a :: "'w dns_env \<Rightarrow> string \<Rightarrow> ('w, dns_error + string list) dns" where
  "resolve_a E name = resolve_with E name TypeA (WrappedError ''falha ao resolver A'') (answers_ok a_of)"

definition resolve_aaaa :: "'w dns_env \<Rightarrow> string \<Rightarrow> ('w, dns_error + string list) dns" where
  "resolve_aaaa E name = resolve_with E name TypeAAAA id (answers_ok aaaa_of)"

definition resolve_txt :: "'w dns_env \<Rightarrow> string \<Rightarrow> ('w, dns_error + string list) dns" where
  "resolve_txt E name = resolve_with E name TypeTXT id (answers_ok txt_of)"

definition resolve_srv :: "'w dns_env \<Rightarrow> string \<Rightarrow> ('w, dns_error + string list) dns" where
  "resolve_srv E name = resolve_with E name TypeSRV id (answers_ok (srv_text_of (de_go E)))"

definition resolve_soa :: "'w dns_env \<Rightarrow> string \<Rightarrow> ('w, dns_error + string list) dns" where
  "resolve_soa E name = resolve_with E name TypeSOA id (answers_ok soa_of)"

definition resolve_caa :: "'w dns_env \<Rightarrow> string \<Rightarrow> ('w, dns_error + string list) dns" where
  "resolve_caa E name = resolve_with E name TypeCAA id (answers_ok caa_of)"

definition resolve_ptr :: "'w dns_env \<Rightarrow> string \<Rightarrow> ('w, dns_error + string list) dns" where
  "resolve_ptr E name = resolve_with E name TypePTR id (answers_ok ptr_of)"

definition resolve_address_ptr :: "'w dns_env \<Rightarrow> string \<Rightarrow> ('w, dns_error + string list) dns" where
  "resolve_address_ptr E address =
     (case de_reverse_addr E (trim_space address) of
        Inl e \<Rightarrow> ret (Inl (WrappedError (''endere'' @ [CHR 0xC3, CHR 0xA7] @ ''o inv'' @ [CHR 0xC3, CHR 0xA1] @ ''lido para PTR'') e))
      | Inr reverse \<Rightarrow> resolve_ptr E reverse)"

definition resolve_mx_records :: "'w dns_env \<Rightarrow> string \<Rightarrow> ('w, dns_error + mx_record list) dns" where
  "resolve_mx_records E name =
     resolve_with E name TypeMX (WrappedError ''falha ao resolver MX'')
       (\<lambda>m. sort_key (\<lambda>rec. (mx_preference rec, mx_target rec)) (answers_ok (mx_of (de_go E)) m))"

definition resolve_mx :: "'w dns_env \<Rightarrow> string \<Rightarrow> ('w, dns_error + string list) dns" where
  "resolve_mx E name = do {
     res \<leftarrow> resolve_mx_records E name;
     ret (case res of Inl e \<Rightarrow> Inl e | Inr recs \<Rightarrow> Inr (map mx_target recs))
   }"

definition lookup_ns :: "'w dns_env \<Rightarrow> string \<Rightarrow> ('w, dns_error + string list) dns" where
  "lookup_ns E domain =
     resolve_with E domain TypeNS (WrappedError (''consulta NS para '' @ domain)) (answers (ns_of (de_go E)))"

definition resolve_dname :: "'w dns_env \<Rightarrow> string \<Rightarrow> ('w, dns_error + dname_record list) dns" where
  "resolve_dname E name =
     resolve_with E name TypeDNAME id
       (\<lambda>m. List.map_filter (\<lambda>rr. case rr_data rr of
            RR_DNAME t \<Rightarrow> Some \<lparr>dn_owner = normalize_dns_name (de_go E) (rr_name rr),
              dn_target = normalize_dns_name (de_go E) t\<rparr>
          | _ \<Rightarrow> None) (dm_answer m))"

definition resolve_bindings ::
  "'w dns_env \<Rightarrow> string \<Rightarrow> 16 word \<Rightarrow> ('w, dns_error + service_binding list) dns" where
  "resolve_bindings E name qtype = resolve_with E name qtype id (answers (binding_of (de_go E)))"

definition check_nxdomain :: "'w dns_env \<Rightarrow> string \<Rightarrow> ('w, dns_error + bool) dns" where
  "check_nxdomain E domain =
     resolve_with E domain TypeA (WrappedError ((''verifica'' @ [CHR 0xC3, CHR 0xA7, CHR 0xC3, CHR 0xA3] @ ''o NXDOMAIN para '') @ domain))
       (\<lambda>m. dm_rcode m = RcodeNameError)"

text \<open>Aliases: a direct query, an address query whose answer carries the aliases, and the
  chain that is followed step by step. Errors of the direct queries are ignored.\<close>

fun resolve_cname_types :: "'w dns_env \<Rightarrow> string \<Rightarrow> 16 word list \<Rightarrow> ('w, dns_error + string list) dns" where
  "resolve_cname_types E domain [] = ret (Inr [])"
| "resolve_cname_types E domain (qtype # qtypes) = do {
     res \<leftarrow> query E domain qtype;
     case res of
       Inl _ \<Rightarrow> resolve_cname_types E domain qtypes
     | Inr m \<Rightarrow>
         (let cnames = answers (cname_of (de_go E)) m in
          if length cnames > 0 then ret (Inr cnames) else resolve_cname_types E domain qtypes)
   }"

definition resolve_cname :: "'w dns_env \<Rightarrow> string \<Rightarrow> ('w, dns_error + string list) dns" where
  "resolve_cname E domain = resolve_cname_types E domain [TypeCNAME, TypeA]"

definition resolve_cname_via_a :: "'w dns_env \<Rightarrow> string \<Rightarrow> ('w, string list \<times> dns_error option) dns" where
  "resolve_cname_via_a E domain = do {
     res \<leftarrow> query E domain TypeA;
     ret (case res of Inl _ \<Rightarrow> ([], None) | Inr m \<Rightarrow> (answers (cname_of (de_go E)) m, None))
   }"

definition next_cname :: "go_env \<Rightarrow> dns_msg \<Rightarrow> string" where
  "next_cname G m = (case answers (cname_of G) m of [] \<Rightarrow> [] | t # _ \<Rightarrow> t)"

text \<open>Both results of the chain are meaningful when the context ends: what was found, and the
  error.\<close>

fun cname_chain_loop ::
  "'w dns_env \<Rightarrow> string \<Rightarrow> nat \<Rightarrow> string list \<Rightarrow> string list \<Rightarrow> string \<Rightarrow> ('w, string list \<times> dns_error option) dns"
where
  "cname_chain_loop E domain 0 seen chain current = ret (chain, None)"
| "cname_chain_loop E domain (Suc depth) seen chain current = do {
     done \<leftarrow> context_err E;
     case done of
       Some e \<Rightarrow> ret (chain, Some e)
     | None \<Rightarrow>
         (let fqdn = de_fqdn E current in
          if fqdn \<in> set seen then ret (chain, None)
          else do {
            res \<leftarrow> query E current TypeCNAME;
            case res of
              Inl e \<Rightarrow> ret (if length chain > 0 then (chain, None) else ([], Some e))
            | Inr m \<Rightarrow>
                (let nxt = next_cname (de_go E) m in
                 if nxt = [] then
                   (if length chain = 0 then resolve_cname_via_a E domain else ret (chain, None))
                 else cname_chain_loop E domain depth (fqdn # seen) (chain @ [nxt]) nxt)
          })
   }"

definition resolve_cname_chain :: "'w dns_env \<Rightarrow> string \<Rightarrow> ('w, string list \<times> dns_error option) dns" where
  "resolve_cname_chain E domain = cname_chain_loop E domain max_chain_depth [] [] domain"

end
