(* ===== verification/DnsZone.thy ===== *)
theory DnsZone
  imports DnsModel
begin

section \<open>Zones and consensus (internal/dns/authoritative.go, consensus.go)\<close>

text \<open>
  The status of a name, the authoritative zone of a host with the delegation its parent
  publishes, and the comparison of the answers of several resolvers. The goroutines of
  \<open>consensusFor\<close> write to one element each of the list of views; they are run here in the order
  of the servers.
\<close>

subsection \<open>Status of a name\<close>

definition resolve_status :: "'w dns_env \<Rightarrow> string \<Rightarrow> 16 word \<Rightarrow> ('w, dns_status \<times> dns_error option) dns" where
  "resolve_status E name qtype = do {
     res \<leftarrow> query E name qtype;
     ret (case res of
        Inl e \<Rightarrow> (if timeout_error e then DNSStatusTimeout else DNSStatusError, Some e)
      | Inr m \<Rightarrow> (response_status (Some m) qtype, None))
   }"

text \<open>How the statuses of the two address families combine once neither is resolved.\<close>

definition address_status :: "dns_status \<Rightarrow> dns_status \<Rightarrow> dns_status" where
  "address_status a aaaa =
     (if aaaa = DNSStatusResolved then aaaa
      else if a = DNSStatusTimeout \<or> aaaa = DNSStatusTimeout then DNSStatusTimeout
      else if a = DNSStatusServFail \<or> aaaa = DNSStatusServFail then DNSStatusServFail
      else if a = DNSStatusRefused \<or> aaaa = DNSStatusRefused then DNSStatusRefused
      else if a = DNSStatusError \<or> aaaa = DNSStatusError then DNSStatusError
      else if a = DNSStatusNXDomain \<and> aaaa = DNSStatusNXDomain then DNSStatusNXDomain
      else if a = DNSStatusNoData \<and> aaaa = DNSStatusNoData then DNSStatusNoData
      else DNSStatusError)"

definition resolve_address_status :: "'w dns_env \<Rightarrow> string \<Rightarrow> ('w, dns_status) dns" where
  "resolve_address_status E name = do {
     (a, _) \<leftarrow> resolve_status E name TypeA;
     if a = DNSStatusResolved then ret a
     else do {
       (aaaa, _) \<leftarrow> resolve_status E name TypeAAAA;
       ret (address_status a aaaa)
     }
   }"

definition resolve_txt_with_status ::
  "'w dns_env \<Rightarrow> string \<Rightarrow> ('w, string list \<times> dns_status \<times> dns_error option) dns" where
  "resolve_txt_with_status E name = do {
     (status, err) \<leftarrow> resolve_status E name TypeTXT;
     if err \<noteq> None \<or> status \<noteq> DNSStatusResolved then ret ([], status, err)
     else do {
       res \<leftarrow> resolve_txt E name;
       ret (case res of Inl e \<Rightarrow> ([], status, Some e) | Inr vs \<Rightarrow> (vs, status, None))
     }
   }"

definition srv_records :: "go_env \<Rightarrow> dns_msg \<Rightarrow> srv_record list" where
  "srv_records G m = List.map_filter (\<lambda>rr. case rr_data rr of
       RR_SRV p w port t \<Rightarrow> Some \<lparr>srv_owner = bare_name G (rr_name rr), srv_priority = p, srv_weight = w,
         srv_port = port, srv_target = bare_name G t\<rparr>
     | _ \<Rightarrow> None) (dm_answer m)"

definition resolve_srv_records ::
  "'w dns_env \<Rightarrow> string \<Rightarrow> ('w, srv_record list \<times> dns_status \<times> dns_error option) dns" where
  "resolve_srv_records E owner = do {
     res \<leftarrow> query E owner TypeSRV;
     ret (case res of
        Inl e \<Rightarrow> ([], DNSStatusError, Some e)
      | Inr m \<Rightarrow> (srv_records (de_go E) m, response_status (Some m) TypeSRV, None))
   }"

definition common_srv_owners :: "string list" where
  "common_srv_owners = [''_sip._tcp'', ''_sips._tcp'', ''_autodiscover._tcp'', ''_xmpp-client._tcp'',
     ''_xmpp-server._tcp'', ''_minecraft._tcp'']"

fun discover_srv_owners ::
  "'w dns_env \<Rightarrow> string \<Rightarrow> string list \<Rightarrow> srv_record list \<Rightarrow> ('w, srv_record list) dns" where
  "discover_srv_owners E domain [] acc = ret acc"
| "discover_srv_owners E domain (p # ps) acc = do {
     (records, _, err) \<leftarrow> resolve_srv_records E (trim_suffix p ''.'' @ ''.'' @ trim_suffix domain ''.'');
     discover_srv_owners E domain ps (if err = None then acc @ records else acc)
   }"

definition discover_common_srv ::
  "'w dns_env \<Rightarrow> string \<Rightarrow> string list \<Rightarrow> ('w, dns_error + srv_record list) dns" where
  "discover_common_srv E domain owners = do {
     all \<leftarrow> discover_srv_owners E domain (if length owners = 0 then common_srv_owners else owners) [];
     ret (Inr all)
   }"

subsection \<open>What the servers of the parent zone say\<close>

definition ns_names :: "go_env \<Rightarrow> string \<Rightarrow> dns_rr list \<Rightarrow> string list" where
  "ns_names G wanted rrs = List.map_filter (\<lambda>rr. case rr_data rr of
       RR_NS t \<Rightarrow> if equal_fold G (rr_name rr) wanted then Some (normalize_dns_name G t) else None
     | _ \<Rightarrow> None) rrs"

definition delegation_nameservers :: "go_env \<Rightarrow> dns_msg \<Rightarrow> string \<Rightarrow> string list" where
  "delegation_nameservers G m wanted = unique_sorted G (ns_names G wanted (dm_answer m @ dm_ns m))"

fun glue_address :: "rr_data \<Rightarrow> string option" where
  "glue_address (RR_A a) = Some (ip_text a)"
| "glue_address (RR_AAAA a) = Some (ip_text a)"
| "glue_address _ = None"

definition merge_delegation_glue ::
  "go_env \<Rightarrow> (string, string list) gomap \<Rightarrow> dns_rr list \<Rightarrow> string list \<Rightarrow> (string, string list) gomap" where
  "merge_delegation_glue G destination records delegated =
     fold (\<lambda>rr m.
       (let owner = normalize_dns_name G (rr_name rr) in
        if owner \<notin> set (map (normalize_dns_name G) delegated) then m
        else (case glue_address (rr_data rr) of
           None \<Rightarrow> m
         | Some a \<Rightarrow> map_put m owner ((case map_of m owner of None \<Rightarrow> [] | Some l \<Rightarrow> l) @ [a]))))
     records destination"

record delegation_summary =
  ds_reference :: "string list"
  ds_combined :: "string list"
  ds_glue :: "(string, string list) gomap"
  ds_valid_views :: nat
  ds_consistent :: bool

definition valid_view :: "dns_msg \<Rightarrow> bool" where
  "valid_view m \<longleftrightarrow> \<not> (dm_rcode m \<noteq> RcodeSuccess \<and> dm_rcode m \<noteq> RcodeNameError)"

definition summarize_view :: "go_env \<Rightarrow> string \<Rightarrow> dns_msg \<Rightarrow> delegation_summary \<Rightarrow> delegation_summary" where
  "summarize_view G wanted m s =
     (if \<not> valid_view m then s
      else
        (let delegated = delegation_nameservers G m wanted;
             s1 = (if ds_valid_views s = 0 then s\<lparr>ds_reference := delegated\<rparr>
                   else if \<not> equal_dns_name_sets G (ds_reference s) delegated then s\<lparr>ds_consistent := False\<rparr>
                   else s)
         in s1\<lparr>ds_valid_views := ds_valid_views s1 + 1, ds_combined := ds_combined s1 @ delegated,
              ds_glue := merge_delegation_glue G (ds_glue s1) (dm_extra m) delegated\<rparr>))"

definition delegation_views :: "go_env \<Rightarrow> dns_msg list \<Rightarrow> string \<Rightarrow> delegation_summary" where
  "delegation_views G responses wanted =
     fold (summarize_view G wanted) responses
       \<lparr>ds_reference = [], ds_combined = [], ds_glue = [], ds_valid_views = 0, ds_consistent = True\<rparr>"

definition summarize_parent_delegation_responses ::
  "go_env \<Rightarrow> dns_msg list \<Rightarrow> string \<Rightarrow> string list \<times> (string, string list) gomap \<times> bool" where
  "summarize_parent_delegation_responses G responses wanted =
     (let s = delegation_views G responses wanted in
      (unique_sorted G (ds_combined s),
       map (\<lambda>(ns, addresses). (ns, unique_sorted G addresses)) (ds_glue s),
       ds_valid_views s > 0 \<and> ds_consistent s \<and> length (ds_reference s) > 0))"

text \<open>The first DS record found ends the search with a positive result.\<close>

fun has_ds :: "go_env \<Rightarrow> string \<Rightarrow> dns_rr list \<Rightarrow> bool" where
  "has_ds G wanted [] = False"
| "has_ds G wanted (rr # rrs) =
     (if rr_data rr = RR_DS \<and> equal_fold G (rr_name rr) wanted then True else has_ds G wanted rrs)"

fun summarize_parent_ds_from :: "go_env \<Rightarrow> string \<Rightarrow> bool \<Rightarrow> dns_msg list \<Rightarrow> bool \<times> bool" where
  "summarize_parent_ds_from G wanted checked [] = (False, checked)"
| "summarize_parent_ds_from G wanted checked (m # ms) =
     (if dm_rcode m \<noteq> RcodeSuccess then summarize_parent_ds_from G wanted checked ms
      else if has_ds G wanted (dm_answer m) \<or> has_ds G wanted (dm_ns m) then (True, True)
      else summarize_parent_ds_from G wanted True ms)"

definition summarize_parent_ds_responses :: "go_env \<Rightarrow> dns_msg list \<Rightarrow> string \<Rightarrow> bool \<times> bool" where
  "summarize_parent_ds_responses G responses wanted = summarize_parent_ds_from G wanted False responses"

text \<open>The addresses of the parent's servers; errors of the lookups are ignored.\<close>

fun server_addresses :: "'w dns_env \<Rightarrow> string list \<Rightarrow> string list \<Rightarrow> ('w, string list) dns" where
  "server_addresses E [] acc = ret acc"
| "server_addresses E (ns # nss) acc = do {
     ips \<leftarrow> resolve_a E ns;
     ips6 \<leftarrow> resolve_aaaa E ns;
     server_addresses E nss (acc @ (case ips of Inl _ \<Rightarrow> [] | Inr l \<Rightarrow> l) @ (case ips6 of Inl _ \<Rightarrow> [] | Inr l \<Rightarrow> l))
   }"

fun query_each_server ::
  "'w dns_env \<Rightarrow> dns_query \<Rightarrow> string list \<Rightarrow> dns_msg list \<Rightarrow> ('w, dns_msg list \<times> bool) dns" where
  "query_each_server E q [] responses = do {
     done \<leftarrow> context_err E;
     ret (responses, done = None)
   }"
| "query_each_server E q (server # servers) responses = do {
     done \<leftarrow> context_err E;
     if done \<noteq> None then ret (responses, False)
     else do {
       waited \<leftarrow> limiter_wait E;
       if waited \<noteq> None then ret (responses, False)
       else do {
         r \<leftarrow> reads fst;
         res \<leftarrow> calls (de_exchange E Udp (operation_timeout r) (join_host_port server ''53'') q);
         query_each_server E q servers (case res of Inl _ \<Rightarrow> responses | Inr m \<Rightarrow> responses @ [m])
       }
     }
   }"

definition query_parent_servers ::
  "'w dns_env \<Rightarrow> string list \<Rightarrow> string \<Rightarrow> 16 word \<Rightarrow> ('w, dns_msg list \<times> bool) dns" where
  "query_parent_servers E servers wanted qtype =
     query_each_server E ((set_question wanted qtype)\<lparr>dq_recursion_desired := False\<rparr>)
       (unique_sorted (de_go E) servers) []"

definition lookup_ds_at_parent :: "'w dns_env \<Rightarrow> string \<Rightarrow> string list \<Rightarrow> ('w, bool \<times> bool) dns" where
  "lookup_ds_at_parent E zone parent_ns = do {
     servers \<leftarrow> server_addresses E parent_ns [];
     (responses, complete) \<leftarrow> query_parent_servers E servers (de_fqdn E zone) TypeDS;
     ret (case summarize_parent_ds_responses (de_go E) responses (de_fqdn E zone) of
        (hasDS, checked) \<Rightarrow> if \<not> complete \<and> \<not> hasDS then (False, False) else (hasDS, checked))
   }"

definition lookup_delegation_at_parent ::
  "'w dns_env \<Rightarrow> string \<Rightarrow> string list \<Rightarrow> ('w, string list \<times> (string, string list) gomap \<times> bool) dns" where
  "lookup_delegation_at_parent E zone parent_ns = do {
     servers \<leftarrow> server_addresses E parent_ns [];
     (responses, complete) \<leftarrow> query_parent_servers E servers (de_fqdn E zone) TypeNS;
     ret (case summarize_parent_delegation_responses (de_go E) responses (de_fqdn E zone) of
        (delegated, glue, verified) \<Rightarrow> (delegated, glue, if \<not> complete then False else verified))
   }"

definition lookup_exact_ns :: "'w dns_env \<Rightarrow> string \<Rightarrow> ('w, string list) dns" where
  "lookup_exact_ns E name = do {
     res \<leftarrow> query E name TypeNS;
     ret (case res of
        Inl _ \<Rightarrow> []
      | Inr m \<Rightarrow> unique_sorted (de_go E) (ns_names (de_go E) (de_fqdn E name) (dm_answer m @ dm_ns m)))
   }"

subsection \<open>The authoritative zone\<close>

definition soa_owners :: "go_env \<Rightarrow> dns_rr list \<Rightarrow> string list" where
  "soa_owners G rrs = List.map_filter (\<lambda>rr. case rr_data rr of
       RR_SOA _ _ \<Rightarrow> Some (normalize_dns_name G (rr_name rr)) | _ \<Rightarrow> None) rrs"

definition find_soa_owner :: "'w dns_env \<Rightarrow> string \<Rightarrow> ('w, dns_error + string) dns" where
  "find_soa_owner E host = do {
     res \<leftarrow> query E host TypeSOA;
     ret (case res of
        Inl e \<Rightarrow> Inl e
      | Inr m \<Rightarrow>
          (case soa_owners (de_go E) (dm_answer m) @ soa_owners (de_go E) (dm_ns m) of
             z # _ \<Rightarrow> Inr z
           | [] \<Rightarrow>
               if dm_rcode m = RcodeSuccess \<or> dm_rcode m = RcodeNameError then Inr []
               else if dm_rcode m = RcodeServerFailure \<or> dm_rcode m = RcodeRefused then
                 Inl (PlainError (''rcode DNS inconclusivo '' @ de_rcode_text E (dm_rcode m)))
               else Inl (PlainError (''rcode DNS inesperado '' @ de_rcode_text E (dm_rcode m)))))
   }"

text \<open>What the discovery of a zone already knows of its delegation.\<close>

record discovered =
  dz_zone :: string
  dz_delegation :: "string list"
  dz_parent_ns :: "string list"
  dz_glue :: "(string, string list) gomap"
  dz_verified :: bool

definition no_delegation :: "string \<Rightarrow> discovered" where
  "no_delegation z = \<lparr>dz_zone = z, dz_delegation = [], dz_parent_ns = [], dz_glue = [], dz_verified = False\<rparr>"

text \<open>The loop over the ancestors of the host; its argument is the list of the labels left.\<close>

fun zone_search :: "'w dns_env \<Rightarrow> string list \<Rightarrow> ('w, discovered) dns" where
  "zone_search E [] = ret (no_delegation [])"
| "zone_search E (l # ls) =
     (let candidate = join_with ''.'' (l # ls); parent = parent_zone (de_go E) candidate;
          exact = do {
            ns \<leftarrow> lookup_exact_ns E candidate;
            if length ns > 0 then ret (no_delegation candidate) else zone_search E ls
          }
      in if parent \<noteq> [] then do {
           parent_ns \<leftarrow> lookup_exact_ns E parent;
           (delegated, glue, verified) \<leftarrow> lookup_delegation_at_parent E candidate parent_ns;
           if verified then
             ret \<lparr>dz_zone = candidate, dz_delegation = delegated, dz_parent_ns = parent_ns,
               dz_glue = glue, dz_verified = True\<rparr>
           else exact
         }
         else exact)"

definition delegation_details :: "'w dns_env \<Rightarrow> authoritative_zone \<Rightarrow> ('w, authoritative_zone) dns" where
  "delegation_details E result =
     (if az_parent_delegation_verified result then ret result
      else do {
        (delegated, glue, verified) \<leftarrow>
          lookup_delegation_at_parent E (az_zone result) (az_parent_nameservers result);
        ret (result\<lparr>az_nameservers := (if length delegated > 0 then delegated else az_nameservers result),
          az_glue := glue, az_parent_delegation_verified := verified\<rparr>)
      })"

definition ds_details :: "'w dns_env \<Rightarrow> authoritative_zone \<Rightarrow> ('w, authoritative_zone) dns" where
  "ds_details E result = do {
     (hasDS, checked) \<leftarrow> lookup_ds_at_parent E (az_zone result) (az_parent_nameservers result);
     let result' = result\<lparr>az_parent_has_ds := hasDS, az_parent_ds_checked := checked\<rparr>;
     if checked then ret result'
     else do {
       (status, err) \<leftarrow> resolve_status E (az_zone result) TypeDS;
       ret (if err = None \<and> (status = DNSStatusResolved \<or> status = DNSStatusNoData)
            then result'\<lparr>az_parent_ds_checked := True, az_parent_has_ds := (status = DNSStatusResolved)\<rparr>
            else result')
     }
   }"

definition build_authoritative_zone_details ::
  "'w dns_env \<Rightarrow> string \<Rightarrow> discovered \<Rightarrow> ('w, authoritative_zone) dns" where
  "build_authoritative_zone_details E zone d = do {
     ns \<leftarrow> lookup_exact_ns E zone;
     let base = \<lparr>az_zone = zone, az_parent_zone = parent_zone (de_go E) zone, az_nameservers = ns,
       az_parent_nameservers = [], az_parent_has_ds = False, az_parent_ds_checked = False,
       az_parent_delegation_verified = False, az_glue = []\<rparr>;
     let known = (if dz_verified d then
         base\<lparr>az_nameservers := dz_delegation d, az_parent_nameservers := dz_parent_ns d,
           az_glue := dz_glue d, az_parent_delegation_verified := True\<rparr> else base);
     result \<leftarrow> (if az_parent_zone known \<noteq> [] then do {
         parent_ns \<leftarrow> (if length (az_parent_nameservers known) = 0
           then lookup_exact_ns E (az_parent_zone known) else ret (az_parent_nameservers known));
         delegated \<leftarrow> delegation_details E (known\<lparr>az_parent_nameservers := parent_ns\<rparr>);
         ds_details E delegated
       } else ret known);
     ret (result\<lparr>az_nameservers := unique_sorted (de_go E) (az_nameservers result),
       az_parent_nameservers := unique_sorted (de_go E) (az_parent_nameservers result)\<rparr>)
   }"

definition authoritative_zone_details ::
  "'w dns_env \<Rightarrow> discovered \<Rightarrow> ('w, dns_error + authoritative_zone) dns" where
  "authoritative_zone_details E d = do {
     let zone = normalize_dns_name (de_go E) (dz_zone d);
     r \<leftarrow> reads fst;
     case map_of (rv_zone_cache r) zone of
       Some cached \<Rightarrow> ret (Inr cached)
     | None \<Rightarrow> do {
         result \<leftarrow> build_authoritative_zone_details E zone d;
         done \<leftarrow> context_err E;
         case done of
           Some e \<Rightarrow> ret (Inl e)
         | None \<Rightarrow> do {
             update_resolver (\<lambda>r. r\<lparr>rv_zone_cache := map_put (rv_zone_cache r) zone result\<rparr>);
             ret (Inr result)
           }
       }
   }"

definition find_authoritative_zone :: "'w dns_env \<Rightarrow> string \<Rightarrow> ('w, dns_error + authoritative_zone) dns" where
  "find_authoritative_zone E raw = do {
     let host = normalize_dns_name (de_go E) raw;
     soa \<leftarrow> find_soa_owner E host;
     done \<leftarrow> context_err E;
     case (soa, done) of
       (Inl e, Some _) \<Rightarrow> ret (Inl (WrappedError (''consulta SOA autoritativa de '' @ host) e))
     | _ \<Rightarrow> do {
         let owner = (case soa of Inl _ \<Rightarrow> [] | Inr z \<Rightarrow> z);
         let zone = (if owner \<noteq> [] \<and> \<not> is_dns_ancestor_or_self (de_go E) host owner then [] else owner);
         d \<leftarrow> (if zone = [] then zone_search E (split_on CHR ''.'' host) else ret (no_delegation zone));
         if dz_zone d = [] then
           ret (Inl (case soa of
              Inl e \<Rightarrow> WrappedError ((''zona autoritativa n'' @ [CHR 0xC3, CHR 0xA3] @ ''o encontrada para '') @ host @ ('' ap'' @ [CHR 0xC3, CHR 0xB3] @ ''s resposta SOA inconclusiva'')) e
            | Inr _ \<Rightarrow> PlainError ((''zona autoritativa n'' @ [CHR 0xC3, CHR 0xA3] @ ''o encontrada para '') @ host)))
         else authoritative_zone_details E d
       }
   }"

subsection \<open>Consensus (consensus.go)\<close>

definition status_from_error :: "dns_error \<Rightarrow> dns_status" where
  "status_from_error e = (if timeout_error e then DNSStatusTimeout else DNSStatusError)"

definition consensus_answer :: "go_env \<Rightarrow> dns_rr \<Rightarrow> string" where
  "consensus_answer G rr =
     (case rr_data rr of
        RR_A a \<Rightarrow> ''a:'' @ ip_text a
      | RR_AAAA a \<Rightarrow> ''aaaa:'' @ ip_text a
      | RR_CNAME t \<Rightarrow> ''cname:'' @ to_lower G (trim_suffix t ''.'')
      | _ \<Rightarrow> to_lower G (rr_text rr))"

fun answer_set_from :: "go_env \<Rightarrow> 16 word \<Rightarrow> dns_rr list \<Rightarrow> string list \<Rightarrow> 32 word \<Rightarrow> string list \<times> 32 word" where
  "answer_set_from G qtype [] acc ttl = (acc, ttl)"
| "answer_set_from G qtype (rr # rrs) acc ttl =
     (if rr_type rr \<noteq> qtype \<and> rr_type rr \<noteq> TypeCNAME then answer_set_from G qtype rrs acc ttl
      else answer_set_from G qtype rrs (acc @ [consensus_answer G rr])
        (if ttl = 0 \<or> rr_ttl rr < ttl then rr_ttl rr else ttl))"

definition answer_set :: "go_env \<Rightarrow> dns_msg option \<Rightarrow> 16 word \<Rightarrow> string list \<times> 32 word" where
  "answer_set G message qtype =
     (case message of
        None \<Rightarrow> ([], 0)
      | Some m \<Rightarrow> (case answer_set_from G qtype (dm_answer m) [] 0 of (vs, ttl) \<Rightarrow> (sort vs, ttl)))"

definition resolve_view :: "'w dns_env \<Rightarrow> string \<Rightarrow> 16 word \<Rightarrow> string \<Rightarrow> ('w, dns_view) dns" where
  "resolve_view E name qtype server = do {
     let view = zero_dns_view\<lparr>dv_resolver := server, dv_status := DNSStatusError\<rparr>;
     waited \<leftarrow> limiter_wait E;
     if waited \<noteq> None then ret view
     else do {
       started \<leftarrow> calls (de_now_ms E);
       r \<leftarrow> reads fst;
       res \<leftarrow> calls (de_exchange E Udp (rv_client_timeout r) server (set_question (de_fqdn E name) qtype));
       ended \<leftarrow> calls (de_now_ms E);
       let timed = view\<lparr>dv_latency_ms := ended - started\<rparr>;
       ret (case res of
          Inl e \<Rightarrow> timed\<lparr>dv_status := status_from_error e\<rparr>
        | Inr m \<Rightarrow> (case answer_set (de_go E) (Some m) qtype of
             (vs, ttl) \<Rightarrow> timed\<lparr>dv_status := response_status (Some m) qtype,
                dv_answers := vs, dv_ttl := ttl\<rparr>))
     }
   }"

definition conclusive_view :: "dns_view \<Rightarrow> bool" where
  "conclusive_view v \<longleftrightarrow> \<not> (dv_status v = DNSStatusError \<or> dv_status v = DNSStatusTimeout \<or>
     dv_status v = DNSStatusServFail)"

definition view_key :: "dns_view \<Rightarrow> string" where
  "view_key v = dns_status_text (dv_status v) @ ''|'' @ join_with [CHR 0x0A] (dv_answers v)"

text \<open>The maps of counts, \<open>counts[key]++\<close> for each element.\<close>

definition count_keys :: "'k list \<Rightarrow> ('k, int) gomap" where
  "count_keys ks = fold (\<lambda>k m. map_put m k ((case map_of m k of None \<Rightarrow> 0 | Some n \<Rightarrow> n) + 1)) ks []"

definition consensus_state :: "dns_view list \<Rightarrow> int \<Rightarrow> string" where
  "consensus_state views quorum =
     (let valid = filter conclusive_view views;
          counts = count_keys (map view_key valid);
          positive = list_ex (\<lambda>v. dv_status v = DNSStatusResolved) valid;
          negative = list_ex (\<lambda>v. dv_status v = DNSStatusNXDomain \<or> dv_status v = DNSStatusNoData) valid
      in if list_ex (\<lambda>(_, n). n \<ge> quorum) counts then ''CONSENSUS''
         else if int (length valid) < quorum then ''INCONCLUSIVE''
         else if positive \<and> negative then ''PROPAGATING''
         else ''SPLIT_HORIZON'')"

text \<open>The loop ranges over the map, whose order \<open>counts\<close> stands for.\<close>

definition status_with_quorum :: "(dns_status, int) gomap \<Rightarrow> int \<Rightarrow> dns_status" where
  "status_with_quorum counts quorum =
     (case find (\<lambda>(_, n). n \<ge> quorum) counts of None \<Rightarrow> DNSStatusError | Some (s, _) \<Rightarrow> s)"

definition consensus_status :: "dns_view list \<Rightarrow> int \<Rightarrow> dns_status" where
  "consensus_status views quorum = status_with_quorum (count_keys (map dv_status views)) quorum"

fun traverse :: "('a \<Rightarrow> ('s, 'b) state) \<Rightarrow> 'a list \<Rightarrow> ('s, 'b list) state" where
  "traverse f [] = ret []"
| "traverse f (x # xs) = do { y \<leftarrow> f x; ys \<leftarrow> traverse f xs; ret (y # ys) }"

definition consensus_for :: "'w dns_env \<Rightarrow> string \<Rightarrow> 16 word \<Rightarrow> ('w, dns_consensus) dns" where
  "consensus_for E name qtype = do {
     r \<leftarrow> reads fst;
     views \<leftarrow> traverse (resolve_view E name qtype) (rv_servers r);
     let quorum = int (length views div 2 + 1);
     ret \<lparr>dc_query_type = de_type_text E qtype, dc_state = consensus_state views quorum,
       dc_quorum = quorum, dc_views = views\<rparr>
   }"

definition resolve_consensus :: "'w dns_env \<Rightarrow> string \<Rightarrow> 16 word list \<Rightarrow> ('w, dns_consensus list) dns" where
  "resolve_consensus E name qtypes = do {
     r \<leftarrow> reads fst;
     if rv_doh_url r \<noteq> [] \<or> length (rv_servers r) < 2 then ret []
     else traverse (consensus_for E name) qtypes
   }"

text \<open>How the consensus on the two address families combines.\<close>

definition combine_consensus :: "dns_consensus \<Rightarrow> dns_consensus \<Rightarrow> dns_status \<times> string" where
  "combine_consensus a aaaa =
     (if dc_state a \<noteq> ''CONSENSUS'' \<or> dc_state aaaa \<noteq> ''CONSENSUS'' then
        (if dc_state a = ''PROPAGATING'' \<or> dc_state aaaa = ''PROPAGATING'' then (DNSStatusError, ''PROPAGATING'')
         else if dc_state a = ''SPLIT_HORIZON'' \<or> dc_state aaaa = ''SPLIT_HORIZON''
           then (DNSStatusError, ''SPLIT_HORIZON'')
         else (DNSStatusError, ''INCONCLUSIVE''))
      else
        (let a_status = consensus_status (dc_views a) (dc_quorum a);
             aaaa_status = consensus_status (dc_views aaaa) (dc_quorum aaaa) in
         if a_status = DNSStatusResolved \<or> aaaa_status = DNSStatusResolved then (DNSStatusResolved, ''CONSENSUS'')
         else if a_status = DNSStatusNXDomain \<and> aaaa_status = DNSStatusNXDomain
           then (DNSStatusNXDomain, ''CONSENSUS'')
         else if a_status = DNSStatusNoData \<and> aaaa_status = DNSStatusNoData
           then (DNSStatusNoData, ''CONSENSUS'')
         else (DNSStatusError, ''INCONCLUSIVE'')))"

definition address_consensus :: "'w dns_env \<Rightarrow> string \<Rightarrow> ('w, dns_status \<times> string) dns" where
  "address_consensus E name = do {
     r \<leftarrow> reads fst;
     if \<not> rv_consensus r \<or> rv_doh_url r \<noteq> [] \<or> length (rv_servers r) < 2 then do {
       s \<leftarrow> resolve_address_status E name;
       ret (s, ''DISABLED'')
     }
     else do {
       a \<leftarrow> consensus_for E name TypeA;
       aaaa \<leftarrow> consensus_for E name TypeAAAA;
       ret (combine_consensus a aaaa)
     }
   }"

end
