(* ===== verification/DnsChecks.thy ===== *)
theory DnsChecks
  imports DnsZone
begin

section \<open>Checks of a domain and the profile of a host (internal/dns/resolver.go)\<close>

text \<open>
  The detection of wildcards, the health of a nameserver, the zone transfer, the DNSSEC
  diagnosis, and the DNS profile of a host, which is what the rest of the program reads.
\<close>

subsection \<open>Wildcards\<close>

fun wildcard_answers :: "dns_rr list \<Rightarrow> wildcard_signature \<Rightarrow> wildcard_signature" where
  "wildcard_answers [] s = s"
| "wildcard_answers (rr # rrs) s = wildcard_answers rrs
     (case rr_data rr of
        RR_CNAME t \<Rightarrow> s\<lparr>ws_cname := ws_cname s @ [t]\<rparr>
      | RR_A a \<Rightarrow> s\<lparr>ws_a := ws_a s @ [ip_text a]\<rparr>
      | RR_AAAA a \<Rightarrow> s\<lparr>ws_aaaa := ws_aaaa s @ [ip_text a]\<rparr>
      | _ \<Rightarrow> s)"

definition hex_encode :: "nat list \<Rightarrow> string" where
  "hex_encode bs = concat (map (\<lambda>b. [hex_nibble (b div 16), hex_nibble (b mod 16)]) bs)"

fun wildcard_probe ::
  "'w dns_env \<Rightarrow> string \<Rightarrow> 16 word list \<Rightarrow> wildcard_signature \<Rightarrow> ('w, dns_error + wildcard_signature) dns" where
  "wildcard_probe E owner [] s = ret (Inr (normalize_wildcard_signature (de_go E) s))"
| "wildcard_probe E owner (qtype # qtypes) s = do {
     res \<leftarrow> exchange E (set_question owner qtype);
     case res of
       Inl e \<Rightarrow> ret (Inl (WrappedError ((''consultando poss'' @ [CHR 0xC3, CHR 0xAD] @ ''vel curinga '') @ owner) e))
     | Inr m \<Rightarrow> wildcard_probe E owner qtypes
         (if dm_rcode m \<noteq> RcodeSuccess then s else wildcard_answers (dm_answer m) s)
   }"

definition random_wildcard_signature :: "'w dns_env \<Rightarrow> string \<Rightarrow> ('w, dns_error + wildcard_signature) dns" where
  "random_wildcard_signature E domain = do {
     random \<leftarrow> calls (de_random E 8);
     case random of
       Inl e \<Rightarrow> ret (Inl (WrappedError (''gerando nome aleat'' @ [CHR 0xC3, CHR 0xB3] @ ''rio para a verifica'' @ [CHR 0xC3, CHR 0xA7, CHR 0xC3, CHR 0xA3] @ ''o de curinga'') e))
     | Inr bytes \<Rightarrow>
         wildcard_probe E (de_fqdn E (hex_encode bytes @ ''.'' @ domain)) [TypeA, TypeAAAA] zero_signature
   }"

definition check_single_wildcard ::
  "'w dns_env \<Rightarrow> string \<Rightarrow> ('w, dns_error + bool \<times> wildcard_signature) dns" where
  "check_single_wildcard E domain = do {
     r \<leftarrow> reads fst;
     case map_of (rv_wildcard_cache r) domain of
       Some w \<Rightarrow> ret (Inr (wr_is_wildcard w, wr_signature w))
     | None \<Rightarrow> do {
         res1 \<leftarrow> random_wildcard_signature E domain;
         case res1 of
           Inl e \<Rightarrow> ret (Inl e)
         | Inr first \<Rightarrow> do {
             res2 \<leftarrow> random_wildcard_signature E domain;
             case res2 of
               Inl e \<Rightarrow> ret (Inl e)
             | Inr snd_sig \<Rightarrow> do {
                 let wild = \<not> ws_empty first \<and> equal_wildcard_signature (de_go E) first snd_sig;
                 let sig = (if \<not> wild then zero_signature else first);
                 update_resolver (\<lambda>r. r\<lparr>rv_wildcard_cache :=
                   map_put (rv_wildcard_cache r) domain \<lparr>wr_is_wildcard = wild, wr_signature = sig\<rparr>\<rparr>);
                 ret (Inr (wild, sig))
               }
           }
       }
   }"

fun wildcard_of_parents ::
  "'w dns_env \<Rightarrow> string list \<Rightarrow> ('w, dns_error + bool \<times> wildcard_signature) dns" where
  "wildcard_of_parents E [] = ret (Inr (False, zero_signature))"
| "wildcard_of_parents E (parent # parents) = do {
     res \<leftarrow> check_single_wildcard E parent;
     case res of
       Inl e \<Rightarrow> ret (Inl e)
     | Inr (wild, sig) \<Rightarrow> if wild then ret (Inr (True, sig)) else wildcard_of_parents E parents
   }"

definition is_wildcard :: "'w dns_env \<Rightarrow> string \<Rightarrow> ('w, dns_error + bool \<times> wildcard_signature) dns" where
  "is_wildcard E raw =
     (let fqdn = bare_name (de_go E) raw; parts = split_on CHR ''.'' fqdn in
      case etld_plus_one (de_go E) fqdn of
        None \<Rightarrow> check_single_wildcard E fqdn
      | Some registrable \<Rightarrow>
          if registrable = [] then check_single_wildcard E fqdn
          else
            (let parents = int (length parts) - int (length (split_on CHR ''.'' registrable)) in
             if parents \<le> 0 then check_single_wildcard E registrable
             else wildcard_of_parents E
               (map (\<lambda>i. join_with ''.'' (drop i parts)) [1..<nat parents + 1])))"

definition profile_matches_wildcard :: "go_env \<Rightarrow> dns_record_set \<Rightarrow> wildcard_signature \<Rightarrow> bool" where
  "profile_matches_wildcard G p s \<longleftrightarrow>
     (if ws_empty s then False
      else equal_rrset G (rs_a p) (ws_a s) \<and> equal_rrset G (rs_aaaa p) (ws_aaaa s) \<and>
        equal_rrset G (rs_cname p) (ws_cname s))"

subsection \<open>Nameservers\<close>

definition nameserver_endpoint :: "'w dns_env \<Rightarrow> string \<Rightarrow> ('w, dns_error + string) dns" where
  "nameserver_endpoint E raw =
     (let ns = trim_suffix (trim_space raw) ''.'';
          normalized = (case normalize_resolver_endpoint E ns of
             Inl e \<Rightarrow> Inl (EndpointFailure (''endpoint do nameserver inv'' @ [CHR 0xC3, CHR 0xA1] @ ''lido'') e)
           | Inr endpoint \<Rightarrow> Inr endpoint)
      in if ns = [] then ret (Inl (PlainError ''nameserver vazio''))
         else if net_split_host_port ns \<noteq> None then ret normalized
         else if prefix ''['' ns \<and> suffix '']'' ns then ret normalized
         else (case parse_ip ns of
            Some a \<Rightarrow> ret (Inr (join_host_port (ip_text a) ''53''))
          | None \<Rightarrow>
              if contains_str ns '':'' then
                ret (Inl (PlainError ((''endpoint do nameserver inv'' @ [CHR 0xC3, CHR 0xA1] @ ''lido: '') @ de_quote E ns)))
              else do {
                res \<leftarrow> resolve_a E ns;
                addresses \<leftarrow> (case res of
                   Inr (a # as) \<Rightarrow> ret (a # as)
                 | _ \<Rightarrow> do { res6 \<leftarrow> resolve_aaaa E ns; ret (case res6 of Inl _ \<Rightarrow> [] | Inr l \<Rightarrow> l) });
                ret (case addresses of
                   [] \<Rightarrow> Inl (PlainError (''o nameserver '' @ ns @ ('' n'' @ [CHR 0xC3, CHR 0xA3] @ ''o possui endere'' @ [CHR 0xC3, CHR 0xA7] @ ''o'')))
                 | a # _ \<Rightarrow> Inr (join_host_port a ''53''))
              }))"

text \<open>What an answer to a SOA query says of the server that was asked.\<close>

definition ns_health_of :: "'w dns_env \<Rightarrow> string \<Rightarrow> dns_msg \<Rightarrow> string \<times> dns_error option" where
  "ns_health_of E domain m =
     (if dm_rcode m = RcodeRefused then (''REFUSED'', None)
      else if dm_rcode m = RcodeServerFailure then (''SERVFAIL'', None)
      else if dm_rcode m = RcodeNameError then (''NXDOMAIN'', None)
      else if dm_rcode m \<noteq> RcodeSuccess then
        (''ERROR'', Some (PlainError (''o nameserver retornou o rcode DNS '' @ de_rcode_text E (dm_rcode m))))
      else if \<not> dm_authoritative m then (''LAME'', None)
      else if list_ex (\<lambda>z. z = normalize_dns_name (de_go E) domain) (soa_owners (de_go E) (dm_answer m))
        then (''HEALTHY'', None)
      else (''LAME'', None))"

definition check_ns_health_uncached ::
  "'w dns_env \<Rightarrow> string \<Rightarrow> string \<Rightarrow> ('w, string \<times> dns_error option) dns" where
  "check_ns_health_uncached E server domain = do {
     res \<leftarrow> nameserver_endpoint E server;
     case res of
       Inl e \<Rightarrow> ret (''ERROR'', Some e)
     | Inr endpoint \<Rightarrow> do {
         waited \<leftarrow> limiter_wait E;
         case waited of
           Some e \<Rightarrow> ret (''ERROR'', Some e)
         | None \<Rightarrow> do {
             r \<leftarrow> reads fst;
             answer \<leftarrow> calls (de_exchange E Udp (operation_timeout r) endpoint
               ((set_question (de_fqdn E domain) TypeSOA)\<lparr>dq_recursion_desired := False\<rparr>));
             ret (case answer of
                Inl e \<Rightarrow> if net_error e = Some True then (''TIMEOUT'', None)
                  else (''ERROR'', Some (WrappedError ''contatando NS'' e))
              | Inr m \<Rightarrow> ns_health_of E domain m)
           }
       }
   }"

definition pair_key :: "go_env \<Rightarrow> string \<Rightarrow> string \<Rightarrow> string" where
  "pair_key G domain server = normalize_dns_name G domain @ ''|'' @ normalize_dns_name G server"

definition context_ended :: "dns_error option \<Rightarrow> bool" where
  "context_ended e \<longleftrightarrow> (case e of None \<Rightarrow> False | Some e \<Rightarrow> context_error e)"

definition check_ns_health :: "'w dns_env \<Rightarrow> string \<Rightarrow> string \<Rightarrow> ('w, string \<times> dns_error option) dns" where
  "check_ns_health E server domain = do {
     let key = pair_key (de_go E) domain server;
     r \<leftarrow> reads fst;
     case map_of (rv_ns_health_cache r) key of
       Some cached \<Rightarrow> ret cached
     | None \<Rightarrow> do {
         (status, err) \<leftarrow> check_ns_health_uncached E server domain;
         (if \<not> context_ended err
          then update_resolver (\<lambda>r. r\<lparr>rv_ns_health_cache := map_put (rv_ns_health_cache r) key (status, err)\<rparr>)
          else ret ());
         ret (status, err)
       }
   }"

subsection \<open>Zone transfer\<close>

text \<open>The names of one envelope; \<open>None\<close> when there are too many.\<close>

fun axfr_names :: "go_env \<Rightarrow> string \<Rightarrow> dns_rr list \<Rightarrow> string list \<Rightarrow> string list option" where
  "axfr_names G domain [] names = Some names"
| "axfr_names G domain (rr # rrs) names =
     (let name = normalize_dns_name G (rr_name rr) in
      if name = [] \<or> \<not> is_dns_ancestor_or_self G name (normalize_dns_name G domain) then
        axfr_names G domain rrs names
      else if name \<in> set names then axfr_names G domain rrs names
      else if length names \<ge> max_axfr_names then None
      else axfr_names G domain rrs (names @ [name]))"

definition axfr_limit_text :: string where
  "axfr_limit_text = (''a transfer'' @ [CHR 0xC3, CHR 0xAA] @ ''ncia AXFR excedeu o limite de '') @ itoa (int max_axfr_names) @ '' nomes''"

fun axfr_envelopes ::
  "go_env \<Rightarrow> string \<Rightarrow> axfr_envelope list \<Rightarrow> bool \<Rightarrow> string list \<Rightarrow> dns_error option \<Rightarrow>
     bool \<times> string list \<times> dns_error option"
where
  "axfr_envelopes G domain [] success names err =
     (if \<not> success \<and> err \<noteq> None then (False, [], err) else (success, sort names, err))"
| "axfr_envelopes G domain (e # es) success names err =
     (case ae_error e of
        Some e0 \<Rightarrow> axfr_envelopes G domain es success names (case err of None \<Rightarrow> Some e0 | Some _ \<Rightarrow> err)
      | None \<Rightarrow>
          (case axfr_names G domain (ae_rr e) names of
             None \<Rightarrow> (False, [], Some (PlainError axfr_limit_text))
           | Some names' \<Rightarrow>
               (case ae_context e of
                  Some c \<Rightarrow> (False, [], Some c)
                | None \<Rightarrow> axfr_envelopes G domain es (if length (ae_rr e) > 0 then True else success) names' err)))"

definition attempt_axfr_uncached ::
  "'w dns_env \<Rightarrow> string \<Rightarrow> string \<Rightarrow> ('w, bool \<times> string list \<times> dns_error option) dns" where
  "attempt_axfr_uncached E domain server = do {
     res \<leftarrow> nameserver_endpoint E server;
     case res of
       Inl e \<Rightarrow> ret (False, [], Some e)
     | Inr endpoint \<Rightarrow> do {
         waited \<leftarrow> limiter_wait E;
         case waited of
           Some e \<Rightarrow> ret (False, [], Some e)
         | None \<Rightarrow> do {
             env \<leftarrow> calls (de_transfer E ((set_question (de_fqdn E domain) TypeAXFR)\<lparr>dq_recursion_desired := False\<rparr>) endpoint);
             ret (case env of
                Inl e \<Rightarrow> (False, [], Some e)
              | Inr es \<Rightarrow> axfr_envelopes (de_go E) domain es False [] None)
           }
       }
   }"

definition zone_transfer :: "'w dns_env \<Rightarrow> string \<Rightarrow> string \<Rightarrow> ('w, axfr_result) dns" where
  "zone_transfer E domain server = do {
     let key = pair_key (de_go E) domain server;
     r \<leftarrow> reads fst;
     case map_of (rv_axfr_cache r) key of
       Some cached \<Rightarrow> ret cached
     | None \<Rightarrow> do {
         (success, names, err) \<leftarrow> attempt_axfr_uncached E domain server;
         let result = \<lparr>ax_success = success, ax_names = names, ax_err = err\<rparr>;
         (if \<not> context_ended err
          then update_resolver (\<lambda>r. r\<lparr>rv_axfr_cache := map_put (rv_axfr_cache r) key result\<rparr>)
          else ret ());
         ret result
       }
   }"

definition attempt_axfr :: "'w dns_env \<Rightarrow> string \<Rightarrow> string \<Rightarrow> ('w, bool \<times> dns_error option) dns" where
  "attempt_axfr E domain server = do {
     result \<leftarrow> zone_transfer E domain server;
     ret (ax_success result, ax_err result)
   }"

definition transfer_zone :: "'w dns_env \<Rightarrow> string \<Rightarrow> string \<Rightarrow> ('w, string list \<times> dns_error option) dns" where
  "transfer_zone E domain server = do {
     result \<leftarrow> zone_transfer E domain server;
     ret (ax_names result, ax_err result)
   }"

subsection \<open>DNSSEC\<close>

record dnssec_diagnosis =
  dd_state :: string
  dd_normal_status :: dns_status
  dd_cd_status :: dns_status
  dd_authenticated :: bool

definition classify_dnssec :: "dns_msg option \<Rightarrow> dns_msg option \<Rightarrow> dnssec_diagnosis" where
  "classify_dnssec normal checking_disabled =
     (let base = \<lparr>dd_state = [], dd_normal_status = response_status normal TypeA,
            dd_cd_status = DNSStatusUnset, dd_authenticated = False\<rparr> in
      case normal of
        None \<Rightarrow> base\<lparr>dd_state := ''ERROR''\<rparr>
      | Some m \<Rightarrow>
          (let result = base\<lparr>dd_authenticated := dm_authenticated m\<rparr> in
           if dm_rcode m = RcodeSuccess then
             result\<lparr>dd_state := (if dm_authenticated m then ''VALIDATED'' else ''INSECURE'')\<rparr>
           else if dm_rcode m = RcodeNameError then result\<lparr>dd_state := ''NXDOMAIN''\<rparr>
           else if dm_rcode m = RcodeServerFailure then
             result\<lparr>dd_cd_status := response_status checking_disabled TypeA,
               dd_state := (case checking_disabled of
                  Some cd \<Rightarrow> if dm_rcode cd = RcodeSuccess \<or> dm_rcode cd = RcodeNameError
                    then ''BOGUS'' else ''SERVFAIL''
                | None \<Rightarrow> ''SERVFAIL'')\<rparr>
           else result\<lparr>dd_state := ''ERROR''\<rparr>))"

definition diagnose_dnssec :: "'w dns_env \<Rightarrow> string \<Rightarrow> ('w, dns_error + dnssec_diagnosis) dns" where
  "diagnose_dnssec E domain = do {
     let normal = (set_question (de_fqdn E domain) TypeA)\<lparr>dq_do := Some True\<rparr>;
     res \<leftarrow> exchange E normal;
     case res of
       Inl e \<Rightarrow> ret (Inl e)
     | Inr m \<Rightarrow>
         if dm_rcode m \<noteq> RcodeServerFailure then ret (Inr (classify_dnssec (Some m) None))
         else do {
           cd \<leftarrow> exchange E (normal\<lparr>dq_checking_disabled := True\<rparr>);
           ret (case cd of Inl e \<Rightarrow> Inl e | Inr c \<Rightarrow> Inr (classify_dnssec (Some m) (Some c)))
         }
   }"

definition record_present :: "rr_data \<Rightarrow> dns_error + dns_msg \<Rightarrow> bool" where
  "record_present d res =
     (case res of
        Inl _ \<Rightarrow> False
      | Inr m \<Rightarrow> dm_rcode m = RcodeSuccess \<and> list_ex (\<lambda>rr. rr_data rr = d) (dm_answer m))"

definition check_dnssec_uncached :: "'w dns_env \<Rightarrow> string \<Rightarrow> ('w, (string, bool) gomap) dns" where
  "check_dnssec_uncached E domain = do {
     keys \<leftarrow> query E domain TypeDNSKEY;
     ds \<leftarrow> query E domain TypeDS;
     sig \<leftarrow> exchange E ((set_question (de_fqdn E domain) TypeA)\<lparr>dq_do := Some True\<rparr>);
     ret [(''DNSKEY'', record_present RR_DNSKEY keys), (''DS'', record_present RR_DS ds),
       (''RRSIG'', record_present RR_RRSIG sig)]
   }"

definition check_dnssec :: "'w dns_env \<Rightarrow> string \<Rightarrow> ('w, dns_error + (string, bool) gomap) dns" where
  "check_dnssec E domain = do {
     let key = normalize_dns_name (de_go E) domain;
     r \<leftarrow> reads fst;
     case map_of (rv_dnssec_cache r) key of
       Some cached \<Rightarrow> ret (Inr cached)
     | None \<Rightarrow> do {
         results \<leftarrow> check_dnssec_uncached E domain;
         done \<leftarrow> context_err E;
         case done of
           Some e \<Rightarrow> ret (Inl e)
         | None \<Rightarrow> do {
             update_resolver (\<lambda>r. r\<lparr>rv_dnssec_cache := map_put (rv_dnssec_cache r) key results\<rparr>);
             ret (Inr results)
           }
       }
   }"

subsection \<open>The profile of a host\<close>

text \<open>
  The goroutines of \<open>DiscoverProfile\<close> each run one lookup and then, holding the mutex, write
  their own fields. A task is the lookup; its value is the write. The tasks finish in some
  order, which is a parameter: the list of their positions.
\<close>

datatype profile_write =
    Write_A "string list"
  | Write_AAAA "string list"
  | Write_CNAME "string list"
  | Write_DNAME "dname_record list"
  | Write_NS "string list"
  | Write_MX "mx_record list"
  | Write_TXT "string list"
  | Write_SRV "srv_record list"
  | Write_SOA "string list"
  | Write_CAA "string list"
  | Write_HTTPS "service_binding list"
  | Write_SVCB "service_binding list"

fun write_profile :: "profile_write \<Rightarrow> dns_record_set \<Rightarrow> dns_record_set" where
  "write_profile (Write_A l) p = (if length l > 0 then p\<lparr>rs_a := l\<rparr> else p)"
| "write_profile (Write_AAAA l) p = (if length l > 0 then p\<lparr>rs_aaaa := l\<rparr> else p)"
| "write_profile (Write_CNAME l) p = (if length l > 0 then p\<lparr>rs_cname := l\<rparr> else p)"
| "write_profile (Write_DNAME l) p = p\<lparr>rs_dname := l\<rparr>"
| "write_profile (Write_NS l) p = (if length l > 0 then p\<lparr>rs_ns := l\<rparr> else p)"
| "write_profile (Write_MX l) p = p\<lparr>rs_mx_records := l, rs_mx := rs_mx p @ map mx_target l\<rparr>"
| "write_profile (Write_TXT l) p = (if length l > 0 then p\<lparr>rs_txt := l\<rparr> else p)"
| "write_profile (Write_SRV l) p = (if length l = 0 then p else p\<lparr>rs_srv_records := l,
     rs_srv := map (\<lambda>rec. srv_target rec @ '':'' @ itoa (uint (srv_port rec))) l\<rparr>)"
| "write_profile (Write_SOA l) p = (if length l > 0 then p\<lparr>rs_soa := l\<rparr> else p)"
| "write_profile (Write_CAA l) p = (if length l > 0 then p\<lparr>rs_caa := l\<rparr> else p)"
| "write_profile (Write_HTTPS l) p = p\<lparr>rs_https := l\<rparr>"
| "write_profile (Write_SVCB l) p = p\<lparr>rs_svcb := l\<rparr>"

definition task :: "('a \<Rightarrow> profile_write) \<Rightarrow> ('w, dns_error + 'a) dns \<Rightarrow> ('w, dns_error + profile_write) dns" where
  "task f m = do { res \<leftarrow> m; ret (case res of Inl e \<Rightarrow> Inl e | Inr x \<Rightarrow> Inr (f x)) }"

definition profile_tasks :: "'w dns_env \<Rightarrow> string \<Rightarrow> ('w, dns_error + profile_write) dns list" where
  "profile_tasks E host =
     [task Write_A (resolve_a E host),
      task Write_AAAA (resolve_aaaa E host),
      do { (chain, err) \<leftarrow> resolve_cname_chain E host;
           ret (case err of Some e \<Rightarrow> Inl e | None \<Rightarrow> Inr (Write_CNAME chain)) },
      task Write_DNAME (resolve_dname E host),
      task Write_NS (lookup_ns E host),
      task Write_MX (resolve_mx_records E host),
      task Write_TXT (resolve_txt E host)] @
     (if looks_like_srv_owner (de_go E) host then
        [do { (records, _, err) \<leftarrow> resolve_srv_records E host;
              ret (case err of Some e \<Rightarrow> Inl e | None \<Rightarrow> Inr (Write_SRV records)) }] else []) @
     [task Write_SOA (resolve_soa E host),
      task Write_CAA (resolve_caa E host),
      task Write_HTTPS (resolve_bindings E host TypeHTTPS),
      task Write_SVCB (resolve_bindings E host TypeSVCB)]"

record profile_state =
  ps_profile :: dns_record_set
  ps_successful :: nat
  ps_first_error :: "dns_error option"

definition record_task :: "dns_error + profile_write \<Rightarrow> profile_state \<Rightarrow> profile_state" where
  "record_task res s =
     (case res of
        Inl e \<Rightarrow> s\<lparr>ps_first_error := (case ps_first_error s of None \<Rightarrow> Some e | Some f \<Rightarrow> Some f)\<rparr>
      | Inr u \<Rightarrow> s\<lparr>ps_successful := ps_successful s + 1, ps_profile := write_profile u (ps_profile s)\<rparr>)"

definition record_tasks :: "(dns_error + profile_write) list \<Rightarrow> profile_state" where
  "record_tasks results = fold record_task results
     \<lparr>ps_profile = zero_dns_record_set, ps_successful = 0, ps_first_error = None\<rparr>"

definition discover_profile ::
  "'w dns_env \<Rightarrow> nat list \<Rightarrow> string \<Rightarrow> ('w, dns_record_set \<times> dns_error option) dns" where
  "discover_profile E order host = do {
     results \<leftarrow> traverse id (map (\<lambda>i. profile_tasks E host ! i) order);
     let s = record_tasks results;
     r \<leftarrow> reads fst;
     consensus \<leftarrow> (if rv_consensus r then resolve_consensus E host [TypeA, TypeAAAA, TypeCNAME]
                   else ret (rs_consensus (ps_profile s)));
     let profile = (ps_profile s)\<lparr>rs_consensus := consensus\<rparr>;
     if ps_successful s = 0 then do {
       done \<leftarrow> context_err E;
       ret (profile, Some (case done of
          Some e \<Rightarrow> e
        | None \<Rightarrow> (case ps_first_error s of
             Some e \<Rightarrow> WrappedError (''todas as consultas do perfil DNS falharam para '' @ host) e
           | None \<Rightarrow> PlainError (''todas as consultas do perfil DNS foram inconclusivas para '' @ host))))
     }
     else if rv_filter_wildcard r then do {
       res \<leftarrow> is_wildcard E host;
       ret (case res of
          Inr (True, sig) \<Rightarrow> if profile_matches_wildcard (de_go E) profile sig
            then (profile, Some (WildcardFiltered host)) else (profile, None)
        | _ \<Rightarrow> (profile, None))
     }
     else ret (profile, None)
   }"

subsection \<open>An environment for examples\<close>

text \<open>Every question is answered with the authority record of
  \<open>example\<close>.\<close>

definition sample_rr :: dns_rr where
  "sample_rr = \<lparr>rr_name = ''example.'', rr_type = TypeSOA, rr_ttl = 60, rr_text = [],
     rr_data = RR_SOA ''ns.example.'' ''mail.example.''\<rparr>"

definition sample_msg :: dns_msg where
  "sample_msg = \<lparr>dm_rcode = 0, dm_authoritative = True, dm_authenticated = False, dm_truncated = False,
     dm_answer = [], dm_ns = [sample_rr], dm_extra = []\<rparr>"

definition sample_env :: "unit dns_env" where
  "sample_env = \<lparr>de_go = ascii_env, de_fqdn = (\<lambda>n. n @ ''.''), de_is_domain_name = (\<lambda>_. True),
     de_reverse_addr = Inr, de_type_text = (\<lambda>_. []), de_rcode_text = itoa, de_quote = id,
     de_wait = Pair None, de_exchange = (\<lambda>_ _ _ _. Pair (Inr sample_msg)), de_sleep = (\<lambda>_. Pair None),
     de_context = (\<lambda>_. None), de_now_ms = Pair 0, de_random = (\<lambda>n. Pair (Inr (replicate n 7))),
     de_transfer = (\<lambda>_ _. Pair (Inr [])), de_pack = (\<lambda>_. Inr []), de_unpack = (\<lambda>_. Inr sample_msg),
     de_new_request = (\<lambda>_ _. None), de_post = (\<lambda>_ _. Pair (Inr (200, Inr [])))\<rparr>"

end
