(* ===== verification/DnsSafety.thy ===== *)
theory DnsSafety
  imports DnsChecks
begin

section \<open>What the resolver guarantees\<close>

text \<open>
  The invariant of the resolver's memory, and the properties of its operations.
\<close>

subsection \<open>The invariant\<close>

definition answers_cacheable :: "resolver \<Rightarrow> bool" where
  "answers_cacheable r \<longleftrightarrow> list_all (\<lambda>(_, m). cacheable_dns_response m) (rv_query_cache r)"

definition zones_keyed :: "resolver \<Rightarrow> bool" where
  "zones_keyed r \<longleftrightarrow> list_all (\<lambda>(k, z). az_zone z = k) (rv_zone_cache r)"

definition wildcards_sound :: "go_env \<Rightarrow> resolver \<Rightarrow> bool" where
  "wildcards_sound G r \<longleftrightarrow>
     list_all (\<lambda>(_, w). if wr_is_wildcard w then \<not> ws_empty (wr_signature w) else ws_empty (wr_signature w))
       (rv_wildcard_cache r)"

definition transfers_bounded :: "resolver \<Rightarrow> bool" where
  "transfers_bounded r \<longleftrightarrow>
     list_all (\<lambda>(_, x). distinct (ax_names x) \<and> sorted (ax_names x) \<and> length (ax_names x) \<le> max_axfr_names)
       (rv_axfr_cache r)"

definition resolver_ok :: "'w dns_env \<Rightarrow> resolver \<times> 'w \<Rightarrow> bool" where
  "resolver_ok E s \<longleftrightarrow> answers_cacheable (fst s) \<and> zones_keyed (fst s) \<and>
     wildcards_sound (de_go E) (fst s) \<and> transfers_bounded (fst s)"

lemma list_all_map_put: "list_all P m \<Longrightarrow> P (k, v) \<Longrightarrow> list_all P (map_put m k v)"
  by (induction m k v rule: map_put.induct) auto

lemma list_all_lookup: "list_all P m \<Longrightarrow> map_of m k = Some v \<Longrightarrow> P (k, v)"
  by (auto simp: list_all_iff dest: map_of_SomeD)

lemma resolver_ok_world [simp]: "resolver_ok E (r, w) = resolver_ok E (r, w')"
  by (simp add: resolver_ok_def)

lemma keeps_call [keeps_intros]: "keeps (resolver_ok E) (calls f)"
  by (rule keeps_calls) simp

lemma limiter_wait_ok [keeps_intros]: "keeps (resolver_ok E) (limiter_wait E)"
  unfolding limiter_wait_def by (intro keeps_intros)

lemma context_err_ok [keeps_intros]: "keeps (resolver_ok E) (context_err E)"
  unfolding context_err_def by (intro keeps_intros)

lemma pick_server_ok [keeps_intros]: "keeps (resolver_ok E) pick_server"
  unfolding pick_server_def
  by (intro keeps_intros) (auto simp: resolver_ok_def answers_cacheable_def zones_keyed_def
      wildcards_sound_def transfers_bounded_def)

lemma retry_truncated_ok [keeps_intros]: "keeps (resolver_ok E) (retry_truncated E server q resp)"
  unfolding retry_truncated_def by (intro keeps_intros)

lemma exchange_attempts_ok [keeps_intros]: "keeps (resolver_ok E) (exchange_attempts E q left e)"
proof (induction left arbitrary: e)
  case (Suc left)
  show ?case unfolding exchange_attempts.simps by (intro keeps_intros Suc)
qed (simp add: keeps_ret)

lemma exchange_doh_ok [keeps_intros]: "keeps (resolver_ok E) (exchange_doh E q)"
  unfolding exchange_doh_def by (intro keeps_intros)

lemma exchange_uncached_ok [keeps_intros]: "keeps (resolver_ok E) (exchange_uncached E q)"
  unfolding exchange_uncached_def by (intro keeps_intros)

text \<open>The only writes to the cache of answers are of cacheable answers.\<close>

lemma store_answer_ok:
  "cacheable_dns_response m \<Longrightarrow> resolver_ok E s \<Longrightarrow>
   resolver_ok E (apfst (\<lambda>r. r\<lparr>rv_query_cache := map_put (rv_query_cache r) key m\<rparr>) s)"
  by (cases s) (simp add: resolver_ok_def answers_cacheable_def zones_keyed_def wildcards_sound_def
      transfers_bounded_def list_all_map_put)

lemma exchange_ok [keeps_intros]: "keeps (resolver_ok E) (exchange E q)"
  unfolding exchange_def by (intro keeps_intros store_answer_ok)

lemma query_ok [keeps_intros]: "keeps (resolver_ok E) (query E name qtype)"
  unfolding query_def by (intro keeps_intros)

lemma resolve_with_ok [keeps_intros]: "keeps (resolver_ok E) (resolve_with E name qtype wrap f)"
  unfolding resolve_with_def by (intro keeps_intros)

lemma resolve_ok [keeps_intros]:
  "keeps (resolver_ok E) (resolve_a E name)" "keeps (resolver_ok E) (resolve_aaaa E name)"
  "keeps (resolver_ok E) (resolve_txt E name)" "keeps (resolver_ok E) (resolve_soa E name)"
  "keeps (resolver_ok E) (resolve_caa E name)" "keeps (resolver_ok E) (resolve_ptr E name)"
  "keeps (resolver_ok E) (resolve_srv E name)"
  "keeps (resolver_ok E) (resolve_mx_records E name)" "keeps (resolver_ok E) (lookup_ns E name)"
  "keeps (resolver_ok E) (resolve_dname E name)" "keeps (resolver_ok E) (resolve_bindings E name qtype)"
  "keeps (resolver_ok E) (check_nxdomain E name)"
  unfolding resolve_a_def resolve_aaaa_def resolve_txt_def resolve_soa_def resolve_caa_def resolve_ptr_def
    resolve_srv_def resolve_mx_records_def lookup_ns_def resolve_dname_def resolve_bindings_def
    check_nxdomain_def
  by (intro keeps_intros)+

lemma resolve_address_ptr_ok [keeps_intros]: "keeps (resolver_ok E) (resolve_address_ptr E a)"
  unfolding resolve_address_ptr_def by (intro keeps_intros)

lemma resolve_mx_ok [keeps_intros]: "keeps (resolver_ok E) (resolve_mx E name)"
  unfolding resolve_mx_def by (intro keeps_intros)

lemma resolve_cname_types_ok [keeps_intros]: "keeps (resolver_ok E) (resolve_cname_types E d ts)"
proof (induction ts)
  case (Cons t ts)
  show ?case unfolding resolve_cname_types.simps by (intro keeps_intros Cons)
qed (simp add: keeps_ret)

lemma resolve_cname_ok [keeps_intros]: "keeps (resolver_ok E) (resolve_cname E d)"
  unfolding resolve_cname_def by (intro keeps_intros)

lemma resolve_cname_via_a_ok [keeps_intros]: "keeps (resolver_ok E) (resolve_cname_via_a E d)"
  unfolding resolve_cname_via_a_def by (intro keeps_intros)

lemma cname_chain_loop_ok [keeps_intros]:
  "keeps (resolver_ok E) (cname_chain_loop E d n seen chain current)"
proof (induction n arbitrary: seen chain current)
  case (Suc n)
  show ?case unfolding cname_chain_loop.simps by (intro keeps_intros Suc)
qed (simp add: keeps_ret)

lemma resolve_cname_chain_ok [keeps_intros]: "keeps (resolver_ok E) (resolve_cname_chain E d)"
  unfolding resolve_cname_chain_def by (intro keeps_intros)

lemma resolve_status_ok [keeps_intros]: "keeps (resolver_ok E) (resolve_status E name qtype)"
  unfolding resolve_status_def by (intro keeps_intros)

lemma resolve_address_status_ok [keeps_intros]: "keeps (resolver_ok E) (resolve_address_status E name)"
  unfolding resolve_address_status_def by (intro keeps_intros)

lemma resolve_txt_with_status_ok [keeps_intros]: "keeps (resolver_ok E) (resolve_txt_with_status E name)"
  unfolding resolve_txt_with_status_def by (intro keeps_intros)

lemma resolve_srv_records_ok [keeps_intros]: "keeps (resolver_ok E) (resolve_srv_records E name)"
  unfolding resolve_srv_records_def by (intro keeps_intros)

lemma discover_srv_owners_ok [keeps_intros]: "keeps (resolver_ok E) (discover_srv_owners E d ps acc)"
proof (induction ps arbitrary: acc)
  case (Cons p ps)
  show ?case unfolding discover_srv_owners.simps by (intro keeps_intros Cons)
qed (simp add: keeps_ret)

lemma discover_common_srv_ok [keeps_intros]: "keeps (resolver_ok E) (discover_common_srv E d owners)"
  unfolding discover_common_srv_def by (intro keeps_intros)

lemma server_addresses_ok [keeps_intros]: "keeps (resolver_ok E) (server_addresses E nss acc)"
proof (induction nss arbitrary: acc)
  case (Cons ns nss)
  show ?case unfolding server_addresses.simps by (intro keeps_intros Cons)
qed (simp add: keeps_ret)

lemma query_each_server_ok [keeps_intros]: "keeps (resolver_ok E) (query_each_server E q ss acc)"
proof (induction ss arbitrary: acc)
  case Nil
  show ?case unfolding query_each_server.simps by (intro keeps_intros)
next
  case (Cons s ss)
  show ?case unfolding query_each_server.simps by (intro keeps_intros Cons)
qed

lemma parent_lookups_ok [keeps_intros]:
  "keeps (resolver_ok E) (query_parent_servers E servers wanted qtype)"
  "keeps (resolver_ok E) (lookup_ds_at_parent E zone parent_ns)"
  "keeps (resolver_ok E) (lookup_delegation_at_parent E zone parent_ns)"
  "keeps (resolver_ok E) (lookup_exact_ns E name)"
  "keeps (resolver_ok E) (find_soa_owner E host)"
  unfolding query_parent_servers_def lookup_ds_at_parent_def lookup_delegation_at_parent_def
    lookup_exact_ns_def find_soa_owner_def
  by (intro keeps_intros)+

lemma zone_search_ok [keeps_intros]: "keeps (resolver_ok E) (zone_search E ls)"
proof (induction ls)
  case (Cons l ls)
  show ?case unfolding zone_search.simps Let_def by (intro keeps_intros Cons)
qed (simp add: keeps_ret)

lemma delegation_details_ok [keeps_intros]: "keeps (resolver_ok E) (delegation_details E z)"
  unfolding delegation_details_def by (intro keeps_intros)

lemma ds_details_ok [keeps_intros]: "keeps (resolver_ok E) (ds_details E z)"
  unfolding ds_details_def by (intro keeps_intros)

lemma build_ok [keeps_intros]: "keeps (resolver_ok E) (build_authoritative_zone_details E zone d)"
  unfolding build_authoritative_zone_details_def by (intro keeps_intros)

lemma delegation_details_zone: "gives (\<lambda>z'. az_zone z' = az_zone z) (delegation_details E z)"
  unfolding delegation_details_def by (intro gives_intros gives_bind_any) simp_all

lemma ds_details_zone: "gives (\<lambda>z'. az_zone z' = az_zone z) (ds_details E z)"
  unfolding ds_details_def by (intro gives_intros gives_bind_any) simp_all

lemma build_zone: "gives (\<lambda>z. az_zone z = zone) (build_authoritative_zone_details E zone d)"
  unfolding build_authoritative_zone_details_def
  by (intro gives_bind_any gives_let gives_bind [of "\<lambda>z. az_zone z = zone"] gives_intros
      gives_weaken [OF ds_details_zone] gives_bind [OF delegation_details_zone]) auto

lemma store_zone_ok:
  "az_zone z = zone \<Longrightarrow> resolver_ok E s \<Longrightarrow>
   resolver_ok E (apfst (\<lambda>r. r\<lparr>rv_zone_cache := map_put (rv_zone_cache r) zone z\<rparr>) s)"
  by (cases s) (simp add: resolver_ok_def answers_cacheable_def zones_keyed_def wildcards_sound_def
      transfers_bounded_def list_all_map_put)

lemma authoritative_zone_details_ok [keeps_intros]: "keeps (resolver_ok E) (authoritative_zone_details E d)"
  unfolding authoritative_zone_details_def
  by (intro keeps_let keeps_bind [OF keeps_reads] keeps_option keeps_ret
      keeps_bind_gives [OF build_ok build_zone] keeps_bind [OF context_err_ok] keeps_bind
      keeps_modifies store_zone_ok)

lemma find_authoritative_zone_ok [keeps_intros]: "keeps (resolver_ok E) (find_authoritative_zone E raw)"
  unfolding find_authoritative_zone_def by (intro keeps_intros)

lemma resolve_view_ok [keeps_intros]: "keeps (resolver_ok E) (resolve_view E name qtype server)"
  unfolding resolve_view_def by (intro keeps_intros)

lemma traverse_keeps: "(\<And>x. x \<in> set xs \<Longrightarrow> keeps I (f x)) \<Longrightarrow> keeps I (traverse f xs)"
proof (induction xs)
  case (Cons x xs)
  show ?case unfolding traverse.simps by (intro keeps_intros Cons) simp_all
qed (simp add: keeps_ret)

lemma consensus_for_ok [keeps_intros]: "keeps (resolver_ok E) (consensus_for E name qtype)"
  unfolding consensus_for_def by (intro keeps_intros traverse_keeps)

lemma consensus_ok [keeps_intros]:
  "keeps (resolver_ok E) (resolve_consensus E name qtypes)"
  "keeps (resolver_ok E) (address_consensus E name)"
  unfolding resolve_consensus_def address_consensus_def by (intro keeps_intros traverse_keeps)+

text \<open>Wildcards: only a non-empty signature is stored as one.\<close>

lemma wildcard_probe_ok [keeps_intros]: "keeps (resolver_ok E) (wildcard_probe E owner ts s)"
proof (induction ts arbitrary: s)
  case (Cons t ts)
  show ?case unfolding wildcard_probe.simps by (intro keeps_intros Cons)
qed (simp add: keeps_ret)

lemma random_signature_ok [keeps_intros]: "keeps (resolver_ok E) (random_wildcard_signature E d)"
  unfolding random_wildcard_signature_def by (intro keeps_intros)

lemma store_wildcard_ok:
  "(wild \<Longrightarrow> \<not> ws_empty sig) \<Longrightarrow> (\<not> wild \<Longrightarrow> ws_empty sig) \<Longrightarrow> resolver_ok E s \<Longrightarrow>
   resolver_ok E (apfst (\<lambda>r. r\<lparr>rv_wildcard_cache :=
     map_put (rv_wildcard_cache r) d \<lparr>wr_is_wildcard = wild, wr_signature = sig\<rparr>\<rparr>) s)"
  by (cases s) (simp add: resolver_ok_def answers_cacheable_def zones_keyed_def wildcards_sound_def
      transfers_bounded_def list_all_map_put)

lemma zero_signature_empty [simp]: "ws_empty zero_signature"
  by (simp add: ws_empty_def zero_signature_def)

lemma check_single_wildcard_ok [keeps_intros]: "keeps (resolver_ok E) (check_single_wildcard E d)"
  unfolding check_single_wildcard_def
  by (intro keeps_intros store_wildcard_ok) (auto split: if_splits)

lemma wildcard_of_parents_ok [keeps_intros]: "keeps (resolver_ok E) (wildcard_of_parents E ps)"
proof (induction ps)
  case (Cons p ps)
  show ?case unfolding wildcard_of_parents.simps by (intro keeps_intros Cons)
qed (simp add: keeps_ret)

lemma is_wildcard_ok [keeps_intros]: "keeps (resolver_ok E) (is_wildcard E name)"
  unfolding is_wildcard_def by (intro keeps_intros)

lemma nameserver_endpoint_ok [keeps_intros]: "keeps (resolver_ok E) (nameserver_endpoint E ns)"
  unfolding nameserver_endpoint_def Let_def by (intro keeps_intros)

lemma ns_health_uncached_ok [keeps_intros]: "keeps (resolver_ok E) (check_ns_health_uncached E ns d)"
  unfolding check_ns_health_uncached_def by (intro keeps_intros)

lemma other_caches_ok:
  "resolver_ok E s \<Longrightarrow> resolver_ok E (apfst (\<lambda>r. r\<lparr>rv_ns_health_cache := f r\<rparr>) s)"
  "resolver_ok E s \<Longrightarrow> resolver_ok E (apfst (\<lambda>r. r\<lparr>rv_dnssec_cache := g r\<rparr>) s)"
  by (cases s, simp add: resolver_ok_def answers_cacheable_def zones_keyed_def wildcards_sound_def
      transfers_bounded_def)+

lemma check_ns_health_ok [keeps_intros]: "keeps (resolver_ok E) (check_ns_health E ns d)"
  unfolding check_ns_health_def by (intro keeps_intros other_caches_ok)

text \<open>Zone transfers: the names are distinct, sorted, bounded in number, and inside the zone.\<close>

definition names_ok :: "go_env \<Rightarrow> string \<Rightarrow> string list \<Rightarrow> bool" where
  "names_ok G domain names \<longleftrightarrow> distinct names \<and> length names \<le> max_axfr_names \<and>
     list_all (\<lambda>n. is_dns_ancestor_or_self G n (normalize_dns_name G domain)) names"

lemma axfr_names_ok: "axfr_names G d rrs names = Some names' \<Longrightarrow> names_ok G d names \<Longrightarrow> names_ok G d names'"
proof (induction rrs arbitrary: names)
  case (Cons rr rrs)
  thus ?case by (auto simp: Let_def names_ok_def split: if_splits)
qed simp

lemma axfr_envelopes_ok:
  "axfr_envelopes G d es success names err = (ok, out, err') \<Longrightarrow> names_ok G d names \<Longrightarrow>
   names_ok G d out \<and> sorted out"
proof (induction es arbitrary: success names err)
  case Nil
  thus ?case by (auto simp: names_ok_def list_all_iff split: if_splits)
next
  case (Cons e es)
  thus ?case
    by (auto simp: names_ok_def split: option.splits if_splits dest!: axfr_names_ok)
qed

lemma attempt_axfr_names:
  "gives (\<lambda>(ok, names, err). names_ok (de_go E) d names \<and> sorted names) (attempt_axfr_uncached E d server)"
proof -
  have nil: "names_ok (de_go E) d []" by (simp add: names_ok_def)
  show ?thesis
    unfolding attempt_axfr_uncached_def
    by (intro gives_bind_any gives_intros) (auto simp: nil split: sum.splits dest: axfr_envelopes_ok [OF _ nil])
qed

lemma attempt_axfr_uncached_ok [keeps_intros]: "keeps (resolver_ok E) (attempt_axfr_uncached E d server)"
  unfolding attempt_axfr_uncached_def by (intro keeps_intros)

lemma store_transfer_ok:
  "names_ok G d names \<and> sorted names \<Longrightarrow> resolver_ok E s \<Longrightarrow>
   resolver_ok E (apfst (\<lambda>r. r\<lparr>rv_axfr_cache := map_put (rv_axfr_cache r) key
     \<lparr>ax_success = ok, ax_names = names, ax_err = err\<rparr>\<rparr>) s)"
  by (cases s) (simp add: resolver_ok_def answers_cacheable_def zones_keyed_def wildcards_sound_def
      transfers_bounded_def list_all_map_put names_ok_def)

lemma zone_transfer_ok [keeps_intros]: "keeps (resolver_ok E) (zone_transfer E d server)"
  unfolding zone_transfer_def
  by (intro keeps_let keeps_bind [OF keeps_reads] keeps_option keeps_ret
      keeps_bind_gives [OF attempt_axfr_uncached_ok attempt_axfr_names] keeps_prod keeps_bind keeps_cond
      keeps_modifies) (auto intro!: store_transfer_ok)

lemma transfers_ok [keeps_intros]:
  "keeps (resolver_ok E) (attempt_axfr E d server)" "keeps (resolver_ok E) (transfer_zone E d server)"
  unfolding attempt_axfr_def transfer_zone_def by (intro keeps_intros)+

lemma dnssec_ok [keeps_intros]:
  "keeps (resolver_ok E) (diagnose_dnssec E d)" "keeps (resolver_ok E) (check_dnssec_uncached E d)"
  unfolding diagnose_dnssec_def check_dnssec_uncached_def by (intro keeps_intros)+

lemma check_dnssec_ok [keeps_intros]: "keeps (resolver_ok E) (check_dnssec E d)"
  unfolding check_dnssec_def by (intro keeps_intros other_caches_ok)

lemma task_ok [keeps_intros]: "keeps (resolver_ok E) m \<Longrightarrow> keeps (resolver_ok E) (task f m)"
  unfolding task_def by (intro keeps_intros)

lemma profile_tasks_ok: "m \<in> set (profile_tasks E host) \<Longrightarrow> keeps (resolver_ok E) m"
  unfolding profile_tasks_def
  by (auto split: if_splits intro!: keeps_intros)

end
