(* ===== verification/DnsProps.thy ===== *)
theory DnsProps
  imports DnsSafety
begin

section \<open>Properties of the resolver\<close>

subsection \<open>Reachable states\<close>





lemma new_resolver_ok: "resolver_ok E (new_resolver E servers, w)"
  by (simp add: new_resolver_def resolver_ok_def answers_cacheable_def zones_keyed_def
      wildcards_sound_def transfers_bounded_def split: prod.split)


subsection \<open>The cache of answers\<close>

lemma map_of_put_same: "map_of (map_put m k v) k = Some v"
  by simp

lemma exchange_cases:
  obtains (cached) m where "map_of (rv_query_cache (fst s)) (dns_query_cache_key E q) = Some m"
      "run_state (exchange E q) s = (Inr m, s)"
  | (failed) e s1 where "map_of (rv_query_cache (fst s)) (dns_query_cache_key E q) = None"
      "run_state (exchange_uncached E q) s = (Inl e, s1)" "run_state (exchange E q) s = (Inl e, s1)"
  | (fresh) m s1 where "map_of (rv_query_cache (fst s)) (dns_query_cache_key E q) = None"
      "run_state (exchange_uncached E q) s = (Inr m, s1)"
      "run_state (exchange E q) s = (Inr m, if cacheable_dns_response m then
         apfst (\<lambda>r. r\<lparr>rv_query_cache := map_put (rv_query_cache r) (dns_query_cache_key E q) m\<rparr>) s1 else s1)"
proof (cases "map_of (rv_query_cache (fst s)) (dns_query_cache_key E q)")
  case (Some m)
  thus thesis by (intro cached) (simp_all add: exchange_def Let_def)
next
  case None
  obtain res s1 where run: "run_state (exchange_uncached E q) s = (res, s1)" by (rule prod.exhaust)
  show thesis
  proof (cases res)
    case (Inl e)
    with None run show thesis by (intro failed) (simp_all add: exchange_def Let_def)
  next
    case (Inr m)
    with None run show thesis by (intro fresh [of m s1]) (simp_all add: exchange_def Let_def)
  qed
qed

text \<open>A repeatable answer is given again, without any call to the outside, when the same
  question is asked again; an error, and an answer such as SERVFAIL, is what the servers said
  just now and is never added to the cache.\<close>

theorem exchange_remembers:
  "case run_state (exchange E q) s of
     (Inr m, s') \<Rightarrow>
       if cacheable_dns_response m then run_state (exchange E q) s' = (Inr m, s')
       else run_state (exchange_uncached E q) s = (Inr m, s') \<or> m \<in> snd ` set (rv_query_cache (fst s))
   | (Inl e, s') \<Rightarrow> run_state (exchange_uncached E q) s = (Inl e, s')"
proof (cases rule: exchange_cases [of s E q])
  case (cached m)
  hence "m \<in> snd ` set (rv_query_cache (fst s))" by (force dest: map_of_SomeD)
  with cached show ?thesis by simp
next
  case (fresh m s1)
  thus ?thesis by (auto simp: exchange_def Let_def apfst_def map_prod_def split: prod.split)
qed simp

subsection \<open>Questions and keys\<close>

lemma itoa_no_colon: "CHR '':'' \<notin> set (itoa i)"
proof -
  have "digit_char c" if "c \<in> set (nat_dec n)" for c n
    using nat_dec_digits [of n] that by (auto simp: list_all_iff)
  moreover have "\<not> digit_char CHR '':''" by (simp add: digit_char_def in_range_def)
  ultimately have "CHR '':'' \<notin> set (nat_dec n)" for n by blast
  thus ?thesis by (simp add: itoa_def)
qed

lemma itoa_inj: "0 \<le> i \<Longrightarrow> 0 \<le> j \<Longrightarrow> itoa i = itoa j \<Longrightarrow> i = j"
  by (auto simp: itoa_def dest: nat_dec_inj)

lemma colon_split:
  assumes "a @ CHR '':'' # x = b @ CHR '':'' # y" "CHR '':'' \<notin> set a" "CHR '':'' \<notin> set b"
  shows "a = b \<and> x = y"
  using assms by (induction a arbitrary: b) (auto simp: Cons_eq_append_conv append_eq_Cons_conv)

lemma bool_text_suffix:
  "a @ bool_text x = b @ bool_text y \<Longrightarrow> last a = CHR ''='' \<Longrightarrow> last b = CHR ''='' \<Longrightarrow> a \<noteq> [] \<Longrightarrow> b \<noteq> [] \<Longrightarrow>
   a = b \<and> x = y"
  by (cases x; cases y)
    (auto simp: bool_text_def append_eq_append_conv2 append_eq_Cons_conv Cons_eq_append_conv)

text \<open>Two questions share an entry of the cache only if they ask the same: the key tells apart
  their types, names (up to case), and flags.\<close>

theorem cache_key_separates:
  assumes "dns_query_cache_key E q = dns_query_cache_key E q'"
    and "0 \<le> dq_class q" and "0 \<le> dq_class q'"
  shows "dq_class q = dq_class q' \<and> dq_type q = dq_type q' \<and>
    to_lower (de_go E) (dq_name q) = to_lower (de_go E) (dq_name q') \<and>
    dq_recursion_desired q = dq_recursion_desired q' \<and>
    dq_checking_disabled q = dq_checking_disabled q' \<and> (dq_do q = Some True) = (dq_do q' = Some True)"
proof -
  define tail where "tail q = to_lower (de_go E) (dq_name q) @ '':rd='' @ bool_text (dq_recursion_desired q) @
    '':cd='' @ bool_text (dq_checking_disabled q) @ '':do='' @ bool_text (dq_do q = Some True)" for q :: dns_query
  have key: "dns_query_cache_key E q = itoa (dq_class q) @ CHR '':'' # (itoa (uint (dq_type q)) @ CHR '':'' # tail q)" for q :: dns_query
    by (simp add: dns_query_cache_key_def tail_def)
  from assms(1) have c: "itoa (dq_class q) = itoa (dq_class q')"
    and t: "itoa (uint (dq_type q)) = itoa (uint (dq_type q'))" and r: "tail q = tail q'"
    unfolding key by (auto dest!: colon_split simp: itoa_no_colon)
  from r have 1: "(to_lower (de_go E) (dq_name q) @ '':rd='' @ bool_text (dq_recursion_desired q) @ '':cd='' @
      bool_text (dq_checking_disabled q) @ '':do='') = (to_lower (de_go E) (dq_name q') @ '':rd='' @
      bool_text (dq_recursion_desired q') @ '':cd='' @ bool_text (dq_checking_disabled q') @ '':do='') \<and>
      (dq_do q = Some True) = (dq_do q' = Some True)"
    by (intro bool_text_suffix) (simp_all add: tail_def)
  hence 2: "(to_lower (de_go E) (dq_name q) @ '':rd='' @ bool_text (dq_recursion_desired q) @ '':cd='') =
      (to_lower (de_go E) (dq_name q') @ '':rd='' @ bool_text (dq_recursion_desired q') @ '':cd='') \<and>
      dq_checking_disabled q = dq_checking_disabled q'"
    by (intro bool_text_suffix) simp_all
  hence 3: "(to_lower (de_go E) (dq_name q) @ '':rd='') = (to_lower (de_go E) (dq_name q') @ '':rd='') \<and>
      dq_recursion_desired q = dq_recursion_desired q'"
    by (intro bool_text_suffix) simp_all
  from c assms(2,3) have "dq_class q = dq_class q'" by (rule itoa_inj [rotated 2])
  moreover have "uint (dq_type q) = uint (dq_type q')" using t by (rule itoa_inj [rotated 2]) simp_all
  hence "dq_type q = dq_type q'" by (simp add: word_uint_eq_iff)
  ultimately show ?thesis using 1 2 3 by simp
qed

subsection \<open>Bounded retries\<close>

text \<open>The resolver is the same but for the index, which moved by at most \<open>n\<close>.\<close>

definition moved :: "resolver \<Rightarrow> nat \<Rightarrow> resolver \<times> 'w \<Rightarrow> bool" where
  "moved r0 n s \<longleftrightarrow> (\<exists>k \<le> n. fst s = r0\<lparr>rv_index := rv_index r0 + of_nat k\<rparr>)"

lemma moved_mono: "moved r0 n s \<Longrightarrow> n \<le> n' \<Longrightarrow> moved r0 n' s"
  by (auto simp: moved_def intro: order_trans)

lemma moved_start: "moved (fst s) 0 s"
  by (simp add: moved_def)

lemma moved_next: "moved r0 n s \<Longrightarrow> moved r0 (Suc n) (apfst (\<lambda>r. r\<lparr>rv_index := rv_index r + 1\<rparr>) s)"
proof -
  assume "moved r0 n s"
  then obtain k where "k \<le> n" "fst s = r0\<lparr>rv_index := rv_index r0 + of_nat k\<rparr>" by (auto simp: moved_def)
  thus ?thesis unfolding moved_def by (intro exI [of _ "Suc k"]) (simp add: algebra_simps)
qed

lemma pick_server_moved: "holds (moved r0 n) pick_server (\<lambda>_. moved r0 (Suc n))"
  unfolding pick_server_def holds_def by (simp add: moved_next)

lemma calls_moved: "keeps (moved r0 n) (calls f)"
  by (rule keeps_calls) (simp add: moved_def)

lemma limiter_wait_moved: "keeps (moved r0 n) (limiter_wait E)"
  unfolding limiter_wait_def by (intro keeps_bind keeps_reads keeps_cond keeps_ret calls_moved)

lemma retry_truncated_moved: "keeps (moved r0 n) (retry_truncated E server q m)"
  unfolding retry_truncated_def
  by (intro keeps_bind keeps_reads keeps_cond keeps_option keeps_ret calls_moved limiter_wait_moved)

lemma holds_after: "keeps I m \<Longrightarrow> (\<And>a. holds I (f a) Q) \<Longrightarrow> holds I (State_Monad.bind m f) Q"
  unfolding keeps_def by (rule holds_bind)

lemma holds_end: "keeps (moved r0 n) m \<Longrightarrow> n \<le> n' \<Longrightarrow> holds (moved r0 n) m (\<lambda>_. moved r0 n')"
  unfolding keeps_def by (erule holds_weaken) (rule moved_mono)

lemma exchange_attempts_moved:
  "holds (moved r0 n) (exchange_attempts E q left e) (\<lambda>_. moved r0 (n + left))"
proof (induction left arbitrary: n e)
  case 0
  show ?case by (auto intro!: wp_intros)
next
  case (Suc left)
  have more: "holds (moved r0 (Suc n)) (exchange_attempts E q left e) (\<lambda>_. moved r0 (n + Suc left))" for e
    using Suc.IH [of "Suc n" e] by simp
  show ?case
    unfolding exchange_attempts.simps
    by (rule holds_bind [OF pick_server_moved])
      (intro holds_after [OF limiter_wait_moved] holds_after [OF keeps_reads] holds_after [OF calls_moved]
        holds_option holds_sum holds_if more holds_end [OF keeps_ret] holds_end [OF retry_truncated_moved]; simp)
qed

lemma exchange_doh_moved: "keeps (moved r0 n) (exchange_doh E q)"
  unfolding exchange_doh_def
  by (intro keeps_bind keeps_reads keeps_sum keeps_prod keeps_option keeps_ret calls_moved limiter_wait_moved)

lemma exchange_uncached_moved: "holds (moved r0 n) (exchange_uncached E q) (\<lambda>_. moved r0 (n + max_retries))"
  unfolding exchange_uncached_def
  by (intro holds_after [OF keeps_reads] holds_if holds_option holds_end [OF exchange_doh_moved]
      holds_end keeps_ret exchange_attempts_moved) simp_all

text \<open>An uncached question moves the round robin by at most three servers, and changes nothing
  else of the resolver: not its servers, not its configuration, not its caches.\<close>

theorem exchange_uncached_bounded:
  "case run_state (exchange_uncached E q) s of (res, s') \<Rightarrow>
     \<exists>k \<le> 3. fst s' = (fst s)\<lparr>rv_index := rv_index (fst s) + of_nat k\<rparr>"
  using holdsD [OF exchange_uncached_moved _ moved_start, of E q s]
  by (cases "run_state (exchange_uncached E q) s") (simp add: moved_def max_retries_def)

subsection \<open>Aliases\<close>

lemma cname_chain_loop_gives:
  assumes "fqdns = map (de_fqdn E)" and "chain \<noteq> []"
    and "set seen = set (fqdns (butlast (domain # chain)))" "distinct (fqdns (butlast (domain # chain)))"
    and "current = last (domain # chain)"
  shows "gives (\<lambda>(c, err). length c \<le> length chain + n \<and> distinct (fqdns (butlast (domain # c))))
    (cname_chain_loop E domain n seen chain current)"
  using assms(2-5)
proof (induction n arbitrary: seen chain current)
  case 0
  thus ?case by (auto intro!: gives_ret)
next
  case (Suc n)
  have stop: "gives (\<lambda>(c, err). length c \<le> length chain + Suc n \<and> distinct (fqdns (butlast (domain # c))))
      (ret (chain, e))" for e
    using Suc.prems by (auto intro!: gives_ret)
  have next_step: "gives (\<lambda>(c, err). length c \<le> length chain + Suc n \<and> distinct (fqdns (butlast (domain # c))))
      (cname_chain_loop E domain n (de_fqdn E current # seen) (chain @ [nxt]) nxt)"
    if "de_fqdn E current \<notin> set seen" for nxt
  proof -
    have "butlast (domain # (chain @ [nxt])) = butlast (domain # chain) @ [current]"
      using Suc.prems(4) append_butlast_last_id [of "domain # chain"] by (simp add: butlast_append del: append_butlast_last_id)
    hence "fqdns (butlast (domain # (chain @ [nxt]))) = fqdns (butlast (domain # chain)) @ [de_fqdn E current]"
      by (simp only: assms(1) map_append list.map)
    with that Suc.prems(2,3)
    have "set (de_fqdn E current # seen) = set (fqdns (butlast (domain # chain @ [nxt])))"
      "distinct (fqdns (butlast (domain # chain @ [nxt])))" by auto
    from Suc.IH [OF _ this, of nxt] show ?thesis by simp
  qed
  show ?case
    unfolding cname_chain_loop.simps Let_def
    by (intro gives_bind_any gives_option gives_if gives_sum stop next_step)
      (use Suc.prems in \<open>auto intro!: gives_ret\<close>)
qed

text \<open>Following aliases ends: the chain has at most ten elements, no name is asked for twice,
  and only its last element can repeat an earlier name. Only when the first question is answered
  without an alias, the result is the list that the address question carries.\<close>

theorem cname_chain_bounded:
  "case run_state (resolve_cname_chain E domain) s of ((c, err), s') \<Rightarrow>
     length c \<le> 10 \<and> distinct (map (de_fqdn E) (butlast (domain # c))) \<or>
     (case run_state (query E domain TypeCNAME) (snd (run_state (context_err E) s)) of
        (Inr m, s1) \<Rightarrow> next_cname (de_go E) m = [] \<and>
          run_state (resolve_cname_via_a E domain) s1 = ((c, err), s')
      | (Inl _, _) \<Rightarrow> False)"
proof -
  let ?B = "\<lambda>(c, err :: dns_error option). length c \<le> 10 \<and> distinct (map (de_fqdn E) (butlast (domain # c)))"
  have loop: "gives ?B (cname_chain_loop E domain 9 [de_fqdn E domain] [nxt] nxt)" for nxt
    using cname_chain_loop_gives [OF refl, of "[nxt]" "[de_fqdn E domain]" E domain nxt 9] by simp
  have ten: "10 = Suc 9" by simp
  have step: "resolve_cname_chain E domain = do {
      done \<leftarrow> context_err E;
      case done of Some e \<Rightarrow> ret ([], Some e)
      | None \<Rightarrow> do {
          res \<leftarrow> query E domain TypeCNAME;
          case res of Inl e \<Rightarrow> ret ([], Some e)
          | Inr m \<Rightarrow> if next_cname (de_go E) m = [] then resolve_cname_via_a E domain
              else cname_chain_loop E domain 9 [de_fqdn E domain] [next_cname (de_go E) m] (next_cname (de_go E) m)
        }
    }"
    unfolding resolve_cname_chain_def max_chain_depth_def ten cname_chain_loop.simps(2) Let_def
    by (simp del: cname_chain_loop.simps cong: if_cong option.case_cong sum.case_cong)
  obtain d s1 where d: "run_state (context_err E) s = (d, s1)" by (rule prod.exhaust)
  obtain res s2 where r: "run_state (query E domain TypeCNAME) s1 = (res, s2)" by (rule prod.exhaust)
  obtain c err s' where run: "run_state (resolve_cname_chain E domain) s = ((c, err), s')"
    by (metis prod.exhaust)
  have "?B (c, err) \<or> (\<exists>m. res = Inr m \<and> next_cname (de_go E) m = [] \<and>
      run_state (resolve_cname_via_a E domain) s2 = ((c, err), s'))"
  proof (cases "d = None \<and> (\<exists>m. res = Inr m \<and> next_cname (de_go E) m \<noteq> [])")
    case True
    then obtain m where m: "d = None" "res = Inr m" "next_cname (de_go E) m \<noteq> []" by blast
    with d r run have "run_state (cname_chain_loop E domain 9 [de_fqdn E domain] [next_cname (de_go E) m]
        (next_cname (de_go E) m)) s2 = ((c, err), s')" by (simp add: step del: cname_chain_loop.simps)
    with givesD [OF loop] show ?thesis by blast
  next
    case False
    with d r run show ?thesis
      by (cases d; cases res) (auto simp: step simp del: cname_chain_loop.simps split: if_splits)
  qed
  with d r run show ?thesis by auto
qed

subsection \<open>Zones stay inside the host's ancestry\<close>

lemma split_join:
  "ws \<noteq> [] \<Longrightarrow> \<forall>w \<in> set ws. d \<notin> set w \<Longrightarrow> split_on d (join_with [d] ws) = ws"
proof (induction ws)
  case (Cons w ws)
  thus ?case by (cases ws) (auto simp: split_on_no_sep split_on_append)
qed simp

lemma join_suffix_label:
  assumes "ls \<noteq> []" "suffix ls (split_on CHR ''.'' h)"
  shows "label_suffix (join_with ''.'' ls) h"
proof -
  have "\<forall>w \<in> set ls. CHR ''.'' \<notin> set w"
    using assms(2) by (metis set_mono_suffix split_on_parts subsetD)
  thus ?thesis using assms by (simp add: label_suffix_def split_join)
qed

lemma valid_host_plain: "valid_host h \<Longrightarrow> list_all plain_char h"
  unfolding list_all_iff
proof
  fix c assume "valid_host h" "c \<in> set h"
  thus "plain_char c"
    by (auto dest!: valid_host_chars simp: plain_char_def host_char_def host_rune_ok_def in_range_def is_space_def)
qed

lemma normalize_label_suffix:
  assumes "valid_host h" "label_suffix z h"
  shows "normalize_dns_name G z = z"
proof -
  from assms(2) have z: "h = z \<or> suffix (CHR ''.'' # z) h" by (simp add: label_suffix_iff)
  hence sub: "suffix z h" by (auto simp: suffix_def)
  hence "list_all plain_char z"
    using valid_host_plain [OF assms(1)] by (auto simp: list_all_iff dest: set_mono_suffix)
  moreover have "\<not> suffix ''.'' z"
    using valid_host_no_dot_end [OF assms(1)] sub suffix_order.trans by blast
  ultimately show ?thesis
    by (simp add: normalize_dns_name_def trim_space_plain to_lower_plain trim_suffix_def)
qed

lemma zone_search_gives:
  "gives (\<lambda>d. dz_zone d = [] \<or> (\<exists>l. l \<noteq> [] \<and> suffix l ls \<and> dz_zone d = join_with ''.'' l)) (zone_search E ls)"
proof (induction ls)
  case Nil
  show ?case by (auto intro!: gives_ret simp: no_delegation_def)
next
  case (Cons l ls)
  have here: "\<exists>l'. l' \<noteq> [] \<and> suffix l' (l # ls) \<and> join_with ''.'' (l # ls) = join_with ''.'' l'"
    by (rule exI [of _ "l # ls"]) simp
  have later: "gives (\<lambda>d. dz_zone d = [] \<or> (\<exists>l'. l' \<noteq> [] \<and> suffix l' (l # ls) \<and> dz_zone d = join_with ''.'' l'))
      (zone_search E ls)"
    by (rule gives_weaken [OF Cons.IH]) (auto intro: suffix_ConsI)
  show ?case
    unfolding zone_search.simps Let_def
    by (intro gives_bind_any gives_if gives_prod gives_ret later) (simp_all add: here no_delegation_def)
qed

lemma holds_gives:
  assumes "gives R m" "keeps I m" and "\<And>a. R a \<Longrightarrow> holds I (f a) Q"
  shows "holds I (State_Monad.bind m f) Q"
proof (rule holdsI)
  fix s b s' assume "I s" and run: "run_state (State_Monad.bind m f) s = (b, s')"
  from run obtain a s1 where "run_state m s = (a, s1)" "run_state (f a) s1 = (b, s')" by (rule run_bindE)
  with \<open>I s\<close> assms show "Q b s'" by (meson keepsD givesD holdsD)
qed

text \<open>A value that the state does not matter for.\<close>

lemma holds_value: "Q v \<Longrightarrow> holds P (ret v) (\<lambda>a _. Q a)"
  by (simp add: holds_def)

lemma authoritative_zone_details_zone:
  "holds (resolver_ok E) (authoritative_zone_details E d)
     (\<lambda>res _. case res of Inl _ \<Rightarrow> True | Inr z \<Rightarrow> az_zone z = normalize_dns_name (de_go E) (dz_zone d))"
  unfolding authoritative_zone_details_def Let_def
proof (rule holds_bind [OF holds_reads [of _ "\<lambda>r s. r = fst s \<and> resolver_ok E s"]], simp)
  fix r
  let ?zone = "normalize_dns_name (de_go E) (dz_zone d)"
  show "holds (\<lambda>s. r = fst s \<and> resolver_ok E s)
     (case map_of (rv_zone_cache r) ?zone of
        None \<Rightarrow> build_authoritative_zone_details E ?zone d \<bind> (\<lambda>result. context_err E \<bind> (\<lambda>done.
          case done of None \<Rightarrow> update_resolver (\<lambda>r. r\<lparr>rv_zone_cache := map_put (rv_zone_cache r) ?zone result\<rparr>) \<bind>
              (\<lambda>_. ret (Inr result))
          | Some e \<Rightarrow> ret (Inl e)))
      | Some cached \<Rightarrow> ret (Inr cached))
     (\<lambda>res _. case res of Inl _ \<Rightarrow> True | Inr z \<Rightarrow> az_zone z = ?zone)"
  proof (rule holds_option, goal_cases)
    case 1
    show ?case
    proof (rule holds_strengthen [of "resolver_ok E"], rule holds_gives [OF build_zone build_ok])
      fix z :: authoritative_zone assume "az_zone z = ?zone"
      thus "holds (resolver_ok E) (context_err E \<bind> (\<lambda>done.
          case done of None \<Rightarrow> update_resolver (\<lambda>r. r\<lparr>rv_zone_cache := map_put (rv_zone_cache r) ?zone z\<rparr>) \<bind>
              (\<lambda>_. ret (Inr z))
          | Some e \<Rightarrow> ret (Inl e)))
        (\<lambda>res _. case res of Inl _ \<Rightarrow> True | Inr z \<Rightarrow> az_zone z = ?zone)"
        by (auto simp: holds_def context_err_def split: option.split)
    qed simp
  next
    case (2 z)
    thus ?case
      by (auto simp: holds_def resolver_ok_def zones_keyed_def dest: list_all_lookup)
  qed
qed

lemma zone_source:
  assumes "valid_host h"
    and "zone = (if owner \<noteq> [] \<and> \<not> is_dns_ancestor_or_self (de_go E) h owner then [] else owner)"
  shows "gives (\<lambda>d. dz_zone d = [] \<or> label_suffix (normalize_dns_name (de_go E) (dz_zone d)) h)
    (if zone = [] then zone_search E (split_on CHR ''.'' h) else ret (no_delegation zone))"
proof (rule gives_if)
  assume "zone = []"
  show "gives (\<lambda>d. dz_zone d = [] \<or> label_suffix (normalize_dns_name (de_go E) (dz_zone d)) h)
    (zone_search E (split_on CHR ''.'' h))"
    by (rule gives_weaken [OF zone_search_gives])
      (metis assms(1) join_suffix_label normalize_label_suffix)
next
  assume "zone \<noteq> []"
  hence "is_dns_ancestor_or_self (de_go E) h zone" using assms(2) by (auto split: if_splits)
  hence "label_suffix (normalize_dns_name (de_go E) zone) h"
    using assms(1) by (simp add: ancestor_labels normalize_dns_name_valid)
  thus "gives (\<lambda>d. dz_zone d = [] \<or> label_suffix (normalize_dns_name (de_go E) (dz_zone d)) h)
    (ret (no_delegation zone))"
    by (intro gives_ret) (simp add: no_delegation_def)
qed

lemma details_in_ancestry:
  assumes "dz_zone d \<noteq> [] \<Longrightarrow> label_suffix (normalize_dns_name (de_go E) (dz_zone d)) h"
  shows "holds (resolver_ok E) (if dz_zone d = [] then ret (Inl e) else authoritative_zone_details E d)
    (\<lambda>res _. case res of Inl _ \<Rightarrow> True | Inr z \<Rightarrow> label_suffix (az_zone z) h)"
  by (intro holds_if holds_value holds_weaken [OF authoritative_zone_details_zone])
    (use assms in \<open>auto split: sum.splits\<close>)

lemma find_authoritative_zone_holds:
  assumes h: "valid_host h"
  shows "holds (resolver_ok E) (find_authoritative_zone E h)
    (\<lambda>res _. case res of Inl _ \<Rightarrow> True | Inr z \<Rightarrow> label_suffix (az_zone z) h)"
  unfolding find_authoritative_zone_def Let_def normalize_dns_name_valid [OF h]
  by (intro holds_after [OF parent_lookups_ok(5)] holds_after [OF context_err_ok] holds_prod holds_sum holds_option
      holds_value holds_gives [OF zone_source [OF h refl]] keeps_cond keeps_ret zone_search_ok
      details_in_ancestry) simp_all

text \<open>The authoritative zone found for a host is the host or one of its ancestors, whatever the
  servers answer: a resolver that follows an alias and returns the authority of another zone
  does not lead the scan out of the scope of the host.\<close>

theorem zone_in_ancestry:
  assumes "valid_host h" and "resolver_ok E s"
  shows "case run_state (find_authoritative_zone E h) s of
    (Inl _, _) \<Rightarrow> True | (Inr z, _) \<Rightarrow> label_suffix (az_zone z) h"
  using holdsD [OF find_authoritative_zone_holds [OF assms(1)] _ assms(2)]
  by (fastforce split: prod.split sum.split)

theorem zone_in_ancestry_witness:
  "valid_host ''www.example'' \<and> resolver_ok sample_env (new_resolver sample_env [], ()) \<and>
   (case run_state (find_authoritative_zone sample_env ''www.example'') (new_resolver sample_env [], ()) of
      (Inl _, _) \<Rightarrow> True | (Inr z, _) \<Rightarrow> label_suffix (az_zone z) ''www.example'')"
proof -
  have h: "valid_host ''www.example''"
    by (simp add: valid_host_def valid_label_def host_char_def host_rune_ok_def in_range_def)
  note ok = new_resolver_ok [of sample_env "[]" "()"]
  show ?thesis by (intro conjI h ok zone_in_ancestry [OF h ok])
qed


theorem cache_key_separates_witness:
  "dns_query_cache_key sample_env (set_question ''WWW.a'' TypeA) =
     dns_query_cache_key sample_env (set_question ''www.A'' TypeA) \<and>
   to_lower (de_go sample_env) ''WWW.a'' = to_lower (de_go sample_env) ''www.A''"
proof -
  have k: "dns_query_cache_key sample_env (set_question ''WWW.a'' TypeA) =
      dns_query_cache_key sample_env (set_question ''www.A'' TypeA)"
    by (simp add: dns_query_cache_key_def set_question_def sample_env_def to_lower_ascii
        lower_char_def in_range_def char_of_def bit_iff_odd)
  have c: "0 \<le> dq_class (set_question n t)" for n t by (simp add: set_question_def)
  from cache_key_separates [OF k c c] k show ?thesis by (simp add: set_question_def)
qed

end
