(* ===== verification/DnsAgreement.thy ===== *)
theory DnsAgreement
  imports DnsChecks
begin

section \<open>Agreement between servers\<close>

text \<open>
  What the resolver concludes from the answers of several servers does not depend on the order
  in which they arrive, nor on the order in which a map is visited, and a conclusion needs the
  agreement it claims: all views of the parent for a delegation, a majority for a consensus.
\<close>

subsection \<open>Delegation\<close>

lemma views_fold:
  fixes s0 :: delegation_summary and G wanted ms
  defines "s \<equiv> fold (summarize_view G wanted) ms s0"
  shows "ds_valid_views s = ds_valid_views s0 + length (filter valid_view ms)"
    and "set (ds_combined s) =
      set (ds_combined s0) \<union> (\<Union>m \<in> set (filter valid_view ms). set (delegation_nameservers G m wanted))"
    and "ds_valid_views s0 > 0 \<Longrightarrow> ds_reference s = ds_reference s0"
    and "ds_valid_views s0 > 0 \<Longrightarrow> ds_consistent s \<longleftrightarrow> ds_consistent s0 \<and>
      (\<forall>m \<in> set (filter valid_view ms). equal_dns_name_sets G (ds_reference s0) (delegation_nameservers G m wanted))"
  unfolding s_def
  by (induction ms arbitrary: s0) (auto simp: summarize_view_def Let_def)

lemma views_cases:
  obtains (none) "filter valid_view ms = []" "ds_valid_views (delegation_views G ms wanted) = 0"
  | (some) m rest where "filter valid_view ms = m # rest"
      "ds_valid_views (delegation_views G ms wanted) > 0"
      "ds_reference (delegation_views G ms wanted) = delegation_nameservers G m wanted"
      "ds_consistent (delegation_views G ms wanted) \<longleftrightarrow>
        (\<forall>m' \<in> set rest. equal_dns_name_sets G (delegation_nameservers G m wanted) (delegation_nameservers G m' wanted))"
proof -
  define s0 :: delegation_summary where
    "s0 = \<lparr>ds_reference = [], ds_combined = [], ds_glue = [], ds_valid_views = 0, ds_consistent = True\<rparr>"
  have skip: "fold (summarize_view G wanted) xs s0 = s0" if "filter valid_view xs = []" for xs
    using that by (induction xs) (auto simp: summarize_view_def split: if_splits)
  show thesis
  proof (cases "filter valid_view ms")
    case Nil
    with skip [of ms] show thesis by (intro none) (simp_all add: delegation_views_def s0_def)
  next
    case (Cons m rest)
    then obtain xs ys where ms: "ms = xs @ m # ys" and xs: "filter valid_view xs = []" and m: "valid_view m"
      and rest: "rest = filter valid_view ys"
      by (auto simp: filter_eq_Cons_iff filter_empty_conv)
    have s1: "summarize_view G wanted m s0 = s0\<lparr>ds_reference := delegation_nameservers G m wanted,
        ds_valid_views := 1, ds_combined := delegation_nameservers G m wanted,
        ds_glue := merge_delegation_glue G [] (dm_extra m) (delegation_nameservers G m wanted)\<rparr>" (is "_ = ?s1")
      using m by (simp add: summarize_view_def s0_def Let_def)
    have v: "delegation_views G ms wanted = fold (summarize_view G wanted) ys ?s1"
      using skip [OF xs] s1 by (simp add: delegation_views_def s0_def [symmetric] ms)
    show thesis
      using Cons by (intro some [of m rest]) (simp_all add: v views_fold rest s0_def)
  qed
qed

lemma equal_sets_sym: "equal_dns_name_sets G a b \<longleftrightarrow> equal_dns_name_sets G b a"
  by (auto simp: equal_dns_name_sets_eq)

text \<open>C21. A delegation counts as verified exactly when the parent's servers gave at least one valid
  answer, the first of them names a nameserver, and every valid answer names the same set; a
  valid answer that denies the delegation prevents it. The combined list is the union of what
  the valid answers name, in whatever order they arrive.\<close>

theorem delegation_needs_agreement:
  "case summarize_parent_delegation_responses G responses wanted of (combined, glue, verified) \<Rightarrow>
     verified = (case filter valid_view responses of
        [] \<Rightarrow> False
      | m # rest \<Rightarrow> delegation_nameservers G m wanted \<noteq> [] \<and>
          list_all (\<lambda>m'. equal_dns_name_sets G (delegation_nameservers G m wanted)
            (delegation_nameservers G m' wanted)) rest) \<and>
     set combined = normalize_dns_name G `
       (\<Union>m \<in> set (filter valid_view responses). set (delegation_nameservers G m wanted)) - {[]}"
proof -
  let ?s = "delegation_views G responses wanted" and ?d = "\<lambda>m. delegation_nameservers G m wanted"
  have comb: "set (ds_combined ?s) = (\<Union>m \<in> set (filter valid_view responses). set (?d m))"
    by (simp add: delegation_views_def views_fold)
  have "(ds_valid_views ?s > 0 \<and> ds_consistent ?s \<and> length (ds_reference ?s) > 0) =
    (case filter valid_view responses of
        [] \<Rightarrow> False
      | m # rest \<Rightarrow> ?d m \<noteq> [] \<and> list_all (\<lambda>m'. equal_dns_name_sets G (?d m) (?d m')) rest)"
    by (cases rule: views_cases [of responses G wanted]) (auto simp: list_all_iff)
  thus ?thesis by (simp add: summarize_parent_delegation_responses_def Let_def comb)
qed

subsection \<open>Counting\<close>

lemma count_keys_snoc: "count_keys (ks @ [k]) = map_put (count_keys ks) k ((case map_of (count_keys ks) k of None \<Rightarrow> 0 | Some n \<Rightarrow> n) + 1)"
  by (simp add: count_keys_def)

lemma map_of_count_keys: "map_of (count_keys ks) k = (if k \<in> set ks then Some (int (count (mset ks) k)) else None)"
proof (induction ks rule: rev_induct)
  case (snoc x ks)
  thus ?case by (auto simp: count_keys_snoc not_in_iff)
qed (simp add: count_keys_def)

lemma distinct_count_keys: "distinct (map fst (count_keys ks))"
proof (induction ks rule: rev_induct)
  case (snoc x ks)
  thus ?case by (simp add: count_keys_snoc distinct_map_put)
qed (simp add: count_keys_def)

lemma count_keys_mem: "(k, n) \<in> set (count_keys ks) \<longleftrightarrow> k \<in> set ks \<and> n = int (count (mset ks) k)"
  using map_of_count_keys [of ks k] distinct_count_keys [of ks]
  by (auto split: if_splits dest: map_of_SomeD eq_key_imp_eq_value)

lemma two_majorities:
  assumes "count (mset ks) j \<ge> q" "count (mset ks) k \<ge> q" "length ks < 2 * q"
  shows "j = k"
proof (rule ccontr)
  assume "j \<noteq> k"
  hence "count (mset ks) j + count (mset ks) k \<le> size (mset ks)"
    by (induction ks) auto
  with assms show False by simp
qed

subsection \<open>Consensus\<close>

text \<open>More than half of the views have this status.\<close>

definition majority :: "dns_view list \<Rightarrow> dns_status \<Rightarrow> bool" where
  "majority views st \<longleftrightarrow> length views < 2 * length (filter (\<lambda>v. dv_status v = st) views)"

definition quorum_of :: "dns_view list \<Rightarrow> int" where
  "quorum_of views = int (length views div 2 + 1)"

definition consensus_record :: "string \<Rightarrow> dns_view list \<Rightarrow> dns_consensus" where
  "consensus_record t views = \<lparr>dc_query_type = t, dc_state = consensus_state views (quorum_of views),
     dc_quorum = quorum_of views, dc_views = views\<rparr>"

lemma consensus_for_record:
  "gives (\<lambda>c. \<exists>views. c = consensus_record (de_type_text E qtype) views) (consensus_for E name qtype)"
  unfolding consensus_for_def Let_def
  by (intro gives_bind_any gives_ret) (auto simp: consensus_record_def quorum_of_def)

lemma quorum_nat: "int n \<ge> quorum_of views \<longleftrightarrow> length views < 2 * n"
  unfolding quorum_of_def by linarith

lemma count_status: "count (mset (map dv_status views)) st = length (filter (\<lambda>v. dv_status v = st) views)"
  by (induction views) auto

lemma status_with_quorum_majority:
  assumes "mset counts = mset (count_keys (map dv_status views))"
  shows "status_with_quorum counts (quorum_of views) = st \<Longrightarrow> st \<noteq> DNSStatusError \<Longrightarrow> majority views st"
    and "majority views st \<Longrightarrow> status_with_quorum counts (quorum_of views) = st"
proof -
  have mem: "(k, n) \<in> set counts \<longleftrightarrow> k \<in> dv_status ` set views \<and> n = int (length (filter (\<lambda>v. dv_status v = k) views))" for k n
    using mset_eq_setD [OF assms] count_keys_mem [of k n "map dv_status views"]
    by (simp add: count_status del: mset_map)
  show "majority views st" if "status_with_quorum counts (quorum_of views) = st" "st \<noteq> DNSStatusError"
    using that by (auto simp: status_with_quorum_def majority_def mem quorum_nat split: option.splits dest!: find_Some_iff2)
  assume st: "majority views st"
  hence "filter (\<lambda>v. dv_status v = st) views \<noteq> []" by (auto simp: majority_def)
  hence "(st, int (length (filter (\<lambda>v. dv_status v = st) views))) \<in> set counts"
    by (auto simp: mem filter_empty_conv)
  moreover have "int (length (filter (\<lambda>v. dv_status v = st) views)) \<ge> quorum_of views"
    using st by (simp only: quorum_nat majority_def)
  ultimately have "find (\<lambda>(_, n). n \<ge> quorum_of views) counts \<noteq> None"
    unfolding find_None_iff by (metis (mono_tags, lifting) case_prod_conv)
  then obtain s n where f: "find (\<lambda>(_, n). n \<ge> quorum_of views) counts = Some (s, n)" by auto
  hence "length views < 2 * length (filter (\<lambda>v. dv_status v = s) views)"
    by (auto simp: mem quorum_nat dest!: find_Some_iff2)
  hence "s = st"
    using st two_majorities [of "length views div 2 + 1" "map dv_status views" s st]
    by (simp add: majority_def count_status del: mset_map)
  with f show "status_with_quorum counts (quorum_of views) = st" by (simp add: status_with_quorum_def)
qed

lemma consensus_status_majority:
  "consensus_status views (quorum_of views) = st \<Longrightarrow> st \<noteq> DNSStatusError \<Longrightarrow> majority views st"
  unfolding consensus_status_def by (rule status_with_quorum_majority) simp_all

text \<open>The consensus on an address is sound: a host is reported as not existing, or as having no
  address, only when more than half of the resolvers said so for each of the two families, and
  as resolved only when more than half said so for one of them; without consensus nothing is
  concluded.\<close>

theorem address_consensus_sound:
  "case combine_consensus (consensus_record t a) (consensus_record u b) of (st, verdict) \<Rightarrow>
     if verdict = ''CONSENSUS'' then
       (if st = DNSStatusResolved then majority a DNSStatusResolved \<or> majority b DNSStatusResolved
        else (st = DNSStatusNXDomain \<or> st = DNSStatusNoData) \<and> majority a st \<and> majority b st)
     else st = DNSStatusError"
  using consensus_status_majority [of a] consensus_status_majority [of b]
  by (auto simp: combine_consensus_def consensus_record_def Let_def split: prod.splits if_splits)

text \<open>The status that has the quorum does not depend on the order in which the map of counts is
  visited: at most one status can have it.\<close>

theorem quorum_order_independent:
  assumes "mset counts = mset (count_keys (map dv_status views))"
  shows "status_with_quorum counts (quorum_of views) = consensus_status views (quorum_of views)"
proof (cases "\<exists>st. majority views st")
  case True
  then obtain st where "majority views st" by blast
  thus ?thesis
    using status_with_quorum_majority(2) [OF assms] status_with_quorum_majority(2) [OF refl, of views]
    by (simp add: consensus_status_def)
next
  case False
  have "status_with_quorum counts (quorum_of views) = DNSStatusError"
    using status_with_quorum_majority(1) [OF assms refl] False by blast
  moreover have "consensus_status views (quorum_of views) = DNSStatusError"
    using consensus_status_majority [OF refl] False by blast
  ultimately show ?thesis by simp
qed

theorem quorum_order_independent_witness:
  "status_with_quorum [(DNSStatusTimeout, 1), (DNSStatusNXDomain, 2)] 2 = DNSStatusNXDomain"
proof -
  define vs where "vs = [zero_dns_view\<lparr>dv_status := DNSStatusNXDomain\<rparr>, zero_dns_view\<lparr>dv_status := DNSStatusTimeout\<rparr>,
    zero_dns_view\<lparr>dv_status := DNSStatusNXDomain\<rparr>]"
  have "mset [(DNSStatusTimeout, 1), (DNSStatusNXDomain, 2)] = mset (count_keys (map dv_status vs))"
    by (simp add: vs_def count_keys_def)
  from quorum_order_independent [OF this] show ?thesis
    by (simp add: vs_def quorum_of_def consensus_status_def count_keys_def status_with_quorum_def)
qed

subsection \<open>The profile of a host\<close>



definition written :: "(dns_error + profile_write) list \<Rightarrow> profile_write list" where
  "written results = List.map_filter (\<lambda>r. case r of Inl _ \<Rightarrow> None | Inr u \<Rightarrow> Some u) results"


lemma written_simps [simp]:
  "written [] = []" "written (Inl e # rs) = written rs" "written (Inr u # rs) = u # written rs"
  by (simp_all add: written_def map_filter_simps)







end
