(* ===== verification/DnsSetup.thy ===== *)
theory DnsSetup
  imports DnsChecks
begin

section \<open>Configuring the resolver\<close>

text \<open>
  The endpoints a resolver accepts, and what its copies keep of a configuration.
\<close>

subsection \<open>Endpoints\<close>

lemma itoa_digits: "0 \<le> n \<Longrightarrow> list_all digit_char (itoa n)"
  by (simp add: itoa_def nat_dec_digits)

lemma itoa_port_chars: "0 \<le> n \<Longrightarrow> set (itoa n) \<inter> {CHR ''['', CHR '']'', CHR '':''} = {}"
  using itoa_digits [of n] by (auto simp: list_all_iff digit_char_def in_range_def)

text \<open>An endpoint a client can dial: a host and a port, told apart by \<open>SplitHostPort\<close>.\<close>

definition dialable :: "string \<Rightarrow> bool" where
  "dialable e \<longleftrightarrow> (\<exists>host n. host \<noteq> [] \<and> 1 \<le> n \<and> n \<le> 65535 \<and> net_split_host_port e = Some (host, itoa n))"

lemma dialable_join:
  assumes "host \<noteq> []" "set host \<inter> {CHR ''['', CHR '']''} = {}" "1 \<le> n" "n \<le> 65535"
  shows "dialable (join_host_port host (itoa n))"
  unfolding dialable_def
  using assms split_join_host_port [of host "itoa n"] itoa_port_chars [of n] by auto

lemma dialable_default:
  "host \<noteq> [] \<Longrightarrow> set host \<inter> {CHR ''['', CHR '']''} = {} \<Longrightarrow> dialable (join_host_port host ''53'')"
  using dialable_join [of host 53] by (simp add: itoa_def nat_dec.simps [of 53] nat_dec.simps [of 5] char_of_def bit_iff_odd)

lemma groups_of_length: "length (groups_of bs) = length bs div 2"
  by (induction bs rule: groups_of.induct) auto

lemma hex_text_not_Nil [simp]: "hex_text n \<noteq> []"
  by (simp add: hex_text.simps [of n])

lemma ip_text_not_Nil: "length a = 16 \<Longrightarrow> ip_text a \<noteq> []"
proof -
  assume a: "length a = 16"
  have j: "gs \<noteq> [] \<Longrightarrow> join_with '':'' (map hex_text gs) \<noteq> []" for gs
    by (cases gs; cases "tl gs") auto
  have "length (groups_of a) = 8"
    using a by (simp add: groups_of_length)
  hence "groups_of a \<noteq> []" by auto
  from j [OF this] have "v6_text a \<noteq> []" by (auto simp: v6_text_def Let_def split: option.split)
  moreover have "length v = 4 \<Longrightarrow> v4_text v \<noteq> []" for v
    by (auto simp: v4_text_def numeral_eq_Suc length_Suc_conv)
  ultimately show ?thesis using a by (auto simp: ip_text_def to4_def split: option.splits)
qed

lemma dialable_ip: "parse_ip s = Some a \<Longrightarrow> 1 \<le> n \<Longrightarrow> n \<le> 65535 \<Longrightarrow> dialable (join_host_port (ip_text a) (itoa n))"
  by (rule dialable_join) (simp_all add: parse_ip_length ip_text_not_Nil ip_text_not)

lemma dialable_ip_default: "parse_ip s = Some a \<Longrightarrow> dialable (join_host_port (ip_text a) ''53'')"
  by (rule dialable_default) (simp_all add: parse_ip_length ip_text_not_Nil ip_text_not)

lemma lower_brackets:
  assumes "is_ascii h" "set h \<inter> {CHR ''['', CHR '']''} = {}"
  shows "set (trim_suffix (to_lower G h) d) \<inter> {CHR ''['', CHR '']''} = {}"
proof -
  have "lower_char c \<in> {CHR ''['', CHR '']''} \<Longrightarrow> c \<in> {CHR ''['', CHR '']''}" for c
  proof -
    assume "lower_char c \<in> {CHR ''['', CHR '']''}"
    hence "of_char (lower_char c) \<in> {91 :: nat, 93}" by auto
    hence "of_char c \<in> {91 :: nat, 93}" by (auto simp: of_char_lower_char in_range_def split: if_splits)
    hence "of_char c = (of_char CHR ''['' :: nat) \<or> of_char c = (of_char CHR '']'' :: nat)" by simp
    thus "c \<in> {CHR ''['', CHR '']''}" by (simp only: of_char_eq_iff) simp
  qed
  hence "set (map lower_char h) \<inter> {CHR ''['', CHR '']''} = {}" using assms(2) by fastforce
  thus ?thesis
    using assms(1) by (auto simp: to_lower_ascii trim_suffix_def dest: in_set_takeD)
qed

lemma set_trim_space: "set (trim_space s) \<subseteq> set s"
proof -
  have "set (concat (map snd (rev (dropWhile P (rev (dropWhile Q cs)))))) \<subseteq> set (concat (map snd cs))"
    for P Q and cs :: "(nat \<times> string) list"
    by (auto dest!: set_dropWhileD)
  from this [of _ _ "rune_chunks s"] show ?thesis
    by (simp add: trim_space_def trim_func_def Let_def rune_chunks_bytes)
qed

lemma ascii_trim: "is_ascii s \<Longrightarrow> is_ascii (trim_space s)"
  using set_trim_space [of s] by (auto simp: is_ascii_def list_all_iff)

lemma split_host_port_parts:
  "net_split_host_port v = Some (host, port) \<Longrightarrow> set v \<inter> {CHR ''['', CHR '']''} = {} \<Longrightarrow> set host \<subseteq> set v"
  by (auto simp: net_split_host_port_def Let_def split: option.splits if_splits dest: in_set_takeD in_set_dropD)

text \<open>Every server configuration the resolver accepts becomes an endpoint that can be split into
  a host and a port between 1 and 65535 again (for ASCII input without brackets; brackets are
  only meaningful around an IPv6 address).\<close>

theorem endpoint_dialable:
  assumes "is_ascii v" and "set v \<inter> {CHR ''['', CHR '']''} = {}"
  shows "case normalize_resolver_endpoint E v of Inl _ \<Rightarrow> True | Inr e \<Rightarrow> dialable e"
proof -
  let ?v = "trim_space v"
  have v: "is_ascii ?v" "set ?v \<inter> {CHR ''['', CHR '']''} = {}"
    using assms set_trim_space [of v] by (auto intro: ascii_trim)
  hence p: "\<not> prefix ''['' ?v" "\<not> suffix '']'' ?v"
    by (auto simp: prefix_def suffix_def)
  have host: "dialable (join_host_port (trim_suffix (to_lower G h) d) (itoa n))"
    if "set h \<subseteq> set ?v" "trim_suffix (to_lower G h) d \<noteq> []" "1 \<le> n" "n \<le> 65535" for G h d n
    using that v by (intro dialable_join lower_brackets) (auto simp: is_ascii_def list_all_iff)
  have plain: "dialable (join_host_port (trim_suffix (to_lower G ?v) d) ''53'')"
    if "trim_suffix (to_lower G ?v) d \<noteq> []" for G d
    using that v by (intro dialable_default lower_brackets)
  show ?thesis
    using p
    by (auto simp: normalize_resolver_endpoint_def Let_def dialable_ip dialable_ip_default plain
        dest!: split_host_port_parts [OF _ v(2)] intro!: host
        split: option.split prod.split)
qed

theorem endpoint_dialable_witness:
  "case normalize_resolver_endpoint sample_env '' NS.Example.:5353'' of Inl _ \<Rightarrow> True | Inr e \<Rightarrow> dialable e"
  by (rule endpoint_dialable) (simp_all add: is_ascii_def)

subsection \<open>Copies\<close>

text \<open>A configuration in which no server is valid: the resolver refuses every question.\<close>

lemma invalid_config_refused:
  assumes "rv_config_error r = Some e" "rv_doh_url r = []"
  shows "run_state (exchange_uncached E q) (r, w) =
    (Inl (WrappedError (''configura'' @ [CHR 0xC3, CHR 0xA7, CHR 0xC3, CHR 0xA3] @ ''o dos resolvedores inv'' @
       [CHR 0xC3, CHR 0xA1] @ ''lida'') e), (r, w))"
  using assms by (simp add: exchange_uncached_def)

lemma v4_endpoint_chars:
  assumes "0 \<le> n"
  shows "set (v4_text bs @ '':'' @ itoa n) \<subseteq> Collect digit_char \<union> {CHR ''.'', CHR '':''}"
  using v4_text_chars [of bs] itoa_digits [OF assms] by (auto simp: list_all_iff)

lemma endpoint_chars_plain:
  assumes "set s \<subseteq> Collect digit_char \<union> {CHR ''.'', CHR '':''}"
  shows "list_all plain_char s" and "CHR ''['' \<notin> set s"
proof -
  have "plain_char c" if "digit_char c \<or> c = CHR ''.'' \<or> c = CHR '':''" for c
    using that by (auto simp: plain_char_def digit_char_def in_range_def is_space_def)
  thus "list_all plain_char s" using assms by (auto simp: list_all_iff)
  show "CHR ''['' \<notin> set s" using assms by (auto simp: digit_char_def in_range_def)
qed

text \<open>An IPv4 endpoint is its own normal form.\<close>

lemma v4_endpoint_fixed:
  assumes "length bs = 4" "list_all (\<lambda>b. b \<le> 255) bs" "1 \<le> n" "n \<le> 65535"
  shows "normalize_resolver_endpoint E (v4_text bs @ '':'' @ itoa n) = Inr (v4_text bs @ '':'' @ itoa n)"
proof -
  let ?e = "v4_text bs @ '':'' @ itoa n"
  note chars = endpoint_chars_plain [OF v4_endpoint_chars [of n bs]]
  have j: "join_host_port (v4_text bs) (itoa n) = ?e"
    using v4_text_chars [of bs] by (auto simp: join_host_port_def digit_char_def in_range_def)
  have split: "net_split_host_port ?e = Some (v4_text bs, itoa n)"
    unfolding j [symmetric] using itoa_port_chars [of n] assms(3) v4_text_not [of bs]
    by (intro split_join_host_port) auto
  have "trim_space ?e = ?e" using chars(1) assms(3) by (simp add: trim_space_plain)
  moreover have "prefix ''['' ?e \<Longrightarrow> CHR ''['' \<in> set ?e" by (auto simp: prefix_def simp del: set_append)
  hence "\<not> prefix ''['' ?e" using chars(2) assms(3) by auto
  moreover have "v4_text bs \<noteq> []" using assms(1) by (auto simp: v4_text_def numeral_eq_Suc length_Suc_conv)
  ultimately show ?thesis
    unfolding normalize_resolver_endpoint_def Let_def
    using split assms by (simp add: atoi_itoa parse_ip_v4_text ip_text_v4 j)
qed

lemma default_servers_text:
  "default_servers = map (\<lambda>bs. v4_text bs @ '':'' @ itoa 53) [[1, 1, 1, 1], [8, 8, 8, 8], [9, 9, 9, 9], [8, 8, 4, 4]]"
  by (simp add: default_servers_def v4_text_def itoa_def nat_dec.simps [of 53] nat_dec_small char_of_def bit_iff_odd)

lemma normalize_servers_fixed:
  "list_all (\<lambda>s. normalize_resolver_endpoint E s = Inr s) ss \<Longrightarrow> normalize_servers E i ss acc err = (acc @ ss, err)"
  by (induction ss arbitrary: i acc) simp_all

lemma new_default_resolver:
  "rv_servers (new_resolver E []) = default_servers \<and> rv_config_error (new_resolver E []) = None"
proof -
  have "list_all (\<lambda>s. normalize_resolver_endpoint E s = Inr s) default_servers"
    unfolding default_servers_text
    by (simp only: list.pred_inject list.map) (intro conjI TrueI v4_endpoint_fixed; simp)
  thus ?thesis by (simp add: new_resolver_def normalize_servers_fixed)
qed

lemma set_timeout_fields [simp]:
  "rv_servers (set_timeout t r) = rv_servers r" "rv_config_error (set_timeout t r) = rv_config_error r"
  "rv_doh_url (set_timeout t r) = rv_doh_url r"
  by (simp_all add: set_timeout_def)

lemmas setter_defs = set_request_limiter_def set_consensus_def set_wildcard_filtering_def set_doh_def

text \<open>A resolver configured with invalid servers only refuses every question, but its copy
  forgets the error and asks the public default servers instead.\<close>

theorem clone_forgets_config_error:
  "case new_resolver E [''resolver:dns''] of r \<Rightarrow>
     rv_servers r = [] \<and> rv_config_error r \<noteq> None \<and>
     (case clone_resolver E (Some r) of
        None \<Rightarrow> False
      | Some c \<Rightarrow> rv_servers c = default_servers \<and> rv_config_error c = None)"
proof -
  have "trim_space ''resolver:dns'' = ''resolver:dns''"
    by (simp add: trim_space_plain plain_char_def in_range_def is_space_def)
  hence "normalize_resolver_endpoint E ''resolver:dns'' = Inl (BadPort ''resolver:dns'')"
    by (simp add: normalize_resolver_endpoint_def net_split_host_port_def last_index_def atoi_def
        digit_char_def in_range_def suffix_def)
  hence r: "rv_servers (new_resolver E [''resolver:dns'']) = [] \<and> rv_config_error (new_resolver E [''resolver:dns'']) \<noteq> None"
    by (simp add: new_resolver_def)
  thus ?thesis
    by (simp add: clone_resolver_def setter_defs new_default_resolver)
qed

end
