(* ===== verification/Signatures.thy ===== *)
theory Signatures
  imports DomainUtil "HOL-Library.List_Lexorder" "HOL-Library.Char_ord"
begin

section \<open>The catalogue of signatures (pkg/signatures, internal/evidence/provider_context.go)\<close>

text \<open>
  A fingerprint of a provider, the conditions of its rule language, the decoder that admits a
  catalogue, and the merge of several catalogues.

  Regular expressions are values of a type \<open>'r\<close>; \<open>rx_compile\<close> and \<open>rx_match\<close> are what
  \<open>regexp.Compile\<close> and \<open>MatchString\<close> do. The decoder of JSON is outside: it gives the start
  token and, for each element of the array, a fingerprint or the text of an error. The text that
  \<open>json.Marshal\<close> gives of a condition is \<open>rx_engine_text\<close>; it is only part of a key.
\<close>

subsection \<open>Conditions (engine.go)\<close>

datatype 'r condition =
  Condition (cd_type: string) (cd_value: string) (cd_children: "'r condition list") (cd_compiled: "'r option")

record 'r regex_env =
  rx_compile :: "string \<Rightarrow> string + 'r"
  rx_match :: "'r \<Rightarrow> string \<Rightarrow> bool"
  rx_engine_text :: "'r condition option \<Rightarrow> string"

definition compiled_of :: "'r regex_env \<Rightarrow> 'r option \<Rightarrow> string \<Rightarrow> 'r option" where
  "compiled_of X stored pat =
     (case stored of Some r \<Rightarrow> Some r
      | None \<Rightarrow> (case rx_compile X (''(?i)'' @ pat) of Inl _ \<Rightarrow> None | Inr r \<Rightarrow> Some r))"

definition matches_compiled :: "'r regex_env \<Rightarrow> 'r option \<Rightarrow> string \<Rightarrow> string \<Rightarrow> bool" where
  "matches_compiled X stored pat body =
     (case compiled_of X stored pat of None \<Rightarrow> False | Some r \<Rightarrow> rx_match X r body)"

fun evaluate :: "go_env \<Rightarrow> 'r regex_env \<Rightarrow> string \<Rightarrow> 'r condition \<Rightarrow> bool" where
  "evaluate G X body (Condition type val children compiled) =
     (let t = to_upper G type in
      if t = ''AND'' then (if length children = 0 then False else list_all (evaluate G X body) children)
      else if t = ''OR'' then (if length children = 0 then False else list_ex (evaluate G X body) children)
      else if t = ''NOT'' then (case children of [] \<Rightarrow> False | c # _ \<Rightarrow> \<not> evaluate G X body c)
      else if t = ''MATCH'' then contains_str (to_lower G body) (to_lower G val)
      else if t = ''REGEX'' then matches_compiled X compiled val body
      else False)"

datatype condition_error =
    NeedsChild string
  | NotNeedsOneChild
  | EmptyMatch
  | EmptyRegex
  | BadRegex string
  | UnknownCondition string
  | InChild nat string condition_error

text \<open>What a condition needs for its own type; an expression is compiled.\<close>

definition compile_own :: "'r regex_env \<Rightarrow> string \<Rightarrow> string \<Rightarrow> nat \<Rightarrow> 'r option \<Rightarrow> condition_error + 'r option" where
  "compile_own X t val n compiled =
     (if t = ''AND'' \<or> t = ''OR'' then (if n = 0 then Inl (NeedsChild t) else Inr compiled)
      else if t = ''NOT'' then (if n \<noteq> 1 then Inl NotNeedsOneChild else Inr compiled)
      else if t = ''MATCH'' then (if trim_space val = [] then Inl EmptyMatch else Inr compiled)
      else if t = ''REGEX'' then
        (if trim_space val = [] then Inl EmptyRegex
         else case rx_compile X (''(?i)'' @ val) of Inl e \<Rightarrow> Inl (BadRegex e) | Inr r \<Rightarrow> Inr (Some r))
      else Inl (UnknownCondition t))"

text \<open>The compilation writes the normalised type and the compiled expression into the condition.
  The list is compiled from the left, and the first error is reported with its position.\<close>

fun compile_condition :: "go_env \<Rightarrow> 'r regex_env \<Rightarrow> 'r condition \<Rightarrow> condition_error + 'r condition"
  and compile_children :: "go_env \<Rightarrow> 'r regex_env \<Rightarrow> string \<Rightarrow> nat \<Rightarrow> 'r condition list \<Rightarrow> condition_error + 'r condition list"
where
  "compile_condition G X (Condition type val children compiled) =
     (let t = to_upper G (trim_space type) in
      case compile_own X t val (length children) compiled of
        Inl e \<Rightarrow> Inl e
      | Inr compiled' \<Rightarrow>
          (case compile_children G X t 1 children of
             Inl e \<Rightarrow> Inl e
           | Inr children' \<Rightarrow> Inr (Condition t val children' compiled')))"
| "compile_children G X t i [] = Inr []"
| "compile_children G X t i (c # cs) =
     (case compile_condition G X c of
        Inl e \<Rightarrow> Inl (InChild i t e)
      | Inr c' \<Rightarrow>
          (case compile_children G X t (i + 1) cs of Inl e \<Rightarrow> Inl e | Inr cs' \<Rightarrow> Inr (c' # cs')))"

subsection \<open>Fingerprints (signatures.go)\<close>

record 'r fingerprint =
  fp_id :: string
  fp_service :: string
  fp_cnames :: "string list"
  fp_fingerprint :: string
  fp_http_status :: "int option"
  fp_nxdomain :: bool
  fp_vulnerable :: bool
  fp_status :: string
  fp_discussion :: string
  fp_documentation :: string
  fp_cicd_pass :: "bool option"
  fp_is_regex :: bool
  fp_ns_fingerprints :: "string list"
  fp_mx_fingerprints :: "string list"
  fp_check_type :: string
  fp_confidence :: int
  fp_mx_confidence :: int
  fp_txt_fingerprints :: "string list"
  fp_txt_confidence :: int
  fp_srv_fingerprints :: "string list"
  fp_srv_confidence :: int
  fp_tls_fingerprints :: "string list"
  fp_tls_confidence :: int
  fp_asn_fingerprints :: "string list"
  fp_asn_confidence :: int
  fp_spf_fingerprints :: "string list"
  fp_spf_confidence :: int
  fp_signature_strength :: "(string, int) gomap"
  fp_active_verifier :: string
  fp_proof_requirements :: "string list"
  fp_headers :: meta
  fp_engine :: "'r condition option"
  fp_compiled_regex :: "'r option"

definition zero_fingerprint :: "'r fingerprint" where
  "zero_fingerprint = \<lparr>fp_id = [], fp_service = [], fp_cnames = [], fp_fingerprint = [],
     fp_http_status = None, fp_nxdomain = False, fp_vulnerable = False, fp_status = [],
     fp_discussion = [], fp_documentation = [], fp_cicd_pass = None, fp_is_regex = False,
     fp_ns_fingerprints = [], fp_mx_fingerprints = [], fp_check_type = [], fp_confidence = 0,
     fp_mx_confidence = 0, fp_txt_fingerprints = [], fp_txt_confidence = 0, fp_srv_fingerprints = [],
     fp_srv_confidence = 0, fp_tls_fingerprints = [], fp_tls_confidence = 0, fp_asn_fingerprints = [],
     fp_asn_confidence = 0, fp_spf_fingerprints = [], fp_spf_confidence = 0, fp_signature_strength = [],
     fp_active_verifier = [], fp_proof_requirements = [], fp_headers = [], fp_engine = None,
     fp_compiled_regex = None\<rparr>"

definition builtin_ns_signatures :: "'r fingerprint list" where
  "builtin_ns_signatures =
     [zero_fingerprint\<lparr>fp_service := ''AWS Route53'',
        fp_ns_fingerprints := [''awsdns-*.com'', ''awsdns-*.net'', ''awsdns-*.org'', ''awsdns-*.co.uk''],
        fp_check_type := ''ns'', fp_vulnerable := True, fp_fingerprint := ''REFUSED/SERVFAIL'',
        fp_status := ''Verificar manualmente'',
        fp_discussion := ''https://github.com/EdOverflow/can-i-take-over-xyz/issues/123''\<rparr>,
      zero_fingerprint\<lparr>fp_service := ''Azure DNS'',
        fp_ns_fingerprints := [''azure-dns.com'', ''azure-dns.net'', ''azure-dns.org'', ''azure-dns.info''],
        fp_check_type := ''ns'', fp_vulnerable := True, fp_fingerprint := ''REFUSED/SERVFAIL'',
        fp_status := ''Verificar manualmente'',
        fp_discussion := ''https://github.com/EdOverflow/can-i-take-over-xyz/issues/175''\<rparr>,
      zero_fingerprint\<lparr>fp_service := ''DigitalOcean DNS'',
        fp_ns_fingerprints := [''digitalocean.com''],
        fp_check_type := ''ns'', fp_vulnerable := True, fp_fingerprint := ''REFUSED/SERVFAIL'',
        fp_status := ''Verificar manualmente'',
        fp_discussion := ''https://github.com/EdOverflow/can-i-take-over-xyz''\<rparr>,
      zero_fingerprint\<lparr>fp_service := ''Google Cloud DNS'',
        fp_ns_fingerprints := [''googledomains.com''],
        fp_check_type := ''ns'', fp_vulnerable := True, fp_fingerprint := ''REFUSED/SERVFAIL'',
        fp_status := ''Verificar manualmente'',
        fp_discussion := ''https://github.com/EdOverflow/can-i-take-over-xyz''\<rparr>]"

datatype sig_error =
    EmptyService
  | BadCnamePattern host_error
  | BadProviderPatternText string host_error
  | UnsupportedCheckType string
  | OutOfPercent string
  | BadStrength string
  | BadStatus
  | NoMechanism
  | MissingPatterns string
  | RegexWithoutText
  | InvalidRegex string
  | InvalidCondition condition_error

subsection \<open>Admission of a catalogue\<close>

text \<open>The loop that both sanitising functions share.\<close>

fun sanitize_loop :: "(string \<Rightarrow> sig_error + string) \<Rightarrow> string list \<Rightarrow> string set \<Rightarrow> sig_error + string list" where
  "sanitize_loop f [] seen = Inr []"
| "sanitize_loop f (p # ps) seen =
     (if trim_space p = [] then sanitize_loop f ps seen
      else case f p of
        Inl e \<Rightarrow> Inl e
      | Inr v \<Rightarrow>
          if v \<in> seen then sanitize_loop f ps seen
          else (case sanitize_loop f ps (insert v seen) of Inl e \<Rightarrow> Inl e | Inr vs \<Rightarrow> Inr (v # vs)))"

definition sanitize_cname_patterns :: "go_env \<Rightarrow> string list \<Rightarrow> sig_error + string list" where
  "sanitize_cname_patterns G ps =
     sanitize_loop (\<lambda>p. case normalize_dns_pattern G p of Inl e \<Rightarrow> Inl (BadCnamePattern e) | Inr v \<Rightarrow> Inr v) ps {}"

definition sanitize_provider_patterns :: "go_env \<Rightarrow> string list \<Rightarrow> sig_error + string list" where
  "sanitize_provider_patterns G ps =
     sanitize_loop (\<lambda>p. case normalize_dns_provider_pattern G p of
         Inl e \<Rightarrow> Inl (BadProviderPatternText p e) | Inr v \<Rightarrow> Inr v) ps {}"

definition sanitize_text_patterns :: "go_env \<Rightarrow> string list \<Rightarrow> string list" where
  "sanitize_text_patterns G ps =
     dedup_by (to_lower G) {} (filter (\<lambda>p. p \<noteq> []) (map trim_space ps))"

definition inferred_check_type :: "'r fingerprint \<Rightarrow> string" where
  "inferred_check_type f =
     (if length (fp_ns_fingerprints f) > 0 then ''ns''
      else if length (fp_mx_fingerprints f) > 0 then ''mx''
      else if length (fp_srv_fingerprints f) > 0 then ''srv''
      else if length (fp_txt_fingerprints f) > 0 then ''txt''
      else if length (fp_spf_fingerprints f) > 0 then ''spf''
      else if length (fp_asn_fingerprints f) > 0 then ''a''
      else if length (fp_tls_fingerprints f) > 0 then ''tls''
      else ''cname'')"

definition has_detection_mechanism :: "'r fingerprint \<Rightarrow> bool" where
  "has_detection_mechanism f \<longleftrightarrow>
     length (fp_cnames f) > 0 \<or> length (fp_ns_fingerprints f) > 0 \<or>
     length (fp_mx_fingerprints f) > 0 \<or> length (fp_srv_fingerprints f) > 0 \<or>
     length (fp_txt_fingerprints f) > 0 \<or> length (fp_tls_fingerprints f) > 0 \<or>
     length (fp_asn_fingerprints f) > 0 \<or> length (fp_spf_fingerprints f) > 0 \<or>
     trim_space (fp_fingerprint f) \<noteq> [] \<or> fp_engine f \<noteq> None"

definition allowed_check_types :: "string set" where
  "allowed_check_types = {''cname'', ''both'', ''ns'', ''mx'', ''srv'', ''txt'', ''spf'', ''a'', ''aaaa'', ''tls''}"

text \<open>The literal map of the confidences, in the order in which it is written.\<close>

definition confidences :: "'r fingerprint \<Rightarrow> (string, int) gomap" where
  "confidences f =
     [(''confidence'', fp_confidence f), (''mx_confidence'', fp_mx_confidence f),
      (''txt_confidence'', fp_txt_confidence f), (''srv_confidence'', fp_srv_confidence f),
      (''tls_confidence'', fp_tls_confidence f), (''asn_confidence'', fp_asn_confidence f),
      (''spf_confidence'', fp_spf_confidence f)]"

definition percent :: "int \<Rightarrow> bool" where
  "percent v \<longleftrightarrow> \<not> (v < 0 \<or> v > 100)"

definition mechanism_error :: "'r fingerprint \<Rightarrow> sig_error option" where
  "mechanism_error f =
     (let t = fp_check_type f in
      if t \<in> {''cname'', ''both''} then (if length (fp_cnames f) = 0 then Some (MissingPatterns t) else None)
      else if t = ''ns'' then (if length (fp_ns_fingerprints f) = 0 then Some (MissingPatterns t) else None)
      else if t = ''mx'' then (if length (fp_mx_fingerprints f) = 0 then Some (MissingPatterns t) else None)
      else if t = ''srv'' then (if length (fp_srv_fingerprints f) = 0 then Some (MissingPatterns t) else None)
      else if t = ''txt'' then (if length (fp_txt_fingerprints f) = 0 then Some (MissingPatterns t) else None)
      else if t = ''spf'' then (if length (fp_spf_fingerprints f) = 0 then Some (MissingPatterns t) else None)
      else if t \<in> {''a'', ''aaaa''} then
        (if length (fp_asn_fingerprints f) = 0 \<and> trim_space (fp_fingerprint f) = [] \<and> fp_engine f = None
         then Some (MissingPatterns t) else None)
      else if t = ''tls'' then (if length (fp_tls_fingerprints f) = 0 then Some (MissingPatterns t) else None)
      else None)"

definition validate_fingerprint_schema :: "'r fingerprint \<Rightarrow> sig_error option" where
  "validate_fingerprint_schema f =
     (if fp_check_type f \<notin> allowed_check_types then Some (UnsupportedCheckType (fp_check_type f))
      else case find (\<lambda>(_, v). \<not> percent v) (confidences f) of
        Some (field, _) \<Rightarrow> Some (OutOfPercent field)
      | None \<Rightarrow>
          (case find (\<lambda>(_, v). \<not> percent v) (fp_signature_strength f) of
             Some (vector, _) \<Rightarrow> Some (BadStrength vector)
           | None \<Rightarrow>
               if (case fp_http_status f of None \<Rightarrow> False | Some s \<Rightarrow> s < 100 \<or> s > 599) then Some BadStatus
               else if \<not> has_detection_mechanism f then Some NoMechanism
               else mechanism_error f))"

text \<open>One entry of the array: the sequence of steps that each run only without an earlier error.
  An entry with an error is discarded, so only the error is kept of it.\<close>

definition and_then :: "'e + 'a \<Rightarrow> ('a \<Rightarrow> 'e + 'b) \<Rightarrow> 'e + 'b" where
  "and_then x f = (case x of Inl e \<Rightarrow> Inl e | Inr a \<Rightarrow> f a)"

definition sanitize_patterns :: "go_env \<Rightarrow> 'r fingerprint \<Rightarrow> sig_error + 'r fingerprint" where
  "sanitize_patterns G f =
     (if fp_service f = [] then Inl EmptyService
      else and_then (sanitize_cname_patterns G (fp_cnames f)) (\<lambda>cn.
           and_then (sanitize_provider_patterns G (fp_ns_fingerprints f)) (\<lambda>ns.
           and_then (sanitize_provider_patterns G (fp_mx_fingerprints f)) (\<lambda>mx.
           and_then (sanitize_provider_patterns G (fp_srv_fingerprints f)) (\<lambda>srv.
           and_then (sanitize_provider_patterns G (fp_spf_fingerprints f)) (\<lambda>spf.
             Inr (f\<lparr>fp_cnames := cn, fp_ns_fingerprints := ns, fp_mx_fingerprints := mx,
               fp_srv_fingerprints := srv, fp_spf_fingerprints := spf,
               fp_txt_fingerprints := sanitize_text_patterns G (fp_txt_fingerprints f),
               fp_tls_fingerprints := sanitize_text_patterns G (fp_tls_fingerprints f),
               fp_asn_fingerprints := sanitize_text_patterns G (fp_asn_fingerprints f)\<rparr>)))))))"

definition compile_regex :: "'r regex_env \<Rightarrow> 'r fingerprint \<Rightarrow> sig_error + 'r fingerprint" where
  "compile_regex X f =
     (if \<not> fp_is_regex f then Inr f
      else if trim_space (fp_fingerprint f) = [] then Inl RegexWithoutText
      else case rx_compile X (''(?i)'' @ fp_fingerprint f) of
        Inl e \<Rightarrow> Inl (InvalidRegex e)
      | Inr r \<Rightarrow> Inr (f\<lparr>fp_compiled_regex := Some r\<rparr>))"

definition compile_engine :: "go_env \<Rightarrow> 'r regex_env \<Rightarrow> 'r fingerprint \<Rightarrow> sig_error + 'r fingerprint" where
  "compile_engine G X f =
     (case fp_engine f of
        None \<Rightarrow> Inr f
      | Some c \<Rightarrow>
          (case compile_condition G X c of
             Inl e \<Rightarrow> Inl (InvalidCondition e)
           | Inr c' \<Rightarrow> Inr (f\<lparr>fp_engine := Some c'\<rparr>)))"

definition admit :: "go_env \<Rightarrow> 'r regex_env \<Rightarrow> 'r fingerprint \<Rightarrow> sig_error + 'r fingerprint" where
  "admit G X raw =
     (let f = raw\<lparr>fp_service := trim_space (fp_service raw), fp_id := trim_space (fp_id raw),
            fp_check_type := to_lower G (trim_space (fp_check_type raw))\<rparr> in
      and_then (sanitize_patterns G f) (\<lambda>f.
        let f = (if fp_check_type f = [] then f\<lparr>fp_check_type := inferred_check_type f\<rparr> else f) in
        case validate_fingerprint_schema f of
          Some e \<Rightarrow> Inl e
        | None \<Rightarrow> and_then (compile_regex X f) (compile_engine G X)))"

datatype catalogue_error =
    NoStartToken string
  | NotAnArray
  | MalformedEntry nat string
  | InvalidEntry string sig_error
  | NoVulnerable

record 'r json_catalogue =
  js_start :: "string + bool"
  js_entries :: "(string + 'r fingerprint) list"

fun read_entries :: "bool \<Rightarrow> nat \<Rightarrow> (string + 'r fingerprint) list \<Rightarrow> catalogue_error + 'r fingerprint list" where
  "read_entries strict i [] = Inr []"
| "read_entries strict i (Inl e # es) =
     (if strict then Inl (MalformedEntry (i + 1) e) else read_entries strict (i + 1) es)"
| "read_entries strict i (Inr f # es) =
     (case read_entries strict (i + 1) es of Inl e \<Rightarrow> Inl e | Inr fs \<Rightarrow> Inr (f # fs))"

fun admit_all :: "go_env \<Rightarrow> 'r regex_env \<Rightarrow> bool \<Rightarrow> 'r fingerprint list \<Rightarrow> catalogue_error + 'r fingerprint list" where
  "admit_all G X strict [] = Inr []"
| "admit_all G X strict (f # fs) =
     (if \<not> fp_vulnerable f then admit_all G X strict fs
      else case admit G X f of
        Inl e \<Rightarrow> if strict then Inl (InvalidEntry (trim_space (fp_service f)) e) else admit_all G X strict fs
      | Inr f' \<Rightarrow> (case admit_all G X strict fs of Inl e \<Rightarrow> Inl e | Inr fs' \<Rightarrow> Inr (f' # fs')))"

definition decode :: "go_env \<Rightarrow> 'r regex_env \<Rightarrow> 'r json_catalogue \<Rightarrow> bool \<Rightarrow> catalogue_error + 'r fingerprint list" where
  "decode G X input strict =
     (case js_start input of
        Inl e \<Rightarrow> Inl (NoStartToken e)
      | Inr is_array \<Rightarrow>
          if \<not> is_array then Inl NotAnArray
          else and_then (read_entries strict 0 (js_entries input)) (\<lambda>all.
               and_then (admit_all G X strict all) (\<lambda>vulnerable.
                 if length vulnerable = 0 then Inl NoVulnerable else Inr vulnerable)))"

subsection \<open>Merging catalogues\<close>

definition canonical_strings :: "go_env \<Rightarrow> string list \<Rightarrow> string" where
  "canonical_strings G vs = join_with [CHR 0x00] (sort (map (\<lambda>v. to_lower G (trim_space v)) vs))"

definition build_dedup_key :: "go_env \<Rightarrow> 'r regex_env \<Rightarrow> 'r fingerprint \<Rightarrow> string" where
  "build_dedup_key G X f =
     (let fid = to_lower G (trim_space (fp_id f)) in
      if fid \<noteq> [] then ''id|'' @ fid
      else join_with ''|''
        [to_lower G (fp_service f), to_lower G (fp_check_type f), canonical_strings G (fp_cnames f),
         canonical_strings G (fp_ns_fingerprints f), canonical_strings G (fp_mx_fingerprints f),
         canonical_strings G (fp_srv_fingerprints f), canonical_strings G (fp_txt_fingerprints f),
         canonical_strings G (fp_spf_fingerprints f), canonical_strings G (fp_tls_fingerprints f),
         canonical_strings G (fp_asn_fingerprints f),
         (if \<not> fp_is_regex f then to_lower G (fp_fingerprint f) else fp_fingerprint f),
         (if fp_is_regex f then ''true'' else ''false''),
         (case fp_http_status f of None \<Rightarrow> [] | Some s \<Rightarrow> itoa s),
         rx_engine_text X (fp_engine f)])"

definition union_strings :: "go_env \<Rightarrow> string list \<Rightarrow> string list \<Rightarrow> string list" where
  "union_strings G left right = left @ dedup_by (to_lower G) (to_lower G ` set left) right"

definition merge_map :: "('k, 'v) gomap \<Rightarrow> ('k, 'v) gomap \<Rightarrow> ('k, 'v) gomap" where
  "merge_map base overlay = fold (\<lambda>(k, v) m. map_put m k v) overlay (fold (\<lambda>(k, v) m. map_put m k v) base [])"

definition later :: "'a \<Rightarrow> 'a \<Rightarrow> 'a \<Rightarrow> 'a" where
  "later zero base overlay = (if overlay \<noteq> zero then overlay else base)"

definition merge_fingerprint :: "go_env \<Rightarrow> 'r fingerprint \<Rightarrow> 'r fingerprint \<Rightarrow> 'r fingerprint" where
  "merge_fingerprint G b l =
     \<lparr>fp_id = later [] (fp_id b) (fp_id l),
      fp_service = later [] (fp_service b) (fp_service l),
      fp_cnames = union_strings G (fp_cnames b) (fp_cnames l),
      fp_fingerprint = later [] (fp_fingerprint b) (fp_fingerprint l),
      fp_http_status = later None (fp_http_status b) (fp_http_status l),
      fp_nxdomain = (fp_nxdomain b \<or> fp_nxdomain l),
      fp_vulnerable = (fp_vulnerable b \<or> fp_vulnerable l),
      fp_status = later [] (fp_status b) (fp_status l),
      fp_discussion = later [] (fp_discussion b) (fp_discussion l),
      fp_documentation = later [] (fp_documentation b) (fp_documentation l),
      fp_cicd_pass = later None (fp_cicd_pass b) (fp_cicd_pass l),
      fp_is_regex = fp_is_regex l,
      fp_ns_fingerprints = union_strings G (fp_ns_fingerprints b) (fp_ns_fingerprints l),
      fp_mx_fingerprints = union_strings G (fp_mx_fingerprints b) (fp_mx_fingerprints l),
      fp_check_type = later [] (fp_check_type b) (fp_check_type l),
      fp_confidence = later 0 (fp_confidence b) (fp_confidence l),
      fp_mx_confidence = later 0 (fp_mx_confidence b) (fp_mx_confidence l),
      fp_txt_fingerprints = union_strings G (fp_txt_fingerprints b) (fp_txt_fingerprints l),
      fp_txt_confidence = later 0 (fp_txt_confidence b) (fp_txt_confidence l),
      fp_srv_fingerprints = union_strings G (fp_srv_fingerprints b) (fp_srv_fingerprints l),
      fp_srv_confidence = later 0 (fp_srv_confidence b) (fp_srv_confidence l),
      fp_tls_fingerprints = union_strings G (fp_tls_fingerprints b) (fp_tls_fingerprints l),
      fp_tls_confidence = later 0 (fp_tls_confidence b) (fp_tls_confidence l),
      fp_asn_fingerprints = union_strings G (fp_asn_fingerprints b) (fp_asn_fingerprints l),
      fp_asn_confidence = later 0 (fp_asn_confidence b) (fp_asn_confidence l),
      fp_spf_fingerprints = union_strings G (fp_spf_fingerprints b) (fp_spf_fingerprints l),
      fp_spf_confidence = later 0 (fp_spf_confidence b) (fp_spf_confidence l),
      fp_signature_strength = merge_map (fp_signature_strength b) (fp_signature_strength l),
      fp_active_verifier = later [] (fp_active_verifier b) (fp_active_verifier l),
      fp_proof_requirements = union_strings G (fp_proof_requirements b) (fp_proof_requirements l),
      fp_headers = merge_map (fp_headers b) (fp_headers l),
      fp_engine = (case fp_engine l of None \<Rightarrow> fp_engine b | Some c \<Rightarrow> Some c),
      fp_compiled_regex = (case fp_compiled_regex l of None \<Rightarrow> fp_compiled_regex b | Some r \<Rightarrow> Some r)\<rparr>"

text \<open>The result list together with the map from keys to positions, as pairs.\<close>

fun put_fingerprint ::
  "go_env \<Rightarrow> string \<Rightarrow> 'r fingerprint \<Rightarrow> (string \<times> 'r fingerprint) list \<Rightarrow> (string \<times> 'r fingerprint) list"
where
  "put_fingerprint G key f [] = [(key, f)]"
| "put_fingerprint G key f ((k, b) # rs) =
     (if k = key then (k, merge_fingerprint G b f) # rs else (k, b) # put_fingerprint G key f rs)"

definition dedup_keyed :: "go_env \<Rightarrow> 'r regex_env \<Rightarrow> 'r fingerprint list \<Rightarrow> (string \<times> 'r fingerprint) list" where
  "dedup_keyed G X fps = fold (\<lambda>f. put_fingerprint G (build_dedup_key G X f) f) fps []"

definition dedup :: "go_env \<Rightarrow> 'r regex_env \<Rightarrow> 'r fingerprint list \<Rightarrow> 'r fingerprint list" where
  "dedup G X fps = map snd (dedup_keyed G X fps)"

definition merge_signatures :: "go_env \<Rightarrow> 'r regex_env \<Rightarrow> 'r fingerprint list list \<Rightarrow> 'r fingerprint list" where
  "merge_signatures G X sources = dedup G X (concat sources)"

text \<open>The files of a directory: name, whether it is itself a directory, and what reading it gives.\<close>

datatype directory_error =
    UnreadableDirectory string
  | UnreadableFile string
  | BadFile string catalogue_error
  | EmptyDirectory

type_synonym 'r directory_entry = "string \<times> bool \<times> (string + 'r json_catalogue)"

definition load_from_file ::
  "go_env \<Rightarrow> 'r regex_env \<Rightarrow> string \<Rightarrow> string + 'r json_catalogue \<Rightarrow> directory_error + 'r fingerprint list"
where
  "load_from_file G X name content =
     (case content of
        Inl e \<Rightarrow> Inl (UnreadableFile e)
      | Inr input \<Rightarrow> (case decode G X input True of Inl e \<Rightarrow> Inl (BadFile name e) | Inr fs \<Rightarrow> Inr fs))"

fun load_entries ::
  "go_env \<Rightarrow> 'r regex_env \<Rightarrow> 'r directory_entry list \<Rightarrow> directory_error + 'r fingerprint list"
where
  "load_entries G X [] = Inr []"
| "load_entries G X ((name, is_dir, content) # es) =
     (if is_dir \<or> \<not> suffix ''.json'' (to_lower G name) then load_entries G X es
      else and_then (load_from_file G X name content) (\<lambda>fs.
           and_then (load_entries G X es) (\<lambda>rest. Inr (fs @ rest))))"

definition load_from_dir ::
  "go_env \<Rightarrow> 'r regex_env \<Rightarrow> string + 'r directory_entry list \<Rightarrow> directory_error + 'r fingerprint list"
where
  "load_from_dir G X dir =
     (case dir of
        Inl e \<Rightarrow> Inl (UnreadableDirectory e)
      | Inr entries \<Rightarrow> and_then (load_entries G X entries) (\<lambda>all.
          if length all = 0 then Inl EmptyDirectory else Inr (dedup G X all)))"

subsection \<open>Matching\<close>

definition matches_fingerprint :: "go_env \<Rightarrow> 'r regex_env \<Rightarrow> string \<Rightarrow> 'r fingerprint \<Rightarrow> bool" where
  "matches_fingerprint G X body f =
     (case fp_engine f of
        Some c \<Rightarrow> evaluate G X body c
      | None \<Rightarrow>
          if fp_fingerprint f = [] then False
          else if fp_is_regex f then matches_compiled X (fp_compiled_regex f) (fp_fingerprint f) body
          else contains_str (to_lower G body) (to_lower G (fp_fingerprint f)))"

definition matches_pattern :: "go_env \<Rightarrow> string \<Rightarrow> string list \<Rightarrow> bool" where
  "matches_pattern G hostname ps \<longleftrightarrow> list_ex (match_dns_provider_pattern G hostname) ps"

text \<open>Of the first target and pattern that match, the normalised target.\<close>

fun matching_cname :: "go_env \<Rightarrow> string list \<Rightarrow> string list \<Rightarrow> string option" where
  "matching_cname G [] ps = None"
| "matching_cname G (t # ts) ps =
     (if list_ex (match_dns_name G t) ps then
        (case normalize_hostname G t of Inl _ \<Rightarrow> None | Inr h \<Rightarrow> Some h)
      else matching_cname G ts ps)"

text \<open>The loop of \<open>providerID\<close> over the runes, with the builder and \<open>lastUnderscore\<close>.\<close>

fun provider_id_loop :: "go_env \<Rightarrow> nat list \<Rightarrow> string \<Rightarrow> bool \<Rightarrow> string" where
  "provider_id_loop G [] built lastu = built"
| "provider_id_loop G (r # rs) built lastu =
     (if is_letter G r \<or> is_digit G r then provider_id_loop G rs (built @ encode_rune r) False
      else if length built > 0 \<and> \<not> lastu then provider_id_loop G rs (built @ ''_'') True
      else provider_id_loop G rs built lastu)"

definition provider_id :: "go_env \<Rightarrow> string \<Rightarrow> string" where
  "provider_id G service =
     trim_char CHR ''_'' (provider_id_loop G (go_runes (to_lower G (trim_space service))) [] False)"

end
