(* ===== verification/SignatureProps.thy ===== *)
theory SignatureProps
  imports Signatures
begin

section \<open>What the catalogue of signatures guarantees\<close>

text \<open>
  The rule language against its abstract syntax and meaning, the invariant of an admitted
  catalogue and its preservation by the merge, and what the merge keeps and loses.
\<close>

subsection \<open>The meaning of a rule\<close>

datatype 'r formula =
    All_of "'r formula list"
  | Any_of "'r formula list"
  | None_of "'r formula"
  | Has_text string
  | Has_match 'r

fun formula_holds :: "go_env \<Rightarrow> 'r regex_env \<Rightarrow> string \<Rightarrow> 'r formula \<Rightarrow> bool" where
  "formula_holds G X body (All_of fs) = list_all (formula_holds G X body) fs"
| "formula_holds G X body (Any_of fs) = list_ex (formula_holds G X body) fs"
| "formula_holds G X body (None_of f) = (\<not> formula_holds G X body f)"
| "formula_holds G X body (Has_text t) = contains_str (to_lower G body) (to_lower G t)"
| "formula_holds G X body (Has_match r) = rx_match X r body"

text \<open>The formula that a rule as written denotes: a connective has operands, a negation exactly
  one, a text is not blank, an expression compiles.\<close>

fun formula_of :: "go_env \<Rightarrow> 'r regex_env \<Rightarrow> 'r condition \<Rightarrow> 'r formula option"
  and formulas_of :: "go_env \<Rightarrow> 'r regex_env \<Rightarrow> 'r condition list \<Rightarrow> 'r formula list option"
where
  "formula_of G X (Condition type val children compiled) =
     (let t = to_upper G (trim_space type) in
      case formulas_of G X children of
        None \<Rightarrow> None
      | Some fs \<Rightarrow>
          if t = ''AND'' \<and> fs \<noteq> [] then Some (All_of fs)
          else if t = ''OR'' \<and> fs \<noteq> [] then Some (Any_of fs)
          else if t = ''NOT'' then (case fs of [f] \<Rightarrow> Some (None_of f) | _ \<Rightarrow> None)
          else if t = ''MATCH'' \<and> trim_space val \<noteq> [] then Some (Has_text val)
          else if t = ''REGEX'' \<and> trim_space val \<noteq> [] then
            (case rx_compile X (''(?i)'' @ val) of Inl _ \<Rightarrow> None | Inr r \<Rightarrow> Some (Has_match r))
          else None)"
| "formulas_of G X [] = Some []"
| "formulas_of G X (c # cs) =
     (case formula_of G X c of None \<Rightarrow> None | Some f \<Rightarrow>
        (case formulas_of G X cs of None \<Rightarrow> None | Some fs \<Rightarrow> Some (f # fs)))"

definition condition_types :: "string set" where
  "condition_types = {''AND'', ''OR'', ''NOT'', ''MATCH'', ''REGEX''}"

lemma upper_condition_type: "t \<in> condition_types \<Longrightarrow> to_upper G t = t"
  by (auto simp: condition_types_def to_upper_ascii upper_char_def in_range_def)

lemma formulas_of_length: "formulas_of G X cs = Some fs \<Longrightarrow> length fs = length cs"
  by (induction cs arbitrary: fs) (auto split: option.splits)

text \<open>The compiled condition against the formula, on conditions and lists of them.\<close>

definition implements :: "go_env \<Rightarrow> 'r regex_env \<Rightarrow> condition_error + 'r condition \<Rightarrow> 'r formula option \<Rightarrow> bool" where
  "implements G X res f \<longleftrightarrow>
     (case (res, f) of
        (Inl _, None) \<Rightarrow> True
      | (Inr c, Some \<phi>) \<Rightarrow> (\<forall>body. evaluate G X body c = formula_holds G X body \<phi>)
      | _ \<Rightarrow> False)"

definition implements_all ::
  "go_env \<Rightarrow> 'r regex_env \<Rightarrow> condition_error + 'r condition list \<Rightarrow> 'r formula list option \<Rightarrow> bool"
where
  "implements_all G X res fs \<longleftrightarrow>
     (case (res, fs) of
        (Inl _, None) \<Rightarrow> True
      | (Inr cs, Some \<phi>s) \<Rightarrow>
          list_all2 (\<lambda>c \<phi>. \<forall>body. evaluate G X body c = formula_holds G X body \<phi>) cs \<phi>s
      | _ \<Rightarrow> False)"

lemma list_all2_all: "list_all2 (\<lambda>c \<phi>. \<forall>b. P b c = Q b \<phi>) cs \<phi>s \<Longrightarrow> list_all (P b) cs = list_all (Q b) \<phi>s"
  by (induction rule: list_all2_induct) auto

lemma list_all2_ex: "list_all2 (\<lambda>c \<phi>. \<forall>b. P b c = Q b \<phi>) cs \<phi>s \<Longrightarrow> list_ex (P b) cs = list_ex (Q b) \<phi>s"
  by (induction rule: list_all2_induct) auto

lemma compile_children_length: "compile_children G X t i cs = Inr cs' \<Longrightarrow> length cs' = length cs"
  by (induction cs arbitrary: i cs') (auto split: sum.splits)

lemma compile_children_implements:
  assumes "\<And>c. c \<in> set cs \<Longrightarrow> implements G X (compile_condition G X c) (formula_of G X c)"
  shows "implements_all G X (compile_children G X t i cs) (formulas_of G X cs)"
  using assms
proof (induction cs arbitrary: i)
  case Nil
  show ?case by (simp add: implements_all_def)
next
  case (Cons c cs)
  have c: "implements G X (compile_condition G X c) (formula_of G X c)" by (rule Cons.prems) simp
  have cs: "implements_all G X (compile_children G X t (i + 1) cs) (formulas_of G X cs)"
    by (rule Cons.IH, rule Cons.prems) simp
  show ?case
    using c cs
    by (cases "compile_condition G X c"; cases "compile_children G X t (i + 1) cs";
        cases "formula_of G X c"; cases "formulas_of G X cs")
      (simp_all add: implements_def implements_all_def)
qed

lemma compiled_children_cases:
  assumes "implements_all G X (compile_children G X t 1 children) (formulas_of G X children)"
  obtains (bad) e where "compile_children G X t 1 children = Inl e" "formulas_of G X children = None"
  | (good) cs fs where "compile_children G X t 1 children = Inr cs" "formulas_of G X children = Some fs"
      "list_all2 (\<lambda>c \<phi>. \<forall>body. evaluate G X body c = formula_holds G X body \<phi>) cs fs"
proof (cases "compile_children G X t 1 children")
  case (Inl e)
  with assms show thesis
    by (cases "formulas_of G X children") (auto simp: implements_all_def intro: bad)
next
  case (Inr cs)
  with assms show thesis
    by (cases "formulas_of G X children") (auto simp: implements_all_def intro: good)
qed

lemma sum_bad: "\<exists>e'. (case x of Inl e \<Rightarrow> Inl e | Inr y \<Rightarrow> Inl e0) = Inl e'"
  by (cases x) simp_all

lemma compile_implements: "implements G X (compile_condition G X c) (formula_of G X c)"
proof (induction c)
  case (Condition type val children compiled)
  define t where "t = to_upper G (trim_space type)"
  have "implements_all G X (compile_children G X t 1 children) (formulas_of G X children)"
    by (rule compile_children_implements) (rule Condition.IH)
  thus ?case
  proof (cases rule: compiled_children_cases)
    case (bad e)
    have "\<exists>e'. compile_condition G X (Condition type val children compiled) = Inl e'"
      unfolding compile_condition.simps Let_def t_def [symmetric] bad(1) sum.case(1) by (rule sum_bad)
    moreover from bad(2) have "formula_of G X (Condition type val children compiled) = None" by simp
    ultimately show ?thesis by (elim exE) (simp only: implements_def prod.case sum.case option.case)
  next
    case (good cs fs)
    note len = compile_children_length [OF good(1)] formulas_of_length [OF good(2)]
    note sem = list_all2_all [OF good(3)] list_all2_ex [OF good(3)]
    have upper: "t \<in> condition_types \<Longrightarrow> to_upper G t = t" by (rule upper_condition_type)
    consider "t = ''AND''" | "t = ''OR''" | "t = ''NOT''" | "t = ''MATCH''" | "t = ''REGEX''"
      | "t \<notin> condition_types" by (auto simp: condition_types_def)
    thus ?thesis
    proof cases
      case 1
      with good len sem upper show ?thesis
        by (cases "children = []") (auto simp: implements_def t_def [symmetric] condition_types_def Let_def compile_own_def)
    next
      case 2
      with good len sem upper show ?thesis
        by (cases "children = []") (auto simp: implements_def t_def [symmetric] condition_types_def Let_def compile_own_def)
    next
      case 3
      show ?thesis
      proof (cases "length children = 1")
        case True
        with len obtain c0 f0 where one: "cs = [c0]" "fs = [f0]" by (cases cs; cases fs) auto
        with good(3) have "evaluate G X b c0 = formula_holds G X b f0" for b by simp
        with 3 True good(1,2) one upper show ?thesis
          by (simp add: implements_def t_def [symmetric] condition_types_def Let_def compile_own_def)
      next
        case False
        with len have "fs \<noteq> [f]" for f by auto
        with 3 False good(2) show ?thesis
          by (auto simp: implements_def t_def [symmetric] Let_def compile_own_def split: list.split)
      qed
    next
      case 4
      with good upper show ?thesis by (simp add: implements_def t_def [symmetric] condition_types_def Let_def compile_own_def)
    next
      case 5
      with good upper show ?thesis
        by (simp add: implements_def t_def [symmetric] condition_types_def Let_def compile_own_def
            matches_compiled_def compiled_of_def split: sum.split)
    next
      case 6
      with good show ?thesis by (simp add: implements_def t_def [symmetric] condition_types_def Let_def compile_own_def)
    qed
  qed
qed

text \<open>C26. A rule of a catalogue is admitted exactly when it denotes a formula of the rule language,
  and the compiled rule then decides every body as the formula does.\<close>

theorem rule_refines_formula:
  "case compile_condition G X c of
     Inl e \<Rightarrow> formula_of G X c = None
   | Inr c' \<Rightarrow> (case formula_of G X c of None \<Rightarrow> False
       | Some f \<Rightarrow> evaluate G X body c' = formula_holds G X body f)"
  using compile_implements [of G X c]
  by (auto simp: implements_def split: sum.split option.splits)

subsection \<open>The invariant of an admitted catalogue\<close>

definition regex_ok :: "'r regex_env \<Rightarrow> string \<Rightarrow> 'r option \<Rightarrow> bool" where
  "regex_ok X text stored \<longleftrightarrow> trim_space text \<noteq> [] \<and>
     (case rx_compile X (''(?i)'' @ text) of Inl _ \<Rightarrow> False | Inr r \<Rightarrow> stored = Some r)"

definition fingerprint_ok :: "go_env \<Rightarrow> 'r regex_env \<Rightarrow> 'r fingerprint \<Rightarrow> bool" where
  "fingerprint_ok G X f \<longleftrightarrow> fp_vulnerable f \<and> fp_service f \<noteq> [] \<and>
     validate_fingerprint_schema f = None \<and>
     (fp_is_regex f \<longrightarrow> regex_ok X (fp_fingerprint f) (fp_compiled_regex f)) \<and>
     (case fp_engine f of None \<Rightarrow> True | Some c \<Rightarrow> compile_condition G X c = Inr c)"

lemma and_then_Inr: "and_then x f = Inr b \<longleftrightarrow> (\<exists>a. x = Inr a \<and> f a = Inr b)"
  by (cases x) (simp_all add: and_then_def)

lemma trim_space_solid: "is_ascii s \<Longrightarrow> list_all (\<lambda>c. \<not> is_space (of_char c)) s \<Longrightarrow> trim_space s = s"
  unfolding trim_space_def by (rule trim_func_none) (auto simp: go_runes_ascii list_all_iff)

lemma compiled_type:
  assumes "t \<in> condition_types"
  shows "to_upper G (trim_space t) = t"
proof -
  from assms have "trim_space t = t"
    by (intro trim_space_solid) (auto simp: condition_types_def is_ascii_def is_space_def in_range_def)
  thus ?thesis using upper_condition_type [OF assms] by simp
qed

lemma compile_own_type: "compile_own X t val n stored = Inr stored' \<Longrightarrow> t \<in> condition_types"
  by (auto simp: compile_own_def condition_types_def split: if_splits)

lemma compile_own_idem: "compile_own X t val n stored = Inr stored' \<Longrightarrow> compile_own X t val n stored' = Inr stored'"
  by (auto simp: compile_own_def split: if_splits sum.splits)

lemma compile_condition_idem: "compile_condition G X c = Inr c' \<Longrightarrow> compile_condition G X c' = Inr c'"
proof (induction c arbitrary: c')
  case (Condition type val children compiled)
  have list: "compile_children G X t i cs = Inr cs' \<Longrightarrow> set cs \<subseteq> set children \<Longrightarrow>
      compile_children G X u j cs' = Inr cs'" for t i u j cs cs'
    using Condition.IH
    by (induction cs arbitrary: i j cs') (auto split: sum.splits)
  define t where "t = to_upper G (trim_space type)"
  from Condition.prems obtain stored cs where own: "compile_own X t val (length children) compiled = Inr stored"
    and cs: "compile_children G X t 1 children = Inr cs" and c': "c' = Condition t val cs stored"
    by (auto simp: Let_def t_def split: sum.splits)
  from compile_own_type [OF own] have "to_upper G (trim_space t) = t" by (rule compiled_type)
  with compile_own_idem [OF own] compile_children_length [OF cs] list [OF cs subset_refl, of t 1]
  show ?case by (simp add: c')
qed

lemma schema_cong:
  assumes "fp_check_type f = fp_check_type g" "confidences f = confidences g"
    "fp_signature_strength f = fp_signature_strength g" "fp_http_status f = fp_http_status g"
    "has_detection_mechanism f = has_detection_mechanism g" "mechanism_error f = mechanism_error g"
  shows "validate_fingerprint_schema f = validate_fingerprint_schema g"
  unfolding validate_fingerprint_schema_def assms ..

lemma schema_compiled:
  "validate_fingerprint_schema (f\<lparr>fp_compiled_regex := r\<rparr>) = validate_fingerprint_schema f"
proof (rule schema_cong)
  show "mechanism_error (f\<lparr>fp_compiled_regex := r\<rparr>) = mechanism_error f"
    by (cases f) (simp only: mechanism_error_def fingerprint.select_convs fingerprint.update_convs)
qed (simp_all add: confidences_def has_detection_mechanism_def)

lemma schema_engine:
  assumes "fp_engine f = Some c"
  shows "validate_fingerprint_schema (f\<lparr>fp_engine := Some c'\<rparr>) = validate_fingerprint_schema f"
proof (rule schema_cong)
  show "mechanism_error (f\<lparr>fp_engine := Some c'\<rparr>) = mechanism_error f"
    using assms
    by (cases f) (simp only: mechanism_error_def fingerprint.select_convs fingerprint.update_convs
        option.distinct simp_thms)
qed (simp_all add: confidences_def has_detection_mechanism_def assms)

lemma sanitize_patterns_fields:
  assumes "sanitize_patterns G f = Inr f'"
  shows "fp_vulnerable f' = fp_vulnerable f \<and> fp_service f' = fp_service f \<and> fp_service f \<noteq> []"
  using assms by (auto simp: sanitize_patterns_def and_then_Inr split: if_splits)

lemma compile_regex_ok:
  assumes "compile_regex X f = Inr f'"
  shows "fp_vulnerable f' = fp_vulnerable f \<and> fp_service f' = fp_service f \<and> fp_engine f' = fp_engine f \<and>
    validate_fingerprint_schema f' = validate_fingerprint_schema f \<and>
    (fp_is_regex f' \<longrightarrow> regex_ok X (fp_fingerprint f') (fp_compiled_regex f'))"
  using assms by (auto simp: compile_regex_def regex_ok_def schema_compiled split: if_splits sum.splits)

lemma compile_engine_ok:
  assumes "compile_engine G X f = Inr f'"
  shows "fp_vulnerable f' = fp_vulnerable f \<and> fp_service f' = fp_service f \<and>
    validate_fingerprint_schema f' = validate_fingerprint_schema f \<and>
    fp_is_regex f' = fp_is_regex f \<and> fp_fingerprint f' = fp_fingerprint f \<and>
    fp_compiled_regex f' = fp_compiled_regex f \<and>
    (case fp_engine f' of None \<Rightarrow> True | Some c \<Rightarrow> compile_condition G X c = Inr c)"
  using assms
  by (auto simp: compile_engine_def schema_engine compile_condition_idem split: option.splits sum.splits)

lemma admit_ok:
  assumes "admit G X raw = Inr f" and "fp_vulnerable raw"
  shows "fingerprint_ok G X f"
proof -
  define f0 where "f0 = raw\<lparr>fp_service := trim_space (fp_service raw), fp_id := trim_space (fp_id raw),
            fp_check_type := to_lower G (trim_space (fp_check_type raw))\<rparr>"
  from assms(1) obtain f1 where f1: "sanitize_patterns G f0 = Inr f1"
    and rest: "(let f = (if fp_check_type f1 = [] then f1\<lparr>fp_check_type := inferred_check_type f1\<rparr> else f1) in
        case validate_fingerprint_schema f of Some e \<Rightarrow> Inl e
        | None \<Rightarrow> and_then (compile_regex X f) (compile_engine G X)) = Inr f"
    unfolding admit_def Let_def f0_def [symmetric] and_then_Inr by blast
  define f2 where "f2 = (if fp_check_type f1 = [] then f1\<lparr>fp_check_type := inferred_check_type f1\<rparr> else f1)"
  from rest obtain f3 where f2: "validate_fingerprint_schema f2 = None"
    and f3: "compile_regex X f2 = Inr f3" and f4: "compile_engine G X f3 = Inr f"
    unfolding Let_def f2_def [symmetric] by (auto simp: and_then_Inr split: option.splits)
  have "fp_vulnerable f2 = fp_vulnerable f1 \<and> fp_service f2 = fp_service f1" by (simp add: f2_def)
  with sanitize_patterns_fields [OF f1] compile_regex_ok [OF f3] compile_engine_ok [OF f4] f2 assms(2)
  show ?thesis by (auto simp: fingerprint_ok_def f0_def)
qed

lemma admit_all_ok: "admit_all G X strict fs = Inr fs' \<Longrightarrow> list_all (fingerprint_ok G X) fs'"
  by (induction fs arbitrary: fs') (auto simp: admit_ok split: if_splits sum.splits)

text \<open>Every fingerprint that a catalogue admits is marked vulnerable, belongs to a named service,
  has confidences in percent and a status code in range, configures what its kind of check
  needs, and carries the compiled form of its own expression and rule; an empty catalogue is an
  error.\<close>

theorem catalogue_admitted:
  "case decode G X input strict of Inl _ \<Rightarrow> True
   | Inr fs \<Rightarrow> fs \<noteq> [] \<and> list_all (fingerprint_ok G X) fs"
  by (auto simp: decode_def and_then_Inr dest!: admit_all_ok split: sum.split if_splits)

subsection \<open>Merging\<close>

lemma union_strings_keys:
  "to_lower G ` set (union_strings G l r) = to_lower G ` set l \<union> to_lower G ` set r"
  by (auto simp: union_strings_def keys_dedup_by image_Un)

lemma union_strings_empty: "union_strings G l r = [] \<longleftrightarrow> l = [] \<and> r = []"
  using union_strings_keys [of G l r] by (auto simp: union_strings_def)

lemma later_eq: "later z b l = (if l = z then b else l)"
  by (simp add: later_def)

lemma fold_put_values: "snd ` set (fold (\<lambda>(k, v) m. map_put m k v) xs m) \<subseteq> snd ` set m \<union> snd ` set xs"
proof (induction xs arbitrary: m)
  case (Cons x xs)
  obtain k v where x: "x = (k, v)" by (rule prod.exhaust)
  have "snd ` set (map_put m k v) \<subseteq> insert v (snd ` set m)" for m :: "('k, 'v) gomap" and k v
    by (induction m k v rule: map_put.induct) auto
  from this [of m k v] Cons.IH [of "map_put m k v"]
  have "snd ` set (fold (\<lambda>(k, v) m. map_put m k v) xs (map_put m k v)) \<subseteq> insert v (snd ` set m) \<union> snd ` set xs"
    by (meson Un_mono order_refl order_trans)
  thus ?case unfolding x by simp
qed simp

lemma merge_map_values: "snd ` set (merge_map b l) \<subseteq> snd ` set b \<union> snd ` set l"
  unfolding merge_map_def
  by (rule order_trans [OF fold_put_values Un_mono [OF order_trans [OF fold_put_values] order_refl]]) simp

text \<open>The checks of a schema, one by one.\<close>

lemma find_percent: "find (\<lambda>(_, v). \<not> percent v) m = None \<longleftrightarrow> (\<forall>v \<in> snd ` set m. percent v)"
  by (auto simp: find_None_iff)

lemma schema_ok_iff:
  "validate_fingerprint_schema f = None \<longleftrightarrow>
     fp_check_type f \<in> allowed_check_types \<and> (\<forall>v \<in> snd ` set (confidences f). percent v) \<and>
     (\<forall>v \<in> snd ` set (fp_signature_strength f). percent v) \<and>
     (case fp_http_status f of None \<Rightarrow> True | Some s \<Rightarrow> 100 \<le> s \<and> s \<le> 599) \<and>
     has_detection_mechanism f \<and> mechanism_error f = None"
  unfolding validate_fingerprint_schema_def find_percent [symmetric]
  by (auto split: option.splits prod.splits)

lemma percent_later: "percent b \<Longrightarrow> percent l \<Longrightarrow> percent (later 0 b l)"
  by (simp add: later_def)

lemma merge_confidences:
  assumes "\<forall>v \<in> snd ` set (confidences b). percent v" "\<forall>v \<in> snd ` set (confidences l). percent v"
  shows "\<forall>v \<in> snd ` set (confidences (merge_fingerprint G b l)). percent v"
  using assms by (simp add: confidences_def merge_fingerprint_def percent_later)

lemma merge_mechanism:
  assumes "has_detection_mechanism l" "mechanism_error l = None" "fp_check_type l \<in> allowed_check_types"
  shows "has_detection_mechanism (merge_fingerprint G b l) \<and> mechanism_error (merge_fingerprint G b l) = None"
proof -
  let ?m = "merge_fingerprint G b l"
  have lists: "fp_cnames ?m = [] \<longrightarrow> fp_cnames l = []"
    "fp_ns_fingerprints ?m = [] \<longrightarrow> fp_ns_fingerprints l = []"
    "fp_mx_fingerprints ?m = [] \<longrightarrow> fp_mx_fingerprints l = []"
    "fp_srv_fingerprints ?m = [] \<longrightarrow> fp_srv_fingerprints l = []"
    "fp_txt_fingerprints ?m = [] \<longrightarrow> fp_txt_fingerprints l = []"
    "fp_spf_fingerprints ?m = [] \<longrightarrow> fp_spf_fingerprints l = []"
    "fp_tls_fingerprints ?m = [] \<longrightarrow> fp_tls_fingerprints l = []"
    "fp_asn_fingerprints ?m = [] \<longrightarrow> fp_asn_fingerprints l = []"
    "trim_space (fp_fingerprint ?m) = [] \<longrightarrow> trim_space (fp_fingerprint l) = []"
    "\<exists>c. fp_engine l = Some c \<Longrightarrow> \<exists>c. fp_engine ?m = Some c"
    by (auto simp: merge_fingerprint_def union_strings_empty later_def trim_space_def trim_func_def
        split: option.splits)
  from assms(3) have type: "fp_check_type ?m = fp_check_type l"
    by (auto simp: merge_fingerprint_def later_def allowed_check_types_def)
  from assms(1) lists have "has_detection_mechanism ?m" unfolding has_detection_mechanism_def by auto
  moreover from assms(3) have "mechanism_error ?m = None"
    unfolding allowed_check_types_def
    by (elim insertE emptyE; insert lists assms(2) type; simp add: mechanism_error_def split: if_splits)
  ultimately show ?thesis ..
qed

lemma merge_ok:
  assumes "fingerprint_ok G X b" "fingerprint_ok G X l"
  shows "fingerprint_ok G X (merge_fingerprint G b l)"
proof -
  let ?m = "merge_fingerprint G b l"
  from assms have b: "validate_fingerprint_schema b = None" and l: "validate_fingerprint_schema l = None"
    by (simp_all add: fingerprint_ok_def)
  have type: "fp_check_type ?m = fp_check_type l"
    using l by (auto simp: schema_ok_iff merge_fingerprint_def later_def allowed_check_types_def)
  have strength: "\<forall>v \<in> snd ` set (fp_signature_strength ?m). percent v"
  proof -
    have "snd ` set (fp_signature_strength ?m) \<subseteq>
        snd ` set (fp_signature_strength b) \<union> snd ` set (fp_signature_strength l)"
      by (simp add: merge_fingerprint_def merge_map_values)
    moreover from b have "\<forall>v \<in> snd ` set (fp_signature_strength b). percent v"
      using schema_ok_iff by blast
    moreover from l have "\<forall>v \<in> snd ` set (fp_signature_strength l). percent v"
      using schema_ok_iff by blast
    ultimately show ?thesis by blast
  qed
  have status: "case fp_http_status ?m of None \<Rightarrow> True | Some s \<Rightarrow> 100 \<le> s \<and> s \<le> 599"
    using b l by (auto simp: schema_ok_iff merge_fingerprint_def later_def)
  have lc: "fp_check_type l \<in> allowed_check_types" "has_detection_mechanism l" "mechanism_error l = None"
    using l schema_ok_iff by blast+
  have conf: "\<forall>v \<in> snd ` set (confidences ?m). percent v"
    by (rule merge_confidences) (use b l schema_ok_iff in blast)+
  from lc type strength status conf merge_mechanism [OF lc(2,3,1), of G b]
  have "validate_fingerprint_schema ?m = None" unfolding schema_ok_iff type by blast
  moreover have "fp_vulnerable ?m \<and> fp_service ?m \<noteq> []"
    using assms by (simp add: fingerprint_ok_def merge_fingerprint_def later_def)
  moreover have "fp_is_regex ?m \<longrightarrow> regex_ok X (fp_fingerprint ?m) (fp_compiled_regex ?m)"
    using assms(2)
    by (auto simp: fingerprint_ok_def merge_fingerprint_def later_def regex_ok_def trim_space_def
        trim_func_def split: sum.splits)
  moreover have "case fp_engine ?m of None \<Rightarrow> True | Some c \<Rightarrow> compile_condition G X c = Inr c"
    using assms by (auto simp: fingerprint_ok_def merge_fingerprint_def split: option.split)
  ultimately show ?thesis by (simp add: fingerprint_ok_def)
qed

lemma put_ok:
  "list_all (\<lambda>(k, f). fingerprint_ok G X f) rs \<Longrightarrow> fingerprint_ok G X f \<Longrightarrow>
   list_all (\<lambda>(k, f). fingerprint_ok G X f) (put_fingerprint G key f rs)"
  by (induction G key f rs rule: put_fingerprint.induct) (auto simp: merge_ok)

lemma dedup_keyed_ok:
  assumes "list_all (fingerprint_ok G X) fps"
  shows "list_all (\<lambda>(k, f). fingerprint_ok G X f) (dedup_keyed G X fps)"
proof -
  have "list_all (\<lambda>(k, f). fingerprint_ok G X f) rs \<Longrightarrow>
      list_all (\<lambda>(k, f). fingerprint_ok G X f)
        (fold (\<lambda>f. put_fingerprint G (build_dedup_key G X f) f) fps rs)" for rs
    using assms by (induction fps arbitrary: rs) (simp_all add: put_ok)
  thus ?thesis by (simp add: dedup_keyed_def)
qed

text \<open>Merging admitted catalogues gives an admitted catalogue: an entry that several sources
  contribute to still satisfies the schema of its kind of check, and still carries the compiled
  form of the expression and rule it ends up with.\<close>

theorem merge_keeps_admitted:
  assumes "list_all (list_all (fingerprint_ok G X)) sources"
  shows "list_all (fingerprint_ok G X) (merge_signatures G X sources)"
proof -
  from assms have "list_all (fingerprint_ok G X) (concat sources)" by (auto simp: list_all_iff)
  from dedup_keyed_ok [OF this] show ?thesis
    by (simp add: merge_signatures_def dedup_def list_all_iff split_beta)
qed

text \<open>The patterns of a fingerprint, by kind and up to case.\<close>

definition tagged :: "go_env \<Rightarrow> string \<Rightarrow> string list \<Rightarrow> (string \<times> string) list" where
  "tagged G kind ps = map (\<lambda>p. (kind, to_lower G p)) ps"

definition patterns :: "go_env \<Rightarrow> 'r fingerprint \<Rightarrow> (string \<times> string) list" where
  "patterns G f =
     tagged G ''cname'' (fp_cnames f) @ tagged G ''ns'' (fp_ns_fingerprints f) @
     tagged G ''mx'' (fp_mx_fingerprints f) @ tagged G ''srv'' (fp_srv_fingerprints f) @
     tagged G ''txt'' (fp_txt_fingerprints f) @ tagged G ''spf'' (fp_spf_fingerprints f) @
     tagged G ''tls'' (fp_tls_fingerprints f) @ tagged G ''asn'' (fp_asn_fingerprints f)"

lemma tagged_union: "set (tagged G kind (union_strings G l r)) = set (tagged G kind l) \<union> set (tagged G kind r)"
proof -
  have "set (tagged G kind ps) = Pair kind ` to_lower G ` set ps" for ps by (auto simp: tagged_def)
  thus ?thesis by (simp only: union_strings_keys image_Un)
qed

lemma merge_patterns: "set (patterns G (merge_fingerprint G b l)) = set (patterns G b) \<union> set (patterns G l)"
  unfolding patterns_def merge_fingerprint_def fingerprint.select_convs set_append tagged_union
  by (simp only: Un_ac)

lemma put_keys: "set (map fst (put_fingerprint G key f rs)) = insert key (set (map fst rs)) \<and>
    (distinct (map fst rs) \<longrightarrow> distinct (map fst (put_fingerprint G key f rs)))"
  by (induction G key f rs rule: put_fingerprint.induct) auto

lemma put_patterns:
  "distinct (map fst rs) \<Longrightarrow>
   (case map_of (put_fingerprint G key f rs) k of None \<Rightarrow> {} | Some r \<Rightarrow> set (patterns G r)) =
     (case map_of rs k of None \<Rightarrow> {} | Some r \<Rightarrow> set (patterns G r)) \<union>
     (if k = key then set (patterns G f) else {})"
  by (induction G key f rs rule: put_fingerprint.induct) (auto simp: merge_patterns)

lemma dedup_fold:
  assumes "distinct (map fst rs)"
  shows "distinct (map fst (fold (\<lambda>f. put_fingerprint G (key f) f) fps rs)) \<and>
    set (map fst (fold (\<lambda>f. put_fingerprint G (key f) f) fps rs)) = set (map fst rs) \<union> key ` set fps \<and>
    (case map_of (fold (\<lambda>f. put_fingerprint G (key f) f) fps rs) k of None \<Rightarrow> {} | Some r \<Rightarrow> set (patterns G r)) =
      (case map_of rs k of None \<Rightarrow> {} | Some r \<Rightarrow> set (patterns G r)) \<union>
      (\<Union>f \<in> {f \<in> set fps. key f = k}. set (patterns G f))"
  using assms
proof (induction fps arbitrary: rs)
  case (Cons f fps)
  have "distinct (map fst (put_fingerprint G (key f) f rs))" using put_keys Cons.prems by blast
  from Cons.IH [OF this] put_patterns [OF Cons.prems, of G "key f" f k] put_keys [of G "key f" f rs]
  show ?case by auto
qed simp

text \<open>The merge has one entry for each identity that occurs in the sources, and the patterns of
  that entry are exactly those of all the sources with this identity, up to case: no mechanism of
  a rule is lost, and none moves to another rule.\<close>

theorem merge_loses_no_pattern:
  "map snd (dedup_keyed G X (concat sources)) = merge_signatures G X sources \<and>
   distinct (map fst (dedup_keyed G X (concat sources))) \<and>
   set (map fst (dedup_keyed G X (concat sources))) = build_dedup_key G X ` set (concat sources) \<and>
   (case map_of (dedup_keyed G X (concat sources)) key of
      None \<Rightarrow> {} | Some r \<Rightarrow> set (patterns G r)) =
     (\<Union>f \<in> {f \<in> set (concat sources). build_dedup_key G X f = key}. set (patterns G f))"
  using dedup_fold [of "[]" G "build_dedup_key G X" "concat sources" key]
  by (simp add: dedup_keyed_def merge_signatures_def dedup_def)

text \<open>A partial entry that comes later, with the same identity and without any text of its own,
  turns a regular expression into literal text: the merged rule searches the body for the
  expression itself.\<close>

theorem overlay_turns_regex_into_text:
  assumes "fp_is_regex b" "fp_engine b = None" "fp_fingerprint b \<noteq> []"
    and "\<not> fp_is_regex l" "fp_engine l = None" "fp_fingerprint l = []"
  shows "matches_fingerprint G X body b = matches_compiled X (fp_compiled_regex b) (fp_fingerprint b) body \<and>
    matches_fingerprint G X body (merge_fingerprint G b l) =
      contains_str (to_lower G body) (to_lower G (fp_fingerprint b))"
  using assms by (simp add: matches_fingerprint_def merge_fingerprint_def later_def)

text \<open>An environment for examples: it knows one expression.\<close>

definition one_regex :: "string regex_env" where
  "one_regex = \<lparr>rx_compile = Inr, rx_match = (\<lambda>r body. r = ''(?i)a.c'' \<and> body = ''axc''),
     rx_engine_text = (\<lambda>_. ''null'')\<rparr>"

lemma builtin_ok: "list_all (fingerprint_ok G X) builtin_ns_signatures"
  by (simp add: builtin_ns_signatures_def fingerprint_ok_def schema_ok_iff zero_fingerprint_def
      allowed_check_types_def confidences_def percent_def has_detection_mechanism_def mechanism_error_def)

theorem merge_keeps_admitted_witness:
  "list_all (list_all (fingerprint_ok ascii_env one_regex)) [builtin_ns_signatures] \<and>
   list_all (fingerprint_ok ascii_env one_regex)
     (merge_signatures ascii_env one_regex [builtin_ns_signatures])"
proof -
  have "list_all (list_all (fingerprint_ok ascii_env one_regex)) [builtin_ns_signatures]"
    by (simp add: builtin_ok)
  with merge_keeps_admitted [OF this] show ?thesis by blast
qed

theorem overlay_turns_regex_into_text_witness:
  "let b = zero_fingerprint\<lparr>fp_id := ''rule'', fp_is_regex := True, fp_fingerprint := ''a.c''\<rparr>;
       l = zero_fingerprint\<lparr>fp_id := ''rule'', fp_cnames := [''x.example'']\<rparr>
   in build_dedup_key ascii_env one_regex b = build_dedup_key ascii_env one_regex l \<and>
      matches_fingerprint ascii_env one_regex ''axc'' b \<and>
      \<not> matches_fingerprint ascii_env one_regex ''axc'' (merge_fingerprint ascii_env b l)"
proof -
  let ?b = "zero_fingerprint\<lparr>fp_id := ''rule'', fp_is_regex := True, fp_fingerprint := ''a.c''\<rparr> :: string fingerprint"
  let ?l = "zero_fingerprint\<lparr>fp_id := ''rule'', fp_cnames := [''x.example'']\<rparr> :: string fingerprint"
  have h: "matches_fingerprint ascii_env one_regex ''axc'' ?b =
      matches_compiled one_regex (fp_compiled_regex ?b) (fp_fingerprint ?b) ''axc'' \<and>
    matches_fingerprint ascii_env one_regex ''axc'' (merge_fingerprint ascii_env ?b ?l) =
      contains_str (to_lower ascii_env ''axc'') (to_lower ascii_env (fp_fingerprint ?b))"
    by (rule overlay_turns_regex_into_text) (simp_all add: zero_fingerprint_def)
  moreover have "matches_compiled one_regex (fp_compiled_regex ?b) (fp_fingerprint ?b) ''axc''"
    by (simp add: zero_fingerprint_def matches_compiled_def compiled_of_def one_regex_def)
  moreover have "\<not> contains_str (to_lower ascii_env ''axc'') (to_lower ascii_env (fp_fingerprint ?b))"
    by (simp add: zero_fingerprint_def to_lower_ascii lower_char_def in_range_def)
  moreover have "build_dedup_key ascii_env one_regex ?b = build_dedup_key ascii_env one_regex ?l"
    by (simp add: build_dedup_key_def zero_fingerprint_def to_lower_ascii lower_char_def in_range_def
        trim_space_plain plain_char_def is_space_def)
  ultimately show ?thesis unfolding Let_def by blast
qed

end
