(* ===== verification/CollectTargets.thy ===== *)
theory CollectTargets
  imports DnsZone Classification Signatures
begin

section \<open>Collectors of the targets of DNS records (internal/evidence: txt.go, service_binding.go, mx.go, srv.go)\<close>

text \<open>
  Each collector reads the DNS profile of the analysis, asks the resolver where it has to, and
  adds evidence and candidates. A collector takes the analysis and returns it; its questions go
  through the state monad of the DNS theories. None of them returns an error.
\<close>

definition plain_evidence :: "string \<Rightarrow> string \<Rightarrow> string \<Rightarrow> int \<Rightarrow> int \<Rightarrow> meta \<Rightarrow> evidence" where
  "plain_evidence type source description weight confidence metadata =
     \<lparr>ev_type = type, ev_source = source, ev_description = description, ev_weight = weight,
      ev_confidence = confidence, ev_is_negative = False, ev_metadata = metadata\<rparr>"

definition mitigating_evidence :: "string \<Rightarrow> string \<Rightarrow> string \<Rightarrow> int \<Rightarrow> int \<Rightarrow> meta \<Rightarrow> evidence" where
  "mitigating_evidence type source description weight confidence metadata =
     (plain_evidence type source description weight confidence metadata)\<lparr>ev_is_negative := True\<rparr>"

lemma plain_evidence_sel [simp]:
  "ev_type (plain_evidence t s d w c m) = t" "ev_source (plain_evidence t s d w c m) = s"
  "ev_metadata (plain_evidence t s d w c m) = m" "ev_is_negative (plain_evidence t s d w c m) = False"
  "ev_type (mitigating_evidence t s d w c m) = t" "ev_is_negative (mitigating_evidence t s d w c m) = True"
  "ev_metadata (mitigating_evidence t s d w c m) = m" "ev_source (mitigating_evidence t s d w c m) = s"
  by (simp_all add: plain_evidence_def mitigating_evidence_def)

lemma fold_add_evidence [simp]: "fold add_evidence es a = a\<lparr>ha_evidences := ha_evidences a @ es\<rparr>"
  by (induction es arbitrary: a) (simp_all add: add_evidence_def)

text \<open>A specific confidence of a signature, or its general one.\<close>

definition own_confidence :: "int \<Rightarrow> int \<Rightarrow> int" where
  "own_confidence specific general = (if specific = 0 then general else specific)"

subsection \<open>TXT (txt.go)\<close>

definition builtin_txt_token_rules :: "(string \<times> string) list" where
  "builtin_txt_token_rules =
     [(''Google'', ''google-site-verification=''), (''Microsoft 365'', ''ms=''),
      (''Atlassian'', ''atlassian-domain-verification=''), (''Facebook'', ''facebook-domain-verification=''),
      (''GlobalSign'', ''globalsign-domain-verification='')]"

definition add_token :: "go_env \<Rightarrow> string \<Rightarrow> string \<Rightarrow> string \<Rightarrow> int \<Rightarrow> host_analysis \<Rightarrow> host_analysis" where
  "add_token G provider pre row confidence a =
     (if list_ex (\<lambda>existing. txtc_provider existing = provider \<and> txtc_record existing = row) (ha_txt_candidates a)
      then a
      else add_evidence (plain_evidence ''TXT_VERIFICATION_TOKEN'' provider
             ((''Token de verifica'' @ [CHR 0xC3, CHR 0xA7, CHR 0xC3, CHR 0xA3] @ ''o '') @ provider @ ('' observado; n'' @ [CHR 0xC3, CHR 0xA3] @ ''o foi poss'' @ [CHR 0xC3, CHR 0xAD] @ ''vel determinar se ele ainda '' @ [CHR 0xC3, CHR 0xA9] @ '' v'' @ [CHR 0xC3, CHR 0xA1] @ ''lido''))
             1 confidence
             [(''token_prefix'', pre), (''state'', ''OBSERVED''),
              (''claimability'', claimability_text ClaimabilityNotChecked)])
        (add_provider_candidate (zero_provider_candidate\<lparr>pc_provider_id := provider_id G provider,
             pc_service := provider, pc_vector := ''TXT'', pc_resource := ha_host a,
             pc_metadata := [(''token_prefix'', pre)]\<rparr>)
          (a\<lparr>ha_txt_candidates := ha_txt_candidates a @
             [\<lparr>txtc_provider = provider, txtc_token_prefix = pre, txtc_record = row,
               txtc_state = ''OBSERVED'', txtc_claimability = ClaimabilityNotChecked\<rparr>]\<rparr>)))"

definition owner_provider :: "string \<Rightarrow> string" where
  "owner_provider label =
     (if prefix ''_github-pages-challenge-'' label \<or> prefix ''_github-challenge-'' label then ''GitHub''
      else if label = ''asuid'' then ''Microsoft Azure''
      else [])"

definition add_owner_token :: "go_env \<Rightarrow> host_analysis \<Rightarrow> host_analysis" where
  "add_owner_token G a =
     (let label = hd (split_on CHR ''.'' (to_lower G (ha_host a))); provider = owner_provider label in
      if provider = [] then a
      else fold (\<lambda>row a. if trim_space row \<noteq> [] then add_token G provider label row 90 a else a)
             (rs_txt (ha_dns a)) a)"

definition txt_signature_tokens :: "go_env \<Rightarrow> 'r fingerprint \<Rightarrow> string \<Rightarrow> host_analysis \<Rightarrow> host_analysis" where
  "txt_signature_tokens G sig row a =
     fold (\<lambda>text a. if contains_str (to_lower G (trim_space row)) (to_lower G text)
          then add_token G (fp_service sig) text row (own_confidence (fp_txt_confidence sig) (fp_confidence sig)) a
          else a)
       (fp_txt_fingerprints sig) a"

definition collect_txt :: "go_env \<Rightarrow> 'r fingerprint list \<Rightarrow> host_analysis \<Rightarrow> host_analysis" where
  "collect_txt G sigs a0 =
     (let a1 = add_owner_token G (add_tested_vector ''TXT'' a0) in
      fold (\<lambda>row a.
          fold (\<lambda>sig. txt_signature_tokens G sig row) sigs
            (fold (\<lambda>(provider, pre) a.
                if prefix pre (to_lower G (trim_space row)) then add_token G provider pre row 100 a else a)
              builtin_txt_token_rules a))
        (rs_txt (ha_dns a0)) a1)"

subsection \<open>DNAME, HTTPS and SVCB (service_binding.go)\<close>

definition synthesize_dname :: "go_env \<Rightarrow> string \<Rightarrow> dname_record \<Rightarrow> string" where
  "synthesize_dname G raw row =
     (case normalize_hostname G raw of
        Inl _ \<Rightarrow> []
      | Inr host \<Rightarrow>
          if \<not> match_dns_name G host (dn_owner row) \<or> equal_fold G host (dn_owner row) then []
          else (let pre = trim_suffix host (''.'' @ dn_owner row) in
                if pre = [] then [] else pre @ ''.'' @ dn_target row))"

definition binding_provider :: "go_env \<Rightarrow> 'r fingerprint list \<Rightarrow> string \<Rightarrow> string \<Rightarrow> host_analysis \<Rightarrow> host_analysis" where
  "binding_provider G sigs vector target a =
     (if target = [] \<or> target = ''.'' then a
      else case find (\<lambda>sig. matching_cname G [target] (fp_cnames sig) \<noteq> None) sigs of
        None \<Rightarrow> a
      | Some sig \<Rightarrow>
          add_provider_candidate (zero_provider_candidate\<lparr>pc_provider_id := provider_id G (fp_service sig),
              pc_service := fp_service sig, pc_vector := vector, pc_resource := target\<rparr>)
            (add_evidence (plain_evidence (vector @ ''_PROVIDER_MATCH'') (fp_service sig)
                 ''O destino do binding corresponde a um provedor conhecido.'' 0 80
                 [(''target'', target), (''provider_id'', provider_id G (fp_service sig))]) a))"

definition binding_evidence :: "string \<Rightarrow> service_binding \<Rightarrow> evidence" where
  "binding_evidence vector b =
     (let mode = (if sb_priority b = 0 then ''alias'' else ''service'');
          metadata = fold (\<lambda>(k, v) m. map_put m (''param_'' @ k) v) (sb_params b)
            [(''target'', sb_target b), (''priority'', itoa (uint (sb_priority b))), (''mode'', mode)]
      in plain_evidence (vector @ ''_BINDING'') ''DNS''
           (''O DNS publicou um binding '' @ vector @ '' em modo '' @ mode @ ''.'') 0 100 metadata)"

definition add_bindings :: "go_env \<Rightarrow> 'r fingerprint list \<Rightarrow> string \<Rightarrow> service_binding list \<Rightarrow> host_analysis \<Rightarrow> host_analysis" where
  "add_bindings G sigs vector bindings a =
     (if length bindings = 0 then a
      else fold (\<lambda>b a. binding_provider G sigs vector (sb_target b) (add_evidence (binding_evidence vector b) a))
             bindings (add_tested_vector vector a))"

definition dname_evidence :: "go_env \<Rightarrow> string \<Rightarrow> dname_record \<Rightarrow> evidence" where
  "dname_evidence G host row =
     (let alias = synthesize_dname G host row;
          metadata = [(''owner'', dn_owner row), (''target'', dn_target row)] in
      plain_evidence ''DNAME_ALIAS'' ''DNS'' (''O DNS publicou uma substitui'' @ [CHR 0xC3, CHR 0xA7, CHR 0xC3, CHR 0xA3] @ ''o DNAME.'') 0 100
        (if alias \<noteq> [] then map_put metadata ''synthesized_alias'' alias else metadata))"

definition collect_service_bindings :: "go_env \<Rightarrow> 'r fingerprint list \<Rightarrow> host_analysis \<Rightarrow> host_analysis" where
  "collect_service_bindings G sigs a =
     (let d = ha_dns a;
          a1 = (if length (rs_dname d) > 0 then
                  fold (\<lambda>row a. add_evidence (dname_evidence G (ha_host a) row) a) (rs_dname d)
                    (add_tested_vector ''DNAME'' a)
                else a)
      in add_bindings G sigs ''SVCB'' (rs_svcb d) (add_bindings G sigs ''HTTPS'' (rs_https d) a1))"

subsection \<open>Ownership and provider of a target (mx.go)\<close>

definition provider_roots :: "string list" where
  "provider_roots =
     [''google.com'', ''googlemail.com'', ''outlook.com'', ''microsoft.com'', ''amazonaws.com'',
      ''amazonses.com'', ''sendgrid.net'', ''mailgun.org'', ''zendesk.com'', ''windows.net'', ''ciscospark.com'']"

definition external_target_ownership :: "go_env \<Rightarrow> string \<Rightarrow> string" where
  "external_target_ownership G target =
     (if list_ex (\<lambda>r. extract_root_domain G target = r) provider_roots then ''PROVIDER_OWNED''
      else ''EXTERNAL_UNVERIFIED'')"

definition dns_suffix_match :: "go_env \<Rightarrow> string \<Rightarrow> string \<Rightarrow> bool" where
  "dns_suffix_match G host suff =
     (let h = to_lower G (trim_suffix host ''.''); s = to_lower G (trim_suffix suff ''.'') in
      h = s \<or> suffix (''.'' @ s) h)"

definition builtin_mx_target_providers :: "(string \<times> string) list" where
  "builtin_mx_target_providers =
     [(''mail.protection.outlook.com'', ''Microsoft 365''), (''aspmx.l.google.com'', ''Google Workspace''),
      (''googlemail.com'', ''Google Workspace''), (''amazonses.com'', ''Amazon SES''),
      (''sendgrid.net'', ''Twilio SendGrid''), (''mailgun.org'', ''Mailgun''), (''zendesk.com'', ''Zendesk'')]"

text \<open>The nested loops stop at the first rule that one of the names matches.\<close>

definition builtin_provider :: "go_env \<Rightarrow> (string \<times> string) list \<Rightarrow> string list \<Rightarrow> string option" where
  "builtin_provider G rules names =
     map_option snd (find (\<lambda>(suff, _). list_ex (\<lambda>name. dns_suffix_match G name suff) names) rules)"

definition signature_provider ::
  "go_env \<Rightarrow> ('r fingerprint \<Rightarrow> string list) \<Rightarrow> 'r fingerprint list \<Rightarrow> string list \<Rightarrow> 'r fingerprint option"
where
  "signature_provider G select sigs names =
     find (\<lambda>sig. list_ex (\<lambda>p. list_ex (\<lambda>name. match_dns_provider_pattern G name p) names) (select sig)) sigs"

subsection \<open>MX (mx.go)\<close>

definition add_mx_provider_evidence :: "mx_candidate \<Rightarrow> int \<Rightarrow> host_analysis \<Rightarrow> host_analysis" where
  "add_mx_provider_evidence c confidence a =
     add_evidence (plain_evidence ''MX_PROVIDER_MATCH'' (mxc_provider c)
       (''O destino MX '' @ mxc_target c @ '' pertence ao provedor '' @ mxc_provider c @ ''.'') 1 confidence
       [(''mx_target'', mxc_target c), (''provider_id'', mxc_provider_id c), (''ownership'', mxc_ownership c)]) a"

definition mx_match_provider ::
  "go_env \<Rightarrow> 'r fingerprint list \<Rightarrow> mx_candidate \<Rightarrow> host_analysis \<Rightarrow> mx_candidate \<times> host_analysis"
where
  "mx_match_provider G sigs c a =
     (let names = mxc_target c # mxc_cname c;
          owned = (\<lambda>p. c\<lparr>mxc_provider := p, mxc_provider_id := provider_id G p,
                     mxc_ownership := ''PROVIDER_OWNED''\<rparr>) in
      case builtin_provider G builtin_mx_target_providers names of
        Some p \<Rightarrow> (owned p, add_mx_provider_evidence (owned p) 95 a)
      | None \<Rightarrow>
          (case signature_provider G fp_mx_fingerprints sigs names of
             Some sig \<Rightarrow> (owned (fp_service sig),
               add_mx_provider_evidence (owned (fp_service sig))
                 (own_confidence (fp_mx_confidence sig) (fp_confidence sig)) a)
           | None \<Rightarrow> (c, a)))"

definition mx_metadata :: "mx_candidate \<Rightarrow> meta" where
  "mx_metadata c =
     [(''mx_target'', mxc_target c), (''final_target'', mxc_final_target c),
      (''preference'', itoa (uint (mxc_preference c))), (''role'', mxc_role c),
      (''healthy_alternatives'', itoa (mxc_healthy_alternatives c)),
      (''dns_status'', dns_status_text (mxc_dns_status c)), (''cname_chain'', join_with '','' (mxc_cname c)),
      (''registrable_domain'', mxc_registrable_domain c), (''ownership'', mxc_ownership c),
      (''registration_status'', mxc_registration_status c),
      (''claimability'', claimability_text (mxc_claimability c))]"

definition conclusive_absence :: "dns_status \<Rightarrow> bool" where
  "conclusive_absence s \<longleftrightarrow> s = DNSStatusNXDomain \<or> s = DNSStatusNoData"

definition inconclusive :: "dns_status \<Rightarrow> bool" where
  "inconclusive s \<longleftrightarrow> s = DNSStatusTimeout \<or> s = DNSStatusServFail \<or> s = DNSStatusError"

definition mx_broken_evidence :: "int \<Rightarrow> mx_candidate \<Rightarrow> evidence" where
  "mx_broken_evidence healthy c =
     (if healthy > 0 \<and> mxc_role c = ''primary'' then
        plain_evidence ''MX_PRIMARY_BROKEN_WITH_FALLBACK'' ''DNS''
          ((''O MX prim'' @ [CHR 0xC3, CHR 0xA1] @ ''rio '') @ mxc_target c @ ('' est'' @ [CHR 0xC3, CHR 0xA1] @ '' quebrado, mas existe fallback saud'' @ [CHR 0xC3, CHR 0xA1] @ ''vel.'')) 10 90 (mx_metadata c)
      else if healthy > 0 then
        plain_evidence ''MX_BACKUP_BROKEN'' ''DNS''
          (''O MX de fallback '' @ mxc_target c @ ('' est'' @ [CHR 0xC3, CHR 0xA1] @ '' quebrado; o prim'' @ [CHR 0xC3, CHR 0xA1] @ ''rio permanece saud'' @ [CHR 0xC3, CHR 0xA1] @ ''vel.'')) 5 90 (mx_metadata c)
      else
        plain_evidence ''MX_BROKEN'' ''DNS''
          (''O destino MX '' @ mxc_target c @ ('' est'' @ [CHR 0xC3, CHR 0xA1] @ '' quebrado e n'' @ [CHR 0xC3, CHR 0xA3] @ ''o h'' @ [CHR 0xC3, CHR 0xA1] @ '' alternativa saud'' @ [CHR 0xC3, CHR 0xA1] @ ''vel.'')) 20 90 (mx_metadata c))"

definition mx_status_evidence :: "int \<Rightarrow> mx_candidate \<Rightarrow> evidence option" where
  "mx_status_evidence healthy c =
     (if conclusive_absence (mxc_dns_status c) then Some (mx_broken_evidence healthy c)
      else if inconclusive (mxc_dns_status c) then
        Some (plain_evidence ''MX_UNRESOLVABLE'' ''DNS''
          (''O destino MX '' @ mxc_target c @ ('' n'' @ [CHR 0xC3, CHR 0xA3] @ ''o p'' @ [CHR 0xC3, CHR 0xB4] @ ''de ser avaliado de forma confi'' @ [CHR 0xC3, CHR 0xA1] @ ''vel ('') @
           dns_status_text (mxc_dns_status c) @ '').'') 1 40 (mx_metadata c))
      else None)"

definition min_preference :: "mx_candidate list \<Rightarrow> 16 word" where
  "min_preference cs =
     fold (\<lambda>c least. if mxc_preference c < least then mxc_preference c else least) (tl cs) (mxc_preference (hd cs))"

definition healthy_count :: "mx_candidate list \<Rightarrow> int" where
  "healthy_count cs = int (length (filter (\<lambda>c. mxc_dns_status c = DNSStatusResolved) cs))"

text \<open>What the loop writes into one candidate.\<close>

definition mx_placed :: "16 word \<Rightarrow> int \<Rightarrow> mx_candidate \<Rightarrow> mx_candidate" where
  "mx_placed least healthy c =
     c\<lparr>mxc_role := (if mxc_preference c = least then ''primary'' else ''fallback''),
       mxc_healthy_alternatives := (if mxc_dns_status c = DNSStatusResolved then healthy - 1 else healthy)\<rparr>"

definition add_mx_status_evidence :: "host_analysis \<Rightarrow> mx_candidate list \<Rightarrow> host_analysis \<times> mx_candidate list" where
  "add_mx_status_evidence a cs =
     (if length cs = 0 then (a, cs)
      else
        (let placed = map (mx_placed (min_preference cs) (healthy_count cs)) cs in
         (fold (\<lambda>c a. if mxc_dns_status c = DNSStatusResolved then a
               else case mx_status_evidence (healthy_count cs) c of None \<Rightarrow> a | Some e \<Rightarrow> add_evidence e a)
            placed a, placed)))"

definition mx_records_of :: "dns_record_set \<Rightarrow> mx_record list" where
  "mx_records_of d =
     (if length (rs_mx_records d) = 0 then map (\<lambda>t. \<lparr>mx_preference = 0, mx_target = t\<rparr>) (rs_mx d)
      else rs_mx_records d)"

definition final_target :: "string \<Rightarrow> string list \<Rightarrow> string" where
  "final_target target chain = (if length chain > 0 then last chain else target)"

definition collect_mx_target ::
  "'w dns_env \<Rightarrow> 'r fingerprint list \<Rightarrow> string \<Rightarrow> 16 word \<Rightarrow> host_analysis \<Rightarrow> ('w, host_analysis \<times> mx_candidate) dns"
where
  "collect_mx_target E sigs target preference a = do {
     chain \<leftarrow> resolve_cname_chain E target;
     let (c, a1) = mx_match_provider (de_go E) sigs
       \<lparr>mxc_target = target, mxc_preference = preference, mxc_role = [], mxc_cname = fst chain,
        mxc_final_target = final_target target (fst chain), mxc_healthy_alternatives = 0,
        mxc_provider_id = [], mxc_provider = [], mxc_dns_status = DNSStatusUnset,
        mxc_registrable_domain = extract_root_domain (de_go E) target,
        mxc_ownership = external_target_ownership (de_go E) target,
        mxc_registration_status = ''NOT_CHECKED'', mxc_claimability = ClaimabilityNotVerified\<rparr> a;
     status \<leftarrow> resolve_address_status E (mxc_final_target c);
     let c1 = c\<lparr>mxc_dns_status := status\<rparr>;
     ret (if mxc_provider_id c1 \<noteq> [] then
            add_provider_candidate (zero_provider_candidate\<lparr>pc_provider_id := mxc_provider_id c1,
              pc_service := mxc_provider c1, pc_vector := ''MX'', pc_resource := target,
              pc_metadata := [(''registrable_domain'', mxc_registrable_domain c1), (''ownership'', mxc_ownership c1)]\<rparr>) a1
          else a1, c1)
   }"

fun collect_mx_records ::
  "'w dns_env \<Rightarrow> 'r fingerprint list \<Rightarrow> mx_record list \<Rightarrow> host_analysis \<Rightarrow> mx_candidate list \<Rightarrow>
   ('w, host_analysis \<times> mx_candidate list) dns"
where
  "collect_mx_records E sigs [] a cs = ret (a, cs)"
| "collect_mx_records E sigs (row # rows) a cs =
     (if trim_space (mx_target row) = ''.'' then
        collect_mx_records E sigs rows
          (add_evidence (mitigating_evidence ''NULL_MX_PRESENT'' ''DNS''
             (''O dom'' @ [CHR 0xC3, CHR 0xAD] @ ''nio publica Null MX e declara que n'' @ [CHR 0xC3, CHR 0xA3] @ ''o recebe e-mail por SMTP.'') 0 100 []) a) cs
      else
        (let target = trim_suffix (to_lower (de_go E) (mx_target row)) ''.'' in
         if target = [] then collect_mx_records E sigs rows a cs
         else do {
           res \<leftarrow> collect_mx_target E sigs target (mx_preference row) a;
           collect_mx_records E sigs rows (fst res) (cs @ [snd res])
         }))"

definition collect_mx :: "'w dns_env \<Rightarrow> 'r fingerprint list \<Rightarrow> host_analysis \<Rightarrow> ('w, host_analysis) dns" where
  "collect_mx E sigs a = do {
     res \<leftarrow> collect_mx_records E sigs (mx_records_of (ha_dns a)) (add_tested_vector ''MX'' a) [];
     let (a1, cs) = add_mx_status_evidence (fst res) (snd res);
     ret (a1\<lparr>ha_mx_candidates := ha_mx_candidates a1 @ cs\<rparr>)
   }"

subsection \<open>SRV (srv.go)\<close>

definition builtin_srv_target_providers :: "(string \<times> string) list" where
  "builtin_srv_target_providers =
     [(''online.lync.com'', ''Microsoft 365''), (''outlook.com'', ''Microsoft 365''),
      (''manage.microsoft.com'', ''Microsoft Intune''), (''windows.net'', ''Microsoft Entra ID''),
      (''ciscospark.com'', ''Cisco Webex'')]"

definition add_srv_provider_evidence :: "srv_candidate \<Rightarrow> int \<Rightarrow> host_analysis \<Rightarrow> host_analysis" where
  "add_srv_provider_evidence c confidence a =
     add_evidence (plain_evidence ''SRV_PROVIDER_MATCH'' (srvc_provider c)
       (''O registro SRV '' @ srv_owner (srvc_record c) @ '' aponta para o provedor '' @ srvc_provider c) 1 confidence
       [(''srv_owner'', srv_owner (srvc_record c)), (''srv_target'', srv_target (srvc_record c)),
        (''provider_id'', srvc_provider_id c), (''ownership'', srvc_ownership c)]) a"

text \<open>\<open>strconv.ParseUint(s, 10, 16)\<close>, and the legacy form \<open>target:port\<close>.\<close>

definition parse_uint16 :: "string \<Rightarrow> 16 word option" where
  "parse_uint16 s =
     (if s = [] \<or> \<not> list_all digit_char s then None
      else if nat_of_dec s < 2 ^ 16 then Some (of_nat (nat_of_dec s)) else None)"

definition parse_legacy_srv :: "go_env \<Rightarrow> string \<Rightarrow> string \<Rightarrow> srv_record option" where
  "parse_legacy_srv G owner val =
     (case last_index CHR '':'' val of
        None \<Rightarrow> None
      | Some i \<Rightarrow>
          if i < 1 then None
          else (case parse_uint16 (drop (i + 1) val) of
             None \<Rightarrow> None
           | Some port \<Rightarrow> Some (zero_srv_record\<lparr>srv_owner := owner,
               srv_target := trim_suffix (to_lower G (take i val)) ''.'', srv_port := port\<rparr>)))"

definition srv_records_of :: "go_env \<Rightarrow> host_analysis \<Rightarrow> srv_record list" where
  "srv_records_of G a =
     (if length (rs_srv_records (ha_dns a)) = 0 then
        List.map_filter (parse_legacy_srv G (ha_host a)) (rs_srv (ha_dns a))
      else rs_srv_records (ha_dns a))"

definition srv_owned :: "go_env \<Rightarrow> string \<Rightarrow> srv_candidate \<Rightarrow> srv_candidate" where
  "srv_owned G p c =
     c\<lparr>srvc_provider := p, srvc_provider_id := provider_id G p, srvc_ownership := ''PROVIDER_OWNED''\<rparr>"

text \<open>The loops over the signatures and their patterns end only when an identifier was found.\<close>

fun srv_signature_loop ::
  "go_env \<Rightarrow> string list \<Rightarrow> ('r fingerprint \<times> string) list \<Rightarrow> srv_candidate \<Rightarrow> host_analysis \<Rightarrow>
   srv_candidate \<times> host_analysis"
where
  "srv_signature_loop G names [] c a = (c, a)"
| "srv_signature_loop G names ((sig, p) # rest) c a =
     (if list_ex (\<lambda>name. match_dns_provider_pattern G name p) names then
        (let c1 = srv_owned G (fp_service sig) c;
             a1 = add_srv_provider_evidence c1 (own_confidence (fp_srv_confidence sig) (fp_confidence sig)) a in
         if srvc_provider_id c1 \<noteq> [] then (c1, a1) else srv_signature_loop G names rest c1 a1)
      else srv_signature_loop G names rest c a)"

definition srv_match_provider ::
  "go_env \<Rightarrow> 'r fingerprint list \<Rightarrow> srv_candidate \<Rightarrow> host_analysis \<Rightarrow> srv_candidate \<times> host_analysis"
where
  "srv_match_provider G sigs c a =
     (let names = srv_target (srvc_record c) # srvc_cname c in
      case builtin_provider G builtin_srv_target_providers names of
        Some p \<Rightarrow> (srv_owned G p c, add_srv_provider_evidence (srv_owned G p c) 95 a)
      | None \<Rightarrow> srv_signature_loop G names
          (concat (map (\<lambda>sig. map (Pair sig) (fp_srv_fingerprints sig)) sigs)) c a)"

definition srv_status_evidence :: "srv_candidate \<Rightarrow> evidence option" where
  "srv_status_evidence c =
     (let row = srvc_record c; status = dns_status_text (srvc_dns_status c) in
      if conclusive_absence (srvc_dns_status c) then
        Some (plain_evidence ''SRV_BROKEN'' ''DNS''
          (''O registro SRV '' @ srv_owner row @ '' aponta para '' @ srv_target row @ '' ('' @ status @
           (''); a reivindicabilidade do destino n'' @ [CHR 0xC3, CHR 0xA3] @ ''o foi verificada'')) 20 90
          [(''srv_owner'', srv_owner row), (''srv_target'', srv_target row),
           (''final_target'', srvc_final_target c), (''cname_chain'', join_with '','' (srvc_cname c)),
           (''priority'', itoa (uint (srv_priority row))), (''weight'', itoa (uint (srv_weight row))),
           (''port'', itoa (uint (srv_port row))), (''dns_status'', status),
           (''registration_status'', srvc_registration_status c), (''ownership'', srvc_ownership c),
           (''claimability'', claimability_text (srvc_claimability c))])
      else if inconclusive (srvc_dns_status c) then
        Some (plain_evidence ''SRV_UNRESOLVABLE'' ''DNS''
          (''O destino SRV '' @ srv_target row @ ('' n'' @ [CHR 0xC3, CHR 0xA3] @ ''o p'' @ [CHR 0xC3, CHR 0xB4] @ ''de ser avaliado de forma confi'' @ [CHR 0xC3, CHR 0xA1] @ ''vel ('') @ status @ '')'') 1 40
          [(''srv_owner'', srv_owner row), (''srv_target'', srv_target row),
           (''final_target'', srvc_final_target c), (''cname_chain'', join_with '','' (srvc_cname c)),
           (''dns_status'', status)])
      else None)"

definition collect_srv_record ::
  "'w dns_env \<Rightarrow> 'r fingerprint list \<Rightarrow> srv_record \<Rightarrow> host_analysis \<Rightarrow> ('w, host_analysis) dns"
where
  "collect_srv_record E sigs row a = do {
     chain \<leftarrow> resolve_cname_chain E (srv_target row);
     let (c, a1) = srv_match_provider (de_go E) sigs
       \<lparr>srvc_record = row, srvc_cname = fst chain, srvc_final_target = final_target (srv_target row) (fst chain),
        srvc_provider_id = [], srvc_provider = [], srvc_dns_status = DNSStatusUnset,
        srvc_registrable_domain = extract_root_domain (de_go E) (srv_target row),
        srvc_ownership = external_target_ownership (de_go E) (srv_target row),
        srvc_registration_status = ''NOT_CHECKED'', srvc_claimability = ClaimabilityNotVerified\<rparr> a;
     status \<leftarrow> resolve_address_status E (srvc_final_target c);
     let c1 = c\<lparr>srvc_dns_status := status\<rparr>;
     let a2 = (if srvc_provider_id c1 \<noteq> [] then
            add_provider_candidate (zero_provider_candidate\<lparr>pc_provider_id := srvc_provider_id c1,
              pc_service := srvc_provider c1, pc_vector := ''SRV'', pc_resource := srv_target row,
              pc_metadata := [(''owner'', srv_owner row), (''port'', itoa (uint (srv_port row)))]\<rparr>) a1
          else a1);
     let a3 = (case srv_status_evidence c1 of None \<Rightarrow> a2 | Some e \<Rightarrow> add_evidence e a2);
     ret (a3\<lparr>ha_srv_candidates := ha_srv_candidates a3 @ [c1]\<rparr>)
   }"

fun collect_srv_records ::
  "'w dns_env \<Rightarrow> 'r fingerprint list \<Rightarrow> srv_record list \<Rightarrow> host_analysis \<Rightarrow> ('w, host_analysis) dns"
where
  "collect_srv_records E sigs [] a = ret a"
| "collect_srv_records E sigs (row # rows) a =
     (if srv_target row = [] \<or> srv_target row = ''.'' then collect_srv_records E sigs rows a
      else do {
        a1 \<leftarrow> collect_srv_record E sigs row a;
        collect_srv_records E sigs rows a1
      })"

definition collect_srv :: "'w dns_env \<Rightarrow> 'r fingerprint list \<Rightarrow> host_analysis \<Rightarrow> ('w, host_analysis) dns" where
  "collect_srv E sigs a =
     collect_srv_records E sigs (srv_records_of (de_go E) a) (add_tested_vector ''SRV'' a)"

end
