(* ===== verification/CollectEmail.thy ===== *)
theory CollectEmail
  imports CollectTargets
begin

section \<open>E-mail policies (internal/evidence/email_security.go)\<close>

text \<open>
  SPF and DMARC of the registrable domain. The recursion over the includes is bounded by the
  counter of lookups; here it runs on fuel, and the theory of its properties shows that eleven
  levels are enough. The result is kept for each domain during a batch: the cache is a map that
  the collector passes on. A single-flight group runs its function once for concurrent calls;
  run one after the other the calls meet in the cache.
\<close>

definition first_spf :: "go_env \<Rightarrow> string list \<Rightarrow> string" where
  "first_spf G txts =
     (case find (\<lambda>t. prefix ''v=spf1'' (to_lower G (trim_space t))) txts of None \<Rightarrow> [] | Some t \<Rightarrow> t)"

text \<open>The mechanism and target of a term that costs a lookup.\<close>

definition spf_mechanism :: "go_env \<Rightarrow> string \<Rightarrow> (string \<times> string) option" where
  "spf_mechanism G raw =
     (let token0 = to_lower G (trim_space raw) in
      if token0 = [] then None
      else
        (let token = (if hd token0 \<in> {CHR ''+'', CHR ''-'', CHR ''~'', CHR ''?''} then tl token0 else token0) in
         if prefix ''include:'' token then Some (''include'', trim_prefix token ''include:'')
         else if prefix ''redirect='' token then Some (''redirect'', trim_prefix token ''redirect='')
         else if token = ''a'' \<or> prefix ''a:'' token \<or> prefix ''a/'' token then Some (''a'', [])
         else if token = ''mx'' \<or> prefix ''mx:'' token \<or> prefix ''mx/'' token then Some (''mx'', [])
         else if token = ''ptr'' \<or> prefix ''ptr:'' token then Some (''ptr'', [])
         else if prefix ''exists:'' token then Some (''exists'', trim_prefix token ''exists:'')
         else None))"

definition spf_ownership :: "string \<Rightarrow> string" where
  "spf_ownership registrable =
     (if registrable \<in> {''google.com'', ''outlook.com'', ''mailgun.org'', ''sendgrid.net'', ''amazonses.com'',
        ''mandrillapp.com''} then ''PROVIDER_OWNED'' else ''EXTERNAL_UNVERIFIED'')"

definition arrow_chain :: "string list \<Rightarrow> string" where
  "arrow_chain names = join_with '' -> '' names"

text \<open>The variables of the closure: the counter, its flag, and the analysis.\<close>

record spf_state =
  spf_lookups :: int
  spf_limit_reported :: bool
  spf_analysis :: host_analysis

definition spf_add :: "evidence \<Rightarrow> spf_state \<Rightarrow> spf_state" where
  "spf_add e s = s\<lparr>spf_analysis := add_evidence e (spf_analysis s)\<rparr>"

definition spf_limit :: "string \<Rightarrow> spf_state \<Rightarrow> spf_state" where
  "spf_limit domain s =
     (if spf_limit_reported s then s
      else spf_add (plain_evidence ''SPF_LOOKUP_LIMIT_EXCEEDED'' ''EmailSecurity''
             (''A avalia'' @ [CHR 0xC3, CHR 0xA7, CHR 0xC3, CHR 0xA3] @ ''o SPF excede o limite de dez termos que geram consultas DNS, definido pela RFC 7208'') 20 100
             [(''domain'', domain), (''lookups'', itoa (spf_lookups s)), (''category'', ''misconfiguration'')])
           (s\<lparr>spf_limit_reported := True\<rparr>))"

definition spf_cycle :: "string list \<Rightarrow> spf_state \<Rightarrow> spf_state" where
  "spf_cycle names s =
     spf_add (plain_evidence ''SPF_INCLUDE_CYCLE'' ''EmailSecurity''
       ((''Ciclo de recurs'' @ [CHR 0xC3, CHR 0xA3] @ ''o SPF: '') @ arrow_chain names) 10 100
       [(''chain'', arrow_chain names), (''category'', ''misconfiguration'')]) s"

definition spf_without_policy :: "string \<Rightarrow> string \<Rightarrow> string list \<Rightarrow> spf_state \<Rightarrow> spf_state" where
  "spf_without_policy mechanism target names s =
     spf_add (plain_evidence ''SPF_INCLUDE_WITHOUT_POLICY'' ''EmailSecurity''
       (''O destino '' @ target @ '' do SPF '' @ mechanism @ ('' existe, mas n'' @ [CHR 0xC3, CHR 0xA3] @ ''o publica uma pol'' @ [CHR 0xC3, CHR 0xAD] @ ''tica SPF'')) 10 95
       [(''domain'', target), (''chain'', arrow_chain names), (''category'', ''misconfiguration'')]) s"

text \<open>The signatures that own the target: each adds a candidate once, and marks the SPF candidate.\<close>

definition spf_owners :: "go_env \<Rightarrow> 'r fingerprint list \<Rightarrow> string \<Rightarrow> 'r fingerprint list" where
  "spf_owners G sigs target =
     filter (\<lambda>sig. list_ex (match_dns_provider_pattern G target) (fp_spf_fingerprints sig)) sigs"

definition spf_owner_candidate :: "go_env \<Rightarrow> string \<Rightarrow> string \<Rightarrow> string list \<Rightarrow> 'r fingerprint \<Rightarrow> provider_candidate" where
  "spf_owner_candidate G mechanism target names sig =
     zero_provider_candidate\<lparr>pc_provider_id := provider_id G (fp_service sig), pc_service := fp_service sig,
       pc_vector := ''SPF'', pc_resource := target,
       pc_metadata := [(''mechanism'', mechanism), (''chain'', arrow_chain names)]\<rparr>"

definition spf_broken ::
  "go_env \<Rightarrow> 'r fingerprint list \<Rightarrow> string \<Rightarrow> string \<Rightarrow> string list \<Rightarrow> dns_status \<Rightarrow> spf_state \<Rightarrow> spf_state"
where
  "spf_broken G sigs mechanism target names status s =
     (let registrable = extract_root_domain G target;
          ownership = spf_ownership registrable;
          owners = spf_owners G sigs target;
          candidate = \<lparr>spfc_domain = target, spfc_mechanism = mechanism, spfc_chain = names,
            spfc_dns_status = status, spfc_registrable_domain = registrable,
            spfc_ownership = (if owners \<noteq> [] then ''PROVIDER_OWNED'' else ownership),
            spfc_registration_status = ''NOT_CHECKED'', spfc_claimability = ClaimabilityNotVerified\<rparr>;
          a1 = fold (\<lambda>sig. add_provider_candidate (spf_owner_candidate G mechanism target names sig))
                 owners (spf_analysis s);
          a2 = a1\<lparr>ha_spf_candidates := ha_spf_candidates a1 @ [candidate]\<rparr>
      in spf_add (plain_evidence ''SPF_BROKEN_INCLUDE'' ''EmailSecurity''
           (''O destino '' @ target @ '' do SPF '' @ mechanism @
            ('' '' @ [CHR 0xC3, CHR 0xA9] @ '' NXDOMAIN; registro e controle de e-mail n'' @ [CHR 0xC3, CHR 0xA3] @ ''o foram verificados'')) 20 95
           [(''domain'', target), (''mechanism'', mechanism), (''chain'', arrow_chain names),
            (''dns_status'', dns_status_text status), (''registrable_domain'', registrable),
            (''ownership'', ownership), (''registration_status'', ''NOT_CHECKED''),
            (''claimability'', claimability_text ClaimabilityNotVerified)])
         (s\<lparr>spf_analysis := a2\<rparr>))"

text \<open>
  One target of an include or a redirect; \<open>walk\<close> is the call of the closure for the nested record.
\<close>

definition spf_include ::
  "'w dns_env \<Rightarrow> 'r fingerprint list \<Rightarrow>
   (string \<Rightarrow> string \<Rightarrow> string list \<Rightarrow> string list \<Rightarrow> spf_state \<Rightarrow> ('w, spf_state) dns) \<Rightarrow>
   string \<Rightarrow> string \<Rightarrow> string list \<Rightarrow> string list \<Rightarrow> spf_state \<Rightarrow> ('w, spf_state) dns"
where
  "spf_include E sigs walk mechanism target chain path s = do {
     (txts, status, err) \<leftarrow> resolve_txt_with_status E target;
     let nested = first_spf (de_go E) txts;
     (if status = DNSStatusNXDomain then
        ret (spf_broken (de_go E) sigs mechanism target (chain @ [target]) status s)
      else if status = DNSStatusNoData \<or> (status = DNSStatusResolved \<and> nested = []) then
        ret (spf_without_policy mechanism target (chain @ [target]) s)
      else if nested \<noteq> [] then walk target nested (chain @ [target]) path s
      else ret s)
   }"

text \<open>The loop over the terms of a record; it stops at the eleventh lookup.\<close>

primrec spf_terms ::
  "'w dns_env \<Rightarrow> 'r fingerprint list \<Rightarrow> string \<Rightarrow>
   (string \<Rightarrow> string \<Rightarrow> string list \<Rightarrow> string list \<Rightarrow> spf_state \<Rightarrow> ('w, spf_state) dns) \<Rightarrow>
   string list \<Rightarrow> string list \<Rightarrow> string list \<Rightarrow> spf_state \<Rightarrow> ('w, spf_state) dns"
where
  "spf_terms E sigs domain walk [] chain path s = ret s"
| "spf_terms E sigs domain walk (token # tokens) chain path s =
     (case spf_mechanism (de_go E) token of
        None \<Rightarrow> spf_terms E sigs domain walk tokens chain path s
      | Some (mechanism, raw) \<Rightarrow>
          (let s1 = s\<lparr>spf_lookups := spf_lookups s + 1\<rparr>;
               target = trim_suffix (to_lower (de_go E) raw) ''.'' in
           if spf_lookups s1 > 10 then ret (spf_limit domain s1)
           else if (mechanism \<noteq> ''include'' \<and> mechanism \<noteq> ''redirect'') \<or> target = [] then
             spf_terms E sigs domain walk tokens chain path s1
           else do {
             s2 \<leftarrow> spf_include E sigs walk mechanism target chain path s1;
             spf_terms E sigs domain walk tokens chain path s2
           }))"

text \<open>\<open>walk\<close>, with the domains being walked in \<open>path\<close>.\<close>

primrec spf_walk ::
  "'w dns_env \<Rightarrow> 'r fingerprint list \<Rightarrow> string \<Rightarrow> nat \<Rightarrow> string \<Rightarrow> string \<Rightarrow> string list \<Rightarrow> string list \<Rightarrow> spf_state \<Rightarrow>
   ('w, spf_state) dns"
where
  "spf_walk E sigs domain 0 current0 policy chain path s = ret s"
| "spf_walk E sigs domain (Suc fuel) current0 policy chain path s =
     (let current = trim_suffix (to_lower (de_go E) current0) ''.'' in
      if current \<in> set path then ret (spf_cycle (chain @ [current]) s)
      else spf_terms E sigs domain (spf_walk E sigs domain fuel) (go_fields policy) chain (current # path) s)"

definition spf_fuel :: nat where "spf_fuel = 11"

definition permissive_all :: "go_env \<Rightarrow> string \<Rightarrow> bool" where
  "permissive_all G spf \<longleftrightarrow>
     (let lower = to_lower G spf in
      contains_str lower ''~all'' \<or> contains_str lower ''?all'' \<or> contains_str lower ''+all'')"

definition validate_spf ::
  "'w dns_env \<Rightarrow> 'r fingerprint list \<Rightarrow> string \<Rightarrow> string list \<Rightarrow> bool \<Rightarrow> host_analysis \<Rightarrow> ('w, host_analysis) dns"
where
  "validate_spf E sigs domain txts mail_relevant a =
     (let spf = first_spf (de_go E) txts in
      if spf = [] then
        ret (if mail_relevant then
               add_evidence (plain_evidence ''EMAIL_SPF_MISSING'' ''EmailSecurity''
                 (''O dom'' @ [CHR 0xC3, CHR 0xAD] @ ''nio possui registros MX, mas n'' @ [CHR 0xC3, CHR 0xA3] @ ''o publica uma pol'' @ [CHR 0xC3, CHR 0xAD] @ ''tica SPF'') 0 100
                 [(''domain'', domain), (''category'', ''context'')]) a
             else a)
      else
        (let a1 = (if permissive_all (de_go E) spf then
               add_evidence (plain_evidence ''EMAIL_SPF_PERMISSIVE'' ''EmailSecurity''
                 (''A pol'' @ [CHR 0xC3, CHR 0xAD] @ ''tica SPF usa o mecanismo all de forma permissiva'') 10 90
                 [(''domain'', domain), (''category'', ''misconfiguration'')]) a
             else a) in
         do {
           s \<leftarrow> spf_walk E sigs domain spf_fuel domain spf [domain] []
             \<lparr>spf_lookups = 0, spf_limit_reported = False, spf_analysis = a1\<rparr>;
           ret (spf_analysis s)
         }))"

record email_result =
  er_evidences :: "evidence list"
  er_provider_candidates :: "provider_candidate list"
  er_spf_candidates :: "spf_candidate list"

definition collect_domain ::
  "'w dns_env \<Rightarrow> 'r fingerprint list \<Rightarrow> string \<Rightarrow> ('w, email_result) dns"
where
  "collect_domain E sigs domain = do {
     mx \<leftarrow> resolve_mx E domain;
     (txts, txt_status, err) \<leftarrow> resolve_txt_with_status E domain;
     let has_mx = (case mx of Inl _ \<Rightarrow> False | Inr targets \<Rightarrow> length targets > 0);
     a1 \<leftarrow> validate_spf E sigs domain txts has_mx (zero_host_analysis\<lparr>ha_host := domain\<rparr>);
     let owner = ''_dmarc.'' @ domain;
     (policies, status, err2) \<leftarrow> resolve_txt_with_status E owner;
     let has_dmarc = list_ex (\<lambda>t. prefix ''v=dmarc1'' (to_lower (de_go E) (trim_space t))) policies;
     let a2 = (if \<not> has_dmarc \<and> has_mx then
            add_evidence (plain_evidence ''EMAIL_DMARC_MISSING'' ''EmailSecurity''
              ((''Nenhuma pol'' @ [CHR 0xC3, CHR 0xAD] @ ''tica DMARC encontrada em '') @ owner @ '' ('' @ dns_status_text status @ '')'') 0 95
              [(''owner'', owner), (''dns_status'', dns_status_text status), (''category'', ''context'')]) a1
          else a1);
     ret \<lparr>er_evidences = ha_evidences a2, er_provider_candidates = ha_provider_candidates a2,
       er_spf_candidates = ha_spf_candidates a2\<rparr>
   }"

definition apply_email_result :: "email_result \<Rightarrow> host_analysis \<Rightarrow> host_analysis" where
  "apply_email_result r a =
     (let a1 = fold add_evidence (er_evidences r) a;
          a2 = fold add_provider_candidate (er_provider_candidates r) a1
      in a2\<lparr>ha_spf_candidates := ha_spf_candidates a2 @ er_spf_candidates r\<rparr>)"

text \<open>\<open>context.Canceled\<close>, which ends the loop of attempts.\<close>

definition canceled_error :: dns_error where
  "canceled_error = LibraryError None True ''context canceled''"

fun email_attempts ::
  "'w dns_env \<Rightarrow> 'r fingerprint list \<Rightarrow> string \<Rightarrow> nat \<Rightarrow> (string, email_result) gomap \<Rightarrow>
   ('w, (dns_error + email_result) \<times> (string, email_result) gomap) dns"
where
  "email_attempts E sigs domain 0 cache = ret (Inl canceled_error, cache)"
| "email_attempts E sigs domain (Suc left) cache = do {
     r \<leftarrow> collect_domain E sigs domain;
     done \<leftarrow> context_err E;
     case done of
       None \<Rightarrow> ret (Inr r, map_put cache domain r)
     | Some _ \<Rightarrow> do {
         again \<leftarrow> context_err E;
         case again of
           Some e \<Rightarrow> ret (Inl e, cache)
         | None \<Rightarrow> email_attempts E sigs domain left cache
       }
   }"

definition email_result_for_domain ::
  "'w dns_env \<Rightarrow> 'r fingerprint list \<Rightarrow> string \<Rightarrow> (string, email_result) gomap \<Rightarrow>
   ('w, (dns_error + email_result) \<times> (string, email_result) gomap) dns"
where
  "email_result_for_domain E sigs domain cache =
     (case map_of cache domain of
        Some r \<Rightarrow> ret (Inr r, cache)
      | None \<Rightarrow> email_attempts E sigs domain 2 cache)"

definition collect_email ::
  "'w dns_env \<Rightarrow> 'r fingerprint list \<Rightarrow> (string, email_result) gomap \<Rightarrow> host_analysis \<Rightarrow>
   ('w, host_analysis \<times> (string, email_result) gomap) dns"
where
  "collect_email E sigs cache a =
     (let domain = extract_root_domain (de_go E) (ha_host a) in
      if domain = [] then ret (a, cache)
      else do {
        (res, cache1) \<leftarrow> email_result_for_domain E sigs domain cache;
        let a1 = add_tested_vector ''EMAIL'' a;
        ret (case res of Inl _ \<Rightarrow> a1 | Inr r \<Rightarrow> apply_email_result r a1, cache1)
      })"

end
