(* ===== verification/CollectZone.thy ===== *)
theory CollectZone
  imports CollectEmail DnsChecks
begin

section \<open>Collectors of the zone of a host (internal/evidence: ns.go, zone_transfer.go, dnssec.go, caa.go, cname.go)\<close>

text \<open>
  The delegation and the health of its nameservers, open zone transfers, the artefacts of DNSSEC,
  the policy on certificate authorities, and the chain of aliases. As in the theory before, a
  collector takes the analysis and returns it, and what depends on answers of the DNS is a
  function of those answers of its own.
\<close>

subsection \<open>Names\<close>

definition unique_names :: "go_env \<Rightarrow> string list \<Rightarrow> string list" where
  "unique_names G vs =
     sort (dedup_by id {} (filter (\<lambda>v. v \<noteq> []) (map (\<lambda>v. trim_suffix (to_lower G (trim_space v)) ''.'') vs)))"

definition remove_name :: "string list \<Rightarrow> string \<Rightarrow> string list" where
  "remove_name vs target = filter (\<lambda>v. v \<noteq> target) vs"

subsection \<open>Delegation (ns.go)\<close>

definition provider_for_ns :: "go_env \<Rightarrow> 'r fingerprint list \<Rightarrow> string \<Rightarrow> string \<times> string" where
  "provider_for_ns G sigs host =
     (case find (\<lambda>sig. list_ex (match_dns_provider_pattern G host) (fp_ns_fingerprints sig)) sigs of
        None \<Rightarrow> ([], [])
      | Some sig \<Rightarrow> (fp_service sig, provider_id G (fp_service sig)))"

definition ns_health_status :: "string \<Rightarrow> dns_status" where
  "ns_health_status status =
     (if status = ''HEALTHY'' then DNSStatusResolved
      else if status = ''REFUSED'' then DNSStatusRefused
      else if status = ''SERVFAIL'' then DNSStatusServFail
      else if status = ''NXDOMAIN'' then DNSStatusNXDomain
      else if status = ''LAME'' then DNSStatusNoData
      else if status = ''TIMEOUT'' then DNSStatusTimeout
      else DNSStatusError)"

definition uniform_delegation_provider :: "delegation_ns_observation list \<Rightarrow> string \<times> string" where
  "uniform_delegation_provider observations =
     (case observations of
        [] \<Rightarrow> ([], [])
      | first # others \<Rightarrow>
          if dno_provider_id first = [] then ([], [])
          else if list_ex (\<lambda>ob. dno_provider_id ob = [] \<or> dno_provider_id ob \<noteq> dno_provider_id first) others
            then ([], [])
          else (dno_provider_id first, dno_service first))"

text \<open>The variables of the loop over the nameservers; \<open>ds_failed\<close> is a map used as a set.\<close>

record delegation_scan =
  sc_analysis :: host_analysis
  sc_responsive :: "string list"
  sc_lame :: "string list"
  sc_unresolvable :: "string list"
  sc_failed :: "string list"
  sc_observations :: "delegation_ns_observation list"

definition ns_evidence :: "string \<Rightarrow> string \<Rightarrow> string \<Rightarrow> evidence option" where
  "ns_evidence zone ns health =
     (if health \<in> {''REFUSED'', ''NXDOMAIN'', ''LAME''} then
        Some (plain_evidence (if health = ''NXDOMAIN'' then ''NS_NXDOMAIN'' else ''LAME_DELEGATION'') ns
          (''A consulta SOA autoritativa de '' @ zone @ '' retornou '' @ health) 20 90
          [(''zone'', zone), (''ns_status'', health)])
      else if health = ''SERVFAIL'' then
        Some (plain_evidence ''NS_SERVFAIL'' ns
          (''A consulta SOA autoritativa de '' @ zone @ '' retornou SERVFAIL'') 10 70 [(''zone'', zone)])
      else if health = ''TIMEOUT'' then
        Some (plain_evidence ''NS_TIMEOUT'' ns (''O servidor NS n'' @ [CHR 0xC3, CHR 0xA3] @ ''o respondeu antes do tempo limite'') 1 30
          [(''zone'', zone)])
      else None)"

definition orphan_evidence :: "string \<Rightarrow> string \<Rightarrow> dns_status \<Rightarrow> evidence" where
  "orphan_evidence zone ns status =
     plain_evidence ''NS_ORPHANED'' ns (''O nome do servidor NS n'' @ [CHR 0xC3, CHR 0xA3] @ ''o possui endere'' @ [CHR 0xC3, CHR 0xA7] @ ''o A ou AAAA'') 20 90
       [(''zone'', zone), (''dns_status'', dns_status_text status)]"

text \<open>Which lists a nameserver enters, from the status of its addresses and its health.\<close>

definition scan_lists :: "string \<Rightarrow> dns_status \<Rightarrow> string \<Rightarrow> delegation_scan \<Rightarrow> delegation_scan" where
  "scan_lists ns address health s =
     (let missing = conclusive_absence address;
          s1 = (if missing then s\<lparr>sc_unresolvable := sc_unresolvable s @ [ns], sc_failed := List.insert ns (sc_failed s)\<rparr>
                else s) in
      if health = ''HEALTHY'' then
        (let s2 = s1\<lparr>sc_responsive := sc_responsive s1 @ [ns]\<rparr> in
         if missing then s2\<lparr>sc_failed := removeAll ns (sc_failed s2), sc_unresolvable := remove_name (sc_unresolvable s2) ns\<rparr>
         else s2)
      else if health \<in> {''REFUSED'', ''NXDOMAIN'', ''LAME''} then
        s1\<lparr>sc_lame := sc_lame s1 @ [ns], sc_failed := List.insert ns (sc_failed s1)\<rparr>
      else if health = ''SERVFAIL'' then s1\<lparr>sc_lame := sc_lame s1 @ [ns]\<rparr>
      else s1)"

definition scan_evidence :: "string \<Rightarrow> string \<Rightarrow> dns_status \<Rightarrow> string \<Rightarrow> host_analysis \<Rightarrow> host_analysis" where
  "scan_evidence zone ns address health a =
     (let a1 = (case ns_evidence zone ns health of None \<Rightarrow> a | Some e \<Rightarrow> add_evidence e a) in
      if conclusive_absence address \<and> health \<noteq> ''HEALTHY'' then add_evidence (orphan_evidence zone ns address) a1
      else a1)"

definition scan_nameserver ::
  "go_env \<Rightarrow> 'r fingerprint list \<Rightarrow> authoritative_zone \<Rightarrow> string \<Rightarrow> dns_status \<Rightarrow> string \<Rightarrow>
   delegation_scan \<Rightarrow> delegation_scan"
where
  "scan_nameserver G sigs zone ns address health s =
     (let (service, pid) = provider_for_ns G sigs ns;
          s1 = scan_lists ns address health s in
      s1\<lparr>sc_analysis := scan_evidence (az_zone zone) ns address health (sc_analysis s1),
         sc_observations := sc_observations s1 @
           [\<lparr>dno_nameserver = ns, dno_resolvable = (address = DNSStatusResolved),
             dno_status = ns_health_status health, dno_provider_id = pid, dno_service = service,
             dno_glue = (case map_of (az_glue zone) ns of None \<Rightarrow> [] | Some g \<Rightarrow> g)\<rparr>]\<rparr>)"

fun scan_nameservers ::
  "'w dns_env \<Rightarrow> 'r fingerprint list \<Rightarrow> authoritative_zone \<Rightarrow> string list \<Rightarrow> delegation_scan \<Rightarrow>
   ('w, delegation_scan) dns"
where
  "scan_nameservers E sigs zone [] s = ret s"
| "scan_nameservers E sigs zone (ns # nss) s = do {
     address \<leftarrow> resolve_address_status E ns;
     (health, err) \<leftarrow> check_ns_health E ns (az_zone zone);
     scan_nameservers E sigs zone nss (scan_nameserver (de_go E) sigs zone ns address health s)
   }"

definition all_failed :: "string list \<Rightarrow> delegation_scan \<Rightarrow> bool" where
  "all_failed names s \<longleftrightarrow> length (sc_failed s) = length names \<and> length (sc_failed s) > 0"

definition delegation_of :: "authoritative_zone \<Rightarrow> delegation_scan \<Rightarrow> delegation_candidate" where
  "delegation_of zone s =
     (let (pid, service) = uniform_delegation_provider (sc_observations s) in
      \<lparr>dlg_zone = az_zone zone, dlg_parent_zone = az_parent_zone zone,
       dlg_delegated_nameservers = az_nameservers zone,
       dlg_parent_delegated_nameservers = (if az_parent_delegation_verified zone then az_nameservers zone else []),
       dlg_responsive = sort (sc_responsive s), dlg_lame = sort (sc_lame s),
       dlg_unresolvable = sort (sc_unresolvable s), dlg_provider_id = pid, dlg_provider = service,
       dlg_parent_has_ds = az_parent_has_ds zone, dlg_parent_ds_checked = az_parent_ds_checked zone,
       dlg_parent_delegation_verified = az_parent_delegation_verified zone,
       dlg_claimability = ClaimabilityNotVerified, dlg_nameservers = sc_observations s\<rparr>)"

definition broken_evidences :: "authoritative_zone \<Rightarrow> nat \<Rightarrow> evidence list" where
  "broken_evidences zone failed =
     [plain_evidence ''NS_ALL_DEAD'' ''DNS''
        (''Todos os '' @ itoa (int failed) @ ('' servidores NS delegados '' @ [CHR 0xC3, CHR 0xBA] @ ''nicos falharam de forma conclusiva'')) 30 95
        [(''zone'', az_zone zone), (''failed_unique'', itoa (int failed))],
      plain_evidence ''DELEGATION_BROKEN'' ''DNS''
        ((''A delega'' @ [CHR 0xC3, CHR 0xA7, CHR 0xC3, CHR 0xA3] @ ''o de '') @ az_zone zone @ '' publicada pela zona pai aponta apenas para servidores NS que falharam'')
        40 95
        [(''zone'', az_zone zone), (''parent_zone'', az_parent_zone zone),
         (''parent_delegation_verified'', bool_text (az_parent_delegation_verified zone)),
         (''parent_has_ds'', bool_text (az_parent_has_ds zone)),
         (''parent_ds_checked'', bool_text (az_parent_ds_checked zone)),
         (''claimability'', claimability_text ClaimabilityNotVerified)]]"

definition takeover_candidate :: "authoritative_zone \<Rightarrow> string list \<Rightarrow> delegation_scan \<Rightarrow> bool" where
  "takeover_candidate zone names s \<longleftrightarrow>
     all_failed names s \<and> az_parent_delegation_verified zone \<and> dlg_provider_id (delegation_of zone s) \<noteq> [] \<and>
     az_parent_ds_checked zone \<and> \<not> az_parent_has_ds zone"

text \<open>What the collector concludes once every nameserver has been observed, in the order of the code.\<close>

definition delegation_evidences :: "authoritative_zone \<Rightarrow> string list \<Rightarrow> delegation_scan \<Rightarrow> evidence list" where
  "delegation_evidences zone names s =
     (let d = delegation_of zone s in
      (if (length (sc_lame s) > 0 \<or> length (sc_unresolvable s) > 0) \<and> dlg_provider_id d \<noteq> [] then
         [plain_evidence ''NS_PROVIDER_MATCH'' (dlg_provider d)
            ((''A delega'' @ [CHR 0xC3, CHR 0xA7, CHR 0xC3, CHR 0xA3] @ ''o afetada usa o provedor conhecido '') @ dlg_provider d) 1 90
            [(''zone'', az_zone zone), (''provider_id'', dlg_provider_id d),
             (''nameservers'', join_with '','' (az_nameservers zone))]]
       else []) @
      (if all_failed names s then broken_evidences zone (length (sc_failed s)) else []) @
      (if takeover_candidate zone names s then
         [plain_evidence ''DELEGATION_TAKEOVER_CANDIDATE'' (dlg_provider d)
            ((''A delega'' @ [CHR 0xC3, CHR 0xA7, CHR 0xC3, CHR 0xA3] @ ''o quebrada de '') @ az_zone zone @
             ('', publicada pela zona pai, usa um provedor DNS conhecido; a recria'' @ [CHR 0xC3, CHR 0xA7, CHR 0xC3, CHR 0xA3] @ ''o da zona n'' @ [CHR 0xC3, CHR 0xA3] @ ''o foi comprovada'')) 50 80
            [(''zone'', az_zone zone), (''parent_zone'', az_parent_zone zone),
             (''provider_id'', dlg_provider_id d), (''claimability'', claimability_text ClaimabilityNotVerified)]]
       else []))"

definition conclude_delegation :: "authoritative_zone \<Rightarrow> string list \<Rightarrow> delegation_scan \<Rightarrow> host_analysis" where
  "conclude_delegation zone names s =
     (let d = delegation_of zone s;
          a = (fold add_evidence (delegation_evidences zone names s) (sc_analysis s))\<lparr>ha_delegation := Some d\<rparr> in
      if takeover_candidate zone names s then
        add_provider_candidate (zero_provider_candidate\<lparr>pc_provider_id := dlg_provider_id d,
          pc_service := dlg_provider d, pc_vector := ''NS'', pc_resource := dlg_zone d,
          pc_metadata := [(''zone'', dlg_zone d), (''parent_zone'', dlg_parent_zone d),
            (''delegated_nameservers'', join_with '','' (dlg_delegated_nameservers d))]\<rparr>) a
      else a)"

definition start_scan :: "host_analysis \<Rightarrow> delegation_scan" where
  "start_scan a =
     \<lparr>sc_analysis = a, sc_responsive = [], sc_lame = [], sc_unresolvable = [], sc_failed = [], sc_observations = []\<rparr>"

definition collect_ns :: "'w dns_env \<Rightarrow> 'r fingerprint list \<Rightarrow> host_analysis \<Rightarrow> ('w, host_analysis) dns" where
  "collect_ns E sigs a0 = do {
     let a = add_tested_vector ''NS_DELEGATION'' a0;
     found \<leftarrow> find_authoritative_zone E (ha_host a);
     case found of
       Inl _ \<Rightarrow> ret a
     | Inr zone \<Rightarrow>
         if length (az_nameservers zone) = 0 then ret a
         else do {
           let names = unique_names (de_go E) (az_nameservers zone);
           s \<leftarrow> scan_nameservers E sigs zone names (start_scan a);
           ret (conclude_delegation zone names s)
         }
   }"

subsection \<open>Zone transfer (zone_transfer.go)\<close>

record zone_transfer_result =
  zt_allowed :: bool
  zt_nameserver :: string

text \<open>The nameservers in turn, until one allows the transfer.\<close>

fun try_transfers :: "'w dns_env \<Rightarrow> string \<Rightarrow> string list \<Rightarrow> ('w, zone_transfer_result) dns" where
  "try_transfers E zone [] = ret \<lparr>zt_allowed = False, zt_nameserver = []\<rparr>"
| "try_transfers E zone (ns # nss) = do {
     (success, err) \<leftarrow> attempt_axfr E zone ns;
     if err = None \<and> success then ret \<lparr>zt_allowed = True, zt_nameserver = ns\<rparr>
     else try_transfers E zone nss
   }"

fun transfer_attempts ::
  "'w dns_env \<Rightarrow> string \<Rightarrow> string list \<Rightarrow> nat \<Rightarrow> (string, zone_transfer_result) gomap \<Rightarrow>
   ('w, (dns_error + zone_transfer_result) \<times> (string, zone_transfer_result) gomap) dns"
where
  "transfer_attempts E zone nameservers 0 cache = ret (Inl canceled_error, cache)"
| "transfer_attempts E zone nameservers (Suc left) cache = do {
     r \<leftarrow> try_transfers E zone nameservers;
     done \<leftarrow> context_err E;
     case done of
       None \<Rightarrow> ret (Inr r, map_put cache zone r)
     | Some _ \<Rightarrow> do {
         again \<leftarrow> context_err E;
         case again of
           Some e \<Rightarrow> ret (Inl e, cache)
         | None \<Rightarrow> transfer_attempts E zone nameservers left cache
       }
   }"

definition result_for_zone ::
  "'w dns_env \<Rightarrow> string \<Rightarrow> string list \<Rightarrow> (string, zone_transfer_result) gomap \<Rightarrow>
   ('w, (dns_error + zone_transfer_result) \<times> (string, zone_transfer_result) gomap) dns"
where
  "result_for_zone E zone nameservers cache =
     (case map_of cache zone of
        Some r \<Rightarrow> ret (Inr r, cache)
      | None \<Rightarrow> transfer_attempts E zone nameservers 2 cache)"

text \<open>The zone and its nameservers: of the delegation when it is known, or else asked for.\<close>

definition transfer_target :: "'w dns_env \<Rightarrow> host_analysis \<Rightarrow> ('w, (string \<times> string list) option) dns" where
  "transfer_target E a =
     (let known = (case ha_delegation a of
              None \<Rightarrow> ([], [])
            | Some d \<Rightarrow> (dlg_zone d, dlg_delegated_nameservers d)) in
      if fst known = [] \<or> length (snd known) = 0 then do {
        found \<leftarrow> find_authoritative_zone E (ha_host a);
        ret (case found of Inl _ \<Rightarrow> None | Inr z \<Rightarrow> Some (az_zone z, az_nameservers z))
      }
      else ret (Some known))"

definition transfer_evidence :: "string \<Rightarrow> zone_transfer_result \<Rightarrow> evidence" where
  "transfer_evidence zone r =
     plain_evidence ''DNS_AXFR_ALLOWED'' ''ZoneTransfer''
       (''O servidor NS '' @ zt_nameserver r @ ('' permitiu a transfer'' @ [CHR 0xC3, CHR 0xAA] @ ''ncia da zona autoritativa '') @ zone) 40 100
       [(''zone'', zone), (''nameserver'', zt_nameserver r), (''category'', ''exposure'')]"

definition collect_zone_transfer ::
  "'w dns_env \<Rightarrow> (string, zone_transfer_result) gomap \<Rightarrow> host_analysis \<Rightarrow>
   ('w, host_analysis \<times> (string, zone_transfer_result) gomap) dns"
where
  "collect_zone_transfer E cache a0 = do {
     let a = add_tested_vector ''AXFR'' a0;
     target \<leftarrow> transfer_target E a;
     case target of
       None \<Rightarrow> ret (a, cache)
     | Some (raw, nameservers) \<Rightarrow>
         (let zone = trim_suffix (to_lower (de_go E) (trim_space raw)) ''.'' in
          if zone = [] then ret (a, cache)
          else do {
            (res, cache1) \<leftarrow> result_for_zone E zone (unique_names (de_go E) nameservers) cache;
            ret (case res of
                   Inl _ \<Rightarrow> a
                 | Inr r \<Rightarrow> if \<not> zt_allowed r then a else add_evidence (transfer_evidence zone r) a, cache1)
          })
   }"

subsection \<open>DNSSEC (dnssec.go)\<close>

definition artifacts_evidence :: "go_env \<Rightarrow> string \<Rightarrow> (string, bool) gomap \<Rightarrow> evidence option" where
  "artifacts_evidence G zone results =
     (let observed = map fst (filter snd results);
          metadata = fold (\<lambda>t m. map_put m (to_lower G t) ''present'') observed
            [(''zone'', zone), (''chain_validation'', ''not_performed'')] in
      if length observed > 0 then
        Some (plain_evidence ''DNSSEC_ARTIFACTS_OBSERVED'' ''DNSSEC''
          (''Foram observados artefatos DNSSEC ('' @ join_with '', '' (sort observed) @
           (''); a cadeia de confian'' @ [CHR 0xC3, CHR 0xA7] @ ''a e as assinaturas n'' @ [CHR 0xC3, CHR 0xA3] @ ''o foram validadas.'')) 0 100 metadata)
      else None)"

definition diagnosis_evidence :: "string \<Rightarrow> dnssec_diagnosis \<Rightarrow> evidence option" where
  "diagnosis_evidence zone d =
     (let metadata = [(''zone'', zone), (''state'', dd_state d),
            (''normal_status'', dns_status_text (dd_normal_status d)), (''cd_status'', dns_status_text (dd_cd_status d)),
            (''authenticated'', bool_text (dd_authenticated d))] in
      if dd_state d = ''BOGUS'' then
        Some (plain_evidence ''DNSSEC_BOGUS'' ''DNSSEC''
          (''A resolu'' @ [CHR 0xC3, CHR 0xA7, CHR 0xC3, CHR 0xA3] @ ''o retorna SERVFAIL com valida'' @ [CHR 0xC3, CHR 0xA7, CHR 0xC3, CHR 0xA3] @ ''o ativa, mas responde quando o bit CD desabilita a checagem.'')
          20 95 metadata)
      else if dd_state d = ''SERVFAIL'' then
        Some (plain_evidence ''DNSSEC_SERVFAIL_INCONCLUSIVE'' ''DNSSEC''
          ''SERVFAIL persistiu com a checagem DNSSEC desabilitada; a causa permanece inconclusiva.'' 0 80 metadata)
      else if dd_state d = ''VALIDATED'' then
        Some (mitigating_evidence ''DNSSEC_VALIDATED'' ''DNSSEC''
          ''O resolvedor marcou a resposta com o bit AD.'' 0 90 metadata)
      else None)"

definition add_optional :: "evidence option \<Rightarrow> host_analysis \<Rightarrow> host_analysis" where
  "add_optional e a = (case e of None \<Rightarrow> a | Some e \<Rightarrow> add_evidence e a)"

definition dnssec_zone :: "'w dns_env \<Rightarrow> host_analysis \<Rightarrow> ('w, string option) dns" where
  "dnssec_zone E a =
     (let known = (case ha_delegation a of None \<Rightarrow> [] | Some d \<Rightarrow> dlg_zone d) in
      if known = [] then do {
        found \<leftarrow> find_authoritative_zone E (ha_host a);
        ret (case found of Inl _ \<Rightarrow> None | Inr z \<Rightarrow> Some (az_zone z))
      }
      else ret (Some known))"

definition collect_dnssec :: "'w dns_env \<Rightarrow> host_analysis \<Rightarrow> ('w, host_analysis) dns" where
  "collect_dnssec E a0 = do {
     let a = add_tested_vector ''DNSSEC'' a0;
     found \<leftarrow> dnssec_zone E a;
     case found of
       None \<Rightarrow> ret a
     | Some zone \<Rightarrow> do {
         results \<leftarrow> check_dnssec E zone;
         let a1 = (case results of Inl _ \<Rightarrow> a | Inr r \<Rightarrow> add_optional (artifacts_evidence (de_go E) zone r) a);
         diagnosis \<leftarrow> diagnose_dnssec E (ha_host a1);
         ret (case diagnosis of Inl _ \<Rightarrow> a1 | Inr d \<Rightarrow> add_optional (diagnosis_evidence zone d) a1)
       }
   }"

subsection \<open>Certificate authorities (caa.go)\<close>

text \<open>The tag and issuer of a record that restricts issuance.\<close>

definition caa_entry :: "go_env \<Rightarrow> string \<Rightarrow> (string \<times> string) option" where
  "caa_entry G row =
     (let fields = go_fields (to_lower G (trim_space row)) in
      if length fields < 2 \<or> (fields ! 0 \<noteq> ''issue'' \<and> fields ! 0 \<noteq> ''issuewild'') then None
      else Some (fields ! 0, trim_func (\<lambda>r. r \<in> {34, 39, 32}) (fst (cut_at CHR '';'' (fields ! 1)))))"

definition caa_policy :: "go_env \<Rightarrow> string list \<Rightarrow> string list" where
  "caa_policy G records =
     sort (dedup_by id {} (map (\<lambda>(tag, issuer). tag @ ''='' @ issuer) (List.map_filter (caa_entry G) records)))"

definition caa_issuers :: "go_env \<Rightarrow> string list \<Rightarrow> bool \<Rightarrow> string list \<times> bool" where
  "caa_issuers G records wildcard =
     (let entries = List.map_filter (caa_entry G) records;
          present = (\<lambda>tag. list_ex (\<lambda>(t, _). t = tag) entries);
          tag = (if wildcard \<and> present ''issuewild'' then ''issuewild'' else ''issue'') in
      (sort (dedup_by id {} (filter (\<lambda>i. i \<noteq> []) (map snd (filter (\<lambda>(t, _). t = tag) entries)))), present tag))"

text \<open>The ancestors of the host up to its registrable domain, until one has records.\<close>

fun caa_climb :: "'w dns_env \<Rightarrow> nat \<Rightarrow> string list \<Rightarrow> ('w, string list \<times> string) dns" where
  "caa_climb E 0 labels = ret ([], [])"
| "caa_climb E (Suc left) labels = do {
     let parent = join_with ''.'' (tl labels);
     res \<leftarrow> resolve_caa E parent;
     case res of
       Inl _ \<Rightarrow> ret ([], [])
     | Inr records \<Rightarrow> if length records > 0 then ret (records, parent) else caa_climb E left (tl labels)
   }"

definition parent_caa :: "'w dns_env \<Rightarrow> string \<Rightarrow> string \<Rightarrow> ('w, string list \<times> string) dns" where
  "parent_caa E host0 root0 =
     (let clean = (\<lambda>n. to_lower (de_go E) (trim_suffix (trim_space n) ''.''));
          host = clean host0; base = clean root0;
          host_labels = split_on CHR ''.'' host; root_labels = split_on CHR ''.'' base in
      if host = [] \<or> base = [] \<or> host = base then ret ([], [])
      else if length host_labels \<le> length root_labels \<or>
          join_with ''.'' (drop (length host_labels - length root_labels) host_labels) \<noteq> base then ret ([], [])
      else caa_climb E (length host_labels - length root_labels) host_labels)"

definition tls_issuer :: "evidence list \<Rightarrow> string" where
  "tls_issuer evs =
     (case find (\<lambda>i. i \<noteq> []) (map (\<lambda>e. trim_space (meta_get (ev_metadata e) ''tls_issuer'')) evs) of
        None \<Rightarrow> [] | Some i \<Rightarrow> i)"

definition tls_has_wildcard :: "evidence list \<Rightarrow> bool" where
  "tls_has_wildcard evs \<longleftrightarrow> list_ex (\<lambda>e. contains_str (meta_get (ev_metadata e) ''tls_sans'') ''*.'') evs"

definition issuer_caa_name :: "go_env \<Rightarrow> string \<Rightarrow> string" where
  "issuer_caa_name G issuer0 =
     (let issuer = to_lower G issuer0 in
      if contains_str issuer (''let'' @ [CHR 0x27] @ ''s encrypt'') \<or> contains_str issuer ''letsencrypt'' then ''letsencrypt.org''
      else if contains_str issuer ''google trust'' then ''pki.goog''
      else if contains_str issuer ''digicert'' then ''digicert.com''
      else if contains_str issuer ''sectigo'' \<or> contains_str issuer ''comodo'' then ''sectigo.com''
      else if contains_str issuer ''amazon'' then ''amazon.com''
      else if contains_str issuer ''globalsign'' then ''globalsign.com''
      else if contains_str issuer ''zerossl'' then ''zerossl.com''
      else [])"

definition caa_present_evidence :: "string list \<Rightarrow> string \<Rightarrow> evidence option" where
  "caa_present_evidence policy zone =
     (if length policy > 0 then
        Some (mitigating_evidence ''CAA_RECORD_PRESENT'' ''DNS''
          (''A pol'' @ [CHR 0xC3, CHR 0xAD] @ ''tica CAA restringe as autoridades certificadoras permitidas.'') 10 100
          [(''policy'', join_with '','' policy), (''zone'', zone)])
      else None)"

definition caa_inconsistent_evidence :: "string list \<Rightarrow> string list \<Rightarrow> string \<Rightarrow> evidence option" where
  "caa_inconsistent_evidence own inherited zone =
     (if length own > 0 \<and> length inherited > 0 \<and> own \<noteq> inherited then
        Some (plain_evidence ''CAA_POLICY_INCONSISTENT'' ''DNS''
          (''As pol'' @ [CHR 0xC3, CHR 0xAD] @ ''ticas CAA do hostname e do ancestral mais pr'' @ [CHR 0xC3, CHR 0xB3] @ ''ximo s'' @ [CHR 0xC3, CHR 0xA3] @ ''o diferentes.'') 0 100
          [(''host_issuers'', join_with '','' own), (''zone_issuers'', join_with '','' inherited), (''zone'', zone)])
      else None)"

definition caa_mismatch_evidence :: "go_env \<Rightarrow> string list \<Rightarrow> evidence list \<Rightarrow> evidence option" where
  "caa_mismatch_evidence G records evs =
     (let issuer = tls_issuer evs; domain = issuer_caa_name G issuer;
          (allowed, restricted) = caa_issuers G records (tls_has_wildcard evs) in
      if domain \<noteq> [] \<and> restricted \<and> domain \<notin> set allowed then
        Some (plain_evidence ''CAA_ISSUER_MISMATCH'' ''DNS/TLS''
          (''O certificado observado foi emitido por '' @ issuer @ ('', fora da pol'' @ [CHR 0xC3, CHR 0xAD] @ ''tica CAA coletada.'')) 0 90
          [(''tls_issuer'', issuer), (''issuer_domain'', domain), (''allowed_issuers'', join_with '','' allowed)])
      else None)"

definition caa_conclusions :: "go_env \<Rightarrow> string list \<Rightarrow> string \<Rightarrow> host_analysis \<Rightarrow> host_analysis" where
  "caa_conclusions G inherited_records ancestor a =
     (let own_records = rs_caa (ha_dns a);
          own = caa_policy G own_records; inherited = caa_policy G inherited_records;
          (records, policy, zone) =
            (if length own_records = 0 then (inherited_records, inherited, ancestor)
             else (own_records, own, ha_host a));
          a1 = add_optional (caa_present_evidence policy zone) a;
          a2 = add_optional (caa_inconsistent_evidence own inherited ancestor) a1
      in add_optional (caa_mismatch_evidence G records (ha_evidences a2)) a2)"

definition collect_caa :: "'w dns_env \<Rightarrow> bool \<Rightarrow> host_analysis \<Rightarrow> ('w, host_analysis) dns" where
  "collect_caa E has_resolver a0 = do {
     let a = add_tested_vector ''CAA'' a0;
     (records, zone) \<leftarrow>
       (if has_resolver then parent_caa E (ha_host a) (extract_root_domain (de_go E) (ha_host a)) else ret ([], []));
     ret (caa_conclusions (de_go E) records zone a)
   }"

subsection \<open>Aliases (cname.go)\<close>

definition cname_signature :: "go_env \<Rightarrow> 'r fingerprint list \<Rightarrow> string \<Rightarrow> 'r fingerprint option" where
  "cname_signature G sigs name =
     find (\<lambda>sig. fp_check_type sig \<notin> {''ns'', ''a'', ''mx''} \<and> matching_cname G [name] (fp_cnames sig) \<noteq> None) sigs"

definition cname_match :: "go_env \<Rightarrow> 'r fingerprint \<Rightarrow> nat \<Rightarrow> string \<Rightarrow> host_analysis \<Rightarrow> host_analysis" where
  "cname_match G sig i name a =
     (let pid = provider_id G (fp_service sig);
          pattern = (case find (match_dns_name G name) (fp_cnames sig) of None \<Rightarrow> [] | Some p \<Rightarrow> p);
          a1 = add_evidence (plain_evidence ''CNAME_PROVIDER_MATCH'' (fp_service sig)
                 ((''CNAME resolvido aponta para o servi'' @ [CHR 0xC3, CHR 0xA7] @ ''o '') @ fp_service sig) 20 (own_confidence (fp_confidence sig) 80)
                 [(''matched_cname'', name), (''chain_depth'', itoa (int (i + 1))), (''provider_id'', pid)]) a;
          a2 = add_provider_candidate (zero_provider_candidate\<lparr>pc_provider_id := pid, pc_service := fp_service sig,
                 pc_cname := name, pc_cname_pattern := pattern, pc_vector := ''CNAME'', pc_resource := name\<rparr>) a1
      in if fp_nxdomain sig then
           add_evidence (plain_evidence ''NXDOMAIN_EXPECTED'' (fp_service sig)
             ((''Servi'' @ [CHR 0xC3, CHR 0xA7] @ ''o '') @ fp_service sig @ '' detecta takeover via NXDOMAIN'') 0 100 []) a2
         else a2)"

text \<open>The loop over the chain: the analysis, the service matched last, and the terminal name.\<close>

fun cname_walk ::
  "go_env \<Rightarrow> 'r fingerprint list \<Rightarrow> nat \<Rightarrow> string list \<Rightarrow> host_analysis \<times> string \<Rightarrow> host_analysis \<times> string \<times> string"
where
  "cname_walk G sigs i [] (a, matched) = (a, matched, [])"
| "cname_walk G sigs i (raw # rest) (a, matched) =
     (case normalize_hostname G raw of
        Inl _ \<Rightarrow> cname_walk G sigs (i + 1) rest (a, matched)
      | Inr name \<Rightarrow>
          (let s = (case cname_signature G sigs name of
                 None \<Rightarrow> (a, matched)
               | Some sig \<Rightarrow> (cname_match G sig i name a, fp_service sig)) in
           if rest = [] then (fst s, snd s, name) else cname_walk G sigs (i + 1) rest s))"

definition cname_resolution_evidence :: "dns_status \<Rightarrow> string \<Rightarrow> string \<times> string \<times> int \<times> int" where
  "cname_resolution_evidence status matched =
     (let owned = (\<lambda>(type, description).
            if matched \<noteq> [] then (''CNAME_DANGLING'', (''CNAME '' @ [CHR 0xC3, CHR 0xB3] @ ''rf'' @ [CHR 0xC3, CHR 0xA3] @ ''o confirmado apontando para provedor conhecido: '') @ matched, 30, 90)
            else (type, description, 30, 90)) in
      if status = DNSStatusNXDomain then owned (''CNAME_NXDOMAIN'', (''O '' @ [CHR 0xC3, CHR 0xBA] @ ''ltimo n'' @ [CHR 0xC3, CHR 0xB3] @ '' da cadeia CNAME retornou NXDOMAIN''))
      else if status = DNSStatusNoData then
        owned (''CNAME_UNRESOLVABLE'', (''O '' @ [CHR 0xC3, CHR 0xBA] @ ''ltimo n'' @ [CHR 0xC3, CHR 0xB3] @ '' da cadeia CNAME n'' @ [CHR 0xC3, CHR 0xA3] @ ''o possui A nem AAAA''))
      else (''CNAME_RESOLUTION_INCONCLUSIVE'',
        (''A aus'' @ [CHR 0xC3, CHR 0xAA] @ ''ncia de endere'' @ [CHR 0xC3, CHR 0xA7] @ ''o no '' @ [CHR 0xC3, CHR 0xBA] @ ''ltimo CNAME n'' @ [CHR 0xC3, CHR 0xA3] @ ''o foi conclusiva ('') @ dns_status_text status @ '')'', 0, 30))"

definition cname_conclusions ::
  "string \<Rightarrow> string \<Rightarrow> bool \<Rightarrow> dns_status \<Rightarrow> string \<Rightarrow> host_analysis \<Rightarrow> host_analysis"
where
  "cname_conclusions terminal matched missing status consensus a =
     (let chain = rs_cname (ha_dns a);
          depth = itoa (int (length chain));
          a1 = add_evidence (plain_evidence ''CNAME_CHAIN_TRACE'' ''DNS''
                 (''A cadeia CNAME foi percorrida at'' @ [CHR 0xC3, CHR 0xA9] @ '' o destino terminal.'') 0 100
                 [(''chain'', join_with '' -> '' chain), (''terminal'', terminal), (''chain_length'', depth),
                  (''terminal_status'', dns_status_text status), (''consensus'', consensus)]) a in
      if \<not> missing then a1
      else
        (let (type, description, weight, confidence) = cname_resolution_evidence status matched;
             a2 = add_evidence (plain_evidence type ''DNS'' description weight confidence
                    [(''cname_target'', terminal), (''chain_length'', depth), (''dns_status'', dns_status_text status)]) a1 in
         if consensus \<noteq> ''DISABLED'' then
           add_evidence (plain_evidence ''DNS_CONSENSUS_STATE'' ''DNS''
             ''O estado terminal foi comparado entre resolvedores independentes.'' 0 100
             [(''state'', consensus), (''target'', terminal)]) a2
         else a2))"

definition collect_cname :: "'w dns_env \<Rightarrow> bool \<Rightarrow> 'r fingerprint list \<Rightarrow> host_analysis \<Rightarrow> ('w, host_analysis) dns" where
  "collect_cname E has_resolver sigs a0 =
     (let a = add_tested_vector ''DNS'' a0; chain = rs_cname (ha_dns a) in
      if length chain = 0 then ret a
      else
        (let (a1, matched, terminal) = cname_walk (de_go E) sigs 0 chain (a, []);
             missing = (length (rs_a (ha_dns a1)) = 0 \<and> length (rs_aaaa (ha_dns a1)) = 0) in
         if terminal = [] then ret a1
         else do {
           (status, consensus) \<leftarrow>
             (if \<not> missing then ret (DNSStatusResolved, ''DISABLED'')
              else if has_resolver then address_consensus E terminal
              else ret (DNSStatusError, ''DISABLED''));
           ret (cname_conclusions terminal matched missing status consensus a1)
         }))"

end
