(* ===== verification/CollectLocal.thy ===== *)
theory CollectLocal
  imports CollectZone
begin

section \<open>Collectors that read the analysis (internal/evidence: ip.go, shadow_it.go, txt_residual.go,
  provider_history.go, http_posture.go, impact_scope.go, correlator.go)\<close>

text \<open>
  The cloud addresses, the aliases of trackers, the residual TXT tokens, the change of providers
  since the last scan, the gates on probes of related domains, and the correlator that runs
  between the phases. Only the lookup of autonomous systems asks the resolver.
\<close>

subsection \<open>Addresses (ip.go)\<close>

definition cloud_asn_providers :: "(string, string \<times> string) gomap" where
  "cloud_asn_providers =
     [(''16509'', (''aws'', ''Amazon Web Services'')), (''14618'', (''aws'', ''Amazon Web Services'')),
      (''8075'', (''microsoft-azure'', ''Microsoft Azure'')), (''15169'', (''google-cloud'', ''Google Cloud'')),
      (''396982'', (''google-cloud'', ''Google Cloud'')), (''13335'', (''cloudflare'', ''Cloudflare''))]"

text \<open>The predicates of \<open>net.IP\<close> the collector uses.\<close>

definition ip_private :: "ip \<Rightarrow> bool" where
  "ip_private a \<longleftrightarrow>
     (case to4 a of
        Some b \<Rightarrow> b ! 0 = 10 \<or> (b ! 0 = 172 \<and> b ! 1 div 16 = 1) \<or> (b ! 0 = 192 \<and> b ! 1 = 168)
      | None \<Rightarrow> length a = 16 \<and> a ! 0 div 2 = 126)"

definition ip_loopback :: "ip \<Rightarrow> bool" where
  "ip_loopback a \<longleftrightarrow> (case to4 a of Some b \<Rightarrow> b ! 0 = 127 | None \<Rightarrow> a = replicate 15 0 @ [1])"

definition ip_link_local :: "ip \<Rightarrow> bool" where
  "ip_link_local a \<longleftrightarrow>
     (case to4 a of
        Some b \<Rightarrow> b ! 0 = 169 \<and> b ! 1 = 254
      | None \<Rightarrow> length a = 16 \<and> a ! 0 = 254 \<and> a ! 1 div 64 = 2)"

definition ip_unspecified :: "ip \<Rightarrow> bool" where
  "ip_unspecified a \<longleftrightarrow> (case to4 a of Some b \<Rightarrow> b = [0, 0, 0, 0] | None \<Rightarrow> a = replicate 16 0)"

definition reverse_ipv4 :: "nat list \<Rightarrow> string" where
  "reverse_ipv4 b = join_with ''.'' (map nat_dec [b ! 3, b ! 2, b ! 1, b ! 0])"

text \<open>
  \<open>fmt.Sprintf("%032x", ip)\<close>. The value is a \<open>Stringer\<close>, and for the verb \<open>x\<close> the package
  \<open>fmt\<close> formats what \<open>String\<close> returns: the bytes of the text of the address, not of the address.
  The character that pads the result is a parameter, because it depends on the release.
\<close>

definition hex_of_text :: "string \<Rightarrow> string" where
  "hex_of_text s = concat (map (\<lambda>c. [hex_nibble (of_char c div 16), hex_nibble (of_char c mod 16)]) s)"

definition format_ip_hex :: "char \<Rightarrow> ip \<Rightarrow> string" where
  "format_ip_hex pad a =
     (let h = hex_of_text (ip_text a) in replicate (32 - length h) pad @ h)"

definition reverse_ipv6 :: "char \<Rightarrow> ip \<Rightarrow> string" where
  "reverse_ipv6 pad a = join_with ''.'' (map (\<lambda>c. [c]) (rev (format_ip_hex pad a)))"

text \<open>The name asked; \<open>None\<close> is the panic on an address without an IPv4 form.\<close>

definition asn_owner :: "char \<Rightarrow> string \<Rightarrow> ip \<Rightarrow> string option" where
  "asn_owner pad record_type a =
     (if record_type = ''A'' then map_option (\<lambda>b. reverse_ipv4 b @ ''.origin.asn.cymru.com'') (to4 a)
      else Some (reverse_ipv6 pad a @ ''.origin6.asn.cymru.com''))"

text \<open>The data of the autonomous system; empty on an error or without records.\<close>

definition lookup_asn :: "'w dns_env \<Rightarrow> string \<Rightarrow> ('w, string) dns" where
  "lookup_asn E owner = do {
     res \<leftarrow> resolve_txt E owner;
     ret (case res of Inl _ \<Rightarrow> [] | Inr txts \<Rightarrow> if length txts = 0 then [] else hd txts)
   }"

definition asn_matches :: "go_env \<Rightarrow> string \<Rightarrow> 'r fingerprint \<Rightarrow> bool" where
  "asn_matches G data sig = list_ex (\<lambda>fp. contains_str (to_lower G data) (to_lower G fp)) (fp_asn_fingerprints sig)"

definition cloud_candidate :: "go_env \<Rightarrow> 'r fingerprint list \<Rightarrow> string \<Rightarrow> string \<Rightarrow> string \<Rightarrow> cloud_ip_candidate" where
  "cloud_candidate G sigs text record_type data =
     (let asn = trim_space (hd (split_on CHR ''|'' data));
          base = zero_cloud_ip_candidate\<lparr>cip_ip := text, cip_record_type := record_type, cip_asn := asn,
            cip_reachability := ''NOT_TESTED'', cip_claimability := ClaimabilityManualReview\<rparr>;
          known = (case map_of cloud_asn_providers asn of
              None \<Rightarrow> base
            | Some (pid, name) \<Rightarrow> base\<lparr>cip_provider_id := pid, cip_provider := name\<rparr>)
      in fold (\<lambda>sig c. c\<lparr>cip_provider := fp_service sig, cip_provider_id := provider_id G (fp_service sig)\<rparr>)
           (filter (asn_matches G data) sigs) known)"

definition record_ip :: "go_env \<Rightarrow> 'r fingerprint list \<Rightarrow> string \<Rightarrow> string \<Rightarrow> string \<Rightarrow> host_analysis \<Rightarrow> host_analysis" where
  "record_ip G sigs text record_type data a =
     (let c = cloud_candidate G sigs text record_type data;
          metadata = [(''ip_address'', text), (''record_type'', record_type), (''asn'', cip_asn c),
            (''asn_data'', data), (''reachability'', cip_reachability c),
            (''claimability'', claimability_text (cip_claimability c))];
          a1 = (if cip_provider_id c \<noteq> [] then
              add_evidence (plain_evidence ''CLOUD_IP_CONTEXT'' (cip_provider c)
                  (''O registro '' @ record_type @ '' aponta para '' @ text @ '' no ASN de nuvem '' @ cip_asn c @
                   (''; n'' @ [CHR 0xC3, CHR 0xA3] @ ''o h'' @ [CHR 0xC3, CHR 0xA1] @ '' evid'' @ [CHR 0xC3, CHR 0xAA] @ ''ncia de que o endere'' @ [CHR 0xC3, CHR 0xA7] @ ''o possa ser realocado'')) 1 90
                  (map_put metadata ''provider_id'' (cip_provider_id c)))
                (add_provider_candidate (zero_provider_candidate\<lparr>pc_provider_id := cip_provider_id c,
                   pc_service := cip_provider c, pc_vector := record_type, pc_resource := text,
                   pc_metadata := [(''asn'', cip_asn c), (''reachability'', cip_reachability c)]\<rparr>) a)
            else
              add_evidence (plain_evidence ''ASN_MATCH'' ''Team Cymru''
                  (''O IP '' @ text @ '' pertence ao ASN '' @ cip_asn c) 1 60 metadata) a)
      in a1\<lparr>ha_cloud_ip_candidates := ha_cloud_ip_candidates a1 @ [c]\<rparr>)"

definition routable :: "ip \<Rightarrow> bool" where
  "routable a \<longleftrightarrow> \<not> (ip_private a \<or> ip_loopback a \<or> ip_link_local a \<or> ip_unspecified a)"

fun process_ips ::
  "'w dns_env \<Rightarrow> char \<Rightarrow> 'r fingerprint list \<Rightarrow> string \<Rightarrow> string list \<Rightarrow> host_analysis \<Rightarrow> ('w, host_analysis option) dns"
where
  "process_ips E pad sigs record_type [] a = ret (Some a)"
| "process_ips E pad sigs record_type (text # texts) a =
     (case parse_ip text of
        None \<Rightarrow> process_ips E pad sigs record_type texts a
      | Some ip \<Rightarrow>
          if \<not> routable ip then process_ips E pad sigs record_type texts a
          else (case asn_owner pad record_type ip of
             None \<Rightarrow> ret None
           | Some owner \<Rightarrow> do {
               data \<leftarrow> lookup_asn E owner;
               process_ips E pad sigs record_type texts
                 (if data = [] then a else record_ip (de_go E) sigs text record_type data a)
             }))"

definition collect_ip :: "'w dns_env \<Rightarrow> char \<Rightarrow> 'r fingerprint list \<Rightarrow> host_analysis \<Rightarrow> ('w, host_analysis option) dns" where
  "collect_ip E pad sigs a0 = do {
     let a = add_tested_vector ''A_AAAA_ASN'' a0;
     first \<leftarrow> process_ips E pad sigs ''A'' (rs_a (ha_dns a)) a;
     case first of
       None \<Rightarrow> ret None
     | Some a1 \<Rightarrow> process_ips E pad sigs ''AAAA'' (rs_aaaa (ha_dns a1)) a1
   }"

subsection \<open>Trackers (shadow_it.go)\<close>

definition shadow_domains :: "string list" where
  "shadow_domains = [''adobemc.com'', ''threatmetrix.com'', ''akamai.net'', ''segment.com'', ''marketo.com'', ''hubspot.net'']"

definition shadow_evidence :: "string \<Rightarrow> evidence" where
  "shadow_evidence shadow =
     plain_evidence ''SHADOW_IT_DETECTED'' ''ShadowIT''
       ((''O CNAME aponta para um servi'' @ [CHR 0xC3, CHR 0xA7] @ ''o SaaS de terceiros ou rastreador ('') @ shadow @
        (''), indicando poss'' @ [CHR 0xC3, CHR 0xAD] @ ''vel Shadow IT ou CNAME Cloaking.'')) 0 90 []"

definition shadow_evidences :: "go_env \<Rightarrow> string list \<Rightarrow> evidence list" where
  "shadow_evidences G chain =
     concat (map (\<lambda>cname. map shadow_evidence (filter (match_dns_name G cname) shadow_domains)) chain)"

definition collect_shadow_it :: "go_env \<Rightarrow> host_analysis \<Rightarrow> host_analysis" where
  "collect_shadow_it G a =
     fold add_evidence (shadow_evidences G (rs_cname (ha_dns a))) (add_tested_vector ''SHADOW_IT'' a)"

subsection \<open>Residual TXT tokens (txt_residual.go)\<close>

definition dash_to_underscore :: "string \<Rightarrow> string" where
  "dash_to_underscore s = map (\<lambda>c. if c = CHR ''-'' then CHR ''_'' else c) s"

definition provider_family :: "go_env \<Rightarrow> string \<Rightarrow> string" where
  "provider_family G raw =
     (let pid = dash_to_underscore (to_lower G (trim_space raw)) in
      if pid = ''aws'' \<or> pid = ''amazon'' \<or> pid = ''cloudfront'' \<or> prefix ''aws_'' pid \<or> prefix ''amazon_'' pid then ''aws''
      else if pid = ''cloudflare'' \<or> prefix ''cloudflare_'' pid then ''cloudflare''
      else if pid = ''fastly'' \<or> prefix ''fastly_'' pid then ''fastly''
      else if pid = ''github'' \<or> prefix ''github_'' pid then ''github''
      else if pid = ''google'' \<or> prefix ''google_'' pid then ''google''
      else if pid = ''azure'' \<or> pid = ''microsoft'' \<or> prefix ''azure_'' pid \<or> prefix ''microsoft_'' pid then ''microsoft''
      else pid)"

definition active_families :: "go_env \<Rightarrow> host_analysis \<Rightarrow> string list" where
  "active_families G a =
     filter (\<lambda>f. f \<noteq> []) (map (\<lambda>c. provider_family G (pc_provider_id c))
       (filter (\<lambda>c. pc_vector c \<noteq> ''TXT'') (ha_provider_candidates a)))"

definition residual_token :: "go_env \<Rightarrow> string list \<Rightarrow> txt_verification_candidate \<Rightarrow> bool" where
  "residual_token G active c \<longleftrightarrow> provider_family G (provider_id G (txtc_provider c)) \<notin> set active"

definition residual_evidence :: "txt_verification_candidate \<Rightarrow> evidence" where
  "residual_evidence c =
     plain_evidence ''TXT_OWNERSHIP_TOKEN_RESIDUAL'' (txtc_provider c)
       (''Token de propriedade de '' @ txtc_provider c @
        ('' sem outro v'' @ [CHR 0xC3, CHR 0xAD] @ ''nculo observado; o estado residual n'' @ [CHR 0xC3, CHR 0xA3] @ ''o comprova explora'' @ [CHR 0xC3, CHR 0xA7, CHR 0xC3, CHR 0xA3] @ ''o.'')) 0 70
       [(''state'', ''POSSIBLY_RESIDUAL''), (''token_prefix'', txtc_token_prefix c)]"

definition collect_txt_residual :: "go_env \<Rightarrow> host_analysis \<Rightarrow> host_analysis" where
  "collect_txt_residual G a =
     (let active = active_families G a; tokens = ha_txt_candidates a in
      fold add_evidence (map residual_evidence (filter (residual_token G active) tokens))
        (a\<lparr>ha_txt_candidates :=
             map (\<lambda>c. c\<lparr>txtc_state := (if residual_token G active c then ''POSSIBLY_RESIDUAL'' else ''RELATED_PROVIDER_PRESENT'')\<rparr>)
               tokens\<rparr>))"

subsection \<open>Providers of the last scan (provider_history.go)\<close>

definition provider_vector :: "string \<Rightarrow> string" where
  "provider_vector t =
     (if t = ''CNAME_PROVIDER_MATCH'' then ''CNAME''
      else if t = ''MX_PROVIDER_MATCH'' then ''MX''
      else if t = ''SRV_PROVIDER_MATCH'' then ''SRV''
      else if t = ''TLS_PROVIDER_MATCH'' then ''TLS''
      else if t = ''CLOUD_IP_CONTEXT'' then ''IP''
      else [])"

definition evidence_provider :: "go_env \<Rightarrow> evidence \<Rightarrow> string" where
  "evidence_provider G e =
     (let pid = meta_get (ev_metadata e) ''provider_id'' in if pid = [] then provider_id G (ev_source e) else pid)"

definition history_step :: "go_env \<Rightarrow> evidence \<Rightarrow> (string, string list) gomap \<Rightarrow> (string, string list) gomap" where
  "history_step G e m =
     (let v = provider_vector (ev_type e); pid = evidence_provider G e;
          seen = (case map_of m v of None \<Rightarrow> [] | Some ids \<Rightarrow> ids) in
      if v = [] then m
      else if pid \<noteq> [] \<and> pid \<notin> set seen then map_put m v (seen @ [pid])
      else m)"

definition provider_history :: "go_env \<Rightarrow> evidence list \<Rightarrow> (string, string list) gomap" where
  "provider_history G evs = map (\<lambda>(v, ids). (v, sort ids)) (fold (history_step G) evs [])"

definition shares_provider :: "string list \<Rightarrow> string list \<Rightarrow> bool" where
  "shares_provider left right \<longleftrightarrow> list_ex (\<lambda>pid. pid \<in> set right) left"

definition migration_evidence :: "(string, string list) gomap \<Rightarrow> string \<times> string list \<Rightarrow> evidence option" where
  "migration_evidence current entry =
     (let (vector, old) = entry; present = (case map_of current vector of None \<Rightarrow> [] | Some ids \<Rightarrow> ids) in
      if length old = 0 \<or> length present = 0 \<or> old = present then None
      else Some (plain_evidence
         (if shares_provider old present then ''PROVIDER_MIGRATION_STALE_REFERENCE'' else ''PROVIDER_MIGRATION_DETECTED'')
         ''HISTORY''
         (if shares_provider old present then (''A refer'' @ [CHR 0xC3, CHR 0xAA] @ ''ncia ao provedor anterior permanece junto ao provedor atual.'')
          else (''O provedor observado mudou desde a '' @ [CHR 0xC3, CHR 0xBA] @ ''ltima varredura.'')) 0 90
         [(''vector'', vector), (''previous'', join_with '','' old), (''current'', join_with '','' present)]))"

text \<open>\<open>visit\<close> is the order in which the range over the map of the previous scan visits it.\<close>

definition collect_provider_history ::
  "go_env \<Rightarrow> ((string, string list) gomap \<Rightarrow> (string, string list) gomap) \<Rightarrow> host_analysis \<Rightarrow> host_analysis"
where
  "collect_provider_history G visit a =
     (case ha_scan_profile a of
        None \<Rightarrow> a
      | Some profile \<Rightarrow>
          if sp_version profile < 2 then a
          else (let current = provider_history G (ha_evidences a) in
            fold add_evidence
              (List.map_filter (migration_evidence current) (visit (provider_history G (ha_previous_evidences a))))
              (add_tested_vector ''PROVIDER_HISTORY'' a)))"

definition collect_http_posture :: "host_analysis option \<Rightarrow> host_analysis option" where
  "collect_http_posture a = map_option (add_tested_vector ''HTTP_POSTURE'') a"

subsection \<open>Related domains (impact_scope.go)\<close>

definition explicit_registrable_domains :: "go_env \<Rightarrow> string list \<Rightarrow> string list" where
  "explicit_registrable_domains G hosts =
     remdups (filter (\<lambda>h. extract_root_domain G h = h)
       (List.map_filter (\<lambda>h. case normalize_hostname G h of Inl _ \<Rightarrow> None | Inr n \<Rightarrow> Some n) hosts))"

definition related_domain_probe_allowed :: "string list \<Rightarrow> string \<Rightarrow> bool" where
  "related_domain_probe_allowed allowed domain \<longleftrightarrow> domain \<in> set allowed"

definition impact_types :: "string list" where
  "impact_types =
     [''CNAME_DANGLING'', ''HTTP_BODY_MATCH'', ''HTTP_MUTATION_REVEALED_PROVIDER_FINGERPRINT'', ''DELEGATION_BROKEN'',
      ''DELEGATION_TAKEOVER_CANDIDATE'', ''DELEGATION_CLAIMABILITY_VERIFIED'', ''ZONE_CONTROL_CONFIRMED'',
      ''STALE_CLOUD_IP_CANDIDATE'', ''CLAIM_SUCCESS'']"

definition has_related_domain_impact_candidate :: "host_analysis option \<Rightarrow> bool" where
  "has_related_domain_impact_candidate analysis \<longleftrightarrow>
     (case analysis of
        None \<Rightarrow> False
      | Some a \<Rightarrow>
          (case ha_active_verification a of None \<Rightarrow> False | Some v \<Rightarrow> vr_verified v \<and> vr_control_proven v) \<or>
          list_ex (\<lambda>e. ev_type e \<in> set impact_types) (ha_evidences a))"

subsection \<open>Correlator (correlator.go)\<close>

definition http_unreachable :: "host_analysis \<Rightarrow> bool" where
  "http_unreachable a \<longleftrightarrow>
     length (ha_http_observations a) > 0 \<and>
     \<not> list_ex (\<lambda>(_, ob). ho_complete ob \<or> ho_transport_error ob = []) (ha_http_observations a)"

definition stale_ip_evidence :: "cloud_ip_candidate \<Rightarrow> evidence" where
  "stale_ip_evidence c =
     plain_evidence ''STALE_CLOUD_IP_CANDIDATE'' (cip_provider c)
       (''O IP de nuvem est'' @ [CHR 0xC3, CHR 0xA1] @ '' inacess'' @ [CHR 0xC3, CHR 0xAD] @ ''vel por HTTP e possui sinal TLS de abandono; a possibilidade de realoca'' @ [CHR 0xC3, CHR 0xA7, CHR 0xC3, CHR 0xA3] @ ''o n'' @ [CHR 0xC3, CHR 0xA3] @ ''o foi comprovada'')
       20 60
       [(''ip_address'', cip_ip c), (''record_type'', cip_record_type c), (''provider_id'', cip_provider_id c),
        (''claimability'', claimability_text ClaimabilityManualReview)]"

definition correlate_cloud_ip :: "host_analysis \<Rightarrow> host_analysis" where
  "correlate_cloud_ip a =
     (if length (ha_cloud_ip_candidates a) = 0 \<or>
         (\<not> has_type (ha_evidences a) ''TLS_MISMATCH'' \<and> \<not> has_type (ha_evidences a) ''TLS_EXPIRED'') then a
      else if \<not> http_unreachable a then a
      else fold add_evidence (map stale_ip_evidence (filter (\<lambda>c. cip_provider_id c \<noteq> []) (ha_cloud_ip_candidates a)))
        (a\<lparr>ha_cloud_ip_candidates := map (\<lambda>c. if cip_provider_id c = [] then c
             else c\<lparr>cip_reachability := ''HTTP_UNREACHABLE'', cip_claimability := ClaimabilityManualReview\<rparr>)
           (ha_cloud_ip_candidates a)\<rparr>))"

definition cname_side :: "evidence \<Rightarrow> bool" where
  "cname_side e \<longleftrightarrow> ev_type e = ''CNAME_PROVIDER_MATCH'' \<and> ev_source e \<noteq> [] \<and>
     meta_get (ev_metadata e) ''provider_id'' \<noteq> [] \<and> meta_get (ev_metadata e) ''matched_cname'' \<noteq> []"

definition http_side :: "evidence \<Rightarrow> evidence \<Rightarrow> bool" where
  "http_side c h \<longleftrightarrow> ev_type h = ''HTTP_BODY_MATCH'' \<and> ev_source h = ev_source c \<and>
     meta_get (ev_metadata h) ''provider_id'' = meta_get (ev_metadata c) ''provider_id'' \<and>
     meta_get (ev_metadata h) ''matched_cname'' = meta_get (ev_metadata c) ''matched_cname'' \<and>
     meta_get (ev_metadata h) ''rule_id'' \<noteq> [] \<and> meta_get (ev_metadata h) ''matched_fingerprint'' \<noteq> []"

definition tls_side :: "evidence list \<Rightarrow> evidence \<Rightarrow> bool" where
  "tls_side evs c = list_ex (\<lambda>e. ev_type e = ''TLS_PROVIDER_MATCH'' \<and> ev_source e = ev_source c) evs"

definition correlated_pair :: "evidence list \<Rightarrow> (evidence \<times> evidence) option" where
  "correlated_pair evs =
     find (\<lambda>(c, h). cname_side c \<and> http_side c h \<and> tls_side evs c) (List.product evs evs)"

definition confirmation_evidence :: "evidence \<Rightarrow> evidence \<Rightarrow> evidence" where
  "confirmation_evidence c h =
     plain_evidence ''CORRELATED_PROVIDER_CONFIRMATION'' (ev_source c)
       ''CNAME, TLS e assinatura HTTP estruturada correspondem ao mesmo provedor.'' 100 95
       [(''provider_id'', meta_get (ev_metadata c) ''provider_id''),
        (''matched_cname'', meta_get (ev_metadata c) ''matched_cname''),
        (''rule_id'', meta_get (ev_metadata h) ''rule_id'')]"

definition correlate_providers :: "host_analysis \<Rightarrow> host_analysis" where
  "correlate_providers a0 =
     (let a = correlate_cloud_ip a0 in
      case correlated_pair (ha_evidences a) of
        None \<Rightarrow> a
      | Some (c, h) \<Rightarrow> add_evidence (confirmation_evidence c h) a)"

end
