(* ===== verification/CollectProps.thy ===== *)
theory CollectProps
  imports CollectLocal DnsSafety
begin

section \<open>What the collectors guarantee\<close>

subsection \<open>The walk over the SPF includes\<close>

lemma add_provider_candidate_frame [simp]:
  "ha_evidences (add_provider_candidate c a) = ha_evidences a"
  "ha_spf_candidates (add_provider_candidate c a) = ha_spf_candidates a"
  "ha_host (add_provider_candidate c a) = ha_host a" "ha_dns (add_provider_candidate c a) = ha_dns a"
  "ha_delegation (add_provider_candidate c a) = ha_delegation a"
  by (simp_all add: add_provider_candidate_def)

lemma fold_candidates_frame [simp]:
  "ha_evidences (fold (\<lambda>x. add_provider_candidate (f x)) xs a) = ha_evidences a"
  "ha_spf_candidates (fold (\<lambda>x. add_provider_candidate (f x)) xs a) = ha_spf_candidates a"
  "ha_host (fold (\<lambda>x. add_provider_candidate (f x)) xs a) = ha_host a"
  "ha_dns (fold (\<lambda>x. add_provider_candidate (f x)) xs a) = ha_dns a"
  by (induction xs arbitrary: a) simp_all

text \<open>
  What a part of the walk may do to the counter of lookups, the SPF candidates and the evidence of
  the limit: each candidate costs one of the ten lookups, and the limit is reported once.
\<close>

definition limit_count :: "host_analysis \<Rightarrow> nat" where
  "limit_count a = length (filter (\<lambda>e. ev_type e = ''SPF_LOOKUP_LIMIT_EXCEEDED'') (ha_evidences a))"

definition spf_leads :: "spf_state \<Rightarrow> spf_state \<Rightarrow> bool" where
  "spf_leads s s' \<longleftrightarrow> spf_lookups s \<le> spf_lookups s' \<and>
     int (length (ha_spf_candidates (spf_analysis s'))) + min 10 (spf_lookups s)
       \<le> int (length (ha_spf_candidates (spf_analysis s))) + min 10 (spf_lookups s') \<and>
     limit_count (spf_analysis s') + of_bool (spf_limit_reported s)
       \<le> limit_count (spf_analysis s) + of_bool (spf_limit_reported s')"

lemma spf_leads_refl [simp]: "spf_leads s s"
  by (simp add: spf_leads_def)

lemma spf_leads_trans: "spf_leads s t \<Longrightarrow> spf_leads t u \<Longrightarrow> spf_leads s u"
  by (simp add: spf_leads_def)

lemma spf_leads_lookup: "spf_leads s (s\<lparr>spf_lookups := spf_lookups s + 1\<rparr>)"
  by (simp add: spf_leads_def)

lemma limit_count_add [simp]:
  "limit_count (add_evidence e a) = limit_count a + of_bool (ev_type e = ''SPF_LOOKUP_LIMIT_EXCEEDED'')"
  by (simp add: limit_count_def add_evidence_def)

lemma add_evidence_sel [simp]:
  "ha_spf_candidates (add_evidence e a) = ha_spf_candidates a" "ha_host (add_evidence e a) = ha_host a"
  "ha_dns (add_evidence e a) = ha_dns a" "ha_delegation (add_evidence e a) = ha_delegation a"
  "ha_evidences (add_evidence e a) = ha_evidences a @ [e]"
  by (simp_all add: add_evidence_def)

lemma spf_leads_notes:
  "spf_leads s (spf_cycle names s)"
  "spf_leads s (spf_without_policy mechanism target names (s\<lparr>spf_lookups := spf_lookups s + 1\<rparr>))"
  "spf_leads s (spf_limit domain (s\<lparr>spf_lookups := spf_lookups s + 1\<rparr>))"
  by (simp_all add: spf_leads_def spf_cycle_def spf_without_policy_def spf_limit_def spf_add_def)

lemma limit_count_fold [simp]: "limit_count (fold (\<lambda>x. add_provider_candidate (f x)) xs a) = limit_count a"
  by (simp add: limit_count_def)

lemma limit_count_update [simp]: "limit_count (a\<lparr>ha_spf_candidates := c\<rparr>) = limit_count a"
  by (simp add: limit_count_def)

lemma spf_leads_broken:
  assumes "spf_lookups s + 1 \<le> 10"
  shows "spf_leads s (spf_broken G sigs mechanism target names status (s\<lparr>spf_lookups := spf_lookups s + 1\<rparr>))"
  using assms by (simp add: spf_leads_def spf_broken_def spf_add_def Let_def)

lemma spf_lookups_kept [simp]: "spf_lookups (spf_broken G sigs mechanism target names status s) = spf_lookups s"
  by (simp add: spf_broken_def spf_add_def Let_def)

lemma spf_include_leads:
  assumes "spf_lookups s + 1 \<le> 10"
    and "\<And>t p c d s. gives (spf_leads s) (walk t p c d s)"
  shows "gives (spf_leads s)
     (spf_include E sigs walk mechanism target chain path (s\<lparr>spf_lookups := spf_lookups s + 1\<rparr>))"
proof -
  have "gives (spf_leads s) (walk t p c d (s\<lparr>spf_lookups := spf_lookups s + 1\<rparr>))" for t p c d
    by (rule gives_weaken [OF assms(2)]) (rule spf_leads_trans [OF spf_leads_lookup])
  then show ?thesis
    unfolding spf_include_def Let_def
    by (intro gives_bind_any gives_intros spf_leads_broken assms(1) spf_leads_notes spf_leads_lookup)
qed

lemma spf_terms_leads:
  assumes "\<And>t p c d s. gives (spf_leads s) (walk t p c d s)"
  shows "gives (spf_leads s) (spf_terms E sigs domain walk tokens chain path s)"
proof (induction tokens arbitrary: s)
  case (Cons token tokens)
  have later: "gives (spf_leads s) (spf_terms E sigs domain walk tokens chain path s')" if "spf_leads s s'" for s'
    by (rule gives_weaken [OF Cons]) (rule spf_leads_trans [OF that])
  show ?case
    unfolding spf_terms.simps Let_def
    by (intro gives_intros gives_bind [OF spf_include_leads] later assms spf_leads_refl spf_leads_lookup
        spf_leads_notes) simp_all
qed (simp add: gives_ret)

lemma spf_walk_leads: "gives (spf_leads s) (spf_walk E sigs domain fuel current policy chain path s)"
proof (induction fuel arbitrary: current policy chain path s)
  case (Suc fuel)
  show ?case
    unfolding spf_walk.simps Let_def by (intro gives_intros spf_terms_leads Suc spf_leads_notes)
qed (simp add: gives_ret)

text \<open>A nested walk starts with a higher counter, so eleven levels are never exceeded.\<close>

lemma bind_cong_gives: "gives (\<lambda>a. f a = g a) m \<Longrightarrow> State_Monad.bind m f = State_Monad.bind m g"
  by (intro state.expand ext) (auto simp: gives_def split: prod.splits, metis fst_conv)

lemma spf_terms_cong:
  assumes leads: "\<And>t p c d s. gives (spf_leads s) (walk t p c d s)"
    and agree: "\<And>t p c d s'. l < spf_lookups s' \<Longrightarrow> spf_lookups s' \<le> 10 \<Longrightarrow> walk t p c d s' = walk' t p c d s'"
  shows "l \<le> spf_lookups s \<Longrightarrow>
    spf_terms E sigs domain walk tokens chain path s = spf_terms E sigs domain walk' tokens chain path s"
proof (induction tokens arbitrary: s)
  case (Cons token tokens)
  let ?s = "s\<lparr>spf_lookups := spf_lookups s + 1\<rparr>"
  have same: "spf_include E sigs walk mechanism target chain path ?s = spf_include E sigs walk' mechanism target chain path ?s"
    if "spf_lookups s + 1 \<le> 10" for mechanism target
  proof -
    have walk: "walk t p c d ?s = walk' t p c d ?s" for t p c d using agree [of ?s] Cons.prems that by simp
    show ?thesis unfolding spf_include_def walk ..
  qed
  have later: "gives (\<lambda>s2. spf_terms E sigs domain walk tokens chain path s2 = spf_terms E sigs domain walk' tokens chain path s2)
      (spf_include E sigs walk' mechanism target chain path ?s)" if "spf_lookups s + 1 \<le> 10" for mechanism target
    unfolding same [OF that, symmetric]
    by (rule gives_weaken [OF spf_include_leads [OF that leads]])
      (rule Cons.IH, use Cons.prems in \<open>simp add: spf_leads_def\<close>)
  show ?case
    using Cons.IH [of s] Cons.IH [of ?s] Cons.prems same bind_cong_gives [OF later]
    by (simp add: Let_def split: option.split)
qed simp

lemma spf_walk_fuel:
  assumes "spf_lookups s \<le> 10" "11 \<le> int n + spf_lookups s" "11 \<le> int m + spf_lookups s"
  shows "spf_walk E sigs domain n current policy chain path s = spf_walk E sigs domain m current policy chain path s"
  using assms
proof (induction n arbitrary: m current policy chain path s)
  case (Suc n)
  then obtain m' where m: "m = Suc m'" by (cases m) auto
  have "spf_terms E sigs domain (spf_walk E sigs domain n) tokens chain path s =
      spf_terms E sigs domain (spf_walk E sigs domain m') tokens chain path s" for tokens chain path
    by (rule spf_terms_cong [OF spf_walk_leads Suc.IH, of "spf_lookups s"]) (use Suc.prems m in auto)
  then show ?case unfolding m spf_walk.simps Let_def by simp
qed simp

text \<open>The walk over the includes always ends: with more levels than the eleven of the model the
  result is the same, for every answer of the DNS, cycles and wide or deep policies included.\<close>

theorem spf_walk_ends:
  "spf_walk E sigs domain (spf_fuel + n) current policy chain path (s\<lparr>spf_lookups := 0\<rparr>) =
   spf_walk E sigs domain spf_fuel current policy chain path (s\<lparr>spf_lookups := 0\<rparr>)"
  by (rule spf_walk_fuel) (simp_all add: spf_fuel_def)

text \<open>Whatever the policies of other domains say, the evaluation of one policy adds at most ten
  SPF candidates and reports the limit of lookups at most once.\<close>

theorem spf_candidates_bounded:
  "gives (\<lambda>a'. length (ha_spf_candidates a') \<le> length (ha_spf_candidates a) + 10 \<and> limit_count a' \<le> limit_count a + 1)
     (validate_spf E sigs domain txts mail_relevant a)"
proof -
  have "gives (\<lambda>s. length (ha_spf_candidates (spf_analysis s)) \<le> length (ha_spf_candidates a) + 10 \<and>
        limit_count (spf_analysis s) \<le> limit_count a + 1)
      (spf_walk E sigs domain spf_fuel current policy [domain] []
        \<lparr>spf_lookups = 0, spf_limit_reported = False, spf_analysis = b\<rparr>)"
    if "ha_spf_candidates b = ha_spf_candidates a" "limit_count b = limit_count a" for b current policy
    by (rule gives_weaken [OF spf_walk_leads]) (use that in \<open>auto simp: spf_leads_def of_bool_def split: if_splits\<close>)
  note walk = this
  show ?thesis
    unfolding validate_spf_def Let_def
    by (intro gives_intros gives_bind [OF walk]) simp_all
qed

subsection \<open>The delegation\<close>

abbreviation takeover_type :: string where "takeover_type \<equiv> ''DELEGATION_TAKEOVER_CANDIDATE''"



lemma scan_lists_frame [simp]:
  "sc_observations (scan_lists ns address health s) = sc_observations s"
  "sc_analysis (scan_lists ns address health s) = sc_analysis s"
  by (simp_all add: scan_lists_def Let_def)







lemma scan_evidence_type:
  "has_type (ha_evidences (scan_evidence zone ns address health a)) takeover_type = has_type (ha_evidences a) takeover_type"
  by (simp add: scan_evidence_def ns_evidence_def orphan_evidence_def Let_def)

lemma scan_nameserver_type [simp]:
  "has_type (ha_evidences (sc_analysis (scan_nameserver G sigs zone ns address health s))) takeover_type =
   has_type (ha_evidences (sc_analysis s)) takeover_type"
  by (simp add: scan_nameserver_def Let_def scan_evidence_type split: prod.split)











end
