(* ===== verification/CollectFrame.thy ===== *)
theory CollectFrame
  imports CollectProps
begin

section \<open>Collectors only add\<close>

text \<open>
  What a collector leaves as it was: the host, its DNS profile, the HTTP observations, the
  verification, what the last scan saw and the profile of the scan, and the evidence and the
  candidates that were there before.
\<close>

definition only_adds :: "host_analysis \<Rightarrow> host_analysis \<Rightarrow> bool" where
  "only_adds a b \<longleftrightarrow> prefix (ha_evidences a) (ha_evidences b) \<and>
     prefix (ha_provider_candidates a) (ha_provider_candidates b) \<and>
     ha_host b = ha_host a \<and> ha_dns b = ha_dns a \<and> ha_http_observations b = ha_http_observations a \<and>
     ha_verification_score b = ha_verification_score a \<and> ha_active_verification b = ha_active_verification a \<and>
     ha_previous_evidences b = ha_previous_evidences a \<and> ha_scan_profile b = ha_scan_profile a"

named_theorems only_adds_intros \<open>operations that only add\<close>

lemma only_adds_refl [only_adds_intros]: "only_adds a a"
  by (simp add: only_adds_def)

lemma only_adds_trans: "only_adds a b \<Longrightarrow> only_adds b c \<Longrightarrow> only_adds a c"
  by (auto simp: only_adds_def intro: prefix_order.trans)

lemma only_adds_add_evidence [only_adds_intros]: "only_adds a b \<Longrightarrow> only_adds a (add_evidence e b)"
  by (simp add: only_adds_def add_evidence_def)

lemma only_adds_append [only_adds_intros]: "only_adds a b \<Longrightarrow> only_adds a (b\<lparr>ha_evidences := ha_evidences b @ es\<rparr>)"
  by (simp add: only_adds_def)

lemma only_adds_add_candidate [only_adds_intros]: "only_adds a b \<Longrightarrow> only_adds a (add_provider_candidate c b)"
  by (simp add: only_adds_def add_provider_candidate_def)

lemma only_adds_add_vector [only_adds_intros]: "only_adds a b \<Longrightarrow> only_adds a (add_tested_vector v b)"
  by (simp add: only_adds_def add_tested_vector_def)

lemma only_adds_update [only_adds_intros]:
  "only_adds a b \<Longrightarrow> only_adds a (b\<lparr>ha_txt_candidates := tc\<rparr>)" "only_adds a b \<Longrightarrow> only_adds a (b\<lparr>ha_mx_candidates := mc\<rparr>)"
  "only_adds a b \<Longrightarrow> only_adds a (b\<lparr>ha_srv_candidates := sc\<rparr>)" "only_adds a b \<Longrightarrow> only_adds a (b\<lparr>ha_spf_candidates := pc\<rparr>)"
  "only_adds a b \<Longrightarrow> only_adds a (b\<lparr>ha_cloud_ip_candidates := ic\<rparr>)" "only_adds a b \<Longrightarrow> only_adds a (b\<lparr>ha_delegation := d\<rparr>)"
  by (simp_all add: only_adds_def)

lemma only_adds_fold:
  assumes "\<And>x b. only_adds a b \<Longrightarrow> only_adds a (f x b)" "only_adds a b"
  shows "only_adds a (fold f xs b)"
  using assms(2) by (induction xs arbitrary: b) (simp_all add: assms(1))

lemma only_adds_if [only_adds_intros]: "(c \<Longrightarrow> only_adds a b) \<Longrightarrow> (\<not> c \<Longrightarrow> only_adds a b') \<Longrightarrow> only_adds a (if c then b else b')"
  by simp

lemma only_adds_option [only_adds_intros]:
  "(x = None \<Longrightarrow> only_adds a b) \<Longrightarrow> (\<And>v. x = Some v \<Longrightarrow> only_adds a (f v)) \<Longrightarrow>
   only_adds a (case x of None \<Rightarrow> b | Some v \<Rightarrow> f v)"
  by (cases x) simp_all

lemma only_adds_sum [only_adds_intros]:
  "(\<And>e. x = Inl e \<Longrightarrow> only_adds a (f e)) \<Longrightarrow> (\<And>v. x = Inr v \<Longrightarrow> only_adds a (g v)) \<Longrightarrow>
   only_adds a (case x of Inl e \<Rightarrow> f e | Inr v \<Rightarrow> g v)"
  by (cases x) simp_all

lemma only_adds_prod [only_adds_intros]:
  "(\<And>u v. x = (u, v) \<Longrightarrow> only_adds a (f u v)) \<Longrightarrow> only_adds a (case x of (u, v) \<Rightarrow> f u v)"
  by (cases x) simp

lemma only_adds_prod_applied [only_adds_intros]:
  "(\<And>u v. x = (u, v) \<Longrightarrow> only_adds a (f u v b)) \<Longrightarrow> only_adds a ((case x of (u, v) \<Rightarrow> f u v) b)"
  by (cases x) simp

lemma only_adds_optional [only_adds_intros]: "only_adds a b \<Longrightarrow> only_adds a (add_optional e b)"
  unfolding add_optional_def by (intro only_adds_intros)

subsection \<open>The collectors without questions\<close>

lemma collect_txt_only_adds: "only_adds a (collect_txt G sigs a)"
proof -
  have token: "only_adds a b \<Longrightarrow> only_adds a (add_token G provider pre row confidence b)" for b provider pre row confidence
    unfolding add_token_def by (intro only_adds_intros)
  have owner: "only_adds a b \<Longrightarrow> only_adds a (add_owner_token G b)" for b
    unfolding add_owner_token_def Let_def by (intro only_adds_intros only_adds_fold token)
  show ?thesis
    unfolding collect_txt_def txt_signature_tokens_def Let_def
    by (intro only_adds_fold only_adds_intros token owner)
qed

lemma collect_service_bindings_only_adds: "only_adds a (collect_service_bindings G sigs a)"
proof -
  have provider: "only_adds a b \<Longrightarrow> only_adds a (binding_provider G sigs vector target b)" for b vector target
    unfolding binding_provider_def by (intro only_adds_intros)
  have bindings: "only_adds a b \<Longrightarrow> only_adds a (add_bindings G sigs vector bs b)" for b vector bs
    unfolding add_bindings_def by (intro only_adds_intros only_adds_fold provider)
  show ?thesis
    unfolding collect_service_bindings_def Let_def by (intro bindings only_adds_intros only_adds_fold)
qed

lemma collect_local_only_adds:
  "only_adds a (collect_shadow_it G a)" "only_adds a (collect_txt_residual G a)"
  "only_adds a (collect_provider_history G visit a)" "only_adds a (correlate_providers a)"
  unfolding collect_shadow_it_def collect_txt_residual_def collect_provider_history_def correlate_providers_def
    correlate_cloud_ip_def Let_def
  by (intro only_adds_intros only_adds_fold | assumption)+

subsection \<open>The collectors that ask the resolver\<close>

lemma mx_match_only_adds: "only_adds a b \<Longrightarrow> only_adds a (snd (mx_match_provider G sigs c b))"
  by (auto simp: mx_match_provider_def add_mx_provider_evidence_def Let_def intro: only_adds_intros split: option.split)

lemma only_adds_snd: "x = (c, b) \<Longrightarrow> only_adds a (snd x) \<Longrightarrow> only_adds a b"
  by simp

lemma only_adds_fst: "x = (b, c) \<Longrightarrow> only_adds a (fst x) \<Longrightarrow> only_adds a b"
  by simp

lemma collect_mx_target_only_adds:
  assumes "only_adds a b"
  shows "gives (\<lambda>r. only_adds a (fst r)) (collect_mx_target E sigs target preference b)"
  unfolding collect_mx_target_def Let_def
  by (intro gives_bind_any gives_intros; simp only: fst_conv; intro only_adds_intros;
      erule only_adds_snd; intro mx_match_only_adds assms)

lemma collect_mx_records_only_adds:
  "only_adds a b \<Longrightarrow> gives (\<lambda>r. only_adds a (fst r)) (collect_mx_records E sigs rows b cs)"
proof (induction rows arbitrary: b cs)
  case (Cons row rows)
  show ?case
    unfolding collect_mx_records.simps Let_def
    by (intro gives_intros gives_bind [OF collect_mx_target_only_adds] Cons.IH only_adds_intros)
      (auto intro: Cons.prems)
qed (simp add: gives_ret)

lemma collect_mx_only_adds: "gives (only_adds a) (collect_mx E sigs a)"
proof -
  have status: "only_adds a (fst (add_mx_status_evidence b cs))" if "only_adds a b" for b cs
    using that unfolding add_mx_status_evidence_def Let_def
    by (auto intro!: only_adds_fold only_adds_intros)
  show ?thesis
    unfolding collect_mx_def Let_def
    by (intro gives_bind [OF collect_mx_records_only_adds [of a]] gives_intros only_adds_intros;
        (erule only_adds_fst)?; intro status only_adds_intros) assumption
qed

lemma srv_loop_only_adds: "only_adds a b \<Longrightarrow> only_adds a (snd (srv_signature_loop G names ps c b))"
  by (induction G names ps c b rule: srv_signature_loop.induct)
    (auto simp: Let_def add_srv_provider_evidence_def intro: only_adds_intros)

lemma srv_match_only_adds: "only_adds a b \<Longrightarrow> only_adds a (snd (srv_match_provider G sigs c b))"
  by (auto simp: srv_match_provider_def add_srv_provider_evidence_def Let_def
      intro: only_adds_intros srv_loop_only_adds split: option.split)

lemma collect_srv_record_only_adds:
  assumes "only_adds a b"
  shows "gives (only_adds a) (collect_srv_record E sigs row b)"
  unfolding collect_srv_record_def Let_def
  by (intro gives_bind_any gives_intros only_adds_intros; erule only_adds_snd; intro srv_match_only_adds assms)

lemma collect_srv_records_only_adds: "only_adds a b \<Longrightarrow> gives (only_adds a) (collect_srv_records E sigs rows b)"
proof (induction rows arbitrary: b)
  case (Cons row rows)
  show ?case
    unfolding collect_srv_records.simps
    by (intro gives_intros gives_bind [OF collect_srv_record_only_adds] Cons.IH) (auto intro: Cons.prems)
qed (simp add: gives_ret)

lemma collect_srv_only_adds: "gives (only_adds a) (collect_srv E sigs a)"
  unfolding collect_srv_def by (intro collect_srv_records_only_adds only_adds_intros)

lemma apply_email_result_only_adds: "only_adds a b \<Longrightarrow> only_adds a (apply_email_result r b)"
  unfolding apply_email_result_def Let_def by (intro only_adds_intros only_adds_fold)

lemma collect_email_only_adds: "gives (\<lambda>r. only_adds a (fst r)) (collect_email E sigs cache a)"
  unfolding collect_email_def Let_def
  by (intro gives_bind_any gives_intros; simp only: fst_conv; intro only_adds_intros apply_email_result_only_adds)

lemma scan_nameservers_only_adds:
  "only_adds a (sc_analysis s) \<Longrightarrow> gives (\<lambda>s'. only_adds a (sc_analysis s')) (scan_nameservers E sigs zone names s)"
proof (induction names arbitrary: s)
  case (Cons ns names)
  have "only_adds a (scan_evidence z ns address health b)" if "only_adds a b" for z address health b
    unfolding scan_evidence_def Let_def using that by (intro only_adds_intros)
  then have "only_adds a (sc_analysis (scan_nameserver G sigs zone ns address health s))" for G address health
    using Cons.prems by (simp add: scan_nameserver_def Let_def split: prod.split)
  then show ?case unfolding scan_nameservers.simps by (intro gives_bind_any gives_prod Cons.IH)
qed (simp add: gives_ret)

lemma collect_ns_only_adds: "gives (only_adds a) (collect_ns E sigs a)"
proof -
  have conclude: "only_adds a (conclude_delegation zone names s)" if "only_adds a (sc_analysis s)" for zone names s
    unfolding conclude_delegation_def Let_def fold_add_evidence using that by (intro only_adds_intros)
  show ?thesis
    unfolding collect_ns_def Let_def
    by (intro gives_bind_any gives_intros only_adds_intros
        gives_bind [OF scan_nameservers_only_adds [of a "start_scan (add_tested_vector _ a)"]] conclude)
      (auto simp: start_scan_def intro: only_adds_intros)
qed

lemma collect_zone_transfer_only_adds: "gives (\<lambda>r. only_adds a (fst r)) (collect_zone_transfer E cache a)"
  unfolding collect_zone_transfer_def Let_def
  by (intro gives_bind_any gives_intros; simp only: fst_conv; intro only_adds_intros)

lemma collect_dnssec_only_adds: "gives (only_adds a) (collect_dnssec E a)"
  unfolding collect_dnssec_def Let_def by (intro gives_bind_any gives_intros only_adds_intros)

lemma collect_caa_only_adds: "gives (only_adds a) (collect_caa E has_resolver a)"
  unfolding collect_caa_def caa_conclusions_def Let_def by (intro gives_bind_any gives_intros only_adds_intros)

lemma cname_walk_only_adds: "only_adds a (fst s) \<Longrightarrow> only_adds a (fst (cname_walk G sigs i chain s))"
proof (induction chain arbitrary: i s)
  case (Cons raw chain)
  have "only_adds a b \<Longrightarrow> only_adds a (cname_match G sig i name b)" for sig i name b
    unfolding cname_match_def Let_def by (intro only_adds_intros)
  then show ?case
    using Cons by (cases s) (auto simp: Let_def split: sum.split option.split)
next
  case Nil
  then show ?case by (cases s) simp
qed

lemma collect_cname_only_adds: "gives (only_adds a) (collect_cname E has_resolver sigs a)"
proof -
  have conclusions: "only_adds a (cname_conclusions terminal matched missing status consensus b)" if "only_adds a b"
    for terminal matched missing status consensus b
    unfolding cname_conclusions_def Let_def using that by (intro only_adds_intros)
  show ?thesis
    unfolding collect_cname_def Let_def
    by (intro gives_intros gives_bind_any conclusions only_adds_intros;
        (erule only_adds_fst)?; intro cname_walk_only_adds; simp add: only_adds_intros)
qed

lemma process_ips_only_adds:
  "only_adds a b \<Longrightarrow> gives (\<lambda>r. case r of None \<Rightarrow> True | Some a' \<Rightarrow> only_adds a a') (process_ips E pad sigs t texts b)"
proof (induction texts arbitrary: b)
  case (Cons t1 texts)
  have "only_adds a (record_ip G sigs t1 t data b)" for G data
    unfolding record_ip_def Let_def using Cons.prems by (intro only_adds_intros)
  then show ?case
    unfolding process_ips.simps using Cons.prems
    by (intro gives_intros gives_bind_any Cons.IH only_adds_intros) simp_all
qed (simp add: gives_ret)

lemma collect_ip_only_adds: "gives (\<lambda>r. case r of None \<Rightarrow> True | Some a' \<Rightarrow> only_adds a a') (collect_ip E pad sigs a)"
  unfolding collect_ip_def Let_def
  by (intro gives_bind [OF process_ips_only_adds [of a]] gives_intros process_ips_only_adds only_adds_intros) simp_all

text \<open>C33. The collectors only add: none of them removes or changes evidence or a provider candidate that
  was there before, or touches the host, its DNS profile, the HTTP observations or the verification,
  whatever the DNS answers; the collector of addresses may instead end the program by a panic.\<close>

theorem collectors_only_add:
  "gives (only_adds a) (collect_ns E sigs a) \<and> gives (only_adds a) (collect_cname E has_resolver sigs a) \<and>
   only_adds a (collect_service_bindings G sigs a) \<and> gives (only_adds a) (collect_mx E sigs a) \<and>
   only_adds a (collect_txt G sigs a) \<and> gives (only_adds a) (collect_srv E sigs a) \<and>
   gives (\<lambda>r. case r of None \<Rightarrow> True | Some a' \<Rightarrow> only_adds a a') (collect_ip E pad sigs a) \<and>
   gives (\<lambda>r. only_adds a (fst r)) (collect_email E sigs email_cache a) \<and>
   gives (\<lambda>r. only_adds a (fst r)) (collect_zone_transfer E transfer_cache a) \<and>
   gives (only_adds a) (collect_dnssec E a) \<and> gives (only_adds a) (collect_caa E has_resolver a) \<and>
   only_adds a (collect_shadow_it G a) \<and> only_adds a (collect_txt_residual G a) \<and>
   only_adds a (collect_provider_history G visit a) \<and> only_adds a (correlate_providers a)"
  by (intro conjI collect_ns_only_adds collect_cname_only_adds collect_service_bindings_only_adds collect_mx_only_adds
      collect_txt_only_adds collect_srv_only_adds collect_ip_only_adds collect_email_only_adds
      collect_zone_transfer_only_adds collect_dnssec_only_adds collect_caa_only_adds collect_local_only_adds)

subsection \<open>Broken mail exchangers\<close>

abbreviation mx_broken_type :: string where "mx_broken_type \<equiv> ''MX_BROKEN''"

text \<open>Nothing is said of breakage, and no candidate stored, while the targets are observed.\<close>

definition mx_silent :: "host_analysis \<Rightarrow> host_analysis \<Rightarrow> bool" where
  "mx_silent a b \<longleftrightarrow> has_type (ha_evidences b) mx_broken_type = has_type (ha_evidences a) mx_broken_type \<and>
     ha_mx_candidates b = ha_mx_candidates a"

lemma mx_silent_refl: "mx_silent a a"
  by (simp add: mx_silent_def)

lemma mx_silent_steps:
  "mx_silent a (add_tested_vector v b) = mx_silent a b" "mx_silent a (add_provider_candidate c b) = mx_silent a b"
  "ev_type e \<noteq> mx_broken_type \<Longrightarrow> mx_silent a (add_evidence e b) = mx_silent a b"
  by (simp_all add: mx_silent_def add_tested_vector_def add_provider_candidate_def add_evidence_def)

lemma mx_match_silent: "mx_silent a b \<Longrightarrow> mx_silent a (snd (mx_match_provider G sigs c b))"
  by (simp add: mx_match_provider_def add_mx_provider_evidence_def Let_def mx_silent_steps split: option.split)

lemma mx_silent_snd: "x = (c, b) \<Longrightarrow> mx_silent a (snd x) \<Longrightarrow> mx_silent a b"
  by simp

lemma collect_mx_target_silent:
  assumes "mx_silent a b"
  shows "gives (\<lambda>r. mx_silent a (fst r)) (collect_mx_target E sigs target preference b)"
  unfolding collect_mx_target_def Let_def
  by (intro gives_bind_any gives_intros; simp only: fst_conv if_distrib [of "mx_silent a"] mx_silent_steps if_cancel;
      erule mx_silent_snd; intro mx_match_silent assms)

lemma collect_mx_records_silent:
  "mx_silent a b \<Longrightarrow> gives (\<lambda>r. mx_silent a (fst r)) (collect_mx_records E sigs rows b cs)"
proof (induction rows arbitrary: b cs)
  case (Cons row rows)
  have "mx_silent a (add_evidence (mitigating_evidence ''NULL_MX_PRESENT'' s d w c m) b)" for s d w c m
    using Cons.prems by (simp add: mx_silent_steps)
  then show ?case
    unfolding collect_mx_records.simps Let_def
    by (intro gives_intros gives_bind [OF collect_mx_target_silent] Cons.IH) (auto intro: Cons.prems)
qed (simp add: gives_ret)

lemma fold_optional_evidence:
  "has_type (ha_evidences (fold (\<lambda>c a. if P c then a else case f c of None \<Rightarrow> a | Some e \<Rightarrow> add_evidence e a) cs a)) t \<longleftrightarrow>
     has_type (ha_evidences a) t \<or> list_ex (\<lambda>c. \<not> P c \<and> (case f c of None \<Rightarrow> False | Some e \<Rightarrow> ev_type e = t)) cs"
  by (induction cs arbitrary: a) (auto split: option.split)

lemma mx_status_broken:
  "(case mx_status_evidence healthy c of None \<Rightarrow> False | Some e \<Rightarrow> ev_type e = mx_broken_type) \<longleftrightarrow>
     conclusive_absence (mxc_dns_status c) \<and> healthy \<le> 0"
  by (simp add: mx_status_evidence_def mx_broken_evidence_def)

lemma healthy_count_pos: "healthy_count cs \<le> 0 \<longleftrightarrow> list_all (\<lambda>c. mxc_dns_status c \<noteq> DNSStatusResolved) cs"
  by (auto simp: healthy_count_def filter_empty_conv list_all_iff)

definition mx_all_broken :: "mx_candidate list \<Rightarrow> bool" where
  "mx_all_broken cs \<longleftrightarrow> list_ex (\<lambda>c. conclusive_absence (mxc_dns_status c)) cs \<and>
     list_all (\<lambda>c. mxc_dns_status c \<noteq> DNSStatusResolved) cs"

lemma mx_all_broken_placed: "mx_all_broken (map (mx_placed least healthy) cs) = mx_all_broken cs"
  by (simp add: mx_all_broken_def mx_placed_def list_ex_iff list_all_iff)

lemma add_mx_status_broken:
  "has_type (ha_evidences (fst (add_mx_status_evidence a cs))) mx_broken_type \<longleftrightarrow>
     has_type (ha_evidences a) mx_broken_type \<or> mx_all_broken cs"
  by (auto simp: add_mx_status_evidence_def Let_def fold_optional_evidence mx_status_broken healthy_count_pos
      mx_all_broken_def list_ex_iff list_all_iff mx_placed_def conclusive_absence_def)

lemma add_mx_status_candidates:
  "ha_mx_candidates (fst (add_mx_status_evidence a cs)) = ha_mx_candidates a"
  "mx_all_broken (snd (add_mx_status_evidence a cs)) = mx_all_broken cs"
proof -
  have "ha_mx_candidates (fold (\<lambda>c a. if P c then a else case f c of None \<Rightarrow> a | Some e \<Rightarrow> add_evidence e a) cs a) =
      ha_mx_candidates a" for P and f :: "mx_candidate \<Rightarrow> evidence option" and cs
    by (induction cs arbitrary: a) (auto simp: add_evidence_def split: option.split)
  then show "ha_mx_candidates (fst (add_mx_status_evidence a cs)) = ha_mx_candidates a"
    by (simp add: add_mx_status_evidence_def Let_def)
qed (simp add: add_mx_status_evidence_def Let_def mx_all_broken_placed)

text \<open>A host is reported with a broken mail service exactly when one of the mail exchangers observed is
  conclusively absent and none of them resolves; a target that could not be asked reliably neither
  breaks the service nor keeps it healthy.\<close>

theorem mx_broken_exactly:
  "gives (\<lambda>a'. has_type (ha_evidences a') mx_broken_type \<longleftrightarrow>
       has_type (ha_evidences a) mx_broken_type \<or> mx_all_broken (ha_mx_candidates a'))
     (collect_mx E sigs (a\<lparr>ha_mx_candidates := []\<rparr>))"
proof -
  let ?a = "a\<lparr>ha_mx_candidates := []\<rparr>"
  have start: "mx_silent ?a (add_tested_vector v ?a)" for v by (simp add: mx_silent_steps mx_silent_refl)
  have final: "has_type (ha_evidences (a1\<lparr>ha_mx_candidates := ha_mx_candidates a1 @ cs\<rparr>)) mx_broken_type \<longleftrightarrow>
        has_type (ha_evidences a) mx_broken_type \<or>
        mx_all_broken (ha_mx_candidates (a1\<lparr>ha_mx_candidates := ha_mx_candidates a1 @ cs\<rparr>))"
    if "mx_silent ?a (fst r)" "add_mx_status_evidence (fst r) (snd r) = (a1, cs)" for r a1 cs
    using that add_mx_status_broken [of "fst r" "snd r"] add_mx_status_candidates [of "fst r" "snd r"]
    by (simp add: mx_silent_def)
  show ?thesis
    unfolding collect_mx_def Let_def
    by (intro gives_bind [OF collect_mx_records_silent [OF start]] gives_intros final)
qed

end
