(* ===== verification/Registry.thy ===== *)
theory Registry
  imports CollectLocal
begin

section \<open>The registry of collectors (internal/evidence/registry.go and collector.go)\<close>

text \<open>
  The registry runs its collectors in phases. Within a phase the collectors run one after the
  other, except for the independent ones, which run as goroutines, at most ten at a time. A
  collector reads and writes the analysis through operations that hold its mutex, so a run of it
  is a sequence of atomic actions, each of which may depend on the state it finds: a resumption.
  The independent phase is a step relation over the resumptions that are active and those still
  waiting for a slot, and a run of the registry is a relation, for the scheduler may choose.
\<close>

subsection \<open>Phases\<close>

datatype collector_phase =
    PhaseProviderDiscovery
  | PhaseHTTPBaseline
  | PhaseIndependent
  | PhaseHTTPMutation
  | PhaseImpact

fun phase_number :: "collector_phase \<Rightarrow> nat" where
  "phase_number PhaseProviderDiscovery = 0"
| "phase_number PhaseHTTPBaseline = 1"
| "phase_number PhaseIndependent = 2"
| "phase_number PhaseHTTPMutation = 3"
| "phase_number PhaseImpact = 4"

lemma phase_number_inj: "phase_number p = phase_number q \<Longrightarrow> p = q"
  by (cases p; cases q) simp_all

instantiation collector_phase :: linorder
begin

definition less_eq_collector_phase :: "collector_phase \<Rightarrow> collector_phase \<Rightarrow> bool" where
  "less_eq_collector_phase p q \<longleftrightarrow> phase_number p \<le> phase_number q"

definition less_collector_phase :: "collector_phase \<Rightarrow> collector_phase \<Rightarrow> bool" where
  "less_collector_phase p q \<longleftrightarrow> phase_number p < phase_number q"

instance
  by standard (auto simp: less_eq_collector_phase_def less_collector_phase_def intro: phase_number_inj)

end

subsection \<open>Collectors\<close>

text \<open>
  What is left of a collector's run: it is over, with its error if it has one, or its next atomic
  action maps the state to the next, and what follows depends on the state that it found. The
  state is the analysis with the rest of the world; until the correlator it can be any type.
\<close>

datatype 's run =
    Over "string option"
  | Act "'s \<Rightarrow> 's" "'s \<Rightarrow> 's run"

record 's collector =
  co_phase :: "collector_phase option"
  co_collect :: "'s run"

definition phase_of :: "'s collector \<Rightarrow> collector_phase" where
  "phase_of c = (case co_phase c of None \<Rightarrow> PhaseIndependent | Some p \<Rightarrow> p)"

primrec complete :: "'s run \<Rightarrow> 's \<Rightarrow> 's \<times> string option" where
  "complete (Over e) = (\<lambda>s. (s, e))"
| "complete (Act f k) = (\<lambda>s. complete (k s) (f s))"

text \<open>A collector that is a function of the analysis, alone in its phase.\<close>

definition whole :: "(host_analysis \<Rightarrow> ('w, host_analysis) dns) \<Rightarrow> (host_analysis \<times> resolver \<times> 'w) run" where
  "whole collect = Act (\<lambda>(a, w). run_state (collect a) w) (\<lambda>_. Over None)"

subsection \<open>Sequential phases\<close>

fun run_collectors :: "string \<Rightarrow> 's collector list \<Rightarrow> 's \<Rightarrow> 's \<times> string option" where
  "run_collectors wrap [] s = (s, None)"
| "run_collectors wrap (c # cs) s =
     (case complete (co_collect c) s of
        (s1, Some e) \<Rightarrow> (s1, Some (wrap @ e))
      | (s1, None) \<Rightarrow> run_collectors wrap cs s1)"

definition run_sequential_phase ::
  "'s collector list \<Rightarrow> collector_phase \<Rightarrow> 's \<Rightarrow> 's \<times> string option"
where
  "run_sequential_phase cs phase s =
     run_collectors (''fase '' @ itoa (int (phase_number phase)) @ '' do coletor: '')
       (filter (\<lambda>c. phase_of c = phase) cs) s"

subsection \<open>The independent phase\<close>

definition max_active :: nat where "max_active = 10"

record 's pool =
  po_state :: "'s"
  po_active :: "'s run list"
  po_waiting :: "'s run list"
  po_error :: "string option"

definition report :: "string option \<Rightarrow> string option \<Rightarrow> string option" where
  "report first e =
     (case first of
        Some x \<Rightarrow> Some x
      | None \<Rightarrow> map_option (\<lambda>t. ''coletor independente: '' @ t) e)"

text \<open>
  \<open>errgroup.Group\<close>: \<open>Go\<close> waits for a slot, so the collectors start in their order; an active one
  does its next action or ends, and the group keeps the first error.
\<close>

inductive pool_step :: "'s pool \<Rightarrow> 's pool \<Rightarrow> bool" where
  pool_start: "po_waiting p = r # rs \<Longrightarrow> length (po_active p) < max_active \<Longrightarrow>
     pool_step p (p\<lparr>po_active := po_active p @ [r], po_waiting := rs\<rparr>)"
| pool_act: "i < length (po_active p) \<Longrightarrow> po_active p ! i = Act f k \<Longrightarrow>
     pool_step p (p\<lparr>po_state := f (po_state p), po_active := (po_active p)[i := k (po_state p)]\<rparr>)"
| pool_end: "i < length (po_active p) \<Longrightarrow> po_active p ! i = Over e \<Longrightarrow>
     pool_step p (p\<lparr>po_active := take i (po_active p) @ drop (Suc i) (po_active p),
       po_error := report (po_error p) e\<rparr>)"

inductive_cases pool_stepE: "pool_step p p'"

definition pool_done :: "'s pool \<Rightarrow> bool" where
  "pool_done p \<longleftrightarrow> po_active p = [] \<and> po_waiting p = []"

definition start_pool :: "'s collector list \<Rightarrow> 's \<Rightarrow> 's pool" where
  "start_pool cs s =
     \<lparr>po_state = s, po_active = [],
      po_waiting = map co_collect (filter (\<lambda>c. phase_of c = PhaseIndependent) cs), po_error = None\<rparr>"

definition run_independent :: "'s collector list \<Rightarrow> 's \<Rightarrow> 's \<Rightarrow> string option \<Rightarrow> bool" where
  "run_independent cs s s' e \<longleftrightarrow>
     (\<exists>p. pool_step\<^sup>*\<^sup>* (start_pool cs s) p \<and> pool_done p \<and> po_state p = s' \<and> po_error p = e)"

subsection \<open>The whole run\<close>

text \<open>
  \<open>Registry.Run\<close>: a phase that fails ends the run. The correlator works on the analysis between
  the mutations and the phase of impact.
\<close>

definition after_correlator :: "host_analysis \<times> 'w \<Rightarrow> host_analysis \<times> 'w" where
  "after_correlator s = (correlate_providers (fst s), snd s)"

type_synonym 'w shared = "host_analysis \<times> 'w"

inductive registry_run :: "'w shared collector list \<Rightarrow> 'w shared \<Rightarrow> 'w shared \<Rightarrow> string option \<Rightarrow> bool"
  for cs s where
  discovery_failed: "run_sequential_phase cs PhaseProviderDiscovery s = (s1, Some e) \<Longrightarrow>
     registry_run cs s s1 (Some e)"
| baseline_failed: "run_sequential_phase cs PhaseProviderDiscovery s = (s1, None) \<Longrightarrow>
     run_sequential_phase cs PhaseHTTPBaseline s1 = (s2, Some e) \<Longrightarrow> registry_run cs s s2 (Some e)"
| independent_failed: "run_sequential_phase cs PhaseProviderDiscovery s = (s1, None) \<Longrightarrow>
     run_sequential_phase cs PhaseHTTPBaseline s1 = (s2, None) \<Longrightarrow>
     run_independent cs s2 s3 (Some e) \<Longrightarrow> registry_run cs s s3 (Some e)"
| mutation_failed: "run_sequential_phase cs PhaseProviderDiscovery s = (s1, None) \<Longrightarrow>
     run_sequential_phase cs PhaseHTTPBaseline s1 = (s2, None) \<Longrightarrow>
     run_independent cs s2 s3 None \<Longrightarrow>
     run_sequential_phase cs PhaseHTTPMutation s3 = (s4, Some e) \<Longrightarrow> registry_run cs s s4 (Some e)"
| all_phases: "run_sequential_phase cs PhaseProviderDiscovery s = (s1, None) \<Longrightarrow>
     run_sequential_phase cs PhaseHTTPBaseline s1 = (s2, None) \<Longrightarrow>
     run_independent cs s2 s3 None \<Longrightarrow>
     run_sequential_phase cs PhaseHTTPMutation s3 = (s4, None) \<Longrightarrow>
     run_sequential_phase cs PhaseImpact (after_correlator s4) = (s5, e) \<Longrightarrow> registry_run cs s s5 e"

inductive_cases registry_runE: "registry_run cs s s' e"

text \<open>
  A new batch: the collectors that keep a cache for one iteration drop it. The two that do are
  the collectors of e-mail policies and of zone transfers; their caches are arguments of theirs.
\<close>

record batch_caches =
  bc_email :: "(string, email_result) gomap"
  bc_transfer :: "(string, zone_transfer_result) gomap"

definition begin_batch :: "batch_caches \<Rightarrow> batch_caches" where
  "begin_batch c = c\<lparr>bc_email := [], bc_transfer := []\<rparr>"

subsection \<open>Every independent phase ends\<close>

text \<open>An action leaves less of a run: what follows is a subterm of it.\<close>

inductive continues :: "'s run \<Rightarrow> 's run \<Rightarrow> bool" where
  "continues (k s) (Act f k)"

inductive_simps continues_Over [simp]: "continues r (Over e)"
inductive_simps continues_Act: "continues r (Act f k)"

lemma continues_wf: "wfp continues"
proof -
  have "Wellfounded.accp continues r" for r :: "'s run"
  proof (induction r)
    case (Over e)
    show ?case by (rule accpI) simp
  next
    case (Act f k)
    show ?case by (rule accpI) (use Act.IH in \<open>auto simp: continues_Act\<close>)
  qed
  then show ?thesis using accp_wfpI by blast
qed

definition continues_rel :: "('s run \<times> 's run) set" where
  "continues_rel = {(r, r'). continues r r'}"

definition pool_work :: "'s pool \<Rightarrow> 's run multiset" where
  "pool_work p = mset (po_active p) + mset (po_waiting p)"

definition pool_order :: "('s pool \<times> 's pool) set" where
  "pool_order = inv_image (mult continues_rel <*lex*> measure length) (\<lambda>p. (pool_work p, po_waiting p))"

lemma pool_order_wf: "wf pool_order"
  using continues_wf
  by (auto simp: pool_order_def continues_rel_def wfp_def intro!: wf_inv_image wf_lex_prod wf_mult)

lemma mset_split_nth:
  assumes "i < length xs"
  shows "mset xs = add_mset (xs ! i) (mset (take i xs @ drop (Suc i) xs))"
  using arg_cong [OF id_take_nth_drop [OF assms], of mset] by simp

lemma mset_update_nth:
  assumes "i < length xs"
  shows "mset (xs[i := x]) = add_mset x (mset (take i xs @ drop (Suc i) xs))"
  using assms by (simp add: upd_conv_take_nth_drop)

lemma mult_replace: "(y, x) \<in> r \<Longrightarrow> (add_mset y M, add_mset x M) \<in> mult r"
  using one_step_implies_mult [of "{#x#}" "{#y#}" r M] by simp

lemma mult_smaller: "(M, add_mset x M) \<in> mult r"
  using one_step_implies_mult [of "{#x#}" "{#}" r M] by simp

lemma pool_step_less:
  assumes "pool_step p p'"
  shows "(p', p) \<in> pool_order"
  using assms
proof cases
  case (pool_start r rs)
  then show ?thesis by (simp add: pool_order_def pool_work_def)
next
  case (pool_act i f k)
  then have "pool_work p = add_mset (Act f k) (mset (take i (po_active p) @ drop (Suc i) (po_active p)) + mset (po_waiting p))"
    "pool_work p' = add_mset (k (po_state p)) (mset (take i (po_active p) @ drop (Suc i) (po_active p)) + mset (po_waiting p))"
    using mset_split_nth [OF pool_act(2)] mset_update_nth [OF pool_act(2)] by (simp_all add: pool_work_def)
  moreover have "(k (po_state p), Act f k) \<in> continues_rel" by (auto simp: continues_rel_def continues_Act)
  ultimately show ?thesis unfolding pool_order_def by (simp add: mult_replace)
next
  case (pool_end i e)
  then have "pool_work p = add_mset (Over e) (pool_work p')"
    using mset_split_nth [OF pool_end(2)] by (simp add: pool_work_def)
  then show ?thesis unfolding pool_order_def by (simp add: mult_smaller)
qed

lemma pool_progress:
  assumes "\<not> pool_done p"
  shows "\<exists>p'. pool_step p p'"
proof (cases "po_active p")
  case Nil
  then obtain r rs where "po_waiting p = r # rs" using assms by (auto simp: pool_done_def neq_Nil_conv)
  then show ?thesis using Nil by (auto simp: max_active_def intro!: exI pool_step.pool_start)
next
  case (Cons r rs)
  then show ?thesis
    using pool_step.pool_act [of 0 p] pool_step.pool_end [of 0 p] by (cases r) auto
qed

lemma pool_stuck: "(\<nexists>p'. pool_step p p') \<longleftrightarrow> pool_done p"
  using pool_progress by (auto simp: pool_done_def elim: pool_stepE)

lemma pool_finishes: "\<exists>p'. pool_step\<^sup>*\<^sup>* p p' \<and> pool_done p'"
proof (induction p rule: wf_induct_rule [OF pool_order_wf])
  case (1 p)
  show ?case
  proof (cases "pool_done p")
    case False
    then obtain q where "pool_step p q" using pool_progress by blast
    then show ?thesis using 1 [OF pool_step_less] by (meson converse_rtranclp_into_rtranclp)
  qed auto
qed

lemma independent_finishes: "\<exists>s' e. run_independent cs s s' e"
  using pool_finishes [of "start_pool cs s"] by (auto simp: run_independent_def)

text \<open>Every schedule ends: there is no infinite sequence of steps.\<close>

lemma no_infinite_pool: "\<not> (\<forall>n. pool_step (f n) (f (Suc n)))"
  using wf_no_infinite_down_chainE [OF pool_order_wf, of f] pool_step_less by blast

subsection \<open>Induction over the phase\<close>

text \<open>Two ways to reason about a phase: what every action keeps, and the number of slots.\<close>

primrec acts_keep :: "('s \<Rightarrow> bool) \<Rightarrow> 's run \<Rightarrow> bool" where
  "acts_keep I (Over e) \<longleftrightarrow> True"
| "acts_keep I (Act f k) \<longleftrightarrow> (\<forall>s. I s \<longrightarrow> I (f s)) \<and> (\<forall>s. acts_keep I (k s))"

lemma complete_keeps: "acts_keep I r \<Longrightarrow> I s \<Longrightarrow> I (fst (complete r s))"
  by (induction r arbitrary: s) auto

lemma run_collectors_keeps:
  assumes "\<And>c. c \<in> set cs \<Longrightarrow> acts_keep I (co_collect c)" "I s"
  shows "I (fst (run_collectors wrap cs s))"
  using assms
proof (induction cs arbitrary: s)
  case (Cons c cs)
  obtain s1 e where run: "complete (co_collect c) s = (s1, e)" by (rule prod.exhaust)
  have "I s1" using complete_keeps [of I "co_collect c" s] Cons.prems run by simp
  then show ?case using Cons.IH [of s1] Cons.prems run by (cases e) simp_all
qed simp

definition pool_ok :: "('s \<Rightarrow> bool) \<Rightarrow> 's pool \<Rightarrow> bool" where
  "pool_ok I p \<longleftrightarrow> length (po_active p) \<le> max_active \<and>
     list_all (acts_keep I) (po_active p @ po_waiting p) \<and> I (po_state p)"

lemma list_all_without: "list_all P xs \<Longrightarrow> list_all P (take i xs @ drop (Suc i) xs)"
  by (auto simp: list_all_iff dest: in_set_takeD in_set_dropD)

lemma list_all_update: "list_all P xs \<Longrightarrow> P x \<Longrightarrow> list_all P (xs[i := x])"
  by (auto simp: list_all_iff dest: set_update_subset_insert [THEN subsetD])

lemma pool_ok_step:
  assumes "pool_step p p'" "pool_ok I p"
  shows "pool_ok I p'"
  using assms(1)
proof cases
  case (pool_start r rs)
  then show ?thesis using assms(2) by (simp add: pool_ok_def)
next
  case (pool_act i f k)
  moreover have "acts_keep I (po_active p ! i)" using assms(2) pool_act(2) by (simp add: pool_ok_def list_all_iff)
  ultimately show ?thesis using assms(2) by (simp add: pool_ok_def list_all_update)
next
  case (pool_end i e)
  then show ?thesis using assms(2) list_all_without [of "acts_keep I" "po_active p" i] by (auto simp: pool_ok_def)
qed

lemma pool_ok_steps: "pool_step\<^sup>*\<^sup>* p p' \<Longrightarrow> pool_ok I p \<Longrightarrow> pool_ok I p'"
  by (induction rule: rtranclp_induct) (auto intro: pool_ok_step)

lemma start_pool_ok:
  "(\<And>c. c \<in> set cs \<Longrightarrow> phase_of c = PhaseIndependent \<Longrightarrow> acts_keep I (co_collect c)) \<Longrightarrow> I s \<Longrightarrow>
   pool_ok I (start_pool cs s)"
  by (simp add: pool_ok_def start_pool_def list_all_iff)

lemma run_independent_keeps:
  assumes "\<And>c. c \<in> set cs \<Longrightarrow> phase_of c = PhaseIndependent \<Longrightarrow> acts_keep I (co_collect c)"
    "I s" "run_independent cs s s' e"
  shows "I s'"
  using assms(3) pool_ok_steps [OF _ start_pool_ok [OF assms(1,2)]] by (auto simp: run_independent_def pool_ok_def)

lemma run_sequential_keeps:
  assumes "\<And>c. c \<in> set cs \<Longrightarrow> phase_of c = phase \<Longrightarrow> acts_keep I (co_collect c)"
    "I s" "run_sequential_phase cs phase s = (s', e)"
  shows "I s'"
proof -
  have "I (fst (run_sequential_phase cs phase s))"
    unfolding run_sequential_phase_def by (rule run_collectors_keeps) (use assms in auto)
  then show ?thesis using assms(3) by simp
qed

text \<open>
  An invariant may change from phase to phase: \<open>I p\<close> holds while the collectors of phase \<open>p\<close> run.
\<close>

lemma registry_run_keeps:
  assumes run: "registry_run cs s s' e"
    and acts: "\<And>c q. c \<in> set cs \<Longrightarrow> phase_of c = q \<Longrightarrow> acts_keep (I q) (co_collect c)"
    and start: "I PhaseProviderDiscovery s"
    and mono: "\<And>p q s. p \<le> q \<Longrightarrow> I p s \<Longrightarrow> I q s"
    and corr: "\<And>s. I PhaseHTTPMutation s \<Longrightarrow> I PhaseImpact (after_correlator s)"
  shows "I PhaseImpact s'"
proof -
  note seq = run_sequential_keeps [of cs _ "I _"]
  note up = mono [of _ PhaseImpact]
  have order [simp]: "p \<le> PhaseImpact" "PhaseProviderDiscovery \<le> p" "PhaseHTTPBaseline \<le> PhaseIndependent"
    "PhaseIndependent \<le> PhaseHTTPMutation" for p
    by (cases p; simp add: less_eq_collector_phase_def)+
  have discovery: "I PhaseProviderDiscovery s1" if "run_sequential_phase cs PhaseProviderDiscovery s = (s1, e1)" for s1 e1
    using run_sequential_keeps [OF acts start that] by blast
  have baseline: "I PhaseHTTPBaseline s2"
    if "run_sequential_phase cs PhaseHTTPBaseline s1 = (s2, e2)" "I PhaseProviderDiscovery s1" for s1 s2 e2
    using run_sequential_keeps [OF acts mono [OF _ that(2)] that(1)] by simp
  have independent: "I PhaseIndependent s3"
    if "run_independent cs s2 s3 e3" "I PhaseHTTPBaseline s2" for s2 s3 e3
    using run_independent_keeps [OF acts mono [OF _ that(2)] that(1)] by simp
  have mutation: "I PhaseHTTPMutation s4"
    if "run_sequential_phase cs PhaseHTTPMutation s3 = (s4, e4)" "I PhaseIndependent s3" for s3 s4 e4
    using run_sequential_keeps [OF acts mono [OF _ that(2)] that(1)] by simp
  have impact: "I PhaseImpact s5"
    if "run_sequential_phase cs PhaseImpact s4 = (s5, e5)" "I PhaseImpact s4" for s4 s5 e5
    using run_sequential_keeps [OF acts that(2,1)] by blast
  show ?thesis
    using run by cases (meson up order discovery baseline independent mutation impact corr)+
qed

lemma registry_returns: "\<exists>s' e. registry_run cs s s' e"
proof -
  obtain s1 e1 where r1: "run_sequential_phase cs PhaseProviderDiscovery s = (s1, e1)" by (rule prod.exhaust)
  obtain s2 e2 where r2: "run_sequential_phase cs PhaseHTTPBaseline s1 = (s2, e2)" by (rule prod.exhaust)
  obtain s3 e3 where r3: "run_independent cs s2 s3 e3" using independent_finishes [of cs s2] by blast
  obtain s4 e4 where r4: "run_sequential_phase cs PhaseHTTPMutation s3 = (s4, e4)" by (rule prod.exhaust)
  obtain s5 e5 where r5: "run_sequential_phase cs PhaseImpact (after_correlator s4) = (s5, e5)" by (rule prod.exhaust)
  show ?thesis
    by (cases e1; cases e2; cases e3; cases e4)
      (use r1 r2 r3 r4 r5 in \<open>blast intro: registry_run.intros\<close>)+
qed

end
