(* ===== verification/RegistryProps.thy ===== *)
theory RegistryProps
  imports Registry
begin

section \<open>What a run of the registry guarantees\<close>

subsection \<open>Order of the phases\<close>

text \<open>
  As in the test of the pipeline, the world is a log and every action of a collector appends the
  phase of the collector.
\<close>

primrec logs :: "collector_phase \<Rightarrow> (host_analysis \<times> collector_phase list) run \<Rightarrow> bool" where
  "logs p (Over e) \<longleftrightarrow> True"
| "logs p (Act f k) \<longleftrightarrow> (\<forall>s. snd (f s) = snd s @ [p]) \<and> (\<forall>s. logs p (k s))"

definition recorded :: "collector_phase \<Rightarrow> host_analysis \<times> collector_phase list \<Rightarrow> bool" where
  "recorded p s \<longleftrightarrow> sorted (snd s) \<and> list_all (\<lambda>q. q \<le> p) (snd s)"

lemma recorded_log: "recorded p s \<Longrightarrow> snd s' = snd s @ [p] \<Longrightarrow> recorded p s'"
  by (simp add: recorded_def sorted_append list_all_iff)

lemma logs_keep: "logs p r \<Longrightarrow> acts_keep (recorded p) r"
  by (induction r) (auto intro: recorded_log)

lemma recorded_mono: "p \<le> q \<Longrightarrow> recorded p s \<Longrightarrow> recorded q s"
  by (auto simp: recorded_def list_all_iff intro: order_trans)

lemma recorded_after_correlator: "recorded p s \<Longrightarrow> recorded PhaseImpact (after_correlator s)"
  by (cases p) (auto simp: recorded_def after_correlator_def list_all_iff less_eq_collector_phase_def
      intro: order_trans [of _ "phase_number p"])

text \<open>C34. Whatever the schedule, and also when a collector fails, no action of a collector happens
  after an action of a collector of a later phase: discovery of providers, HTTP baseline,
  independent collectors, mutations, impact.\<close>

theorem actions_in_phase_order:
  assumes "registry_run cs (a, []) (a', trace) e"
    and "\<forall>c \<in> set cs. logs (phase_of c) (co_collect c)"
  shows "sorted trace"
proof -
  have "recorded PhaseImpact (a', trace)"
    by (rule registry_run_keeps [OF assms(1), of recorded])
      (use assms(2) in \<open>auto simp: recorded_def [of _ "(a, [])"] intro: logs_keep recorded_mono recorded_after_correlator\<close>)
  then show ?thesis by (simp add: recorded_def)
qed

definition recording :: "collector_phase \<Rightarrow> (host_analysis \<times> collector_phase list) collector" where
  "recording p = \<lparr>co_phase = Some p, co_collect = Act (\<lambda>(a, trace). (a, trace @ [p])) (\<lambda>_. Over None)\<rparr>"

lemma actions_in_phase_order_witness:
  "\<exists>a' trace e. registry_run [recording PhaseImpact, recording PhaseHTTPBaseline] (zero_host_analysis, []) (a', trace) e \<and>
     sorted trace"
proof -
  let ?cs = "[recording PhaseImpact, recording PhaseHTTPBaseline]"
  have logs: "\<forall>c \<in> set ?cs. logs (phase_of c) (co_collect c)" by (auto simp: recording_def phase_of_def)
  obtain a' trace e where run: "registry_run ?cs (zero_host_analysis, []) (a', trace) e"
    using registry_returns [of ?cs "(zero_host_analysis, [])"] by auto
  then have "sorted trace" by (rule actions_in_phase_order [OF _ logs])
  then show ?thesis using run by blast
qed

subsection \<open>The run returns\<close>

text \<open>A run of the registry always returns: for every list of collectors and every state there
  is an outcome, and no schedule of the independent phase goes on for ever.\<close>

theorem registry_always_returns:
  "(\<exists>s' e. registry_run cs s s' e) \<and> \<not> (\<exists>f. f 0 = start_pool cs s \<and> (\<forall>n. pool_step (f n) (f (Suc n))))"
  using registry_returns no_infinite_pool by blast

subsection \<open>The schedule does not decide the level\<close>

text \<open>
  A collector that emits: under a part of the state that the phase leaves alone, its evidence is
  the same whatever else has been added.
\<close>

inductive emits :: "('s \<Rightarrow> 'v) \<Rightarrow> ('s \<Rightarrow> evidence list) \<Rightarrow> 'v \<Rightarrow> 's run \<Rightarrow> evidence list \<Rightarrow> bool"
  for view :: "'s \<Rightarrow> 'v" and seen :: "'s \<Rightarrow> evidence list" and v where
  emits_over: "emits view seen v (Over e) []"
| emits_act: "(\<And>s. view s = v \<Longrightarrow> view (f s) = v \<and> seen (f s) = seen s @ es) \<Longrightarrow>
     (\<And>s. view s = v \<Longrightarrow> emits view seen v (k s) fs) \<Longrightarrow> emits view seen v (Act f k) (es @ fs)"

inductive_cases emits_OverE: "emits view seen v (Over e) es"
inductive_cases emits_ActE: "emits view seen v (Act f k) es"

text \<open>What the phase has added and what its collectors still have to add make up \<open>T\<close>.\<close>

definition pool_emits :: "('s \<Rightarrow> 'v) \<Rightarrow> ('s \<Rightarrow> evidence list) \<Rightarrow> 'v \<Rightarrow> evidence multiset \<Rightarrow> 's pool \<Rightarrow> bool" where
  "pool_emits view seen v T p \<longleftrightarrow> view (po_state p) = v \<and>
     (\<exists>ess. list_all2 (emits view seen v) (po_active p @ po_waiting p) ess \<and>
       mset (seen (po_state p)) + mset (concat ess) = T)"

lemma pool_step_split:
  assumes "pool_step p p'"
  obtains (start) r rs where "po_waiting p = r # rs" "p' = p\<lparr>po_active := po_active p @ [r], po_waiting := rs\<rparr>"
  | (act) xs f k ys where "po_active p = xs @ Act f k # ys"
      "p' = p\<lparr>po_state := f (po_state p), po_active := xs @ k (po_state p) # ys\<rparr>"
  | (over) xs e ys where "po_active p = xs @ Over e # ys"
      "p' = p\<lparr>po_active := xs @ ys, po_error := report (po_error p) e\<rparr>"
  using assms
proof cases
  case (pool_act i f k)
  have "po_active p = take i (po_active p) @ Act f k # drop (Suc i) (po_active p)"
    using id_take_nth_drop [OF pool_act(2)] unfolding pool_act(3) .
  then show ?thesis using act pool_act(1,2) by (simp add: upd_conv_take_nth_drop)
next
  case (pool_end i e)
  have "po_active p = take i (po_active p) @ Over e # drop (Suc i) (po_active p)"
    using id_take_nth_drop [OF pool_end(2)] unfolding pool_end(3) .
  then show ?thesis by (rule over [OF _ pool_end(1)])
qed (use start in blast)

lemma list_all2_middle:
  "list_all2 P (xs @ x # ys) zs \<Longrightarrow>
   \<exists>us z vs. zs = us @ z # vs \<and> list_all2 P xs us \<and> P x z \<and> list_all2 P ys vs"
  by (metis list_all2_append1 list_all2_Cons1)

lemma list_all2_choice: "\<forall>x \<in> set xs. \<exists>y. P x y \<Longrightarrow> \<exists>ys. list_all2 P xs ys"
  by (induction xs) auto

lemma pool_emits_step:
  assumes "pool_step p p'" "pool_emits view seen v T p"
  shows "pool_emits view seen v T p'"
proof -
  obtain ess where v: "view (po_state p) = v" and all: "list_all2 (emits view seen v) (po_active p @ po_waiting p) ess"
    and T: "mset (seen (po_state p)) + mset (concat ess) = T"
    using assms(2) by (auto simp: pool_emits_def)
  show ?thesis
    using assms(1)
  proof (cases rule: pool_step_split)
    case (start r rs)
    then show ?thesis using v all T by (auto simp: pool_emits_def)
  next
    case (act xs f k ys)
    then obtain es1 es es2 where ess: "ess = es1 @ es # es2" "list_all2 (emits view seen v) xs es1"
      "emits view seen v (Act f k) es" "list_all2 (emits view seen v) (ys @ po_waiting p) es2"
      using all list_all2_middle [of "emits view seen v" xs "Act f k" "ys @ po_waiting p" ess] by auto
    obtain now rest where es: "es = now @ rest" "emits view seen v (k (po_state p)) rest"
      "view (f (po_state p)) = v" "seen (f (po_state p)) = seen (po_state p) @ now"
      using ess(3) v by (elim emits_ActE) blast
    have "list_all2 (emits view seen v) (po_active p' @ po_waiting p') (es1 @ rest # es2)"
      using act(2) ess es by (simp add: list_all2_appendI)
    moreover have "mset (seen (po_state p')) + mset (concat (es1 @ rest # es2)) = T"
      using T act(2) ess es by (simp add: ac_simps)
    ultimately show ?thesis using act(2) es unfolding pool_emits_def by auto
  next
    case (over xs e ys)
    then obtain es1 es es2 where ess: "ess = es1 @ es # es2" "list_all2 (emits view seen v) xs es1"
      "emits view seen v (Over e) es" "list_all2 (emits view seen v) (ys @ po_waiting p) es2"
      using all list_all2_middle [of "emits view seen v" xs "Over e" "ys @ po_waiting p" ess] by auto
    have "es = []" using ess(3) by (rule emits_OverE)
    then have "list_all2 (emits view seen v) (po_active p' @ po_waiting p') (es1 @ es2) \<and>
        mset (seen (po_state p')) + mset (concat (es1 @ es2)) = T"
      using T over(2) ess by (simp add: list_all2_appendI)
    then show ?thesis using v over(2) unfolding pool_emits_def by auto
  qed
qed

lemma pool_emits_steps: "pool_step\<^sup>*\<^sup>* p p' \<Longrightarrow> pool_emits view seen v T p \<Longrightarrow> pool_emits view seen v T p'"
  by (induction rule: rtranclp_induct) (auto intro: pool_emits_step)

definition independent_runs :: "'s collector list \<Rightarrow> 's run list" where
  "independent_runs cs = map co_collect (filter (\<lambda>c. phase_of c = PhaseIndependent) cs)"

lemma run_independent_emits:
  assumes "list_all2 (emits view seen (view s)) (independent_runs cs) ess" "run_independent cs s s' e"
  shows "view s' = view s \<and> mset (seen s') = mset (seen s) + mset (concat ess)"
proof -
  obtain p where p: "pool_step\<^sup>*\<^sup>* (start_pool cs s) p" "pool_done p" "po_state p = s'"
    using assms(2) by (auto simp: run_independent_def)
  have "pool_emits view seen (view s) (mset (seen s) + mset (concat ess)) (start_pool cs s)"
    using assms(1) by (auto simp: pool_emits_def start_pool_def independent_runs_def)
  from pool_emits_steps [OF p(1) this] show ?thesis using p(2,3) by (auto simp: pool_emits_def pool_done_def)
qed

text \<open>The part of the state that the level of risk also reads, and that no independent collector writes.\<close>

definition level_view :: "'w shared \<Rightarrow> string \<times> dns_record_set \<times> int \<times> verification_result option" where
  "level_view s = (ha_host (fst s), ha_dns (fst s), ha_verification_score (fst s), ha_active_verification (fst s))"

abbreviation shared_evidences :: "'w shared \<Rightarrow> evidence list" where
  "shared_evidences s \<equiv> ha_evidences (fst s)"

text \<open>C32. When the evidence of each independent collector depends only on the host, its DNS profile
  and the verification, two schedules of the independent phase may order the evidence differently,
  but they end with the same evidence and the classifier gives both the same level.\<close>

theorem schedule_independent_level:
  assumes "run_independent cs s s1 e1" and "run_independent cs s s2 e2"
    and "\<forall>r \<in> set (independent_runs cs). \<exists>es. emits level_view shared_evidences (level_view s) r es"
  shows "mset (shared_evidences s1) = mset (shared_evidences s2) \<and>
    classify_level G (fst s1) = classify_level G (fst s2)"
proof -
  obtain ess where "list_all2 (emits level_view shared_evidences (level_view s)) (independent_runs cs) ess"
    using list_all2_choice [OF assms(3)] by blast
  note outcome = run_independent_emits [OF this assms(1)] run_independent_emits [OF this assms(2)]
  then have evs: "mset (shared_evidences s1) = mset (shared_evidences s2)" by simp
  then have "classify_level G (fst s1) = classify_level G (fst s2)"
    using outcome mset_eq_setD [OF evs] by (intro classify_level_cong) (auto simp: level_view_def)
  then show ?thesis using evs by simp
qed

text \<open>The collector of trackers as a run of atomic actions: the vector, then each evidence.\<close>

primrec add_each :: "evidence list \<Rightarrow> 'w shared run" where
  "add_each [] = Over None"
| "add_each (e # es) = Act (apfst (add_evidence e)) (\<lambda>_. add_each es)"

definition shadow_run :: "go_env \<Rightarrow> 'w shared run" where
  "shadow_run G = Act (apfst (add_tested_vector ''SHADOW_IT''))
     (\<lambda>s. add_each (shadow_evidences G (rs_cname (ha_dns (fst s)))))"

lemma add_each_complete: "complete (add_each es) s = (apfst (fold add_evidence es) s, None)"
  by (induction es arbitrary: s) (auto simp: apfst_def map_prod_def split: prod.splits)

lemma shadow_run_complete: "complete (shadow_run G) s = (apfst (collect_shadow_it G) s, None)"
  by (cases s) (simp add: shadow_run_def add_each_complete collect_shadow_it_def)

lemma add_each_emits: "emits level_view shared_evidences v (add_each es :: 'b shared run) es"
proof (induction es)
  case Nil
  show ?case by (simp add: emits.emits_over)
next
  case (Cons e es)
  have "level_view (apfst (add_evidence e) s) = level_view s \<and>
      shared_evidences (apfst (add_evidence e) s) = shared_evidences s @ [e]" for s :: "'b shared"
    by (simp add: level_view_def add_evidence_def)
  then have "emits level_view shared_evidences v (add_each (e # es) :: 'b shared run) ([e] @ es)"
    unfolding add_each.simps using Cons.IH by (intro emits.emits_act) simp_all
  then show ?case by simp
qed

lemma shadow_run_emits:
  "emits level_view shared_evidences (h, d, n, r) (shadow_run G) (shadow_evidences G (rs_cname d))"
proof -
  have "emits level_view shared_evidences (h, d, n, r) (shadow_run G) ([] @ shadow_evidences G (rs_cname d))"
    unfolding shadow_run_def
    by (rule emits.emits_act) (auto simp: level_view_def add_tested_vector_def intro: add_each_emits)
  then show ?thesis by simp
qed

definition sample_collectors :: "unit shared collector list" where
  "sample_collectors =
     [\<lparr>co_phase = None, co_collect = shadow_run ascii_env\<rparr>,
      \<lparr>co_phase = None, co_collect = add_each [plain_evidence ''ASN_MATCH'' ''Team Cymru'' [] 1 60 []]\<rparr>]"

lemma schedule_independent_level_witness:
  "\<exists>s1 e1 s2 e2. run_independent sample_collectors (zero_host_analysis, ()) s1 e1 \<and>
     run_independent sample_collectors (zero_host_analysis, ()) s2 e2 \<and>
     mset (shared_evidences s1) = mset (shared_evidences s2) \<and>
     classify_level ascii_env (fst s1) = classify_level ascii_env (fst s2)"
proof -
  let ?s = "(zero_host_analysis, ())"
  have runs: "independent_runs sample_collectors =
      [shadow_run ascii_env, add_each [plain_evidence ''ASN_MATCH'' ''Team Cymru'' [] 1 60 []]]"
    by (simp add: independent_runs_def sample_collectors_def phase_of_def del: add_each.simps)
  have emits: "\<forall>r \<in> set (independent_runs sample_collectors). \<exists>es. emits level_view shared_evidences (level_view ?s) r es"
    unfolding runs level_view_def [of ?s] using shadow_run_emits add_each_emits by (simp del: add_each.simps) blast
  obtain s1 e1 where run: "run_independent sample_collectors ?s s1 e1"
    using independent_finishes [of sample_collectors ?s] by blast
  show ?thesis using run schedule_independent_level [OF run run emits] by blast
qed

subsection \<open>The correlator\<close>

lemma correlate_cloud_ip_evidences:
  "\<exists>es. ha_evidences (correlate_cloud_ip a) = ha_evidences a @ es \<and> (\<forall>e \<in> set es. ev_type e = ''STALE_CLOUD_IP_CANDIDATE'')"
  by (auto simp: correlate_cloud_ip_def stale_ip_evidence_def)

lemma correlated_pair_iff:
  "correlated_pair evs \<noteq> None \<longleftrightarrow> (\<exists>c \<in> set evs. \<exists>h \<in> set evs. cname_side c \<and> http_side c h \<and> tls_side evs c)"
  by (auto simp: correlated_pair_def find_None_iff)

lemma correlated_pair_append:
  assumes "\<forall>e \<in> set es. ev_type e = ''STALE_CLOUD_IP_CANDIDATE''"
  shows "correlated_pair (evs @ es) \<noteq> None \<longleftrightarrow> correlated_pair evs \<noteq> None"
proof -
  have "\<not> cname_side e \<and> \<not> http_side c e" if "e \<in> set es" for c e
    using assms that by (simp add: cname_side_def http_side_def)
  moreover have "tls_side (evs @ es) c = tls_side evs c" for c
    using assms by (auto simp: tls_side_def list_ex_iff)
  ultimately show ?thesis unfolding correlated_pair_iff by auto
qed

text \<open>The correlator confirms a provider exactly when an alias, a body over HTTP with the same
  provider and alias, and a certificate of the same source agree; the evidence of the cloud
  addresses that it adds just before never makes the difference.\<close>

theorem confirmation_needs_three_sources:
  "has_type (ha_evidences (correlate_providers a)) ''CORRELATED_PROVIDER_CONFIRMATION'' \<longleftrightarrow>
     has_type (ha_evidences a) ''CORRELATED_PROVIDER_CONFIRMATION'' \<or>
     list_ex (\<lambda>c. cname_side c \<and> list_ex (http_side c) (ha_evidences a) \<and> tls_side (ha_evidences a) c) (ha_evidences a)"
proof -
  obtain es where es: "ha_evidences (correlate_cloud_ip a) = ha_evidences a @ es"
    "\<forall>e \<in> set es. ev_type e = ''STALE_CLOUD_IP_CANDIDATE''" using correlate_cloud_ip_evidences by blast
  have "has_type (ha_evidences (correlate_providers a)) ''CORRELATED_PROVIDER_CONFIRMATION'' \<longleftrightarrow>
      has_type (ha_evidences a @ es) ''CORRELATED_PROVIDER_CONFIRMATION'' \<or> correlated_pair (ha_evidences a @ es) \<noteq> None"
    by (auto simp: correlate_providers_def es Let_def add_evidence_def confirmation_evidence_def split: option.splits)
  also have "\<dots> \<longleftrightarrow> has_type (ha_evidences a) ''CORRELATED_PROVIDER_CONFIRMATION'' \<or> correlated_pair (ha_evidences a) \<noteq> None"
    using es(2) correlated_pair_append [OF es(2)] by (auto simp: has_type_iff)
  finally show ?thesis unfolding correlated_pair_iff list_ex_iff by blast
qed

subsection \<open>The question on the autonomous system of an IPv6 address\<close>

text \<open>The name that the service documents: the 32 nibbles of the address in reverse order.\<close>

definition nibble_name :: "ip \<Rightarrow> string" where
  "nibble_name a = join_with ''.''
     (map (\<lambda>c. [c]) (rev (concat (map (\<lambda>b. [hex_nibble (b div 16), hex_nibble (b mod 16)]) a)))) @
     ''.origin6.asn.cymru.com''"

lemma length_hex_concat: "length (concat (map (\<lambda>x. [f x, g x]) xs)) = 2 * length xs"
  by (induction xs) simp_all

lemma length_hex_of_text: "length (hex_of_text s) = 2 * length s"
  by (simp add: hex_of_text_def length_hex_concat)

lemma length_join_single: "cs \<noteq> [] \<Longrightarrow> length (join_with ''.'' (map (\<lambda>c. [c]) cs)) = 2 * length cs - 1"
  by (induction cs rule: induct_list012) auto

text \<open>For an IPv6 address whose text is longer than sixteen bytes, the name that the collector asks
  is not the name of the address: it spells the bytes of the text instead of the address.\<close>

theorem ipv6_question_is_wrong:
  assumes "length a = 16" and "length (ip_text a) > 16"
  shows "asn_owner pad ''AAAA'' a \<noteq> Some (nibble_name a)"
proof -
  have "hex_of_text (ip_text a) \<noteq> []"
    using assms(2) length_hex_of_text [of "ip_text a"] by auto
  then have "length (reverse_ipv6 pad a) = 4 * length (ip_text a) - 1"
    using assms(2) by (simp add: reverse_ipv6_def format_ip_hex_def length_join_single length_hex_of_text)
  moreover have "concat (map (\<lambda>b. [hex_nibble (b div 16), hex_nibble (b mod 16)]) a) \<noteq> []"
    using assms(1) by (cases a) simp_all
  then have "length (nibble_name a) = 63 + length ''.origin6.asn.cymru.com''"
    using assms(1) by (simp add: nibble_name_def length_join_single length_hex_concat del: hex_nibble.simps)
  ultimately show ?thesis using assms(2) by (auto simp: asn_owner_def dest: arg_cong [of _ _ length])
qed

text \<open>\<open>1111:1111:1111:1111:1111:1111:1111:1111\<close>\<close>

definition sample_ipv6 :: ip where
  "sample_ipv6 = [17, 17, 17, 17, 17, 17, 17, 17, 17, 17, 17, 17, 17, 17, 17, 17]"

lemma no_zero_run:
  assumes "0 \<notin> set gs"
  shows "best_run gs = None"
proof -
  have "zero_run (drop i gs) = 0" for i
    using assms set_drop_subset [of i gs] by (cases "drop i gs") (auto simp: zero_run_def intro!: gr0I)
  then have "fold (\<lambda>i best. let l = zero_run (drop i gs) in
      if l \<ge> 2 \<and> (case best of None \<Rightarrow> True | Some (_, m) \<Rightarrow> l > m) then Some (i, l) else best) js None = None" for js
    by (induction js) simp_all
  then show ?thesis by (simp add: best_run_def)
qed

lemma length_hex_text_1111: "length (hex_text 4369) = 4"
  by (simp add: hex_text.simps [of 4369] hex_text.simps [of 273] hex_text.simps [of 17] hex_text.simps [of "Suc 0"])

lemma sample_ipv6_text: "length sample_ipv6 = 16 \<and> length (ip_text sample_ipv6) = 39"
proof -
  have groups: "groups_of sample_ipv6 = [4369, 4369, 4369, 4369, 4369, 4369, 4369, 4369]"
    by (simp add: sample_ipv6_def)
  have "best_run (groups_of sample_ipv6) = None" by (rule no_zero_run) (simp add: groups)
  then have "v6_text sample_ipv6 = join_with '':'' (map hex_text (groups_of sample_ipv6))" by (simp add: v6_text_def)
  then have "length (v6_text sample_ipv6) = 39" by (simp add: groups length_hex_text_1111)
  then show ?thesis by (simp add: sample_ipv6_def ip_text_def to4_def v4_prefix_def)
qed

lemma ipv6_question_is_wrong_witness:
  "asn_owner CHR ''0'' ''AAAA'' sample_ipv6 \<noteq> Some (nibble_name sample_ipv6)"
  using ipv6_question_is_wrong [of sample_ipv6 "CHR ''0''"] sample_ipv6_text by simp

end
