(* ===== verification/Verifiers.thy ===== *)
theory Verifiers
  imports GoUrl Registry
begin

section \<open>Active verifiers (internal/verifiers)\<close>

text \<open>
  A verifier asks the host for a page and looks for the text by which a provider says that nothing
  is deployed there. Most verifiers share one shape, \<open>page_verifier\<close>: a guard on the aliases, a
  request over HTTP that is repeated over HTTPS when the client fails, and a condition on the
  answer. Three more look at storage buckets and add evidence. The engine chooses the verifiers
  that fit the host and runs them as goroutines.

  The HTTP client is a parameter: what \<open>Do\<close> returns for a URL, in the world it finds. It stands
  for the configured client or for the default one, follows redirects or not, and may fail at any
  time, which is also how a cancelled request ends. A run of a verifier is a resumption, as for
  the collectors, whose atomic actions are the requests and the writes to the analysis.
\<close>

subsection \<open>The client\<close>

record http_response =
  rp_status :: int
  rp_headers :: "(string, string list) gomap"
  rp_body :: string

record 'w http_env =
  he_strings :: go_env
  he_do :: "string \<Rightarrow> 'w \<Rightarrow> http_response option \<times> 'w"

text \<open>\<open>Header.Get\<close> for a name that is written in its canonical form.\<close>

definition header_get :: "http_response \<Rightarrow> string \<Rightarrow> string" where
  "header_get r name = (case map_of (rp_headers r) name of Some (v # vs) \<Rightarrow> v | _ \<Rightarrow> [])"

text \<open>The body is read through a \<open>LimitReader\<close> of one megabyte.\<close>

definition body_limit :: nat where "body_limit = 2 ^ 20"

definition limited :: "http_response \<Rightarrow> http_response" where
  "limited r = r\<lparr>rp_body := take body_limit (rp_body r)\<rparr>"

type_synonym 'w verify_run = "'w shared run"

text \<open>What \<open>Verify\<close> returns: an error, nothing, or a result.\<close>

datatype verify_outcome =
    VerifyFailed
  | Nothing
  | Outcome verification_result

record 'w verifier =
  ve_name :: string
  ve_verify :: "host_analysis \<Rightarrow> (verify_outcome \<Rightarrow> 'w verify_run) \<Rightarrow> 'w verify_run"

text \<open>\<open>client.Do\<close> as an action on the world; \<open>k\<close> gets the answer.\<close>

definition do_request ::
  "'w http_env \<Rightarrow> string \<Rightarrow> (http_response option \<Rightarrow> 'w verify_run) \<Rightarrow> 'w verify_run"
where
  "do_request E url k =
     Act (\<lambda>(a, w). (a, snd (he_do E url w))) (\<lambda>(a, w). k (map_option limited (fst (he_do E url w))))"

text \<open>
  A request to the host, over HTTPS when the first one fails. \<open>NewRequest\<close> fails exactly when the
  URL does not parse.
\<close>

definition new_request_ok :: "'w http_env \<Rightarrow> string \<Rightarrow> bool" where
  "new_request_ok E url \<longleftrightarrow> url_parse (he_strings E) url \<noteq> None"

definition fetch_page ::
  "'w http_env \<Rightarrow> string \<Rightarrow> (http_response option \<Rightarrow> 'w verify_run) \<Rightarrow> 'w verify_run"
where
  "fetch_page E host k =
     (if \<not> new_request_ok E (''http://'' @ host) then k None
      else do_request E (''http://'' @ host)
        (\<lambda>r. case r of Some p \<Rightarrow> k (Some p) | None \<Rightarrow> do_request E (''https://'' @ host) k))"

definition matched :: "string \<Rightarrow> int \<Rightarrow> string \<Rightarrow> verification_result" where
  "matched name confidence evidence =
     zero_verification_result\<lparr>vr_provider := name, vr_verified := True, vr_confidence := confidence,
       vr_evidence := evidence\<rparr>"

subsection \<open>Names of providers (provider_match.go)\<close>

definition provider_redirect_matches :: "go_env \<Rightarrow> string \<Rightarrow> string \<Rightarrow> string list \<Rightarrow> bool" where
  "provider_redirect_matches G raw path_prefix domains =
     (case url_parse G (trim_space raw) of
        None \<Rightarrow> False
      | Some u \<Rightarrow>
          url_scheme u \<in> {''http'', ''https''} \<and>
          (\<exists>d \<in> set domains. match_dns_name G (url_hostname u) d) \<and>
          (path_prefix = [] \<or> url_path u = path_prefix \<or>
           prefix (trim_suffix path_prefix ''/'' @ ''/'') (url_path u)))"

definition has_provider_cname :: "go_env \<Rightarrow> host_analysis \<Rightarrow> string list \<Rightarrow> bool" where
  "has_provider_cname G a patterns =
     list_ex (\<lambda>cname. list_ex (match_dns_name G cname) patterns) (rs_cname (ha_dns a))"

definition region_char :: "char \<Rightarrow> bool" where
  "region_char c \<longleftrightarrow> in_range 97 122 (of_char c) \<or> in_range 48 57 (of_char c)"

definition valid_aws_region_label :: "string \<Rightarrow> bool" where
  "valid_aws_region_label value =
     (let parts = split_on CHR ''-'' value in
      length parts \<ge> 3 \<and>
      list_all (\<lambda>p. p \<noteq> [] \<and> list_all region_char p) (butlast parts) \<and>
      last parts \<noteq> [] \<and> list_all digit_char (last parts))"

text \<open>
  The labels between the bucket and \<open>amazonaws.com\<close>, from the right: the first one that names an
  S3 service decides. \<open>right\<close> holds the labels to its right.
\<close>

definition s3_service :: "string \<Rightarrow> string list \<Rightarrow> bool option" where
  "s3_service service right =
     (if service = ''s3'' then
        Some (right = [] \<or> (length right = 1 \<and> valid_aws_region_label (right ! 0)) \<or>
          (length right = 2 \<and> right ! 0 = ''dualstack'' \<and> valid_aws_region_label (right ! 1)))
      else if service = ''s3-website'' then
        Some (length right = 1 \<and> valid_aws_region_label (right ! 0))
      else if prefix ''s3-website-'' service then
        Some (right = [] \<and> valid_aws_region_label (trim_prefix service ''s3-website-''))
      else if prefix ''s3-'' service then
        Some (right = [] \<and> valid_aws_region_label (trim_prefix service ''s3-''))
      else None)"

fun s3_scan :: "string list \<Rightarrow> string list \<Rightarrow> bool" where
  "s3_scan [] right = False"
| "s3_scan (service # left) right =
     (case s3_service service right of
        Some b \<Rightarrow> b
      | None \<Rightarrow> s3_scan left (service # right))"

definition is_s3_endpoint :: "go_env \<Rightarrow> string \<Rightarrow> bool" where
  "is_s3_endpoint G host =
     (case normalize_hostname G host of
        Inl e \<Rightarrow> False
      | Inr normalized \<Rightarrow>
          match_dns_name G normalized ''amazonaws.com'' \<and>
          (let labels = split_on CHR ''.'' normalized in
           length labels \<ge> 4 \<and> s3_scan (rev (drop 1 (take (length labels - 2) labels))) []))"

definition has_s3_cname :: "go_env \<Rightarrow> host_analysis \<Rightarrow> bool" where
  "has_s3_cname G a = list_ex (is_s3_endpoint G) (rs_cname (ha_dns a))"

subsection \<open>Verifiers that look for one page\<close>

definition page_verifier ::
  "'w http_env \<Rightarrow> string \<Rightarrow> (host_analysis \<Rightarrow> bool) \<Rightarrow> (http_response \<Rightarrow> bool) \<Rightarrow> int \<Rightarrow> string \<Rightarrow> 'w verifier"
where
  "page_verifier E name guard condition confidence evidence =
     \<lparr>ve_name = name,
      ve_verify = (\<lambda>a k.
        if \<not> guard a then k Nothing
        else fetch_page E (ha_host a)
          (\<lambda>r. case r of
             None \<Rightarrow> k VerifyFailed
           | Some p \<Rightarrow> k (if condition p then Outcome (matched name confidence evidence) else Nothing)))\<rparr>"

definition github_pages_verifier :: "'w http_env \<Rightarrow> 'w verifier" where
  "github_pages_verifier E = page_verifier E ''GitHub Pages'' (\<lambda>a. has_provider_cname (he_strings E) a [''github.io''])
     (\<lambda>r. rp_status r = 404 \<and> contains_str (rp_body r) (''There isn'' @ [CHR 0x27] @ ''t a GitHub Pages site here.''))
     100 (''Dom'' @ [CHR 0xC3, CHR 0xAD] @ ''nio responde com 404 nativo do GitHub Pages indicando aus'' @ [CHR 0xC3, CHR 0xAA] @ ''ncia de reposit'' @ [CHR 0xC3, CHR 0xB3] @ ''rio vinculado.'')"

definition azure_verifier :: "'w http_env \<Rightarrow> 'w verifier" where
  "azure_verifier E = page_verifier E ''Azure'' (\<lambda>a. has_provider_cname (he_strings E) a [''azurewebsites.net'', ''cloudapp.net'', ''trafficmanager.net''])
     (\<lambda>r. rp_status r = 404 \<and> (contains_str (rp_body r) ''404 Web Site not found'' \<or>
       contains_str (rp_body r) ''The specified bucket does not exist''))
     100 (''O Azure retornou uma assinatura de recurso ausente; a possibilidade de cria'' @ [CHR 0xC3, CHR 0xA7, CHR 0xC3, CHR 0xA3] @ ''o n'' @ [CHR 0xC3, CHR 0xA3] @ ''o foi comprovada.'')"

definition fastly_verifier :: "'w http_env \<Rightarrow> 'w verifier" where
  "fastly_verifier E = page_verifier E ''Fastly'' (\<lambda>a. has_provider_cname (he_strings E) a [''fastly.net''])
     (\<lambda>r. rp_status r = 500 \<and> contains_str (rp_body r) ''Fastly error: unknown domain'')
     100 (''A Fastly retornou '' @ [CHR 0x27] @ ''unknown domain'' @ [CHR 0x27] @ ''; a vincula'' @ [CHR 0xC3, CHR 0xA7, CHR 0xC3, CHR 0xA3] @ ''o do dom'' @ [CHR 0xC3, CHR 0xAD] @ ''nio a uma nova conta n'' @ [CHR 0xC3, CHR 0xA3] @ ''o foi comprovada.'')"

definition heroku_verifier :: "'w http_env \<Rightarrow> 'w verifier" where
  "heroku_verifier E = page_verifier E ''Heroku'' (\<lambda>a. has_provider_cname (he_strings E) a [''herokuapp.com'', ''herokudns.com''])
     (\<lambda>r. rp_status r = 404 \<and> contains_str (rp_body r) ''No such app'')
     100 (''A Heroku retornou '' @ [CHR 0x27] @ ''No such app'' @ [CHR 0x27] @ ''; a disponibilidade do nome e a possibilidade de vincula'' @ [CHR 0xC3, CHR 0xA7, CHR 0xC3, CHR 0xA3] @ ''o n'' @ [CHR 0xC3, CHR 0xA3] @ ''o foram comprovadas.'')"

definition zendesk_verifier :: "'w http_env \<Rightarrow> 'w verifier" where
  "zendesk_verifier E = page_verifier E ''Zendesk'' (\<lambda>a. has_provider_cname (he_strings E) a [''zendesk.com''])
     (\<lambda>r. contains_str (rp_body r) ''Help Center Closed'')
     100 (''A Zendesk retornou '' @ [CHR 0x27] @ ''Help Center Closed'' @ [CHR 0x27] @ ''; a possibilidade de registrar ou vincular o subdom'' @ [CHR 0xC3, CHR 0xAD] @ ''nio n'' @ [CHR 0xC3, CHR 0xA3] @ ''o foi comprovada.'')"

definition shopify_verifier :: "'w http_env \<Rightarrow> 'w verifier" where
  "shopify_verifier E = page_verifier E ''Shopify'' (\<lambda>a. True)
     (\<lambda>r. rp_status r = 404 \<and> (contains_str (rp_body r) ''Sorry, this shop is currently unavailable.'' \<or>
       contains_str (rp_body r) ''Only one step left!''))
     100 (''A Shopify retornou uma assinatura de loja ausente; a possibilidade de vincula'' @ [CHR 0xC3, CHR 0xA7, CHR 0xC3, CHR 0xA3] @ ''o n'' @ [CHR 0xC3, CHR 0xA3] @ ''o foi comprovada.'')"

definition netlify_verifier :: "'w http_env \<Rightarrow> 'w verifier" where
  "netlify_verifier E = page_verifier E ''Netlify'' (\<lambda>a. True)
     (\<lambda>r. contains_str (rp_body r) ''Not Found - Request ID:'' \<or>
       (rp_status r = 404 \<and> contains_str (to_lower (he_strings E) (header_get r ''Server'')) ''netlify''))
     95 (''A Netlify retornou uma assinatura de site ausente; a possibilidade de reivindica'' @ [CHR 0xC3, CHR 0xA7, CHR 0xC3, CHR 0xA3] @ ''o n'' @ [CHR 0xC3, CHR 0xA3] @ ''o foi comprovada.'')"

definition vercel_verifier :: "'w http_env \<Rightarrow> 'w verifier" where
  "vercel_verifier E = page_verifier E ''Vercel'' (\<lambda>a. True)
     (\<lambda>r. rp_status r = 404 \<and> (contains_str (rp_body r) ''The deployment could not be found'' \<or>
       contains_str (rp_body r) ''DEPLOYMENT_NOT_FOUND''))
     100 (''A Vercel retornou uma assinatura de projeto ausente; a possibilidade de reivindica'' @ [CHR 0xC3, CHR 0xA7, CHR 0xC3, CHR 0xA3] @ ''o n'' @ [CHR 0xC3, CHR 0xA3] @ ''o foi comprovada.'')"

definition wordpress_verifier :: "'w http_env \<Rightarrow> 'w verifier" where
  "wordpress_verifier E = page_verifier E ''WordPress'' (\<lambda>a. True)
     (\<lambda>r. contains_str (rp_body r) ''Do you want to register'' \<or>
       provider_redirect_matches (he_strings E) (header_get r ''Location'') ''/signup'' [''wordpress.com''])
     95 (''O WordPress.com retornou uma assinatura de site ausente; a possibilidade de reivindica'' @ [CHR 0xC3, CHR 0xA7, CHR 0xC3, CHR 0xA3] @ ''o n'' @ [CHR 0xC3, CHR 0xA3] @ ''o foi comprovada.'')"

definition tumblr_verifier :: "'w http_env \<Rightarrow> 'w verifier" where
  "tumblr_verifier E = page_verifier E ''Tumblr'' (\<lambda>a. True)
     (\<lambda>r. rp_status r = 404 \<and> (contains_str (rp_body r) (''There'' @ [CHR 0x27] @ ''s nothing here.'') \<or>
       contains_str (rp_body r) (''Whatever you were looking for doesn'' @ [CHR 0x27] @ ''t currently exist at this address.'')))
     100 (''O Tumblr retornou uma assinatura de blog ausente; a possibilidade de reivindica'' @ [CHR 0xC3, CHR 0xA7, CHR 0xC3, CHR 0xA3] @ ''o n'' @ [CHR 0xC3, CHR 0xA3] @ ''o foi comprovada.'')"

definition bitbucket_verifier :: "'w http_env \<Rightarrow> 'w verifier" where
  "bitbucket_verifier E = page_verifier E ''Bitbucket'' (\<lambda>a. True)
     (\<lambda>r. rp_status r = 404 \<and> contains_str (rp_body r) ''Repository not found'')
     100 (''O Bitbucket retornou uma assinatura de recurso ausente; a possibilidade de reivindica'' @ [CHR 0xC3, CHR 0xA7, CHR 0xC3, CHR 0xA3] @ ''o n'' @ [CHR 0xC3, CHR 0xA3] @ ''o foi comprovada.'')"

definition ghost_verifier :: "'w http_env \<Rightarrow> 'w verifier" where
  "ghost_verifier E = page_verifier E ''Ghost'' (\<lambda>a. True)
     (\<lambda>r. rp_status r = 404 \<and> (contains_str (rp_body r) (''404 '' @ [CHR 0xE2, CHR 0x80, CHR 0x94] @ '' Ghost'') \<or>
       provider_redirect_matches (he_strings E) (header_get r ''Location'') ''/signup'' [''ghost.org'']))
     95 (''O Ghost retornou uma assinatura de site ausente; a possibilidade de reivindica'' @ [CHR 0xC3, CHR 0xA7, CHR 0xC3, CHR 0xA3] @ ''o n'' @ [CHR 0xC3, CHR 0xA3] @ ''o foi comprovada.'')"

definition readme_verifier :: "'w http_env \<Rightarrow> 'w verifier" where
  "readme_verifier E = page_verifier E ''Readme.io'' (\<lambda>a. True)
     (\<lambda>r. rp_status r = 404 \<and> (contains_str (rp_body r) ''Project doesnt exist'' \<or>
       provider_redirect_matches (he_strings E) (header_get r ''Location'') ''/signup'' [''readme.io'']))
     95 (''A ReadMe retornou uma assinatura de projeto ausente; a possibilidade de reivindica'' @ [CHR 0xC3, CHR 0xA7, CHR 0xC3, CHR 0xA3] @ ''o n'' @ [CHR 0xC3, CHR 0xA3] @ ''o foi comprovada.'')"

definition surge_verifier :: "'w http_env \<Rightarrow> 'w verifier" where
  "surge_verifier E = page_verifier E ''Surge.sh'' (\<lambda>a. True)
     (\<lambda>r. rp_status r = 404 \<and> contains_str (to_lower (he_strings E) (rp_body r)) ''project not found'')
     100 (''O Surge retornou uma assinatura de projeto ausente; a possibilidade de reivindica'' @ [CHR 0xC3, CHR 0xA7, CHR 0xC3, CHR 0xA3] @ ''o n'' @ [CHR 0xC3, CHR 0xA3] @ ''o foi comprovada.'')"

definition pantheon_verifier :: "'w http_env \<Rightarrow> 'w verifier" where
  "pantheon_verifier E = page_verifier E ''Pantheon'' (\<lambda>a. True)
     (\<lambda>r. rp_status r = 404 \<and> (contains_str (rp_body r) ''The gods are wise'' \<or>
       contains_str (rp_body r) ''404 Site Unknown''))
     100 (''O Pantheon retornou uma assinatura de site ausente; a possibilidade de reivindica'' @ [CHR 0xC3, CHR 0xA7, CHR 0xC3, CHR 0xA3] @ ''o n'' @ [CHR 0xC3, CHR 0xA3] @ ''o foi comprovada.'')"

definition cargo_verifier :: "'w http_env \<Rightarrow> 'w verifier" where
  "cargo_verifier E = page_verifier E ''Cargo Collective'' (\<lambda>a. True)
     (\<lambda>r. rp_status r = 404 \<and> contains_str (rp_body r) ''404 Not Found'')
     90 (''O Cargo retornou uma assinatura de recurso ausente; a possibilidade de reivindica'' @ [CHR 0xC3, CHR 0xA7, CHR 0xC3, CHR 0xA3] @ ''o n'' @ [CHR 0xC3, CHR 0xA3] @ ''o foi comprovada.'')"

definition intercom_verifier :: "'w http_env \<Rightarrow> 'w verifier" where
  "intercom_verifier E = page_verifier E ''Intercom'' (\<lambda>a. True)
     (\<lambda>r. contains_str (rp_body r) ''This page is reserved for'' \<or>
       contains_str (rp_body r) (''Uh oh. That page doesn'' @ [CHR 0x27] @ ''t exist.''))
     95 (''A Intercom retornou uma assinatura de central ausente; a possibilidade de reivindica'' @ [CHR 0xC3, CHR 0xA7, CHR 0xC3, CHR 0xA3] @ ''o n'' @ [CHR 0xC3, CHR 0xA3] @ ''o foi comprovada.'')"

definition statuspage_verifier :: "'w http_env \<Rightarrow> 'w verifier" where
  "statuspage_verifier E = page_verifier E ''StatusPage'' (\<lambda>a. True)
     (\<lambda>r. rp_status r = 404 \<and> (contains_str (to_lower (he_strings E) (rp_body r)) ''page not found'' \<or>
       provider_redirect_matches (he_strings E) (header_get r ''Location'') [] [''atlassian.com'', ''statuspage.io'']))
     95 (''O Statuspage retornou uma assinatura de p'' @ [CHR 0xC3, CHR 0xA1] @ ''gina ausente; a possibilidade de reivindica'' @ [CHR 0xC3, CHR 0xA7, CHR 0xC3, CHR 0xA3] @ ''o n'' @ [CHR 0xC3, CHR 0xA3] @ ''o foi comprovada.'')"

definition flyio_verifier :: "'w http_env \<Rightarrow> 'w verifier" where
  "flyio_verifier E = page_verifier E ''Fly.io'' (\<lambda>a. True)
     (\<lambda>r. rp_status r = 404 \<and> contains_str (rp_body r) ''404 Not Found'' \<and>
       contains_str (to_lower (he_strings E) (header_get r ''Server'')) ''fly'')
     95 (''A Fly.io retornou uma assinatura de aplica'' @ [CHR 0xC3, CHR 0xA7, CHR 0xC3, CHR 0xA3] @ ''o ausente; a possibilidade de reivindica'' @ [CHR 0xC3, CHR 0xA7, CHR 0xC3, CHR 0xA3] @ ''o n'' @ [CHR 0xC3, CHR 0xA3] @ ''o foi comprovada.'')"

definition aws_cloudfront_verifier :: "'w http_env \<Rightarrow> 'w verifier" where
  "aws_cloudfront_verifier E = page_verifier E ''AWS CloudFront'' (\<lambda>a. True)
     (\<lambda>r. rp_status r = 403 \<and> (contains_str (rp_body r) ''Bad Request'' \<or>
       contains_str (rp_body r) ''The request could not be satisfied'') \<and>
       (contains_str (rp_body r) ''Generated by CloudFront'' \<or> contains_str (header_get r ''Server'') ''CloudFront''))
     90 (''O Amazon CloudFront retornou uma assinatura de distribui'' @ [CHR 0xC3, CHR 0xA7, CHR 0xC3, CHR 0xA3] @ ''o ausente; a possibilidade de reivindica'' @ [CHR 0xC3, CHR 0xA7, CHR 0xC3, CHR 0xA3] @ ''o n'' @ [CHR 0xC3, CHR 0xA3] @ ''o foi comprovada.'')"

definition unbounce_verifier :: "'w http_env \<Rightarrow> 'w verifier" where
  "unbounce_verifier E = page_verifier E ''Unbounce'' (\<lambda>a. True)
     (\<lambda>r. rp_status r = 404 \<and> contains_str (rp_body r) ''The requested URL was not found on this server.'')
     95 (''A Unbounce retornou uma assinatura de p'' @ [CHR 0xC3, CHR 0xA1] @ ''gina ausente; a possibilidade de reivindica'' @ [CHR 0xC3, CHR 0xA7, CHR 0xC3, CHR 0xA3] @ ''o n'' @ [CHR 0xC3, CHR 0xA3] @ ''o foi comprovada.'')"

definition google_cloud_verifier :: "'w http_env \<Rightarrow> 'w verifier" where
  "google_cloud_verifier E = page_verifier E ''Google Cloud'' (\<lambda>a. True)
     (\<lambda>r. rp_status r = 404 \<and> contains_str (rp_body r) ''<Code>NoSuchBucket</Code>'')
     100 (''O Google Cloud Storage retornou uma assinatura de bucket ausente; a disponibilidade do nome n'' @ [CHR 0xC3, CHR 0xA3] @ ''o foi comprovada.'')"

definition elastic_beanstalk_verifier :: "'w verifier" where
  "elastic_beanstalk_verifier =
     \<lparr>ve_name = ''AWS Elastic Beanstalk'',
      ve_verify = (\<lambda>a k. if rs_a (ha_dns a) = [] \<and> rs_cname (ha_dns a) \<noteq> []
        then k (Outcome (matched ''AWS Elastic Beanstalk'' 100 (''O destino do Amazon Elastic Beanstalk retornou NXDOMAIN; a possibilidade de reivindica'' @ [CHR 0xC3, CHR 0xA7, CHR 0xC3, CHR 0xA3] @ ''o n'' @ [CHR 0xC3, CHR 0xA3] @ ''o foi comprovada.'')))
        else k Nothing)\<rparr>"

subsection \<open>Verifiers of storage\<close>

definition add_cloud_evidence :: "evidence \<Rightarrow> 'w verify_run \<Rightarrow> 'w verify_run" where
  "add_cloud_evidence ev k = Act (\<lambda>(a, w). (add_evidence ev a, w)) (\<lambda>_. k)"

definition exists_already :: "string \<Rightarrow> string \<Rightarrow> verification_result" where
  "exists_already name evidence =
     (matched name 100 evidence)\<lparr>vr_verified := False\<rparr>"

text \<open>The request for the access-control list of the bucket (end of \<open>aws_s3.go\<close>).\<close>

definition s3_writable :: evidence where
  "s3_writable = plain_evidence ''CLOUD_S3_WRITABLE'' ''AWS S3''
     (''O bucket S3 permite grava'' @ [CHR 0xC3, CHR 0xA7, CHR 0xC3, CHR 0xA3] @ ''o p'' @ [CHR 0xC3, CHR 0xBA] @ ''blica baseada em ACL (WRITE/FULL_CONTROL).'') 90 100 []"

definition s3_acl_open :: "http_response \<Rightarrow> bool" where
  "s3_acl_open r \<longleftrightarrow> rp_status r = 200 \<and> contains_str (rp_body r) ''<AccessControlPolicy'' \<and>
     contains_str (rp_body r) ''http://acs.amazonaws.com/groups/global/AllUsers'' \<and>
     (contains_str (rp_body r) ''<Permission>WRITE</Permission>'' \<or>
      contains_str (rp_body r) ''<Permission>FULL_CONTROL</Permission>'')"

definition s3_acl_check :: "'w http_env \<Rightarrow> string \<Rightarrow> (verify_outcome \<Rightarrow> 'w verify_run) \<Rightarrow> 'w verify_run" where
  "s3_acl_check E host k =
     (let url = ''http://'' @ host @ ''/?acl'' in
      if \<not> new_request_ok E url then k Nothing
      else do_request E url
        (\<lambda>r. case r of
           None \<Rightarrow> k Nothing
         | Some p \<Rightarrow> if s3_acl_open p then add_cloud_evidence s3_writable (k Nothing) else k Nothing))"

definition s3_private :: evidence where
  "s3_private = mitigating_evidence ''CLOUD_S3_PRIVATE'' ''AWS S3''
     (''O bucket S3 existe, mas retornou AccessDenied (n'' @ [CHR 0xC3, CHR 0xA3] @ ''o '' @ [CHR 0xC3, CHR 0xA9] @ '' vulner'' @ [CHR 0xC3, CHR 0xA1] @ ''vel a takeover).'') 50 100 []"

definition s3_listable :: evidence where
  "s3_listable = plain_evidence ''CLOUD_S3_LISTABLE'' ''AWS S3''
     (''O bucket S3 permite a listagem p'' @ [CHR 0xC3, CHR 0xBA] @ ''blica de arquivos.'') 70 100 []"

definition aws_s3_verifier :: "'w http_env \<Rightarrow> 'w verifier" where
  "aws_s3_verifier E =
     \<lparr>ve_name = ''AWS S3'',
      ve_verify = (\<lambda>a k.
        if \<not> has_s3_cname (he_strings E) a then k Nothing
        else if \<not> new_request_ok E (''http://'' @ ha_host a) then k VerifyFailed
        else do_request E (''http://'' @ ha_host a)
          (\<lambda>r. case r of
             None \<Rightarrow> s3_acl_check E (ha_host a) k
           | Some p \<Rightarrow>
               if rp_status p = 404 \<and> contains_str (rp_body p) ''<Code>NoSuchBucket</Code>''
               then k (Outcome (matched ''AWS S3'' 100 (''API p'' @ [CHR 0xC3, CHR 0xBA] @ ''blica do S3 retornou <Code>NoSuchBucket</Code>'')))
               else if rp_status p = 403 \<and> contains_str (rp_body p) ''<Code>AccessDenied</Code>''
               then add_cloud_evidence s3_private (k (Outcome (exists_already ''AWS S3''
                 (''O bucket S3 retornou AccessDenied; portanto, j'' @ [CHR 0xC3, CHR 0xA1] @ '' existe e n'' @ [CHR 0xC3, CHR 0xA3] @ ''o est'' @ [CHR 0xC3, CHR 0xA1] @ '' '' @ [CHR 0xC3, CHR 0xB3] @ ''rf'' @ [CHR 0xC3, CHR 0xA3] @ ''o.''))))
               else if rp_status p = 200 \<and> contains_str (rp_body p) ''<ListBucketResult''
               then add_cloud_evidence s3_listable (s3_acl_check E (ha_host a) k)
               else s3_acl_check E (ha_host a) k))\<rparr>"

text \<open>
  The verifiers of Azure Blob and of Google Cloud Storage have one shape: a request, the text of a
  missing account or bucket, the text of one that is private, and a listing.
\<close>

definition bucket_verifier ::
  "'w http_env \<Rightarrow> string \<Rightarrow> string \<Rightarrow> string \<Rightarrow> (http_response \<Rightarrow> bool) \<Rightarrow> string \<Rightarrow>
   (http_response \<Rightarrow> bool) \<Rightarrow> evidence \<Rightarrow> string \<Rightarrow> (http_response \<Rightarrow> bool) \<Rightarrow> evidence \<Rightarrow> 'w verifier"
where
  "bucket_verifier E name pattern path missing missing_text private private_ev private_text listing listing_ev =
     \<lparr>ve_name = name,
      ve_verify = (\<lambda>a k.
        let url = ''http://'' @ ha_host a @ path in
        if \<not> has_provider_cname (he_strings E) a [pattern] then k Nothing
        else if \<not> new_request_ok E url then k VerifyFailed
        else do_request E url
          (\<lambda>r. case r of
             None \<Rightarrow> k Nothing
           | Some p \<Rightarrow>
               if missing p then k (Outcome (matched name 100 missing_text))
               else if private p
               then add_cloud_evidence private_ev (k (Outcome (exists_already name private_text)))
               else if listing p then add_cloud_evidence listing_ev (k Nothing)
               else k Nothing))\<rparr>"

definition azure_blob_verifier :: "'w http_env \<Rightarrow> 'w verifier" where
  "azure_blob_verifier E = bucket_verifier E ''Azure Blob Storage'' ''blob.core.windows.net'' ''/?comp=list''
     (\<lambda>p. rp_status p = 404 \<and> contains_str (rp_body p) ''The specified account does not exist.'')
     ''API do Azure Blob retornou AccountNotFound.''
     (\<lambda>p. rp_status p = 403 \<and> (contains_str (rp_body p) ''PublicAccessNotPermitted'' \<or>
        contains_str (rp_body p) ''AuthenticationFailed''))
     (mitigating_evidence ''CLOUD_AZURE_BLOB_PRIVATE'' ''Azure Blob Storage''
        (''A conta de armazenamento existe, mas retornou erro de permiss'' @ [CHR 0xC3, CHR 0xA3] @ ''o (n'' @ [CHR 0xC3, CHR 0xA3] @ ''o '' @ [CHR 0xC3, CHR 0xA9] @ '' vulner'' @ [CHR 0xC3, CHR 0xA1] @ ''vel a takeover).'') 50 100 [])
     (''A conta de armazenamento retornou AuthenticationFailed/PublicAccessNotPermitted; portanto, j'' @ [CHR 0xC3, CHR 0xA1] @ '' existe e n'' @ [CHR 0xC3, CHR 0xA3] @ ''o est'' @ [CHR 0xC3, CHR 0xA1] @ '' '' @ [CHR 0xC3, CHR 0xB3] @ ''rf'' @ [CHR 0xC3, CHR 0xA3] @ ''.'')
     (\<lambda>p. rp_status p = 200 \<and> contains_str (rp_body p) ''<EnumerationResults'')
     (plain_evidence ''CLOUD_AZURE_BLOB_LISTABLE'' ''Azure Blob Storage''
        (''O cont'' @ [CHR 0xC3, CHR 0xAA] @ ''iner ou a conta do Azure Blob permite a listagem p'' @ [CHR 0xC3, CHR 0xBA] @ ''blica de arquivos.'') 70 100 [])"

definition gcs_bucket_verifier :: "'w http_env \<Rightarrow> 'w verifier" where
  "gcs_bucket_verifier E = bucket_verifier E ''Google Cloud Storage'' ''storage.googleapis.com'' []
     (\<lambda>p. rp_status p = 404 \<and> contains_str (rp_body p) ''<Code>NoSuchBucket</Code>'')
     (''API p'' @ [CHR 0xC3, CHR 0xBA] @ ''blica do GCS retornou <Code>NoSuchBucket</Code>'')
     (\<lambda>p. rp_status p = 403 \<and> contains_str (rp_body p) ''<Code>AccessDenied</Code>'')
     (mitigating_evidence ''CLOUD_GCS_PRIVATE'' ''Google Cloud Storage''
        (''O bucket GCS existe, mas retornou AccessDenied (n'' @ [CHR 0xC3, CHR 0xA3] @ ''o '' @ [CHR 0xC3, CHR 0xA9] @ '' vulner'' @ [CHR 0xC3, CHR 0xA1] @ ''vel a takeover).'') 50 100 [])
     (''O bucket GCS retornou AccessDenied; portanto, j'' @ [CHR 0xC3, CHR 0xA1] @ '' existe e n'' @ [CHR 0xC3, CHR 0xA3] @ ''o est'' @ [CHR 0xC3, CHR 0xA1] @ '' '' @ [CHR 0xC3, CHR 0xB3] @ ''rf'' @ [CHR 0xC3, CHR 0xA3] @ ''o.'')
     (\<lambda>p. rp_status p = 200 \<and> contains_str (rp_body p) ''<ListBucketResult'')
     (plain_evidence ''CLOUD_GCS_LISTABLE'' ''Google Cloud Storage''
        (''O bucket GCS permite a listagem p'' @ [CHR 0xC3, CHR 0xBA] @ ''blica de arquivos.'') 70 100 [])"

subsection \<open>The choice of verifiers (engine.go)\<close>

definition verifier_cname_hints :: "(string \<times> string list) list" where
  "verifier_cname_hints =
     [(''githubpages'', [''github.io'']),
      (''azure'', [''azurewebsites.net'', ''cloudapp.net'', ''trafficmanager.net'']),
      (''fastly'', [''fastly.net'']),
      (''heroku'', [''herokuapp.com'', ''herokudns.com'']),
      (''zendesk'', [''zendesk.com'']),
      (''shopify'', [''myshopify.com'']),
      (''netlify'', [''netlify.app'', ''netlify.com'']),
      (''vercel'', [''vercel.app'', ''now.sh'']),
      (''wordpress'', [''wordpress.com'']),
      (''tumblr'', [''tumblr.com'']),
      (''bitbucket'', [''bitbucket.io'']),
      (''ghost'', [''ghost.io'']),
      (''readmeio'', [''readme.io'']),
      (''surgesh'', [''surge.sh'']),
      (''pantheon'', [''pantheonsite.io'']),
      (''cargocollective'', [''cargocollective.com'']),
      (''intercom'', [''intercom.help'', ''custom.intercom.help'']),
      (''statuspage'', [''statuspage.io'']),
      (''flyio'', [''fly.dev'']),
      (''awselasticbeanstalk'', [''elasticbeanstalk.com'']),
      (''awscloudfront'', [''cloudfront.net'']),
      (''unbounce'', [''unbouncepages.com'']),
      (''googlecloud'', [''storage.googleapis.com'', ''web.app'', ''firebaseapp.com'']),
      (''awss3'', [''s3.amazonaws.com'']),
      (''azureblobstorage'', [''blob.core.windows.net'']),
      (''googlecloudstorage'', [''storage.googleapis.com'', ''storage.cloud.google.com''])]"

definition verifier_provider_aliases :: "(string \<times> string list) list" where
  "verifier_provider_aliases =
     [(''githubpages'', [''github'', ''githubtakeoverdetection'']),
      (''azure'', [''microsoftazure'']),
      (''googlecloud'', [''gcs'', ''firebasehosting'', ''googlecloudstorage'']),
      (''googlecloudstorage'', [''gcs'', ''googlecloud'']),
      (''awss3'', [''awsbucket''])]"

definition table_entry :: "(string \<times> string list) list \<Rightarrow> string \<Rightarrow> string list" where
  "table_entry t key = (case map_of t key of Some xs \<Rightarrow> xs | None \<Rightarrow> [])"

definition normalized_provider_text :: "go_env \<Rightarrow> string \<Rightarrow> string" where
  "normalized_provider_text G =
     go_map (\<lambda>r. if is_letter G r \<or> is_digit G r then Some (lower_rune G r) else None)"

definition provider_text_matches :: "go_env \<Rightarrow> string \<Rightarrow> string \<Rightarrow> bool" where
  "provider_text_matches G key value =
     (let value_key = normalized_provider_text G value in
      value_key \<noteq> [] \<and> (value_key = key \<or> value_key \<in> set (table_entry verifier_provider_aliases key)))"

definition verifier_matches_analysis :: "go_env \<Rightarrow> string \<Rightarrow> host_analysis \<Rightarrow> bool" where
  "verifier_matches_analysis G name a =
     (let key = normalized_provider_text G name in
      key \<noteq> [] \<and>
      (list_ex (\<lambda>c. provider_text_matches G key (pc_service c) \<or> provider_text_matches G key (pc_provider_id c))
         (ha_provider_candidates a) \<or>
       list_ex (\<lambda>e. provider_text_matches G key (ev_source e)) (ha_evidences a) \<or>
       list_ex (\<lambda>cname. (key = ''awss3'' \<and> is_s3_endpoint G cname) \<or>
           list_ex (match_dns_name G cname) (table_entry verifier_cname_hints key))
         (rs_cname (ha_dns a))))"

definition matching_verifiers :: "go_env \<Rightarrow> 'w verifier list \<Rightarrow> host_analysis \<Rightarrow> 'w verifier list" where
  "matching_verifiers G available a = filter (\<lambda>v. verifier_matches_analysis G (ve_name v) a) available"

definition takeover_verifiers :: "'w http_env \<Rightarrow> 'w verifier list" where
  "takeover_verifiers E =
     [github_pages_verifier E, azure_verifier E, fastly_verifier E, heroku_verifier E,
      zendesk_verifier E, shopify_verifier E, netlify_verifier E, vercel_verifier E,
      wordpress_verifier E, tumblr_verifier E, bitbucket_verifier E, ghost_verifier E,
      readme_verifier E, surge_verifier E, pantheon_verifier E, cargo_verifier E,
      intercom_verifier E, statuspage_verifier E, flyio_verifier E, elastic_beanstalk_verifier,
      aws_cloudfront_verifier E, unbounce_verifier E, google_cloud_verifier E]"

definition cloud_verifiers :: "'w http_env \<Rightarrow> 'w verifier list" where
  "cloud_verifiers E = [aws_s3_verifier E, azure_blob_verifier E, gcs_bucket_verifier E]"

subsection \<open>A run of the engine\<close>

text \<open>
  The goroutines of one tier: any of them that is not over does its next action. The tier ends
  when all are over.
\<close>

inductive tier_step :: "'s \<times> 's run list \<Rightarrow> 's \<times> 's run list \<Rightarrow> bool" where
  tier_act: "i < length rs \<Longrightarrow> rs ! i = Act f k \<Longrightarrow> tier_step (s, rs) (f s, rs[i := k s])"

inductive_cases tier_stepE: "tier_step (s, rs) c"

definition all_over :: "'s run list \<Rightarrow> bool" where
  "all_over rs = list_all (\<lambda>r. case r of Over e \<Rightarrow> True | Act f k \<Rightarrow> False) rs"

definition tier_run :: "'s run list \<Rightarrow> 's \<Rightarrow> 's \<Rightarrow> bool" where
  "tier_run rs s s' \<longleftrightarrow> (\<exists>rs'. tier_step\<^sup>*\<^sup>* (s, rs) (s', rs') \<and> all_over rs')"

text \<open>The critical section at the end of a takeover verifier: the first result is kept.\<close>

definition capped :: "verification_result \<Rightarrow> verification_result" where
  "capped v = (if \<not> vr_control_proven v \<and> vr_confidence v > 90 then v\<lparr>vr_confidence := 90\<rparr> else v)"

definition record_result :: "verification_result \<Rightarrow> host_analysis \<Rightarrow> host_analysis" where
  "record_result v a =
     (case ha_active_verification a of
        Some old \<Rightarrow> a
      | None \<Rightarrow> a\<lparr>ha_active_verification := Some (capped v),
          ha_verification_score := vr_confidence (capped v)\<rparr>)"

definition finish_takeover :: "verify_outcome \<Rightarrow> 'w verify_run" where
  "finish_takeover out =
     (case out of
        Outcome v \<Rightarrow>
          if vr_verified v then Act (\<lambda>(a, w). (record_result v a, w)) (\<lambda>_. Over None) else Over None
      | _ \<Rightarrow> Over None)"

definition takeover_levels :: "string set" where
  "takeover_levels = {''TAKEOVERABLE'', ''LIKELY_TAKEOVERABLE'', ''ORPHANED''}"

definition takeover_tier :: "'w http_env \<Rightarrow> host_analysis \<Rightarrow> 'w verify_run list" where
  "takeover_tier E a =
     (if ha_classification a \<in> takeover_levels
      then map (\<lambda>v. ve_verify v a finish_takeover)
        (matching_verifiers (he_strings E) (takeover_verifiers E) a)
      else [])"

definition cloud_tier :: "'w http_env \<Rightarrow> bool \<Rightarrow> host_analysis \<Rightarrow> 'w verify_run list" where
  "cloud_tier E check_cloud a =
     (if (has_provider_cname (he_strings E) a [''amazonaws.com'', ''core.windows.net'', ''googleapis.com''] \<or>
          has_type (ha_evidences a) ''CLOUD_PROVIDER_MATCH'') \<and> check_cloud
      then map (\<lambda>v. ve_verify v a (\<lambda>_. Over None))
        (matching_verifiers (he_strings E) (cloud_verifiers E) a)
      else [])"

definition mark_cloud :: "bool \<Rightarrow> host_analysis \<Rightarrow> host_analysis" where
  "mark_cloud check_cloud a = (if check_cloud then add_tested_vector ''CLOUD'' a else a)"

inductive engine_run :: "'w http_env \<Rightarrow> bool \<Rightarrow> 'w shared \<Rightarrow> 'w shared \<Rightarrow> bool" for E check_cloud where
  engine_run: "a1 = mark_cloud check_cloud a \<Longrightarrow>
     tier_run (takeover_tier E a1) (a1, w) (a2, w2) \<Longrightarrow>
     tier_run (cloud_tier E check_cloud a2) (a2, w2) s3 \<Longrightarrow>
     engine_run E check_cloud (a, w) s3"

inductive_cases engine_runE: "engine_run E check_cloud (a, w) s"

end
