(* ===== verification/VerifyEngine.thy ===== *)
theory VerifyEngine
  imports Verifiers Confidence GoFloat
begin

section \<open>Revalidation (internal/verify/engine.go)\<close>

text \<open>
  \<open>Engine.Verify\<close> examines again a host from the history and compares the outcome with what was
  stored. It composes the other components: DNS discovery, the registry of collectors, the
  classification, the active verifiers, the confidence. The registry and the verifiers are
  relations, so the whole run is one; its errors are values. The store is a parameter: what
  \<open>SaveSnapshot\<close> answers in the world it finds.
\<close>

datatype state_change =
    Discovered
  | Fixed
  | Improved
  | Regressed
  | Changed
  | Unchanged
  | Incomplete

record verify_result =
  vx_host :: string
  vx_old :: string
  vx_new :: string
  vx_state :: state_change
  vx_analysis :: host_analysis
  vx_reason :: string
  vx_missing :: "string list"
  vx_unexpected :: "string list"

datatype verify_error =
    HistoryMissing
  | DiscoveryFailed string dns_error
  | SrvFailed string dns_error
  | CollectionFailed string string
  | SnapshotFailed string

type_synonym 'w net = "resolver \<times> 'w"

record 'w verify_engine =
  vg_dns :: "'w dns_env"
  vg_collectors :: "'w net shared collector list"
  vg_http :: "'w net http_env"
  vg_check_cloud :: bool
  vg_save :: "host_analysis \<Rightarrow> string \<Rightarrow> 'w net \<Rightarrow> string option \<times> 'w net"
  vg_digest :: string

abbreviation vg_strings :: "'w verify_engine \<Rightarrow> go_env" where
  "vg_strings X \<equiv> de_go (vg_dns X)"

subsection \<open>Can the historical scan be repeated\<close>

definition profile_compatibility_error :: "string \<Rightarrow> scan_profile option \<Rightarrow> string" where
  "profile_compatibility_error digest profile =
     (if digest = [] then []
      else case profile of
        None \<Rightarrow> (''o registro foi criado antes da persist'' @ [CHR 0xC3, CHR 0xAA] @ ''ncia do perfil; execute uma nova varredura antes de revalidar'')
      | Some p \<Rightarrow>
          if sp_version p = 0 then (''o registro foi criado antes da persist'' @ [CHR 0xC3, CHR 0xAA] @ ''ncia do perfil; execute uma nova varredura antes de revalidar'')
          else if sp_version p \<noteq> 1 \<and> sp_version p \<noteq> 2 \<and> sp_version p \<noteq> 3
          then (''a vers'' @ [CHR 0xC3, CHR 0xA3] @ ''o '') @ itoa (sp_version p) @ ('' do perfil hist'' @ [CHR 0xC3, CHR 0xB3] @ ''rico n'' @ [CHR 0xC3, CHR 0xA3] @ ''o '' @ [CHR 0xC3, CHR 0xA9] @ '' suportada'')
          else if sp_signature_digest p = [] \<or> sp_signature_digest p \<noteq> digest
          then (''o cat'' @ [CHR 0xC3, CHR 0xA1] @ ''logo de assinaturas mudou desde a varredura hist'' @ [CHR 0xC3, CHR 0xB3] @ ''rica; execute uma nova varredura de refer'' @ [CHR 0xC3, CHR 0xAA] @ ''ncia'')
          else if sp_check_framing p
          then (''o laborat'' @ [CHR 0xC3, CHR 0xB3] @ ''rio de framing n'' @ [CHR 0xC3, CHR 0xA3] @ ''o '' @ [CHR 0xC3, CHR 0xA9] @ '' repetido automaticamente pela revalida'' @ [CHR 0xC3, CHR 0xA7, CHR 0xC3, CHR 0xA3] @ ''o'')
          else if sp_aggressive p
          then (''a reivindica'' @ [CHR 0xC3, CHR 0xA7, CHR 0xC3, CHR 0xA3] @ ''o autom'' @ [CHR 0xC3, CHR 0xA1] @ ''tica n'' @ [CHR 0xC3, CHR 0xA3] @ ''o '' @ [CHR 0xC3, CHR 0xA9] @ '' repetida pelo comando verify'')
          else [])"

text \<open>\<open>cloneProfile\<close> copies the profile and its lists: the value is the same.\<close>

definition incomplete_result :: "host_analysis \<Rightarrow> string \<Rightarrow> string list \<Rightarrow> string list \<Rightarrow> verify_result" where
  "incomplete_result h reason missing unexpected =
     \<lparr>vx_host = ha_host h, vx_old = ha_classification h, vx_new = ha_classification h,
      vx_state = Incomplete,
      vx_analysis = zero_host_analysis\<lparr>ha_host := ha_host h, ha_classification := ha_classification h,
        ha_scan_profile := ha_scan_profile h, ha_tested_vectors := ha_tested_vectors h\<rparr>,
      vx_reason = reason, vx_missing = missing, vx_unexpected = unexpected\<rparr>"

subsection \<open>Vectors\<close>

text \<open>The set of normalised names, as a list without repetitions; the callers sort what they take.\<close>

definition normalized_vector_set :: "go_env \<Rightarrow> string list \<Rightarrow> string list" where
  "normalized_vector_set G vs =
     dedup_by id {} (filter (\<lambda>v. v \<noteq> []) (map (\<lambda>v. to_upper G (trim_space v)) vs))"

definition vector_differences :: "go_env \<Rightarrow> string list \<Rightarrow> string list \<Rightarrow> string list \<times> string list" where
  "vector_differences G expected actual =
     (let e = normalized_vector_set G expected; a = normalized_vector_set G actual in
      (sort (filter (\<lambda>v. v \<notin> set a) e), sort (filter (\<lambda>v. v \<notin> set e) a)))"

subsection \<open>SRV records\<close>

definition srv_key :: "srv_record \<Rightarrow> string" where
  "srv_key r = srv_owner r @ ''|'' @ nat_dec (unat (srv_priority r)) @ ''|'' @ nat_dec (unat (srv_weight r)) @
     ''|'' @ nat_dec (unat (srv_port r)) @ ''|'' @ srv_target r"

definition merge_srv_records :: "srv_record list \<Rightarrow> srv_record list \<Rightarrow> srv_record list" where
  "merge_srv_records existing additional = dedup_by srv_key {} (existing @ additional)"

definition srv_text :: "srv_record \<Rightarrow> string" where
  "srv_text r = srv_target r @ '':'' @ nat_dec (unat (srv_port r))"

definition with_srv_records :: "srv_record list \<Rightarrow> dns_record_set \<Rightarrow> dns_record_set" where
  "with_srv_records records d =
     (let merged = merge_srv_records (rs_srv_records d) records in
      d\<lparr>rs_srv_records := merged, rs_srv := map srv_text merged\<rparr>)"

definition wants_srv :: "host_analysis \<Rightarrow> bool" where
  "wants_srv h \<longleftrightarrow>
     (case ha_scan_profile h of None \<Rightarrow> False | Some p \<Rightarrow> sp_check_srv p) \<and> \<not> prefix ''_'' (ha_host h)"

definition srv_base :: "go_env \<Rightarrow> bool \<Rightarrow> string \<Rightarrow> string" where
  "srv_base G exhaustive host =
     (let base = extract_root_domain G host in if exhaustive \<or> base = [] then host else base)"

text \<open>The DNS records of the host; \<open>order\<close> is the order in which the questions come back.\<close>

definition discover_records ::
  "'w dns_env \<Rightarrow> nat list \<Rightarrow> host_analysis \<Rightarrow> ('w, verify_error + dns_record_set) dns"
where
  "discover_records E order h = do {
     (records, err) \<leftarrow> discover_profile E order (ha_host h);
     case err of
       Some e \<Rightarrow> ret (Inl (DiscoveryFailed (ha_host h) e))
     | None \<Rightarrow>
         if wants_srv h then do {
           let p = the (ha_scan_profile h);
           found \<leftarrow> discover_common_srv E (srv_base (de_go E) (sp_srv_exhaustive p) (ha_host h)) (sp_srv_owners p);
           ret (case found of
             Inl e \<Rightarrow> Inl (SrvFailed (ha_host h) e)
           | Inr srvs \<Rightarrow> Inr (with_srv_records srvs records))
         }
         else ret (Inr records)
   }"

definition fresh_analysis :: "host_analysis \<Rightarrow> dns_record_set \<Rightarrow> host_analysis" where
  "fresh_analysis h records =
     zero_host_analysis\<lparr>ha_host := ha_host h, ha_dns := records, ha_classification := LevelUnknown,
       ha_scan_profile := ha_scan_profile h, ha_previous_evidences := ha_evidences h\<rparr>"

subsection \<open>After the verifiers\<close>

definition reclassify :: "go_env \<Rightarrow> host_analysis \<Rightarrow> host_analysis" where
  "reclassify G a =
     (if ha_verification_score a > 0
      then case classify G a of (b, level) \<Rightarrow> b\<lparr>ha_classification := level\<rparr>
      else a)"

text \<open>
  The age in days, as the code computes it: \<open>time.Since\<close> saturates at the bounds of an \<open>int64\<close>,
  \<open>Hours()\<close> adds the whole hours and the fraction in floating point.
\<close>

abbreviation nanos_per_hour :: int where "nanos_per_hour \<equiv> 3600000000000"

definition since :: "time \<Rightarrow> time \<Rightarrow> int" where
  "since now t = max (- (2 ^ 63)) (min (2 ^ 63 - 1) (now - t))"

definition days_of :: "int \<Rightarrow> rat" where
  "days_of d =
     (let hour = go_div d nanos_per_hour; nsec = d - hour * nanos_per_hour in
      fl64 (fl64 (of_int hour + fl64 (of_int nsec / of_int nanos_per_hour)) / 24))"

definition long_lived :: "time \<Rightarrow> host_analysis \<Rightarrow> host_analysis \<Rightarrow> host_analysis" where
  "long_lived now h a =
     (if ha_first_seen h \<noteq> 0 \<and> days_of (since now (ha_first_seen h)) \<ge> 30 \<and>
         ha_classification a \<in> {LevelOrphaned, LevelLikelyTakeoverable, LevelTakeoverable}
      then add_evidence (plain_evidence ''LONG_LIVED_ORPHAN'' ''HISTORY''
        ((''O host permanece vulner'' @ [CHR 0xC3, CHR 0xA1] @ ''vel ou abandonado h'' @ [CHR 0xC3, CHR 0xA1] @ '' '') @
         itoa (round_half_even (days_of (since now (ha_first_seen h)))) @ '' dias'') 0 0 []) a
      else a)"

text \<open>What follows the active verification: the level, the age and the confidence.\<close>

definition conclude :: "go_env \<Rightarrow> time \<Rightarrow> host_analysis \<Rightarrow> host_analysis \<Rightarrow> host_analysis" where
  "conclude G now h a = fst (calculate (long_lived now h (reclassify G a)))"

subsection \<open>Transitions\<close>

definition determine_state_change :: "string \<Rightarrow> string \<Rightarrow> state_change" where
  "determine_state_change old new =
     (if old = new then Unchanged
      else if new = LevelHealthy then Fixed
      else if risk_rank new > risk_rank old then Regressed
      else if risk_rank new < risk_rank old then Improved
      else Changed)"

definition get_transition_severity :: "string \<Rightarrow> string \<Rightarrow> string" where
  "get_transition_severity old new =
     (if old = new then ''NONE''
      else if risk_rank new \<le> risk_rank old then ''LOW''
      else if risk_rank new \<ge> risk_rank LevelTakeoverable then ''CRITICAL''
      else if risk_rank new \<ge> risk_rank LevelOrphaned then ''HIGH''
      else ''MEDIUM'')"

definition get_transition_reason :: "host_analysis \<Rightarrow> string \<Rightarrow> string" where
  "get_transition_reason a old =
     (if old = [] then ''Descoberta inicial''
      else if ha_classification a = LevelHealthy
      then (''O host foi corrigido ou os recursos '' @ [CHR 0xC3, CHR 0xB3] @ ''rf'' @ [CHR 0xC3, CHR 0xA3] @ ''os foram removidos'')
      else if ha_verification_score a = 100 \<and>
        (case ha_active_verification a of
           None \<Rightarrow> False | Some v \<Rightarrow> vr_verified v \<and> vr_control_proven v)
      then (''A verifica'' @ [CHR 0xC3, CHR 0xA7, CHR 0xC3, CHR 0xA3] @ ''o ativa comprovou o controle do recurso'')
      else case ha_unknown_provider a of
        Some u \<Rightarrow> (''Dom'' @ [CHR 0xC3, CHR 0xAD] @ ''nio raiz desconhecido detectado: '') @ up_root_domain u
      | None \<Rightarrow> (''Vulnerabilidade ou configura'' @ [CHR 0xC3, CHR 0xA7, CHR 0xC3, CHR 0xA3] @ ''o incorreta identificada pelas assinaturas''))"

definition transition_result :: "host_analysis \<Rightarrow> host_analysis \<Rightarrow> verify_result" where
  "transition_result h a =
     \<lparr>vx_host = ha_host h, vx_old = ha_classification h, vx_new = ha_classification a,
      vx_state = determine_state_change (ha_classification h) (ha_classification a),
      vx_analysis = a, vx_reason = [], vx_missing = [], vx_unexpected = []\<rparr>"

text \<open>The end of \<open>Verify\<close>: the comparison of the vectors and the snapshot.\<close>

definition must_save :: "host_analysis \<Rightarrow> host_analysis \<Rightarrow> bool" where
  "must_save h a \<longleftrightarrow>
     determine_state_change (ha_classification h) (ha_classification a) \<noteq> Unchanged \<or>
     ha_classification h = []"

definition compare_and_save ::
  "'w verify_engine \<Rightarrow> host_analysis \<Rightarrow> host_analysis \<Rightarrow> 'w net \<Rightarrow> (verify_error + verify_result) \<times> 'w net"
where
  "compare_and_save X h a s =
     (case vector_differences (vg_strings X) (ha_tested_vectors h) (ha_tested_vectors a) of
        (missing, unexpected) \<Rightarrow>
          if missing \<noteq> [] \<or> unexpected \<noteq> []
          then (Inr (incomplete_result h (''a cobertura efetiva difere da varredura hist'' @ [CHR 0xC3, CHR 0xB3] @ ''rica'') missing unexpected), s)
          else if must_save h a
          then (case vg_save X a (get_transition_reason a (ha_classification h)) s of
                  (Some e, s') \<Rightarrow> (Inl (SnapshotFailed e), s')
                | (None, s') \<Rightarrow> (Inr (transition_result h a), s'))
          else (Inr (transition_result h a), s))"

subsection \<open>A run\<close>

inductive verify_run ::
  "'w verify_engine \<Rightarrow> host_analysis option \<Rightarrow> 'w net \<Rightarrow> verify_error + verify_result \<Rightarrow> 'w net \<Rightarrow> bool"
  for X
where
  no_history: "verify_run X None s (Inl HistoryMissing) s"
| incompatible: "profile_compatibility_error (vg_digest X) (ha_scan_profile h) = reason \<Longrightarrow> reason \<noteq> [] \<Longrightarrow>
     verify_run X (Some h) s (Inr (incomplete_result h reason [] [])) s"
| discovery_failed: "profile_compatibility_error (vg_digest X) (ha_scan_profile h) = [] \<Longrightarrow>
     mset order = mset [0 ..< length (profile_tasks (vg_dns X) (ha_host h))] \<Longrightarrow>
     run_state (discover_records (vg_dns X) order h) s = (Inl e, s1) \<Longrightarrow>
     verify_run X (Some h) s (Inl e) s1"
| collection_failed: "profile_compatibility_error (vg_digest X) (ha_scan_profile h) = [] \<Longrightarrow>
     mset order = mset [0 ..< length (profile_tasks (vg_dns X) (ha_host h))] \<Longrightarrow>
     run_state (discover_records (vg_dns X) order h) s = (Inr records, s1) \<Longrightarrow>
     registry_run (vg_collectors X) (fresh_analysis h records, s1) (a2, s2) (Some e) \<Longrightarrow>
     verify_run X (Some h) s (Inl (CollectionFailed (ha_host h) e)) s2"
| compared: "profile_compatibility_error (vg_digest X) (ha_scan_profile h) = [] \<Longrightarrow>
     mset order = mset [0 ..< length (profile_tasks (vg_dns X) (ha_host h))] \<Longrightarrow>
     run_state (discover_records (vg_dns X) order h) s = (Inr records, s1) \<Longrightarrow>
     registry_run (vg_collectors X) (fresh_analysis h records, s1) (a2, s2) None \<Longrightarrow>
     engine_run (vg_http X) (vg_check_cloud X) (process_analysis (vg_strings X) t1 t2 a2, s2) (a3, s3) \<Longrightarrow>
     compare_and_save X h (conclude (vg_strings X) now h a3) s3 = (out, s4) \<Longrightarrow>
     verify_run X (Some h) s out s4"

inductive_cases verify_runE: "verify_run X (Some h) s out s'"

end
