(* ===== verification/VerifierProps.thy ===== *)
theory VerifierProps
  imports Verifiers
begin

section \<open>What active verification can and cannot do\<close>

text \<open>
  Invariants are carried through a tier by the actions of its goroutines: if every action of every
  run keeps \<open>I\<close>, so does the tier, under any schedule. The second part shows that every schedule
  ends.
\<close>

subsection \<open>A tier keeps what its actions keep\<close>

locale kept_tier =
  fixes I :: "'s \<Rightarrow> bool" and rs :: "'s run list"
  assumes kept: "r \<in> set rs \<Longrightarrow> acts_keep I r"
begin

lemma steps_keep:
  "tier_step\<^sup>*\<^sup>* (s, rs) c \<Longrightarrow> I s \<Longrightarrow> I (fst c) \<and> list_all (acts_keep I) (snd c)"
proof (induction rule: rtranclp_induct)
  case base
  then show ?case using kept by (simp add: list_all_iff)
next
  case (step b c)
  obtain s1 rs1 where b: "b = (s1, rs1)" by (rule prod.exhaust)
  from step.hyps(2) [unfolded b] obtain i f k where
    c: "c = (f s1, rs1[i := k s1])" and i: "i < length rs1" "rs1 ! i = Act f k"
    by (rule tier_stepE) auto
  have "I s1" and all: "list_all (acts_keep I) rs1" using step.IH step.prems b by auto
  moreover have "acts_keep I (Act f k)" using all i by (metis list_all_length)
  ultimately show ?case unfolding c by (simp add: list_all_update)
qed

lemma run_keeps: "tier_run rs s s' \<Longrightarrow> I s \<Longrightarrow> I s'"
  unfolding tier_run_def using steps_keep by fastforce

end

subsection \<open>The actions of a verifier\<close>

text \<open>An invariant of the analysis, whatever the rest of the world does.\<close>

abbreviation of_analysis :: "(host_analysis \<Rightarrow> bool) \<Rightarrow> 'w shared \<Rightarrow> bool" where
  "of_analysis J s \<equiv> J (fst s)"

named_theorems verifier_intros \<open>what the runs of verifiers keep\<close>

lemma over_keeps [verifier_intros]: "acts_keep I (Over e)"
  by simp

lemma do_request_keeps [verifier_intros]:
  "(\<And>r. acts_keep (of_analysis J) (k r)) \<Longrightarrow> acts_keep (of_analysis J) (do_request E url k)"
  by (simp add: do_request_def split_beta)

lemma fetch_page_keeps [verifier_intros]:
  "(\<And>r. acts_keep (of_analysis J) (k r)) \<Longrightarrow> acts_keep (of_analysis J) (fetch_page E host k)"
  unfolding fetch_page_def by (auto intro!: do_request_keeps split: option.split)

lemma add_cloud_keeps:
  "(\<And>a. J a \<Longrightarrow> J (add_evidence ev a)) \<Longrightarrow> acts_keep (of_analysis J) r \<Longrightarrow>
   acts_keep (of_analysis J) (add_cloud_evidence ev r)"
  by (auto simp: add_cloud_evidence_def)

lemma page_verifier_keeps:
  assumes "acts_keep (of_analysis J) (k VerifyFailed)" "acts_keep (of_analysis J) (k Nothing)"
    "\<And>n c ev. acts_keep (of_analysis J) (k (Outcome (matched n c ev)))"
  shows "acts_keep (of_analysis J) (ve_verify (page_verifier E name guard cond confidence evidence) a k)"
  using assms by (auto simp: page_verifier_def intro!: fetch_page_keeps split: option.split)

lemmas page_verifier_defs =
  github_pages_verifier_def azure_verifier_def fastly_verifier_def heroku_verifier_def
  zendesk_verifier_def shopify_verifier_def netlify_verifier_def vercel_verifier_def
  wordpress_verifier_def tumblr_verifier_def bitbucket_verifier_def ghost_verifier_def
  readme_verifier_def surge_verifier_def pantheon_verifier_def cargo_verifier_def
  intercom_verifier_def statuspage_verifier_def flyio_verifier_def aws_cloudfront_verifier_def
  unbounce_verifier_def google_cloud_verifier_def

lemma takeover_verifier_keeps:
  assumes "v \<in> set (takeover_verifiers E)"
    and "acts_keep (of_analysis J) (k VerifyFailed)" "acts_keep (of_analysis J) (k Nothing)"
    and "\<And>n c ev. acts_keep (of_analysis J) (k (Outcome (matched n c ev)))"
  shows "acts_keep (of_analysis J) (ve_verify v a k)"
proof -
  note page = page_verifier_keeps [OF assms(2,3,4)]
  have beanstalk: "acts_keep (of_analysis J) (ve_verify elastic_beanstalk_verifier a k)"
    using assms(3,4) by (simp add: elastic_beanstalk_verifier_def)
  have "\<forall>v \<in> set (takeover_verifiers E). acts_keep (of_analysis J) (ve_verify v a k)"
    unfolding takeover_verifiers_def list.set ball_simps page_verifier_defs
    by (intro conjI page beanstalk TrueI)
  then show ?thesis using assms(1) by blast
qed

definition cloud_type :: "evidence \<Rightarrow> bool" where
  "cloud_type e \<longleftrightarrow> prefix ''CLOUD_'' (ev_type e)"

lemma s3_cloud_types [simp]: "cloud_type s3_writable" "cloud_type s3_private" "cloud_type s3_listable"
  by (simp_all add: cloud_type_def s3_writable_def s3_private_def s3_listable_def plain_evidence_def
      mitigating_evidence_def)

lemma plain_cloud_type [simp]: "cloud_type (plain_evidence t src d w c m) \<longleftrightarrow> prefix ''CLOUD_'' t"
  "cloud_type (mitigating_evidence t src d w c m) \<longleftrightarrow> prefix ''CLOUD_'' t"
  by (simp_all add: cloud_type_def plain_evidence_def mitigating_evidence_def)

lemma cloud_verifier_keeps:
  assumes "v \<in> set (cloud_verifiers E)"
    and add: "\<And>ev a. cloud_type ev \<Longrightarrow> J a \<Longrightarrow> J (add_evidence ev a)"
  shows "acts_keep (of_analysis J) (ve_verify v a (\<lambda>_. Over None))"
proof -
  note cloud = add_cloud_keeps [of J, OF add]
  have acl: "acts_keep (of_analysis J) (s3_acl_check E host (\<lambda>_. Over None))" for host
    unfolding s3_acl_check_def Let_def by (auto intro!: do_request_keeps cloud split: option.split)
  have bucket: "acts_keep (of_analysis J)
      (ve_verify (bucket_verifier E n p path missing mt prv pe pt listing le) a (\<lambda>_. Over None))"
    if "cloud_type pe" "cloud_type le" for n p path missing mt prv pe pt listing le
    using that unfolding bucket_verifier_def Let_def
    by (auto intro!: do_request_keeps cloud split: option.split)
  have s3: "acts_keep (of_analysis J) (ve_verify (aws_s3_verifier E) a (\<lambda>_. Over None))"
    unfolding aws_s3_verifier_def by (auto intro!: do_request_keeps cloud acl split: option.split)
  have azure: "acts_keep (of_analysis J) (ve_verify (azure_blob_verifier E) a (\<lambda>_. Over None))"
    unfolding azure_blob_verifier_def by (rule bucket) simp_all
  have gcs: "acts_keep (of_analysis J) (ve_verify (gcs_bucket_verifier E) a (\<lambda>_. Over None))"
    unfolding gcs_bucket_verifier_def by (rule bucket) simp_all
  show ?thesis using assms(1) s3 azure gcs by (auto simp: cloud_verifiers_def)
qed

lemma takeover_tier_keeps:
  assumes "\<And>n c ev b. J b \<Longrightarrow> J (record_result (matched n c ev) b)"
  shows "kept_tier (of_analysis J) (takeover_tier E a)"
proof
  fix r
  assume "r \<in> set (takeover_tier E a)"
  then obtain v where v: "v \<in> set (takeover_verifiers E)" "r = ve_verify v a finish_takeover"
    by (auto simp: takeover_tier_def matching_verifiers_def split: if_splits)
  show "acts_keep (of_analysis J) r"
    unfolding v(2) by (rule takeover_verifier_keeps [OF v(1)]) (auto simp: finish_takeover_def assms)
qed

lemma cloud_tier_keeps:
  assumes "\<And>ev b. cloud_type ev \<Longrightarrow> J b \<Longrightarrow> J (add_evidence ev b)"
  shows "kept_tier (of_analysis J) (cloud_tier E check_cloud a)"
proof
  fix r
  assume "r \<in> set (cloud_tier E check_cloud a)"
  then obtain v where v: "v \<in> set (cloud_verifiers E)" "r = ve_verify v a (\<lambda>_. Over None)"
    by (auto simp: cloud_tier_def matching_verifiers_def split: if_splits)
  show "acts_keep (of_analysis J) r"
    unfolding v(2) using v(1) assms by (rule cloud_verifier_keeps)
qed

subsection \<open>The invariants\<close>

definition sober :: "host_analysis \<Rightarrow> bool" where
  "sober b \<longleftrightarrow> \<not> control_proven b \<and> ha_verification_score b \<le> 90"

definition beyond_evidence :: "host_analysis \<Rightarrow> host_analysis \<Rightarrow> bool" where
  "beyond_evidence a0 b \<longleftrightarrow>
     (\<exists>es act sc. list_all cloud_type es \<and>
        b = a0\<lparr>ha_evidences := ha_evidences a0 @ es, ha_active_verification := act, ha_verification_score := sc\<rparr>)"

definition same_verification :: "host_analysis \<Rightarrow> host_analysis \<Rightarrow> bool" where
  "same_verification a0 b \<longleftrightarrow> ha_active_verification b = ha_active_verification a0 \<and>
     ha_verification_score b = ha_verification_score a0"

definition same_evidences :: "host_analysis \<Rightarrow> host_analysis \<Rightarrow> bool" where
  "same_evidences a0 b \<longleftrightarrow> ha_evidences b = ha_evidences a0"

lemma capped_matched: "vr_confidence (capped (matched n c ev)) \<le> 90"
  "\<not> vr_control_proven (capped (matched n c ev))"
  by (simp_all add: capped_def matched_def zero_verification_result_def)

lemma sober_record: "sober b \<Longrightarrow> sober (record_result (matched n c ev) b)"
  using capped_matched [of n c ev] by (auto simp: sober_def record_result_def control_proven_def split: option.split)

lemma sober_add: "sober b \<Longrightarrow> sober (add_evidence ev b)"
  by (simp add: sober_def add_evidence_def control_proven_def)

lemma beyond_evidenceI:
  "list_all cloud_type es \<Longrightarrow>
   b = a0\<lparr>ha_evidences := ha_evidences a0 @ es, ha_active_verification := act, ha_verification_score := sc\<rparr> \<Longrightarrow>
   beyond_evidence a0 b"
  unfolding beyond_evidence_def by blast

lemma beyond_record:
  assumes "beyond_evidence a0 b"
  shows "beyond_evidence a0 (record_result v b)"
proof (cases "ha_active_verification b")
  case None
  obtain es act sc where b: "list_all cloud_type es"
    "b = a0\<lparr>ha_evidences := ha_evidences a0 @ es, ha_active_verification := act, ha_verification_score := sc\<rparr>"
    using assms by (auto simp: beyond_evidence_def)
  have "record_result v b = a0\<lparr>ha_evidences := ha_evidences a0 @ es,
      ha_active_verification := Some (capped v), ha_verification_score := vr_confidence (capped v)\<rparr>"
    using None unfolding b(2) by (simp add: record_result_def)
  then show ?thesis by (rule beyond_evidenceI [OF b(1)])
qed (simp add: record_result_def assms)

lemma beyond_add:
  assumes "cloud_type ev" "beyond_evidence a0 b"
  shows "beyond_evidence a0 (add_evidence ev b)"
proof -
  obtain es act sc where b: "list_all cloud_type es"
    "b = a0\<lparr>ha_evidences := ha_evidences a0 @ es, ha_active_verification := act, ha_verification_score := sc\<rparr>"
    using assms(2) by (auto simp: beyond_evidence_def)
  show ?thesis by (rule beyond_evidenceI [where es = "es @ [ev]" and act = act and sc = sc]) (use b assms(1) in \<open>simp_all add: add_evidence_def\<close>)
qed

interpretation sober_takeover: kept_tier "of_analysis sober" "takeover_tier E a" for E a
  by (rule takeover_tier_keeps) (rule sober_record)

interpretation sober_cloud: kept_tier "of_analysis sober" "cloud_tier E check_cloud a" for E check_cloud a
  by (rule cloud_tier_keeps) (rule sober_add)

interpretation frame_takeover: kept_tier "of_analysis (beyond_evidence a0)" "takeover_tier E a" for a0 E a
  by (rule takeover_tier_keeps) (rule beyond_record)

interpretation frame_cloud: kept_tier "of_analysis (beyond_evidence a0)" "cloud_tier E check_cloud a"
  for a0 E check_cloud a
  by (rule cloud_tier_keeps) (rule beyond_add)

interpretation quiet_cloud: kept_tier "of_analysis (same_verification a0)" "cloud_tier E check_cloud a"
  for a0 E check_cloud a
  by (rule cloud_tier_keeps) (simp add: same_verification_def add_evidence_def)

interpretation quiet_takeover: kept_tier "of_analysis (same_evidences a0)" "takeover_tier E a" for a0 E a
  by (rule takeover_tier_keeps) (simp add: same_evidences_def record_result_def split: option.split)

lemma tier_run_Nil [simp]: "tier_run [] s s' \<longleftrightarrow> s' = s"
proof
  assume "tier_run [] s s'"
  then obtain rs where "tier_step\<^sup>*\<^sup>* (s, []) (s', rs)" by (auto simp: tier_run_def)
  then show "s' = s" by (cases rule: converse_rtranclpE) (auto elim: tier_stepE)
next
  show "s' = s \<Longrightarrow> tier_run [] s s'" by (auto simp: tier_run_def all_over_def)
qed

text \<open>One goroutine alone runs to its end.\<close>

lemma tier_run_single: "tier_run [r] s (fst (complete r s))"
proof (induction r arbitrary: s)
  case (Over e)
  then show ?case by (auto simp: tier_run_def all_over_def)
next
  case (Act f k)
  have "tier_step (s, [Act f k]) (f s, [k s])" using tier_act [of 0 "[Act f k]" f k s] by simp
  moreover have "tier_run [k s] (f s) (fst (complete (k s) (f s)))" by (rule Act) simp
  ultimately show ?case by (auto simp: tier_run_def intro: converse_rtranclp_into_rtranclp)
qed

subsection \<open>Every schedule ends\<close>

definition tier_order :: "(('s \<times> 's run list) \<times> ('s \<times> 's run list)) set" where
  "tier_order = inv_image (mult continues_rel) (\<lambda>(s, rs). mset rs)"

lemma tier_order_wf: "wf tier_order"
  using continues_wf by (auto simp: tier_order_def continues_rel_def wfp_def intro!: wf_inv_image wf_mult)

lemma tier_step_less:
  assumes "tier_step c c'"
  shows "(c', c) \<in> tier_order"
  using assms
proof cases
  case (tier_act i rs f k s)
  have "(k s, Act f k) \<in> continues_rel" by (auto simp: continues_rel_def continues_Act)
  then show ?thesis
    using tier_act mset_split_nth [of i rs] mset_update_nth [of i rs "k s"]
    by (simp add: tier_order_def mult_replace)
qed

lemma tier_progress:
  assumes "\<not> all_over rs"
  shows "\<exists>c. tier_step (s, rs) c"
proof -
  obtain r where r: "r \<in> set rs" "\<not> (case r of Over e \<Rightarrow> True | Act f k \<Rightarrow> False)"
    using assms by (auto simp: all_over_def list_all_iff)
  obtain f k where "r = Act f k" using r(2) by (cases r) auto
  then show ?thesis using r(1) tier_act by (metis in_set_conv_nth)
qed

lemma tier_finishes:
  fixes rs :: "'s run list"
  shows "\<exists>s'. tier_run rs s s'"
proof -
  have "\<exists>s' rs'. tier_step\<^sup>*\<^sup>* c (s', rs') \<and> all_over rs'" for c :: "'s \<times> 's run list"
  proof (induction c rule: wf_induct_rule [OF tier_order_wf])
    case (1 c)
    obtain s rs where c: "c = (s, rs)" by (rule prod.exhaust)
    show ?case
    proof (cases "all_over rs")
      case False
      then obtain c' where step: "tier_step c c'" using tier_progress [OF False, of s] unfolding c by blast
      obtain s' rs' where "tier_step\<^sup>*\<^sup>* c' (s', rs')" "all_over rs'"
        using 1 [OF tier_step_less [OF step]] by blast
      then show ?thesis using converse_rtranclp_into_rtranclp [of tier_step, OF step] by blast
    qed (use c in blast)
  qed
  from this [of "(s, rs)"] show ?thesis by (simp add: tier_run_def)
qed

lemma no_infinite_tier: "\<not> (\<forall>n. tier_step (f n) (f (Suc n)))"
  using wf_no_infinite_down_chainE [OF tier_order_wf, of f] tier_step_less by blast

lemma engine_finishes: "\<exists>s'. engine_run E check_cloud (a, w) s'"
proof -
  let ?a1 = "mark_cloud check_cloud a"
  obtain s2 where s2: "tier_run (takeover_tier E ?a1) (?a1, w) s2" using tier_finishes [of _ "(?a1, w)"] by blast
  obtain a2 w2 where "s2 = (a2, w2)" by (rule prod.exhaust)
  then show ?thesis
    using s2 tier_finishes [of "cloud_tier E check_cloud a2" s2] by (blast intro: engine_run.intros)
qed

subsection \<open>Properties\<close>

lemma classify_confirmed: "classify_level G a = LevelConfirmed \<Longrightarrow> control_proven a"
  by (auto simp: classify_level_def Let_def split: if_splits)

lemma sober_mark: "sober (mark_cloud check_cloud a) = sober a"
  by (simp add: mark_cloud_def add_tested_vector_def sober_def control_proven_def)

text \<open>C5. Active verification never proves control: started on an analysis without a verification,
  the engine ends, under every schedule and for every client, with a score of at most ninety and
  no proof of control, so the classifier never reports a confirmed takeover because of it.\<close>

theorem engine_never_proves_control:
  assumes "engine_run E check_cloud (a, w) (a', w')"
    and "ha_active_verification a = None" and "ha_verification_score a = 0"
  shows "\<not> control_proven a' \<and> ha_verification_score a' \<le> 90 \<and> classify_level G a' \<noteq> LevelConfirmed"
proof -
  have "sober (mark_cloud check_cloud a)"
    unfolding sober_mark using assms(2,3) by (simp add: sober_def control_proven_def)
  then have "of_analysis sober (a', w')"
    using assms(1) by (elim engine_runE) (auto dest!: sober_takeover.run_keeps sober_cloud.run_keeps)
  then show ?thesis using classify_confirmed [of G a'] by (auto simp: sober_def)
qed

lemma engine_adds:
  assumes "engine_run E check_cloud (a, w) (a', w')"
  shows "\<exists>es act sc. list_all cloud_type es \<and> (check_cloud \<or> es = []) \<and>
     a' = (mark_cloud check_cloud a)\<lparr>ha_evidences := ha_evidences a @ es,
       ha_active_verification := act, ha_verification_score := sc\<rparr>"
proof -
  let ?a1 = "mark_cloud check_cloud a"
  have evs [simp]: "ha_evidences (mark_cloud b a) = ha_evidences a" for b
    by (simp add: mark_cloud_def add_tested_vector_def)
  from assms obtain a2 w2 where tier1: "tier_run (takeover_tier E ?a1) (?a1, w) (a2, w2)"
    and tier2: "tier_run (cloud_tier E check_cloud a2) (a2, w2) (a', w')" by (auto elim: engine_runE)
  have "beyond_evidence ?a1 ?a1" by (rule beyond_evidenceI [where es = "[]" and act = "ha_active_verification ?a1"
      and sc = "ha_verification_score ?a1"]) simp_all
  then have beyond: "beyond_evidence ?a1 a'"
    using frame_cloud.run_keeps [OF tier2] frame_takeover.run_keeps [OF tier1] by simp
  have "ha_evidences a' = ha_evidences a" if "\<not> check_cloud"
    using that tier2 quiet_takeover.run_keeps [OF tier1, of ?a1]
    by (simp add: cloud_tier_def same_evidences_def)
  moreover obtain es act sc where a': "list_all cloud_type es"
    "a' = ?a1\<lparr>ha_evidences := ha_evidences a @ es, ha_active_verification := act, ha_verification_score := sc\<rparr>"
    using beyond by (auto simp: beyond_evidence_def)
  ultimately have "check_cloud \<or> es = []" by auto
  then show ?thesis using a' by blast
qed

text \<open>A run of the engine only adds: the analysis it returns is the one it got, with the vector
  CLOUD when clouds are checked, evidence of cloud storage at the end (none when they are not),
  and another verification; host, records, level and all the rest are untouched.\<close>

theorem engine_frame:
  assumes "engine_run E check_cloud (a, w) (a', w')"
  shows "\<exists>es act sc. list_all cloud_type es \<and> (check_cloud \<or> es = []) \<and>
     a' = (mark_cloud check_cloud a)\<lparr>ha_evidences := ha_evidences a @ es,
       ha_active_verification := act, ha_verification_score := sc\<rparr>"
  using assms by (rule engine_adds)

lemma engine_quiet:
  assumes "engine_run E check_cloud (a, w) (a', w')" and "ha_classification a \<notin> takeover_levels"
  shows "same_verification a a'"
proof -
  let ?a1 = "mark_cloud check_cloud a"
  have same: "ha_classification ?a1 = ha_classification a" "same_verification a ?a1"
    by (simp_all add: mark_cloud_def add_tested_vector_def same_verification_def)
  then have "takeover_tier E ?a1 = []" using assms(2) by (simp add: takeover_tier_def)
  then have "tier_run (cloud_tier E check_cloud ?a1) (?a1, w) (a', w')"
    using assms(1) by (auto elim: engine_runE)
  then show ?thesis using quiet_cloud.run_keeps [of E check_cloud ?a1 _ _ a] same(2) by fastforce
qed

text \<open>Only a suspect is verified: when the level is none of the three levels of takeover, no run
  of the engine changes the verification or its score. The verifiers of storage look for missing
  buckets too, but what they return is dropped.\<close>

theorem verification_for_suspects_only:
  assumes "engine_run E check_cloud (a, w) (a', w')" and "ha_classification a \<notin> takeover_levels"
  shows "ha_active_verification a' = ha_active_verification a \<and>
     ha_verification_score a' = ha_verification_score a"
  using engine_quiet [OF assms] by (simp add: same_verification_def)

text \<open>A run of the engine always returns, and no schedule of a tier goes on for ever.\<close>

theorem verification_always_returns:
  "(\<exists>s'. engine_run E check_cloud (a, w) s') \<and>
   \<not> (\<exists>f. f 0 = (s, rs) \<and> (\<forall>n. tier_step (f n) (f (Suc n))))"
  using engine_finishes [of E check_cloud a w] no_infinite_tier by auto

subsection \<open>Witnesses\<close>

text \<open>A client that answers every request with a page of GitHub, and an orphan that points at
  Elastic Beanstalk.\<close>

definition sample_client :: "unit http_env" where
  "sample_client = \<lparr>he_strings = ascii_env,
     he_do = (\<lambda>url w. (Some \<lparr>rp_status = 404, rp_headers = [],
       rp_body = ''There isn'' @ [CHR 0x27] @ ''t a GitHub Pages site here.''\<rparr>, w))\<rparr>"

definition sample_orphan :: host_analysis where
  "sample_orphan = zero_host_analysis\<lparr>ha_host := ''a.test'',
     ha_dns := zero_dns_record_set\<lparr>rs_cname := [''b.elasticbeanstalk.com'']\<rparr>,
     ha_classification := LevelOrphaned\<rparr>"

lemma sample_orphan_clean [simp]: "ha_active_verification sample_orphan = None"
  "ha_verification_score sample_orphan = 0" "ha_classification sample_orphan = LevelOrphaned"
  by (simp_all add: sample_orphan_def zero_host_analysis_def)

lemma sample_run:
  obtains a' w' where "engine_run sample_client True (sample_orphan, ()) (a', w')"
  using engine_finishes [of sample_client True sample_orphan "()"] by auto

theorem engine_never_proves_control_witness:
  "\<exists>a' w'. engine_run sample_client True (sample_orphan, ()) (a', w') \<and>
     \<not> control_proven a' \<and> ha_verification_score a' \<le> 90 \<and> classify_level ascii_env a' \<noteq> LevelConfirmed"
proof -
  obtain a' w' where run: "engine_run sample_client True (sample_orphan, ()) (a', w')" by (rule sample_run)
  then show ?thesis using engine_never_proves_control [OF run, of ascii_env] by auto
qed

theorem engine_frame_witness:
  "\<exists>a' w' es act sc. engine_run sample_client True (sample_orphan, ()) (a', w') \<and> list_all cloud_type es \<and>
     a' = (mark_cloud True sample_orphan)\<lparr>ha_evidences := ha_evidences sample_orphan @ es,
       ha_active_verification := act, ha_verification_score := sc\<rparr>"
proof -
  obtain a' w' where run: "engine_run sample_client True (sample_orphan, ()) (a', w')" by (rule sample_run)
  then show ?thesis using engine_frame [OF run] by blast
qed

theorem verification_for_suspects_only_witness:
  "\<exists>a' w'. engine_run sample_client True (zero_host_analysis, ()) (a', w') \<and> ha_verification_score a' = 0"
proof -
  obtain a' w' where run: "engine_run sample_client True (zero_host_analysis, ()) (a', w')"
    using engine_finishes [of sample_client True zero_host_analysis "()"] by auto
  have "ha_classification zero_host_analysis \<notin> takeover_levels"
    by (simp add: zero_host_analysis_def takeover_levels_def)
  from verification_for_suspects_only [OF run this] show ?thesis
    using run by (auto simp: zero_host_analysis_def)
qed

end
