(* ===== verification/VerifyProps.thy ===== *)
theory VerifyProps
  imports VerifyEngine VerifierProps
begin

section \<open>What revalidation promises\<close>

text \<open>
  The lemmas follow a run of \<open>Verify\<close> through its stages; the properties are about its result, about
  the store, and about what active verification adds to the level of a host.
\<close>

subsection \<open>The stages\<close>

lemma verify_finishes: "\<exists>out s'. verify_run X h s out s'"
proof (cases h)
  case None
  then show ?thesis using verify_run.no_history by blast
next
  case (Some a)
  show ?thesis
  proof (cases "profile_compatibility_error (vg_digest X) (ha_scan_profile a) = []")
    case False
    then show ?thesis unfolding Some using verify_run.incompatible [OF refl] by blast
  next
    case ok: True
    let ?order = "[0 ..< length (profile_tasks (vg_dns X) (ha_host a))]"
    obtain r s1 where found: "run_state (discover_records (vg_dns X) ?order a) s = (r, s1)" by (rule prod.exhaust)
    show ?thesis
    proof (cases r)
      case (Inl e)
      then show ?thesis unfolding Some using verify_run.discovery_failed [OF ok refl] found by blast
    next
      case (Inr records)
      obtain a2 s2 e where reg: "registry_run (vg_collectors X) (fresh_analysis a records, s1) (a2, s2) e"
        using registry_returns [of "vg_collectors X" "(fresh_analysis a records, s1)"] by auto
      obtain a3 s3 where eng:
        "engine_run (vg_http X) (vg_check_cloud X) (process_analysis (vg_strings X) 0 0 a2, s2) (a3, s3)"
        using engine_finishes by (metis prod.exhaust)
      obtain out s4 where "compare_and_save X a (conclude (vg_strings X) 0 a a3) s3 = (out, s4)" by (rule prod.exhaust)
      then show ?thesis
        unfolding Some using reg eng found Inr verify_run.collection_failed [OF ok refl]
          verify_run.compared [OF ok refl] by (cases e) blast+
    qed
  qed
qed

lemma vector_differences_none:
  "vector_differences G expected actual = ([], []) \<longleftrightarrow>
     set (normalized_vector_set G expected) = set (normalized_vector_set G actual)"
proof -
  have empty: "sort xs = [] \<longleftrightarrow> xs = []" for xs :: "string list" by (metis set_empty set_sort)
  show ?thesis by (auto simp: vector_differences_def Let_def empty filter_empty_conv)
qed

lemma compared_result:
  assumes "compare_and_save X h a s = (Inr r, s')"
  shows "(vx_state r = Incomplete \<and> vx_new r = ha_classification h \<and> vx_old r = ha_classification h \<and>
       (vx_missing r \<noteq> [] \<or> vx_unexpected r \<noteq> [])) \<or>
     (r = transition_result h a \<and>
      set (normalized_vector_set (vg_strings X) (ha_tested_vectors h)) =
      set (normalized_vector_set (vg_strings X) (ha_tested_vectors a)))"
proof -
  obtain m u where d: "vector_differences (vg_strings X) (ha_tested_vectors h) (ha_tested_vectors a) = (m, u)"
    by (rule prod.exhaust)
  show ?thesis
  proof (cases "m \<noteq> [] \<or> u \<noteq> []")
    case True
    then show ?thesis using assms by (auto simp: compare_and_save_def d incomplete_result_def)
  next
    case False
    then have "set (normalized_vector_set (vg_strings X) (ha_tested_vectors h)) =
        set (normalized_vector_set (vg_strings X) (ha_tested_vectors a))"
      using d vector_differences_none by blast
    then show ?thesis
      using False assms by (auto simp: compare_and_save_def d split: if_splits prod.splits option.splits)
  qed
qed

lemma state_change_kinds: "determine_state_change old new \<notin> {Incomplete, Discovered}"
  by (simp add: determine_state_change_def)

lemma transition_fields [simp]: "vx_old (transition_result h a) = ha_classification h"
  "vx_new (transition_result h a) = ha_classification a"
  "vx_state (transition_result h a) = determine_state_change (ha_classification h) (ha_classification a)"
  "vx_analysis (transition_result h a) = a"
  by (simp_all add: transition_result_def)

lemma incomplete_fields [simp]: "vx_old (incomplete_result h r m u) = ha_classification h"
  "vx_new (incomplete_result h r m u) = ha_classification h"
  "vx_state (incomplete_result h r m u) = Incomplete"
  by (simp_all add: incomplete_result_def)

text \<open>The end of a run does not reach the store when nothing has changed.\<close>

lemma compare_without_store:
  assumes "compare_and_save X h a s = (Inr r, s')"
    and "vx_state r = Incomplete \<or> (vx_new r = vx_old r \<and> vx_old r \<noteq> [])"
  shows "compare_and_save (X\<lparr>vg_save := save\<rparr>) h a s = (Inr r, s')"
proof -
  obtain m u where d: "vector_differences (vg_strings X) (ha_tested_vectors h) (ha_tested_vectors a) = (m, u)"
    by (rule prod.exhaust)
  have same: "vg_strings (X\<lparr>vg_save := save\<rparr>) = vg_strings X" by simp
  show ?thesis
  proof (cases "m \<noteq> [] \<or> u \<noteq> []")
    case True
    then show ?thesis using assms(1) unfolding compare_and_save_def same d by simp
  next
    case False
    then have "r = transition_result h a"
      using assms(1) by (auto simp: compare_and_save_def d split: if_splits prod.splits option.splits)
    then have "\<not> must_save h a"
      using assms(2) state_change_kinds [of "ha_classification h" "ha_classification a"]
      by (auto simp: must_save_def determine_state_change_def)
    then show ?thesis using assms(1) False unfolding compare_and_save_def same d by simp
  qed
qed

subsection \<open>Properties\<close>

text \<open>C6. The store is written only for a transition: a run whose result is incomplete, or whose level
  is the one of the history (and there was one), is a run for every other \<open>SaveSnapshot\<close> too, with the
  same result and the same world, so the snapshot was never asked for.\<close>

theorem snapshot_only_on_transition:
  assumes "verify_run X (Some h) s (Inr r) s'"
    and "vx_state r = Incomplete \<or> (vx_new r = vx_old r \<and> vx_old r \<noteq> [])"
  shows "verify_run (X\<lparr>vg_save := save\<rparr>) (Some h) s (Inr r) s'"
  using assms(1)
proof cases
  case (incompatible reason)
  then show ?thesis using verify_run.incompatible [of "X\<lparr>vg_save := save\<rparr>" h] by auto
next
  case (compared order records s1 a2 s2 t1 t2 a3 s3 now)
  note same = compare_without_store [OF compared(6) assms(2), of save]
  show ?thesis by (rule verify_run.compared) (use compared(1-5) same in simp_all)
qed

text \<open>C7. A result compares like with like: unless it is marked incomplete, and then the level is left
  as it was, the new analysis has tested the same vectors as the old one up to case and spaces, and
  the change is the one between the two levels. It is never \<open>DISCOVERED\<close>: a first observation,
  without a level in the history, is reported as a regression, an improvement or a fix.\<close>

theorem verify_compares_like_with_like:
  assumes "verify_run X (Some h) s (Inr r) s'"
  shows "if vx_state r = Incomplete then vx_new r = ha_classification h
     else set (normalized_vector_set (vg_strings X) (ha_tested_vectors (vx_analysis r))) =
            set (normalized_vector_set (vg_strings X) (ha_tested_vectors h)) \<and>
          vx_state r = determine_state_change (ha_classification h) (ha_classification (vx_analysis r)) \<and>
          vx_state r \<noteq> Discovered"
  using assms
proof cases
  case (incompatible reason)
  then show ?thesis by simp
next
  case (compared order records s1 a2 s2 t1 t2 a3 s3 now)
  then show ?thesis
    using compared_result [OF compared(6)] state_change_kinds
    by (auto simp: determine_state_change_def split: if_splits)
qed

text \<open>Revalidation always ends with a result or an error, whatever the collectors, the client and
  the store do.\<close>

theorem verify_always_returns: "\<exists>out s'. verify_run X h s out s'"
  by (rule verify_finishes)

text \<open>The severity of a transition and its direction agree: it is more than \<open>LOW\<close> exactly when
  the change is a regression.\<close>

theorem severity_marks_regressions:
  "get_transition_severity old new \<in> {''MEDIUM'', ''HIGH'', ''CRITICAL''} \<longleftrightarrow>
     determine_state_change old new = Regressed"
proof -
  have "risk_rank new = 0" if "new = LevelHealthy" using that by (simp add: risk_rank_def)
  moreover have "0 \<le> risk_rank l" for l by (simp add: risk_rank_def)
  ultimately show ?thesis
    by (auto simp: get_transition_severity_def determine_state_change_def not_less)
qed

text \<open>What the verifiers of storage find does not reach the level: for a host that is not a suspect
  of takeover the level after revalidation is the level before active verification, whatever
  evidence of a public bucket was added in between.\<close>

theorem cloud_exposure_keeps_the_level:
  assumes "engine_run E check_cloud (a, w) (a', w')"
    and "ha_classification a \<notin> takeover_levels" and "ha_verification_score a = 0"
  shows "ha_classification (conclude G now h a') = ha_classification a"
proof -
  have "ha_verification_score a' = 0"
    using engine_quiet [OF assms(1,2)] assms(3) by (simp add: same_verification_def)
  moreover have "ha_classification a' = ha_classification a"
    using engine_adds [OF assms(1)] by (auto simp: mark_cloud_def add_tested_vector_def)
  ultimately show ?thesis by (simp add: conclude_def reclassify_def calculate_def long_lived_def add_evidence_def Let_def)
qed

subsection \<open>Witnesses\<close>

definition sample_engine :: "unit verify_engine" where
  "sample_engine = \<lparr>vg_dns = sample_env, vg_collectors = [],
     vg_http = \<lparr>he_strings = ascii_env, he_do = (\<lambda>url w. (None, w))\<rparr>, vg_check_cloud = False,
     vg_save = (\<lambda>a reason w. (Some ''disk full'', w)), vg_digest = ''abc''\<rparr>"

definition sample_history :: host_analysis where
  "sample_history = zero_host_analysis\<lparr>ha_host := ''a.test'', ha_classification := LevelOrphaned\<rparr>"

lemma sample_incompatible:
  "verify_run sample_engine (Some sample_history) s
     (Inr (incomplete_result sample_history
       (profile_compatibility_error ''abc'' (ha_scan_profile sample_history)) [] [])) s"
  by (rule verify_run.incompatible)
    (simp_all add: sample_engine_def sample_history_def zero_host_analysis_def profile_compatibility_error_def)

theorem snapshot_only_on_transition_witness:
  "\<forall>s. verify_run (sample_engine\<lparr>vg_save := (\<lambda>a reason w. (None, w))\<rparr>) (Some sample_history) s
     (Inr (incomplete_result sample_history
       (profile_compatibility_error ''abc'' (ha_scan_profile sample_history)) [] [])) s"
  by (rule allI, rule snapshot_only_on_transition [OF sample_incompatible]) simp

theorem verify_compares_like_with_like_witness:
  "vx_new (incomplete_result sample_history
     (profile_compatibility_error ''abc'' (ha_scan_profile sample_history)) [] []) = LevelOrphaned"
  using verify_compares_like_with_like [OF sample_incompatible]
  by (simp add: sample_history_def)

text \<open>A host whose alias is a bucket that lists its content: the evidence is there, the classifier
  would say \<open>EXPOSED\<close>, and the level stays.\<close>

definition bucket_client :: "unit http_env" where
  "bucket_client = \<lparr>he_strings = ascii_env,
     he_do = (\<lambda>url w. (Some \<lparr>rp_status = 200, rp_headers = [], rp_body = ''<ListBucketResult>''\<rparr>, w))\<rparr>"

definition bucket_host :: host_analysis where
  "bucket_host = zero_host_analysis\<lparr>ha_host := ''a.test'',
     ha_dns := zero_dns_record_set\<lparr>rs_cname := [''b.s3.amazonaws.com'']\<rparr>,
     ha_classification := LevelUnknown\<rparr>"

lemma bucket_names [simp]: "valid_host ''b.s3.amazonaws.com''" "valid_host ''amazonaws.com''"
  "valid_host ''blob.core.windows.net''" "valid_host ''core.windows.net''" "valid_host ''googleapis.com''"
  "valid_host ''storage.googleapis.com''" "valid_host ''storage.cloud.google.com''"
  by (simp_all add: valid_host_text)

lemma bucket_endpoint: "is_s3_endpoint G ''b.s3.amazonaws.com''"
  by (simp add: is_s3_endpoint_def normalize_hostname_id match_dns_name_plain label_suffix_def suffix_Cons s3_service_def)

lemma bucket_keys:
  "normalized_provider_text ascii_env ''AWS S3'' = ''awss3''"
  "normalized_provider_text ascii_env ''Azure Blob Storage'' = ''azureblobstorage''"
  "normalized_provider_text ascii_env ''Google Cloud Storage'' = ''googlecloudstorage''"
  by code_simp+

lemma bucket_aliases:
  "match_dns_name G ''b.s3.amazonaws.com'' ''amazonaws.com''"
  "\<not> match_dns_name G ''b.s3.amazonaws.com'' ''blob.core.windows.net''"
  "\<not> match_dns_name G ''b.s3.amazonaws.com'' ''storage.googleapis.com''"
  "\<not> match_dns_name G ''b.s3.amazonaws.com'' ''storage.cloud.google.com''"
  by (simp_all add: match_dns_name_plain label_suffix_def suffix_Cons)

lemma bucket_record [simp]: "rs_cname (ha_dns bucket_host) = [''b.s3.amazonaws.com'']"
  "ha_provider_candidates bucket_host = []" "ha_evidences bucket_host = []" "ha_host bucket_host = ''a.test''"
  "ha_classification bucket_host = LevelUnknown" "ha_verification_score bucket_host = 0"
  by (simp_all add: bucket_host_def zero_host_analysis_def)

lemma bucket_mark [simp]: "rs_cname (ha_dns (mark_cloud c bucket_host)) = [''b.s3.amazonaws.com'']"
  "ha_provider_candidates (mark_cloud c bucket_host) = []" "ha_evidences (mark_cloud c bucket_host) = []"
  "ha_host (mark_cloud c bucket_host) = ''a.test''" "ha_classification (mark_cloud c bucket_host) = LevelUnknown"
  by (simp_all add: mark_cloud_def add_tested_vector_def)

lemma bucket_verifiers:
  "matching_verifiers ascii_env (cloud_verifiers bucket_client) (mark_cloud True bucket_host) =
     [aws_s3_verifier bucket_client]"
  by (simp add: matching_verifiers_def cloud_verifiers_def verifier_matches_analysis_def bucket_keys
      aws_s3_verifier_def azure_blob_verifier_def gcs_bucket_verifier_def bucket_verifier_def Let_def
      bucket_endpoint table_entry_def verifier_cname_hints_def bucket_aliases)

lemma bucket_urls: "url_parse ascii_env ''http://a.test'' \<noteq> None" "url_parse ascii_env ''http://a.test/?acl'' \<noteq> None"
  by code_simp+

lemma bucket_listed:
  "fst (complete (ve_verify (aws_s3_verifier bucket_client) (mark_cloud True bucket_host) (\<lambda>_. Over None))
     (mark_cloud True bucket_host, ())) = (add_evidence s3_listable (mark_cloud True bucket_host), ())"
  by (simp add: aws_s3_verifier_def has_s3_cname_def bucket_endpoint do_request_def add_cloud_evidence_def
      s3_acl_check_def new_request_ok_def bucket_urls bucket_client_def limited_def body_limit_def s3_acl_open_def)

lemma bucket_run:
  "engine_run bucket_client True (bucket_host, ())
     (add_evidence s3_listable (mark_cloud True bucket_host), ())"
proof -
  let ?a = "mark_cloud True bucket_host"
  have strings: "he_strings bucket_client = ascii_env" by (simp add: bucket_client_def)
  have "takeover_tier bucket_client ?a = []" by (simp add: takeover_tier_def takeover_levels_def)
  moreover have "cloud_tier bucket_client True ?a =
      [ve_verify (aws_s3_verifier bucket_client) ?a (\<lambda>_. Over None)]"
    by (simp add: cloud_tier_def strings bucket_verifiers has_provider_cname_def bucket_aliases)
  ultimately show ?thesis
    using tier_run_single [of "ve_verify (aws_s3_verifier bucket_client) ?a (\<lambda>_. Over None)" "(?a, ())"]
    unfolding bucket_listed by (intro engine_run.engine_run [OF refl, where ?a2.0 = ?a and ?w2.0 = "()"]) simp_all
qed

theorem cloud_exposure_keeps_the_level_witness:
  "engine_run bucket_client True (bucket_host, ()) (add_evidence s3_listable (mark_cloud True bucket_host), ()) \<and>
   classify_level ascii_env (add_evidence s3_listable (mark_cloud True bucket_host)) = LevelExposed \<and>
   ha_classification (conclude ascii_env 0 bucket_host (add_evidence s3_listable (mark_cloud True bucket_host))) =
     LevelUnknown"
proof -
  have "ha_classification (conclude ascii_env 0 bucket_host (add_evidence s3_listable (mark_cloud True bucket_host))) =
      LevelUnknown"
    using cloud_exposure_keeps_the_level [OF bucket_run, of ascii_env 0 bucket_host]
    by (simp add: takeover_levels_def)
  moreover have "classify_level ascii_env (add_evidence s3_listable (mark_cloud True bucket_host)) = LevelExposed"
    by (simp add: classify_level_def Let_def add_evidence_def has_type_iff s3_listable_def plain_evidence_def
        control_proven_def bound_pair_def has_any_def exposed_types_def mark_cloud_def add_tested_vector_def)
  ultimately show ?thesis using bucket_run by blast
qed

end
