(* ===== verification/HttpObserve.thy ===== *)
theory HttpObserve
  imports CollectLocal
begin

section \<open>HTTP observations (internal/evidence/http_observation.go, http_fingerprint_rules.go)\<close>

text \<open>
  What the collectors keep of a response: its stable headers, the body with its dynamic parts
  masked and the digest of it, the title, the kind of response, the edge it came through, forms and
  cookies; and the rules by which a text of the catalogue counts as the fingerprint of a missing
  resource. Slicing a string beyond its end panics in Go: \<open>None\<close> is that panic.

  Library code the observation relies on is a field of \<open>page_env\<close>: the digest, the replacement of
  a regular expression, the HTML parser, the parsers of media types and cookies.
\<close>

subsection \<open>Headers\<close>

type_synonym headers = "(string, string list) gomap"

text \<open>\<open>http.CanonicalHeaderKey\<close>: a name with a byte that no token has is left as it is.\<close>

definition token_char :: "char \<Rightarrow> bool" where
  "token_char c \<longleftrightarrow> in_range 48 57 (of_char c) \<or> in_range 65 90 (of_char c) \<or> in_range 97 122 (of_char c) \<or>
     c \<in> set ''!#$%&*+-.^_|~'' \<or> of_char c \<in> {39 :: nat, 96}"

fun canonical_from :: "bool \<Rightarrow> string \<Rightarrow> string" where
  "canonical_from up [] = []"
| "canonical_from up (c # cs) =
     (if up then upper_char c else lower_char c) # canonical_from (c = CHR ''-'') cs"

definition canonical_key :: "string \<Rightarrow> string" where
  "canonical_key k = (if list_all token_char k then canonical_from True k else k)"

definition header_value :: "headers \<Rightarrow> string \<Rightarrow> string" where
  "header_value hs k = (case map_of hs (canonical_key k) of Some (v # vs) \<Rightarrow> v | _ \<Rightarrow> [])"

definition header_set :: "headers \<Rightarrow> string \<Rightarrow> string \<Rightarrow> headers" where
  "header_set hs k v = map_put hs (canonical_key k) [v]"

definition header_del :: "headers \<Rightarrow> string \<Rightarrow> headers" where
  "header_del hs k = filter (\<lambda>(n, _). n \<noteq> canonical_key k) hs"

definition header_add :: "headers \<Rightarrow> string \<Rightarrow> string \<Rightarrow> headers" where
  "header_add hs k v =
     map_put hs (canonical_key k) ((case map_of hs (canonical_key k) of None \<Rightarrow> [] | Some vs \<Rightarrow> vs) @ [v])"

subsection \<open>The environment\<close>

datatype html_node =
    ElementNode string "(string \<times> string) list" "html_node list"
  | OtherNode "html_node list"

datatype same_site_mode = SameSiteUnset | SameSiteDefault | SameSiteLax | SameSiteStrict | SameSiteNone

record set_cookie =
  pk_name :: string
  pk_domain :: string
  pk_path :: string
  pk_secure :: bool
  pk_http_only :: bool
  pk_same_site :: same_site_mode

record 'r page_env =
  pe_go :: go_env
  pe_regex :: "'r regex_env"
  pe_sha256 :: "string \<Rightarrow> string"
  pe_replace_all :: "string \<Rightarrow> string \<Rightarrow> string \<Rightarrow> string"
  pe_html :: "string \<Rightarrow> html_node option"
  pe_media_type :: "string \<Rightarrow> string option"
  pe_cookies :: "string list \<Rightarrow> set_cookie list"

subsection \<open>Slices\<close>

fun index_of :: "string \<Rightarrow> string \<Rightarrow> nat option" where
  "index_of sub [] = (if sub = [] then Some 0 else None)"
| "index_of sub (c # cs) = (if prefix sub (c # cs) then Some 0 else map_option Suc (index_of sub cs))"

definition slice_from :: "nat \<Rightarrow> string \<Rightarrow> string option" where
  "slice_from i s = (if i \<le> length s then Some (drop i s) else None)"

definition go_slice :: "nat \<Rightarrow> nat \<Rightarrow> string \<Rightarrow> string option" where
  "go_slice i j s = (if i \<le> j \<and> j \<le> length s then Some (take (j - i) (drop i s)) else None)"

subsection \<open>The title (http.go)\<close>

definition clean_title :: "string \<Rightarrow> string" where
  "clean_title t =
     (let s = map (\<lambda>c. if c = CHR 0x09 then CHR '' '' else c)
        (filter (\<lambda>c. c \<noteq> CHR 0x0D) (map (\<lambda>c. if c = CHR 0x0A then CHR '' '' else c) (trim_space t)))
      in if length s > 200 then take 197 s @ ''...'' else s)"

text \<open>
  The indices are those of the lowered body, the slices those of the body itself, and lowering can
  change the length: a byte that is no UTF-8 becomes three.
\<close>

definition extract_title :: "go_env \<Rightarrow> string \<Rightarrow> string option" where
  "extract_title G body =
     (case index_of ''<title>'' (to_lower G body) of
        None \<Rightarrow> Some []
      | Some i \<Rightarrow>
          (let start = i + 7 in
           case slice_from start body of
             None \<Rightarrow> None
           | Some rest \<Rightarrow>
               (case index_of ''</title>'' (to_lower G rest) of
                  None \<Rightarrow> Some []
                | Some end \<Rightarrow> map_option clean_title (go_slice start (start + end) body))))"

subsection \<open>The body\<close>

definition dynamic_body_patterns :: "string list" where
  "dynamic_body_patterns =
     [''(?i)'' @ [CHR 0x5C] @ ''b'' @ [CHR 0x5C] @ ''d{4}-'' @ [CHR 0x5C] @ ''d{2}-'' @ [CHR 0x5C] @ ''d{2}[t ][0-9:.+-]+z?'' @ [CHR 0x5C] @ ''b'',
      ''(?i)'' @ [CHR 0x5C] @ ''b(?:mon|tue|wed|thu|fri|sat|sun),'' @ [CHR 0x5C] @ ''s+'' @ [CHR 0x5C] @ ''d{1,2}'' @ [CHR 0x5C] @ ''s+[a-z]{3}'' @ [CHR 0x5C] @ ''s+'' @ [CHR 0x5C] @ ''d{4}'' @ [CHR 0x5C] @ ''s+'' @ [CHR 0x5C] @ ''d{2}:'' @ [CHR 0x5C] @ ''d{2}:'' @ [CHR 0x5C] @ ''d{2}'' @ [CHR 0x5C] @ ''s+gmt'' @ [CHR 0x5C] @ ''b'',
      ''(?i)'' @ [CHR 0x5C] @ ''b[0-9a-f]{8}-[0-9a-f]{4}-[1-5][0-9a-f]{3}-[89ab][0-9a-f]{3}-[0-9a-f]{12}'' @ [CHR 0x5C] @ ''b'',
      ''(?i)(request[-_ ]?id|trace[-_ ]?id|nonce|challenge|token)(['' @ [CHR 0x22, CHR 0x27] @ ''=:'' @ [CHR 0x5C] @ ''s]+)[a-z0-9._~+/=-]{8,}'',
      ''(?i)'' @ [CHR 0x5C] @ ''b[0-9a-f]{24,}'' @ [CHR 0x5C] @ ''b'']"

definition normalize_http_body :: "'r page_env \<Rightarrow> string \<Rightarrow> string" where
  "normalize_http_body P body =
     join_with '' '' (go_fields
       (fold (\<lambda>pat s. pe_replace_all P pat s ''${1}${2}<dynamic>'') dynamic_body_patterns body))"

definition volatile_http_headers :: "string list" where
  "volatile_http_headers = [''Date'', ''Set-Cookie'', ''X-Request-Id'', ''X-Correlation-Id'',
     ''X-Amzn-Trace-Id'', ''Traceparent'', ''Cf-Ray'', ''Server-Timing'']"

definition stable_http_headers :: "headers \<Rightarrow> headers" where
  "stable_http_headers hs =
     fold (\<lambda>(name, values) acc.
       if canonical_key name \<in> set volatile_http_headers then acc
       else map_put acc (canonical_key name) values) hs []"

definition hash_bytes :: "'r page_env \<Rightarrow> string \<Rightarrow> string" where
  "hash_bytes P s = hex_of_text (pe_sha256 P s)"

definition media_type :: "'r page_env \<Rightarrow> string \<Rightarrow> string" where
  "media_type P v =
     (case pe_media_type P v of
        None \<Rightarrow> to_lower (pe_go P) (trim_space (hd (split_on CHR '';'' v)))
      | Some t \<Rightarrow> to_lower (pe_go P) t)"

text \<open>The walk over the document: whether there is one, and whether a form asks for a password.\<close>

definition password_input :: "go_env \<Rightarrow> (string \<times> string) list \<Rightarrow> bool" where
  "password_input G attrs =
     list_ex (\<lambda>(k, v). equal_fold G k ''type'' \<and> equal_fold G v ''password'') attrs"

fun html_walk :: "go_env \<Rightarrow> bool \<Rightarrow> html_node \<Rightarrow> bool \<times> bool"
  and html_walk_all :: "go_env \<Rightarrow> bool \<Rightarrow> html_node list \<Rightarrow> bool \<times> bool"
where
  "html_walk G inside (ElementNode name attrs children) =
     (let tag = to_lower G name;
          own_document = (tag \<in> {''html'', ''body'', ''main''});
          inside' = (inside \<or> tag = ''form'');
          own_password = (tag = ''input'' \<and> inside \<and> password_input G attrs)
      in case html_walk_all G inside' children of
           (d, p) \<Rightarrow> (own_document \<or> d, own_password \<or> p))"
| "html_walk G inside (OtherNode children) = html_walk_all G inside children"
| "html_walk_all G inside [] = (False, False)"
| "html_walk_all G inside (n # ns) =
     (case (html_walk G inside n, html_walk_all G inside ns) of
        ((d1, p1), (d2, p2)) \<Rightarrow> (d1 \<or> d2, p1 \<or> p2))"

definition html_markers :: "string list" where
  "html_markers = [''<!doctype'', ''<html'', ''<body'', ''<main'', ''<form'']"

definition inspect_html :: "'r page_env \<Rightarrow> string \<Rightarrow> string \<Rightarrow> bool \<times> bool" where
  "inspect_html P content_type body =
     (if content_type \<noteq> ''text/html'' \<and> content_type \<noteq> ''application/xhtml+xml'' then (False, False)
      else if \<not> list_ex (contains_str (to_lower (pe_go P) body)) html_markers then (False, False)
      else case pe_html P body of
        None \<Rightarrow> (False, False)
      | Some document \<Rightarrow> html_walk (pe_go P) False document)"

subsection \<open>Cookies\<close>

fun same_site :: "same_site_mode \<Rightarrow> string" where
  "same_site SameSiteStrict = ''STRICT''"
| "same_site SameSiteLax = ''LAX''"
| "same_site SameSiteNone = ''NONE''"
| "same_site _ = []"

definition sensitive_cookie :: "go_env \<Rightarrow> string \<Rightarrow> bool" where
  "sensitive_cookie G raw =
     (let name = to_lower G (trim_space raw) in
      if name \<in> {''__cf_bm'', ''cf_clearance'', ''ak_bmsc'', ''bm_sz'', ''awsalb'', ''awsalbcors''} then False
      else if list_ex (contains_str name)
        [''session'', ''sess'', ''auth'', ''token'', ''jwt'', ''phpsessid'', ''jsessionid''] then True
      else name = ''sid'')"

definition observed_cookies :: "'r page_env \<Rightarrow> headers \<Rightarrow> http_cookie list" where
  "observed_cookies P hs =
     map (\<lambda>c. \<lparr>ck_name = pk_name c, ck_domain = pk_domain c, ck_path = pk_path c,
         ck_secure = pk_secure c, ck_http_only = pk_http_only c, ck_same_site = same_site (pk_same_site c),
         ck_sensitive = sensitive_cookie (pe_go P) (pk_name c)\<rparr>)
       (pe_cookies P (case map_of hs ''Set-Cookie'' of None \<Rightarrow> [] | Some vs \<Rightarrow> vs))"

subsection \<open>The kind of response\<close>

definition edge_table :: "(string \<times> string list \<times> string list) list" where
  "edge_table =
     [(''CLOUDFLARE'', [''Cf-Ray''], [''cloudflare'']),
      (''CLOUDFRONT'', [''X-Amz-Cf-Id'', ''X-Amz-Cf-Pop''], [''cloudfront'']),
      (''FASTLY'', [''X-Served-By'', ''Fastly-Debug-Digest''], [''fastly'']),
      (''AKAMAI'', [''X-Akamai-Transformed'', ''Akamai-Grn''], [''akamai'']),
      (''VERCEL'', [''X-Vercel-Id''], [''vercel'']),
      (''NETLIFY'', [''X-Nf-Request-Id''], [''netlify'']),
      (''AZURE_FRONT_DOOR'', [''X-Azure-Ref''], [''azure front door'']),
      (''GOOGLE_FRONTEND'', [''X-Gfe-Request-Trace''], [''google frontend'', ''gws'', ''gfe''])]"

definition edge_provider :: "go_env \<Rightarrow> headers \<Rightarrow> string \<Rightarrow> string" where
  "edge_provider G hs body =
     (let content = to_lower G (header_value hs ''Server'' @ '' '' @ body) in
      case find (\<lambda>(_, names, markers).
          list_ex (\<lambda>n. header_value hs n \<noteq> []) names \<or> list_ex (contains_str content) markers) edge_table of
        None \<Rightarrow> []
      | Some (name, _) \<Rightarrow> name)"

definition response_kind :: "go_env \<Rightarrow> int \<Rightarrow> headers \<Rightarrow> string \<Rightarrow> string" where
  "response_kind G status hs body =
     (if edge_provider G hs body \<noteq> [] then ''EDGE_RESPONSE''
      else if status = 404 \<or> status = 410 then ''RESOURCE_NOT_AVAILABLE''
      else if status \<ge> 200 \<and> status < 300 then ''APPLICATION_RESPONSE''
      else if status \<ge> 300 \<and> status < 400 then ''REDIRECT_RESPONSE''
      else if status = 401 \<or> status = 403 \<or> status = 429 then ''ACCESS_RESPONSE''
      else if status \<ge> 500 then ''ERROR_RESPONSE''
      else ''OTHER_RESPONSE'')"

subsection \<open>The observation\<close>

definition new_http_observation ::
  "'r page_env \<Rightarrow> string \<Rightarrow> int \<Rightarrow> headers \<Rightarrow> string \<Rightarrow> bool \<Rightarrow> int \<Rightarrow> string \<Rightarrow> string \<Rightarrow> http_observation option"
where
  "new_http_observation P scheme status hs body entire duration transport_error parse_error =
     (let normalized = normalize_http_body P body;
          content_type = media_type P (header_value hs ''Content-Type'') in
      case (extract_title (pe_go P) body, inspect_html P content_type body) of
        (None, _) \<Rightarrow> None
      | (Some title, (html, password)) \<Rightarrow> Some
          \<lparr>ho_scheme = scheme, ho_status_code = status, ho_headers = stable_http_headers hs,
           ho_raw_headers = hs, ho_body = body, ho_normalized_body = normalized,
           ho_body_hash = hash_bytes P normalized, ho_body_length = int (length body),
           ho_content_type = content_type, ho_location = trim_space (header_value hs ''Location''),
           ho_title = title, ho_server = header_value hs ''Server'',
           ho_response_kind = response_kind (pe_go P) status hs body,
           ho_edge_provider = edge_provider (pe_go P) hs body,
           ho_html_document = html, ho_password_form = password,
           ho_cookies = observed_cookies P hs, ho_complete = entire, ho_duration = duration,
           ho_transport_error = transport_error, ho_parse_error = parse_error\<rparr>)"

subsection \<open>Fingerprint rules\<close>

record http_fingerprint_rule =
  hr_rule_id :: string
  hr_provider_id :: string
  hr_cname_patterns :: "string list"
  hr_status_any_of :: "int list"
  hr_body_contains :: "string list"
  hr_required_headers :: meta
  hr_claimability :: string
  hr_minimum_specificity :: int

definition minimum_takeover_fingerprint_specificity :: int where
  "minimum_takeover_fingerprint_specificity = 4"

definition fingerprint_rule :: "'r page_env \<Rightarrow> 'r fingerprint \<Rightarrow> http_fingerprint_rule" where
  "fingerprint_rule P sig =
     (let pid = provider_id (pe_go P) (fp_service sig);
          digest = pe_sha256 P (pid @ [CHR 0x00] @ join_with [CHR 0x00] (fp_cnames sig) @ [CHR 0x00] @ fp_fingerprint sig)
      in \<lparr>hr_rule_id = pid @ ''-http-'' @ hex_of_text (take 6 digest), hr_provider_id = pid,
          hr_cname_patterns = fp_cnames sig,
          hr_status_any_of = (case fp_http_status sig of None \<Rightarrow> [] | Some s \<Rightarrow> [s]),
          hr_body_contains = [fp_fingerprint sig], hr_required_headers = fp_headers sig,
          hr_claimability = (if fp_vulnerable sig then ''potentially_claimable'' else ''review_only''),
          hr_minimum_specificity = minimum_takeover_fingerprint_specificity\<rparr>)"

definition candidate_matches_signature :: "go_env \<Rightarrow> provider_candidate \<Rightarrow> 'r fingerprint \<Rightarrow> bool" where
  "candidate_matches_signature G c sig \<longleftrightarrow>
     pc_cname c \<noteq> [] \<and> fp_cnames sig \<noteq> [] \<and> list_ex (match_dns_name G (pc_cname c)) (fp_cnames sig)"

definition word_rune :: "go_env \<Rightarrow> nat \<Rightarrow> bool" where
  "word_rune G r \<longleftrightarrow> is_letter G r \<or> is_digit G r"

definition generic_http_fingerprints :: "string set" where
  "generic_http_fingerprints = {''not found'', ''404 not found'', ''page not found'', ''site not found''}"

definition is_generic_http_fingerprint :: "go_env \<Rightarrow> string \<Rightarrow> bool" where
  "is_generic_http_fingerprint G v =
     (let normalized = join_with '' '' (fields_func (\<lambda>r. \<not> word_rune G r) (to_lower G v));
          fields = go_fields normalized in
      if normalized \<in> generic_http_fingerprints then True
      else if fields = [] then True
      else if \<not> list_all (\<lambda>f. f \<in> {''404'', ''error'', ''page'', ''site'', ''not'', ''found''}) fields then False
      else contains_str ('' '' @ normalized @ '' '') '' not '' \<and> contains_str ('' '' @ normalized @ '' '') '' found '')"

definition fingerprint_specificity :: "go_env \<Rightarrow> string \<Rightarrow> int" where
  "fingerprint_specificity G v =
     int (length (filter (\<lambda>f. length f \<ge> 3) (fields_func (\<lambda>r. \<not> word_rune G r) v)))"

definition required_header_present :: "go_env \<Rightarrow> headers \<Rightarrow> string \<times> string \<Rightarrow> bool" where
  "required_header_present G hs = (\<lambda>(name, required).
     list_ex (\<lambda>v. contains_str (to_lower G v) (to_lower G required))
       (case map_of hs (canonical_key name) of None \<Rightarrow> [] | Some vs \<Rightarrow> vs))"

definition clean_observation :: "raw_http_observation \<Rightarrow> bool" where
  "clean_observation o1 \<longleftrightarrow> raw_complete o1 \<and> raw_transport_error o1 = [] \<and> raw_parse_error o1 = [] \<and>
     \<not> raw_timed_out o1 \<and> \<not> raw_connection_reset o1"

definition eligible_takeover_fingerprint ::
  "'r page_env \<Rightarrow> 'r fingerprint \<Rightarrow> provider_candidate \<Rightarrow> raw_http_observation \<Rightarrow> http_fingerprint_rule \<times> bool"
where
  "eligible_takeover_fingerprint P sig c o1 =
     (let G = pe_go P; rule = fingerprint_rule P sig in
      (rule,
       if \<not> clean_observation o1 then False
       else if hr_rule_id rule = [] \<or> pc_provider_id c = [] \<or> hr_provider_id rule \<noteq> pc_provider_id c \<or>
         hr_claimability rule \<noteq> ''potentially_claimable'' then False
       else if \<not> candidate_matches_signature G c sig \<or> is_generic_http_fingerprint G (fp_fingerprint sig) \<or>
         fingerprint_specificity G (fp_fingerprint sig) < hr_minimum_specificity rule then False
       else if hr_status_any_of rule \<noteq> [] \<and> raw_status_code o1 \<notin> set (hr_status_any_of rule) then False
       else if \<not> list_all (required_header_present G (raw_headers o1)) (hr_required_headers rule) then False
       else matches_fingerprint G (pe_regex P) (raw_body o1) sig))"

end
