(* ===== verification/CollectHttp.thy ===== *)
theory CollectHttp
  imports HttpObserve GoUrl GoMonad
begin

section \<open>HTTP collectors (internal/evidence: http.go, http_security.go, cookie_scope.go, cors_scope.go,
  vhost.go)\<close>

text \<open>
  The baseline of HTTP and HTTPS with its fingerprints, and four probes of the phase of impact.
  The client is a parameter: what \<open>Do\<close> returns for a request in the world it finds, with the body as
  the bytes its reader yields and the errors of reading and closing. Redirects are the client's;
  its policy for them is modelled as the function it is configured with. A collector is a
  computation of the state monad over the world; where the code can panic the result is an option.
\<close>

subsection \<open>The client\<close>

record web_request =
  wq_url :: string
  wq_host :: string
  wq_headers :: headers

record web_reply =
  wr_status :: int
  wr_headers :: headers
  wr_length :: int
  wr_body :: string
  wr_read_error :: "string option"
  wr_close_error :: "string option"

record ('w, 'r) web_env =
  wb_page :: "'r page_env"
  wb_do :: "web_request \<Rightarrow> 'w \<Rightarrow> (string + web_reply) \<times> 'w"
  wb_now :: "'w \<Rightarrow> time \<times> 'w"
  wb_cancelled :: "'w \<Rightarrow> bool"
  wb_url_error :: "string \<Rightarrow> string"
  wb_random :: "'w \<Rightarrow> string option \<times> 'w"

abbreviation wb_go :: "('w, 'r) web_env \<Rightarrow> go_env" where
  "wb_go W \<equiv> pe_go (wb_page W)"

definition request_ok :: "('w, 'r) web_env \<Rightarrow> string \<Rightarrow> bool" where
  "request_ok W url \<longleftrightarrow> url_parse (wb_go W) url \<noteq> None"

definition max_body_size :: nat where "max_body_size = 2 ^ 20"

text \<open>\<open>io.ReadAll\<close> through a reader limited to one byte more than the maximum.\<close>

definition read_limited :: "web_reply \<Rightarrow> string \<times> string option" where
  "read_limited r =
     (if length (wr_body r) > max_body_size then (take (Suc max_body_size) (wr_body r), None)
      else (wr_body r, wr_read_error r))"

subsection \<open>Redirects and proxies\<close>

definition normalize_redirect_host :: "go_env \<Rightarrow> string \<Rightarrow> string" where
  "normalize_redirect_host G host = trim_suffix (to_lower G (trim_space host)) ''.''"

definition same_redirect_host :: "go_env \<Rightarrow> url option \<Rightarrow> url option \<Rightarrow> bool" where
  "same_redirect_host G next initial =
     (case (next, initial) of
        (Some a, Some b) \<Rightarrow>
          normalize_redirect_host G (url_hostname a) = normalize_redirect_host G (url_hostname b)
      | _ \<Rightarrow> False)"

datatype redirect_verdict = UseLastResponse | StopRedirects | FollowRedirect

definition check_redirect :: "go_env \<Rightarrow> bool \<Rightarrow> url \<Rightarrow> url list \<Rightarrow> redirect_verdict" where
  "check_redirect G follow next via =
     (if \<not> follow then UseLastResponse
      else if length via \<ge> 10 then StopRedirects
      else case via of
        [] \<Rightarrow> UseLastResponse
      | first # _ \<Rightarrow> if same_redirect_host G (Some next) (Some first) then FollowRedirect else UseLastResponse)"

fun check_proxies :: "go_env \<Rightarrow> nat \<Rightarrow> string list \<Rightarrow> string + url list" where
  "check_proxies G i [] = Inr []"
| "check_proxies G i (p # ps) =
     (let bad = (''proxy inv'' @ [CHR 0xC3, CHR 0xA1] @ ''lido na posi'' @ [CHR 0xC3, CHR 0xA7, CHR 0xC3, CHR 0xA3] @ ''o '') @ nat_dec (Suc i) in
      case url_parse G (trim_space p) of
        None \<Rightarrow> Inl bad
      | Some u \<Rightarrow>
          if url_host u = [] \<or> url_scheme u \<notin> {''http'', ''https'', ''socks5'', ''socks5h''} then Inl bad
          else case check_proxies G (Suc i) ps of Inl e \<Rightarrow> Inl e | Inr us \<Rightarrow> Inr (u # us))"

text \<open>\<open>file\<close> is the content of the file with that name, when it can be read.\<close>

definition parse_http_proxy_list :: "go_env \<Rightarrow> string option \<Rightarrow> string \<Rightarrow> string + url list" where
  "parse_http_proxy_list G file raw =
     (let content = (case file of Some data \<Rightarrow> data | None \<Rightarrow> raw);
          parts = fields_func (\<lambda>r. r = 44 \<or> r = 10 \<or> r = 13) content in
      if parts = [] then Inl (''a configura'' @ [CHR 0xC3, CHR 0xA7, CHR 0xC3, CHR 0xA3] @ ''o de proxy est'' @ [CHR 0xC3, CHR 0xA1] @ '' vazia'') else check_proxies G 0 parts)"

text \<open>The proxy of a request: none, the configured ones in turn, or the error of the configuration.\<close>

definition proxy_for :: "(string + url list) option \<Rightarrow> nat \<Rightarrow> string + url option" where
  "proxy_for cfg n =
     (case cfg of
        None \<Rightarrow> Inr None
      | Some (Inl e) \<Rightarrow> Inl (''configurando proxy HTTP: '' @ e)
      | Some (Inr us) \<Rightarrow> Inr (Some (us ! (n mod length us))))"

subsection \<open>The collector\<close>

record cdn_signature =
  cdn_name :: string
  cdn_headers :: meta

record 'r http_collector =
  hc_sigs :: "'r fingerprint list"
  hc_cdns :: "cdn_signature list"
  hc_fetch_headers :: bool
  hc_user_agent :: string
  hc_platform :: string
  hc_sec_ch_ua :: string
  hc_config_error :: "string option"
  hc_target_headers :: "(string, headers) gomap"

definition user_agents :: "(string \<times> string \<times> string) list" where
  "user_agents =
     [(''Mozilla/5.0 (Windows NT 10.0; Win64; x64) AppleWebKit/537.36 (KHTML, like Gecko) Chrome/125.0.0.0 Safari/537.36'', [CHR 0x22] @ ''Windows'' @ [CHR 0x22], ''125''),
      (''Mozilla/5.0 (Macintosh; Intel Mac OS X 10_15_7) AppleWebKit/537.36 (KHTML, like Gecko) Chrome/124.0.0.0 Safari/537.36'', [CHR 0x22] @ ''macOS'' @ [CHR 0x22], ''124''),
      (''Mozilla/5.0 (X11; Linux x86_64) AppleWebKit/537.36 (KHTML, like Gecko) Chrome/125.0.0.0 Safari/537.36'', [CHR 0x22] @ ''Linux'' @ [CHR 0x22], ''125''),
      (''Mozilla/5.0 (Windows NT 10.0; Win64; x64) AppleWebKit/537.36 (KHTML, like Gecko) Chrome/125.0.0.0 Safari/537.36 Edg/125.0.0.0'', [CHR 0x22] @ ''Windows'' @ [CHR 0x22], ''125'')]"

definition sec_ch_ua_for :: "string \<Rightarrow> string \<Rightarrow> string" where
  "sec_ch_ua_for ua version =
     (if contains_str ua ''Edg'' then
        [CHR 0x22] @ ''Microsoft Edge'' @ [CHR 0x22] @ '';v='' @ [CHR 0x22] @ version @ [CHR 0x22] @ '', '' @ [CHR 0x22] @ ''Chromium'' @ [CHR 0x22] @ '';v='' @ [CHR 0x22] @ version @ [CHR 0x22] @ '', '' @ [CHR 0x22] @ ''Not.A/Brand'' @ [CHR 0x22] @ '';v='' @ [CHR 0x22] @ ''24'' @ [CHR 0x22]
      else if contains_str ua ''Chrome'' then
        [CHR 0x22] @ ''Google Chrome'' @ [CHR 0x22] @ '';v='' @ [CHR 0x22] @ version @ [CHR 0x22] @ '', '' @ [CHR 0x22] @ ''Chromium'' @ [CHR 0x22] @ '';v='' @ [CHR 0x22] @ version @ [CHR 0x22] @ '', '' @ [CHR 0x22] @ ''Not.A/Brand'' @ [CHR 0x22] @ '';v='' @ [CHR 0x22] @ ''24'' @ [CHR 0x22]
      else [])"

definition join_errors :: "string option \<Rightarrow> string option \<Rightarrow> string option" where
  "join_errors e f =
     (case (e, f) of
        (None, _) \<Rightarrow> f
      | (Some x, None) \<Rightarrow> Some x
      | (Some x, Some y) \<Rightarrow> Some (x @ [CHR 0x0A] @ y))"

text \<open>\<open>NewHTTPCollector\<close>: \<open>pick\<close> is the random choice of a browser, \<open>cdns\<close> what the catalogue of CDNs
  yields.\<close>

definition new_http_collector ::
  "'r fingerprint list \<Rightarrow> (string + url list) option \<Rightarrow> string \<Rightarrow> nat \<Rightarrow> bool \<Rightarrow> string + cdn_signature list \<Rightarrow>
   'r http_collector"
where
  "new_http_collector sigs proxies user_agent pick fetch cdns =
     (let proxy_error = (case proxies of Some (Inl e) \<Rightarrow> Some (''configurando proxy HTTP: '' @ e) | _ \<Rightarrow> None);
          cdn_error = (case cdns of Inl e \<Rightarrow> Some (''carregando assinaturas CDN: '' @ e) | Inr _ \<Rightarrow> None);
          (ua, platform, version) = user_agents ! pick
      in \<lparr>hc_sigs = sigs, hc_cdns = (case cdns of Inl _ \<Rightarrow> [] | Inr cs \<Rightarrow> cs), hc_fetch_headers = fetch,
          hc_user_agent = (if user_agent \<noteq> [] then user_agent else ua),
          hc_platform = (if user_agent \<noteq> [] then [] else platform),
          hc_sec_ch_ua = (if user_agent \<noteq> [] then [] else sec_ch_ua_for ua version),
          hc_config_error = join_errors proxy_error cdn_error, hc_target_headers = []\<rparr>)"

definition set_target_headers :: "go_env \<Rightarrow> (string, headers) gomap \<Rightarrow> 'r http_collector \<Rightarrow> 'r http_collector" where
  "set_target_headers G hs c =
     c\<lparr>hc_target_headers := fold (\<lambda>(host, values) acc. map_put acc (to_lower G host) values) hs []\<rparr>"

definition should_probe_http :: "host_analysis \<Rightarrow> bool" where
  "should_probe_http a \<longleftrightarrow>
     rs_a (ha_dns a) \<noteq> [] \<or> rs_aaaa (ha_dns a) \<noteq> [] \<or> rs_cname (ha_dns a) \<noteq> [] \<or>
     has_type (ha_evidences a) ''CNAME_MATCH''"

subsection \<open>The request\<close>

definition browser_headers :: "'r http_collector \<Rightarrow> headers" where
  "browser_headers c =
     (let h0 = header_set (header_set [] ''User-Agent'' (hc_user_agent c)) ''Accept'' ''*/*'';
          h1 = (if hc_platform c \<noteq> []
                then header_set (header_set h0 ''Sec-CH-UA-Platform'' (hc_platform c)) ''Sec-CH-UA-Mobile'' ''?0''
                else h0)
      in if hc_sec_ch_ua c \<noteq> [] then header_set h1 ''Sec-CH-UA'' (hc_sec_ch_ua c) else h1)"

definition with_target_headers :: "'r http_collector \<Rightarrow> headers \<Rightarrow> headers \<Rightarrow> headers" where
  "with_target_headers c custom hs =
     (let ua = header_value custom ''User-Agent'';
          h1 = (if ua \<noteq> [] \<and> ua \<noteq> hc_user_agent c
                then fold (\<lambda>k h. header_del h k) [''Sec-CH-UA'', ''Sec-CH-UA-Platform'', ''Sec-CH-UA-Mobile''] hs
                else hs)
      in fold (\<lambda>(name, values) h. fold (\<lambda>v h. header_add h name v) values (header_del h name)) custom h1)"

definition request_headers :: "go_env \<Rightarrow> 'r http_collector \<Rightarrow> string \<Rightarrow> headers" where
  "request_headers G c host =
     (case map_of (hc_target_headers c) (to_lower G host) of
        None \<Rightarrow> browser_headers c
      | Some custom \<Rightarrow> with_target_headers c custom (browser_headers c))"

subsection \<open>What a response adds\<close>

definition response_fields :: "bool \<Rightarrow> web_reply \<Rightarrow> string \<Rightarrow> int \<Rightarrow> host_analysis \<Rightarrow> host_analysis" where
  "response_fields fetch r body duration a =
     (let a1 = a\<lparr>ha_server := header_value (wr_headers r) ''Server'',
            ha_content_length := (if wr_length r \<le> 0 then int (length body) else wr_length r),
            ha_response_time_ms := duration div 1000000\<rparr>
      in if fetch then a1\<lparr>ha_headers := fold (\<lambda>(k, v) m. map_put m k v) (wr_headers r) (ha_headers a1)\<rparr> else a1)"

definition cdn_match :: "go_env \<Rightarrow> headers \<Rightarrow> cdn_signature \<Rightarrow> string option" where
  "cdn_match G hs sig =
     map_option fst (find (\<lambda>(key, expected).
       let v = header_value hs key in
       v \<noteq> [] \<and> (expected = [] \<or> contains_str (to_lower G v) (to_lower G expected))) (cdn_headers sig))"

definition add_cdn :: "go_env \<Rightarrow> string \<Rightarrow> headers \<Rightarrow> cdn_signature \<Rightarrow> host_analysis \<Rightarrow> host_analysis" where
  "add_cdn G scheme hs sig a =
     (case cdn_match G hs sig of
        None \<Rightarrow> a
      | Some key \<Rightarrow>
          add_evidence (mitigating_evidence ''CDN_DETECTED'' scheme
            (''CDN '' @ cdn_name sig @ ('' detectada pelo cabe'' @ [CHR 0xC3, CHR 0xA7] @ ''alho '') @ key) 50 0 [])
          (a\<lparr>ha_cdn := cdn_name sig, ha_technologies := ha_technologies a @ [cdn_name sig]\<rparr>))"

definition response_evidence :: "string \<Rightarrow> http_observation \<Rightarrow> evidence" where
  "response_evidence scheme obs =
     plain_evidence ''HTTP_RESPONSE'' scheme
       (''Recebido status '' @ itoa (ho_status_code obs) @ '' no protocolo '' @ scheme) 0 0
       [(''status'', itoa (ho_status_code obs)), (''title'', ho_title obs),
        (''content_type'', ho_content_type obs), (''body_hash'', ho_body_hash obs),
        (''body_length'', itoa (ho_body_length obs)), (''server'', ho_server obs),
        (''location'', ho_location obs), (''response_kind'', ho_response_kind obs)]"

definition kind_evidence :: "string \<Rightarrow> http_observation \<Rightarrow> evidence" where
  "kind_evidence scheme obs =
     plain_evidence (ho_response_kind obs) scheme
       (''A resposta '' @ scheme @ '' foi classificada como '' @ ho_response_kind obs @ ''.'') 0 95 []"

definition status_evidences :: "string \<Rightarrow> int \<Rightarrow> evidence list" where
  "status_evidences scheme status =
     (if status = 404 then [plain_evidence ''HTTP_STATUS_404'' scheme
        (''O c'' @ [CHR 0xC3, CHR 0xB3] @ ''digo de status 404 pode indicar um recurso ausente no provedor'') 0 100 []] else []) @
     (if status = 401 \<or> status = 403 then [mitigating_evidence ''HTTP_AUTH_REQUIRED'' scheme
        (''Status '' @ itoa status @ ('' indica recurso protegido, possivelmente ativo'')) 30 0 []] else [])"

definition match_candidate :: "go_env \<Rightarrow> 'r fingerprint \<Rightarrow> string \<Rightarrow> provider_candidate" where
  "match_candidate G sig cname =
     zero_provider_candidate\<lparr>pc_provider_id := provider_id G (fp_service sig), pc_service := fp_service sig,
       pc_cname := cname, pc_vector := ''CNAME'', pc_resource := cname\<rparr>"

definition raw_observation :: "http_observation \<Rightarrow> raw_http_observation" where
  "raw_observation obs =
     \<lparr>raw_status_code = ho_status_code obs, raw_headers = ho_raw_headers obs, raw_body = ho_body obs,
      raw_complete = ho_complete obs, raw_timed_out = False, raw_connection_reset = False,
      raw_parse_error = [], raw_transport_error = [], raw_duration = 0\<rparr>"

definition fingerprint_evidence ::
  "'r page_env \<Rightarrow> http_observation \<Rightarrow> 'r fingerprint \<Rightarrow> string \<Rightarrow> evidence"
where
  "fingerprint_evidence P obs sig cname =
     (case eligible_takeover_fingerprint P sig (match_candidate (pe_go P) sig cname) (raw_observation obs) of
        (rule, eligible) \<Rightarrow>
          let meta = [(''rule_id'', hr_rule_id rule), (''matched_fingerprint'', fp_fingerprint sig),
                (''matched_cname'', cname), (''provider_id'', provider_id (pe_go P) (fp_service sig)),
                (''claimability'', hr_claimability rule)] in
          if eligible
          then plain_evidence ''HTTP_BODY_MATCH'' (fp_service sig)
            (''Assinatura HTTP espec'' @ [CHR 0xC3, CHR 0xAD] @ ''fica do provedor identificado'') 50 80 meta
          else plain_evidence ''HTTP_FINGERPRINT_REVIEW'' (fp_service sig)
            (''Assinatura HTTP gen'' @ [CHR 0xC3, CHR 0xA9] @ ''rica ou ineleg'' @ [CHR 0xC3, CHR 0xAD] @ ''vel exige revis'' @ [CHR 0xC3, CHR 0xA3] @ ''o manual'') 0 40 meta)"

text \<open>The alias and the text of a signature match the host and the page.\<close>

definition fingerprint_hit ::
  "'r page_env \<Rightarrow> string list \<Rightarrow> http_observation \<Rightarrow> 'r fingerprint \<Rightarrow> evidence option"
where
  "fingerprint_hit P cnames obs sig =
     (if fp_fingerprint sig = [] then None
      else case matching_cname (pe_go P) cnames (fp_cnames sig) of
        None \<Rightarrow> None
      | Some cname \<Rightarrow>
          if matches_fingerprint (pe_go P) (pe_regex P) (ho_body obs) sig
          then Some (fingerprint_evidence P obs sig cname) else None)"

definition fingerprint_evidences ::
  "'r page_env \<Rightarrow> 'r fingerprint list \<Rightarrow> string list \<Rightarrow> http_observation \<Rightarrow> evidence list"
where
  "fingerprint_evidences P sigs cnames obs =
     (if ho_complete obs then List.map_filter (fingerprint_hit P cnames obs) sigs else [])"

definition active_evidences :: "string \<Rightarrow> http_observation \<Rightarrow> evidence list \<Rightarrow> evidence list" where
  "active_evidences scheme obs hits =
     (if ho_complete obs \<and> ho_status_code obs = 200 \<and> hits = []
      then [plain_evidence ''HTTP_OK_ACTIVE'' scheme
        (''Resposta HTTP 200 sem assinatura conhecida de recurso ausente'') 0 0 []] else [])"

definition add_evidences :: "evidence list \<Rightarrow> host_analysis \<Rightarrow> host_analysis" where
  "add_evidences evs a = fold add_evidence evs a"

definition record_response ::
  "'r page_env \<Rightarrow> 'r http_collector \<Rightarrow> string \<Rightarrow> web_reply \<Rightarrow> http_observation \<Rightarrow> int \<Rightarrow> host_analysis \<Rightarrow> host_analysis"
where
  "record_response P c scheme r obs duration a =
     (let a1 = response_fields (hc_fetch_headers c) r (ho_body obs) duration (set_http_observation scheme obs a);
          a2 = fold (add_cdn (pe_go P) scheme (wr_headers r)) (hc_cdns c) a1;
          hits = fingerprint_evidences P (hc_sigs c) (rs_cname (ha_dns a2)) obs
      in add_evidences ([response_evidence scheme obs, kind_evidence scheme obs] @
           status_evidences scheme (ho_status_code obs) @ hits @ active_evidences scheme obs hits) a2)"

text \<open>The body that is kept, whether it is complete, and the error of its parse.\<close>

definition body_of_reply :: "web_reply \<Rightarrow> string \<times> bool \<times> string" where
  "body_of_reply r =
     (case read_limited r of
        (bytes, read_error) \<Rightarrow>
          if length bytes > max_body_size
          then (take max_body_size bytes, False, (''o corpo da resposta excedeu o tamanho m'' @ [CHR 0xC3, CHR 0xA1] @ ''ximo''))
          else (bytes, read_error = None \<and> wr_close_error r = None,
            case read_error of Some e \<Rightarrow> e
            | None \<Rightarrow> (case wr_close_error r of Some e \<Rightarrow> e | None \<Rightarrow> [])))"

subsection \<open>The baseline\<close>

text \<open>One protocol of the baseline; \<open>None\<close> is a panic.\<close>

definition failed_observation ::
  "'r page_env \<Rightarrow> string \<Rightarrow> int \<Rightarrow> string \<Rightarrow> string \<Rightarrow> host_analysis \<Rightarrow> host_analysis option"
where
  "failed_observation P scheme duration transport_error parse_error a =
     map_option (\<lambda>obs. set_http_observation scheme obs a)
       (new_http_observation P scheme 0 [] [] False duration transport_error parse_error)"

definition probe_scheme ::
  "('w, 'r) web_env \<Rightarrow> 'r http_collector \<Rightarrow> string \<Rightarrow> host_analysis \<Rightarrow> ('w, host_analysis option) state"
where
  "probe_scheme W c scheme a =
     (let P = wb_page W; url = scheme @ ''://'' @ ha_host a in
      if \<not> request_ok W url then ret (failed_observation P scheme 0 [] (wb_url_error W url) a)
      else do {
        start \<leftarrow> State (wb_now W);
        res \<leftarrow> State (wb_do W \<lparr>wq_url = url, wq_host = [], wq_headers = request_headers (pe_go P) c (ha_host a)\<rparr>);
        stop \<leftarrow> State (wb_now W);
        let duration = stop - start;
        ret (case res of
          Inl e \<Rightarrow> failed_observation P scheme duration e [] a
        | Inr r \<Rightarrow>
            (case body_of_reply r of
               (body, entire, parse_error) \<Rightarrow>
                 map_option (\<lambda>obs. record_response P c scheme r obs duration a)
                   (new_http_observation P scheme (wr_status r) (wr_headers r) body entire duration [] parse_error)))
      })"

definition collect_http ::
  "('w, 'r) web_env \<Rightarrow> 'r http_collector \<Rightarrow> host_analysis \<Rightarrow> ('w, (string + host_analysis) option) state"
where
  "collect_http W c a =
     (case hc_config_error c of
        Some e \<Rightarrow> ret (Some (Inl e))
      | None \<Rightarrow>
          let a1 = add_tested_vector ''HTTP'' a in
          if \<not> should_probe_http a1 then ret (Some (Inr a1))
          else do {
            first \<leftarrow> probe_scheme W c ''http'' a1;
            case first of
              None \<Rightarrow> ret None
            | Some a2 \<Rightarrow> do {
                snd_probe \<leftarrow> probe_scheme W c ''https'' a2;
                ret (map_option Inr snd_probe)
              }
          })"

subsection \<open>Open redirects (http_security.go)\<close>

definition complete_baseline :: "host_analysis \<Rightarrow> string \<Rightarrow> bool" where
  "complete_baseline a scheme \<longleftrightarrow>
     (case get_http_observation a scheme of None \<Rightarrow> False | Some obs \<Rightarrow> ho_complete obs)"

definition has_complete_http_baseline :: "host_analysis \<Rightarrow> bool" where
  "has_complete_http_baseline a \<longleftrightarrow> complete_baseline a ''https'' \<or> complete_baseline a ''http''"

definition redirects_to_probe_host :: "go_env \<Rightarrow> string \<Rightarrow> bool" where
  "redirects_to_probe_host G location =
     (case url_parse G location of None \<Rightarrow> False | Some u \<Rightarrow> equal_fold G (url_hostname u) ''evil.com'')"

definition open_redirect_evidence :: "string \<Rightarrow> string \<Rightarrow> evidence" where
  "open_redirect_evidence path loc =
     plain_evidence ''HTTP_OPEN_REDIRECT'' ''HttpSecurity''
       (''O host permite um redirecionamento aberto em '' @ path @ '' para '' @ loc) 80 100 []"

fun collect_redirects ::
  "('w, 'r) web_env \<Rightarrow> string list \<Rightarrow> host_analysis \<Rightarrow> ('w, host_analysis) state"
where
  "collect_redirects W [] a = ret a"
| "collect_redirects W (path # paths) a =
     (let url = ''http://'' @ ha_host a @ path in
      if \<not> request_ok W url then collect_redirects W paths a
      else do {
        res \<leftarrow> State (wb_do W \<lparr>wq_url = url, wq_host = [], wq_headers = []\<rparr>);
        case res of
          Inl e \<Rightarrow> collect_redirects W paths a
        | Inr r \<Rightarrow>
            (let loc = header_value (wr_headers r) ''Location'' in
             if wr_status r \<ge> 300 \<and> wr_status r \<le> 399 \<and> redirects_to_probe_host (wb_go W) loc
             then ret (add_evidence (open_redirect_evidence path loc) a)
             else collect_redirects W paths a)
      })"

definition redirect_probe_paths :: "string list" where
  "redirect_probe_paths = [''//evil.com'', ''/redirect?url=https://evil.com'']"

definition collect_http_security ::
  "('w, 'r) web_env \<Rightarrow> bool \<Rightarrow> bool \<Rightarrow> host_analysis \<Rightarrow> ('w, host_analysis) state"
where
  "collect_http_security W check_headers check_redirects a =
     (let a1 = (if check_headers \<and> complete_baseline a ''https'' then add_tested_vector ''SEC_HEADERS'' a else a) in
      if \<not> check_redirects \<or> \<not> has_complete_http_baseline a1 then ret a1
      else collect_redirects W redirect_probe_paths (add_tested_vector ''OPEN_REDIRECT'' a1))"

subsection \<open>Cookies of the registrable domain (cookie_scope.go)\<close>

definition cookie_domain :: "go_env \<Rightarrow> string \<Rightarrow> string option" where
  "cookie_domain G part =
     (let p = to_lower G (trim_space part) in
      if prefix ''domain='' p then Some (trim_space (trim_prefix p ''domain='')) else None)"

definition cookie_covers :: "go_env \<Rightarrow> string \<Rightarrow> string \<Rightarrow> bool" where
  "cookie_covers G apex cookie \<longleftrightarrow>
     list_ex (\<lambda>part. case cookie_domain G part of None \<Rightarrow> False | Some d \<Rightarrow> d = ''.'' @ apex \<or> d = apex)
       (split_on CHR '';'' cookie)"

definition inspect_root_cookie_scope :: "('w, 'r) web_env \<Rightarrow> string \<Rightarrow> ('w, bool) state" where
  "inspect_root_cookie_scope W apex =
     (let url = ''https://'' @ apex in
      if \<not> request_ok W url then ret False
      else do {
        res \<leftarrow> State (wb_do W \<lparr>wq_url = url, wq_host = [], wq_headers = []\<rparr>);
        ret (case res of
          Inl e \<Rightarrow> False
        | Inr r \<Rightarrow> list_ex (cookie_covers (wb_go W) apex)
            (case map_of (wr_headers r) ''Set-Cookie'' of None \<Rightarrow> [] | Some vs \<Rightarrow> vs))
      })"

definition add_cookie_scope_evidence :: "string \<Rightarrow> host_analysis \<Rightarrow> host_analysis" where
  "add_cookie_scope_evidence apex a =
     (if \<not> ha_parent_cookie_scope a \<or> has_type (ha_evidences a) ''RELATED_DOMAIN_COOKIE_SCOPE'' then a
      else add_evidence (plain_evidence ''RELATED_DOMAIN_COOKIE_SCOPE'' apex
        (''O dom'' @ [CHR 0xC3, CHR 0xAD] @ ''nio registr'' @ [CHR 0xC3, CHR 0xA1] @ ''vel define cookie com escopo que inclui o subdom'' @ [CHR 0xC3, CHR 0xAD] @ ''nio candidato.'') 0 100
        [(''domain'', apex)]) a)"

text \<open>With the cache of the batch. Callers that meet in the single flight share its result, so it is the
  same to let them run one after the other.\<close>

definition collect_cookie_scope ::
  "('w, 'r) web_env \<Rightarrow> string list \<Rightarrow> host_analysis \<Rightarrow> (string, bool) gomap \<Rightarrow>
   ('w, host_analysis \<times> (string, bool) gomap) state"
where
  "collect_cookie_scope W allowed a cache =
     (let apex = extract_root_domain (wb_go W) (ha_host a) in
      if \<not> has_related_domain_impact_candidate (Some a) then ret (a, cache)
      else if apex = [] \<or> CHR ''.'' \<notin> set apex \<or> \<not> related_domain_probe_allowed allowed apex then ret (a, cache)
      else case map_of cache apex of
        Some v \<Rightarrow> ret (add_cookie_scope_evidence apex (a\<lparr>ha_parent_cookie_scope := v\<rparr>), cache)
      | None \<Rightarrow> do {
          v \<leftarrow> inspect_root_cookie_scope W apex;
          cancelled \<leftarrow> reads (wb_cancelled W);
          ret (add_cookie_scope_evidence apex (a\<lparr>ha_parent_cookie_scope := v\<rparr>),
            if cancelled then cache else map_put cache apex v)
        })"

subsection \<open>CORS of the registrable domain (cors_scope.go)\<close>

definition cors_evidence :: "string \<Rightarrow> string \<Rightarrow> string \<Rightarrow> string \<Rightarrow> host_analysis \<Rightarrow> host_analysis" where
  "cors_evidence apex origin allow_origin allow_creds a =
     (let meta = [(''access_control_allow_origin'', allow_origin), (''access_control_allow_credentials'', allow_creds)] in
      if allow_origin = origin \<and> trim_space allow_creds = ''true'' then
        add_evidence (plain_evidence ''RELATED_DOMAIN_CORS_CREDENTIALS'' apex
          (''O dom'' @ [CHR 0xC3, CHR 0xAD] @ ''nio registr'' @ [CHR 0xC3, CHR 0xA1] @ ''vel refletiu exatamente a origem candidata e permitiu credenciais; uma tomada de controle comprovada poderia expor respostas acess'' @ [CHR 0xC3, CHR 0xAD] @ ''veis '' @ [CHR 0xC3, CHR 0xA0] @ '' sess'' @ [CHR 0xC3, CHR 0xA3] @ ''o do usu'' @ [CHR 0xC3, CHR 0xA1] @ ''rio.'')
          0 90 meta) (a\<lparr>ha_parent_cors_wildcard := True\<rparr>)
      else if allow_origin = ''*'' then
        add_evidence (plain_evidence ''CORS_PUBLIC_WILDCARD_OBSERVED'' apex
          (''O dom'' @ [CHR 0xC3, CHR 0xAD] @ ''nio registr'' @ [CHR 0xC3, CHR 0xA1] @ ''vel permite leitura CORS sem credenciais para qualquer origem; isso n'' @ [CHR 0xC3, CHR 0xA3] @ ''o demonstra acesso '' @ [CHR 0xC3, CHR 0xA0] @ '' sess'' @ [CHR 0xC3, CHR 0xA3] @ ''o nem amplia, por si s'' @ [CHR 0xC3, CHR 0xB3] @ '', o impacto de takeover.'')
          0 100 meta) a
      else a)"

definition collect_cors_scope :: "('w, 'r) web_env \<Rightarrow> string list \<Rightarrow> host_analysis \<Rightarrow> ('w, host_analysis) state" where
  "collect_cors_scope W allowed a =
     (let G = wb_go W; apex = extract_root_domain G (ha_host a); url = ''https://'' @ apex;
          origin = ''https://'' @ ha_host a in
      if \<not> has_related_domain_impact_candidate (Some a) then ret a
      else if apex = [] \<or> equal_fold G apex (ha_host a) \<or> \<not> related_domain_probe_allowed allowed apex then ret a
      else if \<not> request_ok W url then ret a
      else do {
        res \<leftarrow> State (wb_do W \<lparr>wq_url = url, wq_host = [], wq_headers = header_set [] ''Origin'' origin\<rparr>);
        ret (case res of
          Inl e \<Rightarrow> a
        | Inr r \<Rightarrow> cors_evidence apex origin (header_value (wr_headers r) ''Access-Control-Allow-Origin'')
            (header_value (wr_headers r) ''Access-Control-Allow-Credentials'') a)
      })"

subsection \<open>Virtual hosts (vhost.go)\<close>

definition random_vhost_name :: "('w, 'r) web_env \<Rightarrow> string \<Rightarrow> ('w, string) state" where
  "random_vhost_name W apex = do {
     bytes \<leftarrow> State (wb_random W);
     ret (case bytes of None \<Rightarrow> ''subdomainabber-probe.'' @ apex | Some b \<Rightarrow> hex_of_text b @ ''.'' @ apex)
   }"

definition vhost_probe ::
  "('w, 'r) web_env \<Rightarrow> string \<Rightarrow> string \<Rightarrow> string \<Rightarrow> ('w, http_observation option) state"
where
  "vhost_probe W dial_host authority scheme =
     (let P = wb_page W; url = scheme @ ''://'' @ dial_host @ ''/'' in
      if \<not> request_ok W url then ret (new_http_observation P scheme 0 [] [] False 0 (wb_url_error W url) [])
      else do {
        start \<leftarrow> State (wb_now W);
        res \<leftarrow> State (wb_do W \<lparr>wq_url = url, wq_host = authority,
          wq_headers = header_set [] ''User-Agent'' ''SubdomainAbber/VHost''\<rparr>);
        stop \<leftarrow> State (wb_now W);
        ret (case res of
          Inl e \<Rightarrow> new_http_observation P scheme 0 [] [] False (stop - start) e []
        | Inr r \<Rightarrow>
            (case read_limited r of
               (bytes, read_error) \<Rightarrow>
                 new_http_observation P scheme (wr_status r) (wr_headers r) (take max_body_size bytes)
                   (read_error = None \<and> wr_close_error r = None \<and> length bytes \<le> max_body_size) (stop - start) []
                   (case read_error of Some e \<Rightarrow> e
                    | None \<Rightarrow> (case wr_close_error r of Some e \<Rightarrow> e | None \<Rightarrow> []))))
      })"

definition same_http_response :: "http_observation \<Rightarrow> http_observation \<Rightarrow> bool" where
  "same_http_response l r \<longleftrightarrow>
     ho_status_code l = ho_status_code r \<and> ho_body_hash l \<noteq> [] \<and> ho_body_hash l = ho_body_hash r"

definition vhost_metadata :: "string \<Rightarrow> string \<Rightarrow> string \<Rightarrow> http_observation \<Rightarrow> http_observation \<Rightarrow> meta" where
  "vhost_metadata scheme first_name second_name baseline variant =
     [(''scheme'', scheme), (''first_host'', first_name), (''second_host'', second_name),
      (''baseline_status'', itoa (ho_status_code baseline)), (''variant_status'', itoa (ho_status_code variant)),
      (''baseline_body_hash'', ho_body_hash baseline), (''variant_body_hash'', ho_body_hash variant)]"

definition vhost_evidence ::
  "string \<Rightarrow> string \<Rightarrow> string \<Rightarrow> http_observation \<Rightarrow> http_observation \<Rightarrow> http_observation \<Rightarrow> evidence option"
where
  "vhost_evidence scheme first_name second_name baseline v1 v2 =
     (let meta = vhost_metadata scheme first_name second_name baseline v1 in
      if \<not> ho_complete v1 \<or> \<not> ho_complete v2 \<or> \<not> same_http_response v1 v2 then None
      else if same_http_response baseline v1 then
        Some (plain_evidence ''HTTP_WILDCARD_DETECTED'' scheme
          (''Dois hostnames inexistentes reproduziram a resposta do hostname analisado.'') 0 95 meta)
      else Some (plain_evidence ''VHOST_DIFFERENTIAL'' scheme
        (''Dois valores benignos de Host reproduziram um backend padr'' @ [CHR 0xC3, CHR 0xA3] @ ''o diferente da aplica'' @ [CHR 0xC3, CHR 0xA7, CHR 0xC3, CHR 0xA3] @ ''o.'') 0 95 meta))"

fun collect_vhost_schemes ::
  "('w, 'r) web_env \<Rightarrow> string \<Rightarrow> string list \<Rightarrow> host_analysis \<Rightarrow> ('w, host_analysis option) state"
where
  "collect_vhost_schemes W apex [] a = ret (Some a)"
| "collect_vhost_schemes W apex (scheme # schemes) a =
     (case get_http_observation a scheme of
        None \<Rightarrow> collect_vhost_schemes W apex schemes a
      | Some baseline \<Rightarrow>
          if \<not> ho_complete baseline then collect_vhost_schemes W apex schemes a
          else do {
            n1 \<leftarrow> random_vhost_name W apex;
            n2 \<leftarrow> random_vhost_name W apex;
            p1 \<leftarrow> vhost_probe W (ha_host a) n1 scheme;
            case p1 of
              None \<Rightarrow> ret None
            | Some v1 \<Rightarrow> do {
                p2 \<leftarrow> vhost_probe W (ha_host a) n2 scheme;
                case p2 of
                  None \<Rightarrow> ret None
                | Some v2 \<Rightarrow> collect_vhost_schemes W apex schemes
                    (case vhost_evidence scheme n1 n2 baseline v1 v2 of None \<Rightarrow> a | Some e \<Rightarrow> add_evidence e a)
              }
          })"

definition collect_vhost :: "('w, 'r) web_env \<Rightarrow> host_analysis \<Rightarrow> ('w, host_analysis option) state" where
  "collect_vhost W a =
     (let apex = extract_root_domain (wb_go W) (ha_host a) in
      collect_vhost_schemes W (if apex = [] then ha_host a else apex) [''https'', ''http'']
        (add_tested_vector ''VHOST'' a))"

end
