(* ===== verification/HttpProps.thy ===== *)
theory HttpProps
  imports CollectHttp
begin

section \<open>What the HTTP baseline observes\<close>

text \<open>
  The evidence of a response and the bounds of an observation, followed through the two protocols of
  the baseline; and the response that ends the program.
\<close>

subsection \<open>Evidence of one response\<close>

lemma add_evidences_frame: "ha_evidences (add_evidences es a) = ha_evidences a @ es"
  "ha_dns (add_evidences es a) = ha_dns a" "ha_host (add_evidences es a) = ha_host a"
  "ha_http_observations (add_evidences es a) = ha_http_observations a"
  by (induction es arbitrary: a) (simp_all add: add_evidences_def add_evidence_def)

lemma response_fields_frame [simp]: "ha_evidences (response_fields f r b d a) = ha_evidences a"
  "ha_dns (response_fields f r b d a) = ha_dns a" "ha_host (response_fields f r b d a) = ha_host a"
  "ha_http_observations (response_fields f r b d a) = ha_http_observations a"
  by (simp_all add: response_fields_def Let_def)

lemma set_observation_frame [simp]: "ha_evidences (set_http_observation s obs a) = ha_evidences a"
  "ha_dns (set_http_observation s obs a) = ha_dns a" "ha_host (set_http_observation s obs a) = ha_host a"
  by (simp_all add: set_http_observation_def)

lemma get_set_observation [simp]:
  "get_http_observation (set_http_observation s obs a) t = (if t = s then Some obs else get_http_observation a t)"
  by (simp add: get_http_observation_def set_http_observation_def map_of_map_put)

lemma add_cdn_frame: "ha_dns (add_cdn G s hs sig a) = ha_dns a" "ha_host (add_cdn G s hs sig a) = ha_host a"
  "ha_http_observations (add_cdn G s hs sig a) = ha_http_observations a"
  "\<exists>es. ha_evidences (add_cdn G s hs sig a) = ha_evidences a @ es \<and> (\<forall>e \<in> set es. ev_type e = ''CDN_DETECTED'')"
  by (auto simp: add_cdn_def add_evidence_def mitigating_evidence_def split: option.split)

lemma add_cdns_frame: "ha_dns (fold (add_cdn G s hs) sigs a) = ha_dns a"
  "ha_host (fold (add_cdn G s hs) sigs a) = ha_host a"
  "ha_http_observations (fold (add_cdn G s hs) sigs a) = ha_http_observations a"
  by (induction sigs arbitrary: a) (simp_all add: add_cdn_frame)

lemma add_cdns_evidences:
  "\<exists>es. ha_evidences (fold (add_cdn G s hs) sigs a) = ha_evidences a @ es \<and>
     (\<forall>e \<in> set es. ev_type e = ''CDN_DETECTED'')"
proof (induction sigs arbitrary: a)
  case (Cons sig sigs)
  obtain es1 where "ha_evidences (add_cdn G s hs sig a) = ha_evidences a @ es1"
    "\<forall>e \<in> set es1. ev_type e = ''CDN_DETECTED''" using add_cdn_frame(4) by blast
  moreover obtain es2 where "ha_evidences (fold (add_cdn G s hs) sigs (add_cdn G s hs sig a)) =
      ha_evidences (add_cdn G s hs sig a) @ es2" "\<forall>e \<in> set es2. ev_type e = ''CDN_DETECTED''"
    using Cons.IH by blast
  ultimately show ?case by (auto intro!: exI [of _ "es1 @ es2"])
qed simp

text \<open>What stands behind the evidence of a fingerprint.\<close>

definition fingerprint_backed ::
  "'r page_env \<Rightarrow> 'r fingerprint list \<Rightarrow> string list \<Rightarrow> evidence \<Rightarrow> bool"
where
  "fingerprint_backed P sigs cnames e \<longleftrightarrow>
     (\<exists>sig \<in> set sigs. \<exists>(obs :: http_observation) cname.
        ev_source e = fp_service sig \<and> fp_vulnerable sig \<and>
        matching_cname (pe_go P) cnames (fp_cnames sig) = Some cname \<and>
        meta_get (ev_metadata e) ''matched_cname'' = cname \<and>
        \<not> is_generic_http_fingerprint (pe_go P) (fp_fingerprint sig) \<and>
        4 \<le> fingerprint_specificity (pe_go P) (fp_fingerprint sig) \<and>
        (fp_http_status sig = None \<or> fp_http_status sig = Some (ho_status_code obs)) \<and>
        ho_complete obs \<and> length (ho_body obs) \<le> max_body_size \<and>
        matches_fingerprint (pe_go P) (pe_regex P) (ho_body obs) sig)"

lemma eligible_facts:
  assumes "eligible_takeover_fingerprint P sig c o1 = (rule, True)"
  shows "fp_vulnerable sig \<and> \<not> is_generic_http_fingerprint (pe_go P) (fp_fingerprint sig) \<and>
    4 \<le> fingerprint_specificity (pe_go P) (fp_fingerprint sig) \<and>
    (fp_http_status sig = None \<or> fp_http_status sig = Some (raw_status_code o1)) \<and> raw_complete o1 \<and>
    matches_fingerprint (pe_go P) (pe_regex P) (raw_body o1) sig"
  using assms
  by (auto simp: eligible_takeover_fingerprint_def Let_def fingerprint_rule_def clean_observation_def
      minimum_takeover_fingerprint_specificity_def split: if_splits option.splits)

lemma hit_backed:
  assumes "fingerprint_hit P cnames obs sig = Some e" "sig \<in> set sigs" "ev_type e = ''HTTP_BODY_MATCH''"
    "length (ho_body obs) \<le> max_body_size"
  shows "fingerprint_backed P sigs cnames e"
proof -
  obtain cname where c: "matching_cname (pe_go P) cnames (fp_cnames sig) = Some cname"
    and e: "e = fingerprint_evidence P obs sig cname"
    using assms(1) by (auto simp: fingerprint_hit_def split: if_splits option.splits)
  obtain rule elig where el: "eligible_takeover_fingerprint P sig (match_candidate (pe_go P) sig cname)
      (raw_observation obs) = (rule, elig)" by (rule prod.exhaust)
  have elig using assms(3) by (auto simp: e fingerprint_evidence_def el plain_evidence_def Let_def split: if_splits)
  then have facts: "eligible_takeover_fingerprint P sig (match_candidate (pe_go P) sig cname)
      (raw_observation obs) = (rule, True)" using el by simp
  have "ev_source e = fp_service sig" "meta_get (ev_metadata e) ''matched_cname'' = cname"
    by (simp_all add: e fingerprint_evidence_def facts plain_evidence_def Let_def)
  then show ?thesis
    using eligible_facts [OF facts] c assms(2,4)
    unfolding fingerprint_backed_def by (auto simp: raw_observation_def)
qed

lemma response_kind_values:
  "response_kind G st hs body \<in> {''EDGE_RESPONSE'', ''RESOURCE_NOT_AVAILABLE'', ''APPLICATION_RESPONSE'',
     ''REDIRECT_RESPONSE'', ''ACCESS_RESPONSE'', ''ERROR_RESPONSE'', ''OTHER_RESPONSE''}"
  by (simp add: response_kind_def)

subsection \<open>Bounds of an observation\<close>

definition bounded_observation :: "http_observation \<Rightarrow> bool" where
  "bounded_observation obs \<longleftrightarrow> length (ho_body obs) \<le> max_body_size \<and> length (ho_title obs) \<le> 200 \<and>
     ho_body_length obs = int (length (ho_body obs))"

lemma clean_title_bound: "length (clean_title t) \<le> 200"
  by (simp add: clean_title_def Let_def)

lemma extract_title_bound: "extract_title G body = Some t \<Longrightarrow> length t \<le> 200"
  using clean_title_bound by (auto simp: extract_title_def Let_def split: option.splits)

lemma new_observation_facts:
  assumes "new_http_observation P scheme st hs body entire d te pe = Some obs"
  shows "ho_body obs = body" "ho_complete obs = entire" "ho_status_code obs = st" "length (ho_title obs) \<le> 200"
    "ho_body_length obs = int (length body)" "ho_response_kind obs = response_kind (pe_go P) st hs body"
  using assms extract_title_bound
  by (auto simp: new_http_observation_def Let_def split: option.splits prod.splits)

lemma body_of_reply_bound: "body_of_reply r = (body, entire, pe) \<Longrightarrow> length body \<le> max_body_size"
  by (auto simp: body_of_reply_def read_limited_def split: if_splits)

subsection \<open>One protocol\<close>

text \<open>What a protocol of the baseline does to the analysis.\<close>

definition baseline_step ::
  "'r page_env \<Rightarrow> 'r fingerprint list \<Rightarrow> string \<Rightarrow> host_analysis \<Rightarrow> host_analysis \<Rightarrow> bool"
where
  "baseline_step P sigs scheme a a' \<longleftrightarrow>
     ha_host a' = ha_host a \<and> ha_dns a' = ha_dns a \<and>
     (\<exists>es. ha_evidences a' = ha_evidences a @ es \<and>
        (\<forall>e \<in> set es. ev_type e = ''HTTP_BODY_MATCH'' \<longrightarrow> fingerprint_backed P sigs (rs_cname (ha_dns a)) e)) \<and>
     (\<exists>obs. get_http_observation a' scheme = Some obs \<and> bounded_observation obs) \<and>
     (\<forall>t. t \<noteq> scheme \<longrightarrow> get_http_observation a' t = get_http_observation a t)"

lemma record_response_step:
  assumes obs: "new_http_observation P scheme st hs body entire d te pe = Some obs"
    and small: "length body \<le> max_body_size"
  shows "baseline_step P (hc_sigs c) scheme a (record_response P c scheme r obs dur a)"
proof -
  let ?a1 = "response_fields (hc_fetch_headers c) r (ho_body obs) dur (set_http_observation scheme obs a)"
  let ?a2 = "fold (add_cdn (pe_go P) scheme (wr_headers r)) (hc_cdns c) ?a1"
  let ?hits = "fingerprint_evidences P (hc_sigs c) (rs_cname (ha_dns a)) obs"
  let ?evs = "[response_evidence scheme obs, kind_evidence scheme obs] @
    status_evidences scheme (ho_status_code obs) @ ?hits @ active_evidences scheme obs ?hits"
  note facts = new_observation_facts [OF obs]
  have result: "record_response P c scheme r obs dur a = add_evidences ?evs ?a2"
    by (simp add: record_response_def Let_def add_cdns_frame)
  obtain es where es: "ha_evidences ?a2 = ha_evidences a @ es" "\<forall>e \<in> set es. ev_type e = ''CDN_DETECTED''"
    using add_cdns_evidences [of "pe_go P" scheme "wr_headers r" "hc_cdns c" ?a1] by auto
  have hits: "fingerprint_backed P (hc_sigs c) (rs_cname (ha_dns a)) e"
    if "e \<in> set ?hits" "ev_type e = ''HTTP_BODY_MATCH''" for e
    using that small facts(1)
    by (auto simp: fingerprint_evidences_def map_filter_def intro!: hit_backed split: if_splits)
  have kind: "ev_type (kind_evidence scheme obs) \<noteq> ''HTTP_BODY_MATCH''"
    using response_kind_values [of "pe_go P" st hs body] by (auto simp: kind_evidence_def plain_evidence_def facts)
  have "\<forall>e \<in> set (es @ ?evs). ev_type e = ''HTTP_BODY_MATCH'' \<longrightarrow>
      fingerprint_backed P (hc_sigs c) (rs_cname (ha_dns a)) e"
    using es(2) hits kind
    by (auto simp: response_evidence_def status_evidences_def active_evidences_def plain_evidence_def
        mitigating_evidence_def split: if_splits)
  moreover have "get_http_observation (record_response P c scheme r obs dur a) t =
      get_http_observation (set_http_observation scheme obs a) t" for t
    by (simp add: result get_http_observation_def add_evidences_frame add_cdns_frame)
  moreover have "bounded_observation obs" using facts small by (simp add: bounded_observation_def)
  ultimately show ?thesis
    unfolding baseline_step_def result
    by (auto simp: add_evidences_frame add_cdns_frame es(1) intro!: exI [of _ "es @ ?evs"])
qed

lemma failed_observation_step:
  assumes "failed_observation P scheme d te pe a = Some a'"
  shows "baseline_step P sigs scheme a a'"
proof -
  obtain obs where obs: "new_http_observation P scheme 0 [] [] False d te pe = Some obs"
    and a': "a' = set_http_observation scheme obs a"
    using assms by (auto simp: failed_observation_def)
  show ?thesis
    using new_observation_facts [OF obs] by (simp add: a' baseline_step_def bounded_observation_def)
qed

lemma probe_scheme_step:
  assumes "run_state (probe_scheme W c scheme a) w = (Some a', w')"
  shows "baseline_step (wb_page W) (hc_sigs c) scheme a a'"
proof (cases "request_ok W (scheme @ ''://'' @ ha_host a)")
  case False
  then show ?thesis using assms by (auto simp: probe_scheme_def Let_def intro: failed_observation_step)
next
  case True
  show ?thesis
    using assms True
    by (auto simp: probe_scheme_def Let_def split: prod.splits sum.splits
        intro: failed_observation_step record_response_step body_of_reply_bound)
qed

lemma baseline_step_trans:
  assumes "baseline_step P sigs s1 a b" "baseline_step P sigs s2 b d" "s1 \<noteq> s2"
  shows "\<exists>es. ha_evidences d = ha_evidences a @ es \<and>
      (\<forall>e \<in> set es. ev_type e = ''HTTP_BODY_MATCH'' \<longrightarrow> fingerprint_backed P sigs (rs_cname (ha_dns a)) e)"
    and "\<forall>s \<in> {s1, s2}. \<exists>obs. get_http_observation d s = Some obs \<and> bounded_observation obs"
  using assms by (fastforce simp: baseline_step_def)+

lemma collect_http_steps:
  assumes "run_state (collect_http W c a) w = (Some (Inr a'), w')" "should_probe_http a"
  obtains a2 where "baseline_step (wb_page W) (hc_sigs c) ''http'' (add_tested_vector ''HTTP'' a) a2"
    "baseline_step (wb_page W) (hc_sigs c) ''https'' a2 a'"
proof -
  have probe: "should_probe_http (add_tested_vector ''HTTP'' a)"
    using assms(2) by (simp add: should_probe_http_def add_tested_vector_def)
  have "hc_config_error c = None" using assms(1) by (cases "hc_config_error c") (auto simp: collect_http_def)
  then obtain a2 w2 where
    first: "run_state (probe_scheme W c ''http'' (add_tested_vector ''HTTP'' a)) w = (Some a2, w2)"
    and second: "run_state (probe_scheme W c ''https'' a2) w2 = (Some a', w')"
    using assms(1) probe by (auto simp: collect_http_def Let_def split: prod.splits option.splits)
  show thesis using that probe_scheme_step [OF first] probe_scheme_step [OF second] by blast
qed

subsection \<open>Properties\<close>


text \<open>After the baseline of a host that resolves both protocols have an observation, and each is
  bounded: a body of at most one megabyte, a title of at most two hundred bytes.\<close>

theorem baseline_observations_bounded:
  assumes "run_state (collect_http W c a) w = (Some (Inr a'), w')" and "should_probe_http a"
  shows "\<forall>s \<in> {''http'', ''https''}. \<exists>obs. get_http_observation a' s = Some obs \<and> bounded_observation obs"
proof -
  obtain a2 where "baseline_step (wb_page W) (hc_sigs c) ''http'' (add_tested_vector ''HTTP'' a) a2"
    "baseline_step (wb_page W) (hc_sigs c) ''https'' a2 a'" by (rule collect_http_steps [OF assms])
  from baseline_step_trans(2) [OF this] show ?thesis by simp
qed

text \<open>A byte that is no UTF-8 becomes three when the body is lowered.\<close>

definition crash_body :: string where
  "crash_body = CHR 0xFF # ''<title>''"

lemma crash_runes: "go_runes crash_body = [65533, 60, 116, 105, 116, 108, 101, 62]"
  by (simp add: crash_body_def go_runes_Cons go_runes_ascii decode_rune.simps rune_error_def in_range_def)

lemma crash_chars: "map char_of [239, 191, 189, 60, 116, 105, 116, 108, 101, 62 :: nat] =
    [CHR 0xEF, CHR 0xBF, CHR 0xBD] @ ''<title>''"
  by code_simp

lemma crash_lower:
  "lower_table G 65533 = 65533 \<Longrightarrow>
   to_lower G crash_body = [CHR 0xEF, CHR 0xBF, CHR 0xBD] @ ''<title>''"
  by (simp add: to_lower_def go_map_def crash_runes map_filter_simps lower_rune_def encode_rune_def in_range_def)
    (use crash_chars in simp)

lemma crash_title: "lower_table G 65533 = 65533 \<Longrightarrow> extract_title G crash_body = None"
  by (simp add: extract_title_def crash_lower slice_from_def Let_def) (simp add: crash_body_def)

text \<open>C40. Eight bytes end the program: when the host answers with the byte \<open>FF\<close> and an opening title
  tag, the collector slices the body beyond its end and panics, whatever the status, the headers and
  the configuration. (The table of lower case leaves the replacement character alone, as in
  Unicode.)\<close>

theorem eight_bytes_crash_the_scan:
  assumes "lower_table (wb_go W) 65533 = 65533"
    and "hc_config_error c = None" and "should_probe_http a"
    and "request_ok W (''http://'' @ ha_host a)"
    and "\<And>q v. fst (wb_do W q v) = Inr r" and "wr_body r = crash_body"
  shows "fst (run_state (collect_http W c a) w) = None"
proof -
  let ?a = "add_tested_vector ''HTTP'' a"
  have host: "ha_host ?a = ha_host a" "should_probe_http ?a"
    using assms(3) by (simp_all add: add_tested_vector_def should_probe_http_def)
  have "length crash_body \<le> max_body_size" by (simp add: crash_body_def max_body_size_def)
  then have body: "fst (body_of_reply r) = crash_body"
    by (auto simp: body_of_reply_def read_limited_def assms(6))
  have panic: "new_http_observation (wb_page W) s st hs crash_body en d te pe = None" for s st hs en d te pe
    using crash_title [OF assms(1)] by (simp add: new_http_observation_def Let_def)
  have "fst (run_state (probe_scheme W c ''http'' ?a) w) = None"
    using assms(4) body panic
    by (auto simp: probe_scheme_def Let_def host assms(5) split: prod.splits sum.splits)
       (metis Inr_inject assms(5) fst_conv sum.simps(4))+
  then show ?thesis
    by (auto simp: collect_http_def assms(2) Let_def host split: prod.splits option.splits)
qed

subsection \<open>Witnesses\<close>

definition sample_page :: "unit page_env" where
  "sample_page = \<lparr>pe_go = ascii_env,
     pe_regex = \<lparr>rx_compile = (\<lambda>_. Inr ()), rx_match = (\<lambda>_ _. False), rx_engine_text = (\<lambda>_. [])\<rparr>,
     pe_sha256 = (\<lambda>_. replicate 32 (CHR 0x00)), pe_replace_all = (\<lambda>_ s _. s), pe_html = (\<lambda>_. None),
     pe_media_type = (\<lambda>_. None), pe_cookies = (\<lambda>_. [])\<rparr>"

definition sample_web :: "(web_request \<Rightarrow> string + web_reply) \<Rightarrow> (unit, unit) web_env" where
  "sample_web answer = \<lparr>wb_page = sample_page, wb_do = (\<lambda>q w. (answer q, w)), wb_now = (\<lambda>w. (0, w)),
     wb_cancelled = (\<lambda>_. False), wb_url_error = (\<lambda>_. ''parse''), wb_random = (\<lambda>w. (None, w))\<rparr>"

definition plain_collector :: "unit http_collector" where
  "plain_collector = new_http_collector [] None ''probe'' 0 False (Inr [])"

definition web_host :: host_analysis where
  "web_host = zero_host_analysis\<lparr>ha_host := ''a.test'',
     ha_dns := zero_dns_record_set\<lparr>rs_a := [''192.0.2.1'']\<rparr>\<rparr>"

lemma web_host_facts [simp]: "should_probe_http web_host" "ha_host web_host = ''a.test''"
  "hc_config_error plain_collector = None"
  by (simp_all add: web_host_def should_probe_http_def plain_collector_def new_http_collector_def
      user_agents_def join_errors_def)

lemma web_host_urls: "request_ok (sample_web f) ''http://a.test''" "request_ok (sample_web f) ''https://a.test''"
proof -
  have "url_parse ascii_env ''http://a.test'' \<noteq> None" "url_parse ascii_env ''https://a.test'' \<noteq> None"
    by code_simp+
  then show "request_ok (sample_web f) ''http://a.test''" "request_ok (sample_web f) ''https://a.test''"
    by (simp_all add: request_ok_def sample_web_def sample_page_def)
qed

lemma silent_run:
  "\<exists>a'. run_state (collect_http (sample_web (\<lambda>_. Inl ''refused'')) plain_collector web_host) () = (Some (Inr a'), ())"
proof -
  have title: "extract_title G [] = Some []" for G
    by (simp add: extract_title_def to_lower_ascii)
  have probe: "should_probe_http (add_tested_vector ''HTTP'' web_host)"
    "ha_host (add_tested_vector ''HTTP'' web_host) = ''a.test''"
    using web_host_facts(1,2) by (simp_all only: should_probe_http_def add_tested_vector_def) simp_all
  have failed: "\<exists>obs. failed_observation P s d te pe a = Some (set_http_observation s obs a)" for P :: "unit page_env" and s d te pe a
    by (auto simp: failed_observation_def new_http_observation_def Let_def title split: prod.split)
  have scheme: "\<exists>obs. run_state (probe_scheme (sample_web (\<lambda>_. Inl ''refused'')) plain_collector s a) () =
      (Some (set_http_observation s obs a), ())"
    if "request_ok (sample_web (\<lambda>_. Inl ''refused'') :: (unit, unit) web_env) (s @ ''://'' @ ha_host a)" for s a
    using that failed by (auto simp: probe_scheme_def Let_def sample_web_def)
  obtain o1 where o1: "run_state (probe_scheme (sample_web (\<lambda>_. Inl ''refused'')) plain_collector ''http''
      (add_tested_vector ''HTTP'' web_host)) () = (Some (set_http_observation ''http'' o1 (add_tested_vector ''HTTP'' web_host)), ())"
    using scheme [of "''http''"] web_host_urls(1) probe(2) by (metis append_Cons append_Nil)
  obtain o2 where o2: "run_state (probe_scheme (sample_web (\<lambda>_. Inl ''refused'')) plain_collector ''https''
      (set_http_observation ''http'' o1 (add_tested_vector ''HTTP'' web_host))) () =
      (Some (set_http_observation ''https'' o2 (set_http_observation ''http'' o1 (add_tested_vector ''HTTP'' web_host))), ())"
    using scheme [of "''https''"] web_host_urls(2) probe(2) by (metis append_Cons append_Nil set_observation_frame(3))
  show ?thesis by (simp add: collect_http_def probe(1) Let_def o1 o2)
qed


theorem baseline_observations_bounded_witness:
  "\<exists>a'. run_state (collect_http (sample_web (\<lambda>_. Inl ''refused'')) plain_collector web_host) () = (Some (Inr a'), ()) \<and>
     (\<exists>obs. get_http_observation a' ''https'' = Some obs \<and> bounded_observation obs)"
proof -
  obtain a' where run: "run_state (collect_http (sample_web (\<lambda>_. Inl ''refused'')) plain_collector web_host) () =
      (Some (Inr a'), ())" using silent_run by blast
  show ?thesis using baseline_observations_bounded [OF run] run by auto
qed

definition crash_reply :: web_reply where
  "crash_reply = \<lparr>wr_status = 200, wr_headers = [], wr_length = 8, wr_body = crash_body,
     wr_read_error = None, wr_close_error = None\<rparr>"

theorem eight_bytes_crash_the_scan_witness:
  "fst (run_state (collect_http (sample_web (\<lambda>_. Inr crash_reply)) plain_collector web_host) ()) = None"
  by (rule eight_bytes_crash_the_scan [where r = crash_reply])
    (use web_host_urls(1) in \<open>simp_all add: sample_web_def sample_page_def crash_reply_def\<close>)

end
