(* ===== verification/HttpRaw.thy ===== *)
theory HttpRaw
  imports HttpObserve GoUrl GoNet GoMonad
begin

section \<open>Raw requests and responses (internal/evidence/http_mutations.go, http_raw_transport.go)\<close>

text \<open>
  The requests of the mutation experiments are written byte by byte, and their responses are read
  from the bytes of the connection, with limits on the headers and the body. A connection is what it
  yields: its bytes and the error that ends them. Allocating a slice of negative or impossible
  length panics: \<open>None\<close> is that panic.
\<close>

subsection \<open>Contexts (internal/core/http.go)\<close>

record block_decision =
  bd_blocked :: bool
  bd_confidence :: int
  bd_reasons :: "string list"
  bd_baseline_id :: string

record mutation_context =
  mc_dial_host :: string
  mc_dial_port :: int
  mc_http_authority :: string
  mc_tls_server_name :: string
  mc_scheme :: string
  mc_baseline :: http_observation
  mc_provider_candidates :: "provider_candidate list"
  mc_block_decision :: block_decision

text \<open>The block decision (http_observation.go).\<close>

definition challenge_signals :: "string list" where
  "challenge_signals = [''cloudflare'', ''incapsula'', ''akamai'', ''sucuri'', ''imperva'', ''access denied'',
     ''request blocked'', ''challenge'', ''enable javascript'', ''checking your browser'',
     ''verify you are human'']"

definition challenge_status :: "int \<Rightarrow> bool" where
  "challenge_status status \<longleftrightarrow> status \<in> {401, 403, 406, 429}"

definition waf_decision :: "bool \<Rightarrow> string \<Rightarrow> string \<Rightarrow> block_decision \<Rightarrow> block_decision" where
  "waf_decision blocked server_and_body body d =
     (case find (contains_str server_and_body) challenge_signals of
        None \<Rightarrow> d
      | Some signal \<Rightarrow>
          (let d1 = d\<lparr>bd_reasons := bd_reasons d @ [''sinal de WAF/challenge: '' @ signal]\<rparr> in
           if blocked then d1\<lparr>bd_confidence := 85\<rparr>
           else if contains_str body signal then d1\<lparr>bd_blocked := True, bd_confidence := 70\<rparr>
           else d1))"

definition decide_block :: "go_env \<Rightarrow> string \<Rightarrow> http_observation \<Rightarrow> block_decision" where
  "decide_block G scheme obs =
     (let status = ho_status_code obs;
          blocked = challenge_status status;
          d0 = \<lparr>bd_blocked = blocked, bd_confidence = (if blocked then 60 else 0),
                bd_reasons = (if blocked then [''status HTTP de bloqueio '' @ itoa status] else []),
                bd_baseline_id = scheme @ '':'' @ itoa status @ '':'' @ ho_body_hash obs\<rparr>;
          body = to_lower G (ho_normalized_body obs);
          d1 = waf_decision blocked (to_lower G (ho_server obs) @ '' '' @ body) body d0
      in if \<not> ho_complete obs \<or> ho_transport_error obs \<noteq> [] \<or> ho_parse_error obs \<noteq> []
         then d1\<lparr>bd_blocked := False, bd_confidence := 0,
                bd_reasons := bd_reasons d1 @ [(''linha de base incompleta ou com falha'')]\<rparr>
         else d1)"

subsection \<open>Writing a request\<close>

type_synonym raw_header = "string \<times> string"

abbreviation crlf :: string where
  "crlf \<equiv> [CHR 0x0D, CHR 0x0A]"

definition line_break_char :: "char \<Rightarrow> bool" where
  "line_break_char c \<longleftrightarrow> c = CHR 0x0D \<or> c = CHR 0x0A"

definition valid_raw_header :: "raw_header \<Rightarrow> bool" where
  "valid_raw_header = (\<lambda>(name, value). name \<noteq> [] \<and>
     \<not> list_ex (\<lambda>c. line_break_char c \<or> c = CHR '':'') name \<and> \<not> list_ex line_break_char value)"

definition raw_header_line :: "raw_header \<Rightarrow> string" where
  "raw_header_line = (\<lambda>(name, value). name @ '':'' @ value @ crlf)"

definition build_raw_request :: "string \<Rightarrow> string \<Rightarrow> raw_header list \<Rightarrow> string \<Rightarrow> string + string" where
  "build_raw_request method target hs body =
     (if method = [] \<or> target = [] \<or> hs = [] then Inl (''m'' @ [CHR 0xC3, CHR 0xA9] @ ''todo, destino e cabe'' @ [CHR 0xC3, CHR 0xA7] @ ''alhos s'' @ [CHR 0xC3, CHR 0xA3] @ ''o obrigat'' @ [CHR 0xC3, CHR 0xB3] @ ''rios'')
      else if \<not> list_all valid_raw_header hs then Inl (''cabe'' @ [CHR 0xC3, CHR 0xA7] @ ''alho bruto (raw) inv'' @ [CHR 0xC3, CHR 0xA1] @ ''lido'')
      else Inr (method @ '' '' @ target @ '' HTTP/1.1'' @ crlf @ concat (map raw_header_line hs) @ crlf @ body))"

definition standard_raw_headers :: "string \<Rightarrow> string \<Rightarrow> raw_header list" where
  "standard_raw_headers host connection =
     [(''Host'', '' '' @ host), (''User-Agent'', '' SubdomainAbber-Mutator/experimental''),
      (''Connection'', '' '' @ connection)]"

definition framing_headers :: "string \<Rightarrow> string \<Rightarrow> bool \<Rightarrow> raw_header list" where
  "framing_headers host content_length chunked =
     [(''Host'', '' '' @ host), (''User-Agent'', '' SubdomainAbber-Mutator/experimental''),
      (''Connection'', '' keep-alive''), (''Content-Type'', '' application/octet-stream''),
      (''Content-Length'', '' '' @ content_length)] @
     (if chunked then [(''Transfer-Encoding'', '' chunked'')] else [])"

definition encode_chunked_body :: "string \<Rightarrow> string" where
  "encode_chunked_body data =
     (if data = [] then ''0'' @ crlf @ crlf
      else hex_text (length data) @ crlf @ data @ crlf @ ''0'' @ crlf @ crlf)"

subsection \<open>The mutations\<close>

datatype http_mutation =
    NullByteHostProbe
  | HostWhitespaceProbe
  | HostTrailingDotProbe
  | ExplicitPortProbe
  | AbsoluteFormProbe
  | CLTEProbe
  | TECLProbe

definition default_http_mutations :: "http_mutation list" where
  "default_http_mutations = [NullByteHostProbe, HostWhitespaceProbe, HostTrailingDotProbe,
     ExplicitPortProbe, AbsoluteFormProbe]"

definition experimental_framing_mutations :: "http_mutation list" where
  "experimental_framing_mutations = [CLTEProbe, TECLProbe]"

fun mutation_name :: "http_mutation \<Rightarrow> string" where
  "mutation_name NullByteHostProbe = ''NullByteHostProbe''"
| "mutation_name HostWhitespaceProbe = ''HostWhitespaceProbe''"
| "mutation_name HostTrailingDotProbe = ''HostTrailingDotProbe''"
| "mutation_name ExplicitPortProbe = ''ExplicitPortProbe''"
| "mutation_name AbsoluteFormProbe = ''AbsoluteFormProbe''"
| "mutation_name CLTEProbe = ''CLTEProbe''"
| "mutation_name TECLProbe = ''TECLProbe''"

fun mutation_description :: "http_mutation \<Rightarrow> string" where
  "mutation_description NullByteHostProbe = (''byte NUL acrescentado ao valor do campo Host'')"
| "mutation_description HostWhitespaceProbe = (''espa'' @ [CHR 0xC3, CHR 0xA7] @ ''o adicional no in'' @ [CHR 0xC3, CHR 0xAD] @ ''cio do valor do campo Host'')"
| "mutation_description HostTrailingDotProbe =
     (''ponto final da raiz DNS acrescentado '' @ [CHR 0xC3, CHR 0xA0] @ '' autoridade Host'')"
| "mutation_description ExplicitPortProbe =
     (''porta TCP expl'' @ [CHR 0xC3, CHR 0xAD] @ ''cita acrescentada ao Host quando altera os bytes da autoridade'')"
| "mutation_description AbsoluteFormProbe =
     (''alvo da requisi'' @ [CHR 0xC3, CHR 0xA7, CHR 0xC3, CHR 0xA3] @ ''o em formato absoluto, preservando a mesma autoridade Host'')"
| "mutation_description CLTEProbe =
     (''requisi'' @ [CHR 0xC3, CHR 0xA7, CHR 0xC3, CHR 0xA3] @ ''o contendo Content-Length e Transfer-Encoding chunked (hip'' @ [CHR 0xC3, CHR 0xB3] @ ''tese CL.TE)'')"
| "mutation_description TECLProbe =
     (''requisi'' @ [CHR 0xC3, CHR 0xA7, CHR 0xC3, CHR 0xA3] @ ''o contendo Content-Length e Transfer-Encoding chunked (hip'' @ [CHR 0xC3, CHR 0xB3] @ ''tese TE.CL)'')"

text \<open>\<open>quote\<close> is \<open>strconv.Quote\<close>, which the message of an invalid endpoint uses.\<close>

definition mutation_endpoint :: "(string \<Rightarrow> string) \<Rightarrow> mutation_context \<Rightarrow> string + string \<times> int" where
  "mutation_endpoint quote ctx =
     (let host = mc_dial_host ctx; port = mc_dial_port ctx in
      if host = [] \<or> port < 1 \<or> port > 65535
      then Inl ((''endpoint de muta'' @ [CHR 0xC3, CHR 0xA7, CHR 0xC3, CHR 0xA3] @ ''o inv'' @ [CHR 0xC3, CHR 0xA1] @ ''lido '') @ quote host @ '':'' @ itoa port)
      else Inr (host, port))"

definition probe_applicable :: "mutation_context \<Rightarrow> bool" where
  "probe_applicable ctx \<longleftrightarrow> mc_dial_host ctx \<noteq> [] \<and> mc_http_authority ctx \<noteq> [] \<and> ho_complete (mc_baseline ctx) \<and>
     bd_blocked (mc_block_decision ctx) \<and> mc_provider_candidates ctx \<noteq> []"

definition framing_probe_applicable :: "mutation_context \<Rightarrow> bool" where
  "framing_probe_applicable ctx \<longleftrightarrow> mc_dial_host ctx \<noteq> [] \<and> mc_http_authority ctx \<noteq> [] \<and>
     ho_complete (mc_baseline ctx) \<and> bd_blocked (mc_block_decision ctx)"

fun mutation_applicability :: "(string \<Rightarrow> string) \<Rightarrow> http_mutation \<Rightarrow> mutation_context \<Rightarrow> bool" where
  "mutation_applicability quote ExplicitPortProbe ctx \<longleftrightarrow> probe_applicable ctx \<and>
     (case mutation_endpoint quote ctx of
        Inl _ \<Rightarrow> False
      | Inr (host, port) \<Rightarrow> mc_http_authority ctx \<noteq> join_host_port host (itoa port))"
| "mutation_applicability quote CLTEProbe ctx \<longleftrightarrow> framing_probe_applicable ctx"
| "mutation_applicability quote TECLProbe ctx \<longleftrightarrow> framing_probe_applicable ctx"
| "mutation_applicability quote _ ctx \<longleftrightarrow> probe_applicable ctx"

definition get_request :: "string \<Rightarrow> string + string" where
  "get_request host = build_raw_request ''GET'' ''/'' (standard_raw_headers host ''close'') []"

definition dotted_authority :: "string \<Rightarrow> string" where
  "dotted_authority host =
     (case net_split_host_port host of
        Some (name, port) \<Rightarrow> join_host_port (trim_suffix name ''.'' @ ''.'') port
      | None \<Rightarrow> trim_suffix host ''.'' @ ''.'')"

definition whitespace_headers :: "string \<Rightarrow> raw_header list" where
  "whitespace_headers host = (standard_raw_headers host ''close'')[0 := (''Host'', ''  '' @ host)]"

fun build_mutation :: "(string \<Rightarrow> string) \<Rightarrow> http_mutation \<Rightarrow> mutation_context \<Rightarrow> string + string" where
  "build_mutation quote NullByteHostProbe ctx = get_request (mc_http_authority ctx @ [CHR 0x00])"
| "build_mutation quote HostWhitespaceProbe ctx =
     build_raw_request ''GET'' ''/'' (whitespace_headers (mc_http_authority ctx)) []"
| "build_mutation quote HostTrailingDotProbe ctx = get_request (dotted_authority (mc_http_authority ctx))"
| "build_mutation quote ExplicitPortProbe ctx =
     (case mutation_endpoint quote ctx of
        Inl e \<Rightarrow> Inl e
      | Inr (host, port) \<Rightarrow> get_request (join_host_port host (itoa port)))"
| "build_mutation quote AbsoluteFormProbe ctx =
     build_raw_request ''GET'' (mc_scheme ctx @ ''://'' @ mc_http_authority ctx @ ''/'')
       (standard_raw_headers (mc_http_authority ctx) ''close'') []"
| "build_mutation quote CLTEProbe ctx =
     (let body = encode_chunked_body [] @ ''X'' in
      build_raw_request ''POST'' ''/'' (framing_headers (mc_http_authority ctx) (itoa (int (length body))) True) body)"
| "build_mutation quote TECLProbe ctx =
     (let data = ''Z''; body = encode_chunked_body data; chunk = hex_text (length data) @ crlf @ data in
      build_raw_request ''POST'' ''/'' (framing_headers (mc_http_authority ctx) (itoa (int (length chunk))) True) body)"

fun build_control :: "http_mutation \<Rightarrow> mutation_context \<Rightarrow> string + string" where
  "build_control CLTEProbe ctx =
     build_raw_request ''POST'' ''/'' (framing_headers (mc_http_authority ctx) (itoa 1) False) ''X''"
| "build_control TECLProbe ctx =
     build_raw_request ''POST'' ''/'' (framing_headers (mc_http_authority ctx) (itoa 1) False) ''Z''"
| "build_control _ ctx = get_request (mc_http_authority ctx)"

subsection \<open>Errors of a connection\<close>

record io_error =
  ie_text :: string
  ie_eof :: bool
  ie_timeout :: bool
  ie_reset_errno :: bool

definition eof_error :: io_error where
  "eof_error = \<lparr>ie_text = ''EOF'', ie_eof = True, ie_timeout = False, ie_reset_errno = False\<rparr>"

definition unexpected_eof_error :: io_error where
  "unexpected_eof_error = \<lparr>ie_text = ''unexpected EOF'', ie_eof = True, ie_timeout = False, ie_reset_errno = False\<rparr>"

definition set_raw_transport_error :: "go_env \<Rightarrow> io_error \<Rightarrow> raw_http_observation \<Rightarrow> raw_http_observation" where
  "set_raw_transport_error G e obs =
     (if ie_eof e then obs\<lparr>raw_parse_error := ie_text e\<rparr>
      else if ie_timeout e then obs\<lparr>raw_timed_out := True, raw_transport_error := ie_text e\<rparr>
      else (let error_text = to_lower G (ie_text e);
                reset = (contains_str error_text ''reset'' \<or> contains_str error_text ''forcibly closed'' \<or> ie_reset_errno e)
            in obs\<lparr>raw_connection_reset := (reset \<or> raw_connection_reset obs), raw_transport_error := ie_text e\<rparr>))"

definition zero_raw_observation :: raw_http_observation where
  "zero_raw_observation = \<lparr>raw_status_code = 0, raw_headers = [], raw_body = [], raw_complete = False,
     raw_timed_out = False, raw_connection_reset = False, raw_parse_error = [], raw_transport_error = [],
     raw_duration = 0\<rparr>"

subsection \<open>Reading a response\<close>

definition max_raw_header_bytes :: int where "max_raw_header_bytes = 65536"

definition default_raw_body_limit :: int where "default_raw_body_limit = 2 ^ 20"

text \<open>\<open>ReadString\<close> of a line: the line with its end, or the end of the bytes.\<close>

definition read_line :: "string \<Rightarrow> (string \<times> string) option" where
  "read_line s =
     (let l = takeWhile (\<lambda>c. c \<noteq> CHR 0x0A) s in
      if CHR 0x0A \<in> set s then Some (l @ [CHR 0x0A], drop (Suc (length l)) s) else None)"

lemma read_line_shorter: "read_line s = Some (l, rest) \<Longrightarrow> length rest < length s"
  by (cases s) (auto simp: read_line_def Let_def split: if_splits)

definition trim_line_break :: "string \<Rightarrow> string" where
  "trim_line_break s = rev (dropWhile line_break_char (rev s))"

definition blank_line :: "string \<Rightarrow> bool" where
  "blank_line l \<longleftrightarrow> l = crlf \<or> l = [CHR 0x0A]"

text \<open>\<open>strconv.ParseInt\<close> with base 16 and 64 bits; base 10 is \<open>atoi\<close>.\<close>

definition nat_of_hex :: "string \<Rightarrow> nat option" where
  "nat_of_hex s =
     (if s = [] then None
      else foldl (\<lambda>acc c. case (acc, hex_val c) of (Some n, Some d) \<Rightarrow> Some (16 * n + d) | _ \<Rightarrow> None) (Some 0) s)"

definition parse_hex64 :: "string \<Rightarrow> int option" where
  "parse_hex64 s =
     (let (neg, ds) = (case s of c # cs \<Rightarrow>
            if c = CHR ''-'' then (True, cs) else if c = CHR ''+'' then (False, cs) else (False, s)
          | [] \<Rightarrow> (False, []))
      in case nat_of_hex ds of
           None \<Rightarrow> None
         | Some n \<Rightarrow> (let v = (if neg then - int n else int n) in
             if - (2 ^ 63) \<le> v \<and> v < 2 ^ 63 then Some v else None))"

text \<open>\<open>make([]byte, n)\<close>: the runtime refuses a negative length and one beyond its address space.\<close>

definition max_alloc :: int where "max_alloc = 2 ^ 48"

definition make_bytes :: "int \<Rightarrow> nat option" where
  "make_bytes n = (if 0 \<le> n \<and> n \<le> max_alloc then Some (nat n) else None)"

text \<open>\<open>io.ReadFull\<close> when fewer bytes are left than were asked for.\<close>

definition read_full_error :: "io_error \<Rightarrow> string \<Rightarrow> io_error" where
  "read_full_error e left = (if left \<noteq> [] \<and> e = eof_error then unexpected_eof_error else e)"

definition response_has_no_body :: "int \<Rightarrow> bool" where
  "response_has_no_body status \<longleftrightarrow> 100 \<le> status \<and> status < 200 \<or> status = 204 \<or> status = 304"

definition header_contains_token :: "go_env \<Rightarrow> headers \<Rightarrow> string \<Rightarrow> string \<Rightarrow> bool" where
  "header_contains_token G hs name token =
     list_ex (\<lambda>v. list_ex (\<lambda>part. equal_fold G (trim_space part) token) (split_on CHR '','' v))
       (case map_of hs (canonical_key name) of None \<Rightarrow> [] | Some vs \<Rightarrow> vs)"

text \<open>The lines of the header: the observation is returned (\<open>Inl\<close>), or the body follows (\<open>Inr\<close>).\<close>

function read_header_lines ::
  "go_env \<Rightarrow> io_error \<Rightarrow> int \<Rightarrow> string \<Rightarrow> raw_http_observation \<Rightarrow>
   raw_http_observation + raw_http_observation \<times> string"
where
  "read_header_lines G e used s obs =
     (case read_line s of
        None \<Rightarrow> Inl (set_raw_transport_error G e obs)
      | Some (line, rest) \<Rightarrow>
          (let used' = used + int (length line) in
           if used' > max_raw_header_bytes
           then Inl (obs\<lparr>raw_parse_error := (''os cabe'' @ [CHR 0xC3, CHR 0xA7] @ ''alhos HTTP excederam o tamanho m'' @ [CHR 0xC3, CHR 0xA1] @ ''ximo'')\<rparr>)
           else if blank_line line then Inr (obs, rest)
           else case cut_at CHR '':'' (trim_line_break line) of
             (name, v, found) \<Rightarrow>
               if \<not> found \<or> trim_space name = []
               then Inl (obs\<lparr>raw_parse_error := (''cabe'' @ [CHR 0xC3, CHR 0xA7] @ ''alho HTTP malformado'')\<rparr>)
               else read_header_lines G e used' rest
                 (obs\<lparr>raw_headers := header_add (raw_headers obs) (trim_space name) (trim_space v)\<rparr>)))"
  by pat_completeness auto
termination
  by (relation "measure (\<lambda>(_, _, _, s, _). length s)") (auto dest: read_line_shorter)

function read_trailer ::
  "go_env \<Rightarrow> io_error \<Rightarrow> string \<Rightarrow> string \<Rightarrow> raw_http_observation \<Rightarrow> raw_http_observation"
where
  "read_trailer G e s body obs =
     (case read_line s of
        None \<Rightarrow> set_raw_transport_error G e obs
      | Some (line, rest) \<Rightarrow>
          if blank_line line then obs\<lparr>raw_body := body, raw_complete := True\<rparr>
          else read_trailer G e rest body obs)"
  by pat_completeness auto
termination
  by (relation "measure (\<lambda>(_, _, s, _, _). length s)") (auto dest: read_line_shorter)

function read_chunked_body ::
  "go_env \<Rightarrow> io_error \<Rightarrow> int \<Rightarrow> string \<Rightarrow> string \<Rightarrow> raw_http_observation \<Rightarrow> raw_http_observation option"
where
  "read_chunked_body G e max_body s body obs =
     (case read_line s of
        None \<Rightarrow> Some (set_raw_transport_error G e obs)
      | Some (line, rest) \<Rightarrow>
          (case parse_hex64 (trim_space (hd (split_on CHR '';'' line))) of
             None \<Rightarrow> Some (obs\<lparr>raw_parse_error := (''tamanho de chunk inv'' @ [CHR 0xC3, CHR 0xA1] @ ''lido'')\<rparr>)
           | Some sz \<Rightarrow>
               if sz < 0 then Some (obs\<lparr>raw_parse_error := (''tamanho de chunk inv'' @ [CHR 0xC3, CHR 0xA1] @ ''lido'')\<rparr>)
               else if sz = 0 then Some (read_trailer G e rest body obs)
               else if wrap64 (int (length body) + sz) > max_body
               then Some (obs\<lparr>raw_body := body, raw_parse_error := (''o corpo HTTP excedeu o tamanho m'' @ [CHR 0xC3, CHR 0xA1] @ ''ximo'')\<rparr>)
               else case make_bytes (wrap64 (sz + 2)) of
                 None \<Rightarrow> None
               | Some n \<Rightarrow>
                   if length rest < n then Some (set_raw_transport_error G (read_full_error e rest) obs)
                   else if \<not> suffix crlf (take n rest)
                   then Some (obs\<lparr>raw_parse_error := (''chunk sem delimitador CRLF'')\<rparr>)
                   else read_chunked_body G e max_body (drop n rest) (body @ take (n - 2) (take n rest)) obs))"
  by pat_completeness auto
termination
  by (relation "measure (\<lambda>(_, _, _, s, _, _). length s)") (auto dest: read_line_shorter)

definition read_sized_body ::
  "go_env \<Rightarrow> io_error \<Rightarrow> int \<Rightarrow> string \<Rightarrow> string \<Rightarrow> raw_http_observation \<Rightarrow> raw_http_observation"
where
  "read_sized_body G e max_body content_length s obs =
     (case atoi content_length of
        None \<Rightarrow> obs\<lparr>raw_parse_error := (''Content-Length inv'' @ [CHR 0xC3, CHR 0xA1] @ ''lido'')\<rparr>
      | Some n \<Rightarrow>
          if n < 0 then obs\<lparr>raw_parse_error := (''Content-Length inv'' @ [CHR 0xC3, CHR 0xA1] @ ''lido'')\<rparr>
          else if n > max_body then obs\<lparr>raw_parse_error := (''o corpo HTTP excedeu o tamanho m'' @ [CHR 0xC3, CHR 0xA1] @ ''ximo'')\<rparr>
          else (let obs1 = obs\<lparr>raw_body := take (nat n) s\<rparr> in
                if length s < nat n then set_raw_transport_error G (read_full_error e s) obs1
                else obs1\<lparr>raw_complete := True\<rparr>))"

text \<open>A body that ends with the connection.\<close>

definition read_whole_body ::
  "go_env \<Rightarrow> io_error \<Rightarrow> int \<Rightarrow> string \<Rightarrow> raw_http_observation \<Rightarrow> raw_http_observation"
where
  "read_whole_body G e max_body s obs =
     (if int (length s) > max_body
      then obs\<lparr>raw_body := take (nat max_body) s, raw_parse_error := (''o corpo HTTP excedeu o tamanho m'' @ [CHR 0xC3, CHR 0xA1] @ ''ximo'')\<rparr>
      else (let obs1 = obs\<lparr>raw_body := s\<rparr> in
            if e \<noteq> eof_error then set_raw_transport_error G e obs1 else obs1\<lparr>raw_complete := True\<rparr>))"

definition read_body ::
  "go_env \<Rightarrow> io_error \<Rightarrow> int \<Rightarrow> string \<Rightarrow> raw_http_observation \<Rightarrow> raw_http_observation option"
where
  "read_body G e max_body s obs =
     (if response_has_no_body (raw_status_code obs) then Some (obs\<lparr>raw_complete := True\<rparr>)
      else if header_contains_token G (raw_headers obs) ''Transfer-Encoding'' ''chunked''
      then read_chunked_body G e max_body s [] obs
      else if header_value (raw_headers obs) ''Content-Length'' \<noteq> []
      then Some (read_sized_body G e max_body (header_value (raw_headers obs) ''Content-Length'') s obs)
      else Some (read_whole_body G e max_body s obs))"

definition read_raw_http_observation ::
  "go_env \<Rightarrow> io_error \<Rightarrow> int \<Rightarrow> string \<Rightarrow> raw_http_observation option"
where
  "read_raw_http_observation G e max_body s =
     (let obs = zero_raw_observation in
      case read_line s of
        None \<Rightarrow> Some (set_raw_transport_error G e obs)
      | Some (line, rest) \<Rightarrow>
          (case go_fields (trim_line_break line) of
             version # code # _ \<Rightarrow>
               if \<not> prefix ''HTTP/'' version
               then Some (obs\<lparr>raw_parse_error := (''linha de status HTTP malformada'')\<rparr>)
               else (case atoi code of
                   None \<Rightarrow> Some (obs\<lparr>raw_parse_error := (''c'' @ [CHR 0xC3, CHR 0xB3] @ ''digo de status HTTP inv'' @ [CHR 0xC3, CHR 0xA1] @ ''lido'')\<rparr>)
                 | Some status \<Rightarrow>
                     if status < 100 \<or> status > 999
                     then Some (obs\<lparr>raw_parse_error := (''c'' @ [CHR 0xC3, CHR 0xB3] @ ''digo de status HTTP inv'' @ [CHR 0xC3, CHR 0xA1] @ ''lido'')\<rparr>)
                     else (case read_header_lines G e 0 rest (obs\<lparr>raw_status_code := status\<rparr>) of
                         Inl r \<Rightarrow> Some r
                       | Inr (obs1, after) \<Rightarrow> read_body G e max_body after obs1))
           | _ \<Rightarrow> Some (obs\<lparr>raw_parse_error := (''linha de status HTTP malformada'')\<rparr>)))"

subsection \<open>The transport\<close>

text \<open>The proxy that the mutator uses: the first line of a file, or the first item of a list.\<close>

definition set_proxy :: "go_env \<Rightarrow> string option \<Rightarrow> string \<Rightarrow> string + url option" where
  "set_proxy G file raw_proxy =
     (if raw_proxy = [] then Inr None
      else
        let items = (case file of Some data \<Rightarrow> split_on CHR 0x0A data | None \<Rightarrow> split_on CHR '','' raw_proxy) in
        case find (\<lambda>v. v \<noteq> []) (map trim_space items) of
          None \<Rightarrow> Inl (''a configura'' @ [CHR 0xC3, CHR 0xA7, CHR 0xC3, CHR 0xA3] @ ''o de proxy n'' @ [CHR 0xC3, CHR 0xA3] @ ''o cont'' @ [CHR 0xC3, CHR 0xA9] @ ''m endpoint utiliz'' @ [CHR 0xC3, CHR 0xA1] @ ''vel'')
        | Some selected \<Rightarrow>
            (case url_parse G selected of
               None \<Rightarrow> Inl (''proxy HTTP raw inv'' @ [CHR 0xC3, CHR 0xA1] @ ''lido'')
             | Some u \<Rightarrow>
                 if url_host u = [] \<or> url_scheme u \<notin> {''http'', ''https'', ''socks5'', ''socks5h''}
                 then Inl (''o HTTP Mutator raw aceita um proxy http://, https:// ou socks5://'')
                 else Inr (Some u)))"

text \<open>
  The network below the transport. \<open>deadline\<close> is the limit of the context, when it has one; an
  exchange writes the request and yields the bytes of the response with the error that ends them.
\<close>

record 'w raw_net =
  rn_dial :: "url option \<Rightarrow> int option \<Rightarrow> string \<Rightarrow> 'w \<Rightarrow> io_error option \<times> 'w"
  rn_handshake :: "int option \<Rightarrow> string \<Rightarrow> 'w \<Rightarrow> io_error option \<times> 'w"
  rn_set_deadline :: "int option \<Rightarrow> 'w \<Rightarrow> string option \<times> 'w"
  rn_exchange :: "string \<Rightarrow> 'w \<Rightarrow> (io_error + string \<times> io_error) \<times> 'w"
  rn_now :: "'w \<Rightarrow> time \<times> 'w"

record raw_transport =
  rt_proxy :: "string + url option"
  rt_max_body :: int

definition raw_timed :: "'w raw_net \<Rightarrow> time \<Rightarrow> raw_http_observation option \<Rightarrow> ('w, raw_http_observation option) state" where
  "raw_timed N started r =
     do { now \<leftarrow> State (rn_now N); ret (map_option (\<lambda>obs. obs\<lparr>raw_duration := now - started\<rparr>) r) }"

definition raw_failed :: "string \<Rightarrow> raw_http_observation option" where
  "raw_failed text = Some (zero_raw_observation\<lparr>raw_transport_error := text\<rparr>)"

definition raw_exchange ::
  "go_env \<Rightarrow> 'w raw_net \<Rightarrow> raw_transport \<Rightarrow> int option \<Rightarrow> time \<Rightarrow> string \<Rightarrow> ('w, raw_http_observation option) state"
where
  "raw_exchange G N T deadline started payload =
     do { bad \<leftarrow> State (rn_set_deadline N deadline);
          case bad of
            Some text \<Rightarrow> raw_timed N started (raw_failed text)
          | None \<Rightarrow>
              do { answer \<leftarrow> State (rn_exchange N payload);
                   raw_timed N started
                     (case answer of
                        Inl e \<Rightarrow> Some (set_raw_transport_error G e zero_raw_observation)
                      | Inr (bytes, e) \<Rightarrow>
                          read_raw_http_observation G e
                            (if rt_max_body T \<le> 0 then default_raw_body_limit else rt_max_body T) bytes) } }"

definition send_raw ::
  "go_env \<Rightarrow> (string \<Rightarrow> string) \<Rightarrow> 'w raw_net \<Rightarrow> raw_transport \<Rightarrow> int option \<Rightarrow> mutation_context \<Rightarrow> string \<Rightarrow>
   ('w, raw_http_observation option) state"
where
  "send_raw G quote N T deadline ctx payload =
     do { started \<leftarrow> State (rn_now N);
          case rt_proxy T of
            Inl text \<Rightarrow> raw_timed N started (raw_failed text)
          | Inr proxy \<Rightarrow>
              (case mutation_endpoint quote ctx of
                 Inl text \<Rightarrow> raw_timed N started (raw_failed text)
               | Inr (host, port) \<Rightarrow>
                   do { refused \<leftarrow> State (rn_dial N proxy deadline (join_host_port host (itoa port)));
                        case refused of
                          Some e \<Rightarrow> raw_timed N started (Some (set_raw_transport_error G e zero_raw_observation))
                        | None \<Rightarrow>
                            if \<not> equal_fold G (mc_scheme ctx) ''https'' then raw_exchange G N T deadline started payload
                            else if mc_tls_server_name ctx = []
                            then raw_timed N started (raw_failed
                              (''o nome de servidor TLS '' @ [CHR 0xC3, CHR 0xA9] @ '' obrigat'' @ [CHR 0xC3, CHR 0xB3] @ ''rio no transporte HTTPS raw''))
                            else
                              do { failed \<leftarrow> State (rn_handshake N deadline (mc_tls_server_name ctx));
                                   case failed of
                                     Some e \<Rightarrow> raw_timed N started (Some (set_raw_transport_error G e zero_raw_observation))
                                   | None \<Rightarrow> raw_exchange G N T deadline started payload } }) }"

end
