(* ===== verification/HttpRawProps.thy ===== *)
theory HttpRawProps
  imports HttpRaw
begin

section \<open>What the raw transport reads\<close>

text \<open>
  A chunked body that the program writes is the body that the program reads; a body that is read stays
  within its limit; and a chunk size whose sum overflows gets past the limit and ends the program.
\<close>

declare read_header_lines.simps [simp del] read_trailer.simps [simp del] read_chunked_body.simps [simp del]

subsection \<open>Hexadecimal text\<close>

lemma hex_val_nibble: "n < 16 \<Longrightarrow> hex_val (hex_nibble n) = Some n"
  by (auto simp: in_range_def Let_def)

definition hex_step :: "nat option \<Rightarrow> char \<Rightarrow> nat option" where
  "hex_step acc c = (case (acc, hex_val c) of (Some n, Some d) \<Rightarrow> Some (16 * n + d) | _ \<Rightarrow> None)"

lemma nat_of_hex_step: "nat_of_hex s = (if s = [] then None else foldl hex_step (Some 0) s)"
  by (simp add: nat_of_hex_def hex_step_def [abs_def])

lemma hex_text_nonempty [simp]: "hex_text n \<noteq> []"
  by (simp add: hex_text.simps [of n])

lemma nat_of_hex_text: "nat_of_hex (hex_text n) = Some n"
proof (induction n rule: hex_text.induct)
  case (1 n)
  show ?case
  proof (cases "n < 16")
    case True
    then show ?thesis
      by (simp add: nat_of_hex_step hex_text.simps [of n] hex_val_nibble hex_step_def del: hex_nibble.simps hex_val.simps)
  next
    case False
    then have "foldl hex_step (Some 0) (hex_text (n div 16)) = Some (n div 16)"
      using 1 by (simp add: nat_of_hex_step)
    then show ?thesis using False
      by (simp add: nat_of_hex_step hex_text.simps [of n] del: hex_nibble.simps)
        (simp add: hex_step_def hex_val_nibble del: hex_nibble.simps hex_val.simps)
  qed
qed

definition size_char :: "char \<Rightarrow> bool" where
  "size_char c \<longleftrightarrow> plain_char c \<and> of_char c \<notin> {43, 45, 59, 10 :: nat}"

lemma hex_nibble_size: "n < 16 \<Longrightarrow> size_char (hex_nibble n)"
proof -
  have "list_all (\<lambda>n. size_char (hex_nibble n)) [0..<16]"
    by (simp add: upt_rec size_char_def plain_char_def is_space_def in_range_def)
  then show "n < 16 \<Longrightarrow> size_char (hex_nibble n)" by (simp add: list_all_iff)
qed

lemma hex_text_size: "list_all size_char (hex_text n)"
proof (induction n rule: hex_text.induct)
  case (1 n)
  then show ?case
    using hex_nibble_size [of n] hex_nibble_size [of "n mod 16"]
    by (simp add: hex_text.simps [of n] del: hex_nibble.simps)
qed

lemma hex_text_chars: "c \<in> set (hex_text n) \<Longrightarrow> size_char c"
  using hex_text_size by (auto simp: list_all_iff)

lemma parse_hex_text:
  assumes "n < 2 ^ 63"
  shows "parse_hex64 (hex_text n) = Some (int n)"
proof -
  obtain c cs where c: "hex_text n = c # cs" by (cases "hex_text n") simp_all
  then have sign: "c \<noteq> CHR ''-''" "c \<noteq> CHR ''+''" using hex_text_chars [of c n] by (auto simp: size_char_def)
  have "int n < int (2 ^ 63)" using assms by (simp only: of_nat_less_iff)
  then have "int n < 2 ^ 63" by simp
  moreover have "nat_of_hex (c # cs) = Some n" using nat_of_hex_text [of n] c by simp
  ultimately show ?thesis using sign by (simp add: parse_hex64_def c)
qed

subsection \<open>Lines\<close>

lemma trim_func_ascii:
  assumes "is_ascii s"
  shows "trim_func p s = rev (dropWhile (p \<circ> of_char) (rev (dropWhile (p \<circ> of_char) s)))"
proof -
  have d: "dropWhile (\<lambda>(r, _). p r) (map (\<lambda>c. (of_char c, [c])) xs) = map (\<lambda>c. (of_char c, [c])) (dropWhile (p \<circ> of_char) xs)" for xs
    by (induction xs) auto
  have c: "concat (map snd (map (\<lambda>c. (of_char c :: nat, [c])) xs)) = xs" for xs
    by (induction xs) auto
  show ?thesis
    by (simp only: trim_func_def Let_def rune_chunks_ascii [OF assms] d rev_map c)
qed

lemma trim_space_line:
  assumes "list_all plain_char s"
  shows "trim_space (s @ crlf) = s"
proof -
  have sp: "\<not> is_space (of_char c)" if "c \<in> set s" for c
    using assms that by (auto simp: list_all_iff plain_char_def)
  have "dropWhile (is_space \<circ> of_char) (rev (s @ crlf)) = rev s"
    using sp by (cases s rule: rev_cases) (auto simp: is_space_def)
  moreover have "dropWhile (is_space \<circ> of_char) (s @ crlf) = (if s = [] then [] else s @ crlf)"
    using sp by (cases s) (auto simp: is_space_def)
  ultimately show ?thesis
    using plain_ascii [OF assms] by (auto simp: trim_space_def trim_func_ascii)
qed

lemma read_line_crlf:
  assumes "CHR 0x0A \<notin> set l"
  shows "read_line (l @ crlf @ rest) = Some (l @ crlf, rest)"
proof -
  have "takeWhile (\<lambda>c. c \<noteq> CHR 0x0A) (l @ crlf @ rest) = l @ [CHR 0x0D]"
    using assms by (induction l) auto
  then show ?thesis by (simp add: read_line_def)
qed

text \<open>A line that gives the size of a chunk.\<close>

definition size_line :: "string \<Rightarrow> nat \<Rightarrow> bool" where
  "size_line t n \<longleftrightarrow> list_all size_char t \<and> parse_hex64 t = Some (int n)"

lemma size_line_hex: "n < 2 ^ 63 \<Longrightarrow> size_line (hex_text n) n"
  by (simp add: size_line_def hex_text_size parse_hex_text)

lemma read_size_line: "size_line t n \<Longrightarrow> read_line (t @ crlf @ rest) = Some (t @ crlf, rest)"
  by (rule read_line_crlf) (auto simp: size_line_def list_all_iff size_char_def)

lemma parse_size_line:
  assumes "size_line t n"
  shows "parse_hex64 (trim_space (hd (split_on CHR '';'' (t @ crlf)))) = Some (int n)"
proof -
  have "split_on CHR '';'' (t @ crlf) = [t @ crlf]"
    by (rule split_on_no_sep) (use assms in \<open>auto simp: size_line_def list_all_iff size_char_def\<close>)
  moreover have "list_all plain_char t"
    using assms by (auto simp: size_line_def list_all_iff size_char_def)
  ultimately show ?thesis using assms by (simp add: trim_space_line size_line_def)
qed

subsection \<open>Chunks\<close>

text \<open>The last chunk.\<close>

lemma read_last_chunk:
  "read_chunked_body G e max_body (''0'' @ crlf @ crlf @ rest) body obs =
     Some (obs\<lparr>raw_body := body, raw_complete := True\<rparr>)"
proof -
  have zero: "hex_text 0 = ''0''" by code_simp
  have size: "size_line ''0'' 0" using size_line_hex [of 0] by (simp add: zero)
  have line: "read_line (''0'' @ crlf @ crlf @ rest) = Some (''0'' @ crlf, crlf @ rest)"
    "parse_hex64 (trim_space (hd (split_on CHR '';'' (''0'' @ crlf)))) = Some 0"
    using read_size_line [OF size, of "crlf @ rest"] parse_size_line [OF size] by simp_all
  have "read_line (crlf @ rest) = Some (crlf, rest)" using read_line_crlf [of "[]" rest] by simp
  then have "read_trailer G e (crlf @ rest) body obs = obs\<lparr>raw_body := body, raw_complete := True\<rparr>"
    by (subst read_trailer.simps) (simp add: blank_line_def)
  with line show ?thesis by (subst read_chunked_body.simps) simp
qed

text \<open>One step of the loop, for a size line of the usual form.\<close>

lemma read_chunk_step:
  assumes "size_line t n" and "0 < n"
  shows "read_chunked_body G e max_body (t @ crlf @ rest) body obs =
    (if wrap64 (int (length body) + int n) > max_body
     then Some (obs\<lparr>raw_body := body, raw_parse_error := ''o corpo HTTP excedeu o tamanho m'' @ [CHR 0xC3, CHR 0xA1] @ ''ximo''\<rparr>)
     else case make_bytes (wrap64 (int n + 2)) of
       None \<Rightarrow> None
     | Some k \<Rightarrow>
         if length rest < k then Some (set_raw_transport_error G (read_full_error e rest) obs)
         else if \<not> suffix crlf (take k rest)
         then Some (obs\<lparr>raw_parse_error := ''chunk sem delimitador CRLF''\<rparr>)
         else read_chunked_body G e max_body (drop k rest) (body @ take (k - 2) (take k rest)) obs)"
  using assms by (subst read_chunked_body.simps) (simp only: read_size_line [OF assms(1)] parse_size_line [OF assms(1)] option.case prod.case, simp)

text \<open>A chunk that fits is appended to the body.\<close>

lemma read_one_chunk:
  assumes "data \<noteq> []" and "int (length body + length data) \<le> max_body" and "max_body < 2 ^ 47"
  shows "read_chunked_body G e max_body (hex_text (length data) @ crlf @ data @ crlf @ rest) body obs =
    read_chunked_body G e max_body rest (body @ data) obs"
proof -
  let ?n = "length data"
  have small: "int ?n < 2 ^ 47" "int (length body) + int ?n < 2 ^ 63"
    using assms by auto
  have "int ?n < int (2 ^ 63)" using small(1) by simp
  then have n: "?n < 2 ^ 63" "0 < ?n" using assms(1) by (simp_all only: of_nat_less_iff) simp
  have "wrap64 (int (length body) + int ?n) = int (length body + ?n)"
    using small by (simp add: wrap64_id)
  then have fits: "\<not> wrap64 (int (length body) + int ?n) > max_body" using assms(2) by simp
  have "wrap64 (int ?n + 2) = int ?n + 2" using small by (intro wrap64_id) auto
  then have alloc: "make_bytes (wrap64 (int ?n + 2)) = Some (?n + 2)"
    using small by (simp add: make_bytes_def max_alloc_def nat_add_distrib)
  have take: "take (?n + 2) (data @ crlf @ rest) = data @ crlf" "drop (?n + 2) (data @ crlf @ rest) = rest"
    "take (?n + 2 - 2) (data @ crlf) = data" "\<not> length (data @ crlf @ rest) < ?n + 2" "suffix crlf (data @ crlf)"
    by (simp_all add: suffix_def)
  show ?thesis
    using read_chunk_step [OF size_line_hex [OF n(1)] n(2), of G e max_body "data @ crlf @ rest" body obs]
    by (simp only: fits alloc take option.case if_False not_not if_True) (simp add: suffix_def)
qed

subsection \<open>Limits\<close>

text \<open>An allocation that succeeds cannot come from a sum that overflowed.\<close>

lemma chunk_fits:
  assumes "0 < sz" "sz < 2 ^ 63" "\<not> wrap64 (int l + sz) > max_body" "make_bytes (wrap64 (sz + 2)) = Some k"
    "int l < 2 ^ 47"
  shows "int k = sz + 2 \<and> int l + sz \<le> max_body"
proof -
  have w: "0 \<le> wrap64 (sz + 2)" "wrap64 (sz + 2) \<le> 2 ^ 48" "int k = wrap64 (sz + 2)"
    using assms(4) by (auto simp: make_bytes_def max_alloc_def split: if_splits)
  have "sz + 2 < 2 ^ 63"
  proof (rule ccontr)
    assume "\<not> sz + 2 < 2 ^ 63"
    then have "sz = 2 ^ 63 - 2 \<or> sz = 2 ^ 63 - 1" using assms(2) by linarith
    then have "wrap64 (sz + 2) < 0" by (auto simp: wrap64_def)
    with w(1) show False by simp
  qed
  then have k: "wrap64 (sz + 2) = sz + 2" using assms(1) by (intro wrap64_id) auto
  then have "sz \<le> 2 ^ 48" using w(2) by linarith
  then have "wrap64 (int l + sz) = int l + sz" using assms(1,5) by (intro wrap64_id) auto
  with k w(3) assms(3) show ?thesis by simp
qed

lemma set_raw_transport_error_body [simp]: "raw_body (set_raw_transport_error G e obs) = raw_body obs"
  by (simp add: set_raw_transport_error_def Let_def)

lemma parse_hex64_range: "parse_hex64 s = Some v \<Longrightarrow> v < 2 ^ 63"
  by (auto simp: parse_hex64_def Let_def split: prod.splits option.splits if_splits)

lemma read_trailer_bound:
  "int (length body) \<le> b \<Longrightarrow> int (length (raw_body obs)) \<le> b \<Longrightarrow>
   int (length (raw_body (read_trailer G e s body obs))) \<le> b"
proof (induction G e s body obs rule: read_trailer.induct)
  case (1 G e s body obs)
  then show ?case by (subst read_trailer.simps) (auto split: option.split)
qed

lemma read_chunked_body_bound:
  "read_chunked_body G e b s body obs = Some r \<Longrightarrow> int (length body) \<le> b \<Longrightarrow>
   int (length (raw_body obs)) \<le> b \<Longrightarrow> b < 2 ^ 47 \<Longrightarrow> int (length (raw_body r)) \<le> b"
proof (induction G e b s body obs rule: read_chunked_body.induct)
  case (1 G e b s body obs)
  have fits: "int (length (body @ take (k - 2) (take k rest))) \<le> b"
    if "0 < sz" "parse_hex64 t = Some sz" "\<not> wrap64 (int (length body) + sz) > b" "make_bytes (wrap64 (sz + 2)) = Some k"
    for t sz k and rest :: string
    using chunk_fits [OF that(1) parse_hex64_range [OF that(2)] that(3,4)] "1.prems"(2,4) by auto
  show ?case
    using "1.prems"
    by (subst (asm) read_chunked_body.simps)
      (auto split: option.splits prod.splits if_splits intro: read_trailer_bound
        intro!: "1.IH" dest: fits [rotated])
qed

definition header_frame :: "raw_http_observation \<Rightarrow> raw_http_observation + raw_http_observation \<times> string \<Rightarrow> bool" where
  "header_frame obs x = (case x of Inl r \<Rightarrow> raw_body r = raw_body obs
     | Inr (r, after) \<Rightarrow> raw_body r = raw_body obs \<and> raw_status_code r = raw_status_code obs)"

lemma header_frame_simps [simp]: "header_frame obs (Inl r) \<longleftrightarrow> raw_body r = raw_body obs"
  "header_frame obs (Inr (r, after)) \<longleftrightarrow> raw_body r = raw_body obs \<and> raw_status_code r = raw_status_code obs"
  "header_frame (obs\<lparr>raw_headers := hs\<rparr>) x = header_frame obs x"
  by (simp_all add: header_frame_def split: sum.split prod.split)

lemma read_header_lines_frame: "header_frame obs (read_header_lines G e used s obs)"
proof (induction G e used s obs rule: read_header_lines.induct)
  case (1 G e used s obs)
  then show ?case
    by (subst read_header_lines.simps) (auto simp: Let_def split: option.split prod.split)
qed

lemma read_body_bound:
  assumes "read_body G e b s obs = Some r" "raw_body obs = []" "0 \<le> b" "b < 2 ^ 47"
  shows "int (length (raw_body r)) \<le> b"
  using assms read_chunked_body_bound [of G e b s "[]" obs r]
  by (auto simp: read_body_def read_sized_body_def read_whole_body_def Let_def
      split: if_splits option.splits)

lemma zero_raw_body [simp]: "raw_body zero_raw_observation = []"
  by (simp add: zero_raw_observation_def)

lemma status_headers_body:
  "read_header_lines G e n t (zero_raw_observation\<lparr>raw_status_code := c\<rparr>) = Inl r \<Longrightarrow> raw_body r = []"
  "read_header_lines G e n t (zero_raw_observation\<lparr>raw_status_code := c\<rparr>) = Inr (r, after) \<Longrightarrow> raw_body r = []"
  using read_header_lines_frame [of "zero_raw_observation\<lparr>raw_status_code := c\<rparr>" G e n t] by simp_all

text \<open>A response is refused without a body, or its body is read.\<close>

definition no_body_or_read ::
  "go_env \<Rightarrow> io_error \<Rightarrow> int \<Rightarrow> raw_http_observation option \<Rightarrow> bool"
where
  "no_body_or_read G e b x \<longleftrightarrow> (\<exists>r. x = Some r \<and> raw_body r = []) \<or>
     (\<exists>o1 rest. x = read_body G e b rest o1 \<and> raw_body o1 = [])"

lemma no_body_or_readI: "raw_body r = [] \<Longrightarrow> no_body_or_read G e b (Some r)"
  "raw_body o1 = [] \<Longrightarrow> no_body_or_read G e b (read_body G e b rest o1)"
  by (auto simp: no_body_or_read_def)

lemma no_body_or_read_split:
  "(c \<Longrightarrow> no_body_or_read G e b x) \<Longrightarrow> (\<not> c \<Longrightarrow> no_body_or_read G e b y) \<Longrightarrow>
     no_body_or_read G e b (if c then x else y)"
  "no_body_or_read G e b x \<Longrightarrow> (\<And>v. m = Some v \<Longrightarrow> no_body_or_read G e b (f v)) \<Longrightarrow>
     no_body_or_read G e b (case m of None \<Rightarrow> x | Some v \<Rightarrow> f v)"
  "(\<And>u v. p = (u, v) \<Longrightarrow> no_body_or_read G e b (g u v)) \<Longrightarrow> no_body_or_read G e b (case p of (u, v) \<Rightarrow> g u v)"
  "(\<And>v. z = Inl v \<Longrightarrow> no_body_or_read G e b (h v)) \<Longrightarrow> (\<And>v. z = Inr v \<Longrightarrow> no_body_or_read G e b (k v)) \<Longrightarrow>
     no_body_or_read G e b (case z of Inl v \<Rightarrow> h v | Inr v \<Rightarrow> k v)"
  "no_body_or_read G e b x \<Longrightarrow> (\<And>v vs. l = v # vs \<Longrightarrow> no_body_or_read G e b (q v vs)) \<Longrightarrow>
     no_body_or_read G e b (case l of [] \<Rightarrow> x | v # vs \<Rightarrow> q v vs)"
  by (auto split: option.split prod.split sum.split list.split)

lemma read_raw_cases: "no_body_or_read G e b (read_raw_http_observation G e b s)"
  unfolding read_raw_http_observation_def Let_def
  by (intro no_body_or_read_split no_body_or_readI) (simp_all add: status_headers_body)

subsection \<open>Properties\<close>

text \<open>C35. A body that the mutator writes in chunks is read back as it was, for every body within the
  limit.\<close>

theorem chunked_body_round_trip:
  assumes "int (length data) \<le> max_body" and "max_body < 2 ^ 47"
  shows "read_chunked_body G e max_body (encode_chunked_body data @ rest) [] obs =
    Some (obs\<lparr>raw_body := data, raw_complete := True\<rparr>)"
proof (cases "data = []")
  case True
  then show ?thesis using read_last_chunk [of G e max_body rest "[]" obs] by (simp add: encode_chunked_body_def)
next
  case False
  have "read_chunked_body G e max_body (encode_chunked_body data @ rest) [] obs =
      read_chunked_body G e max_body (''0'' @ crlf @ crlf @ rest) ([] @ data) obs"
    using read_one_chunk [OF False, of "[]" max_body G e "''0'' @ crlf @ crlf @ rest" obs] assms False
    by (simp add: encode_chunked_body_def)
  then show ?thesis by (simp only: read_last_chunk append_Nil)
qed

text \<open>Whatever bytes a host sends, and however they are framed, the body that is kept is within the
  limit.\<close>

theorem raw_body_within_limit:
  assumes "read_raw_http_observation G e max_body s = Some obs" and "0 \<le> max_body" and "max_body < 2 ^ 47"
  shows "int (length (raw_body obs)) \<le> max_body"
proof -
  from read_raw_cases [of G e max_body s] assms(1)
  consider "raw_body obs = []" | o1 rest where "read_body G e max_body rest o1 = Some obs" "raw_body o1 = []"
    unfolding no_body_or_read_def by fastforce
  then show ?thesis by cases (use assms read_body_bound in auto)
qed

text \<open>A response with a chunk of one byte and a chunk of the largest size.\<close>

definition overflow_response :: string where
  "overflow_response = ''HTTP/1.1 403 Forbidden'' @ crlf @ ''Transfer-Encoding: chunked'' @ crlf @ crlf @
     ''1'' @ crlf @ ''A'' @ crlf @ ''7fffffffffffffff'' @ crlf"

lemma overflow_size: "size_line ''7fffffffffffffff'' (2 ^ 63 - 1)"
proof -
  have "list_all size_char ''7fffffffffffffff''"
    by (simp add: size_char_def plain_char_def is_space_def in_range_def)
  moreover have "nat_of_hex ''7fffffffffffffff'' = Some (2 ^ 63 - 1)"
    by (simp add: nat_of_hex_step hex_step_def in_range_def)
  ultimately show ?thesis by (simp add: size_line_def parse_hex64_def)
qed

lemma overflow_chunks:
  assumes "1 \<le> max_body" and "max_body < 2 ^ 47"
  shows "read_chunked_body G e max_body (''1'' @ crlf @ ''A'' @ crlf @ ''7fffffffffffffff'' @ crlf @ rest) [] obs = None"
proof -
  have one: "hex_text (length ''A'') = ''1''" by code_simp
  have first: "read_chunked_body G e max_body (''1'' @ crlf @ ''A'' @ crlf @ t) [] obs =
      read_chunked_body G e max_body t ''A'' obs" for t
    using read_one_chunk [of "''A''" "[]" max_body G e t obs] assms unfolding one by simp
  have "\<not> wrap64 (int (length ''A'') + int (2 ^ 63 - 1)) > max_body"
    using assms by (simp add: wrap64_def)
  moreover have "make_bytes (wrap64 (int (2 ^ 63 - 1) + 2)) = None"
    by (simp add: wrap64_def make_bytes_def)
  ultimately have "read_chunked_body G e max_body (''7fffffffffffffff'' @ crlf @ rest) ''A'' obs = None"
    using read_chunk_step [OF overflow_size, of G e max_body rest "''A''" obs]
    by (simp only: if_False option.case) simp
  then show ?thesis by (simp only: first)
qed

lemma overflow_status: "read_line (overflow_response @ rest) = Some (''HTTP/1.1 403 Forbidden'' @ crlf,
    ''Transfer-Encoding: chunked'' @ crlf @ crlf @ ''1'' @ crlf @ ''A'' @ crlf @ ''7fffffffffffffff'' @ crlf @ rest)"
  "go_fields (trim_line_break (''HTTP/1.1 403 Forbidden'' @ crlf)) = [''HTTP/1.1'', ''403'', ''Forbidden'']"
  "atoi ''403'' = Some 403"
  by (simp_all add: overflow_response_def read_line_def go_fields_def fields_func_def rune_chunks_ascii
      trim_line_break_def line_break_char_def is_space_def in_range_def atoi_def nat_of_dec_def digit_char_def)

lemma read_blank_line:
  "n \<le> 100 \<Longrightarrow> read_header_lines G e n (crlf @ rest) obs = Inr (obs, rest)"
  by (subst read_header_lines.simps) (simp add: read_line_def max_raw_header_bytes_def blank_line_def)

lemma overflow_header:
  "read_header_lines G e 0 (''Transfer-Encoding: chunked'' @ crlf @ crlf @ rest) obs =
     Inr (obs\<lparr>raw_headers := header_add (raw_headers obs) ''Transfer-Encoding'' ''chunked''\<rparr>, rest)"
proof -
  let ?t = "''Transfer-Encoding: chunked''"
  have line: "read_line (?t @ crlf @ crlf @ rest) = Some (?t @ crlf, crlf @ rest)"
    by (simp add: read_line_def)
  have parts: "cut_at CHR '':'' (trim_line_break (?t @ crlf)) = (''Transfer-Encoding'', '' chunked'', True)"
    by (simp add: trim_line_break_def line_break_char_def cut_at_def)
  have trim: "trim_space ''Transfer-Encoding'' = ''Transfer-Encoding''" "trim_space '' chunked'' = ''chunked''"
    by (simp_all add: trim_space_def trim_func_ascii is_space_def in_range_def)
  have lines: "int (length (?t @ crlf)) = 28" "\<not> blank_line (?t @ crlf)" by (simp_all add: blank_line_def)
  show ?thesis
    using read_blank_line [of 28 G e rest "obs\<lparr>raw_headers := header_add (raw_headers obs) ''Transfer-Encoding'' ''chunked''\<rparr>"]
    by (subst read_header_lines.simps)
      (simp only: line parts trim lines option.case prod.case Let_def, simp add: max_raw_header_bytes_def)
qed

text \<open>C36. Two lines of a response end the program: after a chunk of one byte, a chunk size of
  \<open>7fffffffffffffff\<close> makes the sum that is compared with the limit overflow, and the allocation panics,
  for every limit.\<close>

theorem overflowing_chunk_ends_the_program:
  assumes "1 \<le> max_body" and "max_body < 2 ^ 47"
  shows "read_raw_http_observation G e max_body (overflow_response @ rest) = None"
proof -
  let ?obs = "zero_raw_observation\<lparr>raw_status_code := 403\<rparr>"
  let ?obs1 = "?obs\<lparr>raw_headers := header_add (raw_headers ?obs) ''Transfer-Encoding'' ''chunked''\<rparr>"
  let ?body = "''1'' @ crlf @ ''A'' @ crlf @ ''7fffffffffffffff'' @ crlf @ rest"
  have "prefix ''HTTP/'' ''HTTP/1.1''" by simp
  then have "read_raw_http_observation G e max_body (overflow_response @ rest) = read_body G e max_body ?body ?obs1"
    unfolding read_raw_http_observation_def Let_def overflow_status option.case prod.case list.case
    using overflow_header [of G e ?body ?obs] by simp
  moreover have "header_contains_token G (raw_headers ?obs1) ''Transfer-Encoding'' ''chunked''"
  proof -
    have "trim_space ''chunked'' = ''chunked''"
      by (simp add: trim_space_def trim_func_ascii is_space_def in_range_def)
    then show ?thesis
      by (simp add: header_contains_token_def header_add_def zero_raw_observation_def)
  qed
  ultimately show ?thesis
    using overflow_chunks [OF assms, of G e rest ?obs1]
    by (simp add: read_body_def response_has_no_body_def)
qed

subsection \<open>Witnesses\<close>

theorem chunked_body_round_trip_witness:
  "read_chunked_body ascii_env eof_error 5 (encode_chunked_body ''hello'' @ ''next'') [] zero_raw_observation =
     Some (zero_raw_observation\<lparr>raw_body := ''hello'', raw_complete := True\<rparr>)"
  by (rule chunked_body_round_trip) simp_all

lemma plain_response:
  "read_raw_http_observation ascii_env eof_error 3 (''HTTP/1.1 200 OK'' @ crlf @ crlf @ ''hello'') =
     Some (read_whole_body ascii_env eof_error 3 ''hello'' (zero_raw_observation\<lparr>raw_status_code := 200\<rparr>))"
proof -
  have status: "read_line (''HTTP/1.1 200 OK'' @ crlf @ crlf @ ''hello'') =
      Some (''HTTP/1.1 200 OK'' @ crlf, crlf @ ''hello'')"
    "go_fields (trim_line_break (''HTTP/1.1 200 OK'' @ crlf)) = [''HTTP/1.1'', ''200'', ''OK'']"
    "atoi ''200'' = Some 200"
    by (simp_all add: read_line_def go_fields_def fields_func_def rune_chunks_ascii
      trim_line_break_def line_break_char_def is_space_def in_range_def atoi_def nat_of_dec_def digit_char_def)
  have "prefix ''HTTP/'' ''HTTP/1.1''" by simp
  then show ?thesis
    unfolding read_raw_http_observation_def Let_def status option.case prod.case list.case
    using read_blank_line [of 0 ascii_env eof_error "''hello''" "zero_raw_observation\<lparr>raw_status_code := 200\<rparr>"]
    by (simp add: read_body_def response_has_no_body_def header_contains_token_def header_value_def zero_raw_observation_def)
qed

theorem raw_body_within_limit_witness:
  "int (length (raw_body (read_whole_body ascii_env eof_error 3 ''hello''
     (zero_raw_observation\<lparr>raw_status_code := 200\<rparr>)))) \<le> 3"
  by (rule raw_body_within_limit [OF plain_response]) simp_all

theorem overflowing_chunk_ends_the_program_witness:
  "read_raw_http_observation ascii_env eof_error default_raw_body_limit (overflow_response @ ''more'') = None"
  by (rule overflowing_chunk_ends_the_program) (simp_all add: default_raw_body_limit_def)

end
