(* ===== verification/HttpMutator.thy ===== *)
theory HttpMutator
  imports HttpRaw CollectHttp
begin

section \<open>Mutation experiments (internal/evidence/http_mutator.go)\<close>

text \<open>
  A response that looks blocked is asked for again with an unusual but harmless request. Each
  experiment sends a control, the mutation twice and the control again, and is judged on the four
  observations. The transport, the limiter of requests, the clock and the state of the context are
  parameters. The state of a run is the budget of network time left (\<open>None\<close> when it is not limited)
  and the world. The transport is never nil: the constructor sets it and \<open>SetTransport\<close> ignores nil.
\<close>

subsection \<open>The collector\<close>

record ('w, 'r) mutator_env =
  me_page :: "'r page_env"
  me_quote :: "string \<Rightarrow> string"
  me_atoi_error :: "string \<Rightarrow> string"
  me_wait :: "('w \<Rightarrow> string option \<times> 'w) option"
  me_cancelled :: "'w \<Rightarrow> string option"
  me_send :: "int option \<Rightarrow> mutation_context \<Rightarrow> string \<Rightarrow> ('w, raw_http_observation option) state"
  me_now :: "'w \<Rightarrow> time \<times> 'w"

abbreviation me_go :: "('w, 'r) mutator_env \<Rightarrow> go_env" where
  "me_go E \<equiv> pe_go (me_page E)"

record 'r http_mutator =
  hm_signatures :: "'r fingerprint list"
  hm_mutations :: "http_mutation list"
  hm_max_probes :: int
  hm_host_timeout :: int
  hm_framing_only :: bool
  hm_allowed :: "string list"

text \<open>Durations are nanoseconds.\<close>

definition five_seconds :: int where "five_seconds = 5 * 10 ^ 9"

definition new_http_mutator :: "'r fingerprint list \<Rightarrow> int \<Rightarrow> 'r http_mutator" where
  "new_http_mutator sigs timeout =
     (let t = (if timeout \<le> 0 then five_seconds else timeout) in
      \<lparr>hm_signatures = sigs, hm_mutations = default_http_mutations, hm_max_probes = 7,
       hm_host_timeout = wrap64 (4 * t), hm_framing_only = False, hm_allowed = []\<rparr>)"

definition normalized_authority :: "go_env \<Rightarrow> string \<Rightarrow> string" where
  "normalized_authority G authority = to_lower G (trim_space authority)"

definition new_http_framing :: "go_env \<Rightarrow> int \<Rightarrow> string list \<Rightarrow> string + 'r http_mutator" where
  "new_http_framing G timeout authorities =
     (let allowed = filter (\<lambda>v. v \<noteq> []) (map (normalized_authority G) authorities) in
      if allowed = [] then Inl (''o framing exige uma lista permitida expl'' @ [CHR 0xC3, CHR 0xAD] @ ''cita de autoridades n'' @ [CHR 0xC3, CHR 0xA3] @ ''o vazia'')
      else Inr ((new_http_mutator [] timeout)\<lparr>hm_framing_only := True,
        hm_mutations := experimental_framing_mutations, hm_allowed := allowed\<rparr>))"

definition set_mutator_limits :: "int \<Rightarrow> int \<Rightarrow> 'r http_mutator \<Rightarrow> 'r http_mutator" where
  "set_mutator_limits probes timeout m =
     m\<lparr>hm_max_probes := (if probes > 0 then probes else hm_max_probes m),
       hm_host_timeout := (if timeout > 0 then timeout else hm_host_timeout m)\<rparr>"

definition mutator_name :: "'r http_mutator \<Rightarrow> string" where
  "mutator_name m = (if hm_framing_only m then ''HTTP_FRAMING_LAB'' else ''HTTP_MUTATOR'')"

text \<open>The options of the command line that lead to the framing collector (cmd/scan.go). \<open>file\<close> is the
  content of the file with the name of the list, when there is one.\<close>

fun framing_authorities :: "(string \<Rightarrow> string) \<Rightarrow> string list \<Rightarrow> string list \<Rightarrow> string + string list" where
  "framing_authorities quote [] acc = Inr acc"
| "framing_authorities quote (authority # rest) acc =
     (if authority = [] then framing_authorities quote rest acc
      else if contains_str authority ''://'' \<or>
        list_ex (\<lambda>c. c \<in> {CHR ''/'', CHR 0x5C, CHR ''?'', CHR ''#'', CHR ''@'', CHR ''*''}) authority
      then Inl ((''autoridade inv'' @ [CHR 0xC3, CHR 0xA1] @ ''lida na lista permitida: '') @ quote authority)
      else framing_authorities quote rest (if authority \<in> set acc then acc else acc @ [authority]))"

definition parse_framing_allowlist ::
  "go_env \<Rightarrow> (string \<Rightarrow> string) \<Rightarrow> (string \<Rightarrow> string option) \<Rightarrow> string \<Rightarrow> string + string list"
where
  "parse_framing_allowlist G quote file raw0 =
     (let raw = trim_space raw0 in
      if raw = [] then Inl ''--check-framing exige --framing-allowlist''
      else
        let content = (case file raw of Some data \<Rightarrow> data | None \<Rightarrow> raw);
            items = fields_func (\<lambda>r. r = 44 \<or> r = 10 \<or> r = 13) content in
        case framing_authorities quote (map (normalized_authority G) items) [] of
          Inl e \<Rightarrow> Inl e
        | Inr [] \<Rightarrow> Inl (''a lista permitida de framing est'' @ [CHR 0xC3, CHR 0xA1] @ '' vazia'')
        | Inr authorities \<Rightarrow> Inr authorities)"

definition new_framing_if_authorized ::
  "go_env \<Rightarrow> (string \<Rightarrow> string) \<Rightarrow> (string \<Rightarrow> string option) \<Rightarrow> bool \<Rightarrow> bool \<Rightarrow> string \<Rightarrow> int \<Rightarrow>
   string + 'r http_mutator option"
where
  "new_framing_if_authorized G quote file enabled controlled raw timeout =
     (if \<not> enabled then Inr None
      else if \<not> controlled then Inl ''--check-framing exige --framing-confirm-controlled''
      else case parse_framing_allowlist G quote file raw of
        Inl e \<Rightarrow> Inl e
      | Inr authorities \<Rightarrow> map_sum id Some (new_http_framing G timeout authorities))"

subsection \<open>The target\<close>

definition mutation_endpoint_of ::
  "('w, 'r) mutator_env \<Rightarrow> string \<Rightarrow> string \<Rightarrow> string + string \<times> int"
where
  "mutation_endpoint_of E authority scheme =
     (case net_split_host_port authority of
        None \<Rightarrow> Inr (authority, if equal_fold (me_go E) scheme ''https'' then 443 else 80)
      | Some (host, port) \<Rightarrow>
          (case atoi port of
             None \<Rightarrow> Inl ((''porta da autoridade inv'' @ [CHR 0xC3, CHR 0xA1] @ ''lida: '') @ me_atoi_error E port)
           | Some p \<Rightarrow> Inr (host, p)))"

definition mutation_target :: "('w, 'r) mutator_env \<Rightarrow> string \<Rightarrow> string \<Rightarrow> string + mutation_context" where
  "mutation_target E raw scheme =
     (let authority = trim_space raw in
      if authority = [] then Inl (''autoridade de muta'' @ [CHR 0xC3, CHR 0xA7, CHR 0xC3, CHR 0xA3] @ ''o vazia'')
      else case mutation_endpoint_of E authority scheme of
        Inl e \<Rightarrow> Inl e
      | Inr (dial_host, port) \<Rightarrow>
          if dial_host = [] \<or> port < 1 \<or> port > 65535
          then Inl ((''destino de muta'' @ [CHR 0xC3, CHR 0xA7, CHR 0xC3, CHR 0xA3] @ ''o inv'' @ [CHR 0xC3, CHR 0xA1] @ ''lido '') @ me_quote E authority)
          else Inr \<lparr>mc_dial_host = dial_host, mc_dial_port = port, mc_http_authority = authority,
            mc_tls_server_name = dial_host, mc_scheme = scheme, mc_baseline = zero_http_observation,
            mc_provider_candidates = [],
            mc_block_decision = \<lparr>bd_blocked = False, bd_confidence = 0, bd_reasons = [], bd_baseline_id = []\<rparr>\<rparr>)"

definition mutation_candidates :: "go_env \<Rightarrow> 'r http_mutator \<Rightarrow> provider_candidate list \<Rightarrow> provider_candidate list" where
  "mutation_candidates G m cands =
     filter (\<lambda>c.
       let vector = to_upper G (trim_space (pc_vector c)) in
       pc_cname c \<noteq> [] \<and> (vector = [] \<or> vector = ''CNAME'') \<and>
       list_ex (\<lambda>sig. fp_fingerprint sig \<noteq> [] \<and> candidate_matches_signature G c sig) (hm_signatures m)) cands"

definition opaque_provider_edge_status :: "int \<Rightarrow> bool" where
  "opaque_provider_edge_status status \<longleftrightarrow> status = 404 \<or> status = 503"

definition is_framing_mutation :: "http_mutation \<Rightarrow> bool" where
  "is_framing_mutation mutation \<longleftrightarrow>
     mutation_name mutation = ''CLTEProbe'' \<or> mutation_name mutation = ''TECLProbe''"

definition signature_on_body ::
  "'r page_env \<Rightarrow> string \<Rightarrow> 'r fingerprint \<Rightarrow> bool"
where
  "signature_on_body P body sig = matches_fingerprint (pe_go P) (pe_regex P) body sig"

definition body_matches_candidate ::
  "'r page_env \<Rightarrow> 'r http_mutator \<Rightarrow> provider_candidate list \<Rightarrow> string \<Rightarrow> bool"
where
  "body_matches_candidate P m cands body \<longleftrightarrow>
     list_ex (\<lambda>c. list_ex (\<lambda>sig. fp_service sig = pc_service c \<and> fp_fingerprint sig \<noteq> [] \<and>
       candidate_matches_signature (pe_go P) c sig \<and> signature_on_body P body sig) (hm_signatures m)) cands"

subsection \<open>The budget of network time\<close>

definition new_budget :: "int \<Rightarrow> int option" where
  "new_budget limit = (if limit > 0 then Some limit else None)"

definition budget_exhausted :: "int option \<Rightarrow> bool" where
  "budget_exhausted b = (case b of None \<Rightarrow> False | Some r \<Rightarrow> r \<le> 0)"

definition budget_consume :: "int \<Rightarrow> int option \<Rightarrow> int option" where
  "budget_consume d b = map_option (\<lambda>r. max 0 (r - d)) b"

definition mutator_send ::
  "('w, 'r) mutator_env \<Rightarrow> mutation_context \<Rightarrow> string \<Rightarrow> (int option \<times> 'w, raw_http_observation option) state"
where
  "mutator_send E ctx payload =
     do { budget \<leftarrow> reads fst;
          if budget_exhausted budget then ret (raw_failed (''o or'' @ [CHR 0xC3, CHR 0xA7] @ ''amento de rede das muta'' @ [CHR 0xC3, CHR 0xA7, CHR 0xC3, CHR 0xB5] @ ''es foi esgotado''))
          else do { refused \<leftarrow> (case me_wait E of None \<Rightarrow> ret None | Some wait \<Rightarrow> calls wait);
            case refused of
              Some text \<Rightarrow> ret (raw_failed text)
            | None \<Rightarrow>
                do { cancelled \<leftarrow> reads (\<lambda>(_, w). me_cancelled E w);
                     case cancelled of
                       Some text \<Rightarrow> ret (raw_failed text)
                     | None \<Rightarrow>
                         do { started \<leftarrow> calls (me_now E);
                              r \<leftarrow> calls (run_state (me_send E budget ctx payload));
                              now \<leftarrow> calls (me_now E);
                              modifies (\<lambda>(b, w). (budget_consume (now - started) b, w));
                              ret r } } } }"

subsection \<open>Judging an experiment\<close>

definition usable_raw_observation :: "raw_http_observation \<Rightarrow> bool" where
  "usable_raw_observation o1 \<longleftrightarrow> raw_complete o1 \<and> \<not> raw_timed_out o1 \<and> \<not> raw_connection_reset o1 \<and>
     raw_transport_error o1 = [] \<and> raw_parse_error o1 = []"

definition mutation_responses_equivalent ::
  "'r page_env \<Rightarrow> raw_http_observation \<Rightarrow> raw_http_observation \<Rightarrow> bool"
where
  "mutation_responses_equivalent P o1 o2 \<longleftrightarrow> usable_raw_observation o1 \<and> usable_raw_observation o2 \<and>
     raw_status_code o1 = raw_status_code o2 \<and>
     normalize_http_body P (raw_body o1) = normalize_http_body P (raw_body o2)"

definition experiment_list :: "experiment_observations \<Rightarrow> raw_http_observation list" where
  "experiment_list x = [exp_control_before x, exp_mutation_first x, exp_mutation_second x, exp_control_after x]"

fun first_non_empty :: "string list \<Rightarrow> string" where
  "first_non_empty [] = []"
| "first_non_empty (v # vs) = (if v \<noteq> [] then v else first_non_empty vs)"

definition zero_experiment :: experiment_observations where
  "zero_experiment = \<lparr>exp_control_before = zero_raw_observation, exp_mutation_first = zero_raw_observation,
     exp_mutation_second = zero_raw_observation, exp_control_after = zero_raw_observation\<rparr>"

definition failed_mutation :: "mutation_context \<Rightarrow> http_mutation \<Rightarrow> string \<Rightarrow> mutation_result" where
  "failed_mutation ctx mutation e =
     \<lparr>mut_name = mutation_name mutation, mut_baseline_id = bd_baseline_id (mc_block_decision ctx),
      mut_attempts = 0, mut_confirmations = 0, mut_status_before = ho_status_code (mc_baseline ctx),
      mut_status_after = 0, mut_relevant_diffs = [], mut_error = e,
      mut_outcome = (if is_framing_mutation mutation then MutationFramingRejected else MutationRejected),
      mut_observation = zero_raw_observation, mut_experiment = zero_experiment\<rparr>"

definition mutation_aggregate ::
  "mutation_context \<Rightarrow> http_mutation \<Rightarrow> experiment_observations \<Rightarrow> mutation_result"
where
  "mutation_aggregate ctx mutation x =
     \<lparr>mut_name = mutation_name mutation, mut_baseline_id = bd_baseline_id (mc_block_decision ctx),
      mut_attempts = 2, mut_confirmations = 0,
      mut_status_before = raw_status_code (exp_control_before x),
      mut_status_after = raw_status_code (exp_mutation_first x), mut_relevant_diffs = [], mut_error = [],
      mut_outcome = MutationUnset, mut_observation = exp_mutation_first x, mut_experiment = x\<rparr>"

definition relevant_differences :: "'r page_env \<Rightarrow> experiment_observations \<Rightarrow> difference list" where
  "relevant_differences P x =
     (let before = exp_control_before x; after = exp_mutation_first x;
          hash1 = hash_bytes P (normalize_http_body P (raw_body before));
          hash2 = hash_bytes P (normalize_http_body P (raw_body after)) in
      (if raw_status_code before \<noteq> raw_status_code after
       then [\<lparr>diff_field = ''status'', diff_before = itoa (raw_status_code before),
              diff_after = itoa (raw_status_code after)\<rparr>] else []) @
      (if hash1 \<noteq> hash2
       then [\<lparr>diff_field = ''body_hash'', diff_before = hash1, diff_after = hash2\<rparr>] else []))"

definition repeated_metadata :: "mutation_context \<Rightarrow> meta" where
  "repeated_metadata ctx = [(''baseline_id'', bd_baseline_id (mc_block_decision ctx)), (''attempts'', ''2''),
     (''confirmations'', ''2'')]"

definition framing_evidence :: "mutation_context \<Rightarrow> http_mutation \<Rightarrow> evidence" where
  "framing_evidence ctx mutation =
     plain_evidence ''FRAMING_DIFFERENTIAL'' (mutation_name mutation)
       (''Diferen'' @ [CHR 0xC3, CHR 0xA7] @ ''a de framing reproduz'' @ [CHR 0xC3, CHR 0xAD] @ ''vel observada em ambiente explicitamente autorizado; n'' @ [CHR 0xC3, CHR 0xA3] @ ''o '' @ [CHR 0xC3, CHR 0xA9] @ '' evid'' @ [CHR 0xC3, CHR 0xAA] @ ''ncia de provedor nem de takeover.'')
       0 70 (repeated_metadata ctx)"

definition control_evidence :: "mutation_context \<Rightarrow> http_mutation \<Rightarrow> evidence" where
  "control_evidence ctx mutation =
     plain_evidence ''HTTP_RAW_CONTROL_DIFFERENTIAL'' (mutation_name mutation)
       (''O controle bruto (raw) equivalente j'' @ [CHR 0xC3, CHR 0xA1] @ '' revelou a assinatura; nenhuma diferen'' @ [CHR 0xC3, CHR 0xA7] @ ''a foi atribu'' @ [CHR 0xC3, CHR 0xAD] @ ''da '' @ [CHR 0xC3, CHR 0xA0] @ '' muta'' @ [CHR 0xC3, CHR 0xA7, CHR 0xC3, CHR 0xA3] @ ''o.'')
       0 60 (repeated_metadata ctx)"

definition differential_evidence :: "mutation_context \<Rightarrow> http_mutation \<Rightarrow> evidence" where
  "differential_evidence ctx mutation =
     plain_evidence ''HTTP_MUTATION_DIFFERENTIAL'' (mutation_name mutation)
       (''A muta'' @ [CHR 0xC3, CHR 0xA7, CHR 0xC3, CHR 0xA3] @ ''o HTTP produziu uma resposta diferencial reproduz'' @ [CHR 0xC3, CHR 0xAD] @ ''vel; isso n'' @ [CHR 0xC3, CHR 0xA3] @ ''o confirma takeover nem request smuggling.'')
       0 70 (repeated_metadata ctx)"

text \<open>The text of a signature appears in both mutated responses, and neither in the baseline nor in a control.\<close>

definition only_mutation_matches ::
  "'r page_env \<Rightarrow> mutation_context \<Rightarrow> experiment_observations \<Rightarrow> 'r fingerprint \<Rightarrow> bool"
where
  "only_mutation_matches P ctx x sig \<longleftrightarrow>
     \<not> signature_on_body P (ho_body (mc_baseline ctx)) sig \<and>
     \<not> signature_on_body P (raw_body (exp_control_before x)) sig \<and>
     \<not> signature_on_body P (raw_body (exp_control_after x)) sig \<and>
     signature_on_body P (raw_body (exp_mutation_first x)) sig \<and>
     signature_on_body P (raw_body (exp_mutation_second x)) sig"

definition reveals_provider ::
  "'r page_env \<Rightarrow> mutation_context \<Rightarrow> experiment_observations \<Rightarrow> provider_candidate \<Rightarrow> 'r fingerprint \<Rightarrow> bool"
where
  "reveals_provider P ctx x c sig \<longleftrightarrow>
     fp_service sig = pc_service c \<and> fp_fingerprint sig \<noteq> [] \<and>
     \<not> equal_fold (pe_go P) (fp_fingerprint sig) ''NXDOMAIN'' \<and>
     candidate_matches_signature (pe_go P) c sig \<and> only_mutation_matches P ctx x sig \<and>
     snd (eligible_takeover_fingerprint P sig c (exp_mutation_first x)) \<and>
     snd (eligible_takeover_fingerprint P sig c (exp_mutation_second x))"

record revealed_provider_fingerprint =
  rf_rule_id :: string
  rf_provider_id :: string
  rf_service :: string
  rf_cname :: string
  rf_mutation :: string
  rf_baseline_status :: int
  rf_mutated_status :: int
  rf_baseline_body_hash :: string
  rf_mutated_body_hash :: string
  rf_matched_fingerprint :: string
  rf_specificity :: int
  rf_attempts :: int
  rf_confirmations :: int

definition confirmed_provider_fingerprint ::
  "'r page_env \<Rightarrow> 'r http_mutator \<Rightarrow> mutation_context \<Rightarrow> string \<Rightarrow> experiment_observations \<Rightarrow>
   revealed_provider_fingerprint option"
where
  "confirmed_provider_fingerprint P m ctx name x =
     (let first = exp_mutation_first x; control = exp_control_before x in
      if \<not> list_all usable_raw_observation (experiment_list x) then None
      else if raw_status_code first = 400 \<or> raw_status_code (exp_mutation_second x) = 400 then None
      else case find (\<lambda>(c, sig). reveals_provider P ctx x c sig)
          (List.product (mc_provider_candidates ctx) (hm_signatures m)) of
        None \<Rightarrow> None
      | Some (c, sig) \<Rightarrow> Some
          \<lparr>rf_rule_id = hr_rule_id (fst (eligible_takeover_fingerprint P sig c first)),
           rf_provider_id = pc_provider_id c, rf_service = pc_service c, rf_cname = pc_cname c,
           rf_mutation = name, rf_baseline_status = raw_status_code control,
           rf_mutated_status = raw_status_code first,
           rf_baseline_body_hash = hash_bytes P (normalize_http_body P (raw_body control)),
           rf_mutated_body_hash = hash_bytes P (normalize_http_body P (raw_body first)),
           rf_matched_fingerprint = fp_fingerprint sig,
           rf_specificity = fingerprint_specificity (pe_go P) (fp_fingerprint sig),
           rf_attempts = 2, rf_confirmations = 2\<rparr>)"

definition revealed_fingerprint_evidence :: "revealed_provider_fingerprint \<Rightarrow> evidence" where
  "revealed_fingerprint_evidence f =
     plain_evidence ''HTTP_MUTATION_REVEALED_PROVIDER_FINGERPRINT'' (rf_service f)
       ((''A muta'' @ [CHR 0xC3, CHR 0xA7, CHR 0xC3, CHR 0xA3] @ ''o '') @ rf_mutation f @ ('' revelou, de forma reproduz'' @ [CHR 0xC3, CHR 0xAD] @ ''vel, uma assinatura espec'' @ [CHR 0xC3, CHR 0xAD] @ ''fica de '') @ rf_service f)
       50 90
       [(''rule_id'', rf_rule_id f), (''provider_id'', rf_provider_id f), (''cname'', rf_cname f),
        (''mutation'', rf_mutation f), (''baseline_status'', itoa (rf_baseline_status f)),
        (''mutated_status'', itoa (rf_mutated_status f)), (''baseline_body_hash'', rf_baseline_body_hash f),
        (''mutated_body_hash'', rf_mutated_body_hash f), (''matched_fingerprint'', rf_matched_fingerprint f),
        (''specificity'', itoa (rf_specificity f)), (''attempts'', itoa (rf_attempts f)),
        (''confirmations'', itoa (rf_confirmations f))]"

definition generic_fingerprint_review ::
  "'r page_env \<Rightarrow> 'r http_mutator \<Rightarrow> mutation_context \<Rightarrow> string \<Rightarrow> experiment_observations \<Rightarrow> evidence option"
where
  "generic_fingerprint_review P m ctx name x =
     (case find (\<lambda>(c, sig). fp_service sig = pc_service c \<and> candidate_matches_signature (pe_go P) c sig \<and>
          only_mutation_matches P ctx x sig \<and>
          \<not> snd (eligible_takeover_fingerprint P sig c (exp_mutation_first x)))
        (List.product (mc_provider_candidates ctx) (hm_signatures m)) of
        None \<Rightarrow> None
      | Some (c, sig) \<Rightarrow>
          (let rule = fst (eligible_takeover_fingerprint P sig c (exp_mutation_first x)) in
           Some (plain_evidence ''HTTP_MUTATION_FINGERPRINT_REVIEW'' (pc_service c)
             (''Assinatura reproduz'' @ [CHR 0xC3, CHR 0xAD] @ ''vel, por'' @ [CHR 0xC3, CHR 0xA9] @ ''m ineleg'' @ [CHR 0xC3, CHR 0xAD] @ ''vel para classifica'' @ [CHR 0xC3, CHR 0xA7, CHR 0xC3, CHR 0xA3] @ ''o autom'' @ [CHR 0xC3, CHR 0xA1] @ ''tica; requer revis'' @ [CHR 0xC3, CHR 0xA3] @ ''o manual.'')
             0 40
             [(''rule_id'', hr_rule_id rule), (''provider_id'', pc_provider_id c), (''cname'', pc_cname c),
              (''mutation'', name), (''matched_fingerprint'', fp_fingerprint sig),
              (''claimability'', hr_claimability rule)])))"

text \<open>A reproducible difference: what it says, and what it may not say because the control says it too.\<close>

definition differential_verdict ::
  "'r page_env \<Rightarrow> 'r http_mutator \<Rightarrow> mutation_context \<Rightarrow> http_mutation \<Rightarrow> experiment_observations \<Rightarrow>
   evidence list \<times> mutation_outcome"
where
  "differential_verdict P m ctx mutation x =
     (let cands = mc_provider_candidates ctx;
          in_control = (body_matches_candidate P m cands (raw_body (exp_control_before x)) \<or>
            body_matches_candidate P m cands (raw_body (exp_control_after x)));
          in_baseline = body_matches_candidate P m cands (ho_body (mc_baseline ctx));
          control = (if in_control \<and> \<not> in_baseline then [control_evidence ctx mutation] else []);
          differential = (if \<not> in_control then [differential_evidence ctx mutation] else []) in
      if \<not> in_control \<and> \<not> in_baseline
      then (case confirmed_provider_fingerprint P m ctx (mutation_name mutation) x of
          Some f \<Rightarrow> (control @ differential @ [revealed_fingerprint_evidence f], MutationRevealedProviderFingerprint)
        | None \<Rightarrow>
            (case generic_fingerprint_review P m ctx (mutation_name mutation) x of
               Some review \<Rightarrow> (control @ differential @ [review], MutationReproducibleDifferential)
             | None \<Rightarrow> (control @ differential, MutationReproducibleDifferential)))
      else (control @ differential, MutationReproducibleDifferential))"

definition judge_experiment ::
  "'r page_env \<Rightarrow> 'r http_mutator \<Rightarrow> mutation_context \<Rightarrow> http_mutation \<Rightarrow> experiment_observations \<Rightarrow>
   evidence list \<times> mutation_result"
where
  "judge_experiment P m ctx mutation x =
     (let framing = is_framing_mutation mutation;
          aggregate = mutation_aggregate ctx mutation x;
          outcome = (\<lambda>f n. if framing then f else n) in
      case find (\<lambda>o1. \<not> usable_raw_observation o1) (experiment_list x) of
        Some o1 \<Rightarrow>
          ([], aggregate\<lparr>mut_outcome := outcome MutationFramingTransportFailure MutationTransportFailure,
             mut_error := first_non_empty [raw_transport_error o1, raw_parse_error o1, ''resposta incompleta'']\<rparr>)
      | None \<Rightarrow>
          if list_ex (\<lambda>o1. raw_status_code o1 = 400) (experiment_list x)
          then ([], aggregate\<lparr>mut_outcome := outcome MutationFramingRejected MutationRejected,
                 mut_error := (''o servidor rejeitou a requisi'' @ [CHR 0xC3, CHR 0xA7, CHR 0xC3, CHR 0xA3] @ ''o mutada com HTTP 400'')\<rparr>)
          else if \<not> mutation_responses_equivalent P (exp_control_before x) (exp_control_after x) \<or>
            \<not> mutation_responses_equivalent P (exp_mutation_first x) (exp_mutation_second x)
          then ([], aggregate\<lparr>mut_outcome := outcome MutationFramingNoDifference MutationNoDifference,
                 mut_error := (''a resposta de controle ou da muta'' @ [CHR 0xC3, CHR 0xA7, CHR 0xC3, CHR 0xA3] @ ''o n'' @ [CHR 0xC3, CHR 0xA3] @ ''o foi reproduz'' @ [CHR 0xC3, CHR 0xAD] @ ''vel'')\<rparr>)
          else if mutation_responses_equivalent P (exp_control_before x) (exp_mutation_first x)
          then ([], aggregate\<lparr>mut_outcome := outcome MutationFramingNoDifference MutationNoDifference\<rparr>)
          else (let differing = aggregate\<lparr>mut_confirmations := 2, mut_relevant_diffs := relevant_differences P x\<rparr> in
                if framing then ([framing_evidence ctx mutation], differing\<lparr>mut_outcome := MutationFramingDifferential\<rparr>)
                else (case differential_verdict P m ctx mutation x of
                    (evs, verdict) \<Rightarrow> (evs, differing\<lparr>mut_outcome := verdict\<rparr>))))"

subsection \<open>Running the experiments\<close>

definition send_experiment ::
  "('w, 'r) mutator_env \<Rightarrow> mutation_context \<Rightarrow> string \<Rightarrow> string \<Rightarrow>
   (int option \<times> 'w, experiment_observations option) state"
where
  "send_experiment E ctx control mutated =
     do { r1 \<leftarrow> mutator_send E ctx control;
          case r1 of None \<Rightarrow> ret None | Some before \<Rightarrow>
     do { r2 \<leftarrow> mutator_send E ctx mutated;
          case r2 of None \<Rightarrow> ret None | Some first \<Rightarrow>
     do { r3 \<leftarrow> mutator_send E ctx mutated;
          case r3 of None \<Rightarrow> ret None | Some again \<Rightarrow>
     do { r4 \<leftarrow> mutator_send E ctx control;
          case r4 of None \<Rightarrow> ret None | Some after \<Rightarrow>
            ret (Some \<lparr>exp_control_before = before, exp_mutation_first = first,
              exp_mutation_second = again, exp_control_after = after\<rparr>) } } } }"

definition execute_mutation ::
  "('w, 'r) mutator_env \<Rightarrow> 'r http_mutator \<Rightarrow> mutation_context \<Rightarrow> http_mutation \<Rightarrow> host_analysis \<Rightarrow>
   (int option \<times> 'w, host_analysis option) state"
where
  "execute_mutation E m ctx mutation a =
     (case (build_control mutation ctx, build_mutation (me_quote E) mutation ctx) of
        (Inl e, _) \<Rightarrow> ret (Some (add_mutation_result (failed_mutation ctx mutation e) a))
      | (Inr _, Inl e) \<Rightarrow> ret (Some (add_mutation_result (failed_mutation ctx mutation e) a))
      | (Inr control, Inr mutated) \<Rightarrow>
          do { r \<leftarrow> send_experiment E ctx control mutated;
               ret (map_option (\<lambda>x. case judge_experiment (me_page E) m ctx mutation x of
                   (evs, result) \<Rightarrow> add_mutation_result result (add_evidences evs a)) r) })"

text \<open>The mutations of one protocol. The second component says that the budget ended the whole run.\<close>

fun run_mutations ::
  "('w, 'r) mutator_env \<Rightarrow> 'r http_mutator \<Rightarrow> mutation_context \<Rightarrow> http_mutation list \<Rightarrow> int \<Rightarrow> host_analysis \<Rightarrow>
   (int option \<times> 'w, (host_analysis \<times> bool) option) state"
where
  "run_mutations E m ctx [] probes a = ret (Some (a, False))"
| "run_mutations E m ctx (mutation # rest) probes a =
     do { budget \<leftarrow> reads fst;
          if budget_exhausted budget then ret (Some (a, True))
          else if is_framing_mutation mutation \<noteq> hm_framing_only m then run_mutations E m ctx rest probes a
          else if hm_max_probes m > 0 \<and> probes \<ge> hm_max_probes m then ret (Some (a, False))
          else if \<not> mutation_applicability (me_quote E) mutation ctx then run_mutations E m ctx rest probes a
          else do { r \<leftarrow> execute_mutation E m ctx mutation a;
                    case r of None \<Rightarrow> ret None | Some a' \<Rightarrow> run_mutations E m ctx rest (probes + 1) a' } }"

definition mutation_block_decision ::
  "'r page_env \<Rightarrow> 'r http_mutator \<Rightarrow> string \<Rightarrow> provider_candidate list \<Rightarrow> http_observation \<Rightarrow> block_decision"
where
  "mutation_block_decision P m scheme cands baseline =
     (let d = decide_block (pe_go P) scheme baseline in
      if \<not> hm_framing_only m \<and> \<not> bd_blocked d \<and> opaque_provider_edge_status (ho_status_code baseline) \<and>
        \<not> body_matches_candidate P m cands (ho_body baseline)
      then d\<lparr>bd_blocked := True, bd_confidence := 35,
        bd_reasons := bd_reasons d @ [''status opaco '' @ itoa (ho_status_code baseline) @
          ('' da camada intermedi'' @ [CHR 0xC3, CHR 0xA1] @ ''ria vinculada ao provedor selecionado para revis'' @ [CHR 0xC3, CHR 0xA3] @ ''o expl'' @ [CHR 0xC3, CHR 0xAD] @ ''cita por muta'' @ [CHR 0xC3, CHR 0xA7, CHR 0xC3, CHR 0xA3] @ ''o'')]\<rparr>
      else d)"

fun run_schemes ::
  "('w, 'r) mutator_env \<Rightarrow> 'r http_mutator \<Rightarrow> provider_candidate list \<Rightarrow> string list \<Rightarrow> host_analysis \<Rightarrow>
   (int option \<times> 'w, (host_analysis \<times> string option) option) state"
where
  "run_schemes E m cands [] a = ret (Some (a, None))"
| "run_schemes E m cands (scheme # rest) a =
     (case get_http_observation a scheme of
        None \<Rightarrow> run_schemes E m cands rest a
      | Some baseline \<Rightarrow>
          if \<not> ho_complete baseline then run_schemes E m cands rest a
          else
            let decision = mutation_block_decision (me_page E) m scheme cands baseline in
            case mutation_target E (ha_host a) scheme of
              Inl e \<Rightarrow> ret (Some (a, Some e))
            | Inr target \<Rightarrow>
                if \<not> bd_blocked decision then run_schemes E m cands rest a
                else do { r \<leftarrow> run_mutations E m
                            (target\<lparr>mc_baseline := baseline, mc_provider_candidates := cands,
                               mc_block_decision := decision\<rparr>) (hm_mutations m) 0 a;
                          case r of
                            None \<Rightarrow> ret None
                          | Some (a', stopped) \<Rightarrow>
                              if stopped then ret (Some (a', None)) else run_schemes E m cands rest a' })"

definition framing_allowed :: "go_env \<Rightarrow> 'r http_mutator \<Rightarrow> string \<Rightarrow> bool" where
  "framing_allowed G m host \<longleftrightarrow> normalized_authority G host \<in> set (hm_allowed m)"

definition collect_mutations ::
  "('w, 'r) mutator_env \<Rightarrow> 'r http_mutator \<Rightarrow> host_analysis \<Rightarrow> ('w, (host_analysis \<times> string option) option) state"
where
  "collect_mutations E m a0 =
     (let a = add_tested_vector (mutator_name m) a0;
          cands = (if hm_framing_only m then ha_provider_candidates a
            else mutation_candidates (me_go E) m (ha_provider_candidates a)) in
      if \<not> hm_framing_only m \<and> cands = [] \<or> hm_mutations m = [] then ret (Some (a, None))
      else if hm_framing_only m \<and> \<not> framing_allowed (me_go E) m (ha_host a) then ret (Some (a, None))
      else State (\<lambda>w. case run_state (run_schemes E m cands [''https'', ''http''] a) (new_budget (hm_host_timeout m), w) of
          (r, (_, w')) \<Rightarrow> (r, w')))"

end
