(* ===== verification/HttpMutatorProps.thy ===== *)
theory HttpMutatorProps
  imports HttpMutator
begin

section \<open>What a mutation experiment may say\<close>

text \<open>
  The only evidence of an experiment that has a weight is a fingerprint that both mutated responses
  show and that the baseline and both controls do not; the laboratory for framing is confined to the
  hosts it was given; and the number of requests is bounded.
\<close>

declare run_mutations.simps [simp del] run_schemes.simps [simp del]

subsection \<open>The evidence of one experiment\<close>

text \<open>What stands behind a fingerprint that a mutation revealed.\<close>

definition revealed_backed ::
  "'r page_env \<Rightarrow> 'r http_mutator \<Rightarrow> provider_candidate list \<Rightarrow> (string, http_observation) gomap \<Rightarrow>
   mutation_result list \<Rightarrow> evidence \<Rightarrow> bool"
where
  "revealed_backed P m cands pages rs e \<longleftrightarrow>
     (\<exists>c \<in> set cands. \<exists>sig \<in> set (hm_signatures m). \<exists>r \<in> set rs. \<exists>baseline \<in> snd ` set pages.
        ev_source e = pc_service c \<and> fp_service sig = pc_service c \<and> fp_vulnerable sig \<and>
        candidate_matches_signature (pe_go P) c sig \<and>
        \<not> is_generic_http_fingerprint (pe_go P) (fp_fingerprint sig) \<and>
        4 \<le> fingerprint_specificity (pe_go P) (fp_fingerprint sig) \<and>
        mut_outcome r = MutationRevealedProviderFingerprint \<and>
        list_all usable_raw_observation (experiment_list (mut_experiment r)) \<and>
        \<not> signature_on_body P (ho_body baseline) sig \<and>
        \<not> signature_on_body P (raw_body (exp_control_before (mut_experiment r))) sig \<and>
        \<not> signature_on_body P (raw_body (exp_control_after (mut_experiment r))) sig \<and>
        signature_on_body P (raw_body (exp_mutation_first (mut_experiment r))) sig \<and>
        signature_on_body P (raw_body (exp_mutation_second (mut_experiment r))) sig)"

definition experiment_evidence ::
  "'r page_env \<Rightarrow> 'r http_mutator \<Rightarrow> provider_candidate list \<Rightarrow> (string, http_observation) gomap \<Rightarrow>
   mutation_result list \<Rightarrow> evidence \<Rightarrow> bool"
where
  "experiment_evidence P m cands pages rs e \<longleftrightarrow>
     (if hm_framing_only m then ev_type e = ''FRAMING_DIFFERENTIAL'' \<and> ev_weight e = 0
      else ev_weight e = 0 \<or> revealed_backed P m cands pages rs e)"

lemma plain_evidence_weight [simp]: "ev_weight (plain_evidence t s d w c m) = w"
  by (simp add: plain_evidence_def)

lemma eligible_vulnerable:
  assumes "snd (eligible_takeover_fingerprint P sig c o1)"
  shows "fp_vulnerable sig \<and> \<not> is_generic_http_fingerprint (pe_go P) (fp_fingerprint sig) \<and>
    4 \<le> fingerprint_specificity (pe_go P) (fp_fingerprint sig)"
  using assms
  by (auto simp: eligible_takeover_fingerprint_def Let_def fingerprint_rule_def
      minimum_takeover_fingerprint_specificity_def split: if_splits)

lemma revealed_evidence_source [simp]: "ev_source (revealed_fingerprint_evidence f) = rf_service f"
  by (simp add: revealed_fingerprint_evidence_def)

lemma find_SomeD: "find f xs = Some y \<Longrightarrow> y \<in> set xs \<and> f y"
  by (auto simp: find_Some_iff)

lemma confirmed_backed:
  assumes "confirmed_provider_fingerprint P m ctx name x = Some f"
    and "mut_outcome r = MutationRevealedProviderFingerprint" and "mut_experiment r = x"
    and "mc_baseline ctx \<in> snd ` set pages"
  shows "revealed_backed P m (mc_provider_candidates ctx) pages [r] (revealed_fingerprint_evidence f)"
proof -
  from assms(1) obtain c sig where "find (\<lambda>(c, sig). reveals_provider P ctx x c sig)
        (List.product (mc_provider_candidates ctx) (hm_signatures m)) = Some (c, sig)"
    and f: "rf_service f = pc_service c" and usable: "list_all usable_raw_observation (experiment_list x)"
    by (auto simp: confirmed_provider_fingerprint_def Let_def split: if_splits option.splits)
  then have "c \<in> set (mc_provider_candidates ctx)" "sig \<in> set (hm_signatures m)"
    and "reveals_provider P ctx x c sig"
    by (auto dest!: find_SomeD)
  moreover from this(3) have "fp_vulnerable sig \<and> \<not> is_generic_http_fingerprint (pe_go P) (fp_fingerprint sig) \<and>
      4 \<le> fingerprint_specificity (pe_go P) (fp_fingerprint sig)"
    unfolding reveals_provider_def by (blast dest: eligible_vulnerable)
  ultimately show ?thesis
    using f usable assms(2,3,4)
    unfolding revealed_backed_def reveals_provider_def only_mutation_matches_def
    by (intro bexI [of _ c] bexI [of _ sig] bexI [of _ r] bexI [of _ "mc_baseline ctx"]) simp_all
qed

lemma review_weight: "generic_fingerprint_review P m ctx name x = Some e \<Longrightarrow> ev_weight e = 0"
  by (auto simp: generic_fingerprint_review_def Let_def split: option.splits)

lemma verdict_evidence:
  assumes "differential_verdict P m ctx mutation x = (evs, verdict)"
    and "e \<in> set evs" and "ev_weight e \<noteq> 0"
  shows "verdict = MutationRevealedProviderFingerprint \<and>
    (\<exists>f. confirmed_provider_fingerprint P m ctx (mutation_name mutation) x = Some f \<and>
         e = revealed_fingerprint_evidence f)"
  using assms
  by (auto simp: differential_verdict_def Let_def control_evidence_def differential_evidence_def
      dest: review_weight split: if_splits option.splits)

lemma judge_evidence:
  assumes "judge_experiment P m ctx mutation x = (evs, r)" and "e \<in> set evs"
    and "is_framing_mutation mutation = hm_framing_only m" and "mc_baseline ctx \<in> snd ` set pages"
  shows "experiment_evidence P m (mc_provider_candidates ctx) pages [r] e"
proof -
  let ?differing = "(mutation_aggregate ctx mutation x)\<lparr>mut_confirmations := 2,
    mut_relevant_diffs := relevant_differences P x\<rparr>"
  from assms(1,2) consider
    "hm_framing_only m" "e = framing_evidence ctx mutation"
    | verdict where "\<not> hm_framing_only m" "differential_verdict P m ctx mutation x = (evs, verdict)"
        "r = ?differing\<lparr>mut_outcome := verdict\<rparr>"
    by (auto simp: judge_experiment_def Let_def assms(3) split: option.splits if_splits prod.splits)
  then show ?thesis
  proof cases
    case 1
    then show ?thesis by (simp add: experiment_evidence_def framing_evidence_def)
  next
    case 2
    have r: "mut_outcome r = verdict" "mut_experiment r = x"
      by (simp_all add: 2(3) mutation_aggregate_def)
    have "revealed_backed P m (mc_provider_candidates ctx) pages [r] e" if "ev_weight e \<noteq> 0"
      using verdict_evidence [OF 2(2) assms(2) that] confirmed_backed [OF _ _ r(2) assms(4)] r(1) by metis
    then show ?thesis by (simp only: experiment_evidence_def 2(1) if_False) blast
  qed
qed

subsection \<open>Runs of experiments\<close>

text \<open>Everything that a run does to the analysis: it adds evidence and at most \<open>n\<close> results.\<close>

definition mutation_step ::
  "'r page_env \<Rightarrow> 'r http_mutator \<Rightarrow> provider_candidate list \<Rightarrow> nat \<Rightarrow> host_analysis \<Rightarrow> host_analysis \<Rightarrow> bool"
where
  "mutation_step P m cands n a a' \<longleftrightarrow>
     (\<exists>es rs. a' = a\<lparr>ha_evidences := ha_evidences a @ es, ha_mutation_results := ha_mutation_results a @ rs\<rparr> \<and>
        length rs \<le> n \<and> (\<forall>e \<in> set es. experiment_evidence P m cands (ha_http_observations a) rs e))"

lemma revealed_backed_mono:
  "revealed_backed P m cands pages rs e \<Longrightarrow> set rs \<subseteq> set rs' \<Longrightarrow> revealed_backed P m cands pages rs' e"
  unfolding revealed_backed_def by blast

lemma revealed_backed_candidates:
  "revealed_backed P m cands pages rs e \<Longrightarrow> set cands \<subseteq> set cands' \<Longrightarrow> revealed_backed P m cands' pages rs e"
  unfolding revealed_backed_def by blast

lemma experiment_evidence_mono:
  "experiment_evidence P m cands pages rs e \<Longrightarrow> set rs \<subseteq> set rs' \<Longrightarrow> experiment_evidence P m cands pages rs' e"
  by (auto simp: experiment_evidence_def revealed_backed_mono split: if_splits)

lemma mutation_step_refl: "mutation_step P m cands n a a"
  unfolding mutation_step_def by (rule exI [of _ "[]"], rule exI [of _ "[]"]) simp

lemma mutation_step_mono: "mutation_step P m cands n a a' \<Longrightarrow> n \<le> k \<Longrightarrow> mutation_step P m cands k a a'"
  unfolding mutation_step_def
  by (elim exE conjE, rule exI, rule exI, intro conjI, assumption, erule (1) order_trans, assumption)

lemma mutation_step_pages: "mutation_step P m cands n a a' \<Longrightarrow>
    ha_http_observations a' = ha_http_observations a \<and> ha_host a' = ha_host a"
  by (auto simp: mutation_step_def)

lemma mutation_step_trans:
  assumes "mutation_step P m cands n a b" and "mutation_step P m cands k b c"
  shows "mutation_step P m cands (n + k) a c"
proof -
  from assms(1) obtain es rs where b: "b = a\<lparr>ha_evidences := ha_evidences a @ es, ha_mutation_results := ha_mutation_results a @ rs\<rparr>"
    "length rs \<le> n" and es: "\<forall>e \<in> set es. experiment_evidence P m cands (ha_http_observations a) rs e"
    unfolding mutation_step_def by blast
  from assms(2) obtain es' rs' where c: "c = b\<lparr>ha_evidences := ha_evidences b @ es', ha_mutation_results := ha_mutation_results b @ rs'\<rparr>"
    "length rs' \<le> k" and es': "\<forall>e \<in> set es'. experiment_evidence P m cands (ha_http_observations a) rs' e"
    unfolding mutation_step_def using mutation_step_pages [OF assms(1)] by auto
  have "\<forall>e \<in> set (es @ es'). experiment_evidence P m cands (ha_http_observations a) (rs @ rs') e"
    using es es' by (auto intro: experiment_evidence_mono)
  with b c show ?thesis
    unfolding mutation_step_def by (intro exI [of _ "es @ es'"] exI [of _ "rs @ rs'"]) simp
qed

lemma failed_mutation_step: "mutation_step P m cands 1 a (add_mutation_result (failed_mutation ctx mutation e) a)"
  unfolding mutation_step_def add_mutation_result_def
  by (rule exI [of _ "[]"], rule exI [of _ "[failed_mutation ctx mutation e]"]) simp

lemma execute_mutation_step:
  assumes "run_state (execute_mutation E m ctx mutation a) s = (Some a', s')"
    and "is_framing_mutation mutation = hm_framing_only m" and "mc_baseline ctx \<in> snd ` set (ha_http_observations a)"
  shows "mutation_step (me_page E) m (mc_provider_candidates ctx) 1 a a'"
proof -
  from assms(1) consider
    e where "a' = add_mutation_result (failed_mutation ctx mutation e) a"
    | x where "a' = add_mutation_result (snd (judge_experiment (me_page E) m ctx mutation x))
        (add_evidences (fst (judge_experiment (me_page E) m ctx mutation x)) a)"
    by (auto simp: execute_mutation_def case_prod_unfold split: sum.splits)
  then show ?thesis
  proof cases
    case 1
    then show ?thesis by (simp only: failed_mutation_step)
  next
    case 2
    obtain evs r where j: "judge_experiment (me_page E) m ctx mutation x = (evs, r)" by (rule prod.exhaust)
    with 2 have "a' = a\<lparr>ha_evidences := ha_evidences a @ evs, ha_mutation_results := ha_mutation_results a @ [r]\<rparr>"
      by (simp add: add_mutation_result_def add_evidences_def)
    then show ?thesis
      unfolding mutation_step_def using judge_evidence [OF j _ assms(2,3)]
      by (intro exI [of _ evs] exI [of _ "[r]"]) simp
  qed
qed

text \<open>How many experiments are left.\<close>

definition probes_left :: "'r http_mutator \<Rightarrow> int \<Rightarrow> http_mutation list \<Rightarrow> nat" where
  "probes_left m probes ms =
     (if hm_max_probes m > 0 then min (length ms) (nat (hm_max_probes m - probes)) else length ms)"

lemma probes_left_Cons: "probes_left m probes ms \<le> probes_left m probes (x # ms)"
  "\<not> (hm_max_probes m > 0 \<and> probes \<ge> hm_max_probes m) \<Longrightarrow>
     1 + probes_left m (probes + 1) ms \<le> probes_left m probes (x # ms)"
  by (auto simp: probes_left_def)

lemma run_mutations_step:
  assumes "run_state (run_mutations E m ctx ms probes a) s = (Some (a', stopped), s')"
    and "mc_baseline ctx \<in> snd ` set (ha_http_observations a)"
  shows "mutation_step (me_page E) m (mc_provider_candidates ctx) (probes_left m probes ms) a a'"
  using assms
proof (induction ms arbitrary: probes a s)
  case Nil
  then show ?case by (simp add: run_mutations.simps mutation_step_refl)
next
  case (Cons mutation ms)
  let ?step = "mutation_step (me_page E) m (mc_provider_candidates ctx)"
  from Cons.prems(1) consider "a' = a"
    | "run_state (run_mutations E m ctx ms probes a) s = (Some (a', stopped), s')"
    | a1 s1 where "is_framing_mutation mutation = hm_framing_only m"
        "\<not> (hm_max_probes m > 0 \<and> probes \<ge> hm_max_probes m)"
        "run_state (execute_mutation E m ctx mutation a) s = (Some a1, s1)"
        "run_state (run_mutations E m ctx ms (probes + 1) a1) s1 = (Some (a', stopped), s')"
    by (auto simp: run_mutations.simps split: if_splits prod.splits option.splits)
  then show ?case
  proof cases
    case 1
    then show ?thesis by (simp add: mutation_step_refl)
  next
    case 2
    from Cons.IH [OF this Cons.prems(2)] show ?thesis
      by (rule mutation_step_mono) (rule probes_left_Cons)
  next
    case 3
    have first: "?step 1 a a1" by (rule execute_mutation_step [OF 3(3,1) Cons.prems(2)])
    then have "mc_baseline ctx \<in> snd ` set (ha_http_observations a1)"
      using Cons.prems(2) mutation_step_pages by fastforce
    from mutation_step_trans [OF first Cons.IH [OF 3(4) this]] show ?thesis
      by (rule mutation_step_mono) (rule probes_left_Cons(2) [OF 3(2)])
  qed
qed

lemma run_schemes_step:
  assumes "run_state (run_schemes E m cands schemes a) s = (Some (a', err), s')"
  shows "mutation_step (me_page E) m cands (length schemes * probes_left m 0 (hm_mutations m)) a a'"
  using assms
proof (induction schemes arbitrary: a s)
  case Nil
  then show ?case by (simp add: run_schemes.simps mutation_step_refl)
next
  case (Cons scheme schemes)
  let ?n = "probes_left m 0 (hm_mutations m)"
  from Cons.prems consider "a' = a"
    | "run_state (run_schemes E m cands schemes a) s = (Some (a', err), s')"
    | baseline target d a1 stopped s1 where "get_http_observation a scheme = Some baseline"
        "run_state (run_mutations E m (target\<lparr>mc_baseline := baseline, mc_provider_candidates := cands,
           mc_block_decision := d\<rparr>) (hm_mutations m) 0 a) s = (Some (a1, stopped), s1)"
        "a' = a1 \<or> run_state (run_schemes E m cands schemes a1) s1 = (Some (a', err), s')"
    by (auto simp: run_schemes.simps Let_def split: if_splits prod.splits option.splits sum.splits)
  then show ?case
  proof cases
    case 1
    then show ?thesis by (simp add: mutation_step_refl)
  next
    case 2
    from Cons.IH [OF this] show ?thesis by (rule mutation_step_mono) simp
  next
    case 3
    from 3(1) have "baseline \<in> snd ` set (ha_http_observations a)"
      by (force simp: get_http_observation_def dest: map_of_SomeD)
    then have first: "mutation_step (me_page E) m cands ?n a a1"
      using run_mutations_step [OF 3(2)] by simp
    from 3(3) show ?thesis
    proof
      assume "a' = a1"
      with first show ?thesis by (auto intro: mutation_step_mono)
    next
      assume "run_state (run_schemes E m cands schemes a1) s1 = (Some (a', err), s')"
      from mutation_step_trans [OF first Cons.IH [OF this]] show ?thesis by simp
    qed
  qed
qed

text \<open>The whole collector: nothing, or a run over the two protocols.\<close>

lemma collect_mutations_cases:
  assumes "run_state (collect_mutations E m a) w = (Some (a', err), w')"
  obtains "a' = add_tested_vector (mutator_name m) a" "err = None" "w' = w"
  | cands b where "hm_framing_only m \<longrightarrow> framing_allowed (me_go E) m (ha_host a)"
      "set cands \<subseteq> set (ha_provider_candidates a)"
      "run_state (run_schemes E m cands [''https'', ''http''] (add_tested_vector (mutator_name m) a))
         (new_budget (hm_host_timeout m), w) = (Some (a', err), (b, w'))"
proof -
  let ?a = "add_tested_vector (mutator_name m) a"
  let ?cands = "if hm_framing_only m then ha_provider_candidates ?a
            else mutation_candidates (me_go E) m (ha_provider_candidates ?a)"
  have host: "ha_host ?a = ha_host a" by (simp add: add_tested_vector_def)
  have cands: "set ?cands \<subseteq> set (ha_provider_candidates a)"
    by (auto simp: add_tested_vector_def mutation_candidates_def)
  from assms consider "a' = ?a" "err = None" "w' = w"
    | b where "hm_framing_only m \<longrightarrow> framing_allowed (me_go E) m (ha_host a)"
      "run_state (run_schemes E m ?cands [''https'', ''http''] ?a) (new_budget (hm_host_timeout m), w) =
         (Some (a', err), (b, w'))"
    unfolding collect_mutations_def Let_def host
    by (auto split: if_splits prod.splits)
  then show thesis using that cands by cases blast+
qed

lemma collect_mutations_step:
  assumes "run_state (collect_mutations E m a) w = (Some (a', err), w')"
  obtains es rs cands where "ha_evidences a' = ha_evidences a @ es"
    "ha_mutation_results a' = ha_mutation_results a @ rs" "set cands \<subseteq> set (ha_provider_candidates a)"
    "\<forall>e \<in> set es. experiment_evidence (me_page E) m cands (ha_http_observations a) rs e"
proof (cases rule: collect_mutations_cases [OF assms])
  case 1
  then show thesis using that [of "[]" "[]" "[]"] by (simp add: add_tested_vector_def)
next
  case (2 cands b)
  from run_schemes_step [OF 2(3)] obtain es rs where
    "a' = (add_tested_vector (mutator_name m) a)\<lparr>ha_evidences := ha_evidences a @ es, ha_mutation_results := ha_mutation_results a @ rs\<rparr>"
    "\<forall>e \<in> set es. experiment_evidence (me_page E) m cands (ha_http_observations a) rs e"
    unfolding mutation_step_def by (auto simp: add_tested_vector_def)
  then show thesis using that 2(2) by simp
qed

subsection \<open>How much is sent\<close>

text \<open>A computation after which a counter of the world has grown by at most \<open>n\<close>.\<close>

definition grows :: "('w \<Rightarrow> nat) \<Rightarrow> nat \<Rightarrow> ('b \<times> 'w, 'x) state \<Rightarrow> bool" where
  "grows sent n p \<longleftrightarrow> (\<forall>s r s'. run_state p s = (r, s') \<longrightarrow> sent (snd s') \<le> sent (snd s) + n)"

lemma growsD: "grows sent n p \<Longrightarrow> run_state p s = (r, s') \<Longrightarrow> sent (snd s') \<le> sent (snd s) + n"
  unfolding grows_def by blast

lemma grows_ret: "grows sent n (ret x)"
  by (simp add: grows_def)

lemma grows_reads: "grows sent 0 (reads f)"
  by (simp add: grows_def)

lemma grows_mono: "grows sent n p \<Longrightarrow> n \<le> k \<Longrightarrow> grows sent k p"
  unfolding grows_def by (meson add_left_mono order_trans)

lemma grows_bind:
  assumes "grows sent n p" and "\<And>x. grows sent k (f x)"
  shows "grows sent (n + k) (State_Monad.bind p f)"
  unfolding grows_def
proof (intro allI impI)
  fix s r s' assume "run_state (State_Monad.bind p f) s = (r, s')"
  then obtain x s1 where "run_state p s = (x, s1)" "run_state (f x) s1 = (r, s')" by (rule run_bindE)
  with assms have "sent (snd s1) \<le> sent (snd s) + n" "sent (snd s') \<le> sent (snd s1) + k"
    by (blast dest: growsD)+
  then show "sent (snd s') \<le> sent (snd s) + (n + k)" by simp
qed

lemma grows_then: "grows sent 0 p \<Longrightarrow> (\<And>x. grows sent n (f x)) \<Longrightarrow> grows sent n (State_Monad.bind p f)"
  using grows_bind [of sent 0 p n f] by simp

lemma grows_calls: "(\<And>w r w'. f w = (r, w') \<Longrightarrow> sent w' \<le> sent w + n) \<Longrightarrow> grows sent n (calls f)"
  by (auto simp: grows_def split_paired_all simp del: split_paired_All) (metis prod.collapse)

lemma grows_option: "grows sent n p \<Longrightarrow> (\<And>v. grows sent n (f v)) \<Longrightarrow> grows sent n (case x of None \<Rightarrow> p | Some v \<Rightarrow> f v)"
  by (cases x) simp_all

lemma grows_if: "grows sent n p \<Longrightarrow> grows sent n q \<Longrightarrow> grows sent n (if b then p else q)"
  by simp

text \<open>A world whose counter counts what the transport sends: waiting and looking at the clock send nothing.\<close>

definition counts_requests :: "('w, 'r) mutator_env \<Rightarrow> ('w \<Rightarrow> nat) \<Rightarrow> bool" where
  "counts_requests E sent \<longleftrightarrow>
     (\<forall>d ctx p w r w'. run_state (me_send E d ctx p) w = (r, w') \<longrightarrow> sent w' \<le> sent w + 1) \<and>
     (\<forall>w r w'. me_now E w = (r, w') \<longrightarrow> sent w' = sent w) \<and>
     (\<forall>wait w r w'. me_wait E = Some wait \<longrightarrow> wait w = (r, w') \<longrightarrow> sent w' = sent w)"

lemma mutator_send_grows:
  assumes "counts_requests E sent"
  shows "grows sent 1 (mutator_send E ctx payload)"
proof -
  have now: "grows sent 0 (calls (me_now E))"
    and wait: "me_wait E = Some wait \<Longrightarrow> grows sent 0 (calls wait)" for wait
    using assms by (fastforce intro: grows_calls simp: counts_requests_def)+
  have send: "grows sent 1 (calls (run_state (me_send E d ctx payload)))" for d
    using assms by (intro grows_calls) (simp add: counts_requests_def)
  have done1: "grows sent 0 (State_Monad.bind (calls (me_now E))
      (\<lambda>now. State_Monad.bind (modifies (\<lambda>(b, w). (g now b, w))) (\<lambda>_. ret r)))" for g :: "time \<Rightarrow> 'x \<Rightarrow> 'x" and r :: 'z
    by (intro grows_then [OF now]) (auto simp: grows_def)
  have limiter: "grows sent 0 (case me_wait E of None \<Rightarrow> ret None | Some wait \<Rightarrow> calls wait)"
    using wait by (auto simp: grows_ret split: option.split)
  have body: "grows sent 1 (State_Monad.bind (calls (me_now E)) (\<lambda>started. State_Monad.bind (calls (run_state (me_send E d ctx payload)))
      (\<lambda>r. State_Monad.bind (calls (me_now E)) (\<lambda>now. State_Monad.bind (modifies (\<lambda>(b, w). (budget_consume (now - started) b, w))) (\<lambda>_. ret r)))))" for d
    by (intro grows_then [OF now]) (use grows_bind [OF send done1] in simp)
  show ?thesis
    unfolding mutator_send_def
    by (intro grows_then [OF grows_reads] grows_then [OF limiter] grows_option grows_if grows_ret body)
qed

lemma execute_mutation_grows:
  assumes "counts_requests E sent"
  shows "grows sent 4 (execute_mutation E m ctx mutation a)"
proof -
  note send = mutator_send_grows [OF assms]
  have four: "grows sent (1 + (1 + (1 + (1 + 0)))) (send_experiment E ctx control mutated)" for control mutated
    unfolding send_experiment_def
    by (intro grows_bind [OF send] grows_option grows_ret)
  have "grows sent (4 + 0) (State_Monad.bind (send_experiment E ctx control mutated) (\<lambda>r. ret (f r)))" for control mutated and f :: "experiment_observations option \<Rightarrow> host_analysis option"
    by (intro grows_bind grows_ret) (use four in \<open>simp add: numeral_eq_Suc\<close>)
  then show ?thesis
    by (auto simp: execute_mutation_def grows_ret split: sum.split)
qed

lemma run_mutations_grows:
  assumes "counts_requests E sent"
  shows "grows sent (4 * probes_left m probes ms) (run_mutations E m ctx ms probes a)"
proof (induction ms arbitrary: probes a)
  case Nil
  then show ?case by (simp add: run_mutations.simps grows_ret)
next
  case (Cons mutation ms)
  have skip: "grows sent (4 * probes_left m probes (mutation # ms)) (run_mutations E m ctx ms probes a)"
    by (rule grows_mono [OF Cons.IH]) (use probes_left_Cons(1) in simp)
  have go: "grows sent (4 * probes_left m probes (mutation # ms)) (State_Monad.bind (execute_mutation E m ctx mutation a)
      (\<lambda>r. case r of None \<Rightarrow> ret None | Some a' \<Rightarrow> run_mutations E m ctx ms (probes + 1) a'))"
    if "\<not> (hm_max_probes m > 0 \<and> probes \<ge> hm_max_probes m)"
    by (rule grows_mono [OF grows_bind [OF execute_mutation_grows [OF assms] grows_option [OF grows_ret Cons.IH]]])
      (use probes_left_Cons(2) [OF that, of ms mutation] in simp)
  show ?case
    unfolding run_mutations.simps
  proof (rule grows_then [OF grows_reads])
    show "grows sent (4 * probes_left m probes (mutation # ms))
        (if budget_exhausted b then ret (Some (a, True))
         else if is_framing_mutation mutation \<noteq> hm_framing_only m then run_mutations E m ctx ms probes a
         else if hm_max_probes m > 0 \<and> probes \<ge> hm_max_probes m then ret (Some (a, False))
         else if \<not> mutation_applicability (me_quote E) mutation ctx then run_mutations E m ctx ms probes a
         else State_Monad.bind (execute_mutation E m ctx mutation a)
           (\<lambda>r. case r of None \<Rightarrow> ret None | Some a' \<Rightarrow> run_mutations E m ctx ms (probes + 1) a'))" for b
      using skip go by (cases "hm_max_probes m > 0 \<and> probes \<ge> hm_max_probes m")
        (simp_all only: grows_ret if_True if_False simp_thms split: if_split)
  qed
qed

lemma run_schemes_grows:
  assumes "counts_requests E sent"
  shows "grows sent (length schemes * (4 * probes_left m 0 (hm_mutations m))) (run_schemes E m cands schemes a)"
proof (induction schemes arbitrary: a)
  case Nil
  then show ?case by (simp add: run_schemes.simps grows_ret)
next
  case (Cons scheme schemes)
  let ?n = "4 * probes_left m 0 (hm_mutations m)"
  have skip: "grows sent (?n + length schemes * ?n) (run_schemes E m cands schemes a)"
    by (rule grows_mono [OF Cons.IH]) simp
  have go: "grows sent (?n + length schemes * ?n) (State_Monad.bind (run_mutations E m ctx (hm_mutations m) 0 a)
      (\<lambda>r. case r of None \<Rightarrow> ret None
         | Some (a', stopped) \<Rightarrow> if stopped then ret (Some (a', None)) else run_schemes E m cands schemes a'))" for ctx
    by (rule grows_bind [OF run_mutations_grows [OF assms]])
      (use Cons.IH in \<open>auto simp: grows_ret split: option.split\<close>)
  show ?case
    using skip go by (auto simp: run_schemes.simps Let_def grows_ret split: option.split sum.split)
qed

subsection \<open>Properties\<close>

text \<open>C9. Of all that the mutator adds, only one kind of evidence has a weight, and it is earned: a
  vulnerable signature of a candidate provider whose specific text is in both mutated responses, in
  neither control and not in the baseline, from an experiment of four usable responses that is among
  the results.\<close>

theorem only_reproduced_fingerprints_weigh:
  assumes "run_state (collect_mutations E m a) w = (Some (a', err), w')" and "\<not> hm_framing_only m"
  shows "\<exists>es rs. ha_evidences a' = ha_evidences a @ es \<and> ha_mutation_results a' = ha_mutation_results a @ rs \<and>
     (\<forall>e \<in> set es. ev_weight e \<noteq> 0 \<longrightarrow>
        revealed_backed (me_page E) m (ha_provider_candidates a) (ha_http_observations a) rs e)"
proof -
  obtain es rs cands where run: "ha_evidences a' = ha_evidences a @ es" "ha_mutation_results a' = ha_mutation_results a @ rs"
    and cands: "set cands \<subseteq> set (ha_provider_candidates a)"
    and es: "\<forall>e \<in> set es. experiment_evidence (me_page E) m cands (ha_http_observations a) rs e"
    by (rule collect_mutations_step [OF assms(1)])
  have "revealed_backed (me_page E) m (ha_provider_candidates a) (ha_http_observations a) rs e"
    if "e \<in> set es" "ev_weight e \<noteq> 0" for e
    using es that assms(2) by (auto simp: experiment_evidence_def intro: revealed_backed_candidates [OF _ cands])
  with run show ?thesis by blast
qed

text \<open>C10. The laboratory for framing exists only when both options were given and the list of authorities is
  valid; on a host that is not in that list it does nothing at all; and whatever it finds elsewhere has
  no weight and says nothing of a provider.\<close>

theorem framing_stays_in_the_lab:
  assumes "new_framing_if_authorized (me_go E) quote file enabled controlled raw timeout = Inr (Some m0)"
    and "m = set_mutator_limits probes limit m0"
    and "run_state (collect_mutations E m a) w = (Some (a', err), w')"
  shows "enabled \<and> controlled \<and>
    (\<exists>authorities. parse_framing_allowlist (me_go E) quote file raw = Inr authorities \<and>
       (normalized_authority (me_go E) (ha_host a) \<notin> normalized_authority (me_go E) ` set authorities \<longrightarrow>
          w' = w \<and> a' = add_tested_vector ''HTTP_FRAMING_LAB'' a)) \<and>
    (\<exists>es. ha_evidences a' = ha_evidences a @ es \<and>
       (\<forall>e \<in> set es. ev_type e = ''FRAMING_DIFFERENTIAL'' \<and> ev_weight e = 0))"
proof -
  from assms(1) obtain authorities where on: "enabled" "controlled"
    and auth: "parse_framing_allowlist (me_go E) quote file raw = Inr authorities"
    and new: "new_http_framing (me_go E) timeout authorities = Inr m0"
    by (auto simp: new_framing_if_authorized_def split: if_splits sum.splits) (auto simp: map_sum_def split: sum.splits)
  have lab: "hm_framing_only m" "set (hm_allowed m) \<subseteq> normalized_authority (me_go E) ` set authorities"
    using new assms(2) by (auto simp: new_http_framing_def set_mutator_limits_def Let_def split: if_splits)
  have outside: "w' = w \<and> a' = add_tested_vector ''HTTP_FRAMING_LAB'' a"
    if "normalized_authority (me_go E) (ha_host a) \<notin> normalized_authority (me_go E) ` set authorities"
  proof -
    have "\<not> framing_allowed (me_go E) m (ha_host a)" using that lab(2) by (auto simp: framing_allowed_def)
    then show ?thesis using lab(1)
      by (cases rule: collect_mutations_cases [OF assms(3)]) (simp_all add: mutator_name_def)
  qed
  obtain es rs cands where "ha_evidences a' = ha_evidences a @ es"
    "\<forall>e \<in> set es. experiment_evidence (me_page E) m cands (ha_http_observations a) rs e"
    by (rule collect_mutations_step [OF assms(3)])
  then have "\<exists>es. ha_evidences a' = ha_evidences a @ es \<and>
      (\<forall>e \<in> set es. ev_type e = ''FRAMING_DIFFERENTIAL'' \<and> ev_weight e = 0)"
    using lab(1) by (auto simp: experiment_evidence_def)
  with on auth outside show ?thesis by blast
qed

text \<open>Four requests per experiment, at most the configured number of experiments per protocol: a run
  sends at most eight requests for each mutation, and at most eight times the limit.\<close>

theorem mutation_requests_bounded:
  assumes "counts_requests E sent" and "run_state (collect_mutations E m a) w = (r, w')"
  shows "sent w' \<le> sent w + 8 * length (hm_mutations m) \<and>
    (0 < hm_max_probes m \<longrightarrow> sent w' \<le> sent w + 8 * nat (hm_max_probes m))"
proof -
  let ?n = "probes_left m 0 (hm_mutations m)"
  have "sent w' \<le> sent w + 8 * ?n"
  proof -
    have run: "sent v \<le> sent w + 8 * ?n"
      if "run_state (run_schemes E m cands [''https'', ''http''] b) (l, w) = (x, (l', v))" for cands b l x l' v
      using growsD [OF run_schemes_grows [OF assms(1)] that] by simp
    show ?thesis
      using assms(2) run unfolding collect_mutations_def Let_def
      by (auto split: if_splits prod.splits)
  qed
  moreover have "?n \<le> length (hm_mutations m)" "0 < hm_max_probes m \<Longrightarrow> ?n \<le> nat (hm_max_probes m)"
    by (simp_all add: probes_left_def)
  ultimately show ?thesis by (auto intro: order_trans)
qed

subsection \<open>A run ends without a panic when the transport does\<close>

definition always_some :: "('s, 'x option) state \<Rightarrow> bool" where
  "always_some p \<longleftrightarrow> gives (\<lambda>r. r \<noteq> None) p"

definition sound_transport :: "('w, 'r) mutator_env \<Rightarrow> bool" where
  "sound_transport E \<longleftrightarrow> (\<forall>d ctx p. always_some (me_send E d ctx p))"

lemma always_some_ret: "always_some (ret (Some x))"
  by (simp add: always_some_def gives_ret)

lemma always_some_after: "(\<And>x. always_some (f x)) \<Longrightarrow> always_some (State_Monad.bind p f)"
  unfolding always_some_def by (rule gives_bind_any)

lemma always_some_bind: "always_some p \<Longrightarrow> (\<And>v. always_some (f v)) \<Longrightarrow>
    always_some (State_Monad.bind p (\<lambda>r. case r of None \<Rightarrow> ret None | Some v \<Rightarrow> f v))"
  unfolding always_some_def by (erule gives_bind) (auto split: option.split)

lemma always_some_option: "always_some p \<Longrightarrow> (\<And>v. always_some (f v)) \<Longrightarrow> always_some (case x of None \<Rightarrow> p | Some v \<Rightarrow> f v)"
  by (cases x) simp_all

lemma always_some_pass: "always_some p \<Longrightarrow> (\<And>v. always_some (f (Some v))) \<Longrightarrow> always_some (State_Monad.bind p f)"
  unfolding always_some_def by (erule gives_bind) auto

lemma always_some_if: "always_some p \<Longrightarrow> always_some q \<Longrightarrow> always_some (if b then p else q)"
  by simp

lemma always_some_calls: "always_some p \<Longrightarrow> always_some (calls (run_state p))"
  by (simp add: always_some_def gives_def split_paired_all)

lemma mutator_send_always_some:
  assumes "sound_transport E"
  shows "always_some (mutator_send E ctx payload)"
proof -
  have send: "always_some (calls (run_state (me_send E d ctx payload)))" for d
    using assms by (simp add: sound_transport_def always_some_calls)
  have body: "always_some (State_Monad.bind (calls (me_now E)) (\<lambda>started. State_Monad.bind (calls (run_state (me_send E d ctx payload)))
      (\<lambda>r. State_Monad.bind (calls (me_now E)) (\<lambda>now. State_Monad.bind (modifies (g started now)) (\<lambda>_. ret r)))))" for d g
    by (rule always_some_after, rule always_some_pass [OF send], intro always_some_after always_some_ret)
  have rest: "always_some (case refused of Some text \<Rightarrow> ret (raw_failed text)
      | None \<Rightarrow> State_Monad.bind (reads (\<lambda>(_, w). me_cancelled E w)) (\<lambda>cancelled. case cancelled of
          Some text \<Rightarrow> ret (raw_failed text) | None \<Rightarrow> State_Monad.bind (calls (me_now E))
          (\<lambda>started. State_Monad.bind (calls (run_state (me_send E d ctx payload)))
      (\<lambda>r. State_Monad.bind (calls (me_now E)) (\<lambda>now. State_Monad.bind (modifies (g started now)) (\<lambda>_. ret r))))))" for refused d g
    unfolding raw_failed_def by (rule always_some_option) (rule always_some_after, rule always_some_option, rule body, rule always_some_ret, rule always_some_ret)
  show ?thesis
    unfolding mutator_send_def
    by (rule always_some_after, rule always_some_if) (simp_all add: raw_failed_def always_some_ret always_some_after rest [unfolded raw_failed_def])
qed

lemma execute_mutation_always_some:
  assumes "sound_transport E"
  shows "always_some (execute_mutation E m ctx mutation a)"
proof -
  have "always_some (send_experiment E ctx control mutated)" for control mutated
    unfolding send_experiment_def
    by (intro always_some_bind mutator_send_always_some [OF assms] always_some_ret)
  then have "always_some (State_Monad.bind (send_experiment E ctx control mutated) (\<lambda>r. ret (map_option f r)))" for control mutated and f :: "_ \<Rightarrow> host_analysis"
    by (rule always_some_pass) (simp add: always_some_ret)
  then show ?thesis
    unfolding execute_mutation_def by (simp add: always_some_ret split: sum.split)
qed

lemma run_mutations_always_some: "sound_transport E \<Longrightarrow> always_some (run_mutations E m ctx ms probes a)"
proof (induction ms arbitrary: probes a)
  case (Cons mutation ms)
  show ?case
    unfolding run_mutations.simps
    by (intro always_some_after always_some_if always_some_bind always_some_ret execute_mutation_always_some Cons)
qed (simp add: run_mutations.simps always_some_ret)

lemma run_schemes_always_some: "sound_transport E \<Longrightarrow> always_some (run_schemes E m cands schemes a)"
proof (induction schemes arbitrary: a)
  case (Cons scheme schemes)
  have "always_some (case y of (a', stopped) \<Rightarrow> if stopped then ret (Some (a', None)) else run_schemes E m cands schemes a')" for y
    using Cons by (cases y) (simp add: always_some_ret)
  then have "always_some (State_Monad.bind (run_mutations E m ctx (hm_mutations m) 0 a) (\<lambda>r. case r of None \<Rightarrow> ret None
      | Some (a', stopped) \<Rightarrow> if stopped then ret (Some (a', None)) else run_schemes E m cands schemes a'))" for ctx
    by (rule always_some_bind [OF run_mutations_always_some [OF Cons.prems]])
  then show ?case using Cons
    by (simp add: run_schemes.simps Let_def always_some_ret split: option.split sum.split)
qed (simp add: run_schemes.simps always_some_ret)

lemma collect_mutations_always_some:
  assumes "sound_transport E"
  obtains a' err w' where "run_state (collect_mutations E m a) w = (Some (a', err), w')"
proof -
  have "fst (run_state (collect_mutations E m a) w) \<noteq> None"
  proof -
    have "fst (run_state (run_schemes E m cands schemes b) s) \<noteq> None" for cands schemes b s
      using run_schemes_always_some [OF assms] unfolding always_some_def gives_def by blast
    then show ?thesis
      unfolding collect_mutations_def Let_def by (simp add: case_prod_unfold)
  qed
  then show thesis using that by (metis not_None_eq prod.collapse)
qed

subsection \<open>Witnesses\<close>

text \<open>A world that counts its requests; every answer is an empty page that came completely.\<close>

definition blank_page :: raw_http_observation where
  "blank_page = zero_raw_observation\<lparr>raw_status_code := 200, raw_complete := True\<rparr>"

definition counting_env :: "(nat, unit) mutator_env" where
  "counting_env = \<lparr>me_page = \<lparr>pe_go = ascii_env,
       pe_regex = \<lparr>rx_compile = (\<lambda>_. Inr ()), rx_match = (\<lambda>_ _. False), rx_engine_text = (\<lambda>_. [])\<rparr>,
       pe_sha256 = (\<lambda>_. []), pe_replace_all = (\<lambda>_ s _. s), pe_html = (\<lambda>_. None),
       pe_media_type = (\<lambda>_. None), pe_cookies = (\<lambda>_. [])\<rparr>,
     me_quote = id, me_atoi_error = id, me_wait = Some (\<lambda>w. (None, w)), me_cancelled = (\<lambda>_. None),
     me_send = (\<lambda>_ _ _. State (\<lambda>w. (Some blank_page, Suc w))), me_now = (\<lambda>w. (0, w))\<rparr>"

lemma counting_env_facts: "sound_transport counting_env" "counts_requests counting_env id"
  by (auto simp: counting_env_def sound_transport_def always_some_def gives_def counts_requests_def)

definition sample_mutator :: "unit http_mutator" where
  "sample_mutator = new_http_mutator [] 0"

definition blocked_host :: host_analysis where
  "blocked_host = zero_host_analysis\<lparr>ha_host := ''a.test'',
     ha_http_observations := [(''http'', zero_http_observation\<lparr>ho_status_code := 403, ho_complete := True\<rparr>)]\<rparr>"

theorem only_reproduced_fingerprints_weigh_witness:
  "\<exists>a' err w' es. run_state (collect_mutations counting_env sample_mutator blocked_host) 0 = (Some (a', err), w') \<and>
     ha_evidences a' = es \<and> (\<forall>e \<in> set es. ev_weight e = 0)"
proof -
  obtain a' err w' where run: "run_state (collect_mutations counting_env sample_mutator blocked_host) 0 = (Some (a', err), w')"
    by (rule collect_mutations_always_some [OF counting_env_facts(1)])
  have "\<not> hm_framing_only sample_mutator" "hm_signatures sample_mutator = []"
    "ha_evidences blocked_host = []"
    by (simp_all add: sample_mutator_def new_http_mutator_def Let_def blocked_host_def zero_host_analysis_def)
  then show ?thesis
    using only_reproduced_fingerprints_weigh [OF run] run by (fastforce simp: revealed_backed_def)
qed

lemma lab_for_other: "\<exists>m. new_framing_if_authorized ascii_env id (\<lambda>_. None) True True ''lab.test'' 0 = Inr (Some (m :: unit http_mutator)) \<and>
     parse_framing_allowlist ascii_env id (\<lambda>_. None) ''lab.test'' = Inr [''lab.test'']"
proof -
  have plain: "list_all plain_char ''lab.test''"
    by (simp add: plain_char_def is_space_def in_range_def)
  have norm: "normalized_authority ascii_env ''lab.test'' = ''lab.test''" "trim_space ''lab.test'' = ''lab.test''"
    using plain by (simp_all add: normalized_authority_def trim_space_plain to_lower_plain)
  have items: "fields_func (\<lambda>r. r = 44 \<or> r = 10 \<or> r = 13) ''lab.test'' = [''lab.test'']"
    by (rule fields_func_one) simp_all
  have "parse_framing_allowlist ascii_env id (\<lambda>_. None) ''lab.test'' = Inr [''lab.test'']"
    by (simp add: parse_framing_allowlist_def Let_def norm items)
  then show ?thesis
    by (simp add: new_framing_if_authorized_def new_http_framing_def norm)
qed

theorem framing_stays_in_the_lab_witness:
  "\<exists>m a' err w'. new_framing_if_authorized ascii_env id (\<lambda>_. None) True True ''lab.test'' 0 = Inr (Some m) \<and>
     run_state (collect_mutations counting_env (set_mutator_limits 2 20 m) blocked_host) 0 = (Some (a', err), w') \<and>
     w' = 0 \<and> a' = add_tested_vector ''HTTP_FRAMING_LAB'' blocked_host"
proof -
  obtain m0 :: "unit http_mutator" where new: "new_framing_if_authorized ascii_env id (\<lambda>_. None) True True ''lab.test'' 0 = Inr (Some m0)"
    and auth: "parse_framing_allowlist ascii_env id (\<lambda>_. None) ''lab.test'' = Inr [''lab.test'']"
    using lab_for_other by blast
  obtain a' err w' where run: "run_state (collect_mutations counting_env (set_mutator_limits 2 20 m0) blocked_host) 0 = (Some (a', err), w')"
    by (rule collect_mutations_always_some [OF counting_env_facts(1)])
  have go: "me_go counting_env = ascii_env" by (simp add: counting_env_def)
  have other: "normalized_authority ascii_env (ha_host blocked_host) \<notin> normalized_authority ascii_env ` set [''lab.test'']"
  proof -
    have "list_all plain_char ''lab.test''" "list_all plain_char ''a.test''"
      by (simp_all add: plain_char_def is_space_def in_range_def)
    then show ?thesis by (simp add: blocked_host_def normalized_authority_def trim_space_plain to_lower_plain)
  qed
  from framing_stays_in_the_lab [of counting_env id "\<lambda>_. None" True True "''lab.test''" 0 m0 "set_mutator_limits 2 20 m0" 2 20 blocked_host 0 a' err w']
  have "w' = 0 \<and> a' = add_tested_vector ''HTTP_FRAMING_LAB'' blocked_host"
    using new auth run other unfolding go by auto
  with new run show ?thesis by blast
qed

theorem mutation_requests_bounded_witness:
  "snd (run_state (collect_mutations counting_env sample_mutator blocked_host) 0) \<le> 40"
proof -
  obtain r w' where run: "run_state (collect_mutations counting_env sample_mutator blocked_host) 0 = (r, w')"
    by (rule prod.exhaust)
  have "length (hm_mutations sample_mutator) = 5"
    by (simp add: sample_mutator_def new_http_mutator_def Let_def default_http_mutations_def)
  with mutation_requests_bounded [OF counting_env_facts(2) run] run show ?thesis by simp
qed

end
