(* ===== verification/ClaimAws.thy ===== *)
theory ClaimAws
  imports ClaimModel GoNet DnsNames
begin

section \<open>Providers of claims on AWS (internal/claim/aws_s3.go, aws_route53.go)\<close>

text \<open>
  The two providers that the engine of claims drives. The clients of the AWS SDK are parameters:
  each call takes the world and returns an error or an answer with the world it leaves. Of an error
  the code reads its text, the code of an API error and the status of a response. \<open>quote\<close> is
  \<open>strconv.Quote\<close>, which messages use.
\<close>

subsection \<open>Errors of the SDK\<close>

record aws_error =
  ae_text :: string
  ae_code :: "string option"
  ae_status :: "int option"

definition aws_wrapped :: "string \<Rightarrow> aws_error \<Rightarrow> claim_error" where
  "aws_wrapped pre e = Wrapped pre (PlainError (ae_text e)) []"

definition s3_object_already_absent :: "aws_error \<Rightarrow> bool" where
  "s3_object_already_absent e \<longleftrightarrow>
     (case ae_code e of None \<Rightarrow> False | Some c \<Rightarrow> c \<in> {''NoSuchBucket'', ''NoSuchKey'', ''NotFound''}) \<or>
     ae_status e = Some 404"

definition s3_bucket_definitely_absent :: "aws_error \<Rightarrow> bool" where
  "s3_bucket_definitely_absent e \<longleftrightarrow> ae_code e = Some ''NoSuchBucket'' \<or> ae_status e = Some 404"

subsection \<open>Endpoints of S3\<close>

definition s3_bucket_char :: "char \<Rightarrow> bool" where
  "s3_bucket_char c \<longleftrightarrow> in_range 97 122 (of_char c) \<or> in_range 48 57 (of_char c)"

definition valid_s3_bucket_name :: "string \<Rightarrow> bool" where
  "valid_s3_bucket_name bucket \<longleftrightarrow>
     3 \<le> length bucket \<and> length bucket \<le> 63 \<and> \<not> contains_str bucket ''..'' \<and> parse_ip bucket = None \<and>
     list_all (\<lambda>c. s3_bucket_char c \<or> c = CHR ''-'' \<or> c = CHR ''.'') bucket \<and>
     s3_bucket_char (hd bucket) \<and> s3_bucket_char (last bucket)"

definition valid_region_label :: "string \<Rightarrow> bool" where
  "valid_region_label v \<longleftrightarrow>
     (let parts = split_on CHR ''-'' v in
      3 \<le> length parts \<and> list_all (\<lambda>p. p \<noteq> [] \<and> list_all s3_bucket_char p) (butlast parts) \<and>
      last parts \<noteq> [] \<and> list_all digit_char (last parts))"

definition region_if_valid :: "string list \<Rightarrow> string \<Rightarrow> string option" where
  "region_if_valid labels embedded =
     (if embedded = [] then
        (case labels of [r] \<Rightarrow> if valid_region_label r then Some r else None | _ \<Rightarrow> None)
      else if labels = [] \<and> valid_region_label embedded then Some embedded else None)"

definition s3_region_from_service_labels :: "string list \<Rightarrow> string option" where
  "s3_region_from_service_labels labels =
     (case labels of
        [] \<Rightarrow> None
      | service # rest \<Rightarrow>
          if service = ''s3'' then
            (case rest of
               [] \<Rightarrow> Some []
             | [r] \<Rightarrow> if valid_region_label r then Some r else None
             | [d, r] \<Rightarrow> if d = ''dualstack'' \<and> valid_region_label r then Some r else None
             | _ \<Rightarrow> None)
          else if service = ''s3-website'' then region_if_valid rest []
          else if prefix ''s3-website-'' service then region_if_valid rest (trim_prefix service ''s3-website-'')
          else if prefix ''s3-'' service then region_if_valid rest (trim_prefix service ''s3-'')
          else None)"

text \<open>The label at which \<open>amazonaws.com\<close> or \<open>amazonaws.com.cn\<close> begins.\<close>

definition aws_index :: "string list \<Rightarrow> nat option" where
  "aws_index labels =
     (let n = length labels in
      if labels ! (n - 2) = ''amazonaws'' \<and> labels ! (n - 1) = ''com'' then Some (n - 2)
      else if n < 5 \<or> labels ! (n - 3) \<noteq> ''amazonaws'' \<or> labels ! (n - 2) \<noteq> ''com'' \<or> labels ! (n - 1) \<noteq> ''cn''
      then None else Some (n - 3))"

definition s3_service_label :: "string \<Rightarrow> bool" where
  "s3_service_label l \<longleftrightarrow> l = ''s3'' \<or> prefix ''s3-'' l"

text \<open>The loop runs downwards from the label before \<open>amazonaws\<close> to the second one.\<close>

definition service_index :: "string list \<Rightarrow> nat \<Rightarrow> nat option" where
  "service_index labels aws = find (\<lambda>i. s3_service_label (labels ! i)) (rev [1..<aws])"

definition parse_s3_endpoint ::
  "go_env \<Rightarrow> (string \<Rightarrow> string) \<Rightarrow> string \<Rightarrow> claim_error + string \<times> string"
where
  "parse_s3_endpoint G quote resource =
     (let host = normalize_host G resource; labels = split_on CHR ''.'' host;
          refuse = (\<lambda>text. Inl (PlainError (''o recurso '' @ quote resource @ text)));
          unknown = ('' n'' @ [CHR 0xC3, CHR 0xA3] @ ''o usa um endpoint virtual-hosted reconhecido do Amazon S3'') in
      if host = [] \<or> length labels < 4 then refuse ('' n'' @ [CHR 0xC3, CHR 0xA3] @ ''o '' @ [CHR 0xC3, CHR 0xA9] @ '' um endpoint virtual-hosted do Amazon S3'')
      else case aws_index labels of
        None \<Rightarrow> refuse ('' n'' @ [CHR 0xC3, CHR 0xA3] @ ''o pertence a um endpoint DNS do Amazon S3'')
      | Some aws \<Rightarrow>
          (case service_index labels aws of
             None \<Rightarrow> refuse unknown
           | Some i \<Rightarrow>
               (case s3_region_from_service_labels (drop i (take aws labels)) of
                  None \<Rightarrow> refuse unknown
                | Some region \<Rightarrow>
                    (let bucket = join_with ''.'' (take i labels) in
                     if \<not> valid_s3_bucket_name bucket then refuse ('' cont'' @ [CHR 0xC3, CHR 0xA9] @ ''m um nome de bucket S3 inv'' @ [CHR 0xC3, CHR 0xA1] @ ''lido'')
                     else Inr (bucket, region)))))"

definition s3_bucket_from_endpoint ::
  "go_env \<Rightarrow> (string \<Rightarrow> string) \<Rightarrow> string \<Rightarrow> claim_error + string"
where
  "s3_bucket_from_endpoint G quote resource = map_sum id fst (parse_s3_endpoint G quote resource)"

subsection \<open>The provider for S3\<close>

definition aws_s3_provider_id :: string where "aws_s3_provider_id = ''aws_s3''"

record 'w s3_api =
  s3_head_bucket :: "string \<Rightarrow> 'w \<Rightarrow> aws_error option \<times> 'w"
  s3_create_bucket :: "string \<Rightarrow> string option \<Rightarrow> 'w \<Rightarrow> aws_error option \<times> 'w"
  s3_put_object :: "string \<Rightarrow> string \<Rightarrow> string \<Rightarrow> meta \<Rightarrow> 'w \<Rightarrow> aws_error option \<times> 'w"
  s3_head_object :: "string \<Rightarrow> string \<Rightarrow> 'w \<Rightarrow> (aws_error + meta option) \<times> 'w"
  s3_delete_object :: "string \<Rightarrow> string \<Rightarrow> 'w \<Rightarrow> aws_error option \<times> 'w"
  s3_delete_bucket :: "string \<Rightarrow> 'w \<Rightarrow> aws_error option \<times> 'w"
  s3_now :: "'w \<Rightarrow> time \<times> 'w"

record 'w s3_provider =
  sp_client :: "'w s3_api"
  sp_region :: string

text \<open>The settings of the client: the region and the static credentials, if there are any.\<close>

record aws_settings =
  as_region :: string
  as_static :: "(string \<times> string \<times> string) option"

definition both_keys_required :: claim_error where
  "both_keys_required = PlainError (''SABBER_AWS_ACCESS_KEY e SABBER_AWS_SECRET_KEY s'' @ [CHR 0xC3, CHR 0xA3] @ ''o obrigat'' @ [CHR 0xC3, CHR 0xB3] @ ''rias em conjunto'')"

definition s3_settings :: "string \<Rightarrow> string \<Rightarrow> string \<Rightarrow> string \<Rightarrow> claim_error + aws_settings" where
  "s3_settings region0 access0 secret0 token0 =
     (let region = trim_space region0; access = trim_space access0; secret = trim_space secret0;
          token = trim_space token0; r = (if region = [] then ''us-east-1'' else region) in
      if token \<noteq> [] \<and> (access = [] \<or> secret = [])
      then Inl (PlainError ''SABBER_AWS_SESSION_TOKEN exige SABBER_AWS_ACCESS_KEY e SABBER_AWS_SECRET_KEY'')
      else if access \<noteq> [] \<or> secret \<noteq> [] then
        (if access = [] \<or> secret = [] then Inl both_keys_required
         else Inr \<lparr>as_region = r, as_static = Some (access, secret, token)\<rparr>)
      else Inr \<lparr>as_region = r, as_static = None\<rparr>)"

text \<open>\<open>load\<close> is what the SDK makes of the settings: a client, or the error of loading the
  configuration or of retrieving the credentials, with the text that the code puts in front.\<close>

definition new_aws_s3_provider ::
  "(aws_settings \<Rightarrow> claim_error + 'w s3_api) \<Rightarrow> string \<Rightarrow> string \<Rightarrow> string \<Rightarrow> string \<Rightarrow> claim_error + 'w s3_provider"
where
  "new_aws_s3_provider load region access secret token =
     (case s3_settings region access secret token of
        Inl e \<Rightarrow> Inl e
      | Inr settings \<Rightarrow> map_sum id (\<lambda>client. \<lparr>sp_client = client, sp_region = as_region settings\<rparr>) (load settings))"

definition s3_supports :: "go_env \<Rightarrow> provider_candidate \<Rightarrow> bool" where
  "s3_supports G c \<longleftrightarrow>
     equal_fold G (trim_space (pc_provider_id c)) aws_s3_provider_id \<and>
     (case s3_bucket_from_endpoint G id (if pc_resource c = [] then pc_cname c else pc_resource c) of
        Inl _ \<Rightarrow> False | Inr _ \<Rightarrow> True)"

definition s3_proof_key :: "string \<Rightarrow> string" where
  "s3_proof_key token = ''.well-known/subdomainabber-'' @ token"

definition s3_proof_body :: string where
  "s3_proof_body = ''Prova de controle autorizada do SubdomainAbber'' @ [CHR 0x0A]"

definition s3_proof_metadata :: "string \<Rightarrow> meta" where
  "s3_proof_metadata token = [(''subdomainabber-proof'', token)]"

definition s3_request_resource :: "claim_request \<Rightarrow> string" where
  "s3_request_resource rq =
     (if rq_resource rq \<noteq> [] then rq_resource rq
      else if pc_resource (rq_candidate rq) \<noteq> [] then pc_resource (rq_candidate rq)
      else pc_cname (rq_candidate rq))"

definition location_constraint :: "string \<Rightarrow> string option" where
  "location_constraint region = (if region \<noteq> [] \<and> region \<noteq> ''us-east-1'' then Some region else None)"

definition s3_claim_receipt :: "go_env \<Rightarrow> string \<Rightarrow> string \<Rightarrow> string \<Rightarrow> string \<Rightarrow> time \<Rightarrow> receipt" where
  "s3_claim_receipt G region bucket token resource now =
     \<lparr>rc_provider_id = aws_s3_provider_id, rc_external_id = bucket,
      rc_metadata = [(''region'', region), (''proof_key'', s3_proof_key token), (''proof_token'', token),
        (''resource'', normalize_host G resource)],
      rc_claimed_at = now\<rparr>"

text \<open>A bucket that was created and could not get its proof is deleted at once.\<close>

definition s3_undo_claim ::
  "'w s3_api \<Rightarrow> string \<Rightarrow> receipt \<Rightarrow> aws_error \<Rightarrow> 'w \<Rightarrow> (claim_error + receipt) \<times> 'w"
where
  "s3_undo_claim S bucket r e w =
     (case s3_delete_bucket S bucket w of
        (Some cleanup, w1) \<Rightarrow>
          if \<not> s3_object_already_absent cleanup
          then (Inl (ClaimFailure r (Some (aws_wrapped
            (''a grava'' @ [CHR 0xC3, CHR 0xA7, CHR 0xC3, CHR 0xA3] @ ''o do objeto de controle S3 falhou e a limpeza imediata tamb'' @ [CHR 0xC3, CHR 0xA9] @ ''m falhou: '') cleanup))), w1)
          else (Inl (aws_wrapped ''gravando objeto de controle S3: '' e), w1)
      | (None, w1) \<Rightarrow> (Inl (aws_wrapped ''gravando objeto de controle S3: '' e), w1))"

definition s3_create_with_proof ::
  "go_env \<Rightarrow> (string \<Rightarrow> string) \<Rightarrow> 'w s3_provider \<Rightarrow> string \<Rightarrow> string \<Rightarrow> string \<Rightarrow> 'w \<Rightarrow> (claim_error + receipt) \<times> 'w"
where
  "s3_create_with_proof G quote P bucket token resource w =
     (let S = sp_client P in
      case s3_create_bucket S bucket (location_constraint (sp_region P)) w of
        (Some e, w1) \<Rightarrow> (Inl (aws_wrapped (''criando bucket S3 '' @ quote bucket @ '': '') e), w1)
      | (None, w1) \<Rightarrow>
          (case s3_now S w1 of (now, w2) \<Rightarrow>
             (let r = s3_claim_receipt G (sp_region P) bucket token resource now in
              case s3_put_object S bucket (s3_proof_key token) s3_proof_body (s3_proof_metadata token) w2 of
                (Some e, w3) \<Rightarrow> s3_undo_claim S bucket r e w3
              | (None, w3) \<Rightarrow> (Inr r, w3))))"

definition s3_claim ::
  "go_env \<Rightarrow> (string \<Rightarrow> string) \<Rightarrow> 'w s3_provider \<Rightarrow> claim_request \<Rightarrow> 'w \<Rightarrow> (claim_error + receipt) \<times> 'w"
where
  "s3_claim G quote P rq w =
     (case parse_s3_endpoint G quote (s3_request_resource rq) of
        Inl e \<Rightarrow> (Inl e, w)
      | Inr (bucket, region) \<Rightarrow>
          if region \<noteq> [] \<and> \<not> equal_fold G region (sp_region P)
          then (Inl (PlainError ((''o endpoint S3 exige a regi'' @ [CHR 0xC3, CHR 0xA3] @ ''o '') @ region @
             ('', mas a execu'' @ [CHR 0xC3, CHR 0xA7, CHR 0xC3, CHR 0xA3] @ ''o est'' @ [CHR 0xC3, CHR 0xA1] @ '' configurada para '') @ sp_region P @
             (''; ajuste SABBER_AWS_REGION antes da valida'' @ [CHR 0xC3, CHR 0xA7, CHR 0xC3, CHR 0xA3] @ ''o ativa''))), w)
          else if rq_proof_token rq = [] then (Inl (PlainError (''o token de prova '' @ [CHR 0xC3, CHR 0xA9] @ '' obrigat'' @ [CHR 0xC3, CHR 0xB3] @ ''rio'')), w)
          else case s3_head_bucket (sp_client P) bucket w of
            (None, w1) \<Rightarrow>
              (Inl (PlainError (''o bucket S3 '' @ quote bucket @
                 ('' j'' @ [CHR 0xC3, CHR 0xA1] @ '' existe ou j'' @ [CHR 0xC3, CHR 0xA1] @ '' possui propriet'' @ [CHR 0xC3, CHR 0xA1] @ ''rio; recusando trat'' @ [CHR 0xC3, CHR 0xA1] @ ''-lo como uma nova reivindica'' @ [CHR 0xC3, CHR 0xA7, CHR 0xC3, CHR 0xA3] @ ''o''))), w1)
          | (Some e, w1) \<Rightarrow>
              if \<not> s3_object_already_absent e
              then (Inl (aws_wrapped ((''n'' @ [CHR 0xC3, CHR 0xA3] @ ''o foi poss'' @ [CHR 0xC3, CHR 0xAD] @ ''vel provar que o bucket S3 '') @ quote bucket @
                ('' est'' @ [CHR 0xC3, CHR 0xA1] @ '' ausente antes da reivindica'' @ [CHR 0xC3, CHR 0xA7, CHR 0xC3, CHR 0xA3] @ ''o: '')) e), w1)
              else s3_create_with_proof G quote P bucket (rq_proof_token rq) (s3_request_resource rq) w1)"

definition incomplete_s3_receipt :: claim_error where
  "incomplete_s3_receipt = PlainError (''recibo de reivindica'' @ [CHR 0xC3, CHR 0xA7, CHR 0xC3, CHR 0xA3] @ ''o S3 incompleto'')"

definition s3_verify_control ::
  "'w s3_provider \<Rightarrow> receipt \<Rightarrow> 'w \<Rightarrow> (claim_error + control_proof) \<times> 'w"
where
  "s3_verify_control P r w =
     (let key = meta_get (rc_metadata r) ''proof_key''; token = meta_get (rc_metadata r) ''proof_token'' in
      if rc_external_id r = [] \<or> key = [] \<or> token = [] then (Inl incomplete_s3_receipt, w)
      else case s3_head_object (sp_client P) (rc_external_id r) key w of
        (Inl e, w1) \<Rightarrow> (Inl (aws_wrapped ''lendo objeto de controle S3: '' e), w1)
      | (Inr None, w1) \<Rightarrow>
          (Inl (PlainError (''o S3 retornou uma resposta vazia ao consultar o objeto de prova'')), w1)
      | (Inr (Some md), w1) \<Rightarrow>
          if meta_get md ''subdomainabber-proof'' \<noteq> token
          then (Inr \<lparr>cp_controlled = False, cp_details = (''Os metadados da prova S3 n'' @ [CHR 0xC3, CHR 0xA3] @ ''o corresponderam'')\<rparr>, w1)
          else (Inr \<lparr>cp_controlled = True, cp_details =
            (''Os metadados do objeto privado de prova S3 corresponderam ao token gerado'')\<rparr>, w1))"

definition s3_recovered_receipt :: "string \<Rightarrow> string \<Rightarrow> string \<Rightarrow> time \<Rightarrow> receipt" where
  "s3_recovered_receipt region bucket token claimed =
     \<lparr>rc_provider_id = aws_s3_provider_id, rc_external_id = bucket,
      rc_metadata = [(''region'', region), (''proof_key'', s3_proof_key token), (''proof_token'', token)],
      rc_claimed_at = claimed\<rparr>"

definition s3_recover_claim ::
  "go_env \<Rightarrow> (string \<Rightarrow> string) \<Rightarrow> 'w s3_provider \<Rightarrow> receipt \<Rightarrow> 'w \<Rightarrow> (claim_error + receipt \<times> bool) \<times> 'w"
where
  "s3_recover_claim G quote P provisional w =
     (let S = sp_client P; token = trim_space (meta_get (rc_metadata provisional) ''proof_token'') in
      case s3_bucket_from_endpoint G quote (meta_get (rc_metadata provisional) ''request_resource'') of
        Inl _ \<Rightarrow> (Inl (PlainError ''registro preventivo S3 incompleto''), w)
      | Inr bucket \<Rightarrow>
          if token = [] then (Inl (PlainError ''registro preventivo S3 incompleto''), w)
          else case s3_head_bucket S bucket w of
            (Some e, w1) \<Rightarrow>
              if s3_bucket_definitely_absent e then (Inr (zero_receipt, False), w1)
              else (Inl (aws_wrapped ((''n'' @ [CHR 0xC3, CHR 0xA3] @ ''o foi poss'' @ [CHR 0xC3, CHR 0xAD] @ ''vel determinar se o bucket S3 '') @ quote bucket @
                ('' pertence '' @ [CHR 0xC3, CHR 0xA0] @ '' tentativa interrompida: '')) e), w1)
          | (None, w1) \<Rightarrow>
              (case s3_head_object S bucket (s3_proof_key token) w1 of
                 (Inl e, w2) \<Rightarrow>
                   (Inl (aws_wrapped (''o bucket S3 '' @ quote bucket @
                     ('' existe, mas o objeto de prova n'' @ [CHR 0xC3, CHR 0xA3] @ ''o p'' @ [CHR 0xC3, CHR 0xB4] @ ''de ser confirmado; inspecione a conta e fa'' @ [CHR 0xC3, CHR 0xA7] @ ''a a limpeza manual antes de prosseguir: '')) e), w2)
               | (Inr None, w2) \<Rightarrow>
                   (Inl (PlainError (''o bucket S3 '' @ quote bucket @
                     ('' existe, mas a consulta ao objeto de prova retornou uma resposta vazia''))), w2)
               | (Inr (Some md), w2) \<Rightarrow>
                   if meta_get md ''subdomainabber-proof'' \<noteq> token
                   then (Inl (PlainError (''o bucket S3 '' @ quote bucket @
                     ('' existe, mas o objeto n'' @ [CHR 0xC3, CHR 0xA3] @ ''o cont'' @ [CHR 0xC3, CHR 0xA9] @ ''m o token desta tentativa; a limpeza autom'' @ [CHR 0xC3, CHR 0xA1] @ ''tica foi recusada''))), w2)
                   else (Inr (s3_recovered_receipt (sp_region P) bucket token (rc_claimed_at provisional), True), w2)))"

definition s3_release ::
  "'w s3_provider \<Rightarrow> receipt \<Rightarrow> 'w \<Rightarrow> (claim_error + release_receipt) \<times> 'w"
where
  "s3_release P r w =
     (let S = sp_client P; key = meta_get (rc_metadata r) ''proof_key'';
          failed = (\<lambda>e. case e of None \<Rightarrow> False | Some x \<Rightarrow> \<not> s3_object_already_absent x) in
      if rc_external_id r = [] \<or> key = [] then (Inl incomplete_s3_receipt, w)
      else case s3_delete_object S (rc_external_id r) key w of
        (e1, w1) \<Rightarrow>
          if failed e1 then (Inl (aws_wrapped ''excluindo objeto de prova S3: '' (the e1)), w1)
          else (case s3_delete_bucket S (rc_external_id r) w1 of
            (e2, w2) \<Rightarrow>
              if failed e2 then (Inl (aws_wrapped ''excluindo bucket S3: '' (the e2)), w2)
              else (case s3_now S w2 of (now, w3) \<Rightarrow>
                (Inr \<lparr>rr_released_at = now, rr_details = (''O objeto de prova e o bucket S3 foram exclu'' @ [CHR 0xC3, CHR 0xAD] @ ''dos'')\<rparr>, w3))))"

subsection \<open>Sets of nameservers\<close>

definition split_nameservers :: "go_env \<Rightarrow> string \<Rightarrow> string list" where
  "split_nameservers G v =
     sort (filter (\<lambda>i. i \<noteq> []) (map (\<lambda>i. to_lower G (trim_char CHR ''.'' (trim_space i))) (split_on CHR '','' v)))"

definition same_nameserver_set :: "go_env \<Rightarrow> string list \<Rightarrow> string list \<Rightarrow> bool" where
  "same_nameserver_set G left right =
     (let l = split_nameservers G (join_with '','' left); r = split_nameservers G (join_with '','' right)
      in l \<noteq> [] \<and> l = r)"

subsection \<open>The provider for Route 53\<close>

definition aws_route53_provider_id :: string where "aws_route53_provider_id = ''aws_route53''"

text \<open>A zone: its identifier, name and caller reference; nil pointers are \<open>None\<close> or read as empty text.\<close>

record hosted_zone =
  hz_id :: string
  hz_name :: string
  hz_caller_reference :: string

record zone_page =
  zp_zones :: "hosted_zone list"
  zp_truncated :: bool
  zp_next_dns_name :: "string option"
  zp_next_zone_id :: "string option"

record 'w route53_api =
  r53_create :: "string \<Rightarrow> string \<Rightarrow> 'w \<Rightarrow> (aws_error + hosted_zone option \<times> string list option) \<times> 'w"
  r53_get :: "string \<Rightarrow> 'w \<Rightarrow> (aws_error + string list option) \<times> 'w"
  r53_list :: "string \<Rightarrow> string option \<Rightarrow> 'w \<Rightarrow> (aws_error + zone_page) \<times> 'w"
  r53_delete :: "string \<Rightarrow> 'w \<Rightarrow> aws_error option \<times> 'w"
  r53_now :: "'w \<Rightarrow> time \<times> 'w"

definition route53_settings :: "string \<Rightarrow> string \<Rightarrow> string \<Rightarrow> string \<Rightarrow> claim_error + aws_settings" where
  "route53_settings region access secret token =
     (let r = (if trim_space region = [] then ''us-east-1'' else region) in
      if trim_space access \<noteq> [] \<or> trim_space secret \<noteq> [] then
        (if trim_space access = [] \<or> trim_space secret = [] then Inl both_keys_required
         else Inr \<lparr>as_region = r, as_static = Some (access, secret, token)\<rparr>)
      else Inr \<lparr>as_region = r, as_static = None\<rparr>)"

definition route53_supports :: "go_env \<Rightarrow> provider_candidate \<Rightarrow> bool" where
  "route53_supports G c \<longleftrightarrow> equal_fold G (pc_vector c) ''NS'' \<and>
     equal_fold G (trim_space (pc_provider_id c)) aws_route53_provider_id"

definition assigned_nameservers :: "string list option \<Rightarrow> string list" where
  "assigned_nameservers dset = (case dset of None \<Rightarrow> [] | Some ns \<Rightarrow> ns)"

definition route53_receipt ::
  "go_env \<Rightarrow> string \<Rightarrow> string \<Rightarrow> string \<Rightarrow> string list \<Rightarrow> time \<Rightarrow> receipt"
where
  "route53_receipt G ident zone delegated assigned now =
     \<lparr>rc_provider_id = aws_route53_provider_id, rc_external_id = ident,
      rc_metadata = [(''zone'', zone), (''delegated_nameservers'', delegated),
        (''assigned_nameservers'', join_with '','' (split_nameservers G (join_with '','' assigned)))],
      rc_claimed_at = now\<rparr>"

definition zone_without_identifier :: claim_error where
  "zone_without_identifier =
    PlainError (''o Route 53 confirmou a cria'' @ [CHR 0xC3, CHR 0xA7, CHR 0xC3, CHR 0xA3] @ ''o, mas n'' @ [CHR 0xC3, CHR 0xA3] @ ''o retornou o identificador da zona hospedada'')"

definition nameservers_differ :: claim_error where
  "nameservers_differ =
    Wrapped [] ErrClaimNotMatched ('': os servidores NS atribu'' @ [CHR 0xC3, CHR 0xAD] @ ''dos pelo Route 53 n'' @ [CHR 0xC3, CHR 0xA3] @ ''o correspondem exatamente '' @ [CHR 0xC3, CHR 0xA0] @ '' delega'' @ [CHR 0xC3, CHR 0xA7, CHR 0xC3, CHR 0xA3] @ ''o publicada pela zona pai'')"

definition zone_and_servers_required :: claim_error where
  "zone_and_servers_required =
    PlainError (''a valida'' @ [CHR 0xC3, CHR 0xA7, CHR 0xC3, CHR 0xA3] @ ''o do Route 53 exige uma zona e os servidores NS delegados pela zona pai'')"

definition route53_create_text :: "(string \<Rightarrow> string) \<Rightarrow> string \<Rightarrow> string" where
  "route53_create_text quote zone =
    (''criando a zona hospedada tempor'' @ [CHR 0xC3, CHR 0xA1] @ ''ria '') @ quote zone @ '' no Route 53: ''"

text \<open>A zone whose nameservers are not the delegated ones is deleted at once.\<close>

definition route53_undo_claim ::
  "'w route53_api \<Rightarrow> receipt \<Rightarrow> 'w \<Rightarrow> (claim_error + receipt) \<times> 'w"
where
  "route53_undo_claim R r w =
     (case r53_delete R (rc_external_id r) w of
        (Some cleanup, w1) \<Rightarrow>
          (Inl (ClaimFailure r (Some (aws_wrapped
            (''os servidores NS do Route 53 n'' @ [CHR 0xC3, CHR 0xA3] @ ''o correspondem '' @ [CHR 0xC3, CHR 0xA0] @ '' delega'' @ [CHR 0xC3, CHR 0xA7, CHR 0xC3, CHR 0xA3] @ ''o e a limpeza imediata falhou: '') cleanup))), w1)
      | (None, w1) \<Rightarrow>
          (Inl nameservers_differ, w1))"

text \<open>The part of \<open>Claim\<close> after the zone was created.\<close>

definition route53_created ::
  "go_env \<Rightarrow> 'w route53_api \<Rightarrow> string \<Rightarrow> string list \<Rightarrow> hosted_zone option \<Rightarrow> string list option \<Rightarrow> 'w \<Rightarrow>
   (claim_error + receipt) \<times> 'w"
where
  "route53_created G R zone delegated created dset w =
     (let assigned = assigned_nameservers dset; ident = (case created of None \<Rightarrow> [] | Some z \<Rightarrow> hz_id z) in
      case r53_now R w of (now, w1) \<Rightarrow>
        (let r = route53_receipt G ident zone (join_with '','' delegated) assigned now in
         if ident = [] then
           (Inl (ClaimFailure r (Some zone_without_identifier)), w1)
         else if \<not> same_nameserver_set G delegated assigned then route53_undo_claim R r w1
         else (Inr r, w1)))"

definition route53_claim ::
  "go_env \<Rightarrow> (string \<Rightarrow> string) \<Rightarrow> 'w route53_api \<Rightarrow> claim_request \<Rightarrow> 'w \<Rightarrow> (claim_error + receipt) \<times> 'w"
where
  "route53_claim G quote R rq w =
     (let z1 = normalize_host G (rq_resource rq);
          zone = (if z1 = [] then normalize_host G (meta_get (rq_metadata rq) ''zone'') else z1);
          delegated = split_nameservers G (meta_get (rq_metadata rq) ''delegated_nameservers'') in
      if zone = [] \<or> delegated = []
      then (Inl zone_and_servers_required, w)
      else case r53_create R zone (''subdomainabber-'' @ rq_proof_token rq) w of
        (Inl e, w1) \<Rightarrow>
          (Inl (aws_wrapped (route53_create_text quote zone) e), w1)
      | (Inr (created, dset), w1) \<Rightarrow> route53_created G R zone delegated created dset w1)"

definition incomplete_route53_receipt :: claim_error where
  "incomplete_route53_receipt = PlainError ''recibo do Route 53 incompleto''"

definition route53_verify_control ::
  "go_env \<Rightarrow> 'w route53_api \<Rightarrow> receipt \<Rightarrow> 'w \<Rightarrow> (claim_error + control_proof) \<times> 'w"
where
  "route53_verify_control G R r w =
     (if rc_external_id r = [] then (Inl incomplete_route53_receipt, w)
      else case r53_get R (rc_external_id r) w of
        (Inl e, w1) \<Rightarrow> (Inl (aws_wrapped (''lendo a zona hospedada tempor'' @ [CHR 0xC3, CHR 0xA1] @ ''ria no Route 53: '') e), w1)
      | (Inr dset, w1) \<Rightarrow>
          if \<not> same_nameserver_set G (split_nameservers G (meta_get (rc_metadata r) ''delegated_nameservers''))
               (assigned_nameservers dset)
          then (Inr \<lparr>cp_controlled = False, cp_details =
            (''A zona tempor'' @ [CHR 0xC3, CHR 0xA1] @ ''ria existe, mas seus servidores NS n'' @ [CHR 0xC3, CHR 0xA3] @ ''o correspondem mais '' @ [CHR 0xC3, CHR 0xA0] @ '' delega'' @ [CHR 0xC3, CHR 0xA7, CHR 0xC3, CHR 0xA3] @ ''o pai'')\<rparr>, w1)
          else (Inr \<lparr>cp_controlled = True, cp_details =
            (''A zona tempor'' @ [CHR 0xC3, CHR 0xA1] @ ''ria do Route 53 foi criada e seu conjunto completo de servidores NS correspondeu exatamente '' @ [CHR 0xC3, CHR 0xA0] @ '' delega'' @ [CHR 0xC3, CHR 0xA7, CHR 0xC3, CHR 0xA3] @ ''o publicada pela zona pai'')\<rparr>, w1))"

text \<open>One page of zones: the search ends (\<open>Inl\<close>), or the next page is asked for.\<close>

fun route53_search_page ::
  "go_env \<Rightarrow> string \<Rightarrow> string \<Rightarrow> hosted_zone list \<Rightarrow> (claim_error + string option) option"
where
  "route53_search_page G zone reference [] = None"
| "route53_search_page G zone reference (z # zs) =
     (if normalize_host G (hz_name z) \<noteq> zone then Some (Inr None)
      else if hz_caller_reference z \<noteq> reference then route53_search_page G zone reference zs
      else if hz_id z = []
      then Some (Inl (PlainError (''a zona recuperada do Route 53 n'' @ [CHR 0xC3, CHR 0xA3] @ ''o possui identificador'')))
      else Some (Inr (Some (hz_id z))))"

text \<open>The pages follow each other as the service says; \<open>fuel\<close> bounds how many are read, and
  \<open>None\<close> says that it ran out.\<close>

fun route53_search ::
  "nat \<Rightarrow> go_env \<Rightarrow> 'w route53_api \<Rightarrow> string \<Rightarrow> string \<Rightarrow> string \<Rightarrow> string option \<Rightarrow> 'w \<Rightarrow>
   ((claim_error + string option) \<times> 'w) option"
where
  "route53_search 0 G R zone reference name ident w = None"
| "route53_search (Suc fuel) G R zone reference name ident w =
     (case r53_list R name ident w of
        (Inl e, w1) \<Rightarrow> Some (Inl (aws_wrapped (''procurando a zona tempor'' @ [CHR 0xC3, CHR 0xA1] @ ''ria no Route 53: '') e), w1)
      | (Inr page, w1) \<Rightarrow>
          (case route53_search_page G zone reference (zp_zones page) of
             Some result \<Rightarrow> Some (result, w1)
           | None \<Rightarrow>
               (case (zp_truncated page, zp_next_dns_name page, zp_next_zone_id page) of
                  (True, Some name', Some ident') \<Rightarrow> route53_search fuel G R zone reference name' (Some ident') w1
                | _ \<Rightarrow> Some (Inr None, w1))))"

definition route53_recover_claim ::
  "nat \<Rightarrow> go_env \<Rightarrow> 'w route53_api \<Rightarrow> receipt \<Rightarrow> 'w \<Rightarrow> ((claim_error + receipt \<times> bool) \<times> 'w) option"
where
  "route53_recover_claim fuel G R provisional w =
     (let md = rc_metadata provisional; z1 = normalize_host G (meta_get md ''request_resource'');
          zone = (if z1 = [] then normalize_host G (meta_get md ''zone'') else z1);
          token = trim_space (meta_get md ''proof_token'') in
      if zone = [] \<or> token = [] then Some (Inl (PlainError ''registro preventivo do Route 53 incompleto''), w)
      else case route53_search fuel G R zone (''subdomainabber-'' @ token) zone None w of
        None \<Rightarrow> None
      | Some (Inl e, w1) \<Rightarrow> Some (Inl e, w1)
      | Some (Inr None, w1) \<Rightarrow> Some (Inr (zero_receipt, False), w1)
      | Some (Inr (Some ident), w1) \<Rightarrow>
          (case r53_get R ident w1 of
             (Inl e, w2) \<Rightarrow> Some (Inl (aws_wrapped (''lendo a zona tempor'' @ [CHR 0xC3, CHR 0xA1] @ ''ria recuperada no Route 53: '') e), w2)
           | (Inr dset, w2) \<Rightarrow>
               Some (Inr (route53_receipt G ident zone (meta_get md ''delegated_nameservers'')
                 (assigned_nameservers dset) (rc_claimed_at provisional), True), w2)))"

definition route53_release ::
  "'w route53_api \<Rightarrow> receipt \<Rightarrow> 'w \<Rightarrow> (claim_error + release_receipt) \<times> 'w"
where
  "route53_release R r w =
     (if rc_external_id r = [] then (Inl incomplete_route53_receipt, w)
      else case r53_delete R (rc_external_id r) w of
        (Some e, w1) \<Rightarrow> (Inl (aws_wrapped (''excluindo a zona hospedada tempor'' @ [CHR 0xC3, CHR 0xA1] @ ''ria no Route 53: '') e), w1)
      | (None, w1) \<Rightarrow>
          (case r53_now R w1 of (now, w2) \<Rightarrow>
             (Inr \<lparr>rr_released_at = now, rr_details =
               (''A zona hospedada tempor'' @ [CHR 0xC3, CHR 0xA1] @ ''ria do Route 53 foi exclu'' @ [CHR 0xC3, CHR 0xAD] @ ''da'')\<rparr>, w2)))"

subsection \<open>The providers of a scan (cmd/scan.go)\<close>

text \<open>
  The engine of a scan with \<open>--aggressive\<close> has these two providers. \<open>E\<close> gives the store, the random
  bytes and the clock; \<open>fuel\<close> bounds the pages of a search for a zone, and a search that needs more
  is represented by an error of its own.
\<close>

definition aws_claim_env ::
  "nat \<Rightarrow> go_env \<Rightarrow> (string \<Rightarrow> string) \<Rightarrow> 'w s3_provider \<Rightarrow> 'w route53_api \<Rightarrow> 'w claim_env \<Rightarrow> 'w claim_env"
where
  "aws_claim_env fuel G quote P R E = E\<lparr>
     ce_supports := \<lambda>p c. if p = aws_s3_provider_id then s3_supports G c else route53_supports G c,
     ce_claim := \<lambda>p rq. if p = aws_s3_provider_id then s3_claim G quote P rq else route53_claim G quote R rq,
     ce_verify_control := \<lambda>p r. if p = aws_s3_provider_id then s3_verify_control P r else route53_verify_control G R r,
     ce_release := \<lambda>p r. if p = aws_s3_provider_id then s3_release P r else route53_release R r,
     ce_recovers := \<lambda>p. True,
     ce_recover := \<lambda>p r w. if p = aws_s3_provider_id then s3_recover_claim G quote P r w
       else (case route53_recover_claim fuel G R r w of
         Some x \<Rightarrow> x | None \<Rightarrow> (Inl (PlainError ''search not finished''), w))\<rparr>"

definition aws_provider_ids :: "string list" where
  "aws_provider_ids = [aws_s3_provider_id, aws_route53_provider_id]"

end
