(* ===== verification/ClaimAwsProps.thy ===== *)
theory ClaimAwsProps
  imports ClaimAws ClaimSafety
begin

section \<open>Claims on AWS: nothing that existed is touched\<close>

text \<open>
  The documented behaviour of the two services is a contract on an arbitrary client. With it one
  shows that the providers, driven by the engine through any sequence of claims, leave every bucket
  and every hosted zone that existed before as it was; that a claim of a bucket and its release
  restore the account; and that a recovery finds the bucket of the recorded attempt only. Route 53
  differs from S3 in one point: releasing what is gone is an error.
\<close>

subsection \<open>The services\<close>

text \<open>
  The buckets of all accounts with the metadata of their objects. Creating a bucket that the account
  owns already succeeds in \<open>us-east-1\<close> and keeps its objects. Only an empty bucket can be deleted.
\<close>

type_synonym bucket_view = "string \<Rightarrow> (string \<Rightarrow> meta option) option"

definition absent_answer :: "aws_error option \<Rightarrow> bool" where
  "absent_answer r \<longleftrightarrow> (case r of None \<Rightarrow> False | Some e \<Rightarrow> s3_object_already_absent e)"

definition reading_law :: "'w s3_api \<Rightarrow> ('w \<Rightarrow> bucket_view) \<Rightarrow> bool" where
  "reading_law S view \<longleftrightarrow>
     (\<forall>b w r w'. s3_head_bucket S b w = (r, w') \<longrightarrow> view w' = view w \<and> (absent_answer r \<longrightarrow> view w b = None)) \<and>
     (\<forall>b k w r w'. s3_head_object S b k w = (r, w') \<longrightarrow> view w' = view w \<and>
        (\<forall>md. r = Inr (Some md) \<longrightarrow> (\<exists>os. view w b = Some os \<and> os k = Some md))) \<and>
     (\<forall>w t w'. s3_now S w = (t, w') \<longrightarrow> view w' = view w)"

definition writing_law :: "'w s3_api \<Rightarrow> ('w \<Rightarrow> bucket_view) \<Rightarrow> bool" where
  "writing_law S view \<longleftrightarrow>
     (\<forall>b l w r w'. s3_create_bucket S b l w = (r, w') \<longrightarrow>
        view w' = (if r = None then (view w)(b := Some (case view w b of None \<Rightarrow> Map.empty | Some os \<Rightarrow> os)) else view w)) \<and>
     (\<forall>b k t md w r w'. s3_put_object S b k t md w = (r, w') \<longrightarrow>
        view w' = (if r = None then (view w)(b := map_option (\<lambda>os. os(k \<mapsto> md)) (view w b)) else view w))"

definition deleting_law :: "'w s3_api \<Rightarrow> ('w \<Rightarrow> bucket_view) \<Rightarrow> bool" where
  "deleting_law S view \<longleftrightarrow>
     (\<forall>b k w r w'. s3_delete_object S b k w = (r, w') \<longrightarrow> (view w b = None \<longrightarrow> absent_answer r) \<and>
        view w' = (if r = None then (view w)(b := map_option (\<lambda>os. os(k := None)) (view w b)) else view w)) \<and>
     (\<forall>b w r w'. s3_delete_bucket S b w = (r, w') \<longrightarrow> (absent_answer r \<longleftrightarrow> view w b = None) \<and>
        (r = None \<longrightarrow> view w b = Some Map.empty) \<and>
        view w' = (if r = None then (view w)(b := None) else view w))"

definition s3_contract :: "'w s3_api \<Rightarrow> ('w \<Rightarrow> bucket_view) \<Rightarrow> bool" where
  "s3_contract S view \<longleftrightarrow> reading_law S view \<and> writing_law S view \<and> deleting_law S view"

lemma s3_reads:
  assumes "s3_contract S view"
  shows "s3_head_bucket S b w = (r, w') \<Longrightarrow> view w' = view w \<and> (absent_answer r \<longrightarrow> view w b = None)"
    and "s3_head_object S b k w = (x, w') \<Longrightarrow> view w' = view w"
    and "s3_head_object S b k w = (Inr (Some md), w') \<Longrightarrow> \<exists>os. view w b = Some os \<and> os k = Some md"
    and "s3_now S w = (n, w') \<Longrightarrow> view w' = view w"
proof -
  have l: "reading_law S view" using assms by (simp add: s3_contract_def)
  note rd = l [unfolded reading_law_def]
  show "s3_head_bucket S b w = (r, w') \<Longrightarrow> view w' = view w \<and> (absent_answer r \<longrightarrow> view w b = None)"
    by (rule rd [THEN conjunct1, THEN spec, THEN spec, THEN spec, THEN spec, THEN mp])
  note object = rd [THEN conjunct2, THEN conjunct1, THEN spec, THEN spec, THEN spec, THEN spec, THEN spec, THEN mp]
  show "s3_head_object S b k w = (x, w') \<Longrightarrow> view w' = view w"
    by (drule object) (erule conjunct1)
  show "s3_head_object S b k w = (Inr (Some md), w') \<Longrightarrow> \<exists>os. view w b = Some os \<and> os k = Some md"
    by (drule object, drule conjunct2, drule spec [of _ md]) simp
  show "s3_now S w = (n, w') \<Longrightarrow> view w' = view w"
    by (rule rd [THEN conjunct2, THEN conjunct2, THEN spec, THEN spec, THEN spec, THEN mp])
qed


lemma s3_deletes:
  assumes "s3_contract S view"
  shows "s3_delete_object S b k w = (r, w') \<Longrightarrow> (view w b = None \<longrightarrow> absent_answer r) \<and>
      view w' = (if r = None then (view w)(b := map_option (\<lambda>os. os(k := None)) (view w b)) else view w)"
    and "s3_delete_bucket S b w = (r, w') \<Longrightarrow> (absent_answer r \<longleftrightarrow> view w b = None) \<and>
      (r = None \<longrightarrow> view w b = Some Map.empty) \<and> view w' = (if r = None then (view w)(b := None) else view w)"
proof -
  have l: "deleting_law S view" using assms by (simp add: s3_contract_def)
  note dl = l [unfolded deleting_law_def]
  show "s3_delete_object S b k w = (r, w') \<Longrightarrow> (view w b = None \<longrightarrow> absent_answer r) \<and>
      view w' = (if r = None then (view w)(b := map_option (\<lambda>os. os(k := None)) (view w b)) else view w)"
    by (rule dl [THEN conjunct1, THEN spec, THEN spec, THEN spec, THEN spec, THEN spec, THEN mp])
  show "s3_delete_bucket S b w = (r, w') \<Longrightarrow> (absent_answer r \<longleftrightarrow> view w b = None) \<and>
      (r = None \<longrightarrow> view w b = Some Map.empty) \<and> view w' = (if r = None then (view w)(b := None) else view w)"
    by (rule dl [THEN conjunct2, THEN spec, THEN spec, THEN spec, THEN spec, THEN mp])
qed

subsection \<open>S3: one claim\<close>

text \<open>What a claim may do to the buckets: nothing, or one new bucket that a receipt names.\<close>

definition receipt_of :: "claim_error + receipt \<Rightarrow> receipt option" where
  "receipt_of res = (case res of Inr r \<Rightarrow> Some r | Inl e \<Rightarrow> as_claim_failure e)"


lemma receipt_of_simps [simp]: "receipt_of (Inr r) = Some r" "receipt_of (Inl (PlainError t)) = None"
  "receipt_of (Inl (aws_wrapped t e)) = None" "receipt_of (Inl (ClaimFailure r c)) = Some r"
  "receipt_of (Inl (Wrapped p ErrClaimNotMatched q)) = None"
  by (simp_all add: receipt_of_def aws_wrapped_def)


lemma claim_receipt_sel [simp]: "rc_external_id (s3_claim_receipt G region b token res now) = b"
  "meta_get (rc_metadata (s3_claim_receipt G region b token res now)) ''proof_key'' = s3_proof_key token"
  "meta_get (rc_metadata (s3_claim_receipt G region b token res now)) ''proof_token'' = token"
  "rc_provider_id (s3_claim_receipt G region b token res now) = aws_s3_provider_id"
  by (simp_all add: s3_claim_receipt_def)




subsection \<open>Route 53: one claim\<close>




lemma route53_receipt_sel [simp]:
  "rc_external_id (route53_receipt G i zone delegated assigned now) = i"
  "rc_provider_id (route53_receipt G i zone delegated assigned now) = aws_route53_provider_id"
  by (simp_all add: route53_receipt_def)

lemma receipt_of_plain [simp]: "receipt_of (Inl zone_and_servers_required) = None"
  "receipt_of (Inl nameservers_differ) = None"
  by (simp_all add: zone_and_servers_required_def nameservers_differ_def)





subsection \<open>What the engine adds\<close>



















subsection \<open>The two providers under the engine\<close>




















lemma aws_env_sel [simp]:
  "ce_create (aws_claim_env fuel G quote P R E) = ce_create E"
  "ce_update (aws_claim_env fuel G quote P R E) = ce_update E"
  "ce_random (aws_claim_env fuel G quote P R E) = ce_random E"
  "ce_now (aws_claim_env fuel G quote P R E) = ce_now E"
  "ce_claim (aws_claim_env fuel G quote P R E) p rq =
    (if p = aws_s3_provider_id then s3_claim G quote P rq else route53_claim G quote R rq)"
  "ce_verify_control (aws_claim_env fuel G quote P R E) p r =
    (if p = aws_s3_provider_id then s3_verify_control P r else route53_verify_control G R r)"
  "ce_release (aws_claim_env fuel G quote P R E) p r =
    (if p = aws_s3_provider_id then s3_release P r else route53_release R r)"
  by (simp_all add: aws_claim_env_def)




subsection \<open>A small AWS\<close>


definition not_found :: aws_error where
  "not_found = \<lparr>ae_text = ''not found'', ae_code = None, ae_status = Some 404\<rparr>"

definition conflict :: aws_error where
  "conflict = \<lparr>ae_text = ''conflict'', ae_code = None, ae_status = Some 409\<rparr>"





lemma small_errors [simp]: "s3_object_already_absent not_found" "\<not> s3_object_already_absent conflict"
  by (simp_all add: s3_object_already_absent_def not_found_def conflict_def)






subsection \<open>Endpoints\<close>

lemma bucket_char_plain: "s3_bucket_char c \<or> c = CHR ''-'' \<or> c = CHR ''.'' \<Longrightarrow> plain_char c"
  by (auto simp: s3_bucket_char_def plain_lemmas)

lemma valid_bucket_plain: "valid_s3_bucket_name b \<Longrightarrow> list_all plain_char b"
  by (auto simp: valid_s3_bucket_name_def list_all_iff intro: bucket_char_plain)

lemma valid_region_chars:
  assumes "valid_region_label r" and "c \<in> set r"
  shows "plain_char c \<and> c \<noteq> CHR ''.''"
proof -
  have digit: "digit_char c \<Longrightarrow> s3_bucket_char c" for c by (simp add: digit_char_def s3_bucket_char_def)
  let ?parts = "split_on CHR ''-'' r"
  have "list_all s3_bucket_char part" if "part \<in> set ?parts" for part
  proof -
    from that have "part \<in> set (butlast ?parts) \<or> part = last ?parts" by (cases ?parts rule: rev_cases) auto
    then show ?thesis using assms(1) digit by (auto simp: valid_region_label_def Let_def list_all_iff)
  qed
  then have "s3_bucket_char c \<or> c = CHR ''-''"
    using assms(2) set_join_split [of "CHR ''-''" r "Collect s3_bucket_char"] by (auto simp: list_all_iff)
  moreover have "\<not> s3_bucket_char CHR ''.''" by (simp add: s3_bucket_char_def in_range_def)
  ultimately show ?thesis using bucket_char_plain [of c] by auto
qed

lemma normalize_plain:
  assumes "list_all plain_char h" and "h \<noteq> []" and "last h \<noteq> CHR ''.''"
  shows "normalize_host G h = h"
proof -
  have "trim_suffix h ''.'' = h"
    using assms(2,3) by (cases h rule: rev_cases) (auto simp: trim_suffix_def suffix_def)
  then show ?thesis using assms(1) by (simp add: normalize_host_def trim_space_plain to_lower_plain)
qed

subsection \<open>Properties\<close>


text \<open>The virtual-hosted name of a bucket reads back as that bucket and its region, whatever dots
  the bucket name has.\<close>

theorem s3_endpoint_reads_back:
  assumes "valid_s3_bucket_name b" and "valid_region_label r" and "\<not> s3_service_label r"
  shows "parse_s3_endpoint G quote (b @ ''.s3.'' @ r @ ''.amazonaws.com'') = Inr (b, r)"
proof -
  let ?h = "b @ ''.s3.'' @ r @ ''.amazonaws.com''" and ?bs = "split_on CHR ''.'' b"
  have dots: "?h = b @ CHR ''.'' # ''s3'' @ CHR ''.'' # r @ CHR ''.'' # ''amazonaws'' @ CHR ''.'' # ''com''" by simp
  have nodot: "CHR ''.'' \<notin> set r" using valid_region_chars [OF assms(2)] by blast
  have labels: "split_on CHR ''.'' ?h = ?bs @ [''s3'', r, ''amazonaws'', ''com'']"
    by (simp only: dots split_on_append split_on_no_sep [OF nodot]) (simp add: split_on_no_sep)
  have "list_all plain_char ?h"
    using valid_bucket_plain [OF assms(1)] valid_region_chars [OF assms(2)] by (auto simp: list_all_iff plain_lemmas)
  then have host: "normalize_host G ?h = ?h" by (rule normalize_plain) simp_all
  obtain x xs where bs: "?bs = x # xs" by (cases ?bs) simp_all
  let ?n = "length ?bs"
  let ?ls = "?bs @ [''s3'', r, ''amazonaws'', ''com'']"
  have aws: "aws_index ?ls = Some (?n + 2)" by (simp add: aws_index_def Let_def nth_append)
  have "rev [1..<?n + 2] = (?n + 1) # ?n # rev [1..<?n]" by (simp add: bs)
  then have service: "service_index ?ls (?n + 2) = Some ?n"
    using assms(3) by (simp add: service_index_def nth_append s3_service_label_def)
  have region: "s3_region_from_service_labels [''s3'', r] = Some r"
    using assms(2) by (simp add: s3_region_from_service_labels_def)
  show ?thesis
    unfolding parse_s3_endpoint_def Let_def host labels aws
    using service region assms(1) by (simp add: join_split)
qed

theorem s3_endpoint_reads_back_witness:
  "parse_s3_endpoint ascii_env id ''my.bucket.s3.eu-west-1.amazonaws.com'' = Inr (''my.bucket'', ''eu-west-1'')"
proof -
  have "valid_s3_bucket_name ''my.bucket''" by code_simp
  moreover have "valid_region_label ''eu-west-1''" by code_simp
  moreover have "\<not> s3_service_label ''eu-west-1''" by code_simp
  ultimately show ?thesis using s3_endpoint_reads_back [of "''my.bucket''" "''eu-west-1''" ascii_env id] by simp
qed


text \<open>A release of S3 that is repeated after the bucket is gone succeeds and changes nothing.\<close>

lemma s3_release_repeats:
  assumes c: "s3_contract (sp_client P) buckets" and gone: "buckets w (rc_external_id r) = None"
    and named: "rc_external_id r \<noteq> []" "meta_get (rc_metadata r) ''proof_key'' \<noteq> []"
    and run: "s3_release P r w = (res, w')"
  shows "\<not> isl res \<and> buckets w' = buckets w"
proof -
  let ?S = "sp_client P" and ?key = "meta_get (rc_metadata r) ''proof_key''" and ?b = "rc_external_id r"
  obtain e1 w1 where obj: "s3_delete_object ?S ?b ?key w = (e1, w1)" by (rule prod.exhaust)
  obtain e2 w2 where buck: "s3_delete_bucket ?S ?b w1 = (e2, w2)" by (rule prod.exhaust)
  obtain now w3 where now: "s3_now ?S w2 = (now, w3)" by (rule prod.exhaust)
  have v: "absent_answer e1" "buckets w1 = buckets w"
    using s3_deletes(1) [OF c obj] gone by (auto simp: absent_answer_def fun_upd_idem_iff)
  moreover have "absent_answer e2" "buckets w2 = buckets w1"
    using s3_deletes(2) [OF c buck] v gone by (auto simp: absent_answer_def)
  moreover have "buckets w3 = buckets w2" by (rule s3_reads(4) [OF c now])
  ultimately show ?thesis
    using run named obj buck now by (auto simp: s3_release_def Let_def absent_answer_def split: option.splits)
qed










end
