(* ===== verification/ScanInput.thy ===== *)
theory ScanInput
  imports ClaimModel CollectLocal DomainUtil
begin

section \<open>The input of a scan (cmd/scan_input.go)\<close>

text \<open>
  How the targets and the lists of authorised names reach a scan: the arguments, a file with one
  host per line, the standard input, in one list or in batches; and the lists that widen or restrict
  what a scan may do. \<open>quote\<close> is \<open>strconv.Quote\<close> and \<open>file\<close> the content of the file with a name,
  where the code reads files. A text that is read may end with an error of the reader.
\<close>

subsection \<open>Names\<close>

text \<open>\<open>strings.ToLower(strings.TrimSuffix(strings.TrimSpace(raw), "."))\<close> is the function
  \<open>normalizeHost\<close> of the claims, written out.\<close>

definition contains_any :: "string \<Rightarrow> char list \<Rightarrow> bool" where
  "contains_any s cs \<longleftrightarrow> list_ex (\<lambda>c. c \<in> set cs) s"

definition ascii_letter :: "char \<Rightarrow> bool" where
  "ascii_letter c \<longleftrightarrow> in_range 97 122 (of_char c)"

definition scan_label_ok :: "bool \<Rightarrow> string \<Rightarrow> bool" where
  "scan_label_ok final label \<longleftrightarrow>
     label \<noteq> [] \<and> length label \<le> 63 \<and> hd label \<noteq> CHR ''-'' \<and> last label \<noteq> CHR ''-'' \<and>
     list_all (\<lambda>c. ascii_letter c \<or> digit_char c \<or> c = CHR ''-'' \<or> c = CHR ''_'') label \<and>
     (final \<longrightarrow> CHR ''_'' \<notin> set label)"

definition valid_scan_domain :: "string \<Rightarrow> bool" where
  "valid_scan_domain domain \<longleftrightarrow>
     domain \<noteq> [] \<and> length domain \<le> 253 \<and>
     \<not> contains_any domain [CHR ''/'', CHR 0x5C, CHR '':'', CHR ''@'', CHR ''?'', CHR ''#'', CHR ''%''] \<and>
     (let labels = split_on CHR ''.'' domain in
      2 \<le> length labels \<and> list_all (scan_label_ok False) (butlast labels) \<and> scan_label_ok True (last labels) \<and>
      list_ex ascii_letter (last labels))"

subsection \<open>Lines\<close>

record scan_source =
  src_text :: string
  src_error :: "string option"

definition max_scan_input_line :: nat where "max_scan_input_line = 1024 * 1024"

text \<open>\<open>bufio.ScanLines\<close>: the rest after the last line break is a line unless it is empty, and a
  carriage return at the end of a line is dropped.\<close>

definition drop_cr :: "string \<Rightarrow> string" where
  "drop_cr l = (if l \<noteq> [] \<and> last l = CHR 0x0D then butlast l else l)"

definition raw_lines :: "string \<Rightarrow> string list" where
  "raw_lines s = (let parts = split_on CHR 0x0A s in if last parts = [] then butlast parts else parts)"

text \<open>A \<open>bufio.Scanner\<close> whose buffer may grow to the limit: it stops with an error at the first line
  that fills the buffer, and otherwise reports the error of the reader after the last line.\<close>

definition scanner_lines :: "scan_source \<Rightarrow> string list \<times> string option" where
  "scanner_lines src =
     (let ls = raw_lines (src_text src); ok = takeWhile (\<lambda>l. length l < max_scan_input_line) ls in
      (map drop_cr ok, if length ok < length ls then Some ''bufio.Scanner: token too long'' else src_error src))"

text \<open>A loop over numbered lines that ends at the first error; \<open>add\<close> works on the state \<open>'s\<close> and on
  an error leaves the state as it is then.\<close>

fun add_lines :: "(string \<Rightarrow> nat \<Rightarrow> 's \<Rightarrow> string option \<times> 's) \<Rightarrow> nat \<Rightarrow> string list \<Rightarrow> 's \<Rightarrow> string option \<times> 's" where
  "add_lines add n [] s = (None, s)"
| "add_lines add n (l # ls) s =
     (case add l n s of
        (Some e, s1) \<Rightarrow> (Some e, s1)
      | (None, s1) \<Rightarrow> add_lines add (n + 1) ls s1)"

definition scan_domain_lines ::
  "(string \<Rightarrow> string \<Rightarrow> nat \<Rightarrow> 's \<Rightarrow> string option \<times> 's) \<Rightarrow> string \<Rightarrow> scan_source \<Rightarrow> 's \<Rightarrow> string option \<times> 's"
where
  "scan_domain_lines add source src s =
     (case scanner_lines src of
        (ls, err) \<Rightarrow>
          (case add_lines (\<lambda>l n. add l source n) 1 ls s of
             (Some e, s1) \<Rightarrow> (Some e, s1)
           | (None, s1) \<Rightarrow> (map_option (\<lambda>e. ''lendo '' @ source @ '': '' @ e) err, s1)))"

subsection \<open>One list\<close>

definition invalid_target :: "(string \<Rightarrow> string) \<Rightarrow> string \<Rightarrow> nat \<Rightarrow> string \<Rightarrow> string" where
  "invalid_target quote source line raw =
     (''alvo inv'' @ [CHR 0xC3, CHR 0xA1] @ ''lido em '') @ source @ '':'' @ nat_dec line @ '': '' @ quote raw"

definition no_targets :: string where
  "no_targets = (''nenhum alvo fornecido; use argumentos, --list ou a entrada padr'' @ [CHR 0xC3, CHR 0xA3] @ ''o (stdin)'')"

text \<open>What \<open>add\<close> makes of a line: nothing, a target, or an error.\<close>

datatype target_line = Ignored | Target string | Refused string

definition target_of_line ::
  "go_env \<Rightarrow> (string \<Rightarrow> string) \<Rightarrow> string \<Rightarrow> string \<Rightarrow> nat \<Rightarrow> target_line"
where
  "target_of_line G quote raw source line =
     (let domain = normalize_host G raw in
      if domain = [] \<or> prefix ''#'' domain then Ignored
      else if \<not> valid_scan_domain domain then Refused (invalid_target quote source line raw)
      else Target domain)"

definition add_target ::
  "go_env \<Rightarrow> (string \<Rightarrow> string) \<Rightarrow> string \<Rightarrow> string \<Rightarrow> nat \<Rightarrow> string list \<Rightarrow> string option \<times> string list"
where
  "add_target G quote raw source line domains =
     (case target_of_line G quote raw source line of
        Ignored \<Rightarrow> (None, domains)
      | Refused e \<Rightarrow> (Some e, domains)
      | Target d \<Rightarrow> (None, if d \<in> set domains then domains else domains @ [d]))"

text \<open>The three sources in order: the arguments, the list, the standard input when it is read.\<close>

definition add_sources ::
  "(string \<Rightarrow> string + scan_source) \<Rightarrow> (string \<Rightarrow> string) \<Rightarrow> string list \<Rightarrow> string \<Rightarrow> scan_source option \<Rightarrow>
   (string \<Rightarrow> string \<Rightarrow> nat \<Rightarrow> 's \<Rightarrow> string option \<times> 's) \<Rightarrow> 's \<Rightarrow> string option \<times> 's"
where
  "add_sources open_file quote args list_path stdin add s =
     (case add_lines (\<lambda>v n. add v ''argumento'' n) 1 args s of
        (Some e, s1) \<Rightarrow> (Some e, s1)
      | (None, s1) \<Rightarrow>
          (case (if trim_space list_path = [] then (None, s1)
                 else case open_file list_path of
                   Inl e \<Rightarrow> (Some (''abrindo lista '' @ quote list_path @ '': '' @ e), s1)
                 | Inr src \<Rightarrow> scan_domain_lines add list_path src s1) of
             (Some e, s2) \<Rightarrow> (Some e, s2)
           | (None, s2) \<Rightarrow>
               (case stdin of None \<Rightarrow> (None, s2) | Some src \<Rightarrow> scan_domain_lines add ''stdin'' src s2)))"

definition load_scan_domains ::
  "go_env \<Rightarrow> (string \<Rightarrow> string + scan_source) \<Rightarrow> (string \<Rightarrow> string) \<Rightarrow> string list \<Rightarrow> string \<Rightarrow> scan_source option \<Rightarrow>
   string + string list"
where
  "load_scan_domains G open_file quote args list_path stdin =
     (case add_sources open_file quote args list_path stdin (add_target G quote) [] of
        (Some e, _) \<Rightarrow> Inl e
      | (None, domains) \<Rightarrow> if domains = [] then Inl no_targets else Inr domains)"

subsection \<open>Batches\<close>

text \<open>
  The temporary table is the list of the hosts already inserted: \<open>INSERT OR IGNORE\<close> on its primary
  key inserts a host exactly when it is not there. \<open>index_error\<close> is the error of that statement
  for a host, if it fails. \<open>process\<close> is the callback, on a world of its own.
\<close>

record 'w stream_state =
  st_seen :: "string list"
  st_batch :: "string list"
  st_processed :: nat
  st_world :: 'w

definition flush_batch ::
  "(string list \<Rightarrow> 'w \<Rightarrow> string option \<times> 'w) \<Rightarrow> 'w stream_state \<Rightarrow> string option \<times> 'w stream_state"
where
  "flush_batch process s =
     (if st_batch s = [] then (None, s)
      else case process (st_batch s) (st_world s) of
        (Some e, w) \<Rightarrow> (Some e, s\<lparr>st_world := w\<rparr>)
      | (None, w) \<Rightarrow> (None, s\<lparr>st_processed := st_processed s + length (st_batch s), st_batch := [], st_world := w\<rparr>))"

definition add_streamed ::
  "go_env \<Rightarrow> (string \<Rightarrow> string) \<Rightarrow> (string \<Rightarrow> string option) \<Rightarrow> nat \<Rightarrow>
   (string list \<Rightarrow> 'w \<Rightarrow> string option \<times> 'w) \<Rightarrow> string \<Rightarrow> string \<Rightarrow> nat \<Rightarrow> 'w stream_state \<Rightarrow>
   string option \<times> 'w stream_state"
where
  "add_streamed G quote index_error batch_size process raw source line s =
     (case target_of_line G quote raw source line of
        Ignored \<Rightarrow> (None, s)
      | Refused e \<Rightarrow> (Some e, s)
      | Target d \<Rightarrow>
          (case index_error d of
             Some e \<Rightarrow> (Some (''indexando alvo de entrada: '' @ e), s)
           | None \<Rightarrow>
               if d \<in> set (st_seen s) then (None, s)
               else (let s1 = s\<lparr>st_seen := st_seen s @ [d], st_batch := st_batch s @ [d]\<rparr> in
                 if length (st_batch s1) = batch_size then flush_batch process s1 else (None, s1))))"

text \<open>\<open>prepare\<close> is the error of creating the temporary table, if there is one; \<open>process\<close> is absent
  when the caller passed nil.\<close>

definition stream_scan_domains ::
  "go_env \<Rightarrow> (string \<Rightarrow> string + scan_source) \<Rightarrow> (string \<Rightarrow> string) \<Rightarrow> string option \<Rightarrow> (string \<Rightarrow> string option) \<Rightarrow>
   string list \<Rightarrow> string \<Rightarrow> scan_source option \<Rightarrow> int \<Rightarrow> (string list \<Rightarrow> 'w \<Rightarrow> string option \<times> 'w) option \<Rightarrow> 'w \<Rightarrow>
   string option \<times> 'w"
where
  "stream_scan_domains G open_file quote prepare index_error args list_path stdin batch_size process w =
     (if batch_size < 1 \<or> batch_size > 100000 then (Some ''--batch-size deve estar entre 1 e 100000'', w)
      else case process of
        None \<Rightarrow> (Some ''processador de lotes ausente'', w)
      | Some p \<Rightarrow>
          (case prepare of
             Some e \<Rightarrow> (Some e, w)
           | None \<Rightarrow>
               (case add_sources open_file quote args list_path stdin
                   (add_streamed G quote index_error (nat batch_size) p)
                   \<lparr>st_seen = [], st_batch = [], st_processed = 0, st_world = w\<rparr> of
                  (Some e, s) \<Rightarrow> (Some e, st_world s)
                | (None, s) \<Rightarrow>
                    (case flush_batch p s of
                       (Some e, s1) \<Rightarrow> (Some e, st_world s1)
                     | (None, s1) \<Rightarrow> (if st_processed s1 = 0 then Some no_targets else None, st_world s1)))))"

subsection \<open>Lists of names\<close>

text \<open>The text of a list is the content of the file of that name, if it can be read.\<close>

definition list_content :: "(string \<Rightarrow> string option) \<Rightarrow> string \<Rightarrow> string" where
  "list_content file raw = (case file raw of Some data \<Rightarrow> data | None \<Rightarrow> raw)"

definition list_items :: "string \<Rightarrow> string list" where
  "list_items = fields_func (\<lambda>r. r = 44 \<or> r = 10 \<or> r = 13)"

definition empty_list :: string where "empty_list = (''a lista est'' @ [CHR 0xC3, CHR 0xA1] @ '' vazia'')"

definition read_list :: "go_env \<Rightarrow> (string \<Rightarrow> string option) \<Rightarrow> string \<Rightarrow> string + string list" where
  "read_list G file raw0 =
     (let raw = trim_space raw0 in
      if raw = [] then Inl empty_list
      else let items = dedup_by (to_lower G) {} (filter (\<lambda>i. i \<noteq> [] \<and> \<not> prefix ''#'' i)
             (map trim_space (list_items (list_content file raw)))) in
        if items = [] then Inl empty_list else Inr items)"

text \<open>The first item that is refused ends each of these loops.\<close>

fun map_items :: "(string \<Rightarrow> string + string) \<Rightarrow> string list \<Rightarrow> string + string list" where
  "map_items f [] = Inr []"
| "map_items f (i # is) =
     (case f i of Inl e \<Rightarrow> Inl e | Inr x \<Rightarrow> map_sum id (\<lambda>xs. x # xs) (map_items f is))"

definition related_host :: "go_env \<Rightarrow> (string \<Rightarrow> string) \<Rightarrow> string \<Rightarrow> string + string" where
  "related_host G quote item =
     (case normalize_hostname G item of
        Inl _ \<Rightarrow> Inl ((''host relacionado inv'' @ [CHR 0xC3, CHR 0xA1] @ ''lido: '') @ quote item)
      | Inr host \<Rightarrow>
          if valid_scan_domain host then Inr host else Inl ((''host relacionado inv'' @ [CHR 0xC3, CHR 0xA1] @ ''lido: '') @ quote item))"

definition parse_related_hosts ::
  "go_env \<Rightarrow> (string \<Rightarrow> string option) \<Rightarrow> (string \<Rightarrow> string) \<Rightarrow> string \<Rightarrow> string + string list"
where
  "parse_related_hosts G file quote raw0 =
     (let raw = trim_space raw0 in
      if raw = [] then Inr []
      else case read_list G file raw of
        Inl e \<Rightarrow> Inl e
      | Inr items \<Rightarrow> map_sum id (dedup_by id {}) (map_items (related_host G quote) items))"

definition san_root :: "go_env \<Rightarrow> (string \<Rightarrow> string) \<Rightarrow> string \<Rightarrow> string + string" where
  "san_root G quote item =
     (let host = to_lower G (trim_suffix item ''.'') in
      if valid_scan_domain host \<and> extract_root_domain G host = host then Inr host
      else Inl ((''raiz SAN inv'' @ [CHR 0xC3, CHR 0xA1] @ ''lida: '') @ quote item))"

definition parse_san_roots ::
  "go_env \<Rightarrow> (string \<Rightarrow> string option) \<Rightarrow> (string \<Rightarrow> string) \<Rightarrow> bool \<Rightarrow> string \<Rightarrow> string + string list"
where
  "parse_san_roots G file quote enabled raw =
     (if \<not> enabled then
        (if trim_space raw \<noteq> [] then Inl ''--san-roots exige --pivot-san'' else Inr [])
      else case read_list G file raw of
        Inl e \<Rightarrow> Inl (''--pivot-san exige --san-roots: '' @ e)
      | Inr items \<Rightarrow> map_items (san_root G quote) items)"

text \<open>\<open>IP.IsGlobalUnicast\<close> of the standard library.\<close>

definition ip_multicast :: "ip \<Rightarrow> bool" where
  "ip_multicast a \<longleftrightarrow>
     (case to4 a of Some b \<Rightarrow> b ! 0 div 16 = 14 | None \<Rightarrow> length a = 16 \<and> a ! 0 = 255)"

definition ip_global_unicast :: "ip \<Rightarrow> bool" where
  "ip_global_unicast a \<longleftrightarrow>
     (length a = 4 \<or> length a = 16) \<and> to4 a \<noteq> Some [255, 255, 255, 255] \<and> \<not> ip_unspecified a \<and>
     \<not> ip_loopback a \<and> \<not> ip_multicast a \<and> \<not> ip_link_local a"

definition origin_target :: "go_env \<Rightarrow> (string \<Rightarrow> string) \<Rightarrow> string \<Rightarrow> string + string" where
  "origin_target G quote item =
     (let v = to_lower G (trim_suffix item ''.'') in
      case parse_ip v of
        Some a \<Rightarrow>
          if \<not> ip_global_unicast a \<or> ip_private a
          then Inl ((''IP de origin n'' @ [CHR 0xC3, CHR 0xA3] @ ''o p'' @ [CHR 0xC3, CHR 0xBA] @ ''blico: '') @ quote item) else Inr (ip_text a)
      | None \<Rightarrow>
          if valid_scan_domain v then Inr v else Inl ((''destino de origin inv'' @ [CHR 0xC3, CHR 0xA1] @ ''lido: '') @ quote item))"

definition parse_origin_targets ::
  "go_env \<Rightarrow> (string \<Rightarrow> string option) \<Rightarrow> (string \<Rightarrow> string) \<Rightarrow> bool \<Rightarrow> string \<Rightarrow> string + string list"
where
  "parse_origin_targets G file quote enabled raw =
     (if \<not> enabled then
        (if trim_space raw \<noteq> [] then Inl ''--origin-allowlist exige --check-origin'' else Inr [])
      else if trim_space raw = [] then Inr []
      else case read_list G file raw of
        Inl e \<Rightarrow> Inl e
      | Inr items \<Rightarrow> map_items (origin_target G quote) items)"

subsection \<open>Authorisations\<close>

definition meaningful_items :: "go_env \<Rightarrow> string \<Rightarrow> (string \<times> string) list" where
  "meaningful_items G content =
     filter (\<lambda>(item, h). h \<noteq> [] \<and> \<not> prefix ''#'' h)
       (map (\<lambda>item. (item, normalize_host G item)) (list_items content))"

definition claim_target :: "(string \<Rightarrow> string) \<Rightarrow> string list \<Rightarrow> string \<times> string \<Rightarrow> string + string" where
  "claim_target quote scan_domains x =
     (case x of (item, host) \<Rightarrow>
        if \<not> valid_scan_domain host then Inl ((''host inv'' @ [CHR 0xC3, CHR 0xA1] @ ''lido na lista permitida agressiva: '') @ quote item)
        else if host \<notin> set scan_domains
        then Inl (''o host '' @ quote host @ ('' da lista permitida agressiva n'' @ [CHR 0xC3, CHR 0xA3] @ ''o est'' @ [CHR 0xC3, CHR 0xA1] @ '' entre os alvos da varredura''))
        else Inr host)"

fun map_pairs :: "(string \<times> string \<Rightarrow> string + string) \<Rightarrow> (string \<times> string) list \<Rightarrow> string + string list" where
  "map_pairs f [] = Inr []"
| "map_pairs f (i # is) =
     (case f i of Inl e \<Rightarrow> Inl e | Inr x \<Rightarrow> map_sum id (\<lambda>xs. x # xs) (map_pairs f is))"

definition aggressive_claim_targets ::
  "go_env \<Rightarrow> (string \<Rightarrow> string option) \<Rightarrow> (string \<Rightarrow> string) \<Rightarrow> bool \<Rightarrow> bool \<Rightarrow> string \<Rightarrow> string list \<Rightarrow>
   string + string list"
where
  "aggressive_claim_targets G file quote enabled confirmed raw0 scan_domains =
     (let raw = trim_space raw0 in
      if \<not> enabled then
        (if confirmed \<or> raw \<noteq> [] then Inl (''as flags de reivindica'' @ [CHR 0xC3, CHR 0xA7, CHR 0xC3, CHR 0xA3] @ ''o autom'' @ [CHR 0xC3, CHR 0xA1] @ ''tica exigem --aggressive'') else Inr [])
      else if \<not> confirmed then Inl ''--aggressive exige --aggressive-confirm-auto-claim''
      else if raw = [] then Inl ''--aggressive exige --aggressive-allowlist''
      else case map_pairs (claim_target quote scan_domains) (meaningful_items G (list_content file raw)) of
        Inl e \<Rightarrow> Inl e
      | Inr hosts \<Rightarrow>
          (let allowed = dedup_by id {} hosts in
           if allowed = [] then Inl (''a lista permitida agressiva est'' @ [CHR 0xC3, CHR 0xA1] @ '' vazia'') else Inr allowed))"

definition pivot_target :: "go_env \<Rightarrow> (string \<Rightarrow> string) \<Rightarrow> string \<times> string \<Rightarrow> string + string" where
  "pivot_target G quote x =
     (case x of (item, domain) \<Rightarrow>
        if \<not> valid_scan_domain domain \<or> extract_root_domain G domain \<noteq> domain
        then Inl ((''dom'' @ [CHR 0xC3, CHR 0xAD] @ ''nio registr'' @ [CHR 0xC3, CHR 0xA1] @ ''vel inv'' @ [CHR 0xC3, CHR 0xA1] @ ''lido na lista permitida do pivotamento: '') @ quote item)
        else Inr domain)"

definition authorized_whois_pivot_targets ::
  "go_env \<Rightarrow> (string \<Rightarrow> string option) \<Rightarrow> (string \<Rightarrow> string) \<Rightarrow> bool \<Rightarrow> bool \<Rightarrow> string \<Rightarrow> string + string list"
where
  "authorized_whois_pivot_targets G file quote enabled confirmed raw0 =
     (let raw = trim_space raw0 in
      if \<not> enabled then
        (if confirmed \<or> raw \<noteq> [] then Inl (''as op'' @ [CHR 0xC3, CHR 0xA7, CHR 0xC3, CHR 0xB5] @ ''es de autoriza'' @ [CHR 0xC3, CHR 0xA7, CHR 0xC3, CHR 0xA3] @ ''o do pivotamento exigem --whois-pivot'') else Inr [])
      else if \<not> confirmed then Inl ''--whois-pivot exige --whois-pivot-confirm''
      else if raw = [] then Inl ''--whois-pivot exige --whois-pivot-allowlist''
      else case map_pairs (pivot_target G quote) (meaningful_items G (list_content file raw)) of
        Inl e \<Rightarrow> Inl e
      | Inr domains \<Rightarrow>
          (let targets = dedup_by id {} domains in
           if targets = [] then Inl (''a lista permitida do pivotamento WHOIS est'' @ [CHR 0xC3, CHR 0xA1] @ '' vazia'') else Inr targets))"

definition select_discovered_whois_targets :: "go_env \<Rightarrow> string list \<Rightarrow> string list \<Rightarrow> string list" where
  "select_discovered_whois_targets G discovered allowed =
     dedup_by id {} (filter (\<lambda>d. d \<in> set allowed) (map (normalize_host G) discovered))"

definition append_unique_domains :: "string list \<Rightarrow> string list \<Rightarrow> string list" where
  "append_unique_domains existing additional = existing @ dedup_by id (set existing) additional"

subsection \<open>SRV owners and candidates (cmd/scan.go)\<close>

definition srv_owner_of :: "go_env \<Rightarrow> (string \<Rightarrow> string) \<Rightarrow> string \<Rightarrow> string + string" where
  "srv_owner_of G quote item =
     (let owner = to_lower G (trim_space (trim_suffix item ''.'')) in
      case split_on CHR ''.'' owner of
        [service, proto] \<Rightarrow>
          if \<not> prefix ''_'' service \<or> (proto \<noteq> ''_tcp'' \<and> proto \<noteq> ''_udp'') \<or>
            contains_any owner [CHR ''/'', CHR 0x5C, CHR '':'', CHR ''@'', CHR ''*'', CHR ''?'']
          then Inl ((''nome propriet'' @ [CHR 0xC3, CHR 0xA1] @ ''rio SRV inv'' @ [CHR 0xC3, CHR 0xA1] @ ''lido '') @ quote item @ ''; use _service._tcp ou _service._udp'')
          else Inr owner
      | _ \<Rightarrow> Inl ((''nome propriet'' @ [CHR 0xC3, CHR 0xA1] @ ''rio SRV inv'' @ [CHR 0xC3, CHR 0xA1] @ ''lido '') @ quote item @ ''; use _service._tcp ou _service._udp''))"

definition parse_srv_owners :: "go_env \<Rightarrow> (string \<Rightarrow> string) \<Rightarrow> string \<Rightarrow> string + string list" where
  "parse_srv_owners G quote raw =
     (if trim_space raw = [] then Inr []
      else map_sum id (dedup_by id {}) (map_items (srv_owner_of G quote) (list_items raw)))"

text \<open>The candidates that join the queue, with the set of names seen so far.\<close>

fun queue_sans :: "string set \<Rightarrow> string list \<Rightarrow> nat \<Rightarrow> string list \<times> string set" where
  "queue_sans seen [] limit = ([], seen)"
| "queue_sans seen (c # cs) limit =
     (if limit = 0 \<or> \<not> valid_scan_domain c \<or> c \<in> seen then queue_sans seen cs limit
      else case queue_sans (insert c seen) cs (limit - 1) of (queued, seen') \<Rightarrow> (c # queued, seen'))"

end
