(* ===== verification/ScanInputProps.thy ===== *)
theory ScanInputProps
  imports ScanInput ClaimSafety
begin

section \<open>Targets and authorisations\<close>

text \<open>
  What is loaded is valid, without repetitions and came from a line; reading in batches hands over
  the same targets in the same order; and the lists that authorise claims and pivots never contain
  more than was confirmed.
\<close>

subsection \<open>What a list holds\<close>

lemma target_of_line_iff:
  "target_of_line G quote raw source line = Target d \<longleftrightarrow>
    d = normalize_host G raw \<and> d \<noteq> [] \<and> \<not> prefix ''#'' d \<and> valid_scan_domain d"
  by (auto simp: target_of_line_def Let_def)

definition good_targets :: "string list \<Rightarrow> bool" where
  "good_targets ds \<longleftrightarrow> distinct ds \<and> list_all valid_scan_domain ds"

lemma add_target_good:
  "add_target G quote raw source line ds = (r, ds') \<Longrightarrow> good_targets ds \<Longrightarrow> good_targets ds'"
  by (auto simp: add_target_def good_targets_def target_of_line_iff split: target_line.splits if_splits)

lemma add_lines_keeps:
  assumes "\<And>l n s r s'. add l n s = (r, s') \<Longrightarrow> I s \<Longrightarrow> I s'"
  shows "add_lines add n ls s = (r, s') \<Longrightarrow> I s \<Longrightarrow> I s'"
proof (induction ls arbitrary: n s)
  case (Cons l ls)
  obtain r1 s1 where step: "add l n s = (r1, s1)" by (rule prod.exhaust)
  from assms [OF step Cons.prems(2)] have "I s1" .
  with Cons.prems(1) step Cons.IH show ?case by (cases r1) auto
qed simp

lemma scan_domain_lines_keeps:
  assumes "\<And>l src n s r s'. add l src n s = (r, s') \<Longrightarrow> I s \<Longrightarrow> I s'"
    and "scan_domain_lines add source src s = (r, s')" and "I s"
  shows "I s'"
proof -
  obtain ls err where ls: "scanner_lines src = (ls, err)" by (rule prod.exhaust)
  obtain r1 s1 where run: "add_lines (\<lambda>l n. add l source n) 1 ls s = (r1, s1)" by (rule prod.exhaust)
  have "I s1" by (rule add_lines_keeps [where I = I and add = "\<lambda>l n. add l source n", OF _ run assms(3)]) (rule assms(1))
  with assms(2) ls run show ?thesis by (auto simp: scan_domain_lines_def split: option.splits)
qed

lemma add_sources_keeps:
  assumes step: "\<And>l src n s r s'. add l src n s = (r, s') \<Longrightarrow> I s \<Longrightarrow> I s'"
    and run: "add_sources open_file quote args list_path stdin add s = (r, s')" and start: "I s"
  shows "I s'"
proof -
  obtain r1 s1 where args: "add_lines (\<lambda>v n. add v ''argumento'' n) 1 args s = (r1, s1)" by (rule prod.exhaust)
  have i1: "I s1" by (rule add_lines_keeps [where I = I and add = "\<lambda>v n. add v ''argumento'' n", OF _ args start]) (rule step)
  have keep: "I t'" if "scan_domain_lines add source src t = (q, t')" "I t" for source src t q t'
    by (rule scan_domain_lines_keeps [where add = add and I = I, OF _ that]) (rule step)
  show ?thesis
    using run args i1
    by (auto simp: add_sources_def split: option.splits prod.splits if_splits sum.splits intro: keep)
qed

subsection \<open>Batches\<close>

fun chunks :: "nat \<Rightarrow> 'a list \<Rightarrow> 'a list list" where
  "chunks n xs = (if xs = [] \<or> n = 0 then [] else take n xs # chunks n (drop n xs))"

declare chunks.simps [simp del]

fun run_batches :: "('b \<Rightarrow> 'w \<Rightarrow> string option \<times> 'w) \<Rightarrow> 'b list \<Rightarrow> 'w \<Rightarrow> string option \<times> 'w" where
  "run_batches p [] w = (None, w)"
| "run_batches p (b # bs) w =
     (case p b w of (Some e, w1) \<Rightarrow> (Some e, w1) | (None, w1) \<Rightarrow> run_batches p bs w1)"

text \<open>New targets one by one.\<close>

fun feed :: "nat \<Rightarrow> (string list \<Rightarrow> 'w \<Rightarrow> string option \<times> 'w) \<Rightarrow> string list \<Rightarrow> 'w stream_state \<Rightarrow>
  string option \<times> 'w stream_state"
where
  "feed n p [] s = (None, s)"
| "feed n p (x # xs) s =
     (let s1 = s\<lparr>st_seen := st_seen s @ [x], st_batch := st_batch s @ [x]\<rparr> in
      if length (st_batch s1) = n
      then (case flush_batch p s1 of (Some e, s2) \<Rightarrow> (Some e, s2) | (None, s2) \<Rightarrow> feed n p xs s2)
      else feed n p xs s1)"

lemma feed_append:
  "feed n p (xs @ ys) s = (case feed n p xs s of (Some e, s1) \<Rightarrow> (Some e, s1) | (None, s1) \<Rightarrow> feed n p ys s1)"
  by (induction xs arbitrary: s) (auto simp: Let_def split: prod.split option.split)

lemma flush_seen: "flush_batch p s = (r, s') \<Longrightarrow> st_seen s' = st_seen s"
  by (auto simp: flush_batch_def split: if_splits prod.splits option.splits)

lemma feed_seen: "feed n p xs s = (None, s') \<Longrightarrow> st_seen s' = st_seen s @ xs"
  by (induction xs arbitrary: s)
    (auto simp: Let_def split: if_splits prod.splits option.splits dest!: flush_seen)

lemma flush_processed: "flush_batch p s = (None, s') \<Longrightarrow>
    st_processed s' = st_processed s + length (st_batch s) \<and> st_batch s' = []"
  by (auto simp: flush_batch_def split: if_splits prod.splits option.splits)

lemma feed_processed: "feed n p xs s = (None, s') \<Longrightarrow>
    st_processed s' + length (st_batch s') = st_processed s + length (st_batch s) + length xs"
  by (induction xs arbitrary: s)
    (fastforce simp: Let_def split: if_splits prod.splits option.splits dest: flush_processed)+

text \<open>A run of \<open>add_streamed\<close> feeds what the run of \<open>add_target\<close> adds.\<close>

definition mirrors ::
  "nat \<Rightarrow> (string list \<Rightarrow> 'w \<Rightarrow> string option \<times> 'w) \<Rightarrow> (string list \<Rightarrow> string option \<times> string list) \<Rightarrow>
   ('w stream_state \<Rightarrow> string option \<times> 'w stream_state) \<Rightarrow> bool"
where
  "mirrors n p f g \<longleftrightarrow>
     (\<forall>ds ds' s. f ds = (None, ds') \<longrightarrow> st_seen s = ds \<longrightarrow> (\<exists>new. ds' = ds @ new \<and> g s = feed n p new s))"

lemma mirrorsD:
  "mirrors n p f g \<Longrightarrow> f ds = (None, ds') \<Longrightarrow> st_seen s = ds \<Longrightarrow> \<exists>new. ds' = ds @ new \<and> g s = feed n p new s"
  by (simp add: mirrors_def)

lemma mirrors_none: "mirrors n p (Pair None) (Pair None)"
  by (auto simp: mirrors_def intro: exI [of _ "[]"])

lemma mirrors_fails: "mirrors n p (\<lambda>ds. (Some e, ds)) g"
  by (simp add: mirrors_def)

lemma mirrors_then:
  fixes p :: "string list \<Rightarrow> 'w \<Rightarrow> string option \<times> 'w"
  assumes "mirrors n p f g" and "mirrors n p f' g'"
  shows "mirrors n p (\<lambda>ds. case f ds of (Some e, ds1) \<Rightarrow> (Some e, ds1) | (None, ds1) \<Rightarrow> f' ds1)
    (\<lambda>s. case g s of (Some e, s1) \<Rightarrow> (Some e, s1) | (None, s1) \<Rightarrow> g' s1)"
  unfolding mirrors_def
proof (intro allI impI)
  fix ds ds' and s :: "'w stream_state"
  assume run: "(case f ds of (Some e, ds1) \<Rightarrow> (Some e, ds1) | (None, ds1) \<Rightarrow> f' ds1) = (None, ds')"
    and seen: "st_seen s = ds"
  obtain r ds1 where "f ds = (r, ds1)" by (rule prod.exhaust)
  with run have f: "f ds = (None, ds1)" and f': "f' ds1 = (None, ds')" by (cases r; simp)+
  obtain new where new: "ds1 = ds @ new" "g s = feed n p new s" using mirrorsD [OF assms(1) f seen] by blast
  show "\<exists>all. ds' = ds @ all \<and>
      (case g s of (Some e, s1) \<Rightarrow> (Some e, s1) | (None, s1) \<Rightarrow> g' s1) = feed n p all s"
  proof (cases "feed n p new s")
    case (Pair r s1)
    show ?thesis
    proof (cases r)
      case None
      have "st_seen s1 = ds1" using feed_seen Pair None new seen by metis
      from mirrorsD [OF assms(2) f' this] obtain more where "ds' = ds1 @ more" "g' s1 = feed n p more s1" by blast
      with new Pair None show ?thesis by (intro exI [of _ "new @ more"]) (simp add: feed_append)
    next
      case (Some e)
      have "\<exists>more. ds' = ds1 @ more"
        using mirrorsD [OF assms(2) f', of "s\<lparr>st_seen := ds1\<rparr>"] by auto
      with new Pair Some show ?thesis by (auto simp: feed_append)
    qed
  qed
qed

lemma mirrors_add:
  fixes p :: "string list \<Rightarrow> 'w \<Rightarrow> string option \<times> 'w"
  assumes "\<And>d. index_error d = None"
  shows "mirrors n p (add_target G quote raw source line) (add_streamed G quote index_error n p raw source line)"
proof -
  have "\<exists>new. ds' = st_seen s @ new \<and> add_streamed G quote index_error n p raw source line s = feed n p new s"
    if "add_target G quote raw source line (st_seen s) = (None, ds')" for ds' and s :: "'w stream_state"
  proof (cases "target_of_line G quote raw source line")
    case (Target d)
    show ?thesis
    proof (cases "d \<in> set (st_seen s)")
      case True
      with Target that assms show ?thesis
        by (intro exI [of _ "[]"]) (simp add: add_target_def add_streamed_def)
    next
      case False
      with Target that assms show ?thesis
        by (intro exI [of _ "[d]"]) (simp add: add_target_def add_streamed_def Let_def split: prod.split option.split)
    qed
  qed (use that in \<open>auto simp: add_target_def add_streamed_def intro: exI [of _ "[]"]\<close>)
  then show ?thesis unfolding mirrors_def by blast
qed

lemma mirrors_lines:
  assumes "\<And>l k. mirrors n p (f l k) (g l k)"
  shows "mirrors n p (add_lines f k ls) (add_lines g k ls)"
proof (induction ls arbitrary: k)
  case Nil
  have "add_lines f k [] = Pair None" "add_lines g k [] = Pair None" by (simp_all add: fun_eq_iff)
  then show ?case by (simp only: mirrors_none)
next
  case (Cons l ls)
  have "add_lines f k (l # ls) = (\<lambda>ds. case f l k ds of (Some e, ds1) \<Rightarrow> (Some e, ds1) | (None, ds1) \<Rightarrow> add_lines f (k + 1) ls ds1)"
    "add_lines g k (l # ls) = (\<lambda>s. case g l k s of (Some e, s1) \<Rightarrow> (Some e, s1) | (None, s1) \<Rightarrow> add_lines g (k + 1) ls s1)"
    by (simp_all add: fun_eq_iff)
  with mirrors_then [OF assms Cons.IH] show ?case by simp
qed

lemma mirrors_file:
  assumes "\<And>l source k. mirrors n p (f l source k) (g l source k)"
  shows "mirrors n p (scan_domain_lines f source src) (scan_domain_lines g source src)"
proof -
  obtain ls err where ls: "scanner_lines src = (ls, err)" by (rule prod.exhaust)
  let ?report = "map_option (\<lambda>e. ''lendo '' @ source @ '': '' @ e) err"
  have "mirrors n p (Pair ?report) (Pair ?report)"
    by (cases err) (simp_all add: mirrors_none mirrors_fails [where e = "_"] mirrors_def)
  from mirrors_then [OF mirrors_lines [where f = "\<lambda>l k. f l source k" and g = "\<lambda>l k. g l source k", OF assms, of 1 ls] this]
  show ?thesis unfolding scan_domain_lines_def ls by simp
qed

lemma mirrors_sources:
  assumes "\<And>l source k. mirrors n p (f l source k) (g l source k)"
  shows "mirrors n p (add_sources open_file quote args list_path stdin f) (add_sources open_file quote args list_path stdin g)"
proof -
  have stdin: "mirrors n p (\<lambda>ds. case stdin of None \<Rightarrow> (None, ds) | Some src \<Rightarrow> scan_domain_lines f ''stdin'' src ds)
      (\<lambda>s. case stdin of None \<Rightarrow> (None, s) | Some src \<Rightarrow> scan_domain_lines g ''stdin'' src s)"
    using mirrors_none mirrors_file [OF assms] by (cases stdin) simp_all
  have list: "mirrors n p
      (\<lambda>ds. if trim_space list_path = [] then (None, ds) else case open_file list_path of
         Inl e \<Rightarrow> (Some (''abrindo lista '' @ quote list_path @ '': '' @ e), ds) | Inr src \<Rightarrow> scan_domain_lines f list_path src ds)
      (\<lambda>s. if trim_space list_path = [] then (None, s) else case open_file list_path of
         Inl e \<Rightarrow> (Some (''abrindo lista '' @ quote list_path @ '': '' @ e), s) | Inr src \<Rightarrow> scan_domain_lines g list_path src s)"
    using mirrors_none mirrors_fails mirrors_file [OF assms]
    by (cases "trim_space list_path = []"; cases "open_file list_path") simp_all
  have args: "mirrors n p (add_lines (\<lambda>v. f v ''argumento'') 1 args) (add_lines (\<lambda>v. g v ''argumento'') 1 args)"
    by (rule mirrors_lines) (rule assms)
  show ?thesis
    unfolding add_sources_def by (rule mirrors_then [OF args mirrors_then [OF list stdin]])
qed

text \<open>Feeding and the last flush hand over the chunks.\<close>

lemma chunks_short: "xs \<noteq> [] \<Longrightarrow> length xs \<le> n \<Longrightarrow> chunks n xs = [xs]"
  by (subst chunks.simps, cases n) (auto simp: chunks.simps)

lemma chunks_full: "length b = n \<Longrightarrow> 0 < n \<Longrightarrow> chunks n (b @ xs) = b # chunks n xs"
  by (subst chunks.simps) auto

definition finish_feed :: "(string list \<Rightarrow> 'w \<Rightarrow> string option \<times> 'w) \<Rightarrow> string option \<times> 'w stream_state \<Rightarrow>
  string option \<times> 'w" where
  "finish_feed p out = (case out of (Some e, s) \<Rightarrow> (Some e, st_world s)
     | (None, s) \<Rightarrow> (case flush_batch p s of (r, s1) \<Rightarrow> (r, st_world s1)))"

lemma feed_chunks:
  assumes "0 < n"
  shows "length (st_batch s) < n \<Longrightarrow>
    finish_feed p (feed n p xs s) = run_batches p (chunks n (st_batch s @ xs)) (st_world s)"
proof (induction xs arbitrary: s)
  case Nil
  then show ?case
    by (auto simp: finish_feed_def flush_batch_def chunks_short chunks.simps [of n "[]"]
        split: prod.split option.split)
next
  case (Cons x xs)
  let ?s1 = "s\<lparr>st_seen := st_seen s @ [x], st_batch := st_batch s @ [x]\<rparr>"
  have all: "st_batch s @ x # xs = st_batch ?s1 @ xs" by simp
  show ?case
  proof (cases "length (st_batch ?s1) = n")
    case True
    obtain r w where run: "p (st_batch ?s1) (st_world s) = (r, w)" by (rule prod.exhaust)
    show ?thesis
      using Cons.IH [of "?s1\<lparr>st_processed := st_processed s + length (st_batch ?s1), st_batch := [], st_world := w\<rparr>"]
        True run assms unfolding all chunks_full [OF True assms]
      by (cases r) (auto simp add: Let_def flush_batch_def finish_feed_def add.commute)
  next
    case False
    with Cons.prems have "length (st_batch ?s1) < n" by simp
    from Cons.IH [OF this] False show ?thesis by (simp add: Let_def)
  qed
qed

subsection \<open>Authorisations\<close>

lemma map_pairs_set: "map_pairs f xs = Inr ys \<Longrightarrow> y \<in> set ys \<Longrightarrow> \<exists>x \<in> set xs. f x = Inr y"
  by (induction xs arbitrary: ys) (auto simp: map_sum_def split: sum.splits)

lemma set_dedup_id: "set (dedup_by id {} xs) = set xs"
  using keys_dedup_by [of id "{}" xs] by simp

lemma distinct_dedup_id: "distinct (dedup_by id {} xs)"
  using distinct_dedup_by [of id "{}" xs] by simp

lemma valid_domain_plain:
  assumes "valid_scan_domain d"
  shows "list_all plain_char d" "d \<noteq> []" "last d \<noteq> CHR ''.''"
proof -
  let ?ls = "split_on CHR ''.'' d"
  have ok: "scan_label_ok False l \<or> scan_label_ok True l" if "l \<in> set ?ls" for l
  proof -
    from that have "l \<in> set (butlast ?ls) \<or> l = last ?ls" by (cases ?ls rule: rev_cases) auto
    then show ?thesis using assms by (auto simp: valid_scan_domain_def Let_def list_all_iff)
  qed
  have label: "plain_char c" if "ascii_letter c \<or> digit_char c \<or> c = CHR ''-'' \<or> c = CHR ''_''" for c
    using that by (auto simp: ascii_letter_def digit_char_def plain_char_def is_space_def in_range_def)
  have "\<forall>l \<in> set ?ls. list_all plain_char l"
    using ok label by (fastforce simp: scan_label_ok_def list_all_iff)
  then have "set d \<subseteq> insert CHR ''.'' (Collect plain_char)"
    by (intro set_join_split) (auto simp: list_all_iff)
  moreover have "plain_char CHR ''.''" by (simp add: plain_char_def is_space_def in_range_def)
  ultimately show "list_all plain_char d" by (auto simp: list_all_iff)
  show ne: "d \<noteq> []" using assms by (simp add: valid_scan_domain_def)
  show "last d \<noteq> CHR ''.''"
  proof
    assume "last d = CHR ''.''"
    with ne obtain e where "d = e @ [CHR ''.'']" by (metis append_butlast_last_id)
    then have "last ?ls = []" using split_on_append [of "CHR ''.''" e "[]"] by simp
    then show False using assms by (simp add: valid_scan_domain_def Let_def scan_label_ok_def)
  qed
qed

lemma valid_domain_normal: "valid_scan_domain d \<Longrightarrow> normalize_host G d = d"
proof -
  assume valid: "valid_scan_domain d"
  note plain = valid_domain_plain [OF valid]
  have "trim_suffix d ''.'' = d"
    using plain(2,3) by (cases d rule: rev_cases) (auto simp: trim_suffix_def suffix_def)
  then show ?thesis using plain(1) by (simp add: normalize_host_def trim_space_plain to_lower_plain)
qed

lemma claim_targets_sound:
  assumes "aggressive_claim_targets G file quote enabled confirmed raw domains = Inr hosts"
  shows "if enabled then confirmed \<and> hosts \<noteq> [] \<and> distinct hosts \<and> set hosts \<subseteq> set domains \<and> list_all valid_scan_domain hosts
    else \<not> confirmed \<and> hosts = []"
proof (cases enabled)
  case False
  with assms show ?thesis by (auto simp: aggressive_claim_targets_def Let_def split: if_splits)
next
  case True
  with assms obtain all where all: "map_pairs (claim_target quote domains) (meaningful_items G (list_content file (trim_space raw))) = Inr all"
    and hosts: "hosts = dedup_by id {} all" "hosts \<noteq> []" "confirmed"
    by (auto simp: aggressive_claim_targets_def Let_def split: if_splits sum.splits)
  have "h \<in> set domains \<and> valid_scan_domain h" if "h \<in> set all" for h
    using map_pairs_set [OF all that] by (auto simp: claim_target_def split: if_splits)
  then show ?thesis using True hosts by (auto simp: set_dedup_id distinct_dedup_id list_all_iff)
qed

subsection \<open>The engine of claims stays within its list\<close>

definition same_list :: "claim_engine \<Rightarrow> 'w claim_outcome \<Rightarrow> bool" where
  "same_list eng out = (case out of (err, eng', a, w) \<Rightarrow> eng_allowlist eng' = eng_allowlist eng)"

lemma halt_unsafe_list: "halt_unsafe cause eng = (u, eng') \<Longrightarrow> eng_allowlist eng' = eng_allowlist eng"
  by (auto simp: halt_unsafe_def Let_def split: option.splits)

lemma same_list_same [simp]: "same_list eng (err, eng, a, w)"
  by (simp add: same_list_def)

lemma execute_branches_list:
  "same_list eng (execute_release E p i r ce eng a w)" "same_list eng (execute_unpersisted E p i r e eng a w)"
  "same_list eng (execute_invalid E p i prov r eng a w)"
  by (auto simp: same_list_def execute_release_def execute_unpersisted_def execute_invalid_def Let_def
      split: prod.split sum.split option.split dest: halt_unsafe_list)

lemma execute_failed_list: "same_list eng (execute_failed G E p v rs i e eng a w)"
  by (auto simp: same_list_def execute_failed_def claim_failed_result_def Let_def
      split: prod.split sum.split option.split dest: halt_unsafe_list)

lemma execute_claimed_list: "same_list eng (execute_claimed G E p v rs i prov r eng a w)"
  using execute_branches_list by (auto simp: execute_claimed_def split: prod.split option.split)

lemma execute_attempt_list: "same_list eng (execute_attempt G E host p c eng a w)"
  using execute_failed_list execute_claimed_list
  by (auto simp: execute_attempt_def Let_def split: prod.split sum.split)

lemma execute_list: "same_list eng (execute G E eng a w)"
proof -
  have "same_list eng (execute_unsupported E host eng a w)" for host
    by (auto simp: same_list_def execute_unsupported_def split: prod.split sum.split)
  moreover have "same_list eng (None, eng', b, w)" "same_list eng (err, eng, b, w)"
    if "eng_allowlist eng' = eng_allowlist eng" for eng' b err
    using that by (simp_all add: same_list_def)
  moreover have "same_list eng (execute_attempt G E host p c eng' a w)"
    if "eng_allowlist eng' = eng_allowlist eng" for host p c eng'
    using execute_attempt_list [of eng'] that by (simp add: same_list_def)
  ultimately show ?thesis
    by (auto simp: execute_def execute_guarded_def begin_attempt_def split: option.split prod.split bool.split)
qed

definition claim_within :: "string set \<Rightarrow> claim_event \<Rightarrow> bool" where
  "claim_within hosts ev \<longleftrightarrow> (case ev of ClaimCalled p rq res \<Rightarrow> rq_host rq \<in> hosts | _ \<Rightarrow> True)"

lemma claim_within_mono: "claim_within A ev \<Longrightarrow> A \<subseteq> B \<Longrightarrow> claim_within B ev"
  by (auto simp: claim_within_def split: claim_event.splits)

lemma no_claim_within: "\<not> list_ex is_claim evs \<Longrightarrow> list_all (claim_within hosts) evs"
  by (auto simp: list_ex_iff list_all_iff claim_within_def split: claim_event.split)

lemma execute_within:
  assumes run: "execute G (traced E) eng a s = (err, eng', a', s')" and start: "list_all (claim_within (eng_allowlist eng)) (snd s)"
  shows "list_all (claim_within (eng_allowlist eng')) (snd s') \<and> eng_allowlist eng' = eng_allowlist eng"
proof -
  have same: "eng_allowlist eng' = eng_allowlist eng" using execute_list [of eng G "traced E" a s] run by (simp add: same_list_def)
  have "list_all (claim_within (eng_allowlist eng)) (snd s')"
  proof (rule execute_cases [OF run])
    assume "extends s s'"
    then show ?thesis using start no_claim_within by (auto simp: extends_def)
  next
    fix p c
    assume "may_claim G E eng a p c" and "claims_once G (normalize_host G (ha_host a)) p c s eng' s'"
    then show ?thesis using start no_claim_within
      by (auto simp: claims_once_def may_claim_def claim_within_def claim_request_for_def)
  qed
  with same show ?thesis by simp
qed

lemma run_claims_within:
  "run_claims G (traced E) eng as s = (eng', s') \<Longrightarrow> list_all (claim_within (eng_allowlist eng)) (snd s) \<Longrightarrow>
    list_all (claim_within (eng_allowlist eng)) (snd s')"
proof (induction "as" arbitrary: eng s)
  case (Cons a as)
  obtain err eng1 a1 s1 where ex: "execute G (traced E) eng a s = (err, eng1, a1, s1)" by (metis prod_cases4)
  note step = execute_within [OF ex Cons.prems(2)]
  have "run_claims G (traced E) eng1 as s1 = (eng', s')" using Cons.prems(1) ex by simp
  note rest = Cons.IH [OF this]
  from rest [OF step [THEN conjunct1]] show ?case by (simp only: step [THEN conjunct2])
qed simp

subsection \<open>Properties\<close>

text \<open>C29. When the targets load, reading the same sources in batches hands over exactly those targets,
  in order and in chunks of the batch size, and stops at the first batch that fails.\<close>

theorem batches_cover_the_targets:
  assumes "load_scan_domains G open_file quote args list_path stdin = Inr domains"
    and "\<And>d. index_error d = None" and "0 < n" and "n \<le> 100000"
  shows "stream_scan_domains G open_file quote None index_error args list_path stdin (int n) (Some process) w =
    run_batches process (chunks n domains) w"
proof -
  let ?s = "\<lparr>st_seen = [], st_batch = [], st_processed = 0, st_world = w\<rparr>"
  have load: "add_sources open_file quote args list_path stdin (add_target G quote) [] = (None, domains)" "domains \<noteq> []"
    using assms(1) by (auto simp: load_scan_domains_def split: prod.splits option.splits if_splits)
  have "mirrors n process (add_sources open_file quote args list_path stdin (add_target G quote))
      (add_sources open_file quote args list_path stdin (add_streamed G quote index_error n process))"
    by (rule mirrors_sources) (rule mirrors_add [OF assms(2)])
  from mirrorsD [OF this load(1), of ?s]
  have run: "add_sources open_file quote args list_path stdin (add_streamed G quote index_error n process) ?s =
      feed n process domains ?s" by simp
  have fed: "finish_feed process (feed n process domains ?s) = run_batches process (chunks n domains) w"
    using feed_chunks [OF assms(3), of ?s process domains] assms(3) by simp
  have counted: "st_processed s2 \<noteq> 0"
    if "feed n process domains ?s = (None, s1)" "flush_batch process s1 = (None, s2)" for s1 s2
    using feed_processed [OF that(1)] flush_processed [OF that(2)] load(2) by simp
  show ?thesis
  proof (cases "feed n process domains ?s")
    case (Pair r s1)
    show ?thesis
    proof (cases r)
      case (Some e)
      with Pair fed run assms(3,4) show ?thesis by (simp add: stream_scan_domains_def finish_feed_def)
    next
      case None
      obtain r2 s2 where flush: "flush_batch process s1 = (r2, s2)" by (rule prod.exhaust)
      show ?thesis
      proof (cases r2)
        case None
        with flush have "st_processed s2 \<noteq> 0" using counted Pair \<open>r = None\<close> by simp
        with Pair \<open>r = None\<close> fed run assms(3,4) flush None show ?thesis
          by (simp add: stream_scan_domains_def finish_feed_def)
      next
        case (Some e)
        with Pair \<open>r = None\<close> fed run assms(3,4) flush show ?thesis
          by (simp add: stream_scan_domains_def finish_feed_def)
      qed
    qed
  qed
qed

text \<open>C11. Claims are made only with the option and its confirmation, and only for targets of the scan:
  the engine built from the authorised list never claims for another host, in any sequence of
  executions.\<close>

theorem claims_stay_among_the_targets:
  assumes "aggressive_claim_targets G file quote enabled confirmed raw domains = Inr hosts"
    and "new_engine G True hosts providers = Inr eng"
  shows "case run_claims G (traced E) eng as (w, []) of (eng', s') \<Rightarrow>
    enabled \<and> confirmed \<and> list_all (claim_within (set domains)) (snd s')"
proof -
  note sound = claim_targets_sound [OF assms(1)]
  have hosts: "hosts \<noteq> []" using assms(2) by (auto simp: new_engine_def Let_def split: if_splits)
  with sound have ok: "enabled" "confirmed" "set hosts \<subseteq> set domains" "list_all valid_scan_domain hosts"
    by (auto split: if_splits)
  have "map (normalize_host G) hosts = hosts"
    using ok(4) valid_domain_normal by (intro map_idI) (auto simp: list_all_iff)
  then have "eng_allowlist eng \<subseteq> set hosts"
    using assms(2) by (auto simp: new_engine_def Let_def split: if_splits)
  moreover obtain eng' s' where run: "run_claims G (traced E) eng as (w, []) = (eng', s')" by (rule prod.exhaust)
  moreover have "list_all (claim_within (eng_allowlist eng)) (snd s')" by (rule run_claims_within [OF run]) simp
  ultimately show ?thesis
    using ok(1,2,3) by (auto simp: list_all_iff intro: claim_within_mono)
qed

subsection \<open>Two targets\<close>

lemma two_valid: "valid_scan_domain ''a.test''" "valid_scan_domain ''b.test''"
  by code_simp+

lemma two_targets: "load_scan_domains ascii_env (\<lambda>_. Inl ''missing'') id [''a.test'', ''b.test'', ''a.test''] [] None =
  Inr [''a.test'', ''b.test'']"
  using two_valid [THEN valid_domain_normal, of ascii_env] two_valid
  by (simp add: load_scan_domains_def add_sources_def add_target_def target_of_line_def Let_def trim_space_def trim_func_def)

theorem batches_cover_the_targets_witness:
  "stream_scan_domains ascii_env (\<lambda>_. Inl ''missing'') id None (\<lambda>_. None) [''a.test'', ''b.test'', ''a.test''] [] None 1
    (Some (\<lambda>batch w. (None, w @ [batch]))) [] = (None, [[''a.test''], [''b.test'']])"
  using batches_cover_the_targets [OF two_targets, of "\<lambda>_. None" 1 "\<lambda>batch w. (None, w @ [batch])" "[]"]
  by (simp add: chunks.simps)

lemma one_claim_target:
  "aggressive_claim_targets ascii_env (\<lambda>_. None) id True True ''a.test'' [''a.test'', ''b.test''] = Inr [''a.test'']"
proof -
  have plain: "list_all plain_char ''a.test''" by (rule valid_domain_plain(1) [OF two_valid(1)])
  have "list_items ''a.test'' = [''a.test'']"
    unfolding list_items_def by (rule fields_func_one) (simp_all add: plain_ascii [OF plain])
  then show ?thesis
    using two_valid(1) valid_domain_normal [OF two_valid(1), of ascii_env] trim_space_plain [OF plain]
    by (simp add: aggressive_claim_targets_def Let_def list_content_def meaningful_items_def claim_target_def)
qed

lemma one_claim_engine:
  "new_engine ascii_env True [''a.test''] [Some ''aws''] = Inr (authorised_engine)"
  using valid_domain_normal [OF two_valid(1), of ascii_env]
  by (simp add: new_engine_def Let_def authorised_engine_def List.map_filter_def)

theorem claims_stay_among_the_targets_witness:
  "case run_claims ascii_env (traced obedient_env) authorised_engine [orphaned_host, orphaned_host] ((), []) of
    (eng', s') \<Rightarrow> list_all (claim_within {''a.test'', ''b.test''}) (snd s')"
  using claims_stay_among_the_targets [OF one_claim_target one_claim_engine,
      of obedient_env "[orphaned_host, orphaned_host]" "()"]
  by (auto split: prod.splits)

end
