(* ===== verification/Notify.thy ===== *)
theory Notify
  imports VerifyEngine Finding
begin

section \<open>The dispatcher of notifications (pkg/notify/dispatcher.go, types.go)\<close>

text \<open>
  Which results become alerts, with which severity, and which are dropped: below the minimum, seen
  before in the batch, or beyond the capacity of the queue. The adapters that send an alert and the
  Portuguese description of an evidence (\<open>internal/presentation\<close>) are parameters.
\<close>

datatype alert_severity = SeverityInfo | SeverityLow | SeverityMedium | SeverityHigh | SeverityCritical

fun severity_rank :: "alert_severity \<Rightarrow> int" where
  "severity_rank SeverityCritical = 5"
| "severity_rank SeverityHigh = 4"
| "severity_rank SeverityMedium = 3"
| "severity_rank SeverityLow = 2"
| "severity_rank SeverityInfo = 1"

definition parse_severity :: "go_env \<Rightarrow> (string \<Rightarrow> string) \<Rightarrow> string \<Rightarrow> string + alert_severity" where
  "parse_severity G quote v =
     (let s = to_lower G (trim_space v) in
      if s \<in> {'''', ''medium'', ''warning''} then Inr SeverityMedium
      else if s = ''info'' then Inr SeverityInfo
      else if s = ''low'' then Inr SeverityLow
      else if s = ''high'' then Inr SeverityHigh
      else if s = ''critical'' then Inr SeverityCritical
      else Inl ((''severidade de notifica'' @ [CHR 0xC3, CHR 0xA7, CHR 0xC3, CHR 0xA3] @ ''o n'' @ [CHR 0xC3, CHR 0xA3] @ ''o suportada '') @ quote v @ ''; use info, low, medium, high ou critical''))"

definition classification_severity :: "string \<Rightarrow> alert_severity" where
  "classification_severity level =
     (if level \<in> {LevelTakenOver, LevelZoneControlConfirmed} then SeverityCritical
      else if level \<in> {LevelConfirmed, LevelDelegationClaimabilityVerified, LevelTakeoverable} then SeverityHigh
      else if level \<in> {LevelLikelyTakeoverable, LevelDelegationTakeoverCandidate, LevelExposed} then SeverityMedium
      else if level \<in> {LevelOrphaned, LevelDelegationBroken, LevelMisconfigured} then SeverityLow
      else SeverityInfo)"

definition is_always_suppressed_initial_result :: "string \<Rightarrow> string \<Rightarrow> bool" where
  "is_always_suppressed_initial_result old new \<longleftrightarrow>
     old = [] \<and> new \<in> {LevelHealthy, LevelUnknown, LevelInsufficientEvidence, []}"

definition map_severity :: "string \<Rightarrow> string \<Rightarrow> alert_severity" where
  "map_severity old new =
     (if old \<noteq> [] \<and> risk_rank new < risk_rank old then SeverityInfo else classification_severity new)"

fun state_change_text :: "state_change \<Rightarrow> string" where
  "state_change_text Discovered = ''DISCOVERED''"
| "state_change_text Fixed = ''FIXED''"
| "state_change_text Improved = ''IMPROVED''"
| "state_change_text Regressed = ''REGRESSED''"
| "state_change_text Changed = ''CHANGED''"
| "state_change_text Unchanged = ''UNCHANGED''"
| "state_change_text Incomplete = ''INCOMPLETE''"

record alert_event =
  al_host :: string
  al_previous :: string
  al_current :: string
  al_change :: state_change
  al_score :: int
  al_severity :: alert_severity
  al_changed_at :: time
  al_evidences :: string
  al_vector :: string
  al_resource :: string

definition alert_context :: "(evidence \<Rightarrow> string) \<Rightarrow> host_analysis \<Rightarrow> string \<times> string \<times> string" where
  "alert_context describe a =
     (let p = primary (Some a); e = fc_evidence p; d = describe e;
          t = (if ev_type e = [] then [] else if d = [] then ev_type e else ev_type e @ ('' '' @ [CHR 0xE2, CHR 0x80, CHR 0x94] @ '' '') @ d) in
      (fc_vector p, fc_resource p, if t = [] then (''Resumo da evid'' @ [CHR 0xC3, CHR 0xAA] @ ''ncia causal indispon'' @ [CHR 0xC3, CHR 0xAD] @ ''vel'') else t))"

text \<open>\<open>dp_seen\<close> holds the identities of the batch; a dispatcher without notifiers queues nothing.\<close>

record dispatcher =
  dp_notifiers :: nat
  dp_minimum :: alert_severity
  dp_seen :: "string set"
  dp_queue :: "alert_event list"
  dp_closed :: bool

definition queue_capacity :: nat where "queue_capacity = 1000"

definition new_dispatcher :: "go_env \<Rightarrow> (string \<Rightarrow> string) \<Rightarrow> string \<Rightarrow> (string + nat) \<Rightarrow> string + dispatcher" where
  "new_dispatcher G quote minimum notifiers =
     (case parse_severity G quote minimum of
        Inl e \<Rightarrow> Inl e
      | Inr m \<Rightarrow> map_sum id (\<lambda>n. \<lparr>dp_notifiers = n, dp_minimum = m, dp_seen = {}, dp_queue = [], dp_closed = False\<rparr>) notifiers)"

definition begin_alert_batch :: "dispatcher \<Rightarrow> dispatcher" where
  "begin_alert_batch d = d\<lparr>dp_seen := {}\<rparr>"

definition alert_identity :: "go_env \<Rightarrow> (evidence \<Rightarrow> string) \<Rightarrow> verify_result \<Rightarrow> string" where
  "alert_identity G describe r =
     (case alert_context describe (vx_analysis r) of (vector, resource, _) \<Rightarrow>
        to_lower G (join_with ''|'' [state_change_text (vx_state r), vector, resource, vx_old r, vx_new r]))"

definition alert_of :: "(evidence \<Rightarrow> string) \<Rightarrow> time \<Rightarrow> verify_result \<Rightarrow> alert_event" where
  "alert_of describe now r =
     (let a = vx_analysis r in
      case alert_context describe a of (vector, resource, text) \<Rightarrow>
        \<lparr>al_host = vx_host r, al_previous = vx_old r, al_current = vx_new r, al_change = vx_state r,
         al_score = ha_risk_score a, al_severity = map_severity (vx_old r) (vx_new r),
         al_changed_at = (if ha_last_state_change a = 0 then now else ha_last_state_change a),
         al_evidences = text, al_vector = vector, al_resource = resource\<rparr>)"

definition worth_alert :: "dispatcher \<Rightarrow> verify_result \<Rightarrow> bool" where
  "worth_alert d r \<longleftrightarrow>
     vx_state r \<noteq> Unchanged \<and> vx_state r \<noteq> Incomplete \<and>
     \<not> is_always_suppressed_initial_result (vx_old r) (vx_new r) \<and>
     severity_rank (dp_minimum d) \<le> severity_rank (map_severity (vx_old r) (vx_new r))"

definition dispatch ::
  "go_env \<Rightarrow> (evidence \<Rightarrow> string) \<Rightarrow> time \<Rightarrow> verify_result \<Rightarrow> dispatcher \<Rightarrow> dispatcher"
where
  "dispatch G describe now r d =
     (if \<not> worth_alert d r then d
      else
        (let k = alert_identity G describe r in
         if k \<in> dp_seen d then d
         else
           (let d1 = d\<lparr>dp_seen := insert k (dp_seen d)\<rparr> in
            if dp_notifiers d = 0 \<or> dp_closed d \<or> queue_capacity \<le> length (dp_queue d) then d1
            else d1\<lparr>dp_queue := dp_queue d @ [alert_of describe now r]\<rparr>)))"

definition discovered_result :: "host_analysis \<Rightarrow> verify_result" where
  "discovered_result a =
     \<lparr>vx_host = ha_host a, vx_old = [], vx_new = ha_classification a, vx_state = Discovered,
      vx_analysis = a, vx_reason = [], vx_missing = [], vx_unexpected = []\<rparr>"

definition dispatch_analysis ::
  "go_env \<Rightarrow> (evidence \<Rightarrow> string) \<Rightarrow> time \<Rightarrow> host_analysis \<Rightarrow> dispatcher \<Rightarrow> dispatcher"
where
  "dispatch_analysis G describe now a d =
     (if ha_result_state a \<notin> {ResultUnset, ResultCandidate, ResultConfirmed} then d
      else dispatch G describe now (discovered_result a) d)"

text \<open>A worker takes the oldest alert and hands it to every notifier, whose errors are logged; after
  \<open>Flush\<close> closed the queue, the workers end when it is empty.\<close>

definition worker_take :: "dispatcher \<Rightarrow> (alert_event \<times> dispatcher) option" where
  "worker_take d = (case dp_queue d of [] \<Rightarrow> None | e # q \<Rightarrow> Some (e, d\<lparr>dp_queue := q\<rparr>))"

definition flush_dispatcher :: "dispatcher \<Rightarrow> dispatcher" where
  "flush_dispatcher d = d\<lparr>dp_closed := True\<rparr>"

end
