(* ===== verification/ScanRun.thy ===== *)
theory ScanRun
  imports ScanInput VerifyEngine Notify
begin

section \<open>A scan (cmd/scan.go, cmd/progress.go)\<close>

text \<open>
  What happens to one host, \<open>processDomain\<close>, and the options that are checked before. It composes
  the DNS discovery, the registry, the classification, the active verifiers, the claims, the
  confidence, the store and the dispatcher. The registry and the verifiers are relations, so
  processing is one. The store and the context of the batch are parameters on the world.
\<close>

subsection \<open>Errors of a claim that stop a scan\<close>

text \<open>\<open>errors.Is\<close> with \<open>ErrUnsafeClaimState\<close>.\<close>

fun is_unsafe_state :: "claim_error \<Rightarrow> bool" where
  "is_unsafe_state ErrUnsafeClaimState = True"
| "is_unsafe_state (ClaimFailure r (Some e)) = is_unsafe_state e"
| "is_unsafe_state (Wrapped pre e post) = is_unsafe_state e"
| "is_unsafe_state (Joined es) = list_ex is_unsafe_state es"
| "is_unsafe_state _ = False"

subsection \<open>Outcomes and progress\<close>

datatype domain_outcome = DomainCompleted | DomainSkipped | DomainFailed | DomainCanceled

fun outcome_status :: "domain_outcome \<Rightarrow> string" where
  "outcome_status DomainCompleted = ''DONE''"
| "outcome_status DomainSkipped = ''SKIPPED''"
| "outcome_status DomainFailed = ''FAILED''"
| "outcome_status DomainCanceled = ''PENDING''"

record domain_result =
  dr_outcome :: domain_outcome
  dr_classification :: string
  dr_fatal :: "claim_error option"
  dr_candidates :: "string list"
  dr_policy_match :: bool
  dr_state :: result_state
  dr_reason :: string

definition plain_result :: "domain_outcome \<Rightarrow> domain_result" where
  "plain_result out = \<lparr>dr_outcome = out, dr_classification = [], dr_fatal = None, dr_candidates = [],
     dr_policy_match = False, dr_state = ResultUnset, dr_reason = []\<rparr>"

record scan_progress =
  pr_total :: int
  pr_started :: int
  pr_active :: int
  pr_completed :: int
  pr_skipped :: int
  pr_failed :: int
  pr_canceled :: int
  pr_classifications :: "(string, int) gomap"
  pr_states :: "(string, int) gomap"
  pr_reasons :: "(string, int) gomap"

definition new_scan_progress :: "int \<Rightarrow> scan_progress" where
  "new_scan_progress hosts = \<lparr>pr_total = hosts, pr_started = 0, pr_active = 0, pr_completed = 0,
     pr_skipped = 0, pr_failed = 0, pr_canceled = 0,
     pr_classifications = [], pr_states = [], pr_reasons = []\<rparr>"

definition host_started :: "scan_progress \<Rightarrow> scan_progress" where
  "host_started p = p\<lparr>pr_started := pr_started p + 1, pr_active := pr_active p + 1\<rparr>"

definition add_total :: "int \<Rightarrow> scan_progress \<Rightarrow> scan_progress" where
  "add_total n p = (if n > 0 then p\<lparr>pr_total := pr_total p + n\<rparr> else p)"

text \<open>\<open>m[k]++\<close>.\<close>

definition count_of :: "(string, int) gomap \<Rightarrow> string \<Rightarrow> int" where
  "count_of m k = (case map_of m k of None \<Rightarrow> 0 | Some n \<Rightarrow> n)"

definition increment :: "string \<Rightarrow> (string, int) gomap \<Rightarrow> (string, int) gomap" where
  "increment k m = map_put m k (count_of m k + 1)"

fun result_state_text :: "result_state \<Rightarrow> string" where
  "result_state_text ResultUnset = []"
| "result_state_text ResultObservation = ''OBSERVATION''"
| "result_state_text ResultCandidate = ''CANDIDATE''"
| "result_state_text ResultConfirmed = ''CONFIRMED''"
| "result_state_text ResultSuppressed = ''SUPPRESSED''"
| "result_state_text ResultInconclusive = ''INCONCLUSIVE''"
| "result_state_text ResultHealthy = ''HEALTHY''"

definition host_ended :: "domain_outcome \<Rightarrow> scan_progress \<Rightarrow> scan_progress" where
  "host_ended out p =
     (let q = p\<lparr>pr_active := pr_active p - 1\<rparr> in
      case out of
        DomainCompleted \<Rightarrow> q\<lparr>pr_completed := pr_completed q + 1\<rparr>
      | DomainSkipped \<Rightarrow> q\<lparr>pr_skipped := pr_skipped q + 1\<rparr>
      | DomainFailed \<Rightarrow> q\<lparr>pr_failed := pr_failed q + 1\<rparr>
      | DomainCanceled \<Rightarrow> q\<lparr>pr_canceled := pr_canceled q + 1\<rparr>)"

definition host_finished :: "domain_result \<Rightarrow> scan_progress \<Rightarrow> scan_progress" where
  "host_finished r p =
     (let q = host_ended (dr_outcome r) p; state = result_state_text (dr_state r) in
      q\<lparr>pr_classifications := (if dr_classification r \<noteq> [] then increment (dr_classification r) (pr_classifications q)
           else pr_classifications q),
        pr_states := (if dr_state r \<noteq> ResultUnset then increment state (pr_states q) else pr_states q),
        pr_reasons := (if dr_state r \<noteq> ResultUnset \<and> dr_reason r \<noteq> []
           then increment (state @ ''|'' @ dr_reason r) (pr_reasons q) else pr_reasons q)\<rparr>)"

definition processed_hosts :: "scan_progress \<Rightarrow> int" where
  "processed_hosts p = pr_completed p + pr_skipped p + pr_failed p"

definition not_started :: "scan_progress \<Rightarrow> int" where
  "not_started p = max 0 (pr_total p - pr_started p)"

text \<open>The texts of the summary. \<open>operations\<close> is the number the limiter has granted and \<open>elapsed\<close> the
  time in nanoseconds; \<open>Duration.Round\<close> rounds half a second up.\<close>

fun outcome_text :: "domain_outcome \<Rightarrow> string" where
  "outcome_text DomainCompleted = (''conclu'' @ [CHR 0xC3, CHR 0xAD] @ ''do'')"
| "outcome_text DomainSkipped = ''ignorado''"
| "outcome_text DomainFailed = ''falhou''"
| "outcome_text DomainCanceled = ''cancelado''"

definition rounded_seconds :: "int \<Rightarrow> nat" where
  "rounded_seconds d = nat ((max 0 d + 500000000) div 1000000000)"

definition compact_duration :: "int \<Rightarrow> string" where
  "compact_duration d =
     (let s = rounded_seconds d in
      (if s \<ge> 3600 then nat_dec (s div 3600) @ ''h'' else []) @
      (if s \<ge> 60 then nat_dec (s div 60 mod 60) @ ''m'' else []) @ nat_dec (s mod 60) @ ''s'')"

definition inconclusive_label :: "go_env \<Rightarrow> string \<Rightarrow> string" where
  "inconclusive_label G reason =
     (case map_of [(''TIMEOUT'', ''tempo esgotado''), (''TLS_ERROR'', ''erro TLS''), (''DNS_SERVFAIL'', ''DNS SERVFAIL''),
        (''CONNECTION_REFUSED'', (''conex'' @ [CHR 0xC3, CHR 0xA3] @ ''o recusada'')), (''UNSUPPORTED_PROTOCOL'', (''protocolo n'' @ [CHR 0xC3, CHR 0xA3] @ ''o suportado'')),
        (''INSUFFICIENT_EVIDENCE'', (''evid'' @ [CHR 0xC3, CHR 0xAA] @ ''ncia insuficiente'')),
        (''REDIRECT_DESTINATION_INCONCLUSIVE'', ''destino de redirect inconclusivo'')] reason of
        Some label \<Rightarrow> label
      | None \<Rightarrow> to_lower G (map (\<lambda>c. if c = CHR ''_'' then CHR '' '' else c) reason))"

definition inconclusive_part :: "go_env \<Rightarrow> string \<times> int \<Rightarrow> string option" where
  "inconclusive_part G entry =
     (case cut_at CHR ''|'' (fst entry) of (state, reason, found) \<Rightarrow>
        if found \<and> state = ''INCONCLUSIVE'' then Some (inconclusive_label G reason @ '': '' @ itoa (snd entry)) else None)"

definition format_inconclusive_reasons :: "go_env \<Rightarrow> (string, int) gomap \<Rightarrow> string" where
  "format_inconclusive_reasons G reasons = join_with '' | '' (sort (List.map_filter (inconclusive_part G) reasons))"

definition format_scan_breakdown :: "go_env \<Rightarrow> nat \<Rightarrow> int \<Rightarrow> scan_progress \<Rightarrow> string" where
  "format_scan_breakdown G operations elapsed p =
     (let states = count_of (pr_states p); breakdown = format_inconclusive_reasons G (pr_reasons p) in
      ''[*] Resumo: '' @ compact_duration elapsed @ '' decorridos | '' @ nat_dec operations @ ('' opera'' @ [CHR 0xC3, CHR 0xA7, CHR 0xC3, CHR 0xB5] @ ''es | confirmados: '') @ itoa (states ''CONFIRMED'') @ '' | candidatos: '' @ itoa (states ''CANDIDATE'') @
      ('' | observa'' @ [CHR 0xC3, CHR 0xA7, CHR 0xC3, CHR 0xB5] @ ''es: '') @ itoa (states ''OBSERVATION'') @ '' | suprimidos: '' @ itoa (states ''SUPPRESSED'') @
      ('' | saud'' @ [CHR 0xC3, CHR 0xA1] @ ''veis: '') @ itoa (states ''HEALTHY'') @ '' | inconclusivos: '' @ itoa (states ''INCONCLUSIVE'') @
      '' | ignorados: '' @ itoa (pr_skipped p) @
      (if breakdown \<noteq> [] then [CHR 0x0A] @ ''[*] Inconclusivos por motivo: '' @ breakdown else []))"

subsection \<open>Options\<close>

record scan_options =
  so_quiet :: bool
  so_json :: bool
  so_explain :: bool
  so_explain_json :: bool
  so_show_inconclusive :: bool
  so_min_severity :: string
  so_fail_on :: string
  so_check_srv :: bool
  so_srv_exhaustive :: bool
  so_srv_owners :: "string list"
  so_pivot_san :: bool

definition output_modes :: "scan_options \<Rightarrow> string list" where
  "output_modes Q =
     (if so_quiet Q then [''--quiet''] else []) @ (if so_json Q then [''--json''] else []) @
     (if so_explain Q then [''--explain''] else []) @ (if so_explain_json Q then [''--explain-json''] else [])"

definition validate_scan_output_modes :: "scan_options \<Rightarrow> string option" where
  "validate_scan_output_modes Q =
     (if length (output_modes Q) > 1
      then Some ((''modos de sa'' @ [CHR 0xC3, CHR 0xAD] @ ''da incompat'' @ [CHR 0xC3, CHR 0xAD] @ ''veis: '') @ join_with '', '' (output_modes Q) @ ''; escolha apenas um'')
      else if so_show_inconclusive Q \<and> so_quiet Q
      then Some (''--show-inconclusive n'' @ [CHR 0xC3, CHR 0xA3] @ ''o pode ser combinado com --quiet'') else None)"

definition validate_aggressive_runtime :: "bool \<Rightarrow> string \<Rightarrow> string option" where
  "validate_aggressive_runtime enabled daemon =
     (if enabled \<and> trim_space daemon \<noteq> []
      then Some (''--aggressive n'' @ [CHR 0xC3, CHR 0xA3] @ ''o pode ser combinado com --daemon; a reivindica'' @ [CHR 0xC3, CHR 0xA7, CHR 0xC3, CHR 0xA3] @ ''o autom'' @ [CHR 0xC3, CHR 0xA1] @ ''tica exige uma execu'' @ [CHR 0xC3, CHR 0xA7, CHR 0xC3, CHR 0xA3] @ ''o '' @ [CHR 0xC3, CHR 0xBA] @ ''nica e expl'' @ [CHR 0xC3, CHR 0xAD] @ ''cita'')
      else None)"

definition effective_host_concurrency :: "int \<Rightarrow> int \<Rightarrow> int" where
  "effective_host_concurrency requested operations =
     (let r = (if requested < 1 then 1 else requested) in
      if operations > 0 \<and> r > operations then operations else r)"

text \<open>The profile of a run that is resumed must agree, the related hosts apart.\<close>

definition comparable_profile :: "scan_profile \<Rightarrow> scan_profile" where
  "comparable_profile p = p\<lparr>sp_related_hosts := [], sp_related_impact_in_scope := False\<rparr>"

definition same_scan_profile :: "scan_profile option \<Rightarrow> scan_profile option \<Rightarrow> bool" where
  "same_scan_profile current stored = (map_option comparable_profile current = map_option comparable_profile stored)"

definition explicit_root_domains :: "go_env \<Rightarrow> string list \<Rightarrow> string set" where
  "explicit_root_domains G domains =
     set (filter (\<lambda>r. r \<noteq> []) (map (extract_root_domain G)
       (filter (\<lambda>d. equal_fold G (extract_root_domain G d) d) domains)))"

definition cli_severity_allows :: "go_env \<Rightarrow> string \<Rightarrow> string \<Rightarrow> bool" where
  "cli_severity_allows G level minimum \<longleftrightarrow>
     trim_space minimum = [] \<or>
     (case parse_severity G id minimum of
        Inl _ \<Rightarrow> False
      | Inr m \<Rightarrow> severity_rank m \<le> severity_rank (classification_severity level))"

definition is_delegation_classification :: "string \<Rightarrow> bool" where
  "is_delegation_classification level \<longleftrightarrow>
     level \<in> {LevelDelegationBroken, LevelDelegationTakeoverCandidate,
       LevelDelegationClaimabilityVerified, LevelZoneControlConfirmed}"

definition is_prioritized_result :: "result_state \<Rightarrow> bool" where
  "is_prioritized_result s \<longleftrightarrow> s \<in> {ResultCandidate, ResultConfirmed}"

definition decision_rule :: "host_analysis \<Rightarrow> string" where
  "decision_rule a = (case ha_decision a of None \<Rightarrow> [] | Some d \<Rightarrow> dec_rule d)"

definition has_delegation_finding :: "host_analysis \<Rightarrow> bool" where
  "has_delegation_finding a \<longleftrightarrow>
     list_ex (\<lambda>e. ev_type e \<in> {''DELEGATION_BROKEN'', ''DELEGATION_TAKEOVER_CANDIDATE'',
       ''DELEGATION_CLAIMABILITY_VERIFIED'', ''DELEGATION_CLAIMABILITY_NOT_DEMONSTRATED'',
       ''ZONE_CONTROL_CONFIRMED''}) (ha_evidences a)"

subsection \<open>The findings seen in a batch\<close>

definition first_finding :: "go_env \<Rightarrow> string \<Rightarrow> string set \<Rightarrow> bool \<times> string set" where
  "first_finding G key seen = (let k = to_lower G (trim_space key) in (k \<notin> seen, insert k seen))"

definition scan_srv_key :: "srv_record \<Rightarrow> string" where
  "scan_srv_key r = srv_owner r @ ''|'' @ srv_target r @ ''|'' @ nat_dec (unat (srv_port r)) @ ''|'' @
     nat_dec (unat (srv_priority r)) @ ''|'' @ nat_dec (unat (srv_weight r))"

definition with_found_srv :: "srv_record list \<Rightarrow> dns_record_set \<Rightarrow> dns_record_set" where
  "with_found_srv found d =
     (let merged = dedup_by scan_srv_key {} (rs_srv_records d @ found) in
      d\<lparr>rs_srv_records := merged, rs_srv := map srv_text merged\<rparr>)"

subsection \<open>One host\<close>

record 'w scanner =
  xs_dns :: "'w dns_env"
  xs_collectors :: "'w net shared collector list"
  xs_http :: "'w net http_env"
  xs_check_cloud :: bool
  xs_claims :: "'w net claim_env option"
  xs_options :: scan_options
  xs_profile :: scan_profile
  xs_roots :: "string set"
  xs_run_id :: string
  xs_describe :: "evidence \<Rightarrow> string"
  xs_get_host :: "string \<Rightarrow> 'w net \<Rightarrow> (string + host_analysis option) \<times> 'w net"
  xs_save_analysis :: "host_analysis \<Rightarrow> 'w net \<Rightarrow> string option \<times> 'w net"
  xs_save_observation :: "string \<Rightarrow> host_analysis \<Rightarrow> 'w net \<Rightarrow> string option \<times> 'w net"
  xs_cancelled :: "'w net \<Rightarrow> bool"
  xs_canceled_error :: "string \<Rightarrow> bool"
  xs_canceled_dns :: "dns_error \<Rightarrow> bool"

abbreviation xs_strings :: "'w scanner \<Rightarrow> go_env" where
  "xs_strings X \<equiv> de_go (xs_dns X)"

text \<open>What the goroutines of a batch share: the world, the engine of claims, the findings seen, the
  number of results that are counted, the dispatcher.\<close>

record 'w scan_shared =
  sh_net :: "'w net"
  sh_claims :: claim_engine
  sh_seen :: "string set"
  sh_found :: int
  sh_alerts :: dispatcher

definition scan_srv_base :: "'w scanner \<Rightarrow> string \<Rightarrow> string" where
  "scan_srv_base X domain =
     (let b = extract_root_domain (xs_strings X) domain in
      if so_srv_exhaustive (xs_options X) \<or> b = [] then domain else b)"

text \<open>The records of the host: \<open>Inl\<close> is the outcome when there are none. The context counts as
  cancelled when it is, or when the error says so.\<close>

definition discovery_outcome :: "'w scanner \<Rightarrow> dns_error \<Rightarrow> 'w net \<Rightarrow> domain_outcome" where
  "discovery_outcome X e s =
     (case e of
        WildcardFiltered _ \<Rightarrow> DomainSkipped
      | _ \<Rightarrow> if xs_cancelled X s \<or> xs_canceled_dns X e then DomainCanceled else DomainFailed)"

definition discover_host ::
  "'w scanner \<Rightarrow> nat list \<Rightarrow> string \<Rightarrow> 'w scan_shared \<Rightarrow> (domain_outcome + dns_record_set) \<times> 'w scan_shared"
where
  "discover_host X order domain sh =
     (case run_state (discover_profile (xs_dns X) order domain) (sh_net sh) of
        ((records, Some e), s1) \<Rightarrow> (Inl (discovery_outcome X e s1), sh\<lparr>sh_net := s1\<rparr>)
      | ((records, None), s1) \<Rightarrow>
          if so_check_srv (xs_options X) \<and> \<not> prefix ''_'' domain then
            (case run_state (discover_common_srv (xs_dns X) (scan_srv_base X domain) (so_srv_owners (xs_options X))) s1 of
               (Inr (srv # srvs), s2) \<Rightarrow>
                 (case first_finding (xs_strings X) (''SRV_DISCOVERY|'' @ scan_srv_base X domain) (sh_seen sh) of
                    (new, seen) \<Rightarrow>
                      (Inr (if new then with_found_srv (srv # srvs) records else records), sh\<lparr>sh_net := s2, sh_seen := seen\<rparr>))
             | (_, s2) \<Rightarrow> (Inr records, sh\<lparr>sh_net := s2\<rparr>))
          else (Inr records, sh\<lparr>sh_net := s1\<rparr>))"

definition new_analysis :: "'w scanner \<Rightarrow> string \<Rightarrow> dns_record_set \<Rightarrow> host_analysis option \<Rightarrow> host_analysis" where
  "new_analysis X domain records previous =
     zero_host_analysis\<lparr>ha_host := domain, ha_dns := records, ha_classification := LevelUnknown,
       ha_scan_profile := Some ((xs_profile X)\<lparr>sp_related_impact_in_scope :=
         extract_root_domain (xs_strings X) domain \<in> xs_roots X\<rparr>),
       ha_previous_evidences := (case previous of None \<Rightarrow> [] | Some p \<Rightarrow> ha_evidences p)\<rparr>"

definition nothing_found :: "host_analysis \<Rightarrow> bool" where
  "nothing_found a \<longleftrightarrow>
     rs_a (ha_dns a) = [] \<and> rs_cname (ha_dns a) = [] \<and> rs_mx (ha_dns a) = [] \<and> rs_srv (ha_dns a) = [] \<and>
     ha_evidences a = []"

definition classified :: "go_env \<Rightarrow> host_analysis \<Rightarrow> host_analysis" where
  "classified G a = (case classify G a of (b, level) \<Rightarrow> b\<lparr>ha_classification := level\<rparr>)"

text \<open>The claim, when the scan has an engine: the error that stops the scan, if there is one.\<close>

definition claim_stage ::
  "'w scanner \<Rightarrow> host_analysis \<Rightarrow> 'w scan_shared \<Rightarrow> claim_error option \<times> host_analysis \<times> 'w scan_shared"
where
  "claim_stage X a sh =
     (case xs_claims X of
        None \<Rightarrow> (None, a, sh)
      | Some E \<Rightarrow>
          (case execute (xs_strings X) E (sh_claims sh) a (sh_net sh) of
             (err, eng, a1, s1) \<Rightarrow>
               ((case err of None \<Rightarrow> None | Some e \<Rightarrow> if is_unsafe_state e then Some e else None),
                classified (xs_strings X) a1, sh\<lparr>sh_net := s1, sh_claims := eng\<rparr>)))"

text \<open>What is shown of a result: whether it counts, and whether the policy of the exit code matches.\<close>

definition report_stage ::
  "'w scanner \<Rightarrow> time \<Rightarrow> claim_error option \<Rightarrow> host_analysis \<Rightarrow> 'w scan_shared \<Rightarrow> domain_result \<times> 'w scan_shared"
where
  "report_stage X now fatal a sh =
     (let G = xs_strings X; Q = xs_options X;
          alerts = dispatch_analysis G (xs_describe X) now a (sh_alerts sh);
          (suppress, seen) = (case ha_delegation a of
            Some d \<Rightarrow> if has_delegation_finding a
              then (case first_finding G (''NS|'' @ dlg_zone d) (sh_seen sh) of (new, s) \<Rightarrow> (\<not> new, s))
              else (False, sh_seen sh)
          | None \<Rightarrow> (False, sh_seen sh));
          relevant = is_prioritized_result (ha_result_state a);
          visible = (relevant \<and> cli_severity_allows G (ha_classification a) (so_min_severity Q));
          countable = (visible \<and> \<not> (suppress \<and> is_delegation_classification (ha_classification a))) in
      (\<lparr>dr_outcome = (if fatal = None then DomainCompleted else DomainFailed),
        dr_classification = ha_classification a, dr_fatal = fatal, dr_candidates = ha_san_candidates a,
        dr_policy_match = (so_fail_on Q \<noteq> [] \<and> relevant \<and> cli_severity_allows G (ha_classification a) (so_fail_on Q)),
        dr_state = ha_result_state a, dr_reason = decision_rule a\<rparr>,
       sh\<lparr>sh_alerts := alerts, sh_seen := seen, sh_found := sh_found sh + (if countable then 1 else 0)\<rparr>))"

text \<open>From the claim to the result: the context, the confidence and the store.\<close>

definition save_stage ::
  "'w scanner \<Rightarrow> time \<Rightarrow> claim_error option \<Rightarrow> host_analysis \<Rightarrow> 'w scan_shared \<Rightarrow> domain_result \<times> 'w scan_shared"
where
  "save_stage X now fatal a0 sh =
     (if xs_cancelled X (sh_net sh) then (plain_result DomainCanceled, sh)
      else
        (let a = fst (calculate a0) in
         case xs_save_analysis X a (sh_net sh) of
           (Some e, s1) \<Rightarrow>
             if xs_cancelled X s1 \<or> xs_canceled_error X e then (plain_result DomainCanceled, sh\<lparr>sh_net := s1\<rparr>)
             else (case fatal of
                None \<Rightarrow> (plain_result DomainFailed, sh\<lparr>sh_net := s1\<rparr>)
              | Some f \<Rightarrow> ((plain_result DomainFailed)\<lparr>dr_fatal := Some (Joined [f, Wrapped ((''persistindo a an'' @ [CHR 0xC3, CHR 0xA1] @ ''lise de '') @ ha_host a0 @ '': '') (claim_error.PlainError e) []])\<rparr>,
                  sh\<lparr>sh_net := s1\<rparr>))
         | (None, s1) \<Rightarrow>
             (case xs_save_observation X (xs_run_id X) a s1 of
                (Some e, s2) \<Rightarrow> (plain_result DomainFailed, sh\<lparr>sh_net := s2\<rparr>)
              | (None, s2) \<Rightarrow> report_stage X now fatal a (sh\<lparr>sh_net := s2\<rparr>))))"

text \<open>\<open>processDomain\<close> after its first look at the context.\<close>

inductive host_run ::
  "'w scanner \<Rightarrow> string \<Rightarrow> 'w scan_shared \<Rightarrow> domain_result \<Rightarrow> 'w scan_shared \<Rightarrow> bool" for X domain sh
where
  undiscovered: "mset order = mset [0 ..< length (profile_tasks (xs_dns X) domain)] \<Longrightarrow>
     discover_host X order domain sh = (Inl out, sh1) \<Longrightarrow> host_run X domain sh (plain_result out) sh1"
| no_history: "mset order = mset [0 ..< length (profile_tasks (xs_dns X) domain)] \<Longrightarrow>
     discover_host X order domain sh = (Inr records, sh1) \<Longrightarrow>
     xs_get_host X domain (sh_net sh1) = (Inl e, s2) \<Longrightarrow>
     host_run X domain sh (plain_result DomainFailed) (sh1\<lparr>sh_net := s2\<rparr>)"
| uncollected: "mset order = mset [0 ..< length (profile_tasks (xs_dns X) domain)] \<Longrightarrow>
     discover_host X order domain sh = (Inr records, sh1) \<Longrightarrow>
     xs_get_host X domain (sh_net sh1) = (Inr previous, s2) \<Longrightarrow>
     registry_run (xs_collectors X) (new_analysis X domain records previous, s2) (a3, s3) (Some e) \<Longrightarrow>
     host_run X domain sh (plain_result (if xs_cancelled X s3 \<or> xs_canceled_error X e then DomainCanceled else DomainFailed))
       (sh1\<lparr>sh_net := s3\<rparr>)"
| empty: "mset order = mset [0 ..< length (profile_tasks (xs_dns X) domain)] \<Longrightarrow>
     discover_host X order domain sh = (Inr records, sh1) \<Longrightarrow>
     xs_get_host X domain (sh_net sh1) = (Inr previous, s2) \<Longrightarrow>
     registry_run (xs_collectors X) (new_analysis X domain records previous, s2) (a3, s3) None \<Longrightarrow>
     nothing_found a3 \<Longrightarrow> host_run X domain sh (plain_result DomainSkipped) (sh1\<lparr>sh_net := s3\<rparr>)"
| analysed: "mset order = mset [0 ..< length (profile_tasks (xs_dns X) domain)] \<Longrightarrow>
     discover_host X order domain sh = (Inr records, sh1) \<Longrightarrow>
     xs_get_host X domain (sh_net sh1) = (Inr previous, s2) \<Longrightarrow>
     registry_run (xs_collectors X) (new_analysis X domain records previous, s2) (a3, s3) None \<Longrightarrow>
     \<not> nothing_found a3 \<Longrightarrow>
     engine_run (xs_http X) (xs_check_cloud X) (process_analysis (xs_strings X) t1 t2 a3, s3) (a4, s4) \<Longrightarrow>
     claim_stage X (reclassify (xs_strings X) a4) (sh1\<lparr>sh_net := s4\<rparr>) = (fatal, a5, sh5) \<Longrightarrow>
     save_stage X now fatal a5 sh5 = (result, sh6) \<Longrightarrow> host_run X domain sh result sh6"

inductive_cases host_runE: "host_run X domain sh result sh'"

end
