(* ===== verification/ScanBatch.thy ===== *)
theory ScanBatch
  imports ScanRun
begin

section \<open>A batch of hosts (cmd/scan.go, the loop of runScan)\<close>

text \<open>
  The hosts of a batch are goroutines, at most as many as the semaphore admits. A step spawns the
  next host, lets a spawned one pass its first look at the context, ends one, or starts the next
  round with the names that certificates contributed. Processing a host (\<open>host_run\<close>) is one step
  here, taken when it ends: what hosts interleave with each other is below this model. The first
  error of a claim that is unsafe cancels the context of the batch.
\<close>

definition max_san_pivot_hosts :: nat where "max_san_pivot_hosts = 256"

datatype scan_task = Spawned string | Running string

fun task_host :: "scan_task \<Rightarrow> string" where
  "task_host (Spawned d) = d"
| "task_host (Running d) = d"

text \<open>\<open>bt_marked\<close> are the calls of \<open>MarkTarget\<close>, in order.\<close>

record 'w batch =
  bt_domains :: "string list"
  bt_waiting :: "string list"
  bt_tasks :: "scan_task list"
  bt_next :: "string list"
  bt_names :: "string set"
  bt_pivoted :: nat
  bt_fatal :: "claim_error option"
  bt_policy :: bool
  bt_marked :: "(string \<times> domain_result) list"
  bt_progress :: scan_progress
  bt_shared :: "'w scan_shared"

definition start_batch :: "string list \<Rightarrow> 'w scan_shared \<Rightarrow> 'w batch" where
  "start_batch domains sh =
     \<lparr>bt_domains = domains, bt_waiting = domains, bt_tasks = [], bt_next = [], bt_names = set domains,
      bt_pivoted = 0, bt_fatal = None, bt_policy = False, bt_marked = [],
      bt_progress = new_scan_progress (int (length domains)), bt_shared = sh\<rparr>"

definition batch_cancelled :: "'w scanner \<Rightarrow> 'w batch \<Rightarrow> bool" where
  "batch_cancelled X b \<longleftrightarrow> bt_fatal b \<noteq> None \<or> xs_cancelled X (sh_net (bt_shared b))"

text \<open>A host that is running when an error of a claim cancels the batch may see that or not.\<close>

definition seeing_cancel :: "bool \<Rightarrow> 'w scanner \<Rightarrow> 'w scanner" where
  "seeing_cancel saw X = X\<lparr>xs_cancelled := \<lambda>s. saw \<or> xs_cancelled X s\<rparr>"

text \<open>The end of a goroutine: the counters, the policy, the status of the target, the new names and
  the first fatal error.\<close>

definition end_task :: "'w scanner \<Rightarrow> nat \<Rightarrow> string \<Rightarrow> domain_result \<Rightarrow> 'w scan_shared \<Rightarrow> 'w batch \<Rightarrow> 'w batch" where
  "end_task X i d r sh b =
     (let (added, names) = (if so_pivot_san (xs_options X) \<and> dr_candidates r \<noteq> []
          then queue_sans (bt_names b) (dr_candidates r) (max_san_pivot_hosts - bt_pivoted b) else ([], bt_names b)) in
      b\<lparr>bt_tasks := take i (bt_tasks b) @ drop (Suc i) (bt_tasks b),
        bt_progress := host_finished r (bt_progress b),
        bt_policy := (bt_policy b \<or> dr_policy_match r),
        bt_marked := bt_marked b @ [(d, r)],
        bt_next := bt_next b @ added, bt_names := names, bt_pivoted := bt_pivoted b + length added,
        bt_fatal := (case bt_fatal b of Some e \<Rightarrow> Some e | None \<Rightarrow> dr_fatal r),
        bt_shared := sh\<rparr>)"

text \<open>A cancelled context may lose the race of the \<open>select\<close> against a free slot, so a host can still
  be spawned; it then ends as cancelled.\<close>

inductive batch_step :: "'w scanner \<Rightarrow> nat \<Rightarrow> 'w batch \<Rightarrow> 'w batch \<Rightarrow> bool" for X slots
where
  spawn: "bt_waiting b = d # ds \<Longrightarrow> length (bt_tasks b) < slots \<Longrightarrow>
     batch_step X slots b (b\<lparr>bt_waiting := ds, bt_tasks := bt_tasks b @ [Spawned d],
       bt_progress := host_started (bt_progress b)\<rparr>)"
| leave: "bt_waiting b \<noteq> [] \<Longrightarrow> batch_cancelled X b \<Longrightarrow> batch_step X slots b (b\<lparr>bt_waiting := []\<rparr>)"
| pass: "i < length (bt_tasks b) \<Longrightarrow> bt_tasks b ! i = Spawned d \<Longrightarrow> \<not> batch_cancelled X b \<Longrightarrow>
     batch_step X slots b (b\<lparr>bt_tasks := (bt_tasks b)[i := Running d]\<rparr>)"
| cancel: "i < length (bt_tasks b) \<Longrightarrow> bt_tasks b ! i = Spawned d \<Longrightarrow> batch_cancelled X b \<Longrightarrow>
     batch_step X slots b (end_task X i d (plain_result DomainCanceled) (bt_shared b) b)"
| finish: "i < length (bt_tasks b) \<Longrightarrow> bt_tasks b ! i = Running d \<Longrightarrow> (saw \<longrightarrow> bt_fatal b \<noteq> None) \<Longrightarrow>
     host_run (seeing_cancel saw X) d (bt_shared b) r sh \<Longrightarrow> batch_step X slots b (end_task X i d r sh b)"
| round: "bt_waiting b = [] \<Longrightarrow> bt_tasks b = [] \<Longrightarrow> \<not> batch_cancelled X b \<Longrightarrow> bt_next b \<noteq> [] \<Longrightarrow>
     batch_step X slots b (b\<lparr>bt_domains := append_unique_domains (bt_domains b) (sort (bt_next b)),
       bt_waiting := sort (bt_next b), bt_next := [],
       bt_progress := add_total (int (length (bt_next b))) (bt_progress b)\<rparr>)"

inductive_cases batch_stepE: "batch_step X slots b b'"

definition batch_over :: "'w scanner \<Rightarrow> 'w batch \<Rightarrow> bool" where
  "batch_over X b \<longleftrightarrow> bt_waiting b = [] \<and> bt_tasks b = [] \<and> (batch_cancelled X b \<or> bt_next b = [])"

definition batch_run :: "'w scanner \<Rightarrow> nat \<Rightarrow> string list \<Rightarrow> 'w scan_shared \<Rightarrow> 'w batch \<Rightarrow> bool" where
  "batch_run X slots domains sh b \<longleftrightarrow> (batch_step X slots)\<^sup>*\<^sup>* (start_batch domains sh) b \<and> batch_over X b"

text \<open>How the run is recorded, and the error that \<open>runScan\<close> returns: a fatal error ends it as failed,
  a cancelled context leaves it to be resumed, and a run that belongs to a session is ended by it.\<close>

datatype scan_error = UnsafeClaim claim_error | PolicyMatched string

definition batch_end :: "bool \<Rightarrow> bool \<Rightarrow> string \<Rightarrow> 'w batch \<Rightarrow> string option \<times> scan_error option" where
  "batch_end cancelled in_session fail_on b =
     (case bt_fatal b of
        Some e \<Rightarrow> (Some ''FAILED'', Some (UnsafeClaim e))
      | None \<Rightarrow>
          ((if cancelled then Some ''INTERRUPTED'' else if in_session then None else Some ''COMPLETED''),
           (if bt_policy b then Some (PolicyMatched fail_on) else None)))"

text \<open>The end of a session (\<open>finishScanSession\<close>): the status that is stored.\<close>

definition session_status :: "bool \<Rightarrow> bool \<Rightarrow> string" where
  "session_status cancelled failed = (if cancelled then ''INTERRUPTED'' else if failed then ''FAILED'' else ''COMPLETED'')"

text \<open>The pause of the daemon: a quarter of it, at least a minute, when something changed within a
  day. Times are nanoseconds; the division truncates.\<close>

definition one_minute :: int where "one_minute = 60000000000"

definition daemon_pause :: "int \<Rightarrow> int option \<Rightarrow> int" where
  "daemon_pause interval since_change =
     (case since_change of
        Some s \<Rightarrow> if s < 24 * 60 * one_minute then max one_minute (go_div interval 4) else interval
      | None \<Rightarrow> interval)"

end
