(* ===== verification/ScanProps.thy ===== *)
theory ScanProps
  imports ScanBatch VerifierProps
begin

section \<open>Properties of a scan\<close>

text \<open>
  The names of a batch are followed by an invariant of its steps: a name waits, runs, is queued for
  the next round or is marked, and only one of these. A measure that every step decreases shows
  that no batch goes on for ever although certificates contribute new names.
\<close>

subsection \<open>What a step does to the names\<close>

lemma queue_sans_adds:
  "queue_sans seen cs limit = (added, names) \<Longrightarrow>
     distinct added \<and> set added \<inter> seen = {} \<and> names = seen \<union> set added \<and> length added \<le> limit \<and>
     set added \<subseteq> set cs \<and> list_all valid_scan_domain added"
proof (induction seen cs limit arbitrary: added names rule: queue_sans.induct)
  case (2 seen c cs limit)
  show ?case
  proof (cases "limit = 0 \<or> \<not> valid_scan_domain c \<or> c \<in> seen")
    case True
    then show ?thesis using 2 by auto
  next
    case False
    then obtain queued where q: "queue_sans (insert c seen) cs (limit - 1) = (queued, names)" and "added = c # queued"
      using 2(3) by (auto split: prod.splits)
    then show ?thesis using 2(2) [OF False q] False by auto
  qed
qed simp

definition hosts_of :: "'w batch \<Rightarrow> string list" where
  "hosts_of b = bt_waiting b @ map task_host (bt_tasks b) @ bt_next b @ map fst (bt_marked b)"

text \<open>What a step that ends a task does, written with the names that it adds.\<close>

definition task_ended ::
  "string \<Rightarrow> domain_result \<Rightarrow> scan_task list \<Rightarrow> scan_task \<Rightarrow> scan_task list \<Rightarrow> string list \<Rightarrow> 'w batch \<Rightarrow> 'w batch \<Rightarrow> bool"
where
  "task_ended d r before one after added b b' \<longleftrightarrow>
     bt_tasks b = before @ one # after \<and> task_host one = d \<and> bt_tasks b' = before @ after \<and>
     bt_waiting b' = bt_waiting b \<and> bt_next b' = bt_next b @ added \<and> bt_names b' = bt_names b \<union> set added \<and>
     bt_pivoted b' = bt_pivoted b + length added \<and> length added \<le> max_san_pivot_hosts - bt_pivoted b \<and>
     distinct added \<and> set added \<inter> bt_names b = {} \<and> bt_marked b' = bt_marked b @ [(d, r)] \<and>
     bt_progress b' = host_finished r (bt_progress b)"

lemma end_task_ended:
  assumes "i < length (bt_tasks b)" and "task_host (bt_tasks b ! i) = d"
  shows "\<exists>before one after added. task_ended d r before one after added b (end_task X i d r sh b)"
proof -
  obtain added names where q: "(if so_pivot_san (xs_options X) \<and> dr_candidates r \<noteq> []
      then queue_sans (bt_names b) (dr_candidates r) (max_san_pivot_hosts - bt_pivoted b) else ([], bt_names b)) = (added, names)"
    by (rule prod.exhaust)
  have "distinct added \<and> set added \<inter> bt_names b = {} \<and> names = bt_names b \<union> set added \<and>
      length added \<le> max_san_pivot_hosts - bt_pivoted b"
    using q queue_sans_adds [of "bt_names b"] by (auto split: if_splits)
  moreover have "bt_tasks b = take i (bt_tasks b) @ bt_tasks b ! i # drop (Suc i) (bt_tasks b)"
    using assms(1) by (rule id_take_nth_drop)
  ultimately have "task_ended d r (take i (bt_tasks b)) (bt_tasks b ! i) (drop (Suc i) (bt_tasks b)) added b
      (end_task X i d r sh b)"
    unfolding task_ended_def end_task_def q Let_def prod.case using assms(2) by simp
  then show ?thesis by blast
qed

lemma end_task_fatal [simp]:
  "bt_fatal (end_task X i d r sh b) = (case bt_fatal b of Some e \<Rightarrow> Some e | None \<Rightarrow> dr_fatal r)"
  by (simp add: end_task_def Let_def split: prod.splits)

subsection \<open>The invariant of a batch\<close>

definition batch_ok :: "nat \<Rightarrow> nat \<Rightarrow> 'w batch \<Rightarrow> bool" where
  "batch_ok n slots b \<longleftrightarrow>
     distinct (hosts_of b) \<and> set (hosts_of b) \<subseteq> bt_names b \<and> finite (bt_names b) \<and>
     length (bt_tasks b) \<le> slots \<and> bt_pivoted b \<le> max_san_pivot_hosts \<and> card (bt_names b) \<le> n + bt_pivoted b"

lemma distinct_moved:
  "distinct (ws @ (bs @ d # as) @ ns @ ms) \<Longrightarrow> distinct added \<Longrightarrow>
     set added \<inter> set (ws @ (bs @ d # as) @ ns @ ms) = {} \<Longrightarrow>
     distinct (ws @ (bs @ as) @ (ns @ added) @ ms @ [d])"
  by auto

lemma task_ended_hosts:
  assumes e: "task_ended d r before one after added b b'"
  shows "hosts_of b = bt_waiting b @ (map task_host before @ d # map task_host after) @ bt_next b @ map fst (bt_marked b)"
    and "hosts_of b' = bt_waiting b @ (map task_host before @ map task_host after) @ (bt_next b @ added) @ map fst (bt_marked b) @ [d]"
  using e by (simp_all add: task_ended_def hosts_of_def)

lemma task_ended_ok:
  assumes ok: "batch_ok n slots b" and e: "task_ended d r before one after added b b'"
  shows "batch_ok n slots b'"
proof -
  have new: "set added \<inter> bt_names b = {}" and d: "distinct added"
    and l: "length added \<le> max_san_pivot_hosts - bt_pivoted b" and n: "bt_names b' = bt_names b \<union> set added"
    and p: "bt_pivoted b' = bt_pivoted b + length added"
    and t: "bt_tasks b = before @ one # after" "bt_tasks b' = before @ after"
    using e by (simp_all only: task_ended_def)
  have h: "distinct (hosts_of b)" and sub: "set (hosts_of b) \<subseteq> bt_names b" and f: "finite (bt_names b)"
    and c: "card (bt_names b) \<le> n + bt_pivoted b" "length (bt_tasks b) \<le> slots" "bt_pivoted b \<le> max_san_pivot_hosts"
    using ok by (simp_all only: batch_ok_def)
  have "distinct (hosts_of b')"
    unfolding task_ended_hosts(2) [OF e]
    by (rule distinct_moved [OF h [unfolded task_ended_hosts(1) [OF e]] d])
       (use new sub in \<open>auto simp only: task_ended_hosts(1) [OF e, symmetric]\<close>)
  moreover have "set (hosts_of b') = set (hosts_of b) \<union> set added"
    unfolding task_ended_hosts [OF e] by auto
  moreover have "card (bt_names b') \<le> n + bt_pivoted b'"
    using c(1) card_Un_le [of "bt_names b" "set added"] card_length [of added] unfolding n p by linarith
  ultimately show ?thesis using sub f c l t unfolding batch_ok_def n p by auto
qed

lemma end_task_ok:
  "batch_ok n slots b \<Longrightarrow> i < length (bt_tasks b) \<Longrightarrow> task_host (bt_tasks b ! i) = d \<Longrightarrow>
     batch_ok n slots (end_task X i d r sh b)"
  using end_task_ended [of i b d r X sh] by (auto intro: task_ended_ok)

lemma batch_step_ok: "batch_step X slots b b' \<Longrightarrow> batch_ok n slots b \<Longrightarrow> batch_ok n slots b'"
proof (induction rule: batch_step.induct)
  case (pass i b d)
  have "map task_host ((bt_tasks b)[i := Running d]) = map task_host (bt_tasks b)"
    using pass(1,2) by (simp add: map_update list_update_same_conv)
  then show ?case using pass(4) by (simp add: batch_ok_def hosts_of_def)
next
  case (cancel i b d)
  then show ?case by (simp add: end_task_ok)
next
  case (finish i b d saw r sh)
  then show ?case by (simp add: end_task_ok)
qed (auto simp: batch_ok_def hosts_of_def)

lemma start_ok: "distinct domains \<Longrightarrow> batch_ok (length domains) slots (start_batch domains sh)"
  by (simp add: batch_ok_def hosts_of_def start_batch_def card_length)

lemma reached_ok:
  "(batch_step X slots)\<^sup>*\<^sup>* b b' \<Longrightarrow> batch_ok n slots b \<Longrightarrow> batch_ok n slots b'"
  by (induction rule: rtranclp_induct) (auto intro: batch_step_ok)

subsection \<open>The counters\<close>

definition counted :: "'w batch \<Rightarrow> bool" where
  "counted b \<longleftrightarrow>
     (let p = bt_progress b; tasks = int (length (bt_tasks b)); marked = int (length (bt_marked b)) in
      pr_active p = tasks \<and> pr_started p = tasks + marked \<and>
      processed_hosts p + pr_canceled p = marked \<and>
      pr_total p \<ge> int (length (bt_waiting b)) + tasks + marked)"

lemma task_ended_counted:
  "counted b \<Longrightarrow> task_ended d r before one after added b b' \<Longrightarrow> counted b'"
  by (cases "dr_outcome r")
     (auto simp: counted_def Let_def task_ended_def host_finished_def host_ended_def processed_hosts_def)

lemma end_task_counted:
  "counted b \<Longrightarrow> i < length (bt_tasks b) \<Longrightarrow> task_host (bt_tasks b ! i) = d \<Longrightarrow>
     counted (end_task X i d r sh b)"
  using end_task_ended [of i b d r X sh] by (auto intro: task_ended_counted)

lemma batch_step_counted: "batch_step X slots b b' \<Longrightarrow> counted b \<Longrightarrow> counted b'"
proof (induction rule: batch_step.induct)
  case (cancel i b d)
  then show ?case by (simp add: end_task_counted)
next
  case (finish i b d saw r sh)
  then show ?case by (simp add: end_task_counted)
qed (auto simp: counted_def Let_def host_started_def add_total_def processed_hosts_def)

lemma start_counted: "counted (start_batch domains sh)"
  by (simp add: counted_def start_batch_def new_scan_progress_def processed_hosts_def Let_def)

lemma reached_counted: "(batch_step X slots)\<^sup>*\<^sup>* b b' \<Longrightarrow> counted b \<Longrightarrow> counted b'"
  by (induction rule: rtranclp_induct) (auto intro: batch_step_counted)

subsection \<open>A batch ends\<close>

fun task_weight :: "scan_task \<Rightarrow> nat" where
  "task_weight (Spawned d) = 2"
| "task_weight (Running d) = 1"

definition batch_weight :: "'w batch \<Rightarrow> nat" where
  "batch_weight b = 5 * (max_san_pivot_hosts - bt_pivoted b) + 4 * length (bt_next b) + 3 * length (bt_waiting b) +
     sum_list (map task_weight (bt_tasks b))"

lemma task_weight_pos: "0 < task_weight t"
  by (cases t) simp_all

lemma task_ended_weight: "task_ended d r before one after added b b' \<Longrightarrow> batch_weight b' < batch_weight b"
  using task_weight_pos [of one] by (auto simp: task_ended_def batch_weight_def diff_mult_distrib2)

lemma end_task_weight:
  "i < length (bt_tasks b) \<Longrightarrow> task_host (bt_tasks b ! i) = d \<Longrightarrow>
     batch_weight (end_task X i d r sh b) < batch_weight b"
  using end_task_ended [of i b d r X sh] by (auto intro: task_ended_weight)

lemma batch_step_weight: "batch_step X slots b b' \<Longrightarrow> batch_weight b' < batch_weight b"
proof (induction rule: batch_step.induct)
  case (pass i b d)
  then have "bt_tasks b = take i (bt_tasks b) @ Spawned d # drop (Suc i) (bt_tasks b)"
    by (metis id_take_nth_drop)
  moreover have "(bt_tasks b)[i := Running d] = take i (bt_tasks b) @ Running d # drop (Suc i) (bt_tasks b)"
    using pass(1) by (rule upd_conv_take_nth_drop)
  ultimately obtain xs ys where "bt_tasks b = xs @ Spawned d # ys" "(bt_tasks b)[i := Running d] = xs @ Running d # ys"
    by blast
  then show ?case by (simp add: batch_weight_def)
next
  case (cancel i b d)
  then show ?case by (simp add: end_task_weight)
next
  case (finish i b d saw r sh)
  then show ?case by (simp add: end_task_weight)
qed (auto simp: batch_weight_def neq_Nil_conv)

lemma no_infinite_batch: "\<not> (\<forall>n. batch_step X slots (f n) (f (Suc n)))"
proof
  assume "\<forall>n. batch_step X slots (f n) (f (Suc n))"
  then have "\<forall>n. batch_weight (f (Suc n)) < batch_weight (f n)" using batch_step_weight [of X slots] by blast
  then have "\<forall>n. (f (Suc n), f n) \<in> measure batch_weight" by simp
  then show False using wf_iff_no_infinite_down_chain [of "measure batch_weight"] by blast
qed

subsection \<open>Hosts and batches return\<close>

lemma claim_stage_returns: obtains fatal a' sh' where "claim_stage X a sh = (fatal, a', sh')"
  using that by (cases "claim_stage X a sh") auto

lemma host_run_returns: "\<exists>r sh'. host_run X d sh r sh'"
proof -
  let ?order = "[0 ..< length (profile_tasks (xs_dns X) d)]"
  have o: "mset ?order = mset [0 ..< length (profile_tasks (xs_dns X) d)]" by simp
  obtain res sh1 where disc: "discover_host X ?order d sh = (res, sh1)" by (rule prod.exhaust)
  show ?thesis
  proof (cases res)
    case (Inl out)
    then show ?thesis using host_run.undiscovered [OF o] disc by blast
  next
    case (Inr records)
    note disc' = disc [unfolded Inr]
    obtain got s2 where got: "xs_get_host X d (sh_net sh1) = (got, s2)" by (rule prod.exhaust)
    show ?thesis
    proof (cases got)
      case (Inl e)
      then show ?thesis using host_run.no_history [OF o disc'] got by blast
    next
      case (Inr previous)
      note got' = got [unfolded Inr]
      obtain s3 err where run: "registry_run (xs_collectors X) (new_analysis X d records previous, s2) s3 err"
        using registry_returns by blast
      obtain a3 w3 where s3: "s3 = (a3, w3)" by (rule prod.exhaust)
      show ?thesis
      proof (cases err)
        case (Some e)
        then show ?thesis using host_run.uncollected [OF o disc' got'] run s3 by blast
      next
        case None
        note run' = run [unfolded None s3]
        show ?thesis
        proof (cases "nothing_found a3")
          case True
          then show ?thesis using host_run.empty [OF o disc' got' run'] by blast
        next
          case False
          obtain s4 where eng: "engine_run (xs_http X) (xs_check_cloud X) (process_analysis (xs_strings X) 0 0 a3, w3) s4"
            using engine_finishes [of "xs_http X" "xs_check_cloud X" "process_analysis (xs_strings X) 0 0 a3" w3] by blast
          obtain a4 w4 where s4: "s4 = (a4, w4)" by (rule prod.exhaust)
          obtain fatal a5 sh5 where c: "claim_stage X (reclassify (xs_strings X) a4) (sh1\<lparr>sh_net := w4\<rparr>) = (fatal, a5, sh5)"
            by (rule claim_stage_returns)
          obtain r sh6 where "save_stage X 0 fatal a5 sh5 = (r, sh6)" by (rule prod.exhaust)
          then show ?thesis using host_run.analysed [OF o disc' got' run' False eng [unfolded s4] c] by blast
        qed
      qed
    qed
  qed
qed

lemma batch_progress:
  assumes "0 < slots" and "\<not> batch_over X b"
  shows "\<exists>b'. batch_step X slots b b'"
proof (cases "bt_tasks b")
  case Nil
  then show ?thesis
  proof (cases "bt_waiting b")
    case (Cons d ds)
    then show ?thesis using batch_step.spawn [OF Cons, of slots X] Nil assms(1) by auto
  next
    case w: Nil
    then show ?thesis using batch_step.round [OF w Nil] assms(2) Nil by (auto simp: batch_over_def)
  qed
next
  case (Cons t ts)
  then have i: "0 < length (bt_tasks b)" by simp
  show ?thesis
  proof (cases t)
    case (Spawned d)
    then have "bt_tasks b ! 0 = Spawned d" using Cons by simp
    then show ?thesis using batch_step.pass [OF i] batch_step.cancel [OF i] by blast
  next
    case (Running d)
    then have t: "bt_tasks b ! 0 = Running d" using Cons by simp
    obtain r sh where "host_run (seeing_cancel False X) d (bt_shared b) r sh" using host_run_returns by blast
    then show ?thesis using batch_step.finish [OF i t, of False] by blast
  qed
qed

lemma batch_finishes: "0 < slots \<Longrightarrow> \<exists>b'. (batch_step X slots)\<^sup>*\<^sup>* b b' \<and> batch_over X b'"
proof (induction "batch_weight b" arbitrary: b rule: less_induct)
  case less
  show ?case
  proof (cases "batch_over X b")
    case False
    then obtain b1 where s: "batch_step X slots b b1" using batch_progress [OF less(2)] by blast
    then show ?thesis
      using less(1) [OF batch_step_weight [OF s] less(2)] converse_rtranclp_into_rtranclp [of "batch_step X slots", OF s]
      by blast
  qed blast
qed

subsection \<open>Cancellation\<close>

lemma batch_step_fatal: "batch_step X slots b b' \<Longrightarrow> bt_fatal b = Some e \<Longrightarrow> bt_fatal b' = Some e"
  by (induction rule: batch_step.induct) auto

definition covered :: "'w batch \<Rightarrow> bool" where
  "covered b \<longleftrightarrow> bt_names b \<subseteq> set (hosts_of b)"

lemma end_task_covered:
  assumes "covered b" and "i < length (bt_tasks b)" and "task_host (bt_tasks b ! i) = d"
  shows "covered (end_task X i d r sh b)"
proof -
  obtain before one after added where e: "task_ended d r before one after added b (end_task X i d r sh b)"
    using end_task_ended [OF assms(2,3)] by blast
  have "bt_names (end_task X i d r sh b) = bt_names b \<union> set added" using e by (simp only: task_ended_def)
  then show ?thesis using assms(1) unfolding covered_def task_ended_hosts [OF e] by auto
qed

lemma batch_step_covered:
  "batch_step X slots b b' \<Longrightarrow> \<not> batch_cancelled X b \<Longrightarrow> covered b \<Longrightarrow> covered b'"
proof (induction rule: batch_step.induct)
  case (pass i b d)
  have "map task_host ((bt_tasks b)[i := Running d]) = map task_host (bt_tasks b)"
    using pass(1,2) by (simp add: map_update list_update_same_conv)
  then show ?case using pass by (simp add: covered_def hosts_of_def)
next
  case (finish i b d saw r sh)
  then show ?case by (simp add: end_task_covered)
qed (auto simp: covered_def hosts_of_def)

lemma reached_covered:
  "(batch_step X slots)\<^sup>*\<^sup>* b b' \<Longrightarrow> (\<forall>s. \<not> xs_cancelled X s) \<Longrightarrow> bt_fatal b' = None \<Longrightarrow> covered b \<Longrightarrow> covered b'"
proof (induction rule: rtranclp_induct)
  case (step b1 b2)
  have "bt_fatal b1 = None"
    using batch_step_fatal [OF step(2)] step(5) by (cases "bt_fatal b1") auto
  then show ?case
    using batch_step_covered [OF step(2)] step by (simp add: batch_cancelled_def)
qed

text \<open>What may still happen to the hosts once a fatal error has stopped the batch.\<close>

definition stopped_since :: "'w batch \<Rightarrow> 'w batch \<Rightarrow> bool" where
  "stopped_since b b' \<longleftrightarrow>
     bt_fatal b' = bt_fatal b \<and>
     (\<forall>d. Running d \<in> set (bt_tasks b') \<longrightarrow> Running d \<in> set (bt_tasks b)) \<and>
     (\<forall>d r. (d, r) \<in> set (bt_marked b') \<longrightarrow>
        (d, r) \<in> set (bt_marked b) \<or> Running d \<in> set (bt_tasks b) \<or> r = plain_result DomainCanceled)"

lemma end_task_stopped:
  assumes s: "stopped_since b0 b" and f: "bt_fatal b = Some e"
    and i: "i < length (bt_tasks b)" "task_host (bt_tasks b ! i) = d"
    and r: "Running d \<in> set (bt_tasks b) \<or> r = plain_result DomainCanceled"
  shows "stopped_since b0 (end_task X i d r sh b)"
proof -
  obtain before one after added where e: "task_ended d r before one after added b (end_task X i d r sh b)"
    using end_task_ended [OF i] by blast
  have "set (bt_tasks (end_task X i d r sh b)) \<subseteq> set (bt_tasks b)"
    and "bt_marked (end_task X i d r sh b) = bt_marked b @ [(d, r)]"
    using e by (auto simp: task_ended_def)
  moreover have "bt_fatal (end_task X i d r sh b) = bt_fatal b" using f by simp
  ultimately show ?thesis using s r unfolding stopped_since_def by auto
qed

lemma batch_step_stopped:
  "batch_step X slots b b' \<Longrightarrow> bt_fatal b = Some e \<Longrightarrow> stopped_since b0 b \<Longrightarrow> stopped_since b0 b'"
proof (induction rule: batch_step.induct)
  case (cancel i b d)
  then show ?case by (auto intro!: end_task_stopped)
next
  case (finish i b d saw r sh)
  then show ?case by (auto intro!: end_task_stopped simp: in_set_conv_nth)
qed (auto simp: stopped_since_def batch_cancelled_def)

lemma reached_stopped:
  "(batch_step X slots)\<^sup>*\<^sup>* b b' \<Longrightarrow> bt_fatal b = Some e \<Longrightarrow> bt_fatal b' = Some e \<and> stopped_since b b'"
proof (induction rule: rtranclp_induct)
  case (step b1 b2)
  then have "bt_fatal b1 = Some e" and "stopped_since b b1" by blast+
  then show ?case using batch_step_fatal [OF step(2)] batch_step_stopped [OF step(2)] by blast
qed (simp add: stopped_since_def)

lemma batch_step_names: "batch_step X slots b b' \<Longrightarrow> bt_names b \<subseteq> bt_names b'"
proof (induction rule: batch_step.induct)
  case (cancel i b d)
  then have "i < length (bt_tasks b)" "task_host (bt_tasks b ! i) = d" by simp_all
  from end_task_ended [OF this] show ?case by (force simp: task_ended_def)
next
  case (finish i b d saw r sh)
  then have "i < length (bt_tasks b)" "task_host (bt_tasks b ! i) = d" by simp_all
  from end_task_ended [OF this] show ?case by (force simp: task_ended_def)
qed auto

lemma names_grow: "(batch_step X slots)\<^sup>*\<^sup>* b b' \<Longrightarrow> bt_names b \<subseteq> bt_names b'"
  by (induction rule: rtranclp_induct) (use batch_step_names in blast)+

subsection \<open>Errors of claims and the store\<close>

lemma plain_fatal [simp]: "dr_fatal (plain_result out) = None"
  by (simp add: plain_result_def)

lemma plain_pending: "r = plain_result DomainCanceled \<Longrightarrow> outcome_status (dr_outcome r) = ''PENDING''"
  by (simp add: plain_result_def)

lemma report_fatal: "report_stage X now fatal a sh = (r, sh') \<Longrightarrow> dr_fatal r = fatal"
  by (auto simp: report_stage_def Let_def split: prod.splits option.splits)

lemma save_without_claims: "save_stage X now None a sh = (r, sh') \<Longrightarrow> dr_fatal r = None"
  by (auto simp: save_stage_def Let_def dest: report_fatal split: if_splits prod.splits option.splits)

lemma save_unobserved:
  assumes "\<forall>a s. \<exists>s'. xs_save_analysis X a s = (None, s')"
    and "\<forall>i a s. \<exists>e s'. xs_save_observation X i a s = (Some e, s')"
  shows "dr_fatal (fst (save_stage X now fatal a sh)) = None"
proof -
  obtain s1 where 1: "xs_save_analysis X (fst (calculate a)) (sh_net sh) = (None, s1)" using assms(1) by blast
  obtain e s2 where 2: "xs_save_observation X (xs_run_id X) (fst (calculate a)) s1 = (Some e, s2)" using assms(2) by blast
  show ?thesis by (simp add: save_stage_def Let_def 1 2)
qed

text \<open>When the analysis itself cannot be stored, the error of the claim is kept.\<close>

lemma save_failed_keeps_fatal:
  assumes "\<not> xs_cancelled X (sh_net sh)" and "xs_save_analysis X (fst (calculate a)) (sh_net sh) = (Some e, s1)"
    and "\<not> xs_cancelled X s1" and "\<not> xs_canceled_error X e" and "is_unsafe_state f"
  shows "\<exists>g. dr_fatal (fst (save_stage X now (Some f) a sh)) = Some g \<and> is_unsafe_state g"
  using assms by (simp add: save_stage_def Let_def)

lemma host_without_claims: "host_run X d sh r sh' \<Longrightarrow> xs_claims X = None \<Longrightarrow> dr_fatal r = None"
  by (erule host_runE) (auto simp: claim_stage_def dest: save_without_claims)

lemma host_unobserved:
  assumes "host_run X d sh r sh'" and "\<forall>a s. \<exists>s'. xs_save_analysis X a s = (None, s')"
    and "\<forall>i a s. \<exists>e s'. xs_save_observation X i a s = (Some e, s')"
  shows "dr_fatal r = None"
  using assms(1) by (rule host_runE) (use save_unobserved [OF assms(2,3)] in \<open>auto dest!: arg_cong [where f = fst]\<close>)

lemma seeing_cancel_simps [simp]:
  "xs_claims (seeing_cancel saw X) = xs_claims X"
  "xs_save_analysis (seeing_cancel saw X) = xs_save_analysis X"
  "xs_save_observation (seeing_cancel saw X) = xs_save_observation X"
  by (simp_all add: seeing_cancel_def)

lemma reached_without_fatal:
  assumes "(batch_step X slots)\<^sup>*\<^sup>* b b'" and "bt_fatal b = None"
    and hosts: "\<And>saw d sh r sh'. host_run (seeing_cancel saw X) d sh r sh' \<Longrightarrow> dr_fatal r = None"
  shows "bt_fatal b' = None"
  using assms(1)
proof (induction rule: rtranclp_induct)
  case (step b1 b2)
  from step(2,3) show ?case by (induction rule: batch_step.induct) (auto dest: hosts)
qed (rule assms(2))

subsection \<open>The alerts of a batch\<close>

definition alert_key :: "go_env \<Rightarrow> alert_event \<Rightarrow> string" where
  "alert_key G e = to_lower G (join_with ''|''
     [state_change_text (al_change e), al_vector e, al_resource e, al_previous e, al_current e])"

lemma alert_of_key: "alert_key G (alert_of describe now r) = alert_identity G describe r"
  by (simp add: alert_key_def alert_of_def alert_identity_def Let_def split: prod.splits)

lemma alert_of_fields:
  "al_severity (alert_of describe now r) = map_severity (vx_old r) (vx_new r)"
  "al_change (alert_of describe now r) = vx_state r"
  by (simp_all add: alert_of_def Let_def split: prod.splits)

text \<open>The calls that the goroutines of a batch make, the steps of the workers, and the end of the
  dispatcher, in any order; the list holds what the notifiers were given.\<close>

inductive alert_step ::
  "go_env \<Rightarrow> (evidence \<Rightarrow> string) \<Rightarrow> dispatcher \<times> alert_event list \<Rightarrow> dispatcher \<times> alert_event list \<Rightarrow> bool"
  for G describe
where
  submit: "alert_step G describe (d, sent) (dispatch G describe now r d, sent)"
| submit_analysis: "alert_step G describe (d, sent) (dispatch_analysis G describe now a d, sent)"
| deliver: "worker_take d = Some (e, d') \<Longrightarrow> alert_step G describe (d, sent) (d', sent @ [e])"
| close: "alert_step G describe (d, sent) (flush_dispatcher d, sent)"

definition alerts_ok :: "go_env \<Rightarrow> alert_severity \<Rightarrow> dispatcher \<times> alert_event list \<Rightarrow> bool" where
  "alerts_ok G m s \<longleftrightarrow>
     (case s of (d, sent) \<Rightarrow>
        dp_minimum d = m \<and> distinct (map (alert_key G) (sent @ dp_queue d)) \<and>
        alert_key G ` set (sent @ dp_queue d) \<subseteq> dp_seen d \<and>
        (\<forall>e \<in> set (sent @ dp_queue d). severity_rank m \<le> severity_rank (al_severity e) \<and>
           al_change e \<noteq> Unchanged \<and> al_change e \<noteq> Incomplete) \<and>
        length (dp_queue d) \<le> queue_capacity)"

lemma dispatch_ok: "alerts_ok G m (d, sent) \<Longrightarrow> alerts_ok G m (dispatch G describe now r d, sent)"
  by (auto simp: alerts_ok_def dispatch_def Let_def worth_alert_def alert_of_key alert_of_fields)

lemma alert_step_ok: "alert_step G describe s s' \<Longrightarrow> alerts_ok G m s \<Longrightarrow> alerts_ok G m s'"
proof (induction rule: alert_step.induct)
  case (submit_analysis d sent now a)
  then show ?case by (simp add: dispatch_analysis_def dispatch_ok)
next
  case (deliver d e d' sent)
  then show ?case by (cases "dp_queue d") (auto simp: worker_take_def alerts_ok_def image_subset_iff)
next
  case (close d sent)
  then show ?case by (simp add: alerts_ok_def flush_dispatcher_def)
qed (auto intro: dispatch_ok)

lemma alerts_reached:
  "(alert_step G describe)\<^sup>*\<^sup>* s s' \<Longrightarrow> alerts_ok G m s \<Longrightarrow> alerts_ok G m s'"
  by (induction rule: rtranclp_induct) (auto intro: alert_step_ok)

subsection \<open>Properties\<close>

text \<open>C17. In every state that a batch of distinct hosts reaches, no host has been marked twice, none
  that is marked waits or runs, at most as many run as the semaphore admits, the certificates have
  added at most 256 names, and the counters of the progress agree with the tasks and the marks.\<close>

theorem hosts_marked_once:
  assumes "distinct domains" and "(batch_step X slots)\<^sup>*\<^sup>* (start_batch domains sh) b"
  shows "distinct (map fst (bt_marked b)) \<and>
    fst ` set (bt_marked b) \<inter> (set (bt_waiting b) \<union> task_host ` set (bt_tasks b)) = {} \<and>
    length (bt_tasks b) \<le> slots \<and> card (bt_names b) \<le> length domains + max_san_pivot_hosts \<and>
    pr_active (bt_progress b) = int (length (bt_tasks b)) \<and>
    processed_hosts (bt_progress b) + pr_canceled (bt_progress b) = int (length (bt_marked b))"
proof -
  have "batch_ok (length domains) slots b" using reached_ok [OF assms(2) start_ok [OF assms(1)]] .
  then have "distinct (hosts_of b)" "length (bt_tasks b) \<le> slots" "card (bt_names b) \<le> length domains + max_san_pivot_hosts"
    by (auto simp: batch_ok_def)
  moreover have "counted b" using reached_counted [OF assms(2) start_counted] .
  ultimately show ?thesis by (auto simp: hosts_of_def counted_def Let_def)
qed

lemma hosts_marked_once_witness:
  "\<forall>(X :: unit scanner) sh. \<exists>b. batch_run X 1 [''a.test'', ''b.test''] sh b \<and>
     distinct (map fst (bt_marked b)) \<and> length (bt_tasks b) \<le> 1"
proof (intro allI)
  fix X :: "unit scanner" and sh :: "unit scan_shared"
  obtain b where b: "(batch_step X 1)\<^sup>*\<^sup>* (start_batch [''a.test'', ''b.test''] sh) b" "batch_over X b"
    using batch_finishes [of 1 X] by auto
  then show "\<exists>b. batch_run X 1 [''a.test'', ''b.test''] sh b \<and> distinct (map fst (bt_marked b)) \<and> length (bt_tasks b) \<le> 1"
    using hosts_marked_once [OF _ b(1)] by (auto simp: batch_run_def)
qed

text \<open>C27. Every batch ends, under every schedule: with the number of goroutines that the options
  and the limit of operations give there is a run to the end, and no sequence of steps is infinite,
  although hosts contribute further hosts.\<close>

theorem batch_always_ends:
  "(\<exists>b. batch_run X (nat (effective_host_concurrency requested operations)) domains sh b) \<and>
   \<not> (\<exists>f. f 0 = start_batch domains sh \<and> (\<forall>n. batch_step X slots (f n) (f (Suc n))))"
proof -
  have "0 < nat (effective_host_concurrency requested operations)"
    by (auto simp: effective_host_concurrency_def Let_def)
  then show ?thesis using batch_finishes no_infinite_batch unfolding batch_run_def by blast
qed

text \<open>C28. A batch that is neither cancelled nor stopped by a claim leaves no host out: when it is over,
  exactly the names it has come to know are marked, the given ones among them, each once.\<close>

theorem uncancelled_batch_marks_all:
  assumes "batch_run X slots domains sh b" and "distinct domains"
    and "\<forall>s. \<not> xs_cancelled X s" and "bt_fatal b = None"
  shows "fst ` set (bt_marked b) = bt_names b \<and> set domains \<subseteq> bt_names b \<and>
    length (bt_marked b) = card (bt_names b)"
proof -
  have r: "(batch_step X slots)\<^sup>*\<^sup>* (start_batch domains sh) b" and o: "batch_over X b"
    using assms(1) by (simp_all add: batch_run_def)
  have hosts: "hosts_of b = map fst (bt_marked b)"
    using o assms(3,4) by (simp add: batch_over_def batch_cancelled_def hosts_of_def)
  have "covered (start_batch domains sh)" by (simp add: covered_def start_batch_def hosts_of_def)
  then have c: "bt_names b \<subseteq> set (hosts_of b)" using reached_covered [OF r assms(3,4)] by (simp add: covered_def)
  have ok: "batch_ok (length domains) slots b" using reached_ok [OF r start_ok [OF assms(2)]] .
  then have names: "fst ` set (bt_marked b) = bt_names b" and d: "distinct (map fst (bt_marked b))"
    using c hosts by (auto simp: batch_ok_def)
  moreover have "set domains \<subseteq> bt_names b" using r names_grow by (fastforce simp: start_batch_def)
  ultimately show ?thesis using distinct_card [OF d] by simp
qed

lemma uncancelled_batch_marks_all_witness:
  "\<forall>(X :: unit scanner) sh. \<exists>b. {''a.test'', ''b.test''} \<subseteq> fst ` set (bt_marked b) \<and>
     batch_run (X\<lparr>xs_claims := None, xs_cancelled := \<lambda>s. False\<rparr>) 2 [''a.test'', ''b.test''] sh b"
proof (intro allI)
  fix X :: "unit scanner" and sh :: "unit scan_shared"
  let ?X = "X\<lparr>xs_claims := None, xs_cancelled := \<lambda>s. False\<rparr>"
  obtain b where b: "(batch_step ?X 2)\<^sup>*\<^sup>* (start_batch [''a.test'', ''b.test''] sh) b" "batch_over ?X b"
    using batch_finishes [of 2 ?X] by auto
  then have run: "batch_run ?X 2 [''a.test'', ''b.test''] sh b" by (simp add: batch_run_def)
  have "bt_fatal b = None"
    by (rule reached_without_fatal [OF b(1)]) (auto simp: start_batch_def dest: host_without_claims)
  then show "\<exists>b. {''a.test'', ''b.test''} \<subseteq> fst ` set (bt_marked b) \<and> batch_run ?X 2 [''a.test'', ''b.test''] sh b"
    using uncancelled_batch_marks_all [OF run] run by (intro exI [of _ b]) simp
qed

text \<open>C16. A claim that left an unsafe state stops the batch: the first such error stays, no further
  host begins, every host that was not already running is marked as still pending, and the run is
  recorded as failed with that error.\<close>

theorem unsafe_claim_stops_the_batch:
  assumes "bt_fatal b = Some e" and "(batch_step X slots)\<^sup>*\<^sup>* b b'"
  shows "batch_end cancelled in_session fail_on b' = (Some ''FAILED'', Some (UnsafeClaim e)) \<and>
    (\<forall>d r. (d, r) \<in> set (bt_marked b') \<longrightarrow> (d, r) \<in> set (bt_marked b) \<or>
       Running d \<in> set (bt_tasks b) \<or> outcome_status (dr_outcome r) = ''PENDING'')"
proof -
  have f: "bt_fatal b' = Some e" and "stopped_since b b'" using reached_stopped [OF assms(2,1)] by simp_all
  then have "\<forall>d r. (d, r) \<in> set (bt_marked b') \<longrightarrow> (d, r) \<in> set (bt_marked b) \<or>
      Running d \<in> set (bt_tasks b) \<or> outcome_status (dr_outcome r) = ''PENDING''"
    unfolding stopped_since_def using plain_pending by blast
  with f show ?thesis by (simp add: batch_end_def)
qed

lemma unsafe_claim_stops_the_batch_witness:
  "\<forall>(X :: unit scanner) sh. \<exists>b. batch_over X b \<and> (\<forall>(d, r) \<in> set (bt_marked b). outcome_status (dr_outcome r) = ''PENDING'') \<and>
     fst (batch_end False False [] b) = Some ''FAILED''"
proof (intro allI)
  fix X :: "unit scanner" and sh :: "unit scan_shared"
  let ?b = "(start_batch [''a.test'', ''b.test''] sh)\<lparr>bt_fatal := Some ErrUnsafeClaimState\<rparr>"
  obtain b where b: "(batch_step X 1)\<^sup>*\<^sup>* ?b b" "batch_over X b"
    using batch_finishes [of 1 X ?b] by auto
  then show "\<exists>b. batch_over X b \<and> (\<forall>(d, r) \<in> set (bt_marked b). outcome_status (dr_outcome r) = ''PENDING'') \<and>
     fst (batch_end False False [] b) = Some ''FAILED''"
    using unsafe_claim_stops_the_batch [OF _ b(1), of ErrUnsafeClaimState False False "[]"]
    by (intro exI [of _ b]) (auto simp: start_batch_def)
qed

text \<open>C31. The error is lost when the observation of the host cannot be stored: whatever the claims of
  the batch left behind, no host then reports a fatal error, no batch is recorded as failed, and
  one that was not cancelled is recorded as completed. The branch for an analysis that cannot be
  stored keeps the error; this one drops it.\<close>

theorem unsafe_claim_error_is_lost:
  assumes "batch_run X slots domains sh b" and "\<forall>a s. \<exists>s'. xs_save_analysis X a s = (None, s')"
    and "\<forall>i a s. \<exists>e s'. xs_save_observation X i a s = (Some e, s')"
  shows "(\<forall>now f a sh. dr_fatal (fst (save_stage X now (Some f) a sh)) = None) \<and>
    fst (batch_end False False fail_on b) = Some ''COMPLETED''"
proof -
  have "bt_fatal b = None"
  proof (rule reached_without_fatal)
    show "(batch_step X slots)\<^sup>*\<^sup>* (start_batch domains sh) b" using assms(1) by (simp add: batch_run_def)
    show "dr_fatal r = None" if "host_run (seeing_cancel saw X) d sh r sh'" for saw d sh r sh'
      using host_unobserved [OF that] assms(2,3) by simp
  qed (simp add: start_batch_def)
  then show ?thesis using save_unobserved [OF assms(2,3)] by (simp add: batch_end_def)
qed

lemma unsafe_claim_error_is_lost_witness:
  "\<forall>(X :: unit scanner) sh. \<exists>b. fst (batch_end False False [] b) = Some ''COMPLETED'' \<and>
     batch_run (X\<lparr>xs_save_analysis := \<lambda>a s. (None, s), xs_save_observation := \<lambda>i a s. (Some ''disk full'', s)\<rparr>) 1
       [''a.test''] sh b"
proof (intro allI)
  fix X :: "unit scanner" and sh :: "unit scan_shared"
  let ?X = "X\<lparr>xs_save_analysis := \<lambda>a s. (None, s), xs_save_observation := \<lambda>i a s. (Some ''disk full'', s)\<rparr>"
  obtain b where "(batch_step ?X 1)\<^sup>*\<^sup>* (start_batch [''a.test''] sh) b" "batch_over ?X b"
    using batch_finishes [of 1 ?X] by auto
  then have run: "batch_run ?X 1 [''a.test''] sh b" by (simp add: batch_run_def)
  then show "\<exists>b. fst (batch_end False False [] b) = Some ''COMPLETED'' \<and> batch_run ?X 1 [''a.test''] sh b"
    using unsafe_claim_error_is_lost [OF run, of "[]"] by auto
qed

text \<open>C30. Within a batch a finding is notified once: whatever the goroutines submit and however the
  workers are scheduled, no two alerts that were delivered or wait share an identity, none is
  below the minimum severity or about an unchanged or incomplete result, and the queue keeps to
  its capacity.\<close>

theorem alerts_once_per_batch:
  assumes "(alert_step G describe)\<^sup>*\<^sup>* (begin_alert_batch d, []) (d', sent)" and "dp_queue d = []"
  shows "distinct (map (alert_key G) (sent @ dp_queue d')) \<and>
    (\<forall>e \<in> set sent. severity_rank (dp_minimum d) \<le> severity_rank (al_severity e) \<and>
       al_change e \<noteq> Unchanged \<and> al_change e \<noteq> Incomplete) \<and>
    length (dp_queue d') \<le> queue_capacity"
proof -
  have "alerts_ok G (dp_minimum d) (begin_alert_batch d, [])"
    using assms(2) by (simp add: alerts_ok_def begin_alert_batch_def queue_capacity_def)
  then show ?thesis using alerts_reached [OF assms(1)] by (auto simp: alerts_ok_def)
qed

definition sample_dispatcher :: dispatcher where
  "sample_dispatcher = \<lparr>dp_notifiers = 1, dp_minimum = SeverityMedium, dp_seen = {''old''}, dp_queue = [], dp_closed = False\<rparr>"

definition sample_alert :: verify_result where
  "sample_alert = discovered_result (zero_host_analysis\<lparr>ha_host := ''a.test'', ha_classification := LevelTakeoverable\<rparr>)"

lemma sample_alert_worth: "worth_alert (begin_alert_batch sample_dispatcher) sample_alert"
  by (simp add: worth_alert_def sample_alert_def discovered_result_def begin_alert_batch_def sample_dispatcher_def
      is_always_suppressed_initial_result_def map_severity_def classification_severity_def)

lemma alerts_once_per_batch_witness:
  "\<exists>d e. (alert_step ascii_env (\<lambda>e. []))\<^sup>*\<^sup>* (begin_alert_batch sample_dispatcher, []) (d, [e]) \<and>
     severity_rank SeverityMedium \<le> severity_rank (al_severity e)"
proof -
  let ?d1 = "dispatch ascii_env (\<lambda>e. []) 0 sample_alert (begin_alert_batch sample_dispatcher)"
  let ?e = "alert_of (\<lambda>e. []) 0 sample_alert"
  have "dp_queue ?d1 = [?e]"
    using sample_alert_worth
    by (simp add: dispatch_def Let_def) (simp add: begin_alert_batch_def sample_dispatcher_def queue_capacity_def)
  then have "worker_take ?d1 = Some (?e, ?d1\<lparr>dp_queue := []\<rparr>)" by (simp add: worker_take_def)
  then have run: "(alert_step ascii_env (\<lambda>e. []))\<^sup>*\<^sup>* (begin_alert_batch sample_dispatcher, []) (?d1\<lparr>dp_queue := []\<rparr>, [?e])"
    using alert_step.submit [of ascii_env "\<lambda>e. []" "begin_alert_batch sample_dispatcher" "[]" 0 sample_alert]
      alert_step.deliver [of ?d1 ?e "?d1\<lparr>dp_queue := []\<rparr>" ascii_env "\<lambda>e. []" "[]"]
    by (auto intro: rtranclp_trans)
  show ?thesis
    using alerts_once_per_batch [OF run] run by (auto simp: sample_dispatcher_def)
qed

end
