(* ===== verification/CollectWeb.thy ===== *)
theory CollectWeb
  imports CollectHttp DnsZone
begin

section \<open>Redirect chains and web dependencies (internal/evidence/redirect_chain.go, web_dependency.go)\<close>

text \<open>
  Two collectors of the phase of impact that look beyond the host: where its redirects lead, and which
  other hosts its pages and its policy refer to. Both ask the resolver (\<open>webResolver\<close>, which
  \<open>dns.Resolver\<close> implements; \<open>None\<close> is a nil interface) and the client, whose redirects are turned
  off. The references of \<open>net/url\<close> are parameters: a \<open>web_location\<close> holds what the code reads of a parsed
  URL, its text, its text without the fragment, and the text of its identity (scheme and host in
  lower case, no fragment).
\<close>

record web_location =
  wl_text :: string
  wl_bare :: string
  wl_key :: string
  wl_scheme :: string
  wl_hostname :: string
  wl_user :: bool

record location_env =
  le_first :: "string \<Rightarrow> string \<Rightarrow> web_location"
  le_parse :: "string \<Rightarrow> web_location option"
  le_resolve :: "web_location \<Rightarrow> string \<Rightarrow> web_location option"

subsection \<open>Names\<close>

definition normalize_web_host :: "go_env \<Rightarrow> string \<Rightarrow> string" where
  "normalize_web_host G host = to_lower G (trim_suffix (trim_space host) ''.'')"

definition same_web_host :: "go_env \<Rightarrow> string \<Rightarrow> string \<Rightarrow> bool" where
  "same_web_host G l r \<longleftrightarrow> normalize_web_host G l = normalize_web_host G r"

definition contains_web_host :: "go_env \<Rightarrow> string list \<Rightarrow> string \<Rightarrow> bool" where
  "contains_web_host G hosts target \<longleftrightarrow> list_ex (\<lambda>h. same_web_host G h target) hosts"

definition normalized_host_set :: "go_env \<Rightarrow> string list \<Rightarrow> string list" where
  "normalized_host_set G hosts = dedup_by id {} (filter (\<lambda>h. h \<noteq> []) (map (normalize_web_host G) hosts))"

definition web_redirect_status :: "int \<Rightarrow> bool" where
  "web_redirect_status status \<longleftrightarrow> status \<in> {301, 302, 303, 307, 308}"

subsection \<open>The hops of a chain\<close>

definition max_redirect_depth :: int where "max_redirect_depth = 20"

definition redirect_depth :: "int \<Rightarrow> nat" where
  "redirect_depth depth = nat (min (if depth < 1 then 10 else depth) max_redirect_depth)"

text \<open>What a name resolves to: the status, the aliases and the addresses.\<close>

definition hop_names ::
  "'w dns_env option \<Rightarrow> go_env \<Rightarrow> host_analysis \<Rightarrow> string \<Rightarrow> ('w, dns_status \<times> string list \<times> string list) dns"
where
  "hop_names R G a host =
     (if same_web_host G host (ha_host a)
      then ret (DNSStatusResolved, rs_cname (ha_dns a), rs_a (ha_dns a) @ rs_aaaa (ha_dns a))
      else case R of
        None \<Rightarrow> ret (DNSStatusUnset, [], [])
      | Some E \<Rightarrow> do {
          (chain, _) \<leftarrow> resolve_cname_chain E host;
          status \<leftarrow> resolve_address_status E (if chain = [] then host else last chain);
          if status \<noteq> DNSStatusResolved then ret (status, chain, [])
          else do {
            v4 \<leftarrow> resolve_a E (if chain = [] then host else last chain);
            v6 \<leftarrow> resolve_aaaa E (if chain = [] then host else last chain);
            ret (status, chain, (case v4 of Inl _ \<Rightarrow> [] | Inr xs \<Rightarrow> xs) @ (case v6 of Inl _ \<Rightarrow> [] | Inr xs \<Rightarrow> xs))
          }
        })"

definition signature_service :: "go_env \<Rightarrow> 'r fingerprint list \<Rightarrow> string list \<Rightarrow> string" where
  "signature_service G sigs names =
     (case find (\<lambda>sig. fp_service sig \<noteq> [] \<and> matching_cname G names (fp_cnames sig) \<noteq> None) sigs of
        None \<Rightarrow> [] | Some sig \<Rightarrow> fp_service sig)"

definition hop_provider_of :: "go_env \<Rightarrow> 'r fingerprint list \<Rightarrow> host_analysis \<Rightarrow> string \<Rightarrow> string list \<Rightarrow> string" where
  "hop_provider_of G sigs a host cname =
     (let known = (case find (\<lambda>c. same_web_host G (pc_cname c) host \<or> contains_web_host G cname (pc_cname c)) (ha_provider_candidates a) of
            None \<Rightarrow> [] | Some c \<Rightarrow> pc_service c) in
      if known = [] then signature_service G sigs (host # cname) else known)"

definition redirect_hop_at ::
  "'w dns_env option \<Rightarrow> go_env \<Rightarrow> 'r fingerprint list \<Rightarrow> host_analysis \<Rightarrow> nat \<Rightarrow> web_location \<Rightarrow>
   (string, redirect_hop) gomap \<Rightarrow> ('w, redirect_hop \<times> (string, redirect_hop) gomap) dns"
where
  "redirect_hop_at R G sigs a index target cache =
     (let host = normalize_web_host G (wl_hostname target);
          hop = zero_redirect_hop\<lparr>hop_index := int index, hop_url := wl_text target, hop_hostname := host,
            hop_scheme := to_lower G (wl_scheme target)\<rparr> in
      case map_of cache host of
        Some cached \<Rightarrow> ret (hop\<lparr>hop_dns_status := hop_dns_status cached, hop_cname := hop_cname cached,
          hop_addresses := hop_addresses cached, hop_provider := hop_provider cached\<rparr>, cache)
      | None \<Rightarrow> do {
          (status, cname, addresses) \<leftarrow> hop_names R G a host;
          let found = hop\<lparr>hop_dns_status := status, hop_cname := cname, hop_addresses := addresses,
            hop_provider := hop_provider_of G sigs a host cname\<rparr>;
          ret (found, map_put cache host found)
        })"

text \<open>The text of a missing resource on the page of a hop, and the provider it belongs to.\<close>

definition redirect_hit :: "'r page_env \<Rightarrow> redirect_hop \<Rightarrow> web_reply \<Rightarrow> string \<Rightarrow> 'r fingerprint \<Rightarrow> bool" where
  "redirect_hit P hop r body sig \<longleftrightarrow>
     fp_fingerprint sig \<noteq> [] \<and> \<not> is_generic_http_fingerprint (pe_go P) (fp_fingerprint sig) \<and>
     fingerprint_specificity (pe_go P) (fp_fingerprint sig) \<ge> minimum_takeover_fingerprint_specificity \<and>
     matching_cname (pe_go P) (hop_hostname hop # hop_cname hop) (fp_cnames sig) \<noteq> None \<and>
     (case fp_http_status sig of None \<Rightarrow> True | Some s \<Rightarrow> s = wr_status r) \<and>
     list_all (\<lambda>(name, v). header_value (wr_headers r) name \<noteq> [] \<and>
       (v = [] \<or> contains_str (to_lower (pe_go P) (header_value (wr_headers r) name)) (to_lower (pe_go P) v))) (fp_headers sig) \<and>
     matches_fingerprint (pe_go P) (pe_regex P) body sig"

definition redirect_fingerprint ::
  "'r page_env \<Rightarrow> 'r fingerprint list \<Rightarrow> redirect_hop \<Rightarrow> web_reply \<Rightarrow> string \<Rightarrow> string \<times> string"
where
  "redirect_fingerprint P sigs hop r body =
     (if body = [] then (hop_provider hop, [])
      else case find (redirect_hit P hop r body) sigs of
        None \<Rightarrow> (hop_provider hop, [])
      | Some sig \<Rightarrow> (fp_service sig, fp_fingerprint sig))"

definition hop_body :: "web_reply \<Rightarrow> string" where
  "hop_body r = take 32768 (wr_body r)"

definition answered_hop :: "'r page_env \<Rightarrow> 'r fingerprint list \<Rightarrow> redirect_hop \<Rightarrow> web_reply \<Rightarrow> redirect_hop" where
  "answered_hop P sigs hop r =
     (let body = hop_body r;
          h = hop\<lparr>hop_status_code := wr_status r, hop_location := header_value (wr_headers r) ''Location'',
            hop_response_kind := response_kind (pe_go P) (wr_status r) (wr_headers r) body,
            hop_edge_provider := edge_provider (pe_go P) (wr_headers r) body\<rparr> in
      case redirect_fingerprint P sigs h r body of
        (provider, matched) \<Rightarrow> h\<lparr>hop_provider := provider, hop_matched_fingerprint := matched\<rparr>)"

subsection \<open>The evidence of a chain\<close>

definition transport_error_evidence :: "string \<Rightarrow> web_location \<Rightarrow> redirect_hop \<Rightarrow> evidence" where
  "transport_error_evidence scheme target hop =
     plain_evidence ''REDIRECT_DESTINATION_TRANSPORT_ERROR'' scheme
       ''A coleta do destino da cadeia falhou no transporte.'' 0 100
       [(''target_url'', wl_text target), (''target_host'', hop_hostname hop)]"

definition provider_error_evidence :: "string \<Rightarrow> redirect_hop \<Rightarrow> evidence" where
  "provider_error_evidence scheme hop =
     plain_evidence ''REDIRECT_DESTINATION_PROVIDER_ERROR'' scheme
       (''O destino final apresentou uma assinatura espec'' @ [CHR 0xC3, CHR 0xAD] @ ''fica de recurso ausente no provedor.'') 0 95
       [(''target_url'', hop_url hop), (''target_host'', hop_hostname hop), (''provider'', hop_provider hop),
        (''matched_fingerprint'', hop_matched_fingerprint hop), (''http_status'', itoa (hop_status_code hop))]"

definition unsupported_evidence :: "string \<Rightarrow> web_location \<Rightarrow> evidence" where
  "unsupported_evidence scheme target =
     plain_evidence ''REDIRECT_UNSUPPORTED_PROTOCOL'' scheme
       (''O cabe'' @ [CHR 0xC3, CHR 0xA7] @ ''alho Location usa um protocolo que o analisador HTTP n'' @ [CHR 0xC3, CHR 0xA3] @ ''o acompanha.'') 0 100
       [(''target_url'', wl_text target), (''scheme'', wl_scheme target)]"

definition unresolved_evidence :: "string \<Rightarrow> string \<Rightarrow> web_location \<Rightarrow> redirect_hop \<Rightarrow> evidence" where
  "unresolved_evidence scheme host target hop =
     plain_evidence (''REDIRECT_DESTINATION_'' @ dns_status_text (hop_dns_status hop)) scheme
       (''O destino publicado no cabe'' @ [CHR 0xC3, CHR 0xA7] @ ''alho Location n'' @ [CHR 0xC3, CHR 0xA3] @ ''o possui resolu'' @ [CHR 0xC3, CHR 0xA7, CHR 0xC3, CHR 0xA3] @ ''o DNS utiliz'' @ [CHR 0xC3, CHR 0xA1] @ ''vel.'') 0 100
       [(''target_url'', wl_text target), (''target_host'', host),
        (''dns_status'', dns_status_text (hop_dns_status hop)), (''cname'', join_with '','' (hop_cname hop))]"

definition depth_evidence :: "string \<Rightarrow> nat \<Rightarrow> web_location \<Rightarrow> evidence" where
  "depth_evidence scheme depth target =
     plain_evidence ''REDIRECT_DEPTH_LIMIT'' scheme
       (''A cadeia atingiu o limite configurado de '' @ nat_dec depth @ '' hops.'') 0 100
       [(''depth'', nat_dec depth), (''target_url'', wl_text target)]"

definition hop_evidence :: "string \<Rightarrow> redirect_hop \<Rightarrow> evidence" where
  "hop_evidence scheme hop =
     plain_evidence ''HTTP_REDIRECT_HOP'' scheme
       (''Hop '' @ itoa (hop_index hop) @ '' registrou o destino '' @ hop_url hop @ ''.'') 0 100
       [(''index'', itoa (hop_index hop)), (''url'', hop_url hop), (''hostname'', hop_hostname hop),
        (''scheme'', hop_scheme hop), (''status'', itoa (hop_status_code hop)), (''location'', hop_location hop),
        (''dns_status'', dns_status_text (hop_dns_status hop)), (''provider'', hop_provider hop),
        (''cname'', join_with '','' (hop_cname hop)), (''addresses'', join_with '','' (hop_addresses hop)),
        (''response_kind'', hop_response_kind hop), (''edge_provider'', hop_edge_provider hop),
        (''matched_fingerprint'', hop_matched_fingerprint hop)]"

subsection \<open>The walk\<close>

datatype hop_verdict =
    FinalResponse
  | InvalidLocation
  | UnsupportedProtocol web_location
  | NextLocation web_location

definition hop_verdict_of :: "location_env \<Rightarrow> web_location \<Rightarrow> web_reply \<Rightarrow> hop_verdict" where
  "hop_verdict_of L current r =
     (let location = header_value (wr_headers r) ''Location'' in
      if \<not> web_redirect_status (wr_status r) \<or> location = [] then FinalResponse
      else case le_resolve L current location of
        None \<Rightarrow> InvalidLocation
      | Some n \<Rightarrow>
          if wl_hostname n = [] \<or> wl_user n then InvalidLocation
          else if wl_scheme n \<noteq> ''http'' \<and> wl_scheme n \<noteq> ''https'' then UnsupportedProtocol n
          else NextLocation n)"

definition stop_chain :: "string \<Rightarrow> redirect_chain \<Rightarrow> redirect_chain" where
  "stop_chain reason chain = chain\<lparr>chain_stopped_reason := reason\<rparr>"

definition chain_with :: "redirect_hop \<Rightarrow> redirect_chain \<Rightarrow> redirect_chain" where
  "chain_with hop chain = chain\<lparr>chain_hops := chain_hops chain @ [hop]\<rparr>"

definition chain_at :: "web_location \<Rightarrow> redirect_chain \<Rightarrow> redirect_chain" where
  "chain_at target chain = chain\<lparr>chain_final_url := wl_text target\<rparr>"

definition final_response :: "string \<Rightarrow> redirect_hop \<Rightarrow> redirect_chain \<Rightarrow> host_analysis \<Rightarrow> redirect_chain \<times> host_analysis" where
  "final_response scheme hop chain a =
     (if hop_matched_fingerprint hop = [] then (stop_chain ''FINAL_RESPONSE'' chain, a)
      else (stop_chain ''DESTINATION_PROVIDER_ERROR'' chain, add_evidence (provider_error_evidence scheme hop) a))"

text \<open>The loop: \<open>left\<close> is the number of rounds that the depth still allows.\<close>

fun redirect_walk ::
  "'w dns_env option \<Rightarrow> (resolver \<times> 'w, 'r) web_env \<Rightarrow> location_env \<Rightarrow> 'r fingerprint list \<Rightarrow> string \<Rightarrow> nat \<Rightarrow> nat \<Rightarrow>
   web_location \<Rightarrow> string list \<Rightarrow> (string, redirect_hop) gomap \<Rightarrow> redirect_chain \<Rightarrow> host_analysis \<Rightarrow>
   ('w, redirect_chain \<times> host_analysis) dns"
where
  "redirect_walk R W L sigs scheme depth 0 current seen cache chain a = ret (chain, a)"
| "redirect_walk R W L sigs scheme depth (Suc left) current seen cache chain a =
     (if wl_key current \<in> set seen then ret (stop_chain ''REDIRECT_LOOP'' chain, a)
      else do {
        (hop, cache1) \<leftarrow> redirect_hop_at R (wb_go W) sigs a (depth - Suc left) current cache;
        if \<not> request_ok W (wl_text current) then ret (stop_chain ''INVALID_URL'' chain, a)
        else do {
          res \<leftarrow> State (wb_do W \<lparr>wq_url = wl_text current, wq_host = [], wq_headers = []\<rparr>);
          case res of
            Inl e \<Rightarrow> ret (stop_chain ''TRANSPORT_ERROR'' (chain_with hop chain),
              add_evidence (transport_error_evidence scheme current hop) a)
          | Inr r \<Rightarrow>
              (let answered = answered_hop (wb_page W) sigs hop r; chain1 = chain_at current (chain_with answered chain) in
               case hop_verdict_of L current r of
                 FinalResponse \<Rightarrow> ret (final_response scheme answered chain1 a)
               | InvalidLocation \<Rightarrow> ret (stop_chain ''INVALID_LOCATION'' chain1, a)
               | UnsupportedProtocol n \<Rightarrow> ret (stop_chain ''UNSUPPORTED_PROTOCOL'' (chain_at n chain1),
                   add_evidence (unsupported_evidence scheme n) a)
               | NextLocation n \<Rightarrow> do {
                   (next_hop, cache2) \<leftarrow> redirect_hop_at R (wb_go W) sigs a (Suc (depth - Suc left)) n cache1;
                   if hop_dns_status next_hop \<noteq> DNSStatusResolved
                   then ret (stop_chain (''DESTINATION_'' @ dns_status_text (hop_dns_status next_hop))
                       (chain_at n (chain_with next_hop chain1)),
                     add_evidence (unresolved_evidence scheme (normalize_web_host (wb_go W) (wl_hostname n)) n next_hop) a)
                   else if left = 0
                   then ret (stop_chain ''MAX_DEPTH'' (chain_at n chain1), add_evidence (depth_evidence scheme depth n) a)
                   else redirect_walk R W L sigs scheme depth left n (wl_key current # seen) cache2 chain1 a
                 })
        }
      })"

definition collect_redirect_scheme ::
  "'w dns_env option \<Rightarrow> (resolver \<times> 'w, 'r) web_env \<Rightarrow> location_env \<Rightarrow> 'r fingerprint list \<Rightarrow> nat \<Rightarrow> string \<Rightarrow> host_analysis \<Rightarrow>
   ('w, host_analysis) dns"
where
  "collect_redirect_scheme R W L sigs depth scheme a =
     (let current = le_first L scheme (ha_host a) in
      do {
        (chain, a1) \<leftarrow> redirect_walk R W L sigs scheme depth depth current [] []
          \<lparr>chain_scheme = scheme, chain_hops = [], chain_final_url = wl_text current, chain_stopped_reason = []\<rparr> a;
        ret (set_redirect_chain scheme chain (fold (\<lambda>h. add_evidence (hop_evidence scheme h)) (chain_hops chain) a1))
      })"

definition redirects_here :: "host_analysis \<Rightarrow> string \<Rightarrow> bool" where
  "redirects_here a scheme \<longleftrightarrow>
     (case get_http_observation a scheme of
        None \<Rightarrow> False
      | Some obs \<Rightarrow> ho_complete obs \<and> web_redirect_status (ho_status_code obs))"

definition collect_redirect_chains ::
  "'w dns_env option \<Rightarrow> (resolver \<times> 'w, 'r) web_env \<Rightarrow> location_env \<Rightarrow> 'r fingerprint list \<Rightarrow> int \<Rightarrow> host_analysis \<Rightarrow>
   ('w, host_analysis) dns"
where
  "collect_redirect_chains R W L sigs depth a =
     (let d = redirect_depth depth; a0 = add_tested_vector ''REDIRECT_CHAIN'' a in
      do {
        a1 \<leftarrow> (if redirects_here a0 ''http'' then collect_redirect_scheme R W L sigs d ''http'' a0 else ret a0);
        if redirects_here a1 ''https'' then collect_redirect_scheme R W L sigs d ''https'' a1 else ret a1
      })"

subsection \<open>References of a page and of its policy (web_dependency.go)\<close>

definition max_web_dependencies :: nat where "max_web_dependencies = 32"

record dependency_ref =
  dr_url :: string
  dr_host :: string
  dr_kind :: string
  dr_source :: string
  dr_directive :: string

definition dependency_url ::
  "go_env \<Rightarrow> location_env \<Rightarrow> web_location option \<Rightarrow> string \<Rightarrow> string \<Rightarrow> string \<Rightarrow> string \<Rightarrow> dependency_ref option"
where
  "dependency_url G L base raw kind source directive =
     (let v = trim_space raw in
      if v = [] then None
      else case (case base of None \<Rightarrow> le_parse L v | Some b \<Rightarrow> le_resolve L b v) of
        None \<Rightarrow> None
      | Some u \<Rightarrow>
          if (wl_scheme u \<noteq> ''http'' \<and> wl_scheme u \<noteq> ''https'') \<or> wl_hostname u = [] \<or> wl_user u then None
          else Some \<lparr>dr_url = wl_bare u, dr_host = normalize_web_host G (wl_hostname u), dr_kind = kind,
            dr_source = source, dr_directive = directive\<rparr>)"

definition asset_rels :: "string list" where
  "asset_rels = [''stylesheet'', ''icon'', ''manifest'', ''preload'', ''modulepreload'']"

definition link_asset :: "go_env \<Rightarrow> (string \<times> string) list \<Rightarrow> bool" where
  "link_asset G attrs \<longleftrightarrow>
     list_ex (\<lambda>(key, v). equal_fold G key ''rel'' \<and> list_ex (\<lambda>rel. rel \<in> set asset_rels) (go_fields (to_lower G v))) attrs"

definition dependency_attribute :: "go_env \<Rightarrow> string \<Rightarrow> (string \<times> string) list \<Rightarrow> (string \<times> string) option" where
  "dependency_attribute G name attrs =
     (let tag = to_lower G name in
      if tag = ''script'' then Some (''src'', ''script'')
      else if tag = ''link'' then (if link_asset G attrs then Some (''href'', ''stylesheet'') else None)
      else if tag = ''img'' then Some (''src'', ''image'')
      else if tag = ''iframe'' \<or> tag = ''frame'' then Some (''src'', ''frame'')
      else if tag = ''source'' \<or> tag = ''audio'' \<or> tag = ''video'' then Some (''src'', ''media'')
      else if tag = ''object'' then Some (''data'', ''object'') else None)"

definition node_dependencies ::
  "go_env \<Rightarrow> location_env \<Rightarrow> web_location option \<Rightarrow> string \<Rightarrow> (string \<times> string) list \<Rightarrow> dependency_ref list"
where
  "node_dependencies G L base name attrs =
     (case dependency_attribute G name attrs of
        None \<Rightarrow> []
      | Some (attribute, kind) \<Rightarrow>
          List.map_filter (\<lambda>(key, v). if equal_fold G key attribute then dependency_url G L base v kind ''HTML'' [] else None) attrs)"

fun walk_dependencies :: "go_env \<Rightarrow> location_env \<Rightarrow> web_location option \<Rightarrow> html_node \<Rightarrow> dependency_ref list" where
  "walk_dependencies G L base (ElementNode name attrs children) =
     node_dependencies G L base name attrs @ concat (map (walk_dependencies G L base) children)"
| "walk_dependencies G L base (OtherNode children) = concat (map (walk_dependencies G L base) children)"

definition extract_html_dependencies ::
  "'r page_env \<Rightarrow> location_env \<Rightarrow> web_location option \<Rightarrow> string \<Rightarrow> dependency_ref list"
where
  "extract_html_dependencies P L base body =
     (case pe_html P body of None \<Rightarrow> [] | Some doc \<Rightarrow> walk_dependencies (pe_go P) L base doc)"

definition tracked_csp_directive :: "go_env \<Rightarrow> string \<Rightarrow> bool" where
  "tracked_csp_directive G directive \<longleftrightarrow>
     to_lower G directive \<in> {''default-src'', ''script-src'', ''style-src'', ''img-src'', ''font-src'', ''connect-src'',
       ''frame-src'', ''child-src'', ''worker-src'', ''media-src''}"

definition normalize_csp_source :: "string \<Rightarrow> string \<Rightarrow> string" where
  "normalize_csp_source scheme source =
     (let s = trim_space source in
      if s = [] \<or> prefix [CHR 0x27] s \<or> s = ''*'' \<or> suffix '':'' s \<or> prefix ''data:'' s \<or> prefix ''blob:'' s then []
      else if prefix ''//'' s then scheme @ '':'' @ s
      else if \<not> contains_str s ''://'' \<and> contains_str s ''.'' \<and> \<not> contains_str s ''/'' then scheme @ ''://'' @ s
      else s)"

text \<open>\<open>allowed\<close> is the map of allowed hosts in the order in which the loop over it meets them.\<close>

definition csp_source_refs ::
  "go_env \<Rightarrow> location_env \<Rightarrow> string list \<Rightarrow> string \<Rightarrow> string \<Rightarrow> string \<Rightarrow> dependency_ref list"
where
  "csp_source_refs G L allowed scheme directive source =
     (if prefix ''*.'' source then
        map (\<lambda>host. \<lparr>dr_url = scheme @ ''://'' @ host, dr_host = host, dr_kind = ''csp'', dr_source = ''CSP'',
            dr_directive = directive\<rparr>)
          (filter (\<lambda>host. match_dns_name G host source) allowed)
      else case dependency_url G L None (normalize_csp_source scheme source) ''csp'' ''CSP'' directive of
        None \<Rightarrow> [] | Some ref \<Rightarrow> [ref])"

definition csp_directive_refs :: "go_env \<Rightarrow> location_env \<Rightarrow> string list \<Rightarrow> string \<Rightarrow> string \<Rightarrow> dependency_ref list" where
  "csp_directive_refs G L allowed scheme raw =
     (case go_fields raw of
        directive # source # sources \<Rightarrow>
          if tracked_csp_directive G directive
          then concat (map (csp_source_refs G L allowed scheme directive) (source # sources)) else []
      | _ \<Rightarrow> [])"

definition extract_csp_dependencies ::
  "go_env \<Rightarrow> location_env \<Rightarrow> string list \<Rightarrow> string \<Rightarrow> string \<Rightarrow> dependency_ref list"
where
  "extract_csp_dependencies G L allowed scheme policy =
     concat (map (csp_directive_refs G L allowed scheme) (split_on CHR '';'' policy))"

definition header_values :: "go_env \<Rightarrow> headers \<Rightarrow> string \<Rightarrow> string list" where
  "header_values G hs name = (case find (\<lambda>(key, _). equal_fold G key name) hs of None \<Rightarrow> [] | Some (_, vs) \<Rightarrow> vs)"

definition dependency_key :: "dependency_ref \<Rightarrow> string" where
  "dependency_key ref = dr_source ref @ ''|'' @ dr_kind ref @ ''|'' @ dr_url ref"

definition scheme_references ::
  "'r page_env \<Rightarrow> location_env \<Rightarrow> string list \<Rightarrow> host_analysis \<Rightarrow> string \<Rightarrow> dependency_ref list"
where
  "scheme_references P L allowed a scheme =
     (case get_http_observation a scheme of
        None \<Rightarrow> []
      | Some obs \<Rightarrow>
          if \<not> ho_complete obs then []
          else extract_html_dependencies P L (le_parse L (scheme @ ''://'' @ ha_host a @ ''/'')) (ho_body obs) @
            concat (map (extract_csp_dependencies (pe_go P) L allowed scheme)
              (header_values (pe_go P) (ho_headers obs) ''Content-Security-Policy'')))"

definition web_references :: "'r page_env \<Rightarrow> location_env \<Rightarrow> string list \<Rightarrow> host_analysis \<Rightarrow> dependency_ref list" where
  "web_references P L allowed a =
     dedup_by dependency_key {}
       (filter (\<lambda>ref. dr_host ref \<noteq> [] \<and> \<not> same_web_host (pe_go P) (dr_host ref) (ha_host a))
         (scheme_references P L allowed a ''https'' @ scheme_references P L allowed a ''http''))"

subsection \<open>Looking at a reference\<close>

definition is_asset_kind :: "string \<Rightarrow> bool" where
  "is_asset_kind kind \<longleftrightarrow> kind \<in> {''script'', ''stylesheet'', ''image'', ''media''}"

definition dependency_provider :: "go_env \<Rightarrow> 'r fingerprint list \<Rightarrow> string \<Rightarrow> string list \<Rightarrow> string" where
  "dependency_provider G sigs host chain =
     (case find (\<lambda>sig. fp_check_type sig \<notin> {''ns'', ''a'', ''mx''} \<and> matching_cname G (host # chain) (fp_cnames sig) \<noteq> None) sigs of
        None \<Rightarrow> [] | Some sig \<Rightarrow> fp_service sig)"

definition dependency_metadata :: "web_dependency \<Rightarrow> meta" where
  "dependency_metadata d =
     [(''url'', wd_url d), (''host'', wd_host d), (''kind'', wd_kind d), (''source'', wd_source d),
      (''directive'', wd_directive d), (''provider'', wd_provider d),
      (''dns_status'', dns_status_text (wd_dns_status d)), (''http_status'', itoa (wd_http_status d)),
      (''cname_chain'', join_with '','' (wd_cname d))]"

definition add_broken_dependency :: "web_dependency \<Rightarrow> host_analysis \<Rightarrow> host_analysis" where
  "add_broken_dependency d a =
     (let md = dependency_metadata d;
          a1 = add_evidence (if wd_source d = ''CSP''
            then plain_evidence ''CSP_DANGLING_DEPENDENCY'' (wd_source d)
              (''A pol'' @ [CHR 0xC3, CHR 0xAD] @ ''tica CSP confia em um subdom'' @ [CHR 0xC3, CHR 0xAD] @ ''nio permitido sem resolu'' @ [CHR 0xC3, CHR 0xA7, CHR 0xC3, CHR 0xA3] @ ''o utiliz'' @ [CHR 0xC3, CHR 0xA1] @ ''vel.'') 20 90 md
            else plain_evidence ''SUBRESOURCE_DANGLING'' (wd_source d)
              (''Uma p'' @ [CHR 0xC3, CHR 0xA1] @ ''gina observada referencia um subdom'' @ [CHR 0xC3, CHR 0xAD] @ ''nio permitido sem resolu'' @ [CHR 0xC3, CHR 0xA7, CHR 0xC3, CHR 0xA3] @ ''o utiliz'' @ [CHR 0xC3, CHR 0xA1] @ ''vel.'') 20 90 md) a in
      if wd_source d = ''HTML'' \<and> is_asset_kind (wd_kind d)
      then add_evidence (plain_evidence ''DEAD_ASSET_REFERENCE'' (wd_kind d)
        (''Uma p'' @ [CHR 0xC3, CHR 0xA1] @ ''gina observada referencia um asset hospedado em um subdom'' @ [CHR 0xC3, CHR 0xAD] @ ''nio dangling.'') 20 90 md) a1
      else a1)"

definition dead_asset_evidence :: "web_dependency \<Rightarrow> evidence" where
  "dead_asset_evidence d =
     plain_evidence ''DEAD_ASSET_HTTP'' (wd_kind d)
       (''Uma p'' @ [CHR 0xC3, CHR 0xA1] @ ''gina observada referencia um asset permitido que responde como removido.'') 0 90 (dependency_metadata d)"

definition asset_status :: "('w, 'r) web_env \<Rightarrow> string \<Rightarrow> ('w, int) state" where
  "asset_status W url =
     (if \<not> request_ok W url then ret 0
      else do {
        res \<leftarrow> State (wb_do W \<lparr>wq_url = url, wq_host = [], wq_headers = []\<rparr>);
        ret (case res of Inl e \<Rightarrow> 0 | Inr r \<Rightarrow> wr_status r)
      })"

definition followed_dependency :: "web_dependency \<Rightarrow> int \<Rightarrow> host_analysis \<Rightarrow> host_analysis" where
  "followed_dependency d status a =
     (let d1 = d\<lparr>wd_http_status := status\<rparr> in
      add_web_dependency d1
        (if status = 404 \<or> status = 410 then add_evidence (dead_asset_evidence d1) a else a))"

definition inspected_dependency ::
  "go_env \<Rightarrow> 'r fingerprint list \<Rightarrow> dependency_ref \<Rightarrow> string list \<Rightarrow> dns_status \<Rightarrow> web_dependency"
where
  "inspected_dependency G sigs ref chain status =
     \<lparr>wd_url = dr_url ref, wd_host = dr_host ref, wd_kind = dr_kind ref, wd_source = dr_source ref,
      wd_directive = dr_directive ref, wd_cname = chain, wd_provider = dependency_provider G sigs (dr_host ref) chain,
      wd_dns_status = status, wd_http_status = 0, wd_dangling = False\<rparr>"

definition inspect_dependency ::
  "'w dns_env \<Rightarrow> (resolver \<times> 'w, 'r) web_env \<Rightarrow> 'r fingerprint list \<Rightarrow> bool \<Rightarrow> dependency_ref \<Rightarrow> host_analysis \<Rightarrow>
   ('w, host_analysis) dns"
where
  "inspect_dependency E W sigs follow ref a = do {
     (chain, _) \<leftarrow> resolve_cname_chain E (dr_host ref);
     status \<leftarrow> resolve_address_status E (if chain = [] then dr_host ref else last chain);
     let d = inspected_dependency (wb_go W) sigs ref chain status;
     if wd_provider d \<noteq> [] \<and> (status = DNSStatusNXDomain \<or> status = DNSStatusNoData)
     then ret (add_web_dependency (d\<lparr>wd_dangling := True\<rparr>) (add_broken_dependency (d\<lparr>wd_dangling := True\<rparr>) a))
     else if follow \<and> status = DNSStatusResolved \<and> dr_source ref = ''HTML'' \<and> is_asset_kind (dr_kind ref)
     then do {
       code \<leftarrow> asset_status W (dr_url ref);
       ret (followed_dependency d code a)
     }
     else ret (add_web_dependency d a)
   }"

fun inspect_dependencies ::
  "'w dns_env \<Rightarrow> (resolver \<times> 'w, 'r) web_env \<Rightarrow> 'r fingerprint list \<Rightarrow> string list \<Rightarrow> dependency_ref list \<Rightarrow>
   host_analysis \<Rightarrow> ('w, host_analysis) dns"
where
  "inspect_dependencies E W sigs allowed [] a = ret a"
| "inspect_dependencies E W sigs allowed (ref # refs) a = do {
     a1 \<leftarrow> inspect_dependency E W sigs (dr_host ref \<in> set allowed) ref a;
     inspect_dependencies E W sigs allowed refs a1
   }"

definition collect_web_dependencies ::
  "'w dns_env option \<Rightarrow> (resolver \<times> 'w, 'r) web_env \<Rightarrow> location_env \<Rightarrow> 'r fingerprint list \<Rightarrow> string list \<Rightarrow>
   host_analysis \<Rightarrow> ('w, host_analysis) dns"
where
  "collect_web_dependencies R W L sigs allowed a =
     (case R of
        None \<Rightarrow> ret a
      | Some E \<Rightarrow>
          let a0 = add_tested_vector ''WEB_DEPENDENCIES'' a in
          inspect_dependencies E W sigs allowed
            (take max_web_dependencies (web_references (wb_page W) L allowed a0)) a0)"

end
