(* ===== verification/CollectTls.thy ===== *)
theory CollectTls
  imports HttpRaw CollectHttp ScanInput
begin

section \<open>Certificates and origins (internal/evidence/tls.go, origin.go)\<close>

text \<open>
  The collector of certificates, with the names it contributes to a scan, and the collector that looks
  for the server behind a content delivery network. A certificate is what the code reads of it; the
  handshake, \<open>VerifyHostname\<close>, the digest, the formats of dates, the random bytes, the limiter of
  requests, the lookup of addresses and the raw transport are parameters.
\<close>

subsection \<open>Certificates\<close>

record certificate =
  ct_raw :: string
  ct_issuer_name :: string
  ct_issuer_orgs :: "string list"
  ct_subject_name :: string
  ct_subject_orgs :: "string list"
  ct_dns_names :: "string list"
  ct_not_after :: time

record 'w tls_env =
  te_go :: go_env
  te_sha256 :: "string \<Rightarrow> string"
  te_covers :: "certificate \<Rightarrow> string \<Rightarrow> bool"
  te_dial :: "string \<Rightarrow> string \<Rightarrow> 'w \<Rightarrow> (string + certificate option) \<times> 'w"
  te_wait :: "('w \<Rightarrow> string option \<times> 'w) option"
  te_now :: "'w \<Rightarrow> time \<times> 'w"
  te_random :: "'w \<Rightarrow> string option \<times> 'w"
  te_date :: "time \<Rightarrow> string"
  te_rfc3339 :: "time \<Rightarrow> string"
  te_quote :: "string \<Rightarrow> string"

record 'r tls_collector =
  tc_sigs :: "'r fingerprint list"
  tc_check_sni :: bool
  tc_alt_sni :: bool
  tc_discover_san :: bool
  tc_san_roots :: "string list"

definition new_tls_collector :: "'r fingerprint list \<Rightarrow> 'r tls_collector" where
  "new_tls_collector sigs = \<lparr>tc_sigs = sigs, tc_check_sni = True, tc_alt_sni = False, tc_discover_san = True,
     tc_san_roots = []\<rparr>"

definition enable_sni :: "bool \<Rightarrow> 'r tls_collector \<Rightarrow> 'r tls_collector" where
  "enable_sni enabled c = c\<lparr>tc_check_sni := enabled, tc_alt_sni := enabled\<rparr>"

definition enable_alternate_sni :: "bool \<Rightarrow> 'r tls_collector \<Rightarrow> 'r tls_collector" where
  "enable_alternate_sni enabled c = c\<lparr>tc_check_sni := True, tc_alt_sni := enabled\<rparr>"

definition enable_san_discovery :: "bool \<Rightarrow> 'r tls_collector \<Rightarrow> 'r tls_collector" where
  "enable_san_discovery enabled c = c\<lparr>tc_discover_san := enabled\<rparr>"

text \<open>The roots are a set; they are kept in the order in which the loop over the map meets them.\<close>

definition set_san_roots :: "go_env \<Rightarrow> string list \<Rightarrow> 'r tls_collector \<Rightarrow> 'r tls_collector" where
  "set_san_roots G roots c =
     c\<lparr>tc_san_roots := dedup_by id {} (List.map_filter (\<lambda>r. case normalize_hostname G r of Inl _ \<Rightarrow> None | Inr h \<Rightarrow> Some h) roots)\<rparr>"

definition first_name :: "string \<Rightarrow> string list \<Rightarrow> string" where
  "first_name common orgs = (if common \<noteq> [] then common else case orgs of [] \<Rightarrow> [] | o1 # _ \<Rightarrow> o1)"

definition issuer_name :: "certificate \<Rightarrow> string" where
  "issuer_name c = first_name (ct_issuer_name c) (ct_issuer_orgs c)"

definition subject_name :: "certificate \<Rightarrow> string" where
  "subject_name c = first_name (ct_subject_name c) (ct_subject_orgs c)"

text \<open>A name of a certificate: lower case, without a final dot, valid below a wildcard.\<close>

definition san_name :: "go_env \<Rightarrow> string \<Rightarrow> string option" where
  "san_name G v =
     (let n = to_lower G (trim_suffix (trim_space v) ''.'') in
      if n = [] then None
      else case normalize_hostname G (if prefix ''*.'' n then trim_prefix n ''*.'' else n) of
        Inl _ \<Rightarrow> None
      | Inr _ \<Rightarrow> Some n)"

definition normalized_sans :: "go_env \<Rightarrow> string list \<Rightarrow> string list" where
  "normalized_sans G names = sort (dedup_by id {} (List.map_filter (san_name G) names))"

definition certificate_fingerprint :: "'w tls_env \<Rightarrow> certificate \<Rightarrow> string" where
  "certificate_fingerprint T c =
     hex_of_text (te_sha256 T (if ct_raw c \<noteq> [] then ct_raw c
       else issuer_name c @ ''|'' @ subject_name c @ ''|'' @
         join_with '','' (normalized_sans (te_go T) (ct_dns_names c)) @ ''|'' @ te_rfc3339 T (ct_not_after c)))"

definition certificate_covers_host :: "'w tls_env \<Rightarrow> certificate \<Rightarrow> string \<Rightarrow> bool" where
  "certificate_covers_host T c host \<longleftrightarrow>
     trim_suffix (trim_space host) ''.'' \<noteq> [] \<and> te_covers T c (trim_suffix (trim_space host) ''.'')"

definition tls_endpoint :: "host_analysis \<Rightarrow> string" where
  "tls_endpoint a =
     join_host_port (case rs_a (ha_dns a) of
         ip # _ \<Rightarrow> ip
       | [] \<Rightarrow> (case rs_aaaa (ha_dns a) of ip # _ \<Rightarrow> ip | [] \<Rightarrow> ha_host a)) ''443''"

definition match_text :: "bool \<Rightarrow> string" where
  "match_text b = (if b then ''true'' else ''false'')"

definition tls_metadata :: "'w tls_env \<Rightarrow> tls_observation \<Rightarrow> bool \<Rightarrow> meta" where
  "tls_metadata T obs matches =
     [(''tls_fingerprint'', tls_fingerprint obs), (''tls_issuer'', tls_observation.tls_issuer obs), (''tls_subject'', tls_subject obs),
      (''tls_sans'', join_with '','' (tls_sa_ns obs)), (''tls_expires_at'', te_rfc3339 T (tls_not_after obs)),
      (''tls_provider'', tls_provider obs), (''tls_hostname_match'', match_text matches),
      (''tls_chain_validation'', ''not_performed'')]"

subsection \<open>An observation\<close>

definition tls_observation_of :: "'w tls_env \<Rightarrow> string \<Rightarrow> string \<Rightarrow> certificate \<Rightarrow> tls_observation" where
  "tls_observation_of T server_name mode c =
     \<lparr>tls_mode = mode, tls_server_name = server_name, tls_fingerprint = certificate_fingerprint T c,
      tls_issuer = issuer_name c, tls_subject = subject_name c, tls_sa_ns = normalized_sans (te_go T) (ct_dns_names c),
      tls_not_after = ct_not_after c, tls_provider = []\<rparr>"

definition observe_tls ::
  "'w tls_env \<Rightarrow> string \<Rightarrow> string \<Rightarrow> string \<Rightarrow> ('w, (tls_observation \<times> certificate) option) state"
where
  "observe_tls T endpoint server_name mode = do {
     res \<leftarrow> State (te_dial T endpoint server_name);
     ret (case res of
       Inr (Some c) \<Rightarrow> Some (tls_observation_of T server_name mode c, c)
     | _ \<Rightarrow> None)
   }"

definition wait_tls :: "'w tls_env \<Rightarrow> ('w, string option) state" where
  "wait_tls T = (case te_wait T of None \<Rightarrow> ret None | Some wait \<Rightarrow> State wait)"

definition certificate_text :: "go_env \<Rightarrow> certificate \<Rightarrow> string" where
  "certificate_text G c =
     to_lower G (issuer_name c @ '' '' @ subject_name c @ '' '' @ join_with '' '' (ct_dns_names c))"

definition tls_providers :: "go_env \<Rightarrow> 'r fingerprint list \<Rightarrow> certificate \<Rightarrow> 'r fingerprint list" where
  "tls_providers G sigs c =
     filter (\<lambda>sig. list_ex (\<lambda>v. to_lower G (trim_space v) \<noteq> [] \<and>
       contains_str (certificate_text G c) (to_lower G (trim_space v))) (fp_tls_fingerprints sig)) sigs"

definition tls_match_confidence :: "'r fingerprint \<Rightarrow> int" where
  "tls_match_confidence sig =
     (let c = (if fp_tls_confidence sig = 0 then fp_confidence sig else fp_tls_confidence sig) in
      min 70 (if c \<le> 0 then 50 else c))"

definition tls_provider_evidence :: "'w tls_env \<Rightarrow> meta \<Rightarrow> 'r fingerprint \<Rightarrow> evidence" where
  "tls_provider_evidence T md sig =
     plain_evidence ''TLS_PROVIDER_MATCH'' (fp_service sig)
       ((''O certificado cont'' @ [CHR 0xC3, CHR 0xA9] @ ''m texto associado a '') @ te_quote T (fp_service sig) @ (''; a cadeia de confian'' @ [CHR 0xC3, CHR 0xA7] @ ''a n'' @ [CHR 0xC3, CHR 0xA3] @ ''o foi validada.''))
       0 (tls_match_confidence sig) md"

subsection \<open>The state of the certificate\<close>

definition certificate_state_evidences ::
  "'w tls_env \<Rightarrow> time \<Rightarrow> certificate \<Rightarrow> tls_observation \<Rightarrow> meta \<Rightarrow> string \<Rightarrow> evidence list"
where
  "certificate_state_evidences T now c obs md host =
     (if now > tls_not_after obs
      then [plain_evidence ''TLS_EXPIRED'' ''TLS'' ((''O certificado apresentado expirou em '') @
        te_date T (tls_not_after obs) @ (''; a expira'' @ [CHR 0xC3, CHR 0xA7, CHR 0xC3, CHR 0xA3] @ ''o isolada n'' @ [CHR 0xC3, CHR 0xA3] @ ''o comprova abandono.'')) 0 100 md] else []) @
     (if tls_observation.tls_issuer obs \<noteq> [] \<and> tls_observation.tls_issuer obs = tls_subject obs
      then [plain_evidence ''TLS_SELF_SIGNED'' ''TLS''
        (''O emissor e o assunto coincidem; a assinatura e a cadeia n'' @ [CHR 0xC3, CHR 0xA3] @ ''o foram validadas.'') 0 80 md] else []) @
     (if \<not> certificate_covers_host T c host
      then [plain_evidence ''TLS_MISMATCH'' ''TLS''
        (''O hostname n'' @ [CHR 0xC3, CHR 0xA3] @ ''o corresponde '' @ [CHR 0xC3, CHR 0xA0] @ ''s identidades SAN do certificado apresentado.'') 0 100 md]
      else if tls_provider obs = []
      then [mitigating_evidence ''TLS_SAN_MATCH'' ''TLS''
        (''O hostname corresponde a um SAN; a cadeia de confian'' @ [CHR 0xC3, CHR 0xA7] @ ''a e a revoga'' @ [CHR 0xC3, CHR 0xA7, CHR 0xC3, CHR 0xA3] @ ''o n'' @ [CHR 0xC3, CHR 0xA3] @ ''o foram verificadas.'') 0 100 md]
      else [])"

text \<open>What changed since the collection before.\<close>

definition previous_certificate :: "host_analysis \<Rightarrow> meta" where
  "previous_certificate a =
     (case find (\<lambda>e. ev_type e = ''TLS_CERTIFICATE_OBSERVED'') (ha_previous_evidences a) of
        None \<Rightarrow> [] | Some e \<Rightarrow> ev_metadata e)"

definition drift_fields :: "meta \<Rightarrow> meta \<Rightarrow> string list" where
  "drift_fields previous current =
     map (\<lambda>f. trim_prefix f ''tls_'') (filter (\<lambda>f. meta_get previous f \<noteq> meta_get current f)
       [''tls_issuer'', ''tls_sans'', ''tls_provider''])"

definition drift_evidence :: "meta \<Rightarrow> meta \<Rightarrow> evidence" where
  "drift_evidence previous current =
     plain_evidence ''TLS_CERTIFICATE_DRIFT'' ''HISTORY''
       ''Issuer, SAN ou provider do certificado mudou desde a coleta anterior.'' 0 100
       [(''changed'', join_with '','' (drift_fields previous current)),
        (''previous_fingerprint'', meta_get previous ''tls_fingerprint''), (''current_fingerprint'', meta_get current ''tls_fingerprint''),
        (''previous_issuer'', meta_get previous ''tls_issuer''), (''current_issuer'', meta_get current ''tls_issuer''),
        (''previous_sans'', meta_get previous ''tls_sans''), (''current_sans'', meta_get current ''tls_sans''),
        (''previous_provider'', meta_get previous ''tls_provider''), (''current_provider'', meta_get current ''tls_provider'')]"

definition add_drift :: "meta \<Rightarrow> host_analysis \<Rightarrow> host_analysis" where
  "add_drift current a =
     (let previous = previous_certificate a; fp = meta_get previous ''tls_fingerprint'' in
      if fp = [] \<or> fp = meta_get current ''tls_fingerprint'' \<or> drift_fields previous current = [] then a
      else add_evidence (drift_evidence previous current) a)"

subsection \<open>Names of the certificate as candidates\<close>

definition max_san_candidates :: nat where "max_san_candidates = 64"

definition allowed_san :: "go_env \<Rightarrow> string list \<Rightarrow> string \<Rightarrow> string \<Rightarrow> bool" where
  "allowed_san G roots host domain \<longleftrightarrow>
     (if roots = [] then domain \<noteq> [] \<and> extract_root_domain G host = domain
      else list_ex (\<lambda>r. host = r \<or> suffix (''.'' @ r) host) roots)"

definition san_evidence :: "string \<Rightarrow> evidence" where
  "san_evidence san =
     plain_evidence ''TLS_SAN_CANDIDATE'' ''TLS'' ''Um SAN relacionado foi registrado como candidato passivo.'' 0 100
       [(''host'', san)]"

definition chosen_sans :: "go_env \<Rightarrow> string list \<Rightarrow> string \<Rightarrow> string list \<Rightarrow> string list" where
  "chosen_sans G roots host sans =
     take max_san_candidates (filter (\<lambda>san. \<not> prefix ''*.'' san \<and> \<not> equal_fold G san host \<and>
       allowed_san G roots san (extract_root_domain G host)) sans)"

definition add_san_candidates ::
  "go_env \<Rightarrow> 'r tls_collector \<Rightarrow> tls_observation \<Rightarrow> host_analysis \<Rightarrow> host_analysis"
where
  "add_san_candidates G c obs a =
     (if \<not> tc_discover_san c \<and> tc_san_roots c = [] then a
      else
        (let a0 = add_tested_vector (if tc_san_roots c \<noteq> [] then ''TLS_SAN_PIVOT'' else ''TLS_SAN_DISCOVERY'') a in
         fold (\<lambda>san b. add_evidence (san_evidence san) (add_san_candidate san b))
           (chosen_sans G (tc_san_roots c) (ha_host a) (tls_sa_ns obs)) a0))"

subsection \<open>Other server names\<close>

definition random_sni_name :: "'w tls_env \<Rightarrow> string \<Rightarrow> ('w, string) state" where
  "random_sni_name T domain = do {
     bytes \<leftarrow> State (te_random T);
     ret (case bytes of
       None \<Rightarrow> ''sni-probe.invalid''
     | Some b \<Rightarrow> hex_of_text b @ ''.'' @ (if domain = [] then ''invalid'' else domain))
   }"

definition sni_evidence :: "string \<Rightarrow> string \<Rightarrow> tls_observation \<Rightarrow> tls_observation \<Rightarrow> evidence" where
  "sni_evidence mode name baseline obs =
     plain_evidence ''SNI_CERT_MISMATCH'' mode
       ''O mesmo IP apresentou outro certificado quando o SNI mudou ou foi omitido.'' 0 100
       [(''baseline_fingerprint'', tls_fingerprint baseline), (''variant_fingerprint'', tls_fingerprint obs),
        (''server_name'', name), (''variant_sans'', join_with '','' (tls_sa_ns obs))]"

definition note_variant :: "string \<Rightarrow> string \<Rightarrow> tls_observation \<Rightarrow> tls_observation \<Rightarrow> host_analysis \<Rightarrow> host_analysis" where
  "note_variant mode name baseline obs a =
     (if tls_fingerprint obs = [] then a
      else if tls_fingerprint obs = tls_fingerprint baseline then add_sni_variant obs a
      else add_evidence (sni_evidence mode name baseline obs) (add_sni_variant obs a))"

fun probe_sni ::
  "'w tls_env \<Rightarrow> string \<Rightarrow> tls_observation \<Rightarrow> (string \<times> string) list \<Rightarrow> host_analysis \<Rightarrow>
   ('w, string option \<times> host_analysis) state"
where
  "probe_sni T endpoint baseline [] a = ret (None, a)"
| "probe_sni T endpoint baseline ((mode, name) # probes) a = do {
     err \<leftarrow> wait_tls T;
     case err of
       Some e \<Rightarrow> ret (Some e, a)
     | None \<Rightarrow> do {
         seen \<leftarrow> observe_tls T endpoint name mode;
         probe_sni T endpoint baseline probes
           (case seen of None \<Rightarrow> a | Some (obs, _) \<Rightarrow> note_variant mode name baseline obs a)
       }
   }"

definition inspect_sni ::
  "'w tls_env \<Rightarrow> bool \<Rightarrow> string \<Rightarrow> tls_observation \<Rightarrow> host_analysis \<Rightarrow> ('w, string option \<times> host_analysis) state"
where
  "inspect_sni T alternate endpoint baseline a =
     (let a0 = add_tested_vector ''SNI'' a in
      if \<not> alternate then probe_sni T endpoint baseline [(''no_sni'', [])] a0
      else do {
        name \<leftarrow> random_sni_name T (extract_root_domain (te_go T) (ha_host a));
        probe_sni T endpoint baseline [(''no_sni'', []), (''alternate_sni'', name)] a0
      })"

subsection \<open>The collector\<close>

definition with_tls_provider :: "'r fingerprint list \<Rightarrow> tls_observation \<Rightarrow> tls_observation" where
  "with_tls_provider providers obs =
     (case providers of [] \<Rightarrow> obs | sig # _ \<Rightarrow> obs\<lparr>tls_provider := fp_service sig\<rparr>)"

definition text_certificate_recorded :: string where
  "text_certificate_recorded = (''O certificado folha foi registrado para compara'' @ [CHR 0xC3, CHR 0xA7, CHR 0xC3, CHR 0xA3] @ ''o hist'' @ [CHR 0xC3, CHR 0xB3] @ ''rica.'')"

definition record_certificate ::
  "'w tls_env \<Rightarrow> 'r tls_collector \<Rightarrow> time \<Rightarrow> certificate \<Rightarrow> tls_observation \<Rightarrow> host_analysis \<Rightarrow> host_analysis"
where
  "record_certificate T c now cert obs a =
     (let md = tls_metadata T obs (certificate_covers_host T cert (ha_host a)) in
      add_san_candidates (te_go T) c obs (add_drift md
        (add_evidences
          ([plain_evidence ''TLS_CERTIFICATE_OBSERVED'' ''TLS''
             text_certificate_recorded 0 100 md] @
           map (tls_provider_evidence T md) (tls_providers (te_go T) (tc_sigs c) cert) @
           certificate_state_evidences T now cert obs md (ha_host a))
          (set_tls obs a))))"

definition collect_tls ::
  "'w tls_env \<Rightarrow> 'r tls_collector \<Rightarrow> host_analysis \<Rightarrow> ('w, string option \<times> host_analysis) state"
where
  "collect_tls T c a =
     (if rs_a (ha_dns a) = [] \<and> rs_aaaa (ha_dns a) = [] then ret (None, a)
      else let a0 = add_tested_vector ''TLS'' a; endpoint = tls_endpoint a0 in
      do {
        err \<leftarrow> wait_tls T;
        case err of
          Some e \<Rightarrow> ret (Some e, a0)
        | None \<Rightarrow> do {
            seen \<leftarrow> observe_tls T endpoint (ha_host a0) ''baseline'';
            case seen of
              None \<Rightarrow> ret (None, a0)
            | Some (obs0, cert) \<Rightarrow> do {
                now \<leftarrow> State (te_now T);
                let obs = with_tls_provider (tls_providers (te_go T) (tc_sigs c) cert) obs0;
                let a1 = record_certificate T c now cert obs a0;
                if tc_check_sni c then inspect_sni T (tc_alt_sni c) endpoint obs a1 else ret (None, a1)
              }
          }
      })"

subsection \<open>Origins (origin.go)\<close>

definition max_origin_candidates :: nat where "max_origin_candidates = 8"

record origin_candidate =
  oc_target :: string
  oc_source :: string
  oc_kind :: string

record ('w, 'r) origin_env =
  oe_page :: "'r page_env"
  oe_send :: "(mutation_context \<Rightarrow> string \<Rightarrow> ('w, raw_http_observation option) state) option"
  oe_wait :: "('w \<Rightarrow> string option \<times> 'w) option"
  oe_lookup :: "(string \<Rightarrow> 'w \<Rightarrow> ip list option \<times> 'w) option"

definition public_origin_ip :: "ip \<Rightarrow> bool" where
  "public_origin_ip a \<longleftrightarrow> ip_global_unicast a \<and> \<not> ip_private a \<and> \<not> ip_loopback a \<and> \<not> ip_link_local a"

definition trim_brackets :: "string \<Rightarrow> string" where
  "trim_brackets s = (let bracket = (\<lambda>c. c = CHR ''['' \<or> c = CHR '']'') in
     rev (dropWhile bracket (rev (dropWhile bracket s))))"

definition normalize_origin_target :: "go_env \<Rightarrow> string \<Rightarrow> string" where
  "normalize_origin_target G v =
     (let t = trim_space v;
          h = trim_brackets (case net_split_host_port t of None \<Rightarrow> t | Some (host, port) \<Rightarrow> host) in
      case parse_ip h of
        Some a \<Rightarrow> if public_origin_ip a then ip_text a else []
      | None \<Rightarrow> (case normalize_hostname G h of Inl _ \<Rightarrow> [] | Inr n \<Rightarrow> n))"

definition set_allowed_targets :: "go_env \<Rightarrow> string list \<Rightarrow> string set" where
  "set_allowed_targets G targets = set (filter (\<lambda>t. t \<noteq> []) (map (normalize_origin_target G) targets))"

definition behind_cdn :: "host_analysis \<Rightarrow> bool" where
  "behind_cdn a \<longleftrightarrow> trim_space (ha_cdn a) \<noteq> [] \<or> has_type (ha_evidences a) ''CDN_DETECTED''"

definition cdn_provider_id :: "go_env \<Rightarrow> string \<Rightarrow> string" where
  "cdn_provider_id G name =
     (let n = to_lower G name in
      if contains_str n ''cloudflare'' then ''cloudflare''
      else if contains_str n ''cloudfront'' \<or> contains_str n ''amazon'' then ''aws''
      else if contains_str n ''azure'' then ''microsoft''
      else if contains_str n ''google'' then ''google''
      else if contains_str n ''fastly'' then ''fastly'' else [])"

definition origin_name :: "string \<Rightarrow> string \<Rightarrow> bool" where
  "origin_name host domain \<longleftrightarrow>
     domain \<noteq> [] \<and> (host = domain \<or> suffix (''.'' @ domain) host) \<and>
     list_ex (\<lambda>l. l \<in> {''origin'', ''backend'', ''direct''}) (split_on CHR ''.'' host)"

definition origin_header_names :: "string list" where
  "origin_header_names = [''X-Origin-Ip'', ''X-Backend-Ip'', ''X-Origin-Host'', ''X-Backend-Host'', ''X-Upstream-Host'']"

definition origin_header_values :: "go_env \<Rightarrow> headers \<Rightarrow> string \<Rightarrow> string list" where
  "origin_header_values G hs name = (case find (\<lambda>(key, _). equal_fold G key name) hs of None \<Rightarrow> [] | Some (_, vs) \<Rightarrow> vs)"

definition header_origins :: "go_env \<Rightarrow> host_analysis \<Rightarrow> string \<Rightarrow> origin_candidate list" where
  "header_origins G a scheme =
     (case get_http_observation a scheme of
        None \<Rightarrow> []
      | Some obs \<Rightarrow>
          if \<not> ho_complete obs then []
          else concat (map (\<lambda>name. map (\<lambda>v. \<lparr>oc_target = v, oc_source = name, oc_kind = ''header''\<rparr>)
            (origin_header_values G (ho_headers obs) name)) origin_header_names))"

definition address_origins :: "go_env \<Rightarrow> host_analysis \<Rightarrow> origin_candidate list" where
  "address_origins G a =
     (let cdn = cdn_provider_id G (ha_cdn a) in
      map (\<lambda>c. \<lparr>oc_target = cip_ip c, oc_source = cip_provider c, oc_kind = ''dns''\<rparr>)
        (filter (\<lambda>c. cip_provider_id c \<noteq> [] \<and> cdn \<noteq> [] \<and> provider_family G (cip_provider_id c) \<noteq> cdn)
          (ha_cloud_ip_candidates a)))"

definition certificate_origins :: "go_env \<Rightarrow> host_analysis \<Rightarrow> origin_candidate list" where
  "certificate_origins G a =
     (case ha_tls a of
        None \<Rightarrow> []
      | Some obs \<Rightarrow> map (\<lambda>san. \<lparr>oc_target = san, oc_source = ''TLS SAN'', oc_kind = ''tls''\<rparr>)
          (filter (\<lambda>san. origin_name san (extract_root_domain G (ha_host a))) (tls_sa_ns obs)))"

definition normal_origin :: "go_env \<Rightarrow> string \<Rightarrow> origin_candidate \<Rightarrow> origin_candidate option" where
  "normal_origin G host c =
     (let t = normalize_origin_target G (oc_target c) in
      if t = [] \<or> equal_fold G t host then None else Some (c\<lparr>oc_target := t\<rparr>))"

definition origin_candidates :: "go_env \<Rightarrow> host_analysis \<Rightarrow> origin_candidate list" where
  "origin_candidates G a =
     dedup_by (\<lambda>c. oc_kind c @ ''|'' @ oc_target c) {} (List.map_filter (normal_origin G (ha_host a))
       (header_origins G a ''https'' @ header_origins G a ''http'' @ address_origins G a @ certificate_origins G a))"

text \<open>The address that is dialled for a target.\<close>

definition dial_target :: "('w, 'r) origin_env \<Rightarrow> string \<Rightarrow> ('w, string) state" where
  "dial_target E target =
     (case parse_ip target of
        Some a \<Rightarrow> ret (if public_origin_ip a then ip_text a else [])
      | None \<Rightarrow>
          (case oe_lookup E of
             None \<Rightarrow> ret []
           | Some look \<Rightarrow> do {
               addresses \<leftarrow> State (look target);
               ret (case addresses of
                 None \<Rightarrow> []
               | Some ips \<Rightarrow> (case find public_origin_ip ips of None \<Rightarrow> [] | Some a \<Rightarrow> ip_text a))
             }))"

definition origin_context :: "host_analysis \<Rightarrow> string \<Rightarrow> string \<Rightarrow> http_observation \<Rightarrow> mutation_context" where
  "origin_context a dial scheme baseline =
     \<lparr>mc_dial_host = dial, mc_dial_port = (if scheme = ''http'' then 80 else 443), mc_http_authority = ha_host a,
      mc_tls_server_name = (if scheme = ''http'' then [] else ha_host a), mc_scheme = scheme, mc_baseline = baseline,
      mc_provider_candidates = [],
      mc_block_decision = \<lparr>bd_blocked = False, bd_confidence = 0, bd_reasons = [], bd_baseline_id = []\<rparr>\<rparr>"

definition same_origin_response :: "'r page_env \<Rightarrow> http_observation \<Rightarrow> raw_http_observation \<Rightarrow> bool" where
  "same_origin_response P baseline obs \<longleftrightarrow>
     raw_complete obs \<and> raw_status_code obs = ho_status_code baseline \<and>
     hash_bytes P (normalize_http_body P (raw_body obs)) = ho_body_hash baseline"

text \<open>The attempts of one protocol: the limiter ends the whole confirmation, \<open>Crashed\<close> is a panic of the
  transport.\<close>

datatype origin_round = Refused | Crashed | Compared bool

fun origin_attempts ::
  "('w, 'r) origin_env \<Rightarrow> (mutation_context \<Rightarrow> string \<Rightarrow> ('w, raw_http_observation option) state) \<Rightarrow>
   mutation_context \<Rightarrow> string \<Rightarrow> nat \<Rightarrow> ('w, origin_round) state"
where
  "origin_attempts E send ctx payload 0 = ret (Compared True)"
| "origin_attempts E send ctx payload (Suc n) = do {
     refused \<leftarrow> (case oe_wait E of None \<Rightarrow> ret None | Some wait \<Rightarrow> State wait);
     if refused \<noteq> None then ret Refused
     else do {
       answer \<leftarrow> send ctx payload;
       case answer of
         None \<Rightarrow> ret Crashed
       | Some obs \<Rightarrow>
           if same_origin_response (oe_page E) (mc_baseline ctx) obs then origin_attempts E send ctx payload n
           else ret (Compared False)
     }
   }"

definition direct_match_evidence :: "host_analysis \<Rightarrow> origin_candidate \<Rightarrow> string \<Rightarrow> string \<Rightarrow> http_observation \<Rightarrow> evidence" where
  "direct_match_evidence a c dial scheme baseline =
     plain_evidence ''ORIGIN_DIRECT_MATCH'' (oc_source c)
       (''O destino permitido reproduziu a resposta da aplica'' @ [CHR 0xC3, CHR 0xA7, CHR 0xC3, CHR 0xA3] @ ''o ao receber o Host e o SNI originais.'') 20 95
       [(''target'', oc_target c), (''dial_target'', dial), (''scheme'', scheme),
        (''status'', itoa (ho_status_code baseline)), (''cdn'', ha_cdn a), (''confirmations'', ''2'')]"

fun confirm_schemes ::
  "('w, 'r) origin_env \<Rightarrow> (mutation_context \<Rightarrow> string \<Rightarrow> ('w, raw_http_observation option) state) \<Rightarrow>
   origin_candidate \<Rightarrow> string \<Rightarrow> string \<Rightarrow> string list \<Rightarrow> host_analysis \<Rightarrow> ('w, host_analysis option) state"
where
  "confirm_schemes E send c dial payload [] a = ret (Some a)"
| "confirm_schemes E send c dial payload (scheme # schemes) a =
     (case get_http_observation a scheme of
        None \<Rightarrow> confirm_schemes E send c dial payload schemes a
      | Some baseline \<Rightarrow>
          if \<not> ho_complete baseline then confirm_schemes E send c dial payload schemes a
          else do {
            round \<leftarrow> origin_attempts E send (origin_context a dial scheme baseline) payload 2;
            case round of
              Crashed \<Rightarrow> ret None
            | Refused \<Rightarrow> ret (Some a)
            | Compared same \<Rightarrow>
                if same then ret (Some (add_evidence (direct_match_evidence a c dial scheme baseline) a))
                else confirm_schemes E send c dial payload schemes a
          })"

definition confirm_origin ::
  "('w, 'r) origin_env \<Rightarrow> origin_candidate \<Rightarrow> host_analysis \<Rightarrow> ('w, host_analysis option) state"
where
  "confirm_origin E c a =
     (case oe_send E of
        None \<Rightarrow> ret (Some a)
      | Some send \<Rightarrow> do {
          dial \<leftarrow> dial_target E (oc_target c);
          if dial = [] then ret (Some a)
          else case build_raw_request ''GET'' ''/'' (standard_raw_headers (ha_host a) ''close'') [] of
            Inl _ \<Rightarrow> ret (Some a)
          | Inr payload \<Rightarrow> confirm_schemes E send c dial payload [''https'', ''http''] a
        })"

definition origin_hint :: "host_analysis \<Rightarrow> origin_candidate \<Rightarrow> evidence" where
  "origin_hint a c =
     plain_evidence (if oc_kind c = ''header'' then ''ORIGIN_EXPOSURE_CANDIDATE'' else ''ORIGIN_EXPOSURE_HINT'') (oc_source c)
       (''DNS, TLS ou cabe'' @ [CHR 0xC3, CHR 0xA7] @ ''alho revelou um candidato a origin atr'' @ [CHR 0xC3, CHR 0xA1] @ ''s da camada de borda.'') 0
       (if oc_kind c = ''header'' then 85 else 60)
       [(''target'', oc_target c), (''signal'', oc_kind c), (''cdn'', ha_cdn a)]"

definition note_origin :: "origin_candidate \<Rightarrow> host_analysis \<Rightarrow> host_analysis" where
  "note_origin c a =
     add_evidence (origin_hint a c)
       (if parse_ip (oc_target c) \<noteq> None \<and> ha_origin_ip_candidate a = []
        then a\<lparr>ha_origin_ip_candidate := oc_target c\<rparr> else a)"

fun collect_origin_candidates ::
  "('w, 'r) origin_env \<Rightarrow> string set \<Rightarrow> origin_candidate list \<Rightarrow> host_analysis \<Rightarrow> ('w, host_analysis option) state"
where
  "collect_origin_candidates E allowed [] a = ret (Some a)"
| "collect_origin_candidates E allowed (c # cs) a =
     (let a1 = note_origin c a in
      if oc_target c \<notin> allowed then collect_origin_candidates E allowed cs a1
      else do {
        confirmed \<leftarrow> confirm_origin E c a1;
        case confirmed of
          None \<Rightarrow> ret None
        | Some a2 \<Rightarrow> collect_origin_candidates E allowed cs a2
      })"

definition collect_origin ::
  "('w, 'r) origin_env \<Rightarrow> string set \<Rightarrow> host_analysis \<Rightarrow> ('w, host_analysis option) state"
where
  "collect_origin E allowed a =
     (if \<not> behind_cdn a then ret (Some a)
      else let a0 = add_tested_vector ''ORIGIN_EXPOSURE'' a in
        collect_origin_candidates E allowed
          (take max_origin_candidates (origin_candidates (pe_go (oe_page E)) a0)) a0)"

end
