(* ===== verification/WebProps.thy ===== *)
theory WebProps
  imports CollectWeb CollectTls
begin

section \<open>Properties of the collectors that look beyond the host\<close>

text \<open>
  Redirect chains, web dependencies, certificates and origins lead a scan to hosts that it was not
  given. The properties say how far they go. That a request is never sent is stated as independence:
  whatever the client would answer to it, the run of the collector is the same.
\<close>

subsection \<open>Redirect chains\<close>

lemma redirect_depth_bounds: "0 < redirect_depth d \<and> redirect_depth d \<le> 20"
  by (auto simp: redirect_depth_def max_redirect_depth_def)

lemma redirect_hop_at_fields:
  assumes "run_state (redirect_hop_at R G sigs a index target cache) s = ((hop, cache'), s')"
  shows "hop_index hop = int index" and "hop_scheme hop = to_lower G (wl_scheme target)"
    and "\<exists>c. map_of cache' (normalize_web_host G (wl_hostname target)) = Some c \<and> hop_dns_status c = hop_dns_status hop"
  using assms by (auto simp: redirect_hop_at_def Let_def zero_redirect_hop_def split: option.splits prod.splits)

lemma redirect_hop_at_cached:
  assumes "run_state (redirect_hop_at R G sigs a index target cache) s = ((hop, cache'), s')"
    and "map_of cache (normalize_web_host G (wl_hostname target)) = Some c"
  shows "hop_dns_status hop = hop_dns_status c"
  using assms by (auto simp: redirect_hop_at_def Let_def)

lemma answered_hop_fields [simp]:
  "hop_index (answered_hop P sigs hop r) = hop_index hop" "hop_scheme (answered_hop P sigs hop r) = hop_scheme hop"
  "hop_dns_status (answered_hop P sigs hop r) = hop_dns_status hop"
  by (simp_all add: answered_hop_def Let_def split: prod.split)

lemma chain_fields [simp]:
  "chain_hops (stop_chain reason c) = chain_hops c" "chain_stopped_reason (stop_chain reason c) = reason"
  "chain_hops (chain_with hop c) = chain_hops c @ [hop]" "chain_hops (chain_at target c) = chain_hops c"
  by (simp_all add: stop_chain_def chain_with_def chain_at_def)

text \<open>The hops so far: numbered in order, and all but the first are of HTTP and have resolved.\<close>

definition hops_ok :: "redirect_hop list \<Rightarrow> bool" where
  "hops_ok hops \<longleftrightarrow> map hop_index hops = map int [0..<length hops] \<and>
     (\<forall>h \<in> set hops. 0 < hop_index h \<longrightarrow> hop_scheme h \<in> {''http'', ''https''} \<and> hop_dns_status h = DNSStatusResolved)"

definition chain_ok :: "nat \<Rightarrow> redirect_chain \<Rightarrow> bool" where
  "chain_ok depth c \<longleftrightarrow>
     length (chain_hops c) \<le> Suc depth \<and> chain_stopped_reason c \<noteq> [] \<and>
     (hops_ok (chain_hops c) \<or>
       (\<exists>hops h. chain_hops c = hops @ [h] \<and> hops_ok hops \<and> hop_index h = int (length hops) \<and>
          hop_scheme h \<in> {''http'', ''https''} \<and> chain_stopped_reason c = ''DESTINATION_'' @ dns_status_text (hop_dns_status h)))"

lemma hops_ok_append:
  "hops_ok hops \<Longrightarrow> hop_index h = int (length hops) \<Longrightarrow>
     (0 < length hops \<Longrightarrow> hop_scheme h \<in> {''http'', ''https''} \<and> hop_dns_status h = DNSStatusResolved) \<Longrightarrow>
     hops_ok (hops @ [h])"
  by (auto simp: hops_ok_def)

lemma lower_web_scheme: "scheme = ''http'' \<or> scheme = ''https'' \<Longrightarrow> to_lower G scheme = scheme"
  by (auto simp: to_lower_plain plain_lemmas)

text \<open>What holds before a round: the current location, when it is not the first, is of HTTP and its name
  is remembered as one that resolves.\<close>

definition walk_ready :: "go_env \<Rightarrow> web_location \<Rightarrow> (string, redirect_hop) gomap \<Rightarrow> redirect_hop list \<Rightarrow> bool" where
  "walk_ready G current cache hops \<longleftrightarrow> hops_ok hops \<and>
     (0 < length hops \<longrightarrow> wl_scheme current \<in> {''http'', ''https''} \<and>
       (\<exists>c. map_of cache (normalize_web_host G (wl_hostname current)) = Some c \<and> hop_dns_status c = DNSStatusResolved))"

lemma verdict_next:
  "hop_verdict_of L current r = NextLocation n \<Longrightarrow> wl_scheme n \<in> {''http'', ''https''}"
  by (auto simp: hop_verdict_of_def Let_def split: if_splits option.splits)

lemma walk_ready_hop:
  assumes "walk_ready G current cache hops"
    and "run_state (redirect_hop_at R G sigs a (length hops) current cache) s = ((hop, cache'), s')"
  shows "hops_ok (hops @ [hop])" and "hops_ok (hops @ [answered_hop P sigs' hop r])"
proof -
  have i: "hop_index hop = int (length hops)" using redirect_hop_at_fields(1) [OF assms(2)] .
  have s: "hop_scheme hop \<in> {''http'', ''https''} \<and> hop_dns_status hop = DNSStatusResolved" if l: "0 < length hops"
  proof -
    obtain c where c: "map_of cache (normalize_web_host G (wl_hostname current)) = Some c" "hop_dns_status c = DNSStatusResolved"
      and w: "wl_scheme current = ''http'' \<or> wl_scheme current = ''https''"
      using assms(1) l by (auto simp: walk_ready_def)
    show ?thesis
      using redirect_hop_at_cached [OF assms(2) c(1)] c(2) redirect_hop_at_fields(2) [OF assms(2)] lower_web_scheme [OF w] w
      by simp
  qed
  have h: "hops_ok hops" using assms(1) by (simp add: walk_ready_def)
  show "hops_ok (hops @ [hop])" using hops_ok_append [OF h i s] by blast
  show "hops_ok (hops @ [answered_hop P sigs' hop r])" by (rule hops_ok_append [OF h]) (use i s in simp_all)
qed

lemma walk_ok:
  "walk_ready (wb_go W) current cache (chain_hops chain) \<Longrightarrow> length (chain_hops chain) + left = depth \<Longrightarrow> 0 < left \<Longrightarrow>
     run_state (redirect_walk R W L sigs scheme depth left current seen cache chain a) s = ((chain', a'), s') \<Longrightarrow>
     chain_ok depth chain'"
proof (induction left arbitrary: current seen cache chain a s)
  case 0
  then show ?case by simp
next
  case (Suc left)
  let ?hops = "chain_hops chain"
  have ready: "hops_ok ?hops" and len: "length ?hops < depth" and index: "depth - Suc left = length ?hops"
    using Suc.prems(1,2) by (auto simp: walk_ready_def)
  note run = Suc.prems(4)
  show ?case
  proof (cases "wl_key current \<in> set seen")
    case True
    then show ?thesis using run ready len by (auto simp: chain_ok_def)
  next
    case new: False
    obtain hop cache1 s1 where
      hop: "run_state (redirect_hop_at R (wb_go W) sigs a (length ?hops) current cache) s = ((hop, cache1), s1)"
      by (metis prod.exhaust)
    note next_ok = walk_ready_hop [OF Suc.prems(1) hop]
    show ?thesis
    proof (cases "request_ok W (wl_text current)")
      case False
      then show ?thesis using run ready len new hop by (auto simp: chain_ok_def index)
    next
      case True
      let ?req = "\<lparr>wq_url = wl_text current, wq_host = [], wq_headers = []\<rparr>"
      obtain res s2 where res: "wb_do W ?req s1 = (res, s2)" by (rule prod.exhaust)
      show ?thesis
      proof (cases res)
        case (Inl e)
        then show ?thesis using run len new hop True res next_ok(1) by (auto simp: chain_ok_def index)
      next
        case (Inr r)
        let ?answered = "answered_hop (wb_page W) sigs hop r"
        let ?chain1 = "chain_at current (chain_with ?answered chain)"
        have ok1: "hops_ok (chain_hops ?chain1)" using next_ok(2) by simp
        show ?thesis
        proof (cases "hop_verdict_of L current r")
          case FinalResponse
          then have "final_response scheme ?answered ?chain1 a = (chain', a')"
            using run new hop True res Inr by (simp add: index Let_def)
          then show ?thesis using ok1 len by (auto simp: chain_ok_def final_response_def split: if_splits)
        next
          case InvalidLocation
          then show ?thesis using run new hop True res Inr ok1 len by (auto simp: chain_ok_def index Let_def)
        next
          case (UnsupportedProtocol n)
          then show ?thesis using run new hop True res Inr ok1 len by (auto simp: chain_ok_def index Let_def)
        next
          case (NextLocation n)
          obtain next_hop cache2 s3 where
            nh: "run_state (redirect_hop_at R (wb_go W) sigs a (Suc (length ?hops)) n cache1) s2 = ((next_hop, cache2), s3)"
            by (metis prod.exhaust)
          note f = redirect_hop_at_fields [OF nh]
          have n: "wl_scheme n = ''http'' \<or> wl_scheme n = ''https''" using verdict_next [OF NextLocation] by simp
          show ?thesis
          proof (cases "hop_dns_status next_hop = DNSStatusResolved")
            case False
            then have chain': "chain' = stop_chain (''DESTINATION_'' @ dns_status_text (hop_dns_status next_hop))
                (chain_at n (chain_with next_hop ?chain1))"
              using run new hop True res Inr NextLocation nh by (simp add: index Let_def)
            show ?thesis
              using ok1 f(1,2) lower_web_scheme [OF n] n len unfolding chain' chain_ok_def by auto
          next
            case resolved: True
            have rest: "run_state (if left = 0
                then ret (stop_chain ''MAX_DEPTH'' (chain_at n ?chain1), add_evidence (depth_evidence scheme depth n) a)
                else redirect_walk R W L sigs scheme depth left n (wl_key current # seen) cache2 ?chain1 a) s3 =
                  ((chain', a'), s')"
              using run new hop True res Inr NextLocation nh resolved by (simp add: index Let_def)
            have "walk_ready (wb_go W) n cache2 (chain_hops ?chain1)"
              using ok1 n f(3) resolved by (auto simp: walk_ready_def)
            then show ?thesis
              using rest ok1 len Suc.IH [of n cache2 ?chain1] Suc.prems(2)
              by (cases "left = 0") (auto simp: chain_ok_def)
          qed
        qed
      qed
    qed
  qed
qed

lemma collected_chain:
  "\<exists>chain. map_of (ha_redirects (fst (run_state (collect_redirect_scheme R W L sigs (redirect_depth depth) scheme a) s))) scheme = Some chain \<and>
     chain_ok (redirect_depth depth) chain"
proof -
  let ?current = "le_first L scheme (ha_host a)"
  let ?chain = "\<lparr>chain_scheme = scheme, chain_hops = [], chain_final_url = wl_text ?current, chain_stopped_reason = []\<rparr>"
  obtain chain a1 s1 where walk: "run_state (redirect_walk R W L sigs scheme (redirect_depth depth) (redirect_depth depth) ?current [] [] ?chain a) s = ((chain, a1), s1)"
    by (metis prod.exhaust)
  have "chain_ok (redirect_depth depth) chain"
    by (rule walk_ok [OF _ _ _ walk]) (use redirect_depth_bounds [of depth] in \<open>simp_all add: walk_ready_def hops_ok_def\<close>)
  moreover have "map_of (ha_redirects (fst (run_state (collect_redirect_scheme R W L sigs (redirect_depth depth) scheme a) s))) scheme = Some chain"
    by (simp add: collect_redirect_scheme_def Let_def walk set_redirect_chain_def)
  ultimately show ?thesis by blast
qed

subsection \<open>Web dependencies\<close>

lemma asset_status_same:
  "wq_ok url \<Longrightarrow> asset_status (W\<lparr>wb_do := \<lambda>req w. if wq_ok (wq_url req) then wb_do W req w else other req w\<rparr>) url = asset_status W url"
  by (simp add: asset_status_def request_ok_def)

definition guarded_client :: "(string \<Rightarrow> bool) \<Rightarrow> (web_request \<Rightarrow> 'w \<Rightarrow> (string + web_reply) \<times> 'w) \<Rightarrow> ('w, 'r) web_env \<Rightarrow> ('w, 'r) web_env" where
  "guarded_client ok other W = W\<lparr>wb_do := \<lambda>req w. if ok (wq_url req) then wb_do W req w else other req w\<rparr>"

lemma guarded_page [simp]: "wb_page (guarded_client ok other W) = wb_page W"
  by (simp add: guarded_client_def)

lemma inspect_guarded:
  "(follow \<Longrightarrow> ok (dr_url ref)) \<Longrightarrow>
     inspect_dependency E (guarded_client ok other W) sigs follow ref a = inspect_dependency E W sigs follow ref a"
  by (cases follow) (simp_all add: inspect_dependency_def guarded_client_def asset_status_same split_def Let_def cong: if_cong)

lemma inspect_all_guarded:
  "(\<And>ref. ref \<in> set refs \<Longrightarrow> dr_host ref \<in> set allowed \<Longrightarrow> ok (dr_url ref)) \<Longrightarrow>
     inspect_dependencies E (guarded_client ok other W) sigs allowed refs a = inspect_dependencies E W sigs allowed refs a"
proof (induction refs arbitrary: a)
  case (Cons ref refs)
  have "inspect_dependency E (guarded_client ok other W) sigs (dr_host ref \<in> set allowed) ref a =
      inspect_dependency E W sigs (dr_host ref \<in> set allowed) ref a" for a
    using Cons.prems by (intro inspect_guarded) simp
  moreover have "inspect_dependencies E (guarded_client ok other W) sigs allowed refs = inspect_dependencies E W sigs allowed refs"
    using Cons by (intro ext) simp
  ultimately show ?case by simp
qed simp

subsection \<open>Certificates\<close>

lemma chosen_sans_facts:
  "length (chosen_sans G roots host sans) \<le> max_san_candidates \<and>
   set (chosen_sans G roots host sans) \<subseteq> {san. allowed_san G roots san (extract_root_domain G host)}"
  by (auto simp: chosen_sans_def dest: in_set_takeD)

lemma add_evidence_sans [simp]: "ha_san_candidates (add_evidence e a) = ha_san_candidates a"
  by (simp add: add_evidence_def)

lemma add_evidence_host [simp]: "ha_host (add_evidence e a) = ha_host a"
  by (simp add: add_evidence_def)

lemma add_vector_sans [simp]: "ha_san_candidates (add_tested_vector v a) = ha_san_candidates a"
  by (simp add: add_tested_vector_def)

lemma add_vector_host [simp]: "ha_host (add_tested_vector v a) = ha_host a"
  by (simp add: add_tested_vector_def)

lemma fold_evidence_sans [simp]: "ha_san_candidates (fold add_evidence es a) = ha_san_candidates a"
  by (induction es arbitrary: a) auto

lemma fold_candidates_sans:
  "set (ha_san_candidates (fold (\<lambda>san b. add_evidence (san_evidence san) (add_san_candidate san b)) sans a)) =
     set (ha_san_candidates a) \<union> set sans \<and>
   length (ha_san_candidates (fold (\<lambda>san b. add_evidence (san_evidence san) (add_san_candidate san b)) sans a)) \<le>
     length (ha_san_candidates a) + length sans"
proof (induction sans arbitrary: a)
  case (Cons san sans)
  let ?a1 = "add_evidence (san_evidence san) (add_san_candidate san a)"
  have "set (ha_san_candidates ?a1) = insert san (set (ha_san_candidates a))"
    and "length (ha_san_candidates ?a1) \<le> Suc (length (ha_san_candidates a))"
    by (auto simp: add_san_candidate_def list_ex_iff)
  then show ?case using Cons [of ?a1] by auto
qed simp

lemma set_tls_fields [simp]: "ha_san_candidates (set_tls obs a) = ha_san_candidates a" "ha_host (set_tls obs a) = ha_host a"
  by (simp_all add: set_tls_def)

text \<open>What a collection may do to the candidates.\<close>

definition sans_within :: "go_env \<Rightarrow> string list \<Rightarrow> host_analysis \<Rightarrow> host_analysis \<Rightarrow> bool" where
  "sans_within G roots a a' \<longleftrightarrow>
     set (ha_san_candidates a') \<subseteq> set (ha_san_candidates a) \<union> {san. allowed_san G roots san (extract_root_domain G (ha_host a))} \<and>
     length (ha_san_candidates a') \<le> length (ha_san_candidates a) + max_san_candidates"

lemma add_drift_sans [simp]: "ha_san_candidates (add_drift md a) = ha_san_candidates a" "ha_host (add_drift md a) = ha_host a"
  by (simp_all add: add_drift_def Let_def add_evidence_def)

lemma fold_evidence_host [simp]: "ha_host (fold add_evidence es a) = ha_host a"
  by (induction es arbitrary: a) (auto simp: add_evidence_def)

lemma add_san_candidates_within: "sans_within G (tc_san_roots c) b (add_san_candidates G c obs b)"
proof (cases "\<not> tc_discover_san c \<and> tc_san_roots c = []")
  case True
  then show ?thesis by (simp add: add_san_candidates_def sans_within_def)
next
  case False
  let ?b0 = "add_tested_vector (if tc_san_roots c \<noteq> [] then ''TLS_SAN_PIVOT'' else ''TLS_SAN_DISCOVERY'') b"
  let ?sans = "chosen_sans G (tc_san_roots c) (ha_host b) (tls_sa_ns obs)"
  let ?b1 = "fold (\<lambda>san b. add_evidence (san_evidence san) (add_san_candidate san b)) ?sans ?b0"
  have eq: "add_san_candidates G c obs b = ?b1"
    unfolding add_san_candidates_def Let_def using False by (simp only: if_False add_vector_host)
  note f = fold_candidates_sans [of ?sans ?b0] and k = chosen_sans_facts [of G "tc_san_roots c" "ha_host b" "tls_sa_ns obs"]
  have "set (ha_san_candidates ?b1) \<subseteq> set (ha_san_candidates b) \<union> {san. allowed_san G (tc_san_roots c) san (extract_root_domain G (ha_host b))}"
    using f k by auto
  moreover have "length (ha_san_candidates ?b1) \<le> length (ha_san_candidates b) + max_san_candidates"
    using conjunct2 [OF f] conjunct1 [OF k] unfolding add_vector_sans by linarith
  ultimately show ?thesis unfolding eq sans_within_def by blast
qed

lemma record_certificate_sans: "sans_within (te_go T) (tc_san_roots c) a (record_certificate T c now cert obs a)"
proof -
  define b where "b = add_drift (tls_metadata T obs (certificate_covers_host T cert (ha_host a))) (add_evidences
    ([plain_evidence ''TLS_CERTIFICATE_OBSERVED'' ''TLS'' (text_certificate_recorded) 0 100 (tls_metadata T obs (certificate_covers_host T cert (ha_host a)))] @
     map (tls_provider_evidence T (tls_metadata T obs (certificate_covers_host T cert (ha_host a)))) (tls_providers (te_go T) (tc_sigs c) cert) @
     certificate_state_evidences T now cert obs (tls_metadata T obs (certificate_covers_host T cert (ha_host a))) (ha_host a)) (set_tls obs a))"
  have b: "record_certificate T c now cert obs a = add_san_candidates (te_go T) c obs b"
    by (simp add: record_certificate_def b_def Let_def)
  have h: "ha_host b = ha_host a" "ha_san_candidates b = ha_san_candidates a"
    by (simp_all add: b_def add_evidences_def)
  show ?thesis using add_san_candidates_within [of "te_go T" c b obs] unfolding b sans_within_def h .
qed

lemma note_variant_sans [simp]: "ha_san_candidates (note_variant mode name baseline obs a) = ha_san_candidates a"
  by (simp add: note_variant_def add_sni_variant_def)

lemma probe_sni_sans: "ha_san_candidates (snd (fst (run_state (probe_sni T endpoint baseline probes a) s))) = ha_san_candidates a"
proof (induction probes arbitrary: a s)
  case (Cons probe probes)
  obtain mode name where p: "probe = (mode, name)" by (rule prod.exhaust)
  obtain err s1 where w: "run_state (wait_tls T) s = (err, s1)" by (rule prod.exhaust)
  obtain seen s2 where o: "run_state (observe_tls T endpoint name mode) s1 = (seen, s2)" by (rule prod.exhaust)
  show ?case
    using Cons [of "case seen of None \<Rightarrow> a | Some (obs, _) \<Rightarrow> note_variant mode name baseline obs a" s2]
    by (cases err) (auto simp: p w o split: option.splits)
qed simp

lemma inspect_sni_sans: "ha_san_candidates (snd (fst (run_state (inspect_sni T alternate endpoint baseline a) s))) = ha_san_candidates a"
  by (cases alternate) (simp_all add: inspect_sni_def Let_def probe_sni_sans split: prod.split del: probe_sni.simps)

lemma collect_tls_sans: "sans_within (te_go T) (tc_san_roots c) a (snd (fst (run_state (collect_tls T c a) s)))"
proof (cases "rs_a (ha_dns a) = [] \<and> rs_aaaa (ha_dns a) = []")
  case True
  then show ?thesis by (simp add: collect_tls_def sans_within_def)
next
  case False
  let ?a0 = "add_tested_vector ''TLS'' a"
  have h: "ha_host ?a0 = ha_host a" "ha_san_candidates ?a0 = ha_san_candidates a" by (simp_all add: add_tested_vector_def)
  obtain err s1 where w: "run_state (wait_tls T) s = (err, s1)" by (rule prod.exhaust)
  obtain seen s2 where o: "run_state (observe_tls T (tls_endpoint ?a0) (ha_host a) ''baseline'') s1 = (seen, s2)" by (rule prod.exhaust)
  obtain now s3 where n: "te_now T s2 = (now, s3)" by (rule prod.exhaust)
  show ?thesis
  proof (cases err)
    case (Some e)
    then show ?thesis using False by (simp add: collect_tls_def Let_def w sans_within_def h)
  next
    case None
    show ?thesis
    proof (cases seen)
      case None
      with \<open>err = None\<close> show ?thesis using False by (simp add: collect_tls_def Let_def w o sans_within_def h)
    next
      case (Some pair)
      obtain obs0 cert where p: "pair = (obs0, cert)" by (rule prod.exhaust)
      let ?obs = "with_tls_provider (tls_providers (te_go T) (tc_sigs c) cert) obs0"
      have "sans_within (te_go T) (tc_san_roots c) ?a0 (record_certificate T c now cert ?obs ?a0)"
        by (rule record_certificate_sans)
      then show ?thesis
        using False \<open>err = None\<close> Some p by (simp add: collect_tls_def Let_def w o n inspect_sni_sans sans_within_def h)
    qed
  qed
qed

subsection \<open>Origins\<close>






lemma dial_target_send [simp]: "dial_target (E\<lparr>oe_send := x\<rparr>) t = dial_target E t"
  by (simp add: dial_target_def split: option.split)



lemma note_origin_host [simp]: "ha_host (note_origin c a) = ha_host a"
  by (simp add: note_origin_def)




subsection \<open>Properties\<close>

text \<open>C15. A redirect chain that is recorded has a reason for its end and at most twenty-one hops,
  numbered from zero. Every hop after the first was published as a location of HTTP, and its name has
  resolved, except for the last hop of a chain that ends with the status of that name: such a
  location is not asked for.\<close>

theorem redirect_chains_end_and_resolve:
  "\<exists>chain. map_of (ha_redirects (fst (run_state (collect_redirect_scheme R W L sigs (redirect_depth depth) scheme a) s))) scheme = Some chain \<and>
     chain_stopped_reason chain \<noteq> [] \<and> length (chain_hops chain) \<le> 21 \<and>
     map hop_index (chain_hops chain) = map int [0..<length (chain_hops chain)] \<and>
     list_all (\<lambda>h. hop_index h = 0 \<or> hop_scheme h = ''http'' \<or> hop_scheme h = ''https'') (chain_hops chain) \<and>
     list_all (\<lambda>h. hop_index h = 0 \<or> hop_dns_status h = DNSStatusResolved \<or>
       h = last (chain_hops chain) \<and> chain_stopped_reason chain = ''DESTINATION_'' @ dns_status_text (hop_dns_status h)) (chain_hops chain)"
proof -
  obtain chain where c: "map_of (ha_redirects (fst (run_state (collect_redirect_scheme R W L sigs (redirect_depth depth) scheme a) s))) scheme = Some chain"
    and ok: "chain_ok (redirect_depth depth) chain" using collected_chain by blast
  have index: "map hop_index hops = map int [0..<length hops] \<Longrightarrow> h \<in> set hops \<Longrightarrow> 0 \<le> hop_index h" for hops h
    by (metis (no_types, lifting) image_iff list.set_map of_nat_0_le_iff)
  have "length (chain_hops chain) \<le> 21" using ok redirect_depth_bounds [of depth] by (simp add: chain_ok_def)
  moreover have "map hop_index (chain_hops chain) = map int [0..<length (chain_hops chain)]"
    using ok by (auto simp: chain_ok_def hops_ok_def)
  ultimately show ?thesis
    using c ok index by (intro exI [of _ chain]) (fastforce simp: chain_ok_def hops_ok_def list_all_iff)
qed

text \<open>C14. The collector of web dependencies asks for a resource only on an allowed host: whatever the
  client would answer to any other request, the run is the same.\<close>

theorem assets_only_from_allowed_hosts:
  "collect_web_dependencies R (W\<lparr>wb_do := \<lambda>req w.
       if \<exists>ref \<in> set (web_references (wb_page W) L allowed (add_tested_vector ''WEB_DEPENDENCIES'' a)).
            dr_host ref \<in> set allowed \<and> wq_url req = dr_url ref
       then wb_do W req w else other req w\<rparr>) L sigs allowed a =
   collect_web_dependencies R W L sigs allowed a"
proof (cases R)
  case (Some E)
  let ?a0 = "add_tested_vector ''WEB_DEPENDENCIES'' a"
  let ?ok = "\<lambda>url. \<exists>ref \<in> set (web_references (wb_page W) L allowed ?a0). dr_host ref \<in> set allowed \<and> url = dr_url ref"
  have "inspect_dependencies E (guarded_client ?ok other W) sigs allowed (take max_web_dependencies (web_references (wb_page W) L allowed ?a0)) ?a0 =
      inspect_dependencies E W sigs allowed (take max_web_dependencies (web_references (wb_page W) L allowed ?a0)) ?a0"
    by (rule inspect_all_guarded) (auto dest: in_set_takeD)
  then show ?thesis using Some by (simp add: collect_web_dependencies_def Let_def guarded_client_def)
qed (simp add: collect_web_dependencies_def)

text \<open>C12. The names that a certificate contributes to a scan lie under the roots that were authorised, or,
  where none were given, have the registrable domain of the host; a certificate contributes at most
  sixty-four, whatever it holds and however the handshakes end.\<close>

theorem certificate_names_in_scope:
  "set (ha_san_candidates (snd (fst (run_state (collect_tls T c a) s)))) \<subseteq> set (ha_san_candidates a) \<union>
     {san. if tc_san_roots c = []
        then extract_root_domain (te_go T) san = extract_root_domain (te_go T) (ha_host a) \<and> extract_root_domain (te_go T) san \<noteq> []
        else \<exists>r \<in> set (tc_san_roots c). san = r \<or> suffix (''.'' @ r) san} \<and>
   length (ha_san_candidates (snd (fst (run_state (collect_tls T c a) s)))) \<le> length (ha_san_candidates a) + 64"
  using collect_tls_sans [of T c a s]
  by (auto simp: sans_within_def allowed_san_def max_san_candidates_def list_ex_iff)


end
