(* ===== verification/Spec2Isabelle.thy ===== *)
theory Spec2Isabelle
  imports DomainUtil Confidence ClaimSafety Finding DnsProps DnsAgreement DnsSetup SignatureProps CollectFrame RegistryProps
    VerifyProps HttpProps HttpRawProps HttpMutatorProps ClaimAwsProps ScanInputProps ScanProps WebProps
begin

text \<open>
  A verification development for SubdomainAbber, a scanner that looks for subdomains whose DNS
  records point at resources that no longer exist and that somebody else could claim. The program is
  written in Go; paths below are relative to the root of the repository.

  \<^bold>\<open>The program.\<close> A scan takes a host through a pipeline (\<open>cmd/scan.go\<close>, and again in
  \<open>internal/verify/engine.go\<close>): the DNS profile is discovered (\<open>internal/dns\<close>), the registry runs
  the collectors of evidence in phases (\<open>internal/evidence\<close>), the HTTP observations are compared
  (\<open>internal/inference\<close>), the evidence is scored and classified (\<open>internal/classification\<close>),
  active verifiers look for the pages of missing resources (\<open>internal/verifiers\<close>), the confidence
  is computed (\<open>internal/confidence\<close>), and with an explicit authorisation a resource is claimed,
  checked and released (\<open>internal/claim\<close>). All parts share one record, \<open>core.HostAnalysis\<close>, and the
  catalogue of signatures (\<open>pkg/signatures\<close>).

  \<^bold>\<open>Foundations.\<close>
  \<^item> \<open>Prelude\<close>: maps as lists in the order a \<open>range\<close> loop visits them, truncated division, 64-bit
    wrap-around, removal of duplicates.
  \<^item> \<open>GoStrings\<close>: strings as byte lists with UTF-8 decoding, and the functions of \<open>strings\<close>,
    \<open>strconv\<close> and \<open>unicode\<close> that are used; the case tables beyond ASCII and the public suffix list
    are fields of \<open>go_env\<close>. \<open>GoUrl\<close>: the parser of \<open>net/url\<close>. \<open>GoNet\<close>: addresses as \<open>net.ParseIP\<close>
    reads and \<open>IP.String\<close> prints them (fuel 8, one per group of an IPv6 address). \<open>GoFloat\<close>: \<open>float64\<close>
    arithmetic as rounding of rationals. \<open>GoMonad\<close>: triples and invariants for the state monad.
  \<^item> \<open>CoreModel\<close>: the records of \<open>internal/core\<close> and the operations of \<open>HostAnalysis\<close>. Each operation
    holds its mutex, so it is one step.

  \<^bold>\<open>Components, in the order of the pipeline.\<close>
  \<^item> \<open>DomainUtil\<close> (\<open>internal/domainutil/hostname.go\<close>): normal forms of host names, names and patterns of
    providers. Normalisation is characterised exactly.
  \<^item> \<open>DnsNames\<close>, \<open>DnsModel\<close>, \<open>DnsZone\<close>, \<open>DnsChecks\<close>, \<open>DnsSetup\<close> (\<open>internal/dns\<close>): the resolver with
    its caches, retries, servers and limits, the questions by type, chains of aliases, authoritative
    zones, transfers, wildcards, consensus and the profile of a host. \<open>DnsSafety\<close>, \<open>DnsProps\<close> and
    \<open>DnsAgreement\<close> show the invariant of the memory, that chains and walks end, that a zone lies in the
    ancestry of its host, that a quorum stands behind a consensus, and that the order in which
    concurrent questions finish does not matter.
  \<^item> \<open>Signatures\<close> (\<open>pkg/signatures\<close>): decoding, cleaning, validation and merging of the catalogue, the
    rules over a body. \<open>SignatureProps\<close> shows that a compiled rule is the Boolean formula it denotes and
    that the catalogue satisfies its schema.
  \<^item> \<open>CollectTargets\<close>, \<open>CollectEmail\<close>, \<open>CollectZone\<close>, \<open>CollectLocal\<close> (\<open>internal/evidence\<close>): the
    collectors of DNS and of local data and the correlator. \<open>CollectFrame\<close> shows that a collector only
    adds; \<open>CollectProps\<close> when a delegation counts as one that can be taken over and that the walk over
    the SPF includes ends.
  \<^item> \<open>HttpObserve\<close>, \<open>CollectHttp\<close> (\<open>internal/evidence/http*.go\<close>, \<open>cookie_scope.go\<close>, \<open>cors_scope.go\<close>,
    \<open>vhost.go\<close>): observations of responses, the rules for fingerprints, the baseline and four probes.
    \<open>HttpProps\<close> shows what stands behind a fingerprint, the bounds of an observation, and a response
    that ends the program.
  \<^item> \<open>HttpRaw\<close> (\<open>internal/evidence/http_mutations.go\<close>, \<open>http_raw_transport.go\<close>): the requests of the
    mutations byte by byte, and the reader of the answers. \<open>HttpRawProps\<close> shows that a chunked body is
    read back, that the limit holds, and that one chunk size ends the program.
  \<^item> \<open>HttpMutator\<close> (\<open>internal/evidence/http_mutator.go\<close>): the repeated experiments with their controls and
    the framing laboratory. \<open>HttpMutatorProps\<close> shows which fingerprints may weigh, that framing stays
    within its list, and how many requests are sent.
  \<^item> \<open>CollectWeb\<close> (\<open>internal/evidence/redirect_chain.go\<close>, \<open>web_dependency.go\<close>) and \<open>CollectTls\<close> (\<open>tls.go\<close>,
    \<open>origin.go\<close>): the collectors that look beyond the host. \<open>WebProps\<close> shows how chains of redirects end,
    and that assets, names of certificates and origins stay within what was allowed.
  \<^item> \<open>Registry\<close> (\<open>internal/evidence/registry.go\<close>): the phases. The independent phase is a step relation
    over resumptions, at most ten active. \<open>RegistryProps\<close> shows that every schedule ends, that phases
    do not overlap, and that the schedule does not decide the level.
  \<^item> \<open>Inference\<close>, \<open>Classification\<close>, \<open>Confidence\<close>, \<open>Finding\<close>: the analysis of HTTP and HTTPS, the scores and
    the level with its decision, coverage and percentage, and the cause that is shown for a finding.
    The lemmas say exactly which evidence a level rests on.
  \<^item> \<open>Verifiers\<close> (\<open>internal/verifiers\<close>): one definition per provider and the two tiers of the engine
    as a step relation. \<open>VerifierProps\<close> shows that active verification never proves control, only adds,
    and ends.
  \<^item> \<open>VerifyEngine\<close> (\<open>internal/verify/engine.go\<close>): a revalidation as a relation that composes all of the
    above. \<open>VerifyProps\<close> shows that it returns, compares equal vectors only, and writes to the store
    for transitions only.
  \<^item> \<open>ClaimModel\<close> (\<open>internal/claim/engine.go\<close>, \<open>internal/storage/claim_audit.go\<close>): claims with their audit
    records. \<open>ClaimSafety\<close> shows that a claim needs authorisation, happens once per resource and leaves
    nothing behind.
  \<^item> \<open>ClaimAws\<close> (\<open>internal/claim/aws_s3.go\<close>, \<open>aws_route53.go\<close>): the two providers over clients that are
    parameters. \<open>ClaimAwsProps\<close> gives the clients an account, and shows that claims leave it as it was.
  \<^item> \<open>ScanInput\<close> (\<open>cmd/scan_input.go\<close>): the targets and the lists of the options. \<open>ScanInputProps\<close> shows
    that batches hold exactly the targets and that claims stay among them.
  \<^item> \<open>Notify\<close> (\<open>pkg/notify/dispatcher.go\<close>): which results become alerts, their identities and the queue.
  \<^item> \<open>ScanRun\<close>, \<open>ScanBatch\<close> (\<open>cmd/scan.go\<close>, \<open>cmd/progress.go\<close>): one host from its discovery to the store and
    the alerts as a relation that composes the above, and the batch of hosts as a step relation.
    \<open>ScanProps\<close> shows that each host is marked once, that every batch ends, what an unsafe claim stops,
    where its error is lost, and that a finding is notified once.

  \<^bold>\<open>How the code is translated.\<close> A struct is a record, an enumeration a datatype, an unsigned 16-bit
  field a word, \<open>int\<close> is \<open>int\<close> (with the wrap-around where a sum can reach it), \<open>float64\<close> a rational
  rounded after each operation. A pair of a value and an error is a sum or an option; a panic is
  \<open>None\<close>. Code that calls the network, the clock or a store is a computation over a world whose
  operations are parameters: the records \<open>dns_env\<close>, \<open>web_env\<close>, \<open>http_env\<close>, \<open>tls_env\<close>, \<open>claim_env\<close> and the field
  for the store of \<open>verify_engine\<close>. They stand for the DNS library, HTTP clients, cloud SDKs and SQL, which
  are not part of the repository; nothing is assumed of them unless a theorem says so. Regular
  expressions, JSON texts, HTML documents and digests are parameters in the same way.

  \<^bold>\<open>Concurrency.\<close> Three groups of goroutines are modelled as step relations, the independent phase of the
  registry, the tiers of the verifier engine, and the hosts of a batch. In a batch the processing of a
  host is one step, taken when it ends. In the other two a goroutine is a resumption: its atomic actions are
  requests and operations that hold the mutex of the analysis. The questions of a DNS profile are
  run in an arbitrary order. A single flight is sequential: callers that share a flight get what the
  first one computed, as they would from the cache. The cancellation of a context is a failure of the
  client.

  \<^bold>\<open>Bounds.\<close> Ten aliases in a chain, three retries of a question, one hundred thousand records of a
  transfer, one megabyte of a body, ten active collectors: the constants of the code. The walk over the
  SPF includes has fuel eleven, because the code stops at the tenth lookup; \<open>spf_walk_ends\<close> shows that
  more changes nothing. The search for a hosted zone has the number of pages as fuel: the service may
  page for ever, so a search that runs out of it is an error. A batch takes at most 256 names from
  certificates, which is why it ends. Loops of other kinds are structural.

  \<^bold>\<open>Not modelled.\<close> The rest is input, output or wiring, or rests on data and libraries that are not
  under \<open>src/\<close>: the flags of the command line and the construction of components from them; SQL
  statements (their effect on the claims and on a run is a parameter); the clients of bug bounty
  platforms, of passive sources and of the notification services;
  the discovery of subdomains, which scrapes services and asks WHOIS; rendering of
  reports, exports and Portuguese texts; decoding of the YAML configuration; the benchmark, which runs
  the scanner on synthetic cases; and the audit queries other than those of claims.
\<close>

end
